(* ===== verification/Prelude.thy ===== *)
theory Prelude
  imports Main
begin

text \<open>
  Shared vocabulary of the development.

  Time (Go's \<open>time.Time\<close> and \<open>time.Duration\<close>) is an \<open>int\<close> number of nanoseconds; a nil or
  zero \<open>time.Time\<close> is \<open>None\<close>. Go strings are byte strings, here \<open>string\<close> (a \<open>char\<close> is one
  byte), so \<open>length\<close> is Go's \<open>len\<close>. A call to the database is \<open>db_call\<close>: it runs one SQL
  statement on the tables of a \<open>world\<close> and consumes one entry of the world's fault schedule. A
  statement may be lost before it runs, or run with its reply lost afterwards (the caller sees an
  error although the tables changed); an exhausted schedule means that nothing fails any more.
  The schedule is a universally quantified part of every theorem, so a property that mentions a
  world holds for every pattern of database failures unless its statement restricts it.
\<close>

named_theorems db_simps \<open>equations that evaluate database statements\<close>

section \<open>Databases that can fail\<close>

datatype fault = Fine | LostBefore | LostReply

record 'd world =
  tables :: 'd
  faults :: "fault list"
  dbnow :: int

definition next_fault :: "'d world \<Rightarrow> fault" where
  "next_fault w = (case faults w of [] \<Rightarrow> Fine | f # _ \<Rightarrow> f)"

definition db_call :: "(int \<Rightarrow> 'd \<Rightarrow> 'a \<times> 'd) \<Rightarrow> 'd world \<Rightarrow> (unit + 'a) \<times> 'd world" where
  "db_call stmt w =
     (let w' = w\<lparr>faults := tl (faults w)\<rparr>; (a, d) = stmt (dbnow w) (tables w)
      in case next_fault w of
           Fine \<Rightarrow> (Inr a, w'\<lparr>tables := d\<rparr>)
         | LostBefore \<Rightarrow> (Inl (), w')
         | LostReply \<Rightarrow> (Inl (), w'\<lparr>tables := d\<rparr>))"

text \<open>A world whose schedule is exhausted: every statement runs and is answered.\<close>

definition faultless :: "'d world \<Rightarrow> bool" where
  "faultless w \<longleftrightarrow> (\<forall>f \<in> set (faults w). f = Fine)"

lemma faultless_empty [simp]: "faults w = [] \<Longrightarrow> faultless w"
  by (simp add: faultless_def)

lemma faultless_next: "faultless w \<Longrightarrow> next_fault w = Fine"
  by (cases "faults w") (simp_all add: faultless_def next_fault_def)

lemma set_tl_subset: "set (tl xs) \<subseteq> set xs"
  by (cases xs) auto

lemma db_call_fine:
  assumes "faultless w"
  shows "db_call stmt w = (Inr (fst (stmt (dbnow w) (tables w))),
           w\<lparr>faults := tl (faults w), tables := snd (stmt (dbnow w) (tables w))\<rparr>)"
  using faultless_next [OF assms] by (simp add: db_call_def Let_def split: prod.splits)

lemma faultless_tl [simp]: "faultless w \<Longrightarrow> faultless (w\<lparr>faults := tl (faults w)\<rparr>)"
  using set_tl_subset [of "faults w"] by (auto simp: faultless_def)

lemma faultless_tables [simp]: "faultless (w\<lparr>tables := d\<rparr>) = faultless w"
  by (simp add: faultless_def)

lemma faultless_dbnow [simp]: "faultless (w\<lparr>dbnow := t\<rparr>) = faultless w"
  by (simp add: faultless_def)

lemma db_call_dbnow [simp]: "dbnow (snd (db_call stmt w)) = dbnow w"
  by (simp add: db_call_def Let_def split: prod.splits fault.splits)

text \<open>
  The two outcomes of a statement: an answer means that it ran; an error means that it either ran
  or did not. These are the only facts about failures the safety proofs use.
\<close>

lemma db_call_Inr:
  "db_call stmt w = (Inr a, w') \<Longrightarrow>
     stmt (dbnow w) (tables w) = (a, tables w') \<and> dbnow w' = dbnow w"
  by (auto simp: db_call_def Let_def split: prod.splits fault.splits)

lemma db_call_Inl:
  "db_call stmt w = (Inl e, w') \<Longrightarrow>
     (tables w' = tables w \<or> tables w' = snd (stmt (dbnow w) (tables w))) \<and> dbnow w' = dbnow w"
  by (auto simp: db_call_def Let_def split: prod.splits fault.splits)

lemma db_call_tables:
  "tables (snd (db_call stmt w)) = tables w \<or>
   tables (snd (db_call stmt w)) = snd (stmt (dbnow w) (tables w))"
  by (auto simp: db_call_def Let_def split: prod.splits fault.splits)

section \<open>Go strings\<close>

text \<open>
  \<open>strings.TrimSpace\<close> removes the runes of \<open>unicode.IsSpace\<close> at both ends. On bytes these are the
  ASCII blanks and the UTF-8 encodings of the other white space of the Unicode tables.
\<close>

definition space_encodings :: "string list" where
  "space_encodings =
     [[CHR 0x09], [CHR 0x0A], [CHR 0x0B], [CHR 0x0C], [CHR 0x0D], [CHR 0x20],
      [CHR 0xC2, CHR 0x85], [CHR 0xC2, CHR 0xA0], [CHR 0xE1, CHR 0x9A, CHR 0x80],
      [CHR 0xE2, CHR 0x80, CHR 0x80], [CHR 0xE2, CHR 0x80, CHR 0x81], [CHR 0xE2, CHR 0x80, CHR 0x82],
      [CHR 0xE2, CHR 0x80, CHR 0x83], [CHR 0xE2, CHR 0x80, CHR 0x84], [CHR 0xE2, CHR 0x80, CHR 0x85],
      [CHR 0xE2, CHR 0x80, CHR 0x86], [CHR 0xE2, CHR 0x80, CHR 0x87], [CHR 0xE2, CHR 0x80, CHR 0x88],
      [CHR 0xE2, CHR 0x80, CHR 0x89], [CHR 0xE2, CHR 0x80, CHR 0x8A], [CHR 0xE2, CHR 0x80, CHR 0xA8],
      [CHR 0xE2, CHR 0x80, CHR 0xA9], [CHR 0xE2, CHR 0x80, CHR 0xAF], [CHR 0xE2, CHR 0x81, CHR 0x9F],
      [CHR 0xE3, CHR 0x80, CHR 0x80]]"

fun strip_prefix :: "string \<Rightarrow> string \<Rightarrow> string option" where
  "strip_prefix [] s = Some s"
| "strip_prefix (c # cs) [] = None"
| "strip_prefix (c # cs) (d # ds) = (if c = d then strip_prefix cs ds else None)"

fun strip_any :: "string list \<Rightarrow> string \<Rightarrow> string option" where
  "strip_any [] s = None"
| "strip_any (p # ps) s = (case strip_prefix p s of Some r \<Rightarrow> Some r | None \<Rightarrow> strip_any ps s)"

lemma strip_prefix_append: "strip_prefix p s = Some r \<longleftrightarrow> s = p @ r"
  by (induction p s rule: strip_prefix.induct) auto

lemma strip_any_Some: "strip_any ps s = Some r \<Longrightarrow> \<exists>p \<in> set ps. s = p @ r"
  by (induction ps) (auto simp: strip_prefix_append split: option.splits)

lemma strip_any_shorter: "[] \<notin> set ps \<Longrightarrow> strip_any ps s = Some r \<Longrightarrow> length r < length s"
  using strip_any_Some [of ps s r] by auto

function trim_with :: "string list \<Rightarrow> string \<Rightarrow> string" where
  "trim_with ps s =
     (if [] \<in> set ps then s
      else case strip_any ps s of None \<Rightarrow> s | Some r \<Rightarrow> trim_with ps r)"
  by pat_completeness auto
termination
  by (relation "measure (\<lambda>(ps, s). length s)") (auto dest: strip_any_shorter)

declare trim_with.simps [simp del]

definition trim_left :: "string \<Rightarrow> string" where
  "trim_left s = trim_with space_encodings s"

definition trim_right :: "string \<Rightarrow> string" where
  "trim_right s = rev (trim_with (map rev space_encodings) (rev s))"

definition TrimSpace :: "string \<Rightarrow> string" where
  "TrimSpace s = trim_right (trim_left s)"

lemma trim_with_suffix: "\<exists>p. s = p @ trim_with ps s"
proof (induction ps s rule: trim_with.induct)
  case (1 ps s)
  show ?case
  proof (cases "[] \<in> set ps \<or> strip_any ps s = None")
    case True
    then show ?thesis by (auto simp: trim_with.simps [of ps s])
  next
    case False
    then obtain r where r: "strip_any ps s = Some r" "[] \<notin> set ps" by auto
    then have eq: "trim_with ps s = trim_with ps r" by (simp add: trim_with.simps [of ps s])
    from "1.IH" r obtain p where "r = p @ trim_with ps r" by blast
    moreover from strip_any_Some [OF r(1)] obtain q where "s = q @ r" by blast
    ultimately have "s = (q @ p) @ trim_with ps s" unfolding eq by simp
    then show ?thesis by blast
  qed
qed

text \<open>Trimming removes bytes of blanks only.\<close>

lemma trim_with_keeps:
  "c \<in> set s \<Longrightarrow> \<forall>p \<in> set ps. c \<notin> set p \<Longrightarrow> c \<in> set (trim_with ps s)"
proof (induction ps s rule: trim_with.induct)
  case (1 ps s)
  show ?case
  proof (cases "[] \<in> set ps \<or> strip_any ps s = None")
    case True
    with "1.prems" show ?thesis by (auto simp: trim_with.simps [of ps s])
  next
    case False
    then obtain r where r: "strip_any ps s = Some r" "[] \<notin> set ps" by auto
    from strip_any_Some [OF r(1)] obtain p where "p \<in> set ps" "s = p @ r" by blast
    with "1.prems" have "c \<in> set r" by auto
    with "1.IH" r "1.prems" show ?thesis by (auto simp: trim_with.simps [of ps s])
  qed
qed

lemma TrimSpace_keeps:
  assumes "c \<in> set s" and "\<forall>p \<in> set space_encodings. c \<notin> set p"
  shows "c \<in> set (TrimSpace s)"
proof -
  have "c \<in> set (trim_left s)" unfolding trim_left_def by (rule trim_with_keeps) (use assms in auto)
  then have "c \<in> set (trim_with (map rev space_encodings) (rev (trim_left s)))"
    by (intro trim_with_keeps) (use assms in auto)
  then show ?thesis by (simp add: TrimSpace_def trim_right_def)
qed

lemma length_trim_with: "length (trim_with ps s) \<le> length s"
  using trim_with_suffix [of s ps] by (metis le_add2 length_append)

lemma length_TrimSpace: "length (TrimSpace s) \<le> length s"
proof -
  have "length (TrimSpace s) \<le> length (trim_left s)"
    using length_trim_with [of "map rev space_encodings" "rev (trim_left s)"]
    by (simp add: TrimSpace_def trim_right_def)
  also have "\<dots> \<le> length s"
    by (simp add: trim_left_def length_trim_with)
  finally show ?thesis .
qed

lemma set_TrimSpace: "set (TrimSpace s) \<subseteq> set s"
proof -
  have sub: "set (trim_with ps s) \<subseteq> set s" for ps s
    using trim_with_suffix [of s ps] by (metis set_append Un_upper2)
  have "set (TrimSpace s) \<subseteq> set (trim_left s)"
    using sub [of "map rev space_encodings" "rev (trim_left s)"]
    by (simp add: TrimSpace_def trim_right_def)
  also have "\<dots> \<subseteq> set s" by (simp add: trim_left_def sub)
  finally show ?thesis .
qed

lemma TrimSpace_Nil [simp]: "TrimSpace [] = []"
  using length_TrimSpace [of "[]"] by simp

text \<open>A string with no byte that begins or ends a blank is its own trimming.\<close>

lemma strip_any_None: "\<forall>p \<in> set ps. strip_prefix p s = None \<Longrightarrow> strip_any ps s = None"
  by (induction ps) auto

lemma strip_prefix_head: "p \<noteq> [] \<Longrightarrow> s = [] \<or> hd s \<noteq> hd p \<Longrightarrow> strip_prefix p s = None"
  by (cases p; cases s) auto

definition blank_heads :: "char set" where
  "blank_heads = hd ` set space_encodings \<union> last ` set space_encodings"

lemma trim_with_id:
  assumes "\<forall>p \<in> set ps. p \<noteq> [] \<and> (s = [] \<or> hd s \<noteq> hd p)"
  shows "trim_with ps s = s"
proof -
  have "strip_any ps s = None"
    by (rule strip_any_None, intro ballI strip_prefix_head) (use assms in auto)
  then show ?thesis by (simp add: trim_with.simps [of ps s])
qed

lemma TrimSpace_id:
  assumes "set s \<inter> blank_heads = {}"
  shows "TrimSpace s = s"
proof (cases "s = []")
  case False
  have ne: "p \<noteq> []" if "p \<in> set space_encodings" for p
    using that by (auto simp: space_encodings_def)
  have "hd s \<in> set s" "last s \<in> set s" using False by simp_all
  with assms have h: "hd s \<notin> blank_heads" "last s \<notin> blank_heads" by blast+
  have l: "hd s \<noteq> hd p \<and> last s \<noteq> last p" if "p \<in> set space_encodings" for p
    using that h unfolding blank_heads_def by (metis UnCI imageI)
  have "trim_left s = s"
    unfolding trim_left_def by (rule trim_with_id) (blast dest: ne l)
  moreover have "trim_with (map rev space_encodings) (rev s) = rev s"
    by (rule trim_with_id) (use False in \<open>auto simp: hd_rev dest: ne l\<close>)
  ultimately show ?thesis by (simp add: TrimSpace_def trim_right_def)
qed simp

text \<open>\<open>strings.ToUpper\<close> and \<open>strings.EqualFold\<close> on ASCII letters; other bytes are left alone.\<close>

definition ToUpper_char :: "char \<Rightarrow> char" where
  "ToUpper_char c = (let n = of_char c :: nat in
     if 97 \<le> n \<and> n \<le> 122 then char_of (n - 32) else c)"

definition ToUpper :: "string \<Rightarrow> string" where
  "ToUpper s = map ToUpper_char s"

definition EqualFold :: "string \<Rightarrow> string \<Rightarrow> bool" where
  "EqualFold a b \<longleftrightarrow> ToUpper a = ToUpper b"

definition has_prefix :: "string \<Rightarrow> string \<Rightarrow> bool" where
  "has_prefix s p \<longleftrightarrow> take (length p) s = p"

lemma EqualFold_refl [simp]: "EqualFold a a"
  by (simp add: EqualFold_def)

lemma EqualFold_sym: "EqualFold a b \<Longrightarrow> EqualFold b a"
  by (simp add: EqualFold_def)

section \<open>UTF-8\<close>

text \<open>\<open>utf8.ValidString\<close>: the byte ranges that \<open>unicode/utf8\<close> accepts.\<close>

abbreviation byte :: "char \<Rightarrow> nat" where
  "byte c \<equiv> of_char c"

definition cont_byte :: "char \<Rightarrow> bool" where
  "cont_byte c \<longleftrightarrow> 128 \<le> byte c \<and> byte c \<le> 191"

definition second_ok :: "char \<Rightarrow> char \<Rightarrow> bool" where
  "second_ok a b \<longleftrightarrow>
     (if byte a = 224 then 160 \<le> byte b \<and> byte b \<le> 191
      else if byte a = 237 then 128 \<le> byte b \<and> byte b \<le> 159
      else if byte a = 240 then 144 \<le> byte b \<and> byte b \<le> 191
      else if byte a = 244 then 128 \<le> byte b \<and> byte b \<le> 143
      else cont_byte b)"

definition rune_len :: "string \<Rightarrow> nat option" where
  "rune_len s =
     (case s of
        [] \<Rightarrow> None
      | a # r1 \<Rightarrow>
          if byte a < 128 then Some 1
          else (case r1 of [] \<Rightarrow> None | b # r2 \<Rightarrow>
            if 194 \<le> byte a \<and> byte a \<le> 223 then (if cont_byte b then Some 2 else None)
            else (case r2 of [] \<Rightarrow> None | c # r3 \<Rightarrow>
              if 224 \<le> byte a \<and> byte a \<le> 239
              then (if second_ok a b \<and> cont_byte c then Some 3 else None)
              else (case r3 of [] \<Rightarrow> None | d # _ \<Rightarrow>
                if 240 \<le> byte a \<and> byte a \<le> 244 \<and> second_ok a b \<and> cont_byte c \<and> cont_byte d
                then Some 4 else None))))"

lemma rune_len_bounds: "rune_len s = Some n \<Longrightarrow> 1 \<le> n \<and> n \<le> 4 \<and> n \<le> length s"
  by (auto simp: rune_len_def split: list.splits if_splits)

function ValidString :: "string \<Rightarrow> bool" where
  "ValidString s =
     (if s = [] then True
      else case rune_len s of None \<Rightarrow> False | Some n \<Rightarrow> ValidString (drop n s))"
  by pat_completeness auto
termination
  by (relation "measure length") (auto dest!: rune_len_bounds)

declare ValidString.simps [simp del]

lemma ValidString_Nil [simp]: "ValidString []"
  by (simp add: ValidString.simps)

section \<open>Integers of Go\<close>

text \<open>Go's integer division truncates towards zero.\<close>

definition tdiv :: "int \<Rightarrow> int \<Rightarrow> int" where
  "tdiv a b = sgn a * sgn b * (\<bar>a\<bar> div \<bar>b\<bar>)"

lemma tdiv_nonneg: "0 \<le> a \<Longrightarrow> 0 < b \<Longrightarrow> tdiv a b = a div b"
  by (cases "a = 0") (simp_all add: tdiv_def)

abbreviation Microsecond :: int where "Microsecond \<equiv> 1000"
abbreviation Millisecond :: int where "Millisecond \<equiv> 1000000"
abbreviation Second :: int where "Second \<equiv> 1000000000"
abbreviation Minute :: int where "Minute \<equiv> 60000000000"
abbreviation Hour :: int where "Hour \<equiv> 3600000000000"

text \<open>
  \<open>strconv.Atoi\<close> and \<open>strconv.ParseInt\<close> in base 10 for 64 bits: an optional sign, at least one
  digit, nothing else, and a value in range; \<open>None\<close> is the error.
\<close>

definition is_digit :: "char \<Rightarrow> bool" where
  "is_digit c \<longleftrightarrow> 48 \<le> byte c \<and> byte c \<le> 57"

fun parse_digits :: "int \<Rightarrow> string \<Rightarrow> int option" where
  "parse_digits acc [] = Some acc"
| "parse_digits acc (c # cs) =
     (if is_digit c then parse_digits (acc * 10 + (int (byte c) - 48)) cs else None)"

definition parse_unsigned :: "string \<Rightarrow> int option" where
  "parse_unsigned s = (if s = [] then None else parse_digits 0 s)"

definition ParseInt :: "string \<Rightarrow> int option" where
  "ParseInt s =
     (let v = (case s of
                 [] \<Rightarrow> None
               | c # r \<Rightarrow> if c = CHR ''-'' then map_option uminus (parse_unsigned r)
                          else if c = CHR ''+'' then parse_unsigned r
                          else parse_unsigned s)
      in case v of
           None \<Rightarrow> None
         | Some n \<Rightarrow> if - (2 ^ 63) \<le> n \<and> n < 2 ^ 63 then Some n else None)"

abbreviation Atoi :: "string \<Rightarrow> int option" where "Atoi \<equiv> ParseInt"

text \<open>\<open>strconv.Itoa\<close> and \<open>%d\<close>.\<close>

fun show_nat :: "nat \<Rightarrow> string" where
  "show_nat n = (if n < 10 then [char_of (48 + n)] else show_nat (n div 10) @ [char_of (48 + n mod 10)])"

declare show_nat.simps [simp del]

definition Itoa :: "int \<Rightarrow> string" where
  "Itoa n = (if n < 0 then CHR ''-'' # show_nat (nat (- n)) else show_nat (nat n))"

lemma parse_digits_append:
  "parse_digits a (xs @ ys) = (case parse_digits a xs of None \<Rightarrow> None | Some b \<Rightarrow> parse_digits b ys)"
  by (induction xs arbitrary: a) auto

lemma byte_digit [simp]: "d < 10 \<Longrightarrow> byte (char_of (48 + d)) = 48 + d"
  by (simp add: of_char_of)

lemma show_nat_not_Nil: "show_nat n \<noteq> []"
  by (subst show_nat.simps) simp

lemma is_digit_show: "d < 10 \<Longrightarrow> is_digit (char_of (48 + d :: nat))"
  by (simp add: is_digit_def)

lemma parse_show_nat: "parse_digits 0 (show_nat n) = Some (int n)"
proof (induction n rule: show_nat.induct)
  case (1 n)
  show ?case
  proof (cases "n < 10")
    case True
    then show ?thesis by (subst show_nat.simps) (simp add: is_digit_show)
  next
    case False
    with 1 have "parse_digits 0 (show_nat (n div 10)) = Some (int (n div 10))" by simp
    moreover have "int (n div 10) * 10 + int (n mod 10) = int n"
      by (metis div_mult_mod_eq of_nat_add of_nat_mult of_nat_numeral)
    ultimately show ?thesis using False
      by (subst show_nat.simps) (simp add: parse_digits_append is_digit_show)
  qed
qed

lemma show_nat_digits: "c \<in> set (show_nat n) \<Longrightarrow> is_digit c"
proof (induction n rule: show_nat.induct)
  case (1 n)
  then show ?case
    by (cases "n < 10") (auto simp: show_nat.simps [of n] is_digit_show)
qed

lemma ParseInt_Itoa:
  assumes "- (2 ^ 63) \<le> n" and "n < 2 ^ 63"
  shows "ParseInt (Itoa n) = Some n"
proof (cases "n < 0")
  case True
  then show ?thesis
    using assms show_nat_not_Nil [of "nat (- n)"]
    by (simp add: ParseInt_def Itoa_def parse_unsigned_def parse_show_nat)
next
  case False
  obtain c r where c: "show_nat (nat n) = c # r" using show_nat_not_Nil by (metis list.exhaust)
  then have "is_digit c" using show_nat_digits [of c "nat n"] by simp
  then have "c \<noteq> CHR ''-''" "c \<noteq> CHR ''+''" by (auto simp: is_digit_def)
  with c False assms show ?thesis
    using parse_show_nat [of "nat n"] by (simp add: ParseInt_def Itoa_def parse_unsigned_def)
qed

section \<open>Lists as tables\<close>

text \<open>
  A table is the list of its rows in order of insertion. \<open>update_where\<close> is an SQL
  \<open>UPDATE \<dots> WHERE\<close>: it rewrites the rows that satisfy the condition and counts them.
\<close>

definition update_where :: "('r \<Rightarrow> bool) \<Rightarrow> ('r \<Rightarrow> 'r) \<Rightarrow> 'r list \<Rightarrow> nat \<times> 'r list" where
  "update_where p f rs = (length (filter p rs), map (\<lambda>r. if p r then f r else r) rs)"

lemma update_where_count: "fst (update_where p f rs) = 0 \<longleftrightarrow> (\<forall>r \<in> set rs. \<not> p r)"
  by (auto simp: update_where_def filter_empty_conv)

lemma update_where_none: "\<forall>r \<in> set rs. \<not> p r \<Longrightarrow> update_where p f rs = (0, rs)"
  by (auto simp: update_where_def filter_empty_conv map_idI)

lemma snd_update_where: "snd (update_where p f rs) = map (\<lambda>r. if p r then f r else r) rs"
  by (simp add: update_where_def)

lemma length_update_where [simp]: "length (snd (update_where p f rs)) = length rs"
  by (simp add: update_where_def)

lemma find_map_same:
  assumes "\<And>r. q (g r) = q r"
  shows "find q (map g rs) = map_option g (find q rs)"
  using assms by (induction rs) auto

lemma find_append: "find q (xs @ ys) = (case find q xs of None \<Rightarrow> find q ys | Some x \<Rightarrow> Some x)"
  by (induction xs) auto

lemma find_None: "find q xs = None \<longleftrightarrow> (\<forall>x \<in> set xs. \<not> q x)"
  by (induction xs) auto

lemma find_Some_in: "find q xs = Some x \<Longrightarrow> x \<in> set xs \<and> q x"
  by (induction xs) (auto split: if_splits)

end
