(* ===== verification/Idempotency_Store.thy ===== *)
theory Idempotency_Store
  imports Prelude
begin

text \<open>
  The table \<open>idempotency_records\<close> and the repository over it
  (\<open>repository/idempotency_repo.go\<close>). Each statement of the Go repository is a function on the
  table; the repository operations wrap it in \<open>db_call\<close>, so that each of them can fail. The Go
  interface \<open>IdempotencyRepository\<close> is the record \<open>idem_repo\<close> of its methods, and the laws that
  its clients rely on are the locale \<open>idem_store\<close>, interpreted here on the PostgreSQL repository.
\<close>

section \<open>The table\<close>

datatype idem_status = Processing | Succeeded | FailedRetryable | OtherStatus string

record idem_row =
  row_id :: int
  row_scope :: string
  row_key_hash :: string
  row_fingerprint :: string
  row_status :: idem_status
  row_response_status :: "int option"
  row_response_body :: "string option"
  row_error_reason :: "string option"
  row_locked_until :: "int option"
  row_expires_at :: int
  row_created_at :: int
  row_updated_at :: int

text \<open>
  The table and the sequence of its \<open>BIGSERIAL\<close> key. As in PostgreSQL, an insert that meets the
  unique index on (scope, key hash) draws a number from the sequence although it adds no row.
\<close>

record idem_db =
  idem_rows :: "idem_row list"
  idem_seq :: int

definition has_key :: "string \<Rightarrow> string \<Rightarrow> idem_row \<Rightarrow> bool" where
  "has_key sc kh r \<longleftrightarrow> row_scope r = sc \<and> row_key_hash r = kh"

section \<open>The statements\<close>

definition insert_processing :: "idem_row \<Rightarrow> int \<Rightarrow> idem_db \<Rightarrow> idem_row option \<times> idem_db" where
  "insert_processing rec t d =
     (let d' = d\<lparr>idem_seq := idem_seq d + 1\<rparr> in
      case find (has_key (row_scope rec) (row_key_hash rec)) (idem_rows d) of
        Some _ \<Rightarrow> (None, d')
      | None \<Rightarrow>
          let r = \<lparr>row_id = idem_seq d, row_scope = row_scope rec,
                   row_key_hash = row_key_hash rec, row_fingerprint = row_fingerprint rec,
                   row_status = row_status rec, row_response_status = None,
                   row_response_body = None, row_error_reason = None,
                   row_locked_until = row_locked_until rec, row_expires_at = row_expires_at rec,
                   row_created_at = t, row_updated_at = t\<rparr>
          in (Some r, d'\<lparr>idem_rows := idem_rows d @ [r]\<rparr>))"

definition select_by_key :: "string \<Rightarrow> string \<Rightarrow> int \<Rightarrow> idem_db \<Rightarrow> idem_row option \<times> idem_db" where
  "select_by_key sc kh t d = (find (has_key sc kh) (idem_rows d), d)"

definition update_rows ::
  "(idem_row \<Rightarrow> bool) \<Rightarrow> (idem_row \<Rightarrow> idem_row) \<Rightarrow> idem_db \<Rightarrow> nat \<times> idem_db" where
  "update_rows p f d =
     (let (n, rs) = update_where p f (idem_rows d) in (n, d\<lparr>idem_rows := rs\<rparr>))"

definition update_reclaim ::
  "int \<Rightarrow> idem_status \<Rightarrow> int \<Rightarrow> int \<Rightarrow> int \<Rightarrow> int \<Rightarrow> idem_db \<Rightarrow> nat \<times> idem_db" where
  "update_reclaim i from now newLocked newExpires t =
     update_rows
       (\<lambda>r. row_id r = i \<and> row_status r = from \<and>
            (case row_locked_until r of None \<Rightarrow> True | Some l \<Rightarrow> l \<le> now))
       (\<lambda>r. r\<lparr>row_status := Processing, row_locked_until := Some newLocked,
              row_error_reason := None, row_updated_at := t, row_expires_at := newExpires\<rparr>)"

definition update_extend :: "int \<Rightarrow> string \<Rightarrow> int \<Rightarrow> int \<Rightarrow> int \<Rightarrow> idem_db \<Rightarrow> nat \<times> idem_db" where
  "update_extend i fp newLocked newExpires t =
     update_rows
       (\<lambda>r. row_id r = i \<and> row_status r = Processing \<and> row_fingerprint r = fp)
       (\<lambda>r. r\<lparr>row_locked_until := Some newLocked, row_expires_at := newExpires,
              row_updated_at := t\<rparr>)"

definition update_succeeded :: "int \<Rightarrow> int \<Rightarrow> string \<Rightarrow> int \<Rightarrow> int \<Rightarrow> idem_db \<Rightarrow> nat \<times> idem_db" where
  "update_succeeded i code body expires t =
     update_rows (\<lambda>r. row_id r = i)
       (\<lambda>r. r\<lparr>row_status := Succeeded, row_response_status := Some code,
              row_response_body := Some body, row_error_reason := None,
              row_locked_until := None, row_expires_at := expires, row_updated_at := t\<rparr>)"

definition update_failed :: "int \<Rightarrow> string \<Rightarrow> int \<Rightarrow> int \<Rightarrow> int \<Rightarrow> idem_db \<Rightarrow> nat \<times> idem_db" where
  "update_failed i reason locked expires t =
     update_rows (\<lambda>r. row_id r = i)
       (\<lambda>r. r\<lparr>row_status := FailedRetryable, row_error_reason := Some reason,
              row_locked_until := Some locked, row_expires_at := expires, row_updated_at := t\<rparr>)"

definition expired_victims :: "int \<Rightarrow> nat \<Rightarrow> idem_row list \<Rightarrow> int list" where
  "expired_victims now limit rs =
     map row_id (take limit (sort_key row_expires_at (filter (\<lambda>r. row_expires_at r \<le> now) rs)))"

definition delete_expired :: "int \<Rightarrow> nat \<Rightarrow> int \<Rightarrow> idem_db \<Rightarrow> nat \<times> idem_db" where
  "delete_expired now limit t d =
     (let vs = expired_victims now limit (idem_rows d);
          gone = filter (\<lambda>r. row_id r \<in> set vs) (idem_rows d)
      in (length gone, d\<lparr>idem_rows := filter (\<lambda>r. row_id r \<notin> set vs) (idem_rows d)\<rparr>))"

section \<open>The repository\<close>

record 's idem_repo =
  CreateProcessing :: "idem_row \<Rightarrow> 's \<Rightarrow> (unit + bool \<times> idem_row) \<times> 's"
  GetByScopeAndKeyHash :: "string \<Rightarrow> string \<Rightarrow> 's \<Rightarrow> (unit + idem_row option) \<times> 's"
  TryReclaim :: "int \<Rightarrow> idem_status \<Rightarrow> int \<Rightarrow> int \<Rightarrow> int \<Rightarrow> 's \<Rightarrow> (unit + bool) \<times> 's"
  ExtendProcessingLock :: "int \<Rightarrow> string \<Rightarrow> int \<Rightarrow> int \<Rightarrow> 's \<Rightarrow> (unit + bool) \<times> 's"
  MarkSucceeded :: "int \<Rightarrow> int \<Rightarrow> string \<Rightarrow> int \<Rightarrow> 's \<Rightarrow> (unit + unit) \<times> 's"
  MarkFailedRetryable :: "int \<Rightarrow> string \<Rightarrow> int \<Rightarrow> int \<Rightarrow> 's \<Rightarrow> (unit + unit) \<times> 's"
  DeleteExpired :: "int \<Rightarrow> int \<Rightarrow> 's \<Rightarrow> (unit + int) \<times> 's"

text \<open>
  \<open>CreateProcessing\<close> fills in the identifier and the two timestamps of the record it was given when
  the insert returned a row; the record is never nil in its callers.
\<close>

definition pg_CreateProcessing ::
  "idem_row \<Rightarrow> idem_db world \<Rightarrow> (unit + bool \<times> idem_row) \<times> idem_db world" where
  "pg_CreateProcessing rec w =
     (case db_call (insert_processing rec) w of
        (Inl e, w') \<Rightarrow> (Inl e, w')
      | (Inr None, w') \<Rightarrow> (Inr (False, rec), w')
      | (Inr (Some r), w') \<Rightarrow>
          (Inr (True, rec\<lparr>row_id := row_id r, row_created_at := row_created_at r,
                          row_updated_at := row_updated_at r\<rparr>), w'))"

definition pg_GetByScopeAndKeyHash ::
  "string \<Rightarrow> string \<Rightarrow> idem_db world \<Rightarrow> (unit + idem_row option) \<times> idem_db world" where
  "pg_GetByScopeAndKeyHash sc kh w = db_call (select_by_key sc kh) w"

definition affected :: "(unit + nat) \<times> 'w \<Rightarrow> (unit + bool) \<times> 'w" where
  "affected r = (case r of (Inl e, w') \<Rightarrow> (Inl e, w') | (Inr n, w') \<Rightarrow> (Inr (n > 0), w'))"

definition pg_TryReclaim ::
  "int \<Rightarrow> idem_status \<Rightarrow> int \<Rightarrow> int \<Rightarrow> int \<Rightarrow> idem_db world \<Rightarrow> (unit + bool) \<times> idem_db world" where
  "pg_TryReclaim i from now newLocked newExpires w =
     affected (db_call (update_reclaim i from now newLocked newExpires) w)"

definition pg_ExtendProcessingLock ::
  "int \<Rightarrow> string \<Rightarrow> int \<Rightarrow> int \<Rightarrow> idem_db world \<Rightarrow> (unit + bool) \<times> idem_db world" where
  "pg_ExtendProcessingLock i fp newLocked newExpires w =
     affected (db_call (update_extend i fp newLocked newExpires) w)"

definition exec_only :: "(unit + nat) \<times> 'w \<Rightarrow> (unit + unit) \<times> 'w" where
  "exec_only r = (case r of (Inl e, w') \<Rightarrow> (Inl e, w') | (Inr n, w') \<Rightarrow> (Inr (), w'))"

definition pg_MarkSucceeded ::
  "int \<Rightarrow> int \<Rightarrow> string \<Rightarrow> int \<Rightarrow> idem_db world \<Rightarrow> (unit + unit) \<times> idem_db world" where
  "pg_MarkSucceeded i code body expires w =
     exec_only (db_call (update_succeeded i code body expires) w)"

definition pg_MarkFailedRetryable ::
  "int \<Rightarrow> string \<Rightarrow> int \<Rightarrow> int \<Rightarrow> idem_db world \<Rightarrow> (unit + unit) \<times> idem_db world" where
  "pg_MarkFailedRetryable i reason locked expires w =
     exec_only (db_call (update_failed i reason locked expires) w)"

definition pg_DeleteExpired :: "int \<Rightarrow> int \<Rightarrow> idem_db world \<Rightarrow> (unit + int) \<times> idem_db world" where
  "pg_DeleteExpired now limit w =
     (let limit' = (if limit \<le> 0 then 500 else limit) in
      case db_call (delete_expired now (nat limit')) w of
        (Inl e, w') \<Rightarrow> (Inl e, w')
      | (Inr n, w') \<Rightarrow> (Inr (int n), w'))"

definition pg_repo :: "(idem_db world) idem_repo" where
  "pg_repo = \<lparr>CreateProcessing = pg_CreateProcessing,
              GetByScopeAndKeyHash = pg_GetByScopeAndKeyHash,
              TryReclaim = pg_TryReclaim,
              ExtendProcessingLock = pg_ExtendProcessingLock,
              MarkSucceeded = pg_MarkSucceeded,
              MarkFailedRetryable = pg_MarkFailedRetryable,
              DeleteExpired = pg_DeleteExpired\<rparr>"

lemma pg_repo_simps [simp]:
  "CreateProcessing pg_repo = pg_CreateProcessing"
  "GetByScopeAndKeyHash pg_repo = pg_GetByScopeAndKeyHash"
  "TryReclaim pg_repo = pg_TryReclaim"
  "ExtendProcessingLock pg_repo = pg_ExtendProcessingLock"
  "MarkSucceeded pg_repo = pg_MarkSucceeded"
  "MarkFailedRetryable pg_repo = pg_MarkFailedRetryable"
  "DeleteExpired pg_repo = pg_DeleteExpired"
  by (simp_all add: pg_repo_def)

text \<open>\<open>IdempotencyCleanupService.cleanupOnce\<close>: one sweep at the current time; errors are logged.\<close>

definition cleanupOnce :: "'s idem_repo \<Rightarrow> int \<Rightarrow> int \<Rightarrow> 's \<Rightarrow> 's" where
  "cleanupOnce repo batch now s = snd (DeleteExpired repo now batch s)"

section \<open>The contract of the repository\<close>

text \<open>
  Abstractly the store is a map from (scope, key hash) to the row of that key. The ideal effect of
  the statements on that map, which \<open>idem_store\<close> promises up to lost statements and replies: an
  operation that answers has had its ideal effect, one that fails has had it or has had none.
\<close>

type_synonym idem_view = "string \<times> string \<rightharpoonup> idem_row"

definition row_key :: "idem_row \<Rightarrow> string \<times> string" where
  "row_key r = (row_scope r, row_key_hash r)"

definition new_row :: "idem_row \<Rightarrow> int \<Rightarrow> int \<Rightarrow> idem_row" where
  "new_row rec i t = rec\<lparr>row_id := i, row_response_status := None, row_response_body := None,
     row_error_reason := None, row_created_at := t, row_updated_at := t\<rparr>"

definition upd_id :: "int \<Rightarrow> (idem_row \<Rightarrow> bool) \<Rightarrow> (idem_row \<Rightarrow> idem_row) \<Rightarrow> idem_view \<Rightarrow> idem_view" where
  "upd_id i p f m = (\<lambda>k. map_option (\<lambda>r. if row_id r = i \<and> p r then f r else r) (m k))"

definition hit_id :: "int \<Rightarrow> (idem_row \<Rightarrow> bool) \<Rightarrow> idem_view \<Rightarrow> bool" where
  "hit_id i p m \<longleftrightarrow> (\<exists>k r. m k = Some r \<and> row_id r = i \<and> p r)"

definition reclaimable :: "idem_status \<Rightarrow> int \<Rightarrow> idem_row \<Rightarrow> bool" where
  "reclaimable from now r \<longleftrightarrow>
     row_status r = from \<and> (case row_locked_until r of None \<Rightarrow> True | Some l \<Rightarrow> l \<le> now)"

definition reclaim_row :: "int \<Rightarrow> int \<Rightarrow> int \<Rightarrow> idem_row \<Rightarrow> idem_row" where
  "reclaim_row newLocked newExpires t r =
     r\<lparr>row_status := Processing, row_locked_until := Some newLocked,
       row_error_reason := None, row_updated_at := t, row_expires_at := newExpires\<rparr>"

definition succeed_row :: "int \<Rightarrow> string \<Rightarrow> int \<Rightarrow> int \<Rightarrow> idem_row \<Rightarrow> idem_row" where
  "succeed_row code body expires t r =
     r\<lparr>row_status := Succeeded, row_response_status := Some code,
       row_response_body := Some body, row_error_reason := None,
       row_locked_until := None, row_expires_at := expires, row_updated_at := t\<rparr>"

definition fail_row :: "string \<Rightarrow> int \<Rightarrow> int \<Rightarrow> int \<Rightarrow> idem_row \<Rightarrow> idem_row" where
  "fail_row reason locked expires t r =
     r\<lparr>row_status := FailedRetryable, row_error_reason := Some reason,
       row_locked_until := Some locked, row_expires_at := expires, row_updated_at := t\<rparr>"

definition view_ok :: "idem_view \<Rightarrow> bool" where
  "view_ok m \<longleftrightarrow>
     (\<forall>k r. m k = Some r \<longrightarrow> row_key r = k \<and> row_id r > 0) \<and>
     (\<forall>k k' r r'. m k = Some r \<longrightarrow> m k' = Some r' \<longrightarrow> row_id r = row_id r' \<longrightarrow> k = k')"

locale idem_store =
  fixes repo :: "'s idem_repo"
    and view :: "'s \<Rightarrow> idem_view"
    and clk :: "'s \<Rightarrow> int"
    and inv :: "'s \<Rightarrow> bool"
    and up :: "'s \<Rightarrow> bool"
  assumes view_ok: "inv s \<Longrightarrow> view_ok (view s)"
    and create_inv: "inv s \<Longrightarrow> inv (snd (CreateProcessing repo rec s))"
    and create_view: "inv s \<Longrightarrow>
      view (snd (CreateProcessing repo rec s)) = view s \<or>
      view s (row_key rec) = None \<and>
      (\<exists>i. view (snd (CreateProcessing repo rec s)) =
             (view s)(row_key rec \<mapsto> new_row rec i (clk s)))"
    and create_True: "inv s \<Longrightarrow> CreateProcessing repo rec s = (Inr (True, rec'), s') \<Longrightarrow>
      view s (row_key rec) = None \<and> row_id rec' > 0 \<and>
      view s' = (view s)(row_key rec \<mapsto> new_row rec (row_id rec') (clk s))"
    and create_False: "inv s \<Longrightarrow> CreateProcessing repo rec s = (Inr (False, rec'), s') \<Longrightarrow>
      view s (row_key rec) \<noteq> None"
    and get_inv: "inv s \<Longrightarrow> inv (snd (GetByScopeAndKeyHash repo sc kh s))"
    and get_view: "view (snd (GetByScopeAndKeyHash repo sc kh s)) = view s"
    and get_Inr: "GetByScopeAndKeyHash repo sc kh s = (Inr x, s') \<Longrightarrow> x = view s (sc, kh)"
    and reclaim_inv: "inv s \<Longrightarrow> inv (snd (TryReclaim repo i from now nl ne s))"
    and reclaim_view: "inv s \<Longrightarrow>
      view (snd (TryReclaim repo i from now nl ne s)) = view s \<or>
      view (snd (TryReclaim repo i from now nl ne s)) =
        upd_id i (reclaimable from now) (reclaim_row nl ne (clk s)) (view s)"
    and reclaim_Inr: "inv s \<Longrightarrow> TryReclaim repo i from now nl ne s = (Inr b, s') \<Longrightarrow>
      b = hit_id i (reclaimable from now) (view s) \<and>
      view s' = upd_id i (reclaimable from now) (reclaim_row nl ne (clk s)) (view s)"
    and succeed_inv: "inv s \<Longrightarrow> inv (snd (MarkSucceeded repo i code body ex s))"
    and succeed_view: "inv s \<Longrightarrow>
      view (snd (MarkSucceeded repo i code body ex s)) = view s \<or>
      view (snd (MarkSucceeded repo i code body ex s)) =
        upd_id i (\<lambda>_. True) (succeed_row code body ex (clk s)) (view s)"
    and succeed_Inr: "inv s \<Longrightarrow> MarkSucceeded repo i code body ex s = (Inr u, s') \<Longrightarrow>
      view s' = upd_id i (\<lambda>_. True) (succeed_row code body ex (clk s)) (view s)"
    and fail_inv: "inv s \<Longrightarrow> inv (snd (MarkFailedRetryable repo i reason l ex s))"
    and fail_view: "inv s \<Longrightarrow>
      view (snd (MarkFailedRetryable repo i reason l ex s)) = view s \<or>
      view (snd (MarkFailedRetryable repo i reason l ex s)) =
        upd_id i (\<lambda>_. True) (fail_row reason l ex (clk s)) (view s)"
    and fail_Inr: "inv s \<Longrightarrow> MarkFailedRetryable repo i reason l ex s = (Inr u, s') \<Longrightarrow>
      view s' = upd_id i (\<lambda>_. True) (fail_row reason l ex (clk s)) (view s)"
    and up_create: "up s \<Longrightarrow>
      \<not> isl (fst (CreateProcessing repo rec s)) \<and> up (snd (CreateProcessing repo rec s))"
    and up_get: "up s \<Longrightarrow>
      \<not> isl (fst (GetByScopeAndKeyHash repo sc kh s)) \<and> up (snd (GetByScopeAndKeyHash repo sc kh s))"
    and up_reclaim: "up s \<Longrightarrow>
      \<not> isl (fst (TryReclaim repo i from now nl ne s)) \<and> up (snd (TryReclaim repo i from now nl ne s))"
    and up_succeed: "up s \<Longrightarrow>
      \<not> isl (fst (MarkSucceeded repo i code body ex s)) \<and> up (snd (MarkSucceeded repo i code body ex s))"
    and up_fail: "up s \<Longrightarrow>
      \<not> isl (fst (MarkFailedRetryable repo i reason l ex s)) \<and>
      up (snd (MarkFailedRetryable repo i reason l ex s))"

section \<open>The PostgreSQL repository meets the contract\<close>

definition pg_view :: "idem_db world \<Rightarrow> idem_view" where
  "pg_view w = (\<lambda>(sc, kh). find (has_key sc kh) (idem_rows (tables w)))"

definition db_ok :: "idem_db \<Rightarrow> bool" where
  "db_ok d \<longleftrightarrow> distinct (map row_id (idem_rows d)) \<and> distinct (map row_key (idem_rows d)) \<and>
     (\<forall>r \<in> set (idem_rows d). 0 < row_id r \<and> row_id r < idem_seq d) \<and> 0 < idem_seq d"

definition pg_inv :: "idem_db world \<Rightarrow> bool" where
  "pg_inv w \<longleftrightarrow> db_ok (tables w)"

lemma has_key_row_key: "has_key sc kh r \<longleftrightarrow> row_key r = (sc, kh)"
  by (auto simp: has_key_def row_key_def)

lemma pg_view_Some:
  assumes "db_ok (tables w)"
  shows "pg_view w k = Some r \<longleftrightarrow> r \<in> set (idem_rows (tables w)) \<and> row_key r = k"
proof (cases k)
  case (Pair sc kh)
  have "find (has_key sc kh) (idem_rows (tables w)) = Some r" if "r \<in> set (idem_rows (tables w))" "row_key r = k"
  proof -
    have "find (has_key sc kh) (idem_rows (tables w)) \<noteq> None"
      using that Pair by (auto simp: find_None has_key_row_key)
    then obtain r' where f: "find (has_key sc kh) (idem_rows (tables w)) = Some r'" by blast
    then have "r' \<in> set (idem_rows (tables w))" "row_key r' = row_key r"
      using find_Some_in [OF f] that Pair by (auto simp: has_key_row_key)
    with that assms have "r' = r"
      unfolding db_ok_def by (metis distinct_map inj_onD)
    with f show ?thesis by simp
  qed
  then show ?thesis
    using Pair by (auto simp: pg_view_def has_key_row_key dest: find_Some_in)
qed

lemma pg_view_ok: "db_ok (tables w) \<Longrightarrow> view_ok (pg_view w)"
  unfolding view_ok_def
  by (auto simp: pg_view_Some db_ok_def) (metis distinct_map fst_conv inj_onD snd_conv)+

lemma update_rows_tables:
  "update_rows p f d = (length (filter p (idem_rows d)),
     d\<lparr>idem_rows := map (\<lambda>r. if p r then f r else r) (idem_rows d)\<rparr>)"
  by (simp add: update_rows_def update_where_def)

text \<open>An update that keeps identifiers and keys keeps the table well formed.\<close>

lemma update_rows_ok:
  assumes ok: "db_ok d" and f: "\<And>r. row_id (f r) = row_id r \<and> row_key (f r) = row_key r"
  shows "db_ok (snd (update_rows p f d))"
proof -
  have "map row_id (map (\<lambda>r. if p r then f r else r) (idem_rows d)) = map row_id (idem_rows d)"
    and "map row_key (map (\<lambda>r. if p r then f r else r) (idem_rows d)) = map row_key (idem_rows d)"
    using f by simp_all
  with ok f show ?thesis unfolding update_rows_tables db_ok_def by (simp del: map_map) auto
qed

lemma update_rows_view:
  assumes f: "\<And>r. row_key (f r) = row_key r" and p: "\<And>r. p r = (row_id r = i \<and> q r)"
  shows "pg_view (w\<lparr>tables := snd (update_rows p f (tables w))\<rparr>) = upd_id i q f (pg_view w)"
proof
  fix k :: "string \<times> string"
  obtain sc kh where k: "k = (sc, kh)" by (cases k)
  have "has_key sc kh (if p r then f r else r) = has_key sc kh r" for r
    using f by (simp add: has_key_row_key)
  then show "pg_view (w\<lparr>tables := snd (update_rows p f (tables w))\<rparr>) k = upd_id i q f (pg_view w) k"
    by (simp add: k pg_view_def update_rows_tables upd_id_def find_map_same p)
qed

lemma update_rows_hit:
  assumes ok: "db_ok (tables w)" and p: "\<And>r. p r = (row_id r = i \<and> q r)"
  shows "(fst (update_rows p f (tables w)) > 0) = hit_id i q (pg_view w)"
proof -
  have "hit_id i q (pg_view w) \<longleftrightarrow> (\<exists>r \<in> set (idem_rows (tables w)). p r)"
    unfolding hit_id_def p pg_view_Some [OF ok] by blast
  then show ?thesis by (auto simp: update_rows_tables filter_empty_conv)
qed


text \<open>
  Each statement, run in the world, has its ideal effect on the view or none; \<open>pg_update\<close> says it
  once for the four updates, and \<open>pg_insert_view\<close> for the insert.
\<close>

lemma pg_view_cong: "tables w = tables w' \<Longrightarrow> pg_view w = pg_view w'"
  by (simp add: pg_view_def)

lemma pg_inv_cong: "tables w = tables w' \<Longrightarrow> pg_inv w = pg_inv w'"
  by (simp add: pg_inv_def)

locale pg_update =
  fixes stmt :: "int \<Rightarrow> idem_db \<Rightarrow> nat \<times> idem_db"
    and i :: int and q :: "idem_row \<Rightarrow> bool" and f :: "int \<Rightarrow> idem_row \<Rightarrow> idem_row"
  assumes stmt_def: "stmt t = update_rows (\<lambda>r. row_id r = i \<and> q r) (f t)"
    and f_keeps: "row_id (f t r) = row_id r" "row_key (f t r) = row_key r"
begin

lemma stmt_inv: "pg_inv w \<Longrightarrow> pg_inv (snd (db_call stmt w))"
  using db_call_tables [of stmt w] update_rows_ok [of "tables w" "f (dbnow w)"] f_keeps
  by (auto simp: pg_inv_def stmt_def)

lemma ideal_view:
  "tables w' = snd (stmt (dbnow w) (tables w)) \<Longrightarrow> pg_view w' = upd_id i q (f (dbnow w)) (pg_view w)"
  using update_rows_view [of "f (dbnow w)" "\<lambda>r. row_id r = i \<and> q r" i q w] f_keeps
    pg_view_cong [of w' "w\<lparr>tables := tables w'\<rparr>"]
  by (simp add: stmt_def)

lemma stmt_view:
  "pg_view (snd (db_call stmt w)) = pg_view w \<or>
   pg_view (snd (db_call stmt w)) = upd_id i q (f (dbnow w)) (pg_view w)"
  using db_call_tables [of stmt w] ideal_view pg_view_cong by blast

lemma stmt_Inr:
  assumes "pg_inv w" and "db_call stmt w = (Inr n, w')"
  shows "(n > 0) = hit_id i q (pg_view w) \<and> pg_view w' = upd_id i q (f (dbnow w)) (pg_view w)"
proof -
  have "tables w' = snd (stmt (dbnow w) (tables w))" and n: "n = fst (stmt (dbnow w) (tables w))"
    using db_call_Inr [OF assms(2)] by auto
  then show ?thesis
    using ideal_view update_rows_hit [of w "\<lambda>r. row_id r = i \<and> q r" i q] assms(1)
    by (simp add: stmt_def pg_inv_def)
qed

end

interpretation reclaim: pg_update "update_reclaim i st now nl ne" i "reclaimable st now" "reclaim_row nl ne"
  for i st now nl ne
  by unfold_locales
    (simp_all add: update_reclaim_def reclaimable_def reclaim_row_def [abs_def] row_key_def)

interpretation succeed: pg_update "update_succeeded i code body ex" i "\<lambda>_. True" "succeed_row code body ex"
  for i code body ex
  by unfold_locales (simp_all add: update_succeeded_def succeed_row_def [abs_def] row_key_def)

interpretation fail: pg_update "update_failed i reason l ex" i "\<lambda>_. True" "fail_row reason l ex"
  for i reason l ex
  by unfold_locales (simp_all add: update_failed_def fail_row_def [abs_def] row_key_def)

interpretation extend: pg_update "update_extend i fp nl ne" i
    "\<lambda>r. row_status r = Processing \<and> row_fingerprint r = fp"
    "\<lambda>t r. r\<lparr>row_locked_until := Some nl, row_expires_at := ne, row_updated_at := t\<rparr>"
  for i fp nl ne
  by unfold_locales (auto simp: update_extend_def row_key_def)

lemma affected_snd [simp]: "snd (affected r) = snd r"
  by (simp add: affected_def split: prod.splits sum.splits)

lemma exec_only_snd [simp]: "snd (exec_only r) = snd r"
  by (simp add: exec_only_def split: prod.splits sum.splits)

lemma affected_Inr: "affected r = (Inr b, w') \<Longrightarrow> \<exists>n. r = (Inr n, w') \<and> b = (n > 0)"
  by (auto simp: affected_def split: prod.splits sum.splits)

lemma exec_only_Inr: "exec_only r = (Inr u, w') \<Longrightarrow> \<exists>n. r = (Inr n, w')"
  by (auto simp: exec_only_def split: prod.splits sum.splits)

lemma affected_isl [simp]: "isl (fst (affected r)) = isl (fst r)"
  by (simp add: affected_def split: prod.splits sum.splits)

lemma exec_only_isl [simp]: "isl (fst (exec_only r)) = isl (fst r)"
  by (simp add: exec_only_def split: prod.splits sum.splits)

subsection \<open>The insert\<close>

lemma insert_processing_present:
  "find (has_key (row_scope rec) (row_key_hash rec)) (idem_rows d) = Some x \<Longrightarrow>
   insert_processing rec t d = (None, d\<lparr>idem_seq := idem_seq d + 1\<rparr>)"
  by (simp add: insert_processing_def Let_def)

lemma insert_processing_absent:
  "find (has_key (row_scope rec) (row_key_hash rec)) (idem_rows d) = None \<Longrightarrow>
   row_id (the (fst (insert_processing rec t d))) = idem_seq d \<and>
   fst (insert_processing rec t d) \<noteq> None \<and>
   idem_rows (snd (insert_processing rec t d)) = idem_rows d @ [new_row rec (idem_seq d) t] \<and>
   idem_seq (snd (insert_processing rec t d)) = idem_seq d + 1"
  by (cases rec) (simp add: insert_processing_def Let_def new_row_def)

lemma row_key_new_row [simp]: "row_key (new_row rec i t) = row_key rec" "row_id (new_row rec i t) = i"
  by (simp_all add: row_key_def new_row_def)

lemma insert_processing_ok:
  assumes "db_ok d"
  shows "db_ok (snd (insert_processing rec t d))"
proof (cases "find (has_key (row_scope rec) (row_key_hash rec)) (idem_rows d)")
  case None
  then have "row_key rec \<notin> set (map row_key (idem_rows d))"
    by (auto simp: find_None has_key_row_key row_key_def)
  with insert_processing_absent [OF None, of t] assms show ?thesis
    by (auto simp: db_ok_def)
next
  case (Some x)
  with assms show ?thesis by (auto simp: insert_processing_present db_ok_def)
qed

lemma insert_view:
  assumes "tables w' = snd (insert_processing rec t (tables w))"
  shows "(pg_view w (row_key rec) \<noteq> None \<longrightarrow> pg_view w' = pg_view w) \<and>
         (pg_view w (row_key rec) = None \<longrightarrow>
            pg_view w' = (pg_view w)(row_key rec \<mapsto> new_row rec (idem_seq (tables w)) t))"
proof (cases "find (has_key (row_scope rec) (row_key_hash rec)) (idem_rows (tables w))")
  case None
  have "pg_view w' k = ((pg_view w)(row_key rec \<mapsto> new_row rec (idem_seq (tables w)) t)) k" for k
    using None insert_processing_absent [OF None, of t]
    by (cases k) (auto simp: pg_view_def assms find_append has_key_def row_key_def new_row_def
        split: option.splits)
  then show ?thesis using None by (auto simp: pg_view_def row_key_def fun_eq_iff)
next
  case (Some x)
  then show ?thesis
    by (auto simp: pg_view_def row_key_def assms insert_processing_present [OF Some])
qed


lemma pg_create_snd: "snd (pg_CreateProcessing rec w) = snd (db_call (insert_processing rec) w)"
  by (simp add: pg_CreateProcessing_def split: prod.splits sum.splits option.splits)

lemma pg_create_inv: "pg_inv w \<Longrightarrow> pg_inv (snd (pg_CreateProcessing rec w))"
  using db_call_tables [of "insert_processing rec" w] insert_processing_ok [of "tables w"]
  by (auto simp: pg_create_snd pg_inv_def)

lemma pg_create_view:
  "pg_view (snd (pg_CreateProcessing rec w)) = pg_view w \<or>
   pg_view w (row_key rec) = None \<and>
   (\<exists>i. pg_view (snd (pg_CreateProcessing rec w)) =
          (pg_view w)(row_key rec \<mapsto> new_row rec i (dbnow w)))"
  using db_call_tables [of "insert_processing rec" w] insert_view [of _ rec "dbnow w" w]
    pg_view_cong [of _ w]
  unfolding pg_create_snd by blast

lemma pg_create_True:
  assumes inv: "pg_inv w" and c: "pg_CreateProcessing rec w = (Inr (True, rec'), w')"
  shows "pg_view w (row_key rec) = None \<and> row_id rec' > 0 \<and>
         pg_view w' = (pg_view w)(row_key rec \<mapsto> new_row rec (row_id rec') (dbnow w))"
proof -
  obtain r where d: "db_call (insert_processing rec) w = (Inr (Some r), w')"
    and id: "row_id rec' = row_id r"
    using c by (auto simp: pg_CreateProcessing_def split: prod.splits sum.splits option.splits)
  have st: "insert_processing rec (dbnow w) (tables w) = (Some r, tables w')"
    using db_call_Inr [OF d] by simp
  have none: "find (has_key (row_scope rec) (row_key_hash rec)) (idem_rows (tables w)) = None"
    using st by (cases "find (has_key (row_scope rec) (row_key_hash rec)) (idem_rows (tables w))")
      (auto simp: insert_processing_present)
  have "pg_view w (row_key rec) = None" using none by (simp add: pg_view_def row_key_def)
  moreover have "row_id r = idem_seq (tables w)"
    using insert_processing_absent [OF none, of "dbnow w"] st by simp
  ultimately show ?thesis
    using insert_view [of w' rec "dbnow w" w] st id inv by (simp add: pg_inv_def db_ok_def)
qed

lemma pg_create_False:
  assumes "pg_CreateProcessing rec w = (Inr (False, rec'), w')"
  shows "pg_view w (row_key rec) \<noteq> None"
proof -
  have d: "db_call (insert_processing rec) w = (Inr None, w')"
    using assms by (auto simp: pg_CreateProcessing_def split: prod.splits sum.splits option.splits)
  have st: "insert_processing rec (dbnow w) (tables w) = (None, tables w')"
    using db_call_Inr [OF d] by simp
  then show ?thesis
    using insert_processing_absent [of rec "tables w" "dbnow w"]
    by (cases "find (has_key (row_scope rec) (row_key_hash rec)) (idem_rows (tables w))")
      (auto simp: pg_view_def row_key_def)
qed

lemma pg_get_tables: "tables (snd (pg_GetByScopeAndKeyHash sc kh w)) = tables w"
  using db_call_tables [of "select_by_key sc kh" w]
  by (auto simp: pg_GetByScopeAndKeyHash_def select_by_key_def)

lemma pg_get_Inr: "pg_GetByScopeAndKeyHash sc kh w = (Inr x, w') \<Longrightarrow> x = pg_view w (sc, kh)"
  by (auto simp: pg_GetByScopeAndKeyHash_def select_by_key_def pg_view_def dest!: db_call_Inr)

text \<open>Without faults every operation answers.\<close>

lemma db_call_up: "faultless w \<Longrightarrow> \<not> isl (fst (db_call stmt w)) \<and> faultless (snd (db_call stmt w))"
  using faultless_tl [of w] by (simp add: db_call_fine faultless_def)

lemma pg_create_up:
  assumes "faultless w"
  shows "\<not> isl (fst (pg_CreateProcessing rec w)) \<and> faultless (snd (pg_CreateProcessing rec w))"
  using db_call_up [OF assms, of "insert_processing rec"]
  by (auto simp: pg_CreateProcessing_def split: prod.splits sum.splits option.splits)

interpretation pg: idem_store pg_repo pg_view dbnow pg_inv faultless
proof unfold_locales
  fix w w' :: "idem_db world" and rec rec' :: idem_row
  show "pg_inv w \<Longrightarrow> view_ok (pg_view w)" by (simp add: pg_inv_def pg_view_ok)
  show "pg_inv w \<Longrightarrow> pg_inv (snd (CreateProcessing pg_repo rec w))" by (simp add: pg_create_inv)
  show "pg_view (snd (CreateProcessing pg_repo rec w)) = pg_view w \<or> pg_view w (row_key rec) = None \<and>
      (\<exists>i. pg_view (snd (CreateProcessing pg_repo rec w)) =
             (pg_view w)(row_key rec \<mapsto> new_row rec i (dbnow w)))"
    using pg_create_view by simp
  show "pg_inv w \<Longrightarrow> CreateProcessing pg_repo rec w = (Inr (True, rec'), w') \<Longrightarrow>
      pg_view w (row_key rec) = None \<and> 0 < row_id rec' \<and>
      pg_view w' = (pg_view w)(row_key rec \<mapsto> new_row rec (row_id rec') (dbnow w))"
    using pg_create_True by simp
  show "CreateProcessing pg_repo rec w = (Inr (False, rec'), w') \<Longrightarrow> pg_view w (row_key rec) \<noteq> None"
    using pg_create_False by simp
  show "faultless w \<Longrightarrow> \<not> isl (fst (CreateProcessing pg_repo rec w)) \<and>
      faultless (snd (CreateProcessing pg_repo rec w))"
    using pg_create_up by simp
next
  fix w w' :: "idem_db world" and sc kh x
  show "pg_view (snd (GetByScopeAndKeyHash pg_repo sc kh w)) = pg_view w"
    using pg_view_cong [OF pg_get_tables] by simp
  show "pg_inv w \<Longrightarrow> pg_inv (snd (GetByScopeAndKeyHash pg_repo sc kh w))"
    using pg_inv_cong [OF pg_get_tables] by simp
  show "GetByScopeAndKeyHash pg_repo sc kh w = (Inr x, w') \<Longrightarrow> x = pg_view w (sc, kh)"
    using pg_get_Inr by simp
  show "faultless w \<Longrightarrow> \<not> isl (fst (GetByScopeAndKeyHash pg_repo sc kh w)) \<and>
      faultless (snd (GetByScopeAndKeyHash pg_repo sc kh w))"
    by (simp add: pg_GetByScopeAndKeyHash_def db_call_up)
qed (auto simp: pg_TryReclaim_def pg_MarkSucceeded_def pg_MarkFailedRetryable_def
      reclaim.stmt_inv reclaim.stmt_view succeed.stmt_inv succeed.stmt_view fail.stmt_inv
      fail.stmt_view db_call_up reclaim.stmt_Inr succeed.stmt_Inr fail.stmt_Inr
      dest!: affected_Inr exec_only_Inr)

section \<open>Identifiers and the sweep\<close>

text \<open>
  For requests that interleave two more promises matter: an identifier is never given out twice, even
  after its row is gone, and the sweep removes expired rows only.
\<close>

locale idem_store_ids = idem_store repo view clk inv up
  for repo :: "'s idem_repo" and view clk inv up +
  fixes used :: "'s \<Rightarrow> int set"
  assumes used_view: "inv s \<Longrightarrow> view s k = Some r \<Longrightarrow> row_id r \<in> used s"
    and create_used: "inv s \<Longrightarrow> used s \<subseteq> used (snd (CreateProcessing repo rec s))"
    and create_fresh: "inv s \<Longrightarrow> view s (row_key rec) = None \<Longrightarrow>
      view (snd (CreateProcessing repo rec s)) (row_key rec) = Some r \<Longrightarrow> row_id r \<notin> used s"
    and get_used: "used s \<subseteq> used (snd (GetByScopeAndKeyHash repo sc kh s))"
    and reclaim_used: "used s \<subseteq> used (snd (TryReclaim repo i from now nl ne s))"
    and succeed_used: "used s \<subseteq> used (snd (MarkSucceeded repo i code body ex s))"
    and fail_used: "used s \<subseteq> used (snd (MarkFailedRetryable repo i reason l ex s))"
    and sweep_inv: "inv s \<Longrightarrow> inv (snd (DeleteExpired repo now limit s))"
    and sweep_used: "used s \<subseteq> used (snd (DeleteExpired repo now limit s))"
    and sweep_view: "inv s \<Longrightarrow> view (snd (DeleteExpired repo now limit s)) \<subseteq>\<^sub>m view s"
    and sweep_keeps: "inv s \<Longrightarrow> view s k = Some r \<Longrightarrow> now < row_expires_at r \<Longrightarrow>
      view (snd (DeleteExpired repo now limit s)) k = Some r"

definition pg_used :: "idem_db world \<Rightarrow> int set" where
  "pg_used w = {i. i < idem_seq (tables w)}"

lemma update_rows_seq [simp]: "idem_seq (snd (update_rows p f d)) = idem_seq d"
  by (simp add: update_rows_tables)

lemma pg_used_update:
  assumes "\<And>t d. idem_seq (snd (stmt t d)) = idem_seq d"
  shows "pg_used (snd (db_call stmt w)) = pg_used w"
  using db_call_tables [of stmt w] assms by (auto simp: pg_used_def)

lemma victims_expired:
  assumes "i \<in> set (expired_victims now limit rs)"
  shows "\<exists>r \<in> set rs. row_id r = i \<and> row_expires_at r \<le> now"
  using assms by (fastforce simp: expired_victims_def dest: in_set_takeD)

lemma delete_expired_rows:
  "idem_rows (snd (delete_expired now limit t d)) =
     filter (\<lambda>r. row_id r \<notin> set (expired_victims now limit (idem_rows d))) (idem_rows d)"
  "idem_seq (snd (delete_expired now limit t d)) = idem_seq d"
  by (simp_all add: delete_expired_def Let_def)

lemma delete_expired_ok: "db_ok d \<Longrightarrow> db_ok (snd (delete_expired now limit t d))"
  by (auto simp: db_ok_def delete_expired_rows distinct_map inj_on_def)

lemma pg_sweep_snd: "snd (pg_DeleteExpired now limit w) =
    snd (db_call (delete_expired now (nat (if limit \<le> 0 then 500 else limit))) w)"
  by (simp add: pg_DeleteExpired_def Let_def split: prod.splits sum.splits)

lemma pg_sweep_tables:
  "tables (snd (pg_DeleteExpired now limit w)) = tables w \<or>
   (\<exists>n. tables (snd (pg_DeleteExpired now limit w)) = snd (delete_expired now n (dbnow w) (tables w)))"
  unfolding pg_sweep_snd using db_call_tables by blast

lemma pg_sweep_inv: "pg_inv w \<Longrightarrow> pg_inv (snd (pg_DeleteExpired now limit w))"
  using pg_sweep_tables [of now limit w] delete_expired_ok by (auto simp: pg_inv_def)

lemma pg_sweep_view:
  assumes "pg_inv w"
  shows "pg_view (snd (pg_DeleteExpired now limit w)) \<subseteq>\<^sub>m pg_view w"
    and "pg_view w k = Some r \<Longrightarrow> now < row_expires_at r \<Longrightarrow>
         pg_view (snd (pg_DeleteExpired now limit w)) k = Some r"
proof -
  let ?w = "snd (pg_DeleteExpired now limit w)"
  have ok: "db_ok (tables w)" and ok': "db_ok (tables ?w)"
    using assms pg_sweep_inv [OF assms, of now limit] by (simp_all add: pg_inv_def)
  have sub: "set (idem_rows (tables ?w)) \<subseteq> set (idem_rows (tables w))"
    using pg_sweep_tables [of now limit w] by (auto simp: delete_expired_rows)
  show "pg_view ?w \<subseteq>\<^sub>m pg_view w"
    unfolding map_le_def by (auto simp: dom_def) (metis ok ok' pg_view_Some sub subsetD)
  assume v: "pg_view w k = Some r" and live: "now < row_expires_at r"
  then have r: "r \<in> set (idem_rows (tables w))" "row_key r = k" using pg_view_Some [OF ok] by auto
  have "row_id r \<notin> set (expired_victims now n (idem_rows (tables w)))" for n
  proof
    assume "row_id r \<in> set (expired_victims now n (idem_rows (tables w)))"
    from victims_expired [OF this] obtain r' where r': "r' \<in> set (idem_rows (tables w))"
      "row_id r' = row_id r" "row_expires_at r' \<le> now" by blast
    with r ok have "r' = r" unfolding db_ok_def by (metis distinct_map inj_onD)
    with r' live show False by simp
  qed
  then have "r \<in> set (idem_rows (tables ?w))"
    using r pg_sweep_tables [of now limit w] by (auto simp: delete_expired_rows)
  with r show "pg_view ?w k = Some r" using pg_view_Some [OF ok'] by simp
qed

lemma pg_create_seq:
  "idem_seq (tables w) \<le> idem_seq (tables (snd (pg_CreateProcessing rec w)))"
proof -
  have "idem_seq (snd (insert_processing rec t d)) = idem_seq d + 1" for t d
    by (simp add: insert_processing_def Let_def split: option.splits)
  then show ?thesis
    unfolding pg_create_snd using db_call_tables [of "insert_processing rec" w] by auto
qed

lemma pg_create_fresh:
  assumes "pg_view w (row_key rec) = None"
    and "pg_view (snd (pg_CreateProcessing rec w)) (row_key rec) = Some r"
  shows "row_id r \<notin> pg_used w"
proof -
  have "tables (snd (pg_CreateProcessing rec w)) = snd (insert_processing rec (dbnow w) (tables w))"
    using db_call_tables [of "insert_processing rec" w] assms pg_view_cong
    by (metis option.distinct(1) pg_create_snd)
  from insert_view [OF this] assms show ?thesis by (auto simp: pg_used_def)
qed

interpretation pg_ids: idem_store_ids pg_repo pg_view dbnow pg_inv faultless pg_used
proof unfold_locales
  fix w :: "idem_db world" and k r
  show "pg_inv w \<Longrightarrow> pg_view w k = Some r \<Longrightarrow> row_id r \<in> pg_used w"
    by (auto simp: pg_inv_def pg_view_Some pg_used_def db_ok_def)
next
  fix w :: "idem_db world" and sc kh
  show "pg_used w \<subseteq> pg_used (snd (GetByScopeAndKeyHash pg_repo sc kh w))"
    using pg_get_tables [of sc kh w] by (simp add: pg_used_def)
next
  fix w :: "idem_db world" and i st now nl ne
  show "pg_used w \<subseteq> pg_used (snd (TryReclaim pg_repo i st now nl ne w))"
    using pg_used_update [of "update_reclaim i st now nl ne" w]
    by (simp add: pg_TryReclaim_def update_reclaim_def)
next
  fix w :: "idem_db world" and i code body ex
  show "pg_used w \<subseteq> pg_used (snd (MarkSucceeded pg_repo i code body ex w))"
    using pg_used_update [of "update_succeeded i code body ex" w]
    by (simp add: pg_MarkSucceeded_def update_succeeded_def)
next
  fix w :: "idem_db world" and i reason l ex
  show "pg_used w \<subseteq> pg_used (snd (MarkFailedRetryable pg_repo i reason l ex w))"
    using pg_used_update [of "update_failed i reason l ex" w]
    by (simp add: pg_MarkFailedRetryable_def update_failed_def)
next
  fix w :: "idem_db world" and now limit
  show "pg_used w \<subseteq> pg_used (snd (DeleteExpired pg_repo now limit w))"
    using pg_sweep_tables [of now limit w] by (auto simp: pg_used_def delete_expired_rows)
next
  fix w :: "idem_db world" and rec r
  show "pg_view w (row_key rec) = None \<Longrightarrow>
      pg_view (snd (CreateProcessing pg_repo rec w)) (row_key rec) = Some r \<Longrightarrow> row_id r \<notin> pg_used w"
    using pg_create_fresh by simp
  show "pg_used w \<subseteq> pg_used (snd (CreateProcessing pg_repo rec w))"
    using pg_create_seq [of w rec] by (auto simp: pg_used_def)
qed (auto simp: pg_sweep_inv pg_sweep_view)

end
