(* ===== verification/Idempotency.thy ===== *)
theory Idempotency
  imports Idempotency_Store
begin

text \<open>
  The idempotency coordinator (\<open>service/idempotency.go\<close>): \<open>Execute\<close> runs a write request at most
  once per key by claiming a row of the store, running the request and recording its outcome.
  \<open>Execute\<close> is modelled over the repository interface \<open>idem_repo\<close>; the pair of the store and the
  state \<open>'x\<close> that the executor changes is threaded through. \<open>now\<close> and \<open>later\<close> are the two readings
  of the clock (before the claim, and after the executor has run). Metrics and log lines are left out.
\<close>

section \<open>Configuration, options and results\<close>

record idem_config =
  DefaultTTL :: int
  SystemOperationTTL :: int
  ProcessingTimeout :: int
  FailedRetryBackoff :: int
  MaxStoredResponseLen :: int
  ObserveOnly :: bool

definition DefaultIdempotencyConfig :: idem_config where
  "DefaultIdempotencyConfig =
     \<lparr>DefaultTTL = 24 * Hour, SystemOperationTTL = 1 * Hour, ProcessingTimeout = 30 * Second,
      FailedRetryBackoff = 5 * Second, MaxStoredResponseLen = 64 * 1024, ObserveOnly = True\<rparr>"

record 'p idem_options =
  opt_scope :: string
  opt_actor :: string
  opt_method :: string
  opt_route :: string
  opt_key :: string
  opt_payload :: 'p
  opt_ttl :: int
  opt_require_key :: bool

datatype 'v idem_result = Result (res_data: 'v) (res_replayed: bool)

text \<open>
  The errors of the coordinator; the two conflicts carry the \<open>retry_after\<close> metadata when present,
  \<open>ExecFailed\<close> is an error of the executor itself.
\<close>

datatype 'e idem_error =
    ExecutorNil | KeyRequired | KeyInvalid | KeyConflict | InProgress "int option"
  | RetryBackoff "int option" | StoreUnavail | InvalidPayload | ScopeRequired | ExecFailed 'e

text \<open>
  What the coordinator takes from the Go library and from components that are not modelled:
  SHA-256 in hex, \<open>json.Marshal\<close> of payloads and of results (\<open>None\<close>: the error), the redaction of
  \<open>logredact\<close>, \<open>json.Unmarshal\<close>, the empty JSON object and the \<open>Reason\<close> of an error.
\<close>

record ('p, 'v, 'e) idem_env =
  sha256_hex :: "string \<Rightarrow> string"
  json_payload :: "'p \<Rightarrow> string option"
  json_value :: "'v \<Rightarrow> string option"
  redact_text :: "string \<Rightarrow> string"
  json_parse :: "string \<Rightarrow> 'v option"
  empty_object :: 'v
  err_reason :: "'e \<Rightarrow> string"

section \<open>Keys, fingerprints, stored responses\<close>

definition NormalizeIdempotencyKey :: "string \<Rightarrow> 'e idem_error + string" where
  "NormalizeIdempotencyKey raw =
     (let key = TrimSpace raw in
      if key = [] then Inr []
      else if length key > 128 then Inl KeyInvalid
      else if list_ex (\<lambda>c. byte c < 33 \<or> byte c > 126) key then Inl KeyInvalid
      else Inr key)"

definition HashIdempotencyKey :: "('p, 'v, 'e) idem_env \<Rightarrow> string \<Rightarrow> string" where
  "HashIdempotencyKey env key = sha256_hex env key"

definition newline :: string where "newline = [CHR 0x0A]"

definition BuildIdempotencyFingerprint ::
  "('p, 'v, 'e) idem_env \<Rightarrow> string \<Rightarrow> string \<Rightarrow> string \<Rightarrow> 'p \<Rightarrow> 'e idem_error + string" where
  "BuildIdempotencyFingerprint env meth route actor payload =
     (let meth = (if meth = [] then ''POST'' else meth);
          route = (if route = [] then ''/'' else route);
          actor = (if actor = [] then ''anonymous'' else actor)
      in case json_payload env payload of
           None \<Rightarrow> Inl InvalidPayload
         | Some raw \<Rightarrow>
             Inr (sha256_hex env
                   (ToUpper meth @ newline @ route @ newline @ actor @ newline @ raw)))"

definition conflictWithRetryAfter :: "int option \<Rightarrow> int \<Rightarrow> int option" where
  "conflictWithRetryAfter lockedUntil now =
     (case lockedUntil of
        None \<Rightarrow> None
      | Some l \<Rightarrow> let sec = tdiv (l - now) Second in Some (if sec \<le> 0 then 1 else sec))"

fun shrink_valid :: "string \<Rightarrow> nat \<Rightarrow> nat" where
  "shrink_valid s 0 = 0"
| "shrink_valid s (Suc n) = (if ValidString (take (Suc n) s) then Suc n else shrink_valid s n)"

definition truncateUTF8 :: "string \<Rightarrow> int \<Rightarrow> string" where
  "truncateUTF8 s maxBytes =
     (if maxBytes \<le> 0 \<or> int (length s) \<le> maxBytes then s
      else take (shrink_valid s (nat maxBytes)) s)"

definition truncation_mark :: string where
  "truncation_mark = ''...(truncated)''"

definition marshalStoredResponse ::
  "('p, 'v, 'e) idem_env \<Rightarrow> idem_config \<Rightarrow> 'v \<Rightarrow> string option" where
  "marshalStoredResponse env cfg data =
     (case json_value env data of
        None \<Rightarrow> None
      | Some raw \<Rightarrow>
          let redacted = redact_text env raw in
          if MaxStoredResponseLen cfg > 0 \<and> int (length redacted) > MaxStoredResponseLen cfg
          then Some (truncateUTF8 redacted (MaxStoredResponseLen cfg) @ truncation_mark)
          else Some redacted)"

definition decodeStoredResponse :: "('p, 'v, 'e) idem_env \<Rightarrow> string option \<Rightarrow> 'v option" where
  "decodeStoredResponse env stored =
     (case stored of
        None \<Rightarrow> Some (empty_object env)
      | Some s \<Rightarrow> if TrimSpace s = [] then Some (empty_object env) else json_parse env s)"

section \<open>Claiming the key\<close>

text \<open>The claim either yields the identifier of a row this caller now owns or ends the request.\<close>

datatype ('v, 'e) claim = Claimed int | Done "'e idem_error + 'v idem_result"

definition resolve_status ::
  "'s idem_repo \<Rightarrow> ('p, 'v, 'e) idem_env \<Rightarrow> idem_row \<Rightarrow> int \<Rightarrow> int \<Rightarrow> int \<Rightarrow> 's
   \<Rightarrow> ('v, 'e) claim \<times> 's" where
  "resolve_status repo env existing now lockedUntil expiresAt s =
     (case row_status existing of
        Succeeded \<Rightarrow>
          (case decodeStoredResponse env (row_response_body existing) of
             None \<Rightarrow> (Done (Inl StoreUnavail), s)
           | Some data \<Rightarrow> (Done (Inr (Result data True)), s))
      | Processing \<Rightarrow>
          (Done (Inl (InProgress (conflictWithRetryAfter (row_locked_until existing) now))), s)
      | FailedRetryable \<Rightarrow>
          if (case row_locked_until existing of None \<Rightarrow> False | Some l \<Rightarrow> l > now)
          then (Done (Inl (RetryBackoff (conflictWithRetryAfter (row_locked_until existing) now))), s)
          else (case TryReclaim repo (row_id existing) FailedRetryable now lockedUntil expiresAt s of
                  (Inl _, s') \<Rightarrow> (Done (Inl StoreUnavail), s')
                | (Inr False, s') \<Rightarrow>
                    (Done (Inl (InProgress (conflictWithRetryAfter (row_locked_until existing) now))), s')
                | (Inr True, s') \<Rightarrow> (Claimed (row_id existing), s'))
      | OtherStatus _ \<Rightarrow> (Done (Inl KeyConflict), s))"

definition claim_existing ::
  "'s idem_repo \<Rightarrow> ('p, 'v, 'e) idem_env \<Rightarrow> string \<Rightarrow> string \<Rightarrow> string \<Rightarrow> int \<Rightarrow> int \<Rightarrow> int \<Rightarrow> 's
   \<Rightarrow> ('v, 'e) claim \<times> 's" where
  "claim_existing repo env scope keyHash fingerprint now lockedUntil expiresAt s =
     (case GetByScopeAndKeyHash repo scope keyHash s of
        (Inl _, s1) \<Rightarrow> (Done (Inl StoreUnavail), s1)
      | (Inr None, s1) \<Rightarrow> (Done (Inl StoreUnavail), s1)
      | (Inr (Some existing), s1) \<Rightarrow>
          if row_fingerprint existing \<noteq> fingerprint then (Done (Inl KeyConflict), s1)
          else if row_expires_at existing \<le> now then
            (case TryReclaim repo (row_id existing) (row_status existing) now lockedUntil expiresAt s1 of
               (Inl _, s2) \<Rightarrow> (Done (Inl StoreUnavail), s2)
             | (Inr True, s2) \<Rightarrow> (Claimed (row_id existing), s2)
             | (Inr False, s2) \<Rightarrow>
                 (case GetByScopeAndKeyHash repo scope keyHash s2 of
                    (Inl _, s3) \<Rightarrow> (Done (Inl StoreUnavail), s3)
                  | (Inr None, s3) \<Rightarrow> (Done (Inl StoreUnavail), s3)
                  | (Inr (Some latest), s3) \<Rightarrow>
                      if row_fingerprint latest \<noteq> fingerprint then (Done (Inl KeyConflict), s3)
                      else resolve_status repo env latest now lockedUntil expiresAt s3))
          else resolve_status repo env existing now lockedUntil expiresAt s1)"

definition claim_key ::
  "'s idem_repo \<Rightarrow> ('p, 'v, 'e) idem_env \<Rightarrow> string \<Rightarrow> string \<Rightarrow> string \<Rightarrow> int \<Rightarrow> int \<Rightarrow> int \<Rightarrow> 's
   \<Rightarrow> ('v, 'e) claim \<times> 's" where
  "claim_key repo env scope keyHash fingerprint now lockedUntil expiresAt s =
     (let record =
        \<lparr>row_id = 0, row_scope = scope, row_key_hash = keyHash, row_fingerprint = fingerprint,
         row_status = Processing, row_response_status = None, row_response_body = None,
         row_error_reason = None, row_locked_until = Some lockedUntil, row_expires_at = expiresAt,
         row_created_at = 0, row_updated_at = 0\<rparr>
      in case CreateProcessing repo record s of
           (Inl _, s1) \<Rightarrow> (Done (Inl StoreUnavail), s1)
         | (Inr (True, record'), s1) \<Rightarrow> (Claimed (row_id record'), s1)
         | (Inr (False, _), s1) \<Rightarrow>
             claim_existing repo env scope keyHash fingerprint now lockedUntil expiresAt s1)"

section \<open>Running the request\<close>

definition run_claimed ::
  "'s idem_repo \<Rightarrow> ('p, 'v, 'e) idem_env \<Rightarrow> idem_config \<Rightarrow> int \<Rightarrow> int \<Rightarrow> int
   \<Rightarrow> ('x \<Rightarrow> ('e + 'v) \<times> 'x) \<Rightarrow> 's \<Rightarrow> 'x
   \<Rightarrow> ('e idem_error + 'v idem_result) \<times> 's \<times> 'x" where
  "run_claimed repo env cfg i expiresAt later execute s x =
     (if i = 0 then (Inl StoreUnavail, s, x)
      else case execute x of
        (Inl execErr, x') \<Rightarrow>
          let backoffUntil = later + FailedRetryBackoff cfg;
              reason = (if err_reason env execErr = [] then ''EXECUTION_FAILED''
                        else err_reason env execErr);
              (_, s') = MarkFailedRetryable repo i reason backoffUntil expiresAt s
          in (Inl (ExecFailed execErr), s', x')
      | (Inr data, x') \<Rightarrow>
          (case marshalStoredResponse env cfg data of
             None \<Rightarrow> (Inl StoreUnavail, s, x')
           | Some storedBody \<Rightarrow>
               (case MarkSucceeded repo i 200 storedBody expiresAt s of
                  (Inl _, s') \<Rightarrow> (Inl StoreUnavail, s', x')
                | (Inr _, s') \<Rightarrow> (Inr (Result data False), s', x'))))"

definition effective_ttl :: "idem_config \<Rightarrow> 'p idem_options \<Rightarrow> int" where
  "effective_ttl cfg opts = (if opt_ttl opts \<le> 0 then DefaultTTL cfg else opt_ttl opts)"

definition Execute ::
  "'s idem_repo option \<Rightarrow> ('p, 'v, 'e) idem_env \<Rightarrow> idem_config \<Rightarrow> 'p idem_options
   \<Rightarrow> ('x \<Rightarrow> ('e + 'v) \<times> 'x) option \<Rightarrow> int \<Rightarrow> int \<Rightarrow> 's \<Rightarrow> 'x
   \<Rightarrow> ('e idem_error + 'v idem_result) \<times> 's \<times> 'x" where
  "Execute orepo env cfg opts exec now later s x =
     (case exec of
        None \<Rightarrow> (Inl ExecutorNil, s, x)
      | Some execute \<Rightarrow>
      (case NormalizeIdempotencyKey (opt_key opts) of
        Inl err \<Rightarrow> (Inl err, s, x)
      | Inr key \<Rightarrow>
      if key = [] then
        (if opt_require_key opts \<and> \<not> ObserveOnly cfg then (Inl KeyRequired, s, x)
         else (case execute x of
                 (Inl execErr, x') \<Rightarrow> (Inl (ExecFailed execErr), s, x')
               | (Inr data, x') \<Rightarrow> (Inr (Result data False), s, x')))
      else
      (case orepo of
        None \<Rightarrow> (Inl StoreUnavail, s, x)
      | Some repo \<Rightarrow>
      if opt_scope opts = [] then (Inl ScopeRequired, s, x)
      else
      (case BuildIdempotencyFingerprint env (opt_method opts) (opt_route opts) (opt_actor opts)
              (opt_payload opts) of
        Inl err \<Rightarrow> (Inl err, s, x)
      | Inr fingerprint \<Rightarrow>
          let expiresAt = now + effective_ttl cfg opts;
              lockedUntil = now + ProcessingTimeout cfg;
              keyHash = HashIdempotencyKey env key
          in case claim_key repo env (opt_scope opts) keyHash fingerprint now lockedUntil expiresAt s of
               (Done r, s') \<Rightarrow> (r, s', x)
             | (Claimed i, s') \<Rightarrow> run_claimed repo env cfg i expiresAt later execute s' x))))"

section \<open>What a claim establishes\<close>

text \<open>
  \<open>owned\<close>: the row of the key carries identifier \<open>i\<close>, is in state \<open>Processing\<close> and holds the lock
  and expiry of the caller that claimed it.
\<close>

definition owned :: "idem_view \<Rightarrow> string \<times> string \<Rightarrow> int \<Rightarrow> string \<Rightarrow> int \<Rightarrow> int \<Rightarrow> bool" where
  "owned m k i fp lockedUntil expiresAt \<longleftrightarrow>
     (\<exists>r. m k = Some r \<and> row_id r = i \<and> row_status r = Processing \<and> row_fingerprint r = fp \<and>
          row_locked_until r = Some lockedUntil \<and> row_expires_at r = expiresAt)"

text \<open>\<open>settled\<close>: a successful outcome is recorded for the key and lasts until \<open>expiresAt\<close>.\<close>

definition settled :: "idem_view \<Rightarrow> string \<times> string \<Rightarrow> string \<Rightarrow> string \<Rightarrow> int \<Rightarrow> bool" where
  "settled m k fp body expiresAt \<longleftrightarrow>
     (\<exists>r. m k = Some r \<and> row_status r = Succeeded \<and> row_fingerprint r = fp \<and>
          row_response_body r = Some body \<and> row_expires_at r = expiresAt)"

text \<open>\<open>blocking\<close>: the key is being processed or has succeeded, and its row has not expired.\<close>

definition blocking :: "idem_view \<Rightarrow> string \<times> string \<Rightarrow> int \<Rightarrow> bool" where
  "blocking m k now \<longleftrightarrow>
     (\<exists>r. m k = Some r \<and> (row_status r = Processing \<or> row_status r = Succeeded) \<and>
          now < row_expires_at r)"

text \<open>An executor error puts the key into its backoff window, unless the store is unavailable.\<close>

definition backed_off :: "idem_view \<Rightarrow> string \<times> string \<Rightarrow> string \<Rightarrow> int \<Rightarrow> int \<Rightarrow> bool" where
  "backed_off m k fp lock ex \<longleftrightarrow>
     (\<exists>r. m k = Some r \<and> row_status r = FailedRetryable \<and> row_fingerprint r = fp \<and>
          row_locked_until r = Some lock \<and> row_expires_at r = ex)"

lemma settled_blocking: "settled m k fp body ex \<Longrightarrow> now < ex \<Longrightarrow> blocking m k now"
  by (auto simp: settled_def blocking_def)

lemma owned_blocking: "owned m k i fp l ex \<Longrightarrow> now < ex \<Longrightarrow> blocking m k now"
  by (auto simp: owned_def blocking_def)

lemma upd_id_at:
  "m k = Some r \<Longrightarrow> upd_id i p f m k = Some (if row_id r = i \<and> p r then f r else r)"
  by (simp add: upd_id_def)

lemma hit_id_at: "view_ok m \<Longrightarrow> m k = Some r \<Longrightarrow> hit_id (row_id r) p m \<longleftrightarrow> p r"
  unfolding hit_id_def view_ok_def by (metis option.inject)

lemma view_ok_pos: "view_ok m \<Longrightarrow> m k = Some r \<Longrightarrow> 0 < row_id r"
  unfolding view_ok_def by blast

lemma owned_reclaim:
  "m k = Some r \<Longrightarrow> reclaimable st now r \<Longrightarrow>
   owned (upd_id (row_id r) (reclaimable st now) (reclaim_row l ex t) m) k (row_id r)
     (row_fingerprint r) l ex"
  by (simp add: owned_def upd_id_at reclaim_row_def)

lemma owned_new_row:
  "row_status rec = Processing \<Longrightarrow> row_locked_until rec = Some l \<Longrightarrow> row_expires_at rec = ex \<Longrightarrow>
   owned (m(row_key rec \<mapsto> new_row rec i t)) (row_key rec) i (row_fingerprint rec) l ex"
  by (simp add: owned_def new_row_def)

lemma owned_succeed:
  "owned m k i fp l ex \<Longrightarrow>
   settled (upd_id i (\<lambda>_. True) (succeed_row code body ex' t) m) k fp body ex'"
  by (auto simp: owned_def settled_def upd_id_at succeed_row_def)

text \<open>The only way to a claim through the status switch is the reclaim of a failed row.\<close>

lemma resolve_status_Claimed:
  "resolve_status repo env r now l ex s = (Claimed i, s') \<Longrightarrow>
   row_status r = FailedRetryable \<and> i = row_id r \<and>
   TryReclaim repo (row_id r) FailedRetryable now l ex s = (Inr True, s')"
  by (auto simp: resolve_status_def split: idem_status.splits option.splits prod.splits
      sum.splits bool.splits if_splits)

text \<open>A claim that ends the request with a result ends it with a replay.\<close>

lemma resolve_status_replays:
  "resolve_status repo env r now l ex s = (Done (Inr (Result v b)), s') \<Longrightarrow> b"
  by (auto simp: resolve_status_def split: idem_status.splits option.splits prod.splits
      sum.splits bool.splits if_splits)

lemma claim_key_replays:
  "claim_key repo env sc kh fp now l ex s = (Done (Inr (Result v b)), s') \<Longrightarrow> b"
  by (auto simp: claim_key_def claim_existing_def Let_def dest: resolve_status_replays
      split: prod.splits sum.splits bool.splits option.splits if_splits)

text \<open>
  \<open>keyed env opts k fp\<close>: the request carries a key; \<open>k\<close> is its (scope, key hash) and \<open>fp\<close> the
  fingerprint of its payload. Such a request is a claim followed by a run.
\<close>

definition keyed :: "('p, 'v, 'e) idem_env \<Rightarrow> 'p idem_options \<Rightarrow> string \<times> string \<Rightarrow> string \<Rightarrow> bool" where
  "keyed env opts k fp \<longleftrightarrow> opt_scope opts \<noteq> [] \<and>
     (case NormalizeIdempotencyKey (opt_key opts) :: 'e idem_error + string of
        Inl _ \<Rightarrow> False
      | Inr key \<Rightarrow> key \<noteq> [] \<and> k = (opt_scope opts, sha256_hex env key)) \<and>
     BuildIdempotencyFingerprint env (opt_method opts) (opt_route opts) (opt_actor opts)
       (opt_payload opts) = (Inr fp :: 'e idem_error + string)"

lemma Execute_keyed:
  assumes "keyed env opts k fp"
  shows "Execute (Some repo) env cfg opts (Some f) now later s x =
    (case claim_key repo env (fst k) (snd k) fp now (now + ProcessingTimeout cfg)
            (now + effective_ttl cfg opts) s of
       (Done r, s') \<Rightarrow> (r, s', x)
     | (Claimed i, s') \<Rightarrow> run_claimed repo env cfg i (now + effective_ttl cfg opts) later f s' x)"
  using assms by (auto simp: keyed_def Execute_def HashIdempotencyKey_def Let_def split: sum.splits)

context idem_store
begin

lemma reclaim_owned:
  assumes inv: "inv s" and v: "view s k = Some r"
    and c: "TryReclaim repo (row_id r) st now l ex s = (Inr True, s')"
  shows "owned (view s') k (row_id r) (row_fingerprint r) l ex \<and> reclaimable st now r"
proof -
  have "hit_id (row_id r) (reclaimable st now) (view s)"
    and w: "view s' = upd_id (row_id r) (reclaimable st now) (reclaim_row l ex (clk s)) (view s)"
    using reclaim_Inr [OF inv c] by simp_all
  then have "reclaimable st now r" using hit_id_at [OF view_ok [OF inv] v] by simp
  then show ?thesis using owned_reclaim [of "view s" k r st now l ex "clk s", OF v] by (simp add: w)
qed

text \<open>Operations that answer keep the invariant; this is all the claim needs of the other branches.\<close>

lemma inv_steps:
  "inv s \<Longrightarrow> CreateProcessing repo rec s = (x1, s') \<Longrightarrow> inv s'"
  "inv s \<Longrightarrow> GetByScopeAndKeyHash repo sc kh s = (x2, s') \<Longrightarrow> inv s'"
  "inv s \<Longrightarrow> TryReclaim repo i st now l ex s = (x3, s') \<Longrightarrow> inv s'"
  "inv s \<Longrightarrow> MarkSucceeded repo i code body ex s = (x4, s') \<Longrightarrow> inv s'"
  "inv s \<Longrightarrow> MarkFailedRetryable repo i reason l ex s = (x5, s') \<Longrightarrow> inv s'"
  using create_inv [of s rec] get_inv [of s sc kh] reclaim_inv [of s i st now l ex]
    succeed_inv [of s i code body ex] fail_inv [of s i reason l ex]
  by auto

lemma get_same: "GetByScopeAndKeyHash repo sc kh s = (x, s') \<Longrightarrow> view s' = view s"
  using get_view [of sc kh s] by simp

lemma resolve_Claimed:
  assumes inv: "inv s" and v: "view s k = Some r"
    and c: "resolve_status repo env r now l ex s = (Claimed i, s')"
  shows "inv s' \<and> owned (view s') k i (row_fingerprint r) l ex \<and> i = row_id r"
proof -
  from resolve_status_Claimed [OF c] have i: "i = row_id r"
    and t: "TryReclaim repo (row_id r) FailedRetryable now l ex s = (Inr True, s')" by simp_all
  show ?thesis using inv_steps(3) [OF inv t] reclaim_owned [OF inv v t] i by simp
qed

lemma claim_existing_Claimed:
  assumes inv: "inv s"
    and c: "claim_existing repo env sc kh fp now l ex s = (Claimed i, s')"
  shows "inv s' \<and> i > 0 \<and> owned (view s') (sc, kh) i fp l ex"
proof -
  obtain r s1 where g: "GetByScopeAndKeyHash repo sc kh s = (Inr (Some r), s1)"
    and fp: "row_fingerprint r = fp"
    using c by (auto simp: claim_existing_def split: prod.splits sum.splits option.splits if_splits)
  have inv1: "inv s1" and v1: "view s1 (sc, kh) = Some r"
    using inv_steps(2) [OF inv g] get_Inr [OF g] get_same [OF g] by simp_all
  have id: "row_id r > 0" if "view s' (sc, kh) = Some r" "inv s'" for s' r
    using view_ok [OF that(2)] that(1) by (auto simp: view_ok_def)
  show ?thesis
  proof (cases "row_expires_at r \<le> now")
    case False
    with c g fp have res: "resolve_status repo env r now l ex s1 = (Claimed i, s')"
      by (simp add: claim_existing_def)
    show ?thesis using resolve_Claimed [OF inv1 v1 res] fp id [OF v1 inv1] by auto
  next
    case True
    obtain b s2 where t: "TryReclaim repo (row_id r) (row_status r) now l ex s1 = (Inr b, s2)"
      using c g fp True
      by (auto simp: claim_existing_def split: prod.splits sum.splits)
    have inv2: "inv s2" by (rule inv_steps(3) [OF inv1 t])
    show ?thesis
    proof (cases b)
      case True
      with c g fp \<open>row_expires_at r \<le> now\<close> t have "i = row_id r" "s' = s2"
        by (simp_all add: claim_existing_def)
      then show ?thesis
        using reclaim_owned [OF inv1 v1] t True fp inv2 id [OF v1 inv1] by auto
    next
      case False
      obtain r' s3 where g': "GetByScopeAndKeyHash repo sc kh s2 = (Inr (Some r'), s3)"
        and fp': "row_fingerprint r' = fp"
        and res: "resolve_status repo env r' now l ex s3 = (Claimed i, s')"
        using c g fp \<open>row_expires_at r \<le> now\<close> t False
        by (auto simp: claim_existing_def split: prod.splits sum.splits option.splits if_splits)
      have inv3: "inv s3" and v3: "view s3 (sc, kh) = Some r'"
        using inv_steps(2) [OF inv2 g'] get_Inr [OF g'] get_same [OF g'] by simp_all
      show ?thesis using resolve_Claimed [OF inv3 v3 res] fp' id [OF v3 inv3] by auto
    qed
  qed
qed

lemma claim_key_Claimed:
  assumes inv: "inv s" and c: "claim_key repo env sc kh fp now l ex s = (Claimed i, s')"
  shows "inv s' \<and> i > 0 \<and> owned (view s') (sc, kh) i fp l ex"
proof -
  define rec where "rec =
    \<lparr>row_id = 0, row_scope = sc, row_key_hash = kh, row_fingerprint = fp, row_status = Processing,
     row_response_status = None, row_response_body = None, row_error_reason = None,
     row_locked_until = Some l, row_expires_at = ex, row_created_at = 0, row_updated_at = 0\<rparr>"
  have key: "row_key rec = (sc, kh)" by (simp add: rec_def row_key_def)
  obtain b rec' s1 where cr: "CreateProcessing repo rec s = (Inr (b, rec'), s1)"
    using c by (auto simp: claim_key_def rec_def split: prod.splits sum.splits bool.splits)
  have inv1: "inv s1" by (rule inv_steps(1) [OF inv cr])
  show ?thesis
  proof (cases b)
    case True
    with c cr have "i = row_id rec'" "s' = s1"
      by (simp_all add: claim_key_def rec_def)
    moreover from cr True create_True [OF inv, of rec rec' s1] have "row_id rec' > 0"
      "view s1 = (view s)(row_key rec \<mapsto> new_row rec (row_id rec') (clk s))" by simp_all
    moreover have "owned ((view s)(row_key rec \<mapsto> new_row rec (row_id rec') (clk s))) (row_key rec)
        (row_id rec') (row_fingerprint rec) l ex"
      by (rule owned_new_row) (simp_all add: rec_def)
    ultimately show ?thesis using inv1 key by (simp add: rec_def)
  next
    case False
    with c cr have "claim_existing repo env sc kh fp now l ex s1 = (Claimed i, s')"
      by (simp add: claim_key_def rec_def)
    then show ?thesis by (rule claim_existing_Claimed [OF inv1])
  qed
qed

subsection \<open>Running after a claim\<close>

lemma run_settles:
  assumes inv: "inv s" and own: "owned (view s) k i fp l ex0"
    and r: "run_claimed repo env cfg i ex later f s x = (Inr (Result v b), s', x')"
  shows "inv s' \<and> b = False \<and> f x = (Inr v, x') \<and>
         (\<exists>body. marshalStoredResponse env cfg v = Some body \<and> settled (view s') k fp body ex)"
proof -
  obtain body u where f: "f x = (Inr v, x')" and m: "marshalStoredResponse env cfg v = Some body"
    and ms: "MarkSucceeded repo i 200 body ex s = (Inr u, s')" and b: "b = False"
    using r by (auto simp: run_claimed_def Let_def split: if_splits prod.splits sum.splits option.splits)
  have "settled (view s') k fp body ex"
    using succeed_Inr [OF inv ms] owned_succeed [OF own] by simp
  with f m b inv_steps(4) [OF inv ms] show ?thesis by simp
qed

lemma run_fails:
  assumes inv: "inv s" and "up s" and own: "owned (view s) k i fp l ex0" and i: "i \<noteq> 0"
    and f: "f x = (Inl e, x')"
    and r: "run_claimed repo env cfg i ex later f s x = (res, s', x'')"
  shows "inv s' \<and> res = Inl (ExecFailed e) \<and> x'' = x' \<and> up s' \<and>
         backed_off (view s') k fp (later + FailedRetryBackoff cfg) ex"
proof -
  define reason where "reason = (if err_reason env e = [] then ''EXECUTION_FAILED'' else err_reason env e)"
  obtain u s2 where mf: "MarkFailedRetryable repo i reason (later + FailedRetryBackoff cfg) ex s = (u, s2)"
    by (cases "MarkFailedRetryable repo i reason (later + FailedRetryBackoff cfg) ex s")
  have res: "s2 = s'" "res = Inl (ExecFailed e)" "x'' = x'"
    using r f i mf by (simp_all add: run_claimed_def reason_def Let_def)
  have "\<not> isl u" "up s'" using up_fail [OF \<open>up s\<close>, of i reason] mf res by (metis fst_conv snd_conv)+
  then obtain u' where "MarkFailedRetryable repo i reason (later + FailedRetryBackoff cfg) ex s = (Inr u', s')"
    using mf res by (cases u) auto
  from fail_Inr [OF inv this] have "backed_off (view s') k fp (later + FailedRetryBackoff cfg) ex"
    using own by (auto simp: owned_def backed_off_def upd_id_at fail_row_def)
  with res inv_steps(5) [OF inv mf] \<open>up s'\<close> show ?thesis by simp
qed

subsection \<open>A blocked key\<close>

lemma create_blocked:
  assumes "inv s" and "view s (row_key rec) \<noteq> None"
  shows "view (snd (CreateProcessing repo rec s)) = view s"
    and "CreateProcessing repo rec s = (Inr (b, rec'), s') \<Longrightarrow> b = False"
  using create_view [of s rec] create_True [of s rec rec' s'] assms by (cases b; auto)+

lemma claim_blocked:
  assumes inv: "inv s" and bl: "blocking (view s) (sc, kh) now"
    and c: "claim_key repo env sc kh fp now l ex s = (res, s')"
  shows "(\<exists>r. res = Done r \<and> (\<forall>v b. r = Inr (Result v b) \<longrightarrow> b)) \<and> view s' = view s \<and> inv s'"
proof -
  define rec where "rec =
    \<lparr>row_id = 0, row_scope = sc, row_key_hash = kh, row_fingerprint = fp, row_status = Processing,
     row_response_status = None, row_response_body = None, row_error_reason = None,
     row_locked_until = Some l, row_expires_at = ex, row_created_at = 0, row_updated_at = 0\<rparr>"
  have key: "row_key rec = (sc, kh)" by (simp add: rec_def row_key_def)
  from bl obtain r where r: "view s (sc, kh) = Some r" "now < row_expires_at r"
    and st: "row_status r = Processing \<or> row_status r = Succeeded" by (auto simp: blocking_def)
  obtain cr s1 where cr: "CreateProcessing repo rec s = (cr, s1)"
    by (cases "CreateProcessing repo rec s")
  have v1: "view s1 = view s" and inv1: "inv s1"
    using create_blocked(1) [OF inv, of rec] create_inv [OF inv, of rec] r cr key by simp_all
  show ?thesis
  proof (cases cr)
    case (Inl e)
    with c cr have "res = Done (Inl StoreUnavail)" "s' = s1"
      by (simp_all add: claim_key_def rec_def)
    with v1 inv1 show ?thesis by simp
  next
    case (Inr br)
    then obtain rec' where "cr = Inr (False, rec')"
      using create_blocked(2) [OF inv, of rec] r cr key by (cases br) auto
    with c cr have ce: "claim_existing repo env sc kh fp now l ex s1 = (res, s')"
      by (simp add: claim_key_def rec_def)
    obtain g s2 where g: "GetByScopeAndKeyHash repo sc kh s1 = (g, s2)"
      by (cases "GetByScopeAndKeyHash repo sc kh s1")
    have v2: "view s2 = view s" and inv2: "inv s2"
      using get_same [OF g] inv_steps(2) [OF inv1 g] v1 by simp_all
    have "g = Inr (Some r) \<or> (\<exists>e. g = Inl e)"
      using get_Inr [of sc kh s1 _ s2] g v1 r by (cases g) auto
    with ce g r st have "(\<exists>r. res = Done r \<and> (\<forall>v b. r = Inr (Result v b) \<longrightarrow> b)) \<and> s' = s2"
      by (auto simp: claim_existing_def resolve_status_def split: if_splits option.splits)
    with v2 inv2 show ?thesis by simp
  qed
qed

text \<open>
  While a row blocks its key, no request with that key runs its executor, whatever its payload and
  whatever fails in the store: the application state is unchanged, the store is unchanged, and a
  successful answer is a replay.
\<close>

lemma Execute_blocked:
  assumes inv: "inv s" and key: "NormalizeIdempotencyKey (opt_key opts) = (Inr key :: 'e idem_error + string)"
    and "key \<noteq> []" and bl: "blocking (view s) (opt_scope opts, sha256_hex env key) now"
    and ex: "Execute (Some repo) env cfg opts exec now later s x = (res, s', x')"
  shows "x' = x \<and> view s' = view s \<and> inv s' \<and>
         (\<forall>v b. (res :: 'e idem_error + 'v idem_result) = Inr (Result v b) \<longrightarrow> b)"
proof (cases "exec = None \<or> opt_scope opts = [] \<or>
    (\<exists>e. (BuildIdempotencyFingerprint env (opt_method opts) (opt_route opts) (opt_actor opts)
              (opt_payload opts) :: 'e idem_error + string) = Inl e)")
  case True
  then have "x' = x \<and> s' = s \<and> (\<exists>e. res = Inl e)"
    using ex key \<open>key \<noteq> []\<close> by (auto simp: Execute_def split: option.splits if_splits)
  with inv show ?thesis by auto
next
  case False
  then obtain f fp where f: "exec = Some f" and fp: "BuildIdempotencyFingerprint env (opt_method opts)
      (opt_route opts) (opt_actor opts) (opt_payload opts) = (Inr fp :: 'e idem_error + string)"
    by (metis old.sum.exhaust option.exhaust)
  obtain c s1 where c: "claim_key repo env (opt_scope opts) (sha256_hex env key) fp now
      (now + ProcessingTimeout cfg) (now + effective_ttl cfg opts) s = (c, s1)"
    by (cases "claim_key repo env (opt_scope opts) (sha256_hex env key) fp now
      (now + ProcessingTimeout cfg) (now + effective_ttl cfg opts) s")
  from claim_blocked [OF inv bl c] obtain r where "c = Done r" "\<forall>v b. r = Inr (Result v b) \<longrightarrow> b"
    "view s1 = view s" "inv s1" by blast
  moreover have "res = r \<and> s' = s1 \<and> x' = x"
    using ex f fp key \<open>key \<noteq> []\<close> False c \<open>c = Done r\<close>
    by (simp add: Execute_def HashIdempotencyKey_def)
  ultimately show ?thesis by simp
qed

text \<open>A request that answers with a fresh result leaves the key settled.\<close>

lemma Execute_fresh:
  assumes inv: "inv s" and key: "NormalizeIdempotencyKey (opt_key opts) = (Inr key :: 'e idem_error + string)"
    and "key \<noteq> []"
    and ex: "Execute (Some repo) env cfg opts (Some f) now later s x =
               (Inr (Result v False) :: 'e idem_error + 'v idem_result, s', x')"
  shows "inv s' \<and> f x = (Inr v, x') \<and>
         (\<exists>fp body. BuildIdempotencyFingerprint env (opt_method opts) (opt_route opts) (opt_actor opts)
              (opt_payload opts) = (Inr fp :: 'e idem_error + string) \<and>
            marshalStoredResponse env cfg v = Some body \<and>
            settled (view s') (opt_scope opts, sha256_hex env key) fp body (now + effective_ttl cfg opts))"
proof -
  obtain fp where fp: "BuildIdempotencyFingerprint env (opt_method opts)
      (opt_route opts) (opt_actor opts) (opt_payload opts) = (Inr fp :: 'e idem_error + string)"
    using ex key \<open>key \<noteq> []\<close> by (auto simp: Execute_def split: if_splits sum.splits)
  obtain c s1 where c: "claim_key repo env (opt_scope opts) (sha256_hex env key) fp now
      (now + ProcessingTimeout cfg) (now + effective_ttl cfg opts) s = (c, s1)"
    by (cases "claim_key repo env (opt_scope opts) (sha256_hex env key) fp now
      (now + ProcessingTimeout cfg) (now + effective_ttl cfg opts) s")
  show ?thesis
  proof (cases c)
    case (Claimed i)
    with ex key \<open>key \<noteq> []\<close> fp c have run: "run_claimed repo env cfg i (now + effective_ttl cfg opts) later f s1 x
        = (Inr (Result v False), s', x')"
      by (simp add: Execute_def HashIdempotencyKey_def split: if_splits)
    from claim_key_Claimed [OF inv c [unfolded Claimed]] have "inv s1"
      "owned (view s1) (opt_scope opts, sha256_hex env key) i fp (now + ProcessingTimeout cfg)
         (now + effective_ttl cfg opts)" by simp_all
    from run_settles [OF this run] fp show ?thesis by auto
  next
    case (Done r)
    with ex key \<open>key \<noteq> []\<close> fp c have r: "r = Inr (Result v False)"
      by (simp add: Execute_def HashIdempotencyKey_def split: if_splits)
    from claim_key_replays [OF c [unfolded Done r]] show ?thesis by simp
  qed
qed

subsection \<open>When the store answers\<close>

lemma upI: "\<not> isl x \<Longrightarrow> \<exists>a. x = Inr a"
  by (cases x) auto

lemma claim_fresh:
  assumes inv: "inv s" and "up s" and v: "view s (sc, kh) = None"
    and c: "claim_key repo env sc kh fp now l ex s = (res, s')"
  shows "\<exists>i. res = Claimed i \<and> i > 0 \<and> up s' \<and> inv s' \<and> owned (view s') (sc, kh) i fp l ex"
proof -
  define rec where "rec =
    \<lparr>row_id = 0, row_scope = sc, row_key_hash = kh, row_fingerprint = fp, row_status = Processing,
     row_response_status = None, row_response_body = None, row_error_reason = None,
     row_locked_until = Some l, row_expires_at = ex, row_created_at = 0, row_updated_at = 0\<rparr>"
  have key: "row_key rec = (sc, kh)" by (simp add: rec_def row_key_def)
  obtain b rec' s1 where cr: "CreateProcessing repo rec s = (Inr (b, rec'), s1)" and "up s1"
    using up_create [OF \<open>up s\<close>, of rec] by (metis prod.exhaust_sel upI)
  have "b" using create_False [OF inv, of rec rec' s1] cr key v by (cases b) auto
  with c cr have res: "res = Claimed (row_id rec')" "s' = s1"
    by (simp_all add: claim_key_def rec_def)
  from claim_key_Claimed [OF inv c [unfolded res(1)]] \<open>up s1\<close> res show ?thesis by auto
qed

text \<open>A key whose row is not expired is resolved by the status switch on that row.\<close>

lemma claim_live:
  assumes inv: "inv s" and "up s" and v: "view s (sc, kh) = Some r" and live: "now < row_expires_at r"
    and c: "claim_key repo env sc kh fp now l ex s = (res, s')"
  shows "\<exists>s1. up s1 \<and> inv s1 \<and> view s1 = view s \<and>
    (row_fingerprint r \<noteq> fp \<longrightarrow> res = Done (Inl KeyConflict) \<and> s' = s1) \<and>
    (row_fingerprint r = fp \<longrightarrow> resolve_status repo env r now l ex s1 = (res, s'))"
proof -
  define rec where "rec =
    \<lparr>row_id = 0, row_scope = sc, row_key_hash = kh, row_fingerprint = fp, row_status = Processing,
     row_response_status = None, row_response_body = None, row_error_reason = None,
     row_locked_until = Some l, row_expires_at = ex, row_created_at = 0, row_updated_at = 0\<rparr>"
  have key: "row_key rec = (sc, kh)" by (simp add: rec_def row_key_def)
  obtain b rec' s1 where cr: "CreateProcessing repo rec s = (Inr (b, rec'), s1)" and "up s1"
    using up_create [OF \<open>up s\<close>, of rec] by (metis prod.exhaust_sel upI)
  have "\<not> b" using create_blocked(2) [OF inv, of rec b rec' s1] cr key v by auto
  with c cr have ce: "claim_existing repo env sc kh fp now l ex s1 = (res, s')"
    by (simp add: claim_key_def rec_def)
  have v1: "view s1 = view s" and inv1: "inv s1"
    using create_blocked(1) [OF inv, of rec] create_inv [OF inv, of rec] v cr key by simp_all
  obtain g s2 where g: "GetByScopeAndKeyHash repo sc kh s1 = (Inr g, s2)" and "up s2"
    using up_get [OF \<open>up s1\<close>, of sc kh] by (metis prod.exhaust_sel upI)
  have "g = Some r" "view s2 = view s" "inv s2"
    using get_Inr [OF g] get_same [OF g] inv_steps(2) [OF inv1 g] v v1 by simp_all
  with ce g \<open>up s2\<close> live show ?thesis by (auto simp: claim_existing_def)
qed

text \<open>A keyed request on a settled key of the same payload answers with the stored response.\<close>

lemma Execute_replays:
  assumes inv: "inv s" and "up s" and st: "settled (view s) k fp body ex" and "now < ex"
    and k: "keyed env opts k fp"
    and e: "Execute (Some repo) env cfg opts (Some f) now later s x = (res, s', x')"
  shows "view s' = view s \<and> x' = x \<and>
    res = (case decodeStoredResponse env (Some body) of
             None \<Rightarrow> Inl StoreUnavail | Some v \<Rightarrow> Inr (Result v True))"
proof -
  obtain sc kh where kk: "k = (sc, kh)" by (cases k)
  from st obtain r where r: "view s (sc, kh) = Some r" "now < row_expires_at r" "row_fingerprint r = fp"
    "row_status r = Succeeded" "row_response_body r = Some body"
    using \<open>now < ex\<close> kk by (auto simp: settled_def)
  obtain c s1 where c: "claim_key repo env sc kh fp now (now + ProcessingTimeout cfg)
      (now + effective_ttl cfg opts) s = (c, s1)"
    by (cases "claim_key repo env sc kh fp now (now + ProcessingTimeout cfg)
      (now + effective_ttl cfg opts) s")
  from claim_live [OF inv \<open>up s\<close> r(1,2) c] r(3) obtain s0 where "view s0 = view s"
    "resolve_status repo env r now (now + ProcessingTimeout cfg) (now + effective_ttl cfg opts) s0 = (c, s1)"
    by blast
  with c e Execute_keyed [OF k, of repo cfg f now later s x] r kk show ?thesis
    by (auto simp: resolve_status_def split: option.splits)
qed

lemma Execute_new_fails:
  assumes inv: "inv s" and "up s" and v: "view s k = None" and k: "keyed env opts k fp"
    and f: "f x = (Inl err, x1)"
    and e: "Execute (Some repo) env cfg opts (Some f) now later s x = (res, s', x')"
  shows "res = Inl (ExecFailed err) \<and> x' = x1 \<and> up s' \<and> inv s' \<and>
    backed_off (view s') k fp (later + FailedRetryBackoff cfg) (now + effective_ttl cfg opts)"
proof -
  obtain sc kh where kk: "k = (sc, kh)" by (cases k)
  obtain c s1 where c: "claim_key repo env sc kh fp now (now + ProcessingTimeout cfg)
      (now + effective_ttl cfg opts) s = (c, s1)"
    by (cases "claim_key repo env sc kh fp now (now + ProcessingTimeout cfg)
      (now + effective_ttl cfg opts) s")
  from claim_fresh [OF inv \<open>up s\<close> v [unfolded kk] c] obtain i where i: "c = Claimed i" "i \<noteq> 0"
    "up s1" "inv s1" "owned (view s1) (sc, kh) i fp (now + ProcessingTimeout cfg)
      (now + effective_ttl cfg opts)" by auto
  then have "run_claimed repo env cfg i (now + effective_ttl cfg opts) later f s1 x = (res, s', x')"
    using c e Execute_keyed [OF k, of repo cfg f now later s x] kk by simp
  from run_fails [OF i(4,3,5,2) f this] show ?thesis using kk by simp
qed

lemma Execute_in_backoff:
  assumes inv: "inv s" and "up s" and b: "backed_off (view s) k fp lock ex" and "now < ex" and "now < lock"
    and k: "keyed env opts k fp"
    and e: "Execute (Some repo) env cfg opts (Some f) now later s x = (res, s', x')"
  shows "res = Inl (RetryBackoff (conflictWithRetryAfter (Some lock) now)) \<and> x' = x \<and> view s' = view s"
proof -
  obtain sc kh where kk: "k = (sc, kh)" by (cases k)
  from b obtain r where r: "view s (sc, kh) = Some r" "now < row_expires_at r" "row_fingerprint r = fp"
    "row_status r = FailedRetryable" "row_locked_until r = Some lock"
    using \<open>now < ex\<close> kk by (auto simp: backed_off_def)
  obtain c s1 where c: "claim_key repo env sc kh fp now (now + ProcessingTimeout cfg)
      (now + effective_ttl cfg opts) s = (c, s1)"
    by (cases "claim_key repo env sc kh fp now (now + ProcessingTimeout cfg)
      (now + effective_ttl cfg opts) s")
  from claim_live [OF inv \<open>up s\<close> r(1,2) c] r(3) obtain s0 where "view s0 = view s"
    "resolve_status repo env r now (now + ProcessingTimeout cfg) (now + effective_ttl cfg opts) s0 = (c, s1)"
    by blast
  with c e Execute_keyed [OF k, of repo cfg f now later s x] r kk \<open>now < lock\<close> show ?thesis
    by (auto simp: resolve_status_def)
qed

text \<open>After the backoff the request is claimed again and runs.\<close>

lemma Execute_after_backoff:
  assumes inv: "inv s" and "up s" and b: "backed_off (view s) k fp lock ex" and "now < ex" and "lock \<le> now"
    and k: "keyed env opts k fp"
    and e: "Execute (Some repo) env cfg opts (Some f) now later s x = (res, s', x')"
  shows "x' = snd (f x)"
proof -
  obtain sc kh where kk: "k = (sc, kh)" by (cases k)
  from b obtain r where r: "view s (sc, kh) = Some r" "now < row_expires_at r" "row_fingerprint r = fp"
    "row_status r = FailedRetryable" "row_locked_until r = Some lock"
    using \<open>now < ex\<close> kk by (auto simp: backed_off_def)
  obtain c s1 where c: "claim_key repo env sc kh fp now (now + ProcessingTimeout cfg)
      (now + effective_ttl cfg opts) s = (c, s1)"
    by (cases "claim_key repo env sc kh fp now (now + ProcessingTimeout cfg)
      (now + effective_ttl cfg opts) s")
  from claim_live [OF inv \<open>up s\<close> r(1,2) c] r(3) obtain s0 where s0: "view s0 = view s" "up s0" "inv s0"
    "resolve_status repo env r now (now + ProcessingTimeout cfg) (now + effective_ttl cfg opts) s0 = (c, s1)"
    by blast
  obtain t s2 where t: "TryReclaim repo (row_id r) FailedRetryable now (now + ProcessingTimeout cfg)
      (now + effective_ttl cfg opts) s0 = (Inr t, s2)"
    using up_reclaim [OF \<open>up s0\<close>] by (metis prod.exhaust_sel upI)
  have "t" using reclaim_Inr [OF \<open>inv s0\<close> t] hit_id_at [OF view_ok [OF inv] r(1)] s0 r \<open>lock \<le> now\<close>
    by (simp add: reclaimable_def)
  with s0(4) t r \<open>lock \<le> now\<close> have "c = Claimed (row_id r)" by (simp add: resolve_status_def)
  moreover have "row_id r \<noteq> 0" using view_ok_pos [OF view_ok [OF inv] r(1)] by simp
  ultimately show ?thesis
    using c e Execute_keyed [OF k, of repo cfg f now later s x] kk
    by (auto simp: run_claimed_def Let_def split: prod.splits sum.splits option.splits)
qed

end

section \<open>Example requests\<close>

text \<open>
  A concrete environment for the witnesses: JSON texts are strings, the hash is the identity, and a
  text that ends in the truncation mark does not parse.
\<close>

definition ends_with :: "string \<Rightarrow> string \<Rightarrow> bool" where
  "ends_with s e \<longleftrightarrow> (\<exists>p. s = p @ e)"

lemma ends_with_code [code]: "ends_with s e \<longleftrightarrow> strip_prefix (rev e) (rev s) \<noteq> None"
proof -
  have "(\<exists>r. strip_prefix (rev e) (rev s) = Some r) \<longleftrightarrow> (\<exists>p. s = p @ e)"
    unfolding strip_prefix_append by (metis rev_append rev_rev_ident)
  then show ?thesis by (auto simp: ends_with_def)
qed

definition demo_env :: "(string, string, string) idem_env" where
  "demo_env = \<lparr>sha256_hex = (\<lambda>s. s), json_payload = Some, json_value = Some, redact_text = (\<lambda>s. s),
     json_parse = (\<lambda>s. if ends_with s truncation_mark then None else Some s), empty_object = ''{}'',
     err_reason = (\<lambda>s. s)\<rparr>"

definition demo_config :: idem_config where
  "demo_config = DefaultIdempotencyConfig\<lparr>MaxStoredResponseLen := 4\<rparr>"

definition demo_request :: "string idem_options" where
  "demo_request = \<lparr>opt_scope = ''admin'', opt_actor = [], opt_method = ''post'', opt_route = [],
     opt_key = '' k1 '', opt_payload = ''{}'', opt_ttl = 0, opt_require_key = True\<rparr>"

definition demo_world :: "idem_db world" where
  "demo_world = \<lparr>tables = \<lparr>idem_rows = [], idem_seq = 1\<rparr>, faults = [], dbnow = 0\<rparr>"

definition count_ok :: "string \<Rightarrow> nat \<Rightarrow> (string + string) \<times> nat" where
  "count_ok body n = (Inr body, Suc n)"

definition count_err :: "string \<Rightarrow> nat \<Rightarrow> (string + string) \<times> nat" where
  "count_err e n = (Inl e, Suc n)"

lemmas demo_defs = demo_env_def demo_config_def demo_request_def demo_world_def count_ok_def count_err_def

lemma demo_inv: "pg_inv demo_world" "pg_view demo_world k = None" "faultless demo_world"
  by (cases k, simp_all add: pg_inv_def db_ok_def pg_view_def demo_world_def)

lemma demo_key: "NormalizeIdempotencyKey (opt_key demo_request) = (Inr ''k1'' :: string idem_error + string)"
  by code_simp

lemma demo_keyed: "keyed demo_env demo_request (''admin'', ''k1'')
    (''POST'' @ newline @ ''/'' @ newline @ ''anonymous'' @ newline @ ''{}'')"
  unfolding keyed_def demo_key by code_simp

lemma demo_times: "effective_ttl demo_config demo_request = 24 * Hour"
  "ProcessingTimeout demo_config = 30 * Second"
  by (simp_all add: effective_ttl_def demo_config_def DefaultIdempotencyConfig_def demo_request_def)

lemma demo_Execute: "Execute (Some pg_repo) demo_env demo_config demo_request (Some f) now later demo_world x =
    (case claim_key pg_repo demo_env ''admin'' ''k1''
        (''POST'' @ newline @ ''/'' @ newline @ ''anonymous'' @ newline @ ''{}'') now
        (now + 30 * Second) (now + 24 * Hour) demo_world of
       (Done r, s') \<Rightarrow> (r, s', x)
     | (Claimed i, s') \<Rightarrow> run_claimed pg_repo demo_env demo_config i (now + 24 * Hour) later f s' x)"
  unfolding Execute_keyed [OF demo_keyed] demo_times by simp

section \<open>Properties\<close>


text \<open>
  C11. The replay: the same request is answered with the stored response, decoded.\<close>

theorem execute_replays_response:
  fixes env :: "('p, 'v, 'e) idem_env"
  assumes inv: "pg_inv w" and k: "keyed env opts k fp"
    and first: "Execute (Some pg_repo) env cfg opts (Some f) now later w x = (Inr (Result v False), w1, x1)"
    and w2: "tables w2 = tables w1" "faultless w2" and time: "now' < now + effective_ttl cfg opts"
    and second: "Execute (Some pg_repo) env cfg' opts (Some g) now' later' w2 x2 = (res, w3, x3)"
  shows "\<exists>body. marshalStoredResponse env cfg v = Some body \<and>
    res = (case decodeStoredResponse env (Some body) of
             None \<Rightarrow> Inl StoreUnavail | Some v' \<Rightarrow> Inr (Result v' True))"
proof -
  from k obtain key where key: "NormalizeIdempotencyKey (opt_key opts) = (Inr key :: 'e idem_error + string)"
    "key \<noteq> []" "k = (opt_scope opts, sha256_hex env key)"
    by (auto simp: keyed_def split: sum.splits)
  from pg.Execute_fresh [OF inv key(1,2) first] k key obtain body where inv1: "pg_inv w1"
    and m: "marshalStoredResponse env cfg v = Some body"
    and st: "settled (pg_view w1) k fp body (now + effective_ttl cfg opts)"
    by (auto simp: keyed_def)
  have "pg_inv w2" "settled (pg_view w2) k fp body (now + effective_ttl cfg opts)"
    using inv1 st pg_inv_cong [OF w2(1)] pg_view_cong [OF w2(1)] by simp_all
  from pg.Execute_replays [OF this(1) w2(2) this(2) time k second] m show ?thesis by blast
qed

text \<open>
  C25. A failed request may be retried, but not at once: it records the failure and the end of the
  backoff window; before that time the same request is refused with a positive \<open>retry_after\<close> and
  does not run, and from that time on it runs again.
\<close>

theorem execute_backs_off:
  fixes env :: "('p, 'v, 'e) idem_env"
  assumes inv: "pg_inv w" and up: "faultless w" and new: "pg_view w k = None" and k: "keyed env opts k fp"
    and f: "f x = (Inl err, x1)"
    and first: "Execute (Some pg_repo) env cfg opts (Some f) now later w x = (res1, w1, x1')"
    and w2: "tables w2 = tables w1" "faultless w2" and time: "now' < now + effective_ttl cfg opts"
    and second: "Execute (Some pg_repo) env cfg' opts (Some g) now' later' w2 x2 = (res, w3, x3)"
  shows "res1 = Inl (ExecFailed err) \<and> x1' = x1 \<and>
    (if now' < later + FailedRetryBackoff cfg
     then (\<exists>sec \<ge> 1. res = Inl (RetryBackoff (Some sec))) \<and> x3 = x2
     else x3 = snd (g x2))"
proof -
  from pg.Execute_new_fails [OF inv up new k f first] have r1: "res1 = Inl (ExecFailed err)" "x1' = x1"
    and inv2: "pg_inv w2"
    and b: "backed_off (pg_view w2) k fp (later + FailedRetryBackoff cfg) (now + effective_ttl cfg opts)"
    using pg_inv_cong [OF w2(1)] pg_view_cong [OF w2(1)] by simp_all
  have "\<exists>sec \<ge> 1. conflictWithRetryAfter (Some l) t = Some sec" for l t
    by (auto simp: conflictWithRetryAfter_def Let_def)
  then show ?thesis
    using r1 pg.Execute_in_backoff [OF inv2 w2(2) b time _ k second]
      pg.Execute_after_backoff [OF inv2 w2(2) b time _ k second] by force
qed

text \<open>
  C37. A response longer than \<open>MaxStoredResponseLen\<close> is stored truncated, with a mark appended that no JSON
  text ends in. Its request succeeds, but every repetition of it within the lifetime of the key is
  answered \<open>StoreUnavail\<close>, although the database works: such a result cannot be replayed.
\<close>

theorem truncated_response_never_replays:
  fixes env :: "('p, 'v, 'e) idem_env"
  assumes inv: "pg_inv w" and k: "keyed env opts k fp"
    and first: "Execute (Some pg_repo) env cfg opts (Some f) now later w x = (Inr (Result v False), w1, x1)"
    and long: "json_value env v = Some raw" "0 < MaxStoredResponseLen cfg"
      "MaxStoredResponseLen cfg < int (length (redact_text env raw))"
    and json: "\<And>s. json_parse env (s @ truncation_mark) = None"
    and w2: "tables w2 = tables w1" "faultless w2" and time: "now' < now + effective_ttl cfg opts"
    and second: "Execute (Some pg_repo) env cfg' opts (Some g) now' later' w2 x2 = (res, w3, x3)"
  shows "res = Inl StoreUnavail"
proof -
  obtain key where key: "NormalizeIdempotencyKey (opt_key opts) = (Inr key :: 'e idem_error + string)"
    "key \<noteq> []" "k = (opt_scope opts, sha256_hex env key)"
    using k by (auto simp: keyed_def split: sum.splits)
  from pg.Execute_fresh [OF inv key(1,2) first] k key obtain body where inv1: "pg_inv w1"
    and m: "marshalStoredResponse env cfg v = Some body"
    and st: "settled (pg_view w1) k fp body (now + effective_ttl cfg opts)"
    by (auto simp: keyed_def)
  from m long obtain s where body: "body = s @ truncation_mark"
    by (auto simp: marshalStoredResponse_def Let_def)
  have "CHR '')'' \<in> set (TrimSpace body)"
    by (rule TrimSpace_keeps) (simp_all add: body truncation_mark_def space_encodings_def)
  then have "decodeStoredResponse env (Some body) = None"
    using json by (auto simp: decodeStoredResponse_def body)
  moreover have "pg_inv w2" "settled (pg_view w2) k fp body (now + effective_ttl cfg opts)"
    using inv1 st pg_inv_cong [OF w2(1)] pg_view_cong [OF w2(1)] by simp_all
  ultimately show ?thesis
    using pg.Execute_replays [OF _ w2(2) _ time k second] by simp
qed

text \<open>
  Normalising a key yields no key, or between one and 128 printable ASCII bytes without blanks; and
  a normalised key is a fixed point.
\<close>

lemma normalized_key:
  assumes "NormalizeIdempotencyKey raw = (Inr key :: 'e idem_error + string)"
  shows "length key \<le> 128 \<and> (\<forall>c \<in> set key. 33 \<le> byte c \<and> byte c \<le> 126) \<and>
    NormalizeIdempotencyKey key = (Inr key :: 'e idem_error + string)"
proof (cases "key = []")
  case True
  then show ?thesis by (simp add: NormalizeIdempotencyKey_def)
next
  case False
  with assms have key: "length key \<le> 128" "\<forall>c \<in> set key. 33 \<le> byte c \<and> byte c \<le> 126"
    by (auto simp: NormalizeIdempotencyKey_def Let_def list_ex_iff not_less split: if_splits)
  have "\<forall>c \<in> blank_heads. byte c < 33 \<or> byte c > 126"
    by (simp add: blank_heads_def space_encodings_def)
  with key(2) have "set key \<inter> blank_heads = {}" by fastforce
  from TrimSpace_id [OF this] key False show ?thesis
    by (auto simp: NormalizeIdempotencyKey_def Let_def list_ex_iff not_less)
qed

section \<open>Witnesses\<close>

definition demo_run :: "string \<Rightarrow> (string idem_error + string idem_result) \<times> idem_db world \<times> nat" where
  "demo_run body = Execute (Some pg_repo) demo_env demo_config demo_request (Some (count_ok body)) 0 1
     demo_world 0"

definition demo_again :: "string \<Rightarrow> (string idem_error + string idem_result) \<times> idem_db world \<times> nat" where
  "demo_again body = Execute (Some pg_repo) demo_env demo_config demo_request (Some (count_ok ''new'')) 5 6
     (fst (snd (demo_run body))) 1"

lemma triple: "fst t = a \<Longrightarrow> t = (a, fst (snd t), snd (snd t))"
  by (cases t) auto

lemma demo_run_fresh: "fst (demo_run ''ok'') = Inr (Result ''ok'' False)"
  "fst (demo_run ''too long'') = Inr (Result ''too long'' False)"
  by code_simp+

lemma demo_run_faultless: "faultless (fst (snd (demo_run ''ok'')))"
  "faultless (fst (snd (demo_run ''too long'')))"
  unfolding faultless_def by code_simp+

lemma demo_time: "(5::int) < 0 + effective_ttl demo_config demo_request"
  by (simp add: demo_times)


theorem execute_replays_response_witness: "fst (demo_again ''ok'') = Inr (Result ''ok'' True)"
proof -
  note first = triple [OF demo_run_fresh(1), unfolded demo_run_def]
    and second = triple [OF refl, of "demo_again ''ok''", unfolded demo_again_def demo_run_def]
  from execute_replays_response [OF demo_inv(1) demo_keyed first refl
    demo_run_faultless(1) [unfolded demo_run_def] demo_time second]
  obtain body where "marshalStoredResponse demo_env demo_config ''ok'' = Some body"
    and r: "fst (demo_again ''ok'') = (case decodeStoredResponse demo_env (Some body) of
      None \<Rightarrow> Inl StoreUnavail | Some v' \<Rightarrow> Inr (Result v' True))"
    by (auto simp: demo_again_def demo_run_def)
  moreover have "marshalStoredResponse demo_env demo_config ''ok'' = Some ''ok''"
    "decodeStoredResponse demo_env (Some ''ok'') = Some ''ok''" by code_simp+
  ultimately show ?thesis by simp
qed

theorem truncated_response_never_replays_witness:
  "fst (demo_run ''too long'') = Inr (Result ''too long'' False) \<and>
   fst (demo_again ''too long'') = Inl StoreUnavail"
proof -
  note first = triple [OF demo_run_fresh(2), unfolded demo_run_def]
    and second = triple [OF refl, of "demo_again ''too long''", unfolded demo_again_def demo_run_def]
  have "json_value demo_env ''too long'' = Some ''too long''"
    "0 < MaxStoredResponseLen demo_config"
    "MaxStoredResponseLen demo_config < int (length (redact_text demo_env ''too long''))"
    "json_parse demo_env (s @ truncation_mark) = None" for s
    by (simp_all add: demo_env_def demo_config_def ends_with_def)
  from truncated_response_never_replays [OF demo_inv(1) demo_keyed first this refl
    demo_run_faultless(2) [unfolded demo_run_def] demo_time second]
  show ?thesis using demo_run_fresh(2) by (simp add: demo_again_def demo_run_def)
qed

definition demo_fail :: "(string idem_error + string idem_result) \<times> idem_db world \<times> nat" where
  "demo_fail = Execute (Some pg_repo) demo_env demo_config demo_request (Some (count_err ''E'')) 0 1
     demo_world 0"

definition demo_retry :: "int \<Rightarrow> (string idem_error + string idem_result) \<times> idem_db world \<times> nat" where
  "demo_retry t = Execute (Some pg_repo) demo_env demo_config demo_request (Some (count_ok ''new'')) t (t + 1)
     (fst (snd demo_fail)) 1"

theorem execute_backs_off_witness:
  "fst demo_fail = Inl (ExecFailed ''E'') \<and> snd (snd (demo_retry 5)) = 1 \<and>
   snd (snd (demo_retry (10 * Second))) = 2"
proof -
  have fl: "faultless (fst (snd demo_fail))" unfolding faultless_def by code_simp
  have f: "count_err ''E'' (0::nat) = (Inl ''E'', 1)" by (simp add: count_err_def)
  have t: "5 < 0 + effective_ttl demo_config demo_request"
    "10 * Second < 0 + effective_ttl demo_config demo_request" by (simp_all add: demo_times)
  note first = triple [OF refl, of demo_fail, unfolded demo_fail_def]
  have second: "demo_retry t = (fst (demo_retry t), fst (snd (demo_retry t)), snd (snd (demo_retry t)))" for t
    by simp
  note second = this [unfolded demo_retry_def demo_fail_def]
  note retry = execute_backs_off [OF demo_inv(1,3,2) demo_keyed f first refl fl [unfolded demo_fail_def]]
  from retry [OF t(1) second [of 5]] retry [OF t(2) second [of "10 * Second"]] show ?thesis
    by (simp add: demo_fail_def demo_retry_def demo_config_def DefaultIdempotencyConfig_def count_ok_def)
qed

lemma normalized_key_witness:
  "length ''k1'' \<le> 128 \<and> NormalizeIdempotencyKey ''k1'' = (Inr ''k1'' :: string idem_error + string)"
  using normalized_key [OF demo_key] by simp

end
