(* ===== verification/Idempotency_Interleaving.thy ===== *)
theory Idempotency_Interleaving
  imports Idempotency
begin

text \<open>
  Concurrent requests. \<open>Execute\<close> talks to the store in single statements, between which the
  statements of other requests (of other goroutines or servers) run. A client is one request; its
  program counter \<open>pc\<close> is the place in \<open>Execute\<close> it has reached, and \<open>claim_step\<close> is the piece of
  \<open>Execute\<close> up to the next statement. \<open>claim_key_steps\<close> shows that a client that runs alone behaves
  exactly as \<open>claim_key\<close>.
\<close>

datatype ('v, 'e) pc =
    Idle | Starting | Looking | ReclaimExpired idem_row | Relooking | ReclaimFailed idem_row
  | Running int | Ended "'e idem_error + 'v idem_result"

record request =
  rq_scope :: string
  rq_hash :: string
  rq_fp :: string
  rq_now :: int
  rq_lock :: int
  rq_expires :: int

definition rq_key :: "request \<Rightarrow> string \<times> string" where
  "rq_key q = (rq_scope q, rq_hash q)"

text \<open>The status switch up to its only statement.\<close>

definition status_pc :: "('p, 'v, 'e) idem_env \<Rightarrow> int \<Rightarrow> idem_row \<Rightarrow> ('v, 'e) pc" where
  "status_pc env now r =
     (case row_status r of
        Succeeded \<Rightarrow>
          (case decodeStoredResponse env (row_response_body r) of
             None \<Rightarrow> Ended (Inl StoreUnavail)
           | Some data \<Rightarrow> Ended (Inr (Result data True)))
      | Processing \<Rightarrow> Ended (Inl (InProgress (conflictWithRetryAfter (row_locked_until r) now)))
      | FailedRetryable \<Rightarrow>
          if (case row_locked_until r of None \<Rightarrow> False | Some l \<Rightarrow> l > now)
          then Ended (Inl (RetryBackoff (conflictWithRetryAfter (row_locked_until r) now)))
          else ReclaimFailed r
      | OtherStatus _ \<Rightarrow> Ended (Inl KeyConflict))"

fun claim_step :: "'s idem_repo \<Rightarrow> ('p, 'v, 'e) idem_env \<Rightarrow> request \<Rightarrow> ('v, 'e) pc \<Rightarrow> 's \<Rightarrow> ('v, 'e) pc \<times> 's"
where
  "claim_step repo env q Starting s =
     (case CreateProcessing repo
        \<lparr>row_id = 0, row_scope = rq_scope q, row_key_hash = rq_hash q, row_fingerprint = rq_fp q,
         row_status = Processing, row_response_status = None, row_response_body = None,
         row_error_reason = None, row_locked_until = Some (rq_lock q), row_expires_at = rq_expires q,
         row_created_at = 0, row_updated_at = 0\<rparr> s of
        (Inl _, s') \<Rightarrow> (Ended (Inl StoreUnavail), s')
      | (Inr (True, rec'), s') \<Rightarrow> (Running (row_id rec'), s')
      | (Inr (False, _), s') \<Rightarrow> (Looking, s'))"
| "claim_step repo env q Looking s =
     (case GetByScopeAndKeyHash repo (rq_scope q) (rq_hash q) s of
        (Inl _, s') \<Rightarrow> (Ended (Inl StoreUnavail), s')
      | (Inr None, s') \<Rightarrow> (Ended (Inl StoreUnavail), s')
      | (Inr (Some r), s') \<Rightarrow>
          (if row_fingerprint r \<noteq> rq_fp q then Ended (Inl KeyConflict)
           else if row_expires_at r \<le> rq_now q then ReclaimExpired r
           else status_pc env (rq_now q) r, s'))"
| "claim_step repo env q (ReclaimExpired r) s =
     (case TryReclaim repo (row_id r) (row_status r) (rq_now q) (rq_lock q) (rq_expires q) s of
        (Inl _, s') \<Rightarrow> (Ended (Inl StoreUnavail), s')
      | (Inr True, s') \<Rightarrow> (Running (row_id r), s')
      | (Inr False, s') \<Rightarrow> (Relooking, s'))"
| "claim_step repo env q Relooking s =
     (case GetByScopeAndKeyHash repo (rq_scope q) (rq_hash q) s of
        (Inl _, s') \<Rightarrow> (Ended (Inl StoreUnavail), s')
      | (Inr None, s') \<Rightarrow> (Ended (Inl StoreUnavail), s')
      | (Inr (Some r), s') \<Rightarrow>
          (if row_fingerprint r \<noteq> rq_fp q then Ended (Inl KeyConflict)
           else status_pc env (rq_now q) r, s'))"
| "claim_step repo env q (ReclaimFailed r) s =
     (case TryReclaim repo (row_id r) FailedRetryable (rq_now q) (rq_lock q) (rq_expires q) s of
        (Inl _, s') \<Rightarrow> (Ended (Inl StoreUnavail), s')
      | (Inr True, s') \<Rightarrow> (Running (row_id r), s')
      | (Inr False, s') \<Rightarrow>
          (Ended (Inl (InProgress (conflictWithRetryAfter (row_locked_until r) (rq_now q)))), s'))"
| "claim_step repo env q p s = (p, s)"

fun claim_run :: "nat \<Rightarrow> 's idem_repo \<Rightarrow> ('p, 'v, 'e) idem_env \<Rightarrow> request \<Rightarrow> ('v, 'e) pc \<Rightarrow> 's
  \<Rightarrow> ('v, 'e) pc \<times> 's" where
  "claim_run 0 repo env q p s = (p, s)"
| "claim_run (Suc n) repo env q p s =
     (case claim_step repo env q p s of (p', s') \<Rightarrow> claim_run n repo env q p' s')"

definition claim_pc :: "('v, 'e) claim \<Rightarrow> ('v, 'e) pc" where
  "claim_pc c = (case c of Claimed i \<Rightarrow> Running i | Done r \<Rightarrow> Ended r)"

lemma claim_run_absorbed [simp]:
  "claim_run n repo env q (Running i) s = (Running i, s)"
  "claim_run n repo env q (Ended r) s = (Ended r, s)"
  by (induction n) simp_all

lemma status_steps:
  "claim_run (Suc n) repo env q (status_pc env (rq_now q) r) s =
     (case resolve_status repo env r (rq_now q) (rq_lock q) (rq_expires q) s of
        (c, s') \<Rightarrow> (claim_pc c, s'))"
  by (auto simp: resolve_status_def status_pc_def claim_pc_def
      split: idem_status.splits option.splits prod.splits sum.splits bool.splits)

lemma claim_run_unfold:
  "claim_run (Suc n) repo env q Starting s =
     (case claim_step repo env q Starting s of (p', s') \<Rightarrow> claim_run n repo env q p' s')"
  "claim_run (Suc n) repo env q Looking s =
     (case claim_step repo env q Looking s of (p', s') \<Rightarrow> claim_run n repo env q p' s')"
  "claim_run (Suc n) repo env q Relooking s =
     (case claim_step repo env q Relooking s of (p', s') \<Rightarrow> claim_run n repo env q p' s')"
  "claim_run (Suc n) repo env q (ReclaimExpired r) s =
     (case claim_step repo env q (ReclaimExpired r) s of (p', s') \<Rightarrow> claim_run n repo env q p' s')"
  by simp_all

lemma existing_steps:
  "claim_run (Suc (Suc (Suc (Suc n)))) repo env q Looking s =
     (case claim_existing repo env (rq_scope q) (rq_hash q) (rq_fp q) (rq_now q) (rq_lock q)
             (rq_expires q) s of (c, s') \<Rightarrow> (claim_pc c, s'))"
  unfolding claim_existing_def
  by (simp add: claim_run_unfold status_steps claim_pc_def del: claim_run.simps(2)
      split: prod.split sum.split bool.split option.split)

text \<open>Five statements are enough for any claim.\<close>

lemma claim_key_steps:
  "claim_run 5 repo env q Starting s =
     (case claim_key repo env (rq_scope q) (rq_hash q) (rq_fp q) (rq_now q) (rq_lock q) (rq_expires q) s
      of (c, s') \<Rightarrow> (claim_pc c, s'))"
proof -
  have five: "(5::nat) = Suc (Suc (Suc (Suc (Suc 0))))" by simp
  show ?thesis
    unfolding five claim_key_def Let_def
    by (simp add: claim_run_unfold(1) existing_steps claim_pc_def del: claim_run.simps(2)
        split: prod.split sum.split bool.split)
qed

section \<open>The system of clients\<close>

text \<open>
  The clock advances while every request in flight is still inside its lock and its lifetime
  (\<open>prompt\<close>): this is the operating assumption of the design, a request ends within
  \<open>ProcessingTimeout\<close> and within its TTL. Clients are numbered; each may start a request for any
  scope, key and payload. The sweep may run at any time.
\<close>

record ('s, 'v, 'e) sys =
  store :: 's
  clock :: int
  pcs :: "nat \<Rightarrow> ('v, 'e) pc"
  reqs :: "nat \<Rightarrow> request"

fun in_flight :: "('v, 'e) pc \<Rightarrow> bool" where
  "in_flight Idle = False"
| "in_flight (Ended r) = False"
| "in_flight p = True"

fun claiming :: "('v, 'e) pc \<Rightarrow> bool" where
  "claiming Idle = False"
| "claiming (Running i) = False"
| "claiming (Ended r) = False"
| "claiming p = True"

fun runs :: "('v, 'e) pc \<Rightarrow> bool" where
  "runs (Running i) = True"
| "runs p = False"

definition prompt :: "int \<Rightarrow> ('s, 'v, 'e) sys \<Rightarrow> bool" where
  "prompt t z \<longleftrightarrow> (\<forall>c. in_flight (pcs z c) \<longrightarrow> t < rq_lock (reqs z c) \<and> t < rq_expires (reqs z c))"

inductive idem_step ::
  "'s idem_repo \<Rightarrow> ('p, 'v, 'e) idem_env \<Rightarrow> ('s, 'v, 'e) sys \<Rightarrow> ('s, 'v, 'e) sys \<Rightarrow> bool"
  for repo env where
  start: "pcs z c = Idle \<or> (\<exists>r. pcs z c = Ended r) \<Longrightarrow> 0 < timeout \<Longrightarrow> 0 < ttl \<Longrightarrow>
     idem_step repo env z
       (z\<lparr>pcs := (pcs z)(c := Starting),
          reqs := (reqs z)(c := \<lparr>rq_scope = sc, rq_hash = kh, rq_fp = fp, rq_now = clock z,
                                 rq_lock = clock z + timeout, rq_expires = clock z + ttl\<rparr>)\<rparr>)"
| claim: "claiming (pcs z c) \<Longrightarrow>
     claim_step repo env (reqs z c) (pcs z c) (store z) = (p, s') \<Longrightarrow>
     idem_step repo env z (z\<lparr>pcs := (pcs z)(c := p), store := s'\<rparr>)"
| succeed: "pcs z c = Running i \<Longrightarrow>
     MarkSucceeded repo i 200 body (rq_expires (reqs z c)) (store z) = (u, s') \<Longrightarrow>
     idem_step repo env z (z\<lparr>pcs := (pcs z)(c := Ended r), store := s'\<rparr>)"
| fail: "pcs z c = Running i \<Longrightarrow>
     MarkFailedRetryable repo i reason lock (rq_expires (reqs z c)) (store z) = (u, s') \<Longrightarrow>
     idem_step repo env z (z\<lparr>pcs := (pcs z)(c := Ended r), store := s'\<rparr>)"
| abandon: "pcs z c = Running i \<Longrightarrow> idem_step repo env z (z\<lparr>pcs := (pcs z)(c := Ended r)\<rparr>)"
| sweep: "idem_step repo env z (z\<lparr>store := cleanupOnce repo batch (clock z) (store z)\<rparr>)"
| tick: "clock z \<le> t \<Longrightarrow> prompt t z \<Longrightarrow> idem_step repo env z (z\<lparr>clock := t\<rparr>)"

inductive idem_reachable ::
  "'s idem_repo \<Rightarrow> ('p, 'v, 'e) idem_env \<Rightarrow> ('s, 'v, 'e) sys \<Rightarrow> ('s, 'v, 'e) sys \<Rightarrow> bool"
  for repo env z0 where
  init: "idem_reachable repo env z0 z0"
| step: "idem_reachable repo env z0 z \<Longrightarrow> idem_step repo env z z' \<Longrightarrow> idem_reachable repo env z0 z'"

section \<open>Mutual exclusion\<close>

text \<open>
  The invariant: a running client owns the row of its key, requests in flight are inside their lock
  and lifetime, the rows that claims still refer to are identifiers that belong to their own key for
  ever, and no two clients run for the same key.
\<close>

fun held_row :: "('v, 'e) pc \<Rightarrow> idem_row option" where
  "held_row (ReclaimExpired r) = Some r"
| "held_row (ReclaimFailed r) = Some r"
| "held_row p = None"

context idem_store_ids
begin

definition held_ok :: "'s \<Rightarrow> ('v, 'e) pc \<Rightarrow> request \<Rightarrow> bool" where
  "held_ok s p q \<longleftrightarrow>
     (\<forall>r. held_row p = Some r \<longrightarrow> row_id r \<in> used s \<and> row_fingerprint r = rq_fp q \<and>
          (\<forall>k r'. view s k = Some r' \<longrightarrow> row_id r' = row_id r \<longrightarrow>
             k = rq_key q \<and> row_fingerprint r' = rq_fp q))"

definition runs_ok :: "'s \<Rightarrow> ('v, 'e) pc \<Rightarrow> request \<Rightarrow> bool" where
  "runs_ok s p q \<longleftrightarrow>
     (\<forall>i. p = Running i \<longrightarrow> owned (view s) (rq_key q) i (rq_fp q) (rq_lock q) (rq_expires q))"

definition sys_inv :: "('s, 'v, 'e) sys \<Rightarrow> bool" where
  "sys_inv z \<longleftrightarrow> inv (store z) \<and> prompt (clock z) z \<and>
     (\<forall>c. in_flight (pcs z c) \<longrightarrow> rq_now (reqs z c) \<le> clock z) \<and>
     (\<forall>c. held_ok (store z) (pcs z c) (reqs z c)) \<and>
     (\<forall>c. runs_ok (store z) (pcs z c) (reqs z c)) \<and>
     (\<forall>c d. runs (pcs z c) \<longrightarrow> runs (pcs z d) \<longrightarrow> rq_key (reqs z c) = rq_key (reqs z d) \<longrightarrow> c = d)"

text \<open>
  What every statement does to the other clients: rows keep identifier and fingerprint, and a row
  that appears has an identifier that was never used.
\<close>

definition evolves :: "'s \<Rightarrow> 's \<Rightarrow> bool" where
  "evolves s s' \<longleftrightarrow> inv s' \<and> used s \<subseteq> used s' \<and>
     (\<forall>k r'. view s' k = Some r' \<longrightarrow>
        (\<exists>r. view s k = Some r \<and> row_id r = row_id r' \<and> row_fingerprint r = row_fingerprint r') \<or>
        row_id r' \<notin> used s)"

lemma held_ok_evolves: "evolves s s' \<Longrightarrow> held_ok s p q \<Longrightarrow> held_ok s' p q"
  unfolding held_ok_def evolves_def by (metis subsetD)

lemma evolves_same: "inv s' \<Longrightarrow> used s \<subseteq> used s' \<Longrightarrow> view s' = view s \<Longrightarrow> evolves s s'"
  by (auto simp: evolves_def)

lemma evolves_upd:
  assumes "inv s'" and "used s \<subseteq> used s'" and "view s' = view s \<or> view s' = upd_id i p f (view s)"
    and f: "\<And>r. row_id (f r) = row_id r \<and> row_fingerprint (f r) = row_fingerprint r"
  shows "evolves s s'"
  using assms(3)
proof
  assume v: "view s' = upd_id i p f (view s)"
  have "\<exists>r. view s k = Some r \<and> row_id r = row_id r' \<and> row_fingerprint r = row_fingerprint r'"
    if "view s' k = Some r'" for k r'
    using that f unfolding v upd_id_def by (auto split: if_splits)
  with assms(1,2) show ?thesis unfolding evolves_def by blast
qed (use assms(1,2) evolves_same in blast)

lemma evolves_create:
  assumes "inv s" and c: "CreateProcessing repo rec s = (x, s')"
  shows "evolves s s'"
proof -
  have s': "s' = snd (CreateProcessing repo rec s)" using c by simp
  have i: "inv s'" "used s \<subseteq> used s'"
    using create_inv [OF \<open>inv s\<close>, of rec] create_used [OF \<open>inv s\<close>, of rec] s' by simp_all
  from create_view [OF \<open>inv s\<close>, of rec] consider "view s' = view s"
    | j where "view s (row_key rec) = None" "view s' = (view s)(row_key rec \<mapsto> new_row rec j (clk s))"
    unfolding s' by blast
  then show ?thesis
  proof cases
    case 1
    with i show ?thesis by (rule evolves_same)
  next
    case 2
    then have "row_id (new_row rec j (clk s)) \<notin> used s"
      using create_fresh [OF \<open>inv s\<close>, of rec "new_row rec j (clk s)"] s' by simp
    with i 2 show ?thesis by (auto simp: evolves_def)
  qed
qed

lemma evolves_get: "inv s \<Longrightarrow> GetByScopeAndKeyHash repo sc kh s = (x, s') \<Longrightarrow> evolves s s'"
  using evolves_same [of s' s] get_inv [of s sc kh] get_view [of sc kh s] get_used [of s sc kh] by simp

lemma evolves_reclaim:
  assumes "inv s" and "TryReclaim repo i st now l ex s = (x, s')"
  shows "evolves s s'"
proof (rule evolves_upd)
  show "view s' = view s \<or> view s' = upd_id i (reclaimable st now) (reclaim_row l ex (clk s)) (view s)"
    using reclaim_view [OF assms(1), of i st now l ex] assms(2) by simp
qed (use assms reclaim_inv [of s i st now l ex] reclaim_used [of s i st now l ex] in
    \<open>simp_all add: reclaim_row_def\<close>)

lemma evolves_succeed:
  assumes "inv s" and "MarkSucceeded repo i code body ex s = (x, s')"
  shows "evolves s s'"
proof (rule evolves_upd)
  show "view s' = view s \<or> view s' = upd_id i (\<lambda>_. True) (succeed_row code body ex (clk s)) (view s)"
    using succeed_view [OF assms(1), of i code body ex] assms(2) by simp
qed (use assms succeed_inv [of s i code body ex] succeed_used [of s i code body ex] in
    \<open>simp_all add: succeed_row_def\<close>)

lemma evolves_fail:
  assumes "inv s" and "MarkFailedRetryable repo i reason l ex s = (x, s')"
  shows "evolves s s'"
proof (rule evolves_upd)
  show "view s' = view s \<or> view s' = upd_id i (\<lambda>_. True) (fail_row reason l ex (clk s)) (view s)"
    using fail_view [OF assms(1), of i reason l ex] assms(2) by simp
qed (use assms fail_inv [of s i reason l ex] fail_used [of s i reason l ex] in
    \<open>simp_all add: fail_row_def\<close>)

lemma evolves_sweep: "inv s \<Longrightarrow> evolves s (snd (DeleteExpired repo now limit s))"
  using sweep_view [of s now limit] sweep_inv [of s now limit] sweep_used [of s now limit]
  unfolding evolves_def map_le_def dom_def by (metis (mono_tags, lifting) mem_Collect_eq option.distinct(1))

lemma evolves_claim_step:
  "inv s \<Longrightarrow> claim_step repo env q p s = (p', s') \<Longrightarrow> claiming p \<Longrightarrow> evolves s s'"
  by (cases "(repo, env, q, p, s)" rule: claim_step.cases)
    (auto split: prod.splits sum.splits option.splits bool.splits
      dest: evolves_create evolves_get evolves_reclaim)

text \<open>The row of a client that runs is not touched by the claims of others.\<close>

lemma reclaim_spares:
  assumes own: "owned (view s) k i fp l ex" and "now < l" and inv: "inv s"
    and t: "TryReclaim repo j st now nl ne s = (x, s')"
  shows "view s' k = view s k"
proof -
  from own obtain r where "view s k = Some r" "\<not> reclaimable st now r"
    using \<open>now < l\<close> by (auto simp: owned_def reclaimable_def)
  then show ?thesis
    using reclaim_view [OF inv, of j st now nl ne] t by (auto simp: upd_id_at)
qed

lemma create_spares:
  assumes "inv s" and "view s k = Some r" and c: "CreateProcessing repo rec s = (x, s')"
  shows "view s' k = view s k"
  using create_view [OF assms(1), of rec] assms(2) c by auto

lemma claim_step_spares:
  assumes inv: "inv s" and own: "owned (view s) k i fp l ex" and "rq_now q < l"
    and c: "claim_step repo env q p s = (p', s')" and "claiming p"
  shows "view s' k = view s k"
proof -
  from own obtain r where r: "view s k = Some r" by (auto simp: owned_def)
  show ?thesis
    using c \<open>claiming p\<close>
    by (cases "(repo, env, q, p, s)" rule: claim_step.cases)
      (auto split: prod.splits sum.splits option.splits bool.splits
        dest: get_same create_spares [OF inv r] reclaim_spares [OF own \<open>rq_now q < l\<close> inv])
qed

lemma mark_spares:
  assumes inv: "inv s" and own: "owned (view s) k i fp l ex" and own': "owned (view s) k' i' fp' l' ex'"
    and "k \<noteq> k'" and v: "view s' = view s \<or> view s' = upd_id i' (\<lambda>_. True) f (view s)"
  shows "view s' k = view s k"
proof -
  from own own' obtain r r' where r: "view s k = Some r" "view s k' = Some r'" "row_id r' = i'"
    by (auto simp: owned_def)
  have "row_id r \<noteq> i'"
    using view_ok [OF inv] r \<open>k \<noteq> k'\<close> unfolding view_ok_def by blast
  with v r show ?thesis by (auto simp: upd_id_at)
qed

lemma runs_ok_frame:
  "runs_ok s p q \<Longrightarrow> (runs p \<Longrightarrow> view s' (rq_key q) = view s (rq_key q)) \<Longrightarrow> runs_ok s' p q"
  unfolding runs_ok_def owned_def by (cases p) auto

text \<open>A step of client \<open>c\<close> keeps the invariant if it keeps the rows of the other running clients.\<close>

lemma sys_inv_step:
  assumes z: "sys_inv z" and ev: "evolves (store z) s'"
    and others: "\<And>d. d \<noteq> c \<Longrightarrow> runs (pcs z d) \<Longrightarrow>
      view s' (rq_key (reqs z d)) = view (store z) (rq_key (reqs z d))"
    and new: "held_ok s' p (reqs z c)" "runs_ok s' p (reqs z c)"
    and fl: "in_flight p \<Longrightarrow> in_flight (pcs z c)"
    and excl: "\<And>d. runs p \<Longrightarrow> d \<noteq> c \<Longrightarrow> runs (pcs z d) \<Longrightarrow> rq_key (reqs z d) \<noteq> rq_key (reqs z c)"
  shows "sys_inv (z\<lparr>pcs := (pcs z)(c := p), store := s'\<rparr>)"
proof -
  let ?z = "z\<lparr>pcs := (pcs z)(c := p), store := s'\<rparr>"
  have held: "held_ok s' (pcs ?z d) (reqs ?z d)" for d
    using z new(1) by (auto simp: sys_inv_def intro: held_ok_evolves [OF ev])
  have run: "runs_ok s' (pcs ?z d) (reqs ?z d)" for d
  proof (cases "d = c")
    case False
    with z have "runs_ok (store z) (pcs z d) (reqs z d)" by (simp add: sys_inv_def)
    from runs_ok_frame [OF this others [OF False]] False show ?thesis by simp
  qed (use new(2) in simp)
  have "inv s'" using ev by (simp add: evolves_def)
  have pr: "prompt (clock z) ?z"
    using z fl unfolding sys_inv_def prompt_def by simp
  have time: "in_flight (pcs ?z d) \<Longrightarrow> rq_now (reqs ?z d) \<le> clock z" for d
    using z fl unfolding sys_inv_def by (auto split: if_splits)
  have uniq: "a = d" if "runs (pcs ?z a)" "runs (pcs ?z d)" "rq_key (reqs ?z a) = rq_key (reqs ?z d)" for a d
  proof (rule ccontr)
    assume "a \<noteq> d"
    with that z have "a = c \<or> d = c" unfolding sys_inv_def by (auto split: if_splits)
    with that \<open>a \<noteq> d\<close> excl [of a] excl [of d] show False by auto
  qed
  show ?thesis
    unfolding sys_inv_def
  proof (intro conjI allI impI)
    show "inv (store ?z)" using \<open>inv s'\<close> by simp
    show "prompt (clock ?z) ?z" using pr by simp
    show "held_ok (store ?z) (pcs ?z d) (reqs ?z d)" for d using held [of d] by simp
    show "runs_ok (store ?z) (pcs ?z d) (reqs ?z d)" for d using run [of d] by simp
    show "rq_now (reqs ?z d) \<le> clock ?z" if "in_flight (pcs ?z d)" for d using time [OF that] by simp
    show "a = d" if "runs (pcs ?z a)" "runs (pcs ?z d)" "rq_key (reqs ?z a) = rq_key (reqs ?z d)" for a d
      using that by (rule uniq)
  qed
qed

lemma held_at:
  assumes "inv s" and "view s (rq_key q) = Some r" and "row_fingerprint r = rq_fp q"
  shows "row_id r \<in> used s \<and> row_fingerprint r = rq_fp q \<and>
    (\<forall>k r'. view s k = Some r' \<longrightarrow> row_id r' = row_id r \<longrightarrow> k = rq_key q \<and> row_fingerprint r' = rq_fp q)"
  using assms view_ok [OF assms(1)] used_view [OF assms(1,2)] unfolding view_ok_def
  by (metis option.inject)

lemma held_status: "held_row (status_pc env now r) \<in> {None, Some r}" "\<not> runs (status_pc env now r)"
  by (auto simp: status_pc_def split: idem_status.splits option.splits)

lemma held_looked:
  assumes "inv s" and "view s (rq_key q) = Some r" and "row_fingerprint r = rq_fp q"
    and "held_row p \<in> {None, Some r}" and "\<not> runs p"
  shows "held_ok s p q \<and> runs_ok s p q"
  using held_at [OF assms(1-3)] assms(4,5) by (auto simp: held_ok_def runs_ok_def)

text \<open>A client that gets to run owns its row, which no request inside its lock owned before.\<close>

definition free_key :: "'s \<Rightarrow> string \<times> string \<Rightarrow> int \<Rightarrow> bool" where
  "free_key s k now \<longleftrightarrow> (\<forall>i fp l ex. owned (view s) k i fp l ex \<longrightarrow> l \<le> now)"

lemma reclaim_runs:
  assumes inv: "inv s" and h: "held_ok s p q" and p: "held_row p = Some r"
    and t: "TryReclaim repo (row_id r) st (rq_now q) (rq_lock q) (rq_expires q) s = (Inr True, s')"
  shows "runs_ok s' (Running (row_id r)) q \<and> free_key s (rq_key q) (rq_now q)"
proof -
  from reclaim_Inr [OF inv t] obtain k r' where r': "view s k = Some r'" "row_id r' = row_id r"
    "reclaimable st (rq_now q) r'" by (auto simp: hit_id_def)
  from h p have "\<forall>k r'. view s k = Some r' \<longrightarrow> row_id r' = row_id r \<longrightarrow>
      k = rq_key q \<and> row_fingerprint r' = rq_fp q" unfolding held_ok_def by blast
  with r' have k: "k = rq_key q" "row_fingerprint r' = rq_fp q" by blast+
  have "owned (view s') k (row_id r) (rq_fp q) (rq_lock q) (rq_expires q)"
    using reclaim_owned [OF inv r'(1), of st "rq_now q" "rq_lock q" "rq_expires q" s'] t r'(2) k by simp
  moreover have "free_key s (rq_key q) (rq_now q)"
    using r' k by (auto simp: free_key_def owned_def reclaimable_def)
  ultimately show ?thesis using k by (simp add: runs_ok_def)
qed

lemma starting_runs:
  assumes inv: "inv s" and c: "claim_step repo env q Starting s = (Running i, s')"
  shows "runs_ok s' (Running i) q \<and> free_key s (rq_key q) (rq_now q)"
proof -
  define rec where "rec =
    \<lparr>row_id = 0, row_scope = rq_scope q, row_key_hash = rq_hash q, row_fingerprint = rq_fp q,
     row_status = Processing, row_response_status = None, row_response_body = None,
     row_error_reason = None, row_locked_until = Some (rq_lock q), row_expires_at = rq_expires q,
     row_created_at = 0, row_updated_at = 0\<rparr>"
  have key: "row_key rec = rq_key q" by (simp add: rec_def row_key_def rq_key_def)
  obtain rec' where cr: "CreateProcessing repo rec s = (Inr (True, rec'), s')" and i: "i = row_id rec'"
    using c by (auto simp: rec_def split: prod.splits sum.splits bool.splits)
  from create_True [OF inv cr] have v: "view s (rq_key q) = None"
    "view s' = (view s)(row_key rec \<mapsto> new_row rec i (clk s))" using key i by simp_all
  have "owned (view s') (row_key rec) i (row_fingerprint rec) (rq_lock q) (rq_expires q)"
    unfolding v(2) by (rule owned_new_row) (simp_all add: rec_def)
  with v key show ?thesis by (simp add: runs_ok_def free_key_def owned_def rec_def)
qed

lemma claim_step_new:
  fixes p p' :: "('v, 'e) pc"
  assumes inv: "inv s" and h: "held_ok s p q" and c: "claim_step repo env q p s = (p', s')"
    and "claiming p"
  shows "held_ok s' p' q \<and> runs_ok s' p' q \<and> (runs p' \<longrightarrow> free_key s (rq_key q) (rq_now q))"
proof -
  have none: "held_ok s'' (Running i) q" for i s''
    by (simp add: held_ok_def)
  have plain: "held_ok s'' x q \<and> runs_ok s'' x q" if "held_row x = None" "\<not> runs x"
    for x :: "('v, 'e) pc" and s''
    using that by (auto simp: held_ok_def runs_ok_def)
  have look: "held_ok s' x q \<and> runs_ok s' x q"
    if "GetByScopeAndKeyHash repo (rq_scope q) (rq_hash q) s = (Inr (Some r), s')"
      "row_fingerprint r = rq_fp q" "held_row x \<in> {None, Some r}" "\<not> runs x"
    for x :: "('v, 'e) pc" and r
  proof -
    have "view s' (rq_key q) = Some r"
      using get_Inr [OF that(1)] get_same [OF that(1)] by (simp add: rq_key_def)
    from held_looked [OF inv_steps(2) [OF inv that(1)] this that(2-4)] show ?thesis .
  qed
  have look_status: "held_ok s' (status_pc env (rq_now q) r) q \<and> runs_ok s' (status_pc env (rq_now q) r) q
      \<and> \<not> runs (status_pc env (rq_now q) r)"
    if "GetByScopeAndKeyHash repo (rq_scope q) (rq_hash q) s = (Inr (Some r), s')"
      "row_fingerprint r = rq_fp q" for r
    using look [OF that held_status] held_status(2) by blast
  show ?thesis
  proof (cases p)
    case Starting
    then show ?thesis
      using c starting_runs [OF inv, of env q _ s'] plain none
      by (cases p') (auto split: prod.splits sum.splits bool.splits)
  next
    case Looking
    then show ?thesis
      using c look look_status plain
      by (auto split: prod.splits sum.splits option.splits if_splits)
  next
    case Relooking
    then show ?thesis
      using c look look_status plain
      by (auto split: prod.splits sum.splits option.splits if_splits)
  next
    case (ReclaimExpired r)
    then show ?thesis
      using c reclaim_runs [OF inv h, of r] plain none
      by (auto split: prod.splits sum.splits bool.splits)
  next
    case (ReclaimFailed r)
    then show ?thesis
      using c reclaim_runs [OF inv h, of r] plain none
      by (auto split: prod.splits sum.splits bool.splits)
  qed (use \<open>claiming p\<close> in auto)
qed

lemma sys_inv_owned:
  assumes "sys_inv z" and "runs (pcs z d)"
  shows "\<exists>i. pcs z d = Running i \<and> clock z < rq_lock (reqs z d) \<and> clock z < rq_expires (reqs z d) \<and>
    owned (view (store z)) (rq_key (reqs z d)) i (rq_fp (reqs z d)) (rq_lock (reqs z d))
      (rq_expires (reqs z d))"
proof -
  obtain i where i: "pcs z d = Running i" using assms(2) by (cases "pcs z d") auto
  have "runs_ok (store z) (pcs z d) (reqs z d)" "prompt (clock z) z"
    using assms(1) unfolding sys_inv_def by simp_all
  with i show ?thesis by (auto simp: runs_ok_def prompt_def)
qed

lemma sys_inv_parts:
  assumes "sys_inv z"
  shows "inv (store z)" "held_ok (store z) (pcs z c) (reqs z c)"
    "in_flight (pcs z c) \<Longrightarrow> rq_now (reqs z c) \<le> clock z"
    "runs (pcs z c) \<Longrightarrow> runs (pcs z d) \<Longrightarrow> rq_key (reqs z c) = rq_key (reqs z d) \<Longrightarrow> c = d"
  using assms unfolding sys_inv_def by blast+

lemma claim_inv:
  assumes z: "sys_inv z" and cl: "claiming (pcs z c)"
    and st: "claim_step repo env (reqs z c) (pcs z c) (store z) = (p, s')"
  shows "sys_inv (z\<lparr>pcs := (pcs z)(c := p), store := s'\<rparr>)"
proof -
  note inv = sys_inv_parts(1) [OF z] and h = sys_inv_parts(2) [OF z, of c]
  have fl: "in_flight (pcs z c)" using cl by (cases "pcs z c") auto
  note nw = sys_inv_parts(3) [OF z fl] and new = claim_step_new [OF inv h st cl]
  show ?thesis
  proof (rule sys_inv_step [OF z evolves_claim_step [OF inv st cl]])
    fix d assume "runs (pcs z d)"
    from sys_inv_owned [OF z this] obtain i where d: "clock z < rq_lock (reqs z d)"
      "owned (view (store z)) (rq_key (reqs z d)) i (rq_fp (reqs z d)) (rq_lock (reqs z d))
         (rq_expires (reqs z d))" by blast
    with nw have now: "rq_now (reqs z c) < rq_lock (reqs z d)" by simp
    show "view s' (rq_key (reqs z d)) = view (store z) (rq_key (reqs z d))"
      by (rule claim_step_spares [OF inv d(2) now st cl])
    assume "runs p"
    with new have "free_key (store z) (rq_key (reqs z c)) (rq_now (reqs z c))" by blast
    with d(2) now show "rq_key (reqs z d) \<noteq> rq_key (reqs z c)"
      unfolding free_key_def by (metis not_le)
  qed (use new fl in auto)
qed

text \<open>A running client ends: its mark touches no row of another running client.\<close>

lemma mark_inv:
  assumes z: "sys_inv z" and c: "pcs z c = Running i" and ev: "evolves (store z) s'"
    and v: "view s' = view (store z) \<or> view s' = upd_id i (\<lambda>_. True) f (view (store z))"
  shows "sys_inv (z\<lparr>pcs := (pcs z)(c := Ended r), store := s'\<rparr>)"
proof (rule sys_inv_step [OF z ev])
  fix d assume d: "d \<noteq> c" "runs (pcs z d)"
  have "runs (pcs z c)" using c by simp
  from sys_inv_owned [OF z this] c have oc: "owned (view (store z)) (rq_key (reqs z c)) i
      (rq_fp (reqs z c)) (rq_lock (reqs z c)) (rq_expires (reqs z c))" by auto
  from sys_inv_owned [OF z d(2)] obtain j where od: "owned (view (store z)) (rq_key (reqs z d)) j
      (rq_fp (reqs z d)) (rq_lock (reqs z d)) (rq_expires (reqs z d))" by blast
  have "rq_key (reqs z d) \<noteq> rq_key (reqs z c)"
    using sys_inv_parts(4) [OF z d(2) \<open>runs (pcs z c)\<close>] d(1) by blast
  then show "view s' (rq_key (reqs z d)) = view (store z) (rq_key (reqs z d))"
    by (rule mark_spares [OF sys_inv_parts(1) [OF z] od oc _ v])
qed (simp_all add: held_ok_def runs_ok_def)

lemma idem_step_inv: "idem_step repo env z z' \<Longrightarrow> sys_inv z \<Longrightarrow> sys_inv z'"
proof (induction rule: idem_step.induct)
  case (start z c timeout ttl sc kh fp)
  then show ?case by (auto simp: sys_inv_def prompt_def held_ok_def runs_ok_def)
next
  case (claim z c p s')
  then show ?case by (blast intro: claim_inv)
next
  case (succeed z c i body u s' r)
  then show ?case
    using evolves_succeed [OF sys_inv_parts(1) succeed(2)]
      succeed_view [OF sys_inv_parts(1), of z i 200 body "rq_expires (reqs z c)"]
    by (metis mark_inv snd_conv)
next
  case (fail z c i reason lock u s' r)
  then show ?case
    using evolves_fail [OF sys_inv_parts(1) fail(2)]
      fail_view [OF sys_inv_parts(1), of z i reason lock "rq_expires (reqs z c)"]
    by (metis mark_inv snd_conv)
next
  case (abandon z c i r)
  from mark_inv [OF abandon(2,1), of "store z" id r] show ?case
    using evolves_same [of "store z" "store z"] sys_inv_parts(1) [OF abandon(2)] by simp
next
  case (sweep z batch)
  let ?s = "cleanupOnce repo batch (clock z) (store z)"
  have ev: "evolves (store z) ?s"
    using evolves_sweep [OF sys_inv_parts(1) [OF sweep]] by (simp add: cleanupOnce_def)
  have "sys_inv (z\<lparr>pcs := (pcs z)(c := pcs z c), store := ?s\<rparr>)" for c
  proof -
    have keep: "view ?s (rq_key (reqs z d)) = view (store z) (rq_key (reqs z d))" if "runs (pcs z d)" for d
      using sys_inv_owned [OF sweep that]
      by (auto simp: owned_def cleanupOnce_def intro!: sweep_keeps [OF sys_inv_parts(1) [OF sweep]])
    show ?thesis
    proof (rule sys_inv_step [OF sweep ev])
      show "runs_ok ?s (pcs z c) (reqs z c)"
        using sweep runs_ok_frame [of "store z" "pcs z c" "reqs z c" ?s] keep
        unfolding sys_inv_def by blast
      show "held_ok ?s (pcs z c) (reqs z c)"
        by (rule held_ok_evolves [OF ev sys_inv_parts(2) [OF sweep]])
    qed (use keep sys_inv_parts(4) [OF sweep] in auto)
  qed
  from this [of 0] show ?case by simp
next
  case (tick z t)
  then show ?case by (auto simp: sys_inv_def prompt_def intro: order_trans)
qed

theorem reachable_exclusion:
  assumes r: "idem_reachable repo env z0 z" and "inv (store z0)" and "\<forall>c. pcs z0 c = Idle"
    and "runs (pcs z c)" and "runs (pcs z d)" and "rq_key (reqs z c) = rq_key (reqs z d)"
  shows "c = d"
proof -
  have "sys_inv z0"
    using assms(2,3) by (simp add: sys_inv_def prompt_def held_ok_def runs_ok_def)
  with r have "sys_inv z"
    by (induction rule: idem_reachable.induct) (blast intro: idem_step_inv)+
  then show ?thesis using sys_inv_parts(4) assms(4-6) by blast
qed

end

section \<open>Property\<close>

text \<open>
  C7. Mutual exclusion. Any number of requests run against one store, their statements interleaved in
  any order with each other and with the sweep, and any statement or reply may be lost. As long as
  every request ends within its processing lock and its TTL, at no time do two requests with the
  same scope and key run their executors.
\<close>

theorem idempotent_exclusion:
  assumes "idem_reachable pg_repo env z0 z" and "pg_inv (store z0)" and "\<forall>c. pcs z0 c = Idle"
    and "runs (pcs z c)" and "runs (pcs z d)" and "rq_key (reqs z c) = rq_key (reqs z d)"
  shows "c = d"
  by (rule pg_ids.reachable_exclusion [OF assms])

definition demo_rq :: request where
  "demo_rq = \<lparr>rq_scope = ''admin'', rq_hash = ''k1'', rq_fp = ''p'', rq_now = 0, rq_lock = 0 + 30,
     rq_expires = 0 + 60\<rparr>"

definition demo_sys0 :: "(idem_db world, string, string) sys" where
  "demo_sys0 = \<lparr>store = demo_world, clock = 0, pcs = (\<lambda>_. Idle), reqs = (\<lambda>_. demo_rq)\<rparr>"

definition demo_sys1 :: "(idem_db world, string, string) sys" where
  "demo_sys1 = demo_sys0\<lparr>pcs := (pcs demo_sys0)(0 := Starting), reqs := (reqs demo_sys0)(0 := demo_rq)\<rparr>"

definition demo_sys2 :: "(idem_db world, string, string) sys" where
  "demo_sys2 = demo_sys1\<lparr>pcs := (pcs demo_sys1)(0 := Running 1),
     store := snd (claim_step pg_repo demo_env demo_rq Starting demo_world)\<rparr>"

lemma demo_reachable: "idem_reachable pg_repo demo_env demo_sys0 demo_sys2"
proof -
  have "idem_step pg_repo demo_env demo_sys0 demo_sys1"
    using idem_step.start [of demo_sys0 0 30 60 pg_repo demo_env "''admin''" "''k1''" "''p''"]
    by (simp add: demo_sys1_def demo_sys0_def demo_rq_def)
  moreover have c: "fst (claim_step pg_repo demo_env demo_rq Starting demo_world) = Running 1"
    by code_simp
  have "idem_step pg_repo demo_env demo_sys1 demo_sys2"
    unfolding demo_sys2_def
  proof (rule idem_step.claim)
    show "claiming (pcs demo_sys1 0)" by (simp add: demo_sys1_def)
    show "claim_step pg_repo demo_env (reqs demo_sys1 0) (pcs demo_sys1 0) (store demo_sys1) =
        (Running 1, snd (claim_step pg_repo demo_env demo_rq Starting demo_world))"
      by (rule prod_eqI)
        (simp_all only: fst_conv snd_conv c demo_sys1_def demo_sys0_def sys.simps fun_upd_same)
  qed
  ultimately show ?thesis by (blast intro: idem_reachable.intros)
qed

theorem idempotent_exclusion_witness:
  "idem_reachable pg_repo demo_env demo_sys0 demo_sys2 \<and> pcs demo_sys2 0 = Running 1 \<and>
   {d. runs (pcs demo_sys2 d) \<and> rq_key (reqs demo_sys2 0) = rq_key (reqs demo_sys2 d)} = {0}"
proof -
  have "pg_inv (store demo_sys0)" "\<forall>c. pcs demo_sys0 c = Idle" "runs (pcs demo_sys2 0)"
    by (simp_all add: demo_sys0_def demo_inv demo_sys2_def)
  note excl = idempotent_exclusion [OF demo_reachable this]
  have "pcs demo_sys2 0 = Running 1" by (simp add: demo_sys2_def)
  moreover have "runs (pcs demo_sys2 0)" by fact
  ultimately show ?thesis using demo_reachable excl by blast
qed

end
