(* ===== verification/Failover.thy ===== *)
theory Failover
  imports Prelude
begin

text \<open>
  The failover loop of the gateway handlers (\<open>handler/failover_loop.go\<close>, and the loop of
  \<open>handler/gateway_handler.go\<close> that drives it): after an upstream error a request is retried on the
  same account, moved to another account, or given up. One \<open>FailoverState\<close> lives as long as the
  request. \<open>ctx_done\<close> says whether the request context is already cancelled and \<open>interrupted\<close> whether
  it is cancelled during a wait; \<open>now\<close> is the clock. Log lines are left out.
\<close>

section \<open>Upstream errors\<close>

datatype failure_stage = StageInference | StageAccountAuth
datatype failure_scope = ScopeAccount | ScopeProvider | ScopeRequest | ScopeUnset
datatype next_action = LegacyRetry | RetryNext | StopNext

record failover_error =
  StatusCode :: int
  err_ForceCacheBilling :: bool
  RetryableOnSameAccount :: bool
  SameAccountRetryDelay :: int
  SameAccountRetryDeadline :: "int option"
  SameAccountRetryMax :: int
  RequestScopedTransient :: bool
  Stage :: failure_stage
  Scope :: failure_scope
  NextAccountAction :: next_action

definition ShouldRetryNextAccount :: "failover_error option \<Rightarrow> bool" where
  "ShouldRetryNextAccount e = (case e of None \<Rightarrow> False | Some e \<Rightarrow> NextAccountAction e \<noteq> StopNext)"

definition IsCredentialFailure :: "failover_error option \<Rightarrow> bool" where
  "IsCredentialFailure e = (case e of None \<Rightarrow> False | Some e \<Rightarrow> Stage e = StageAccountAuth)"

definition ShouldReportAccountScheduleFailure :: "failover_error option \<Rightarrow> bool" where
  "ShouldReportAccountScheduleFailure e =
     (case e of None \<Rightarrow> False
      | Some e' \<Rightarrow> \<not> IsCredentialFailure e \<or> Scope e' = ScopeAccount)"

section \<open>Retries on the same account\<close>

definition maxSameAccountRetries :: int where "maxSameAccountRetries = 3"
definition sameAccountRetryDelay :: int where "sameAccountRetryDelay = 500 * Millisecond"
definition maxRequestScopedRetryDelay :: int where "maxRequestScopedRetryDelay = 8 * Second"
definition singleAccountBackoffDelay :: int where "singleAccountBackoffDelay = 2 * Second"
definition maxProfitVetoAttempts :: int where "maxProfitVetoAttempts = 10"

text \<open>The doubling loop: \<open>n\<close> more rounds, stopping early at the cap.\<close>

fun backoff_loop :: "nat \<Rightarrow> int \<Rightarrow> int" where
  "backoff_loop 0 delay = delay"
| "backoff_loop (Suc n) delay =
     (if delay \<ge> tdiv maxRequestScopedRetryDelay 2 then maxRequestScopedRetryDelay
      else backoff_loop n (delay * 2))"

definition sameAccountRetryDelayFor :: "failover_error option \<Rightarrow> int \<Rightarrow> int" where
  "sameAccountRetryDelayFor e retryCount =
     (case e of
        None \<Rightarrow> sameAccountRetryDelay
      | Some e \<Rightarrow>
          if SameAccountRetryDelay e > 0 then SameAccountRetryDelay e
          else if \<not> RequestScopedTransient e \<or> retryCount \<le> 1 then sameAccountRetryDelay
          else backoff_loop (nat (retryCount - 1)) sameAccountRetryDelay)"

definition sameAccountRetryDeadlineAllows :: "failover_error option \<Rightarrow> int \<Rightarrow> bool" where
  "sameAccountRetryDeadlineAllows e now =
     (case e of None \<Rightarrow> True
      | Some e \<Rightarrow> (case SameAccountRetryDeadline e of None \<Rightarrow> True | Some d \<Rightarrow> now < d))"

definition sameAccountRetryAllowed :: "failover_error option \<Rightarrow> int \<Rightarrow> int \<Rightarrow> int \<Rightarrow> bool" where
  "sameAccountRetryAllowed e retryCount retryLimit now =
     (case e of None \<Rightarrow> False
      | Some e' \<Rightarrow>
          if \<not> RetryableOnSameAccount e' then False
          else if \<not> sameAccountRetryDeadlineAllows e now then False
          else if SameAccountRetryMax e' > 0 then
            (if retryLimit \<le> 0 then False
             else retryCount < (if SameAccountRetryMax e' < retryLimit then SameAccountRetryMax e'
                                else retryLimit))
          else if SameAccountRetryDeadline e' \<noteq> None then True
          else retryLimit > 0 \<and> retryCount < retryLimit)"

text \<open>
  The account's own limit (\<open>Account.GetPoolModeRetryCount\<close>): the credential value as decoded from
  JSON (for a float its integer part, for a \<open>json.Number\<close> its integer value if it has one).
\<close>

datatype cred_value = CvInt int | CvFloat int | CvNumber "int option" | CvString string | CvOther

definition defaultPoolModeRetryCount :: int where "defaultPoolModeRetryCount = 3"
definition maxPoolModeRetryCount :: int where "maxPoolModeRetryCount = 10"

definition parsePoolModeRetryCount :: "cred_value \<Rightarrow> int" where
  "parsePoolModeRetryCount v =
     (case v of
        CvInt i \<Rightarrow> i
      | CvFloat i \<Rightarrow> i
      | CvNumber (Some i) \<Rightarrow> i
      | CvNumber None \<Rightarrow> defaultPoolModeRetryCount
      | CvString s \<Rightarrow> (case Atoi (TrimSpace s) of Some i \<Rightarrow> i | None \<Rightarrow> defaultPoolModeRetryCount)
      | CvOther \<Rightarrow> defaultPoolModeRetryCount)"

definition GetPoolModeRetryCount :: "bool \<Rightarrow> cred_value option \<Rightarrow> int" where
  "GetPoolModeRetryCount poolMode raw =
     (if \<not> poolMode then defaultPoolModeRetryCount
      else case raw of
        None \<Rightarrow> defaultPoolModeRetryCount
      | Some v \<Rightarrow>
          let count = parsePoolModeRetryCount v in
          if count < 0 then 0
          else if count > maxPoolModeRetryCount then maxPoolModeRetryCount
          else count)"

definition effectiveSameAccountRetryLimit :: "failover_error option \<Rightarrow> int option \<Rightarrow> int" where
  "effectiveSameAccountRetryLimit e accountLimit =
     (case accountLimit of
        None \<Rightarrow> 0
      | Some limit \<Rightarrow>
          (case e of
             None \<Rightarrow> limit
           | Some e \<Rightarrow>
               if limit > 0 \<and> SameAccountRetryMax e > 0 \<and> SameAccountRetryMax e < limit
               then SameAccountRetryMax e else limit))"

section \<open>The state of a request\<close>

datatype failover_action = FailoverContinue | FailoverExhausted | FailoverCanceled

record failover_state =
  SwitchCount :: int
  MaxSwitches :: int
  FailedAccountIDs :: "int set"
  SameAccountRetryCount :: "int \<Rightarrow> int"
  LastFailoverErr :: "failover_error option"
  ForceCacheBilling :: bool
  hasBoundSession :: bool
  profitVetoedAccountIDs :: "int set"
  profitVetoCount :: int

definition NewFailoverState :: "int \<Rightarrow> bool \<Rightarrow> failover_state" where
  "NewFailoverState maxSwitches bound =
     \<lparr>SwitchCount = 0, MaxSwitches = maxSwitches, FailedAccountIDs = {},
      SameAccountRetryCount = (\<lambda>_. 0), LastFailoverErr = None, ForceCacheBilling = False,
      hasBoundSession = bound, profitVetoedAccountIDs = {}, profitVetoCount = 0\<rparr>"

definition RecordProfitVeto :: "int \<Rightarrow> failover_state \<Rightarrow> failover_action \<times> failover_state" where
  "RecordProfitVeto accountID s =
     (let s' = s\<lparr>FailedAccountIDs := insert accountID (FailedAccountIDs s),
                profitVetoedAccountIDs := insert accountID (profitVetoedAccountIDs s),
                profitVetoCount := profitVetoCount s + 1\<rparr>
      in (if profitVetoCount s' \<ge> maxProfitVetoAttempts then FailoverExhausted else FailoverContinue, s'))"

definition allExclusionsAreProfitVetoed :: "failover_state \<Rightarrow> bool" where
  "allExclusionsAreProfitVetoed s =
     (if profitVetoedAccountIDs s = {} \<or> FailedAccountIDs s = {} then False
      else \<forall>i \<in> FailedAccountIDs s. i \<in> profitVetoedAccountIDs s)"

definition needForceCacheBilling :: "bool \<Rightarrow> failover_error option \<Rightarrow> bool \<Rightarrow> bool" where
  "needForceCacheBilling bound e sameAccountRetry =
     ((bound \<and> \<not> sameAccountRetry) \<or> (case e of None \<Rightarrow> False | Some e \<Rightarrow> err_ForceCacheBilling e))"

definition sleepWithContext :: "bool \<Rightarrow> int \<Rightarrow> bool" where
  "sleepWithContext interrupted d = (if d \<le> 0 then True else \<not> interrupted)"

text \<open>
  \<open>GatewayService.TempUnscheduleRetryableError\<close>: the write \<open>SetTempUnschedulable account until\<close> that
  takes an account out of scheduling, if the error calls for one; a failed write is only logged.
\<close>

definition TempUnscheduleRetryableError :: "int \<Rightarrow> int \<Rightarrow> failover_error option \<Rightarrow> (int \<times> int) list" where
  "TempUnscheduleRetryableError now accountID e =
     (case e of None \<Rightarrow> []
      | Some e \<Rightarrow>
          if \<not> RetryableOnSameAccount e then []
          else if RequestScopedTransient e then []
          else if StatusCode e = 400 then [(accountID, now + 1 * Minute)]
          else if StatusCode e = 502 then [(accountID, now + 1 * Minute)]
          else [])"

text \<open>
  \<open>HandleFailoverError\<close> returns the action, the writes to the account repository and the state.
  \<open>antigravity\<close> says whether the platform of the account is Antigravity.
\<close>

definition HandleFailoverError ::
  "bool \<Rightarrow> bool \<Rightarrow> int \<Rightarrow> int \<Rightarrow> bool \<Rightarrow> int \<Rightarrow> failover_error option \<Rightarrow> failover_state
   \<Rightarrow> failover_action \<times> (int \<times> int) list \<times> failover_state" where
  "HandleFailoverError ctx_done interrupted now accountID antigravity retryLimit e s =
     (if ctx_done then (FailoverCanceled, [], s)
      else
      let s = s\<lparr>LastFailoverErr := e\<rparr> in
      case e of
        None \<Rightarrow> (FailoverExhausted, [], s)
      | Some e' \<Rightarrow>
      if \<not> ShouldRetryNextAccount e then (FailoverExhausted, [], s)
      else
      let retryCount = SameAccountRetryCount s accountID;
          sameAccountRetry = sameAccountRetryAllowed e retryCount retryLimit now;
          s = (if needForceCacheBilling (hasBoundSession s) e sameAccountRetry
               then s\<lparr>ForceCacheBilling := True\<rparr> else s)
      in if sameAccountRetry then
           (let s = s\<lparr>SameAccountRetryCount :=
                        (SameAccountRetryCount s)(accountID := SameAccountRetryCount s accountID + 1)\<rparr>;
                retryDelay = sameAccountRetryDelayFor e (SameAccountRetryCount s accountID)
            in if \<not> sleepWithContext interrupted retryDelay then (FailoverCanceled, [], s)
               else (FailoverContinue, [], s))
         else
           let writes = (if RetryableOnSameAccount e'
                         then TempUnscheduleRetryableError now accountID e else []);
               s = s\<lparr>FailedAccountIDs := insert accountID (FailedAccountIDs s)\<rparr>
           in if SwitchCount s \<ge> MaxSwitches s then (FailoverExhausted, writes, s)
              else
                let s = s\<lparr>SwitchCount := SwitchCount s + 1\<rparr> in
                if antigravity \<and> \<not> sleepWithContext interrupted ((SwitchCount s - 1) * Second)
                then (FailoverCanceled, writes, s)
                else (FailoverContinue, writes, s))"

definition HandleSelectionExhausted ::
  "bool \<Rightarrow> bool \<Rightarrow> failover_state \<Rightarrow> failover_action \<times> failover_state" where
  "HandleSelectionExhausted ctx_done interrupted s =
     (if ctx_done then (FailoverCanceled, s)
      else if (case LastFailoverErr s of None \<Rightarrow> False | Some e \<Rightarrow> StatusCode e = 503) \<and>
              SwitchCount s \<le> MaxSwitches s then
        (if allExclusionsAreProfitVetoed s then (FailoverExhausted, s)
         else if \<not> sleepWithContext interrupted singleAccountBackoffDelay then (FailoverCanceled, s)
         else (FailoverContinue,
               s\<lparr>FailedAccountIDs := {} \<union> profitVetoedAccountIDs s\<rparr>))
      else (FailoverExhausted, s))"

section \<open>The loop\<close>

text \<open>
  One turn of the handler's loop, by what happened in it: no account could be selected, the
  selected account was vetoed by the group's profit control, or forwarding to it failed with a
  failover error. A turn that does not continue answers the request. When no account can be
  selected and none is excluded, the loop ends without consulting the state.
\<close>

datatype turn =
    NoAccount bool bool
  | Vetoed int
  | Failed bool bool int int bool int "failover_error option"

fun loop_turn :: "turn \<Rightarrow> failover_state \<Rightarrow> failover_action \<times> failover_state" where
  "loop_turn (NoAccount ctx_done interrupted) s =
     (if FailedAccountIDs s = {} then (FailoverExhausted, s)
      else HandleSelectionExhausted ctx_done interrupted s)"
| "loop_turn (Vetoed accountID) s = RecordProfitVeto accountID s"
| "loop_turn (Failed ctx_done interrupted now accountID antigravity retryLimit e) s =
     (case HandleFailoverError ctx_done interrupted now accountID antigravity retryLimit e s of
        (action, _, s') \<Rightarrow> (action, s'))"

fun loop_run :: "turn list \<Rightarrow> failover_state \<Rightarrow> failover_state option" where
  "loop_run [] s = Some s"
| "loop_run (t # ts) s =
     (case loop_turn t s of (FailoverContinue, s') \<Rightarrow> loop_run ts s' | _ \<Rightarrow> None)"

section \<open>What one turn does\<close>

text \<open>
  The two ways \<open>HandleFailoverError\<close> continues: another attempt on the same account, counted, or a
  switch, counted, that excludes the account.
\<close>

definition retried :: "int \<Rightarrow> int \<Rightarrow> failover_error option \<Rightarrow> int \<Rightarrow> failover_state \<Rightarrow> failover_state \<Rightarrow> bool" where
  "retried now a e limit s s' \<longleftrightarrow>
     sameAccountRetryAllowed e (SameAccountRetryCount s a) limit now \<and>
     SameAccountRetryCount s' = (SameAccountRetryCount s)(a := SameAccountRetryCount s a + 1) \<and>
     FailedAccountIDs s' = FailedAccountIDs s \<and> SwitchCount s' = SwitchCount s"

definition switched :: "int \<Rightarrow> failover_state \<Rightarrow> failover_state \<Rightarrow> bool" where
  "switched a s s' \<longleftrightarrow>
     SwitchCount s < MaxSwitches s \<and> SwitchCount s' = SwitchCount s + 1 \<and>
     FailedAccountIDs s' = insert a (FailedAccountIDs s) \<and>
     SameAccountRetryCount s' = SameAccountRetryCount s"

definition same_vetoes :: "failover_state \<Rightarrow> failover_state \<Rightarrow> bool" where
  "same_vetoes s s' \<longleftrightarrow>
     profitVetoedAccountIDs s' = profitVetoedAccountIDs s \<and> profitVetoCount s' = profitVetoCount s \<and>
     MaxSwitches s' = MaxSwitches s \<and> hasBoundSession s' = hasBoundSession s"

lemma HandleFailoverError_frame:
  assumes "HandleFailoverError c i now a anti limit e s = (act, w, s')"
  shows "same_vetoes s s'"
  using assms
  by (auto simp: HandleFailoverError_def Let_def same_vetoes_def split: if_splits option.splits)

lemma HandleFailoverError_continue:
  assumes "HandleFailoverError c i now a anti limit e s = (FailoverContinue, w, s')"
  shows "retried now a e limit s s' \<or> switched a s s'"
  using assms
  by (auto simp: HandleFailoverError_def Let_def retried_def switched_def
      split: if_splits option.splits)

lemma HandleSelectionExhausted_continue:
  assumes "HandleSelectionExhausted c i s = (FailoverContinue, s')"
  shows "\<not> allExclusionsAreProfitVetoed s"
    and "s' = s\<lparr>FailedAccountIDs := profitVetoedAccountIDs s\<rparr>"
  using assms by (auto simp: HandleSelectionExhausted_def split: if_splits)

lemma allExclusionsAreProfitVetoed_iff:
  "FailedAccountIDs s \<noteq> {} \<Longrightarrow>
     allExclusionsAreProfitVetoed s \<longleftrightarrow> FailedAccountIDs s \<subseteq> profitVetoedAccountIDs s"
  by (auto simp: allExclusionsAreProfitVetoed_def)

lemma loop_run_append:
  "loop_run (ts @ us) s = (case loop_run ts s of None \<Rightarrow> None | Some s' \<Rightarrow> loop_run us s')"
  by (induction ts arbitrary: s) (auto split: prod.splits failover_action.splits)

lemma loop_run_ConsE:
  assumes "loop_run (t # ts) s = Some s'"
  obtains s1 where "loop_turn t s = (FailoverContinue, s1)" "loop_run ts s1 = Some s'"
  using assms by (auto split: prod.splits failover_action.splits)

section \<open>The invariant of the state\<close>

definition failover_inv :: "failover_state \<Rightarrow> bool" where
  "failover_inv s \<longleftrightarrow>
     profitVetoedAccountIDs s \<subseteq> FailedAccountIDs s \<and>
     0 \<le> profitVetoCount s \<and> profitVetoCount s < maxProfitVetoAttempts \<and>
     0 \<le> SwitchCount s \<and> SwitchCount s \<le> max 0 (MaxSwitches s)"

lemma failover_inv_new: "failover_inv (NewFailoverState m b)"
  by (simp add: failover_inv_def NewFailoverState_def maxProfitVetoAttempts_def)

lemma loop_turn_MaxSwitches: "loop_turn t s = (act, s') \<Longrightarrow> MaxSwitches s' = MaxSwitches s"
  by (cases t)
    (auto simp: RecordProfitVeto_def HandleSelectionExhausted_def same_vetoes_def Let_def
       dest!: HandleFailoverError_frame split: if_splits prod.splits)

lemma failover_inv_turn:
  assumes inv: "failover_inv s" and t: "loop_turn t s = (FailoverContinue, s')"
  shows "failover_inv s'"
proof (cases t)
  case (NoAccount c i)
  with t have "HandleSelectionExhausted c i s = (FailoverContinue, s')"
    by (auto split: if_splits)
  from HandleSelectionExhausted_continue(2) [OF this] inv show ?thesis
    by (simp add: failover_inv_def)
next
  case (Vetoed a)
  with t inv show ?thesis
    by (auto simp: RecordProfitVeto_def failover_inv_def Let_def split: if_splits)
next
  case (Failed c i now a anti limit e)
  with t obtain w where h: "HandleFailoverError c i now a anti limit e s = (FailoverContinue, w, s')"
    by (auto split: prod.splits)
  with inv HandleFailoverError_frame [OF h] HandleFailoverError_continue [OF h] show ?thesis
    by (auto simp: failover_inv_def same_vetoes_def retried_def switched_def)
qed

lemma failover_inv_run:
  assumes "failover_inv s" "loop_run ts s = Some s'"
  shows "failover_inv s'" and "MaxSwitches s' = MaxSwitches s"
    and "profitVetoedAccountIDs s \<subseteq> profitVetoedAccountIDs s'"
proof -
  have "failover_inv s' \<and> MaxSwitches s' = MaxSwitches s
      \<and> profitVetoedAccountIDs s \<subseteq> profitVetoedAccountIDs s'"
    using assms
  proof (induction ts arbitrary: s)
    case (Cons t ts)
    from Cons.prems(2) obtain s1 where t: "loop_turn t s = (FailoverContinue, s1)"
      and r: "loop_run ts s1 = Some s'" by (rule loop_run_ConsE)
    have "profitVetoedAccountIDs s \<subseteq> profitVetoedAccountIDs s1"
      using t by (cases t)
        (auto simp: RecordProfitVeto_def HandleSelectionExhausted_def same_vetoes_def Let_def
           dest!: HandleFailoverError_frame split: if_splits prod.splits)
    then show ?case
      using Cons.IH [OF failover_inv_turn [OF Cons.prems(1) t] r] loop_turn_MaxSwitches [OF t] by auto
  qed simp
  then show "failover_inv s'" "MaxSwitches s' = MaxSwitches s"
    "profitVetoedAccountIDs s \<subseteq> profitVetoedAccountIDs s'" by auto
qed

section \<open>The measure of the loop\<close>

text \<open>
  What is left to do: the attempts left on each account, two turns for each switch left (the
  switch, and one clearing of the exclusions it adds to), the pending clearing and the vetoes.
\<close>

definition turns_left :: "int set \<Rightarrow> int \<Rightarrow> failover_state \<Rightarrow> int" where
  "turns_left A L s =
     (\<Sum>a\<in>A. L - SameAccountRetryCount s a) + 2 * (max 0 (MaxSwitches s) - SwitchCount s)
     + (if FailedAccountIDs s \<subseteq> profitVetoedAccountIDs s then 0 else 1)
     + (maxProfitVetoAttempts - 1 - profitVetoCount s)"

definition bounded_turn :: "int set \<Rightarrow> int \<Rightarrow> turn \<Rightarrow> bool" where
  "bounded_turn A L t =
     (case t of
        Failed _ _ _ a _ limit e \<Rightarrow>
          a \<in> A \<and> limit \<le> L \<and>
          (case e of None \<Rightarrow> True
           | Some e \<Rightarrow> SameAccountRetryDeadline e = None \<or> SameAccountRetryMax e > 0)
      | _ \<Rightarrow> True)"

definition retries_within :: "int set \<Rightarrow> int \<Rightarrow> failover_state \<Rightarrow> bool" where
  "retries_within A L s \<longleftrightarrow> (\<forall>a \<in> A. SameAccountRetryCount s a \<le> L)"

lemma sameAccountRetryAllowed_below:
  assumes "sameAccountRetryAllowed (Some e) n limit now"
    and "SameAccountRetryDeadline e = None \<or> SameAccountRetryMax e > 0"
  shows "n < limit"
  using assms by (auto simp: sameAccountRetryAllowed_def split: if_splits)

lemma sum_retry_step:
  assumes "finite A" "a \<in> A" "f' = f(a := f a + 1)"
  shows "(\<Sum>x\<in>A. (L::int) - f' x) = (\<Sum>x\<in>A. L - f x) - 1"
proof -
  have "(\<Sum>x\<in>A. L - f' x) = (L - f' a) + (\<Sum>x\<in>A - {a}. L - f' x)"
    using assms by (simp add: sum.remove)
  also have "(\<Sum>x\<in>A - {a}. L - f' x) = (\<Sum>x\<in>A - {a}. L - f x)"
    using assms by (intro sum.cong) auto
  also have "(L - f' a) + (\<Sum>x\<in>A - {a}. L - f x) = (\<Sum>x\<in>A. L - f x) - 1"
    using assms by (simp add: sum.remove)
  finally show ?thesis .
qed

lemma turns_left_decreases:
  assumes "finite A" "bounded_turn A L t" "retries_within A L s"
    and t: "loop_turn t s = (FailoverContinue, s')"
  shows "turns_left A L s' \<le> turns_left A L s - 1" and "retries_within A L s'"
proof -
  have "turns_left A L s' \<le> turns_left A L s - 1 \<and> retries_within A L s'"
  proof (cases t)
    case (NoAccount c i)
    with t have h: "HandleSelectionExhausted c i s = (FailoverContinue, s')"
      and ne: "FailedAccountIDs s \<noteq> {}"
      by (auto split: if_splits)
    have "\<not> FailedAccountIDs s \<subseteq> profitVetoedAccountIDs s"
      using HandleSelectionExhausted_continue(1) [OF h] allExclusionsAreProfitVetoed_iff [OF ne] by simp
    then show ?thesis using HandleSelectionExhausted_continue(2) [OF h] assms(3)
      by (simp add: turns_left_def retries_within_def)
  next
    case (Vetoed a)
    with t assms(3) show ?thesis
      by (auto simp: RecordProfitVeto_def turns_left_def retries_within_def Let_def split: if_splits)
  next
    case (Failed c i now a anti limit e)
    with t obtain w where h: "HandleFailoverError c i now a anti limit e s = (FailoverContinue, w, s')"
      by (auto split: prod.splits)
    from h obtain e' where e: "e = Some e'"
      by (cases e) (auto simp: HandleFailoverError_def Let_def split: if_splits)
    have A: "a \<in> A" "limit \<le> L" "SameAccountRetryDeadline e' = None \<or> SameAccountRetryMax e' > 0"
      using assms(2) Failed e by (auto simp: bounded_turn_def)
    from HandleFailoverError_continue [OF h] show ?thesis
    proof
      assume r: "retried now a e limit s s'"
      then have "SameAccountRetryCount s a < limit"
        using sameAccountRetryAllowed_below [OF _ A(3)] by (auto simp: retried_def e)
      with r A assms(1,3) HandleFailoverError_frame [OF h] show ?thesis
        using sum_retry_step [OF assms(1) A(1), of "SameAccountRetryCount s'" "SameAccountRetryCount s" L]
        by (auto simp: turns_left_def retries_within_def retried_def same_vetoes_def)
    next
      assume "switched a s s'"
      with assms(3) HandleFailoverError_frame [OF h] show ?thesis
        by (auto simp: turns_left_def retries_within_def switched_def same_vetoes_def)
    qed
  qed
  then show "turns_left A L s' \<le> turns_left A L s - 1" "retries_within A L s'" by auto
qed

lemma turns_left_nonneg:
  assumes "failover_inv s" "retries_within A L s"
  shows "0 \<le> turns_left A L s"
proof -
  have "0 \<le> (\<Sum>a\<in>A. L - SameAccountRetryCount s a)"
    using assms(2) by (intro sum_nonneg) (simp add: retries_within_def)
  then show ?thesis using assms(1) by (simp add: turns_left_def failover_inv_def)
qed

lemma loop_run_measure:
  assumes "finite A" "\<forall>t \<in> set ts. bounded_turn A L t"
    and "failover_inv s" "retries_within A L s" "loop_run ts s = Some s'"
  shows "int (length ts) \<le> turns_left A L s - turns_left A L s' \<and> retries_within A L s'"
  using assms(2-5)
proof (induction ts arbitrary: s)
  case (Cons t ts)
  from Cons.prems(4) obtain s1 where t: "loop_turn t s = (FailoverContinue, s1)"
    and r: "loop_run ts s1 = Some s'" by (rule loop_run_ConsE)
  have b: "bounded_turn A L t" using Cons.prems(1) by simp
  note d = turns_left_decreases [OF assms(1) b Cons.prems(3) t]
  have "int (length ts) \<le> turns_left A L s1 - turns_left A L s' \<and> retries_within A L s'"
    using Cons.prems(1) by (intro Cons.IH failover_inv_turn [OF Cons.prems(2) t] d r) simp
  with d(1) show ?case by simp
qed simp

section \<open>Properties\<close>


definition unavailable :: failover_error where
  "unavailable =
     \<lparr>StatusCode = 503, err_ForceCacheBilling = False, RetryableOnSameAccount = True,
      SameAccountRetryDelay = 0, SameAccountRetryDeadline = None, SameAccountRetryMax = 0,
      RequestScopedTransient = False, Stage = StageInference, Scope = ScopeUnset,
      NextAccountAction = LegacyRetry\<rparr>"

definition longest_run :: "turn list" where
  "longest_run =
     [Failed False False 0 7 False 1 (Some unavailable),
      Failed False False 1 7 False 1 (Some unavailable),
      NoAccount False False] @ map Vetoed [1, 2, 3, 4, 5, 6, 8, 9, 10]"

lemma longest_run_continues: "\<exists>s. loop_run longest_run (NewFailoverState 1 False) = Some s"
proof -
  have "loop_run longest_run (NewFailoverState 1 False) \<noteq> None" by code_simp
  then show ?thesis by blast
qed


text \<open>
  C32. An account that the group's profit control vetoed stays excluded for the rest of the request, also
  when the exclusions are cleared after a 503; the switches stay within their budget and fewer than
  ten vetoes are taken.
\<close>

theorem vetoed_account_stays_excluded:
  assumes "loop_run (ts @ [Vetoed a] @ us) (NewFailoverState m bound) = Some s"
  shows "a \<in> FailedAccountIDs s \<and> SwitchCount s \<le> max 0 m \<and> profitVetoCount s < maxProfitVetoAttempts"
proof -
  from assms obtain s1 where s1: "loop_run ts (NewFailoverState m bound) = Some s1"
    and "loop_run (Vetoed a # us) s1 = Some s"
    by (auto simp: loop_run_append split: option.splits)
  from this(2) obtain s2 where v: "loop_turn (Vetoed a) s1 = (FailoverContinue, s2)"
    and s: "loop_run us s2 = Some s" by (rule loop_run_ConsE)
  note i1 = failover_inv_run [OF failover_inv_new s1]
  note i2 = failover_inv_run [OF failover_inv_turn [OF i1(1) v] s]
  have "a \<in> profitVetoedAccountIDs s2"
    using v by (auto simp: RecordProfitVeto_def Let_def split: if_splits)
  then show ?thesis using i1(2) i2 loop_turn_MaxSwitches [OF v]
    by (auto simp: failover_inv_def NewFailoverState_def)
qed

definition veto_then_clear :: "turn list" where
  "veto_then_clear = [Failed False False 1 7 False 0 (Some unavailable), NoAccount False False]"

theorem vetoed_account_stays_excluded_witness:
  "\<exists>s. loop_run ([] @ [Vetoed 5] @ veto_then_clear) (NewFailoverState 1 False) = Some s
       \<and> 5 \<in> FailedAccountIDs s \<and> 7 \<notin> FailedAccountIDs s"
proof -
  let ?r = "loop_run ([] @ [Vetoed 5] @ veto_then_clear) (NewFailoverState 1 False)"
  have "case ?r of None \<Rightarrow> False | Some s \<Rightarrow> 7 \<notin> FailedAccountIDs s" by code_simp
  then obtain s where "?r = Some s" "7 \<notin> FailedAccountIDs s" by (auto split: option.splits)
  with vetoed_account_stays_excluded [OF this(1)] show ?thesis by blast
qed

text \<open>
  Exclusions from scheduling. An account is taken out of scheduling for one minute only when the
  request leaves it for good, only after a 400 or a 502 that may be retried on the same account, and
  never for an error that belongs to the request rather than to the account.
\<close>

lemma unschedule_only_when_leaving:
  assumes "HandleFailoverError ctx_done interrupted now a anti limit (Some e) s = (act, writes, s')"
    and "writes \<noteq> []"
  shows "writes = [(a, now + 60 * Second)] \<and> a \<in> FailedAccountIDs s' \<and>
         SameAccountRetryCount s' = SameAccountRetryCount s \<and>
         \<not> RequestScopedTransient e \<and> StatusCode e \<in> {400, 502} \<and>
         \<not> sameAccountRetryAllowed (Some e) (SameAccountRetryCount s a) limit now"
  using assms
  by (auto simp: HandleFailoverError_def TempUnscheduleRetryableError_def Let_def
      split: if_splits option.splits)

lemma unschedule_only_when_leaving_witness:
  "\<exists>act writes s'. HandleFailoverError False False 0 7 False 0 (Some (unavailable\<lparr>StatusCode := 502\<rparr>))
       (NewFailoverState 1 False) = (act, writes, s') \<and>
     writes = [(7, 0 + 60 * Second)] \<and> 7 \<in> FailedAccountIDs s'"
proof -
  let ?h = "HandleFailoverError False False 0 7 False 0 (Some (unavailable\<lparr>StatusCode := 502\<rparr>))
       (NewFailoverState 1 False)"
  have "case ?h of (act, writes, s') \<Rightarrow> writes \<noteq> []" by code_simp
  then obtain act writes s' where h: "?h = (act, writes, s')" "writes \<noteq> []"
    by (cases ?h) auto
  from unschedule_only_when_leaving [OF h] h(1) show ?thesis
    by (intro exI [of _ act] exI [of _ writes] exI [of _ s']) simp
qed

lemma backoff_loop_closed:
  assumes "0 < d" "d \<le> 8 * Second"
  shows "backoff_loop n d = min (8 * Second) (d * 2 ^ n)"
  using assms
proof (induction n arbitrary: d)
  case (Suc n)
  show ?case
  proof (cases "d \<ge> 4 * Second")
    case True
    then have "8 * Second \<le> d * 2" by simp
    also have "d * 2 \<le> d * 2 * 2 ^ n" using Suc.prems by simp
    finally have "8 * Second \<le> d * 2 ^ Suc n" by (simp add: mult.assoc)
    then show ?thesis using True by (simp add: maxRequestScopedRetryDelay_def tdiv_def)
  next
    case False
    then show ?thesis
      using Suc.IH [of "d * 2"] Suc.prems by (simp add: maxRequestScopedRetryDelay_def tdiv_def mult.assoc)
  qed
qed simp

text \<open>
  The delay before the \<open>n\<close>-th attempt on the same account, when the error belongs to the request and
  names no delay of its own: half a second, doubled for each attempt, at most eight seconds.
\<close>

lemma request_scoped_delay:
  assumes "RequestScopedTransient e" "SameAccountRetryDelay e \<le> 0" "1 \<le> n"
  shows "sameAccountRetryDelayFor (Some e) n = min (8 * Second) (500 * Millisecond * 2 ^ nat (n - 1))"
proof (cases "n = 1")
  case False
  with assms show ?thesis
    using backoff_loop_closed [of "500 * Millisecond" "nat (n - 1)"]
    by (simp add: sameAccountRetryDelayFor_def sameAccountRetryDelay_def)
qed (use assms in \<open>simp add: sameAccountRetryDelayFor_def sameAccountRetryDelay_def\<close>)

lemma request_scoped_delay_witness:
  "sameAccountRetryDelayFor (Some (unavailable\<lparr>RequestScopedTransient := True\<rparr>)) 4
     = min (8 * Second) (500 * Millisecond * 2 ^ nat (4 - 1))"
  by (rule request_scoped_delay) (simp_all add: unavailable_def)

text \<open>
  The number of attempts a pool account allows is within 0 and 10 whatever its credentials hold, and
  it is 3 for any other account.
\<close>

lemma pool_retry_count_bounds:
  "0 \<le> GetPoolModeRetryCount pool raw \<and> GetPoolModeRetryCount pool raw \<le> 10 \<and>
   GetPoolModeRetryCount False raw = 3"
  by (auto simp: GetPoolModeRetryCount_def defaultPoolModeRetryCount_def maxPoolModeRetryCount_def
      Let_def split: option.splits)

end
