(* ===== verification/Payment_Types.thy ===== *)
theory Payment_Types
  imports Prelude Complex_Main
begin

text \<open>
  The data of the payment service and its pure functions: order statuses and payment methods
  (\<open>payment/types.go\<close>), currencies (\<open>payment/currency.go\<close>, \<open>service/payment_currency.go\<close>), the provider
  snapshot of an order (\<open>service/payment_order_provider_snapshot.go\<close>), the matching of orders with
  provider instances, and the small helpers of \<open>service/payment_service.go\<close>,
  \<open>payment_order_lifecycle.go\<close> and \<open>payment_fulfillment.go\<close>.

  Amounts are rationals: the decimal value of a column, or of the shortest decimal that denotes the
  \<open>float64\<close>. Comparisons are exact; a \<open>float64\<close> subtraction rounds, by a function the model does not
  fix (\<open>fsub\<close>), and so do the division and the rounding of the decimal library (\<open>dec_div\<close>, \<open>dec_round\<close>).
  Error values keep what callers branch on; message texts are left out.
\<close>

section \<open>Numbers\<close>

datatype float64 = Fin rat | PosInf | NegInf | NaN

record arith =
  fsub :: "rat \<Rightarrow> rat \<Rightarrow> rat"
  dec_div :: "rat \<Rightarrow> rat \<Rightarrow> rat"
  dec_round :: "int \<Rightarrow> rat \<Rightarrow> rat"

definition isValidProviderAmount :: "float64 \<Rightarrow> bool" where
  "isValidProviderAmount amount = (case amount of Fin r \<Rightarrow> r > 0 | _ \<Rightarrow> False)"

section \<open>Statuses and payment methods\<close>

datatype order_status =
    OrderPending | OrderPaid | OrderRecharging | OrderCompleted | OrderExpired | OrderCancelled
  | OrderFailed | OrderRefundRequested | OrderRefunding | OrderRefundPending
  | OrderPartiallyRefunded | OrderRefunded | OrderRefundFailed

definition psIsRefundStatus :: "order_status \<Rightarrow> bool" where
  "psIsRefundStatus s =
     (s \<in> {OrderRefundRequested, OrderRefunding, OrderRefundPending, OrderPartiallyRefunded,
           OrderRefunded, OrderRefundFailed})"

definition TypeAlipay :: string where "TypeAlipay = ''alipay''"
definition TypeWxpay :: string where "TypeWxpay = ''wxpay''"
definition TypeAlipayDirect :: string where "TypeAlipayDirect = ''alipay_direct''"
definition TypeWxpayDirect :: string where "TypeWxpayDirect = ''wxpay_direct''"
definition TypeStripe :: string where "TypeStripe = ''stripe''"
definition TypeCard :: string where "TypeCard = ''card''"
definition TypeLink :: string where "TypeLink = ''link''"
definition TypeEasyPay :: string where "TypeEasyPay = ''easypay''"
definition TypeAirwallex :: string where "TypeAirwallex = ''airwallex''"
definition OrderTypeBalance :: string where "OrderTypeBalance = ''balance''"
definition OrderTypeSubscription :: string where "OrderTypeSubscription = ''subscription''"

lemmas payment_type_defs =
  TypeAlipay_def TypeWxpay_def TypeAlipayDirect_def TypeWxpayDirect_def TypeStripe_def
  TypeCard_def TypeLink_def TypeEasyPay_def TypeAirwallex_def
  OrderTypeBalance_def OrderTypeSubscription_def

definition GetBasePaymentType :: "string \<Rightarrow> string" where
  "GetBasePaymentType t =
     (if t = TypeEasyPay then TypeEasyPay
      else if t = TypeAirwallex then TypeAirwallex
      else if t = TypeStripe \<or> t = TypeCard \<or> t = TypeLink then TypeStripe
      else if length t \<ge> length TypeAlipay \<and> take (length TypeAlipay) t = TypeAlipay then TypeAlipay
      else if length t \<ge> length TypeWxpay \<and> take (length TypeWxpay) t = TypeWxpay then TypeWxpay
      else t)"

text \<open>\<open>strings.Split\<close> at a one-byte separator: always at least one piece.\<close>

fun split_at :: "char \<Rightarrow> string \<Rightarrow> string list" where
  "split_at sep [] = [[]]"
| "split_at sep (c # cs) =
     (if c = sep then [] # split_at sep cs
      else case split_at sep cs of [] \<Rightarrow> [[c]] | p # ps \<Rightarrow> (c # p) # ps)"

definition normalizeVisibleMethodSupportType :: "string \<Rightarrow> string" where
  "normalizeVisibleMethodSupportType t =
     (if TrimSpace t = TypeAlipay \<or> TrimSpace t = TypeAlipayDirect then TypeAlipay
      else if TrimSpace t = TypeWxpay \<or> TrimSpace t = TypeWxpayDirect then TypeWxpay
      else TrimSpace t)"

definition InstanceSupportsType :: "string \<Rightarrow> string \<Rightarrow> bool" where
  "InstanceSupportsType supportedTypes target =
     (if supportedTypes = [] then True
      else \<exists>t \<in> set (split_at (CHR '','') supportedTypes).
             TrimSpace t = target \<or>
             normalizeVisibleMethodSupportType (TrimSpace t) = normalizeVisibleMethodSupportType target)"

section \<open>Currencies\<close>

definition DefaultPaymentCurrency :: string where "DefaultPaymentCurrency = ''CNY''"

definition NormalizePaymentCurrency :: "string \<Rightarrow> string option" where
  "NormalizePaymentCurrency raw =
     (let currency = ToUpper (TrimSpace raw) in
      if currency = [] then Some DefaultPaymentCurrency
      else if length currency \<noteq> 3 then None
      else if \<exists>c \<in> set currency. byte c < 65 \<or> byte c > 90 then None
      else Some currency)"

text \<open>The pair of the decimals of the API's minor unit and of the decimals shown.\<close>

definition paymentCurrencyAmountUnits :: "string \<Rightarrow> (int \<times> int) option" where
  "paymentCurrencyAmountUnits c =
     (if c \<in> {''BIF'', ''CLP'', ''DJF'', ''GNF'', ''JPY'', ''KMF'', ''KRW'', ''MGA'', ''PYG'', ''RWF'',
               ''VND'', ''VUV'', ''XAF'', ''XOF'', ''XPF''} then Some (0, 0)
      else if c \<in> {''ISK'', ''UGX''} then Some (2, 0)
      else if c \<in> {''BHD'', ''IQD'', ''JOD'', ''KWD'', ''LYD'', ''OMR'', ''TND''} then Some (3, 3)
      else None)"

definition paymentCurrencyAmountUnitFor :: "string \<Rightarrow> int \<times> int" where
  "paymentCurrencyAmountUnitFor currency =
     (case NormalizePaymentCurrency currency of
        None \<Rightarrow> (2, 2)
      | Some normalized \<Rightarrow>
          (case paymentCurrencyAmountUnits normalized of Some u \<Rightarrow> u | None \<Rightarrow> (2, 2)))"

definition CurrencyMinorUnit :: "string \<Rightarrow> int" where
  "CurrencyMinorUnit currency = fst (paymentCurrencyAmountUnitFor currency)"

definition CurrencyMaxFractionDigits :: "string \<Rightarrow> int" where
  "CurrencyMaxFractionDigits currency = snd (paymentCurrencyAmountUnitFor currency)"

definition amountToleranceCNY :: rat where "amountToleranceCNY = 1 / 100"

definition paymentAmountToleranceForCurrency :: "string \<Rightarrow> rat" where
  "paymentAmountToleranceForCurrency currency =
     (let minorUnit = CurrencyMinorUnit currency in
      if minorUnit \<le> 2 then amountToleranceCNY else (1 / 10 ^ nat minorUnit) / 2)"

definition calculateGatewayRefundAmount :: "arith \<Rightarrow> rat \<Rightarrow> rat \<Rightarrow> rat \<Rightarrow> string \<Rightarrow> rat" where
  "calculateGatewayRefundAmount ar orderAmount payAmount refundAmount currency =
     (if orderAmount \<le> 0 \<or> payAmount \<le> 0 \<or> refundAmount \<le> 0 then 0
      else let fractionDigits = CurrencyMaxFractionDigits currency in
        if \<bar>fsub ar refundAmount orderAmount\<bar> \<le> paymentAmountToleranceForCurrency currency
        then dec_round ar fractionDigits payAmount
        else dec_round ar fractionDigits (dec_div ar (payAmount * refundAmount) orderAmount))"

section \<open>Orders\<close>

text \<open>A value of the JSON column \<open>provider_snapshot\<close>; of a number its integer part is kept.\<close>

datatype snapshot_value = SvString string | SvNumber int | SvOther

record payment_order =
  o_id :: int
  o_user :: int
  o_amount :: rat
  o_pay_amount :: rat
  o_recharge_code :: string
  o_out_trade_no :: string
  o_payment_type :: string
  o_trade_no :: string
  o_type :: string
  o_group :: "int option"
  o_days :: "int option"
  o_instance :: "string option"
  o_provider_key :: "string option"
  o_snapshot :: "(string \<times> snapshot_value) list"
  o_status :: order_status
  o_refund_amount :: rat
  o_refund_reason :: "string option"
  o_refund_at :: "int option"
  o_force_refund :: bool
  o_refund_requested_at :: "int option"
  o_refund_request_reason :: "string option"
  o_refund_requested_by :: "string option"
  o_expires_at :: int
  o_paid_at :: "int option"
  o_completed_at :: "int option"
  o_failed_at :: "int option"
  o_created_at :: int
  o_updated_at :: int

definition psStringValue :: "string option \<Rightarrow> string" where
  "psStringValue v = (case v of None \<Rightarrow> [] | Some s \<Rightarrow> s)"

record provider_snapshot =
  SchemaVersion :: int
  ProviderInstanceID :: string
  snap_ProviderKey :: string
  PaymentMode :: string
  MerchantAppID :: string
  MerchantID :: string
  snap_Currency :: string

definition psSnapshotStringValue :: "snapshot_value option \<Rightarrow> string" where
  "psSnapshotStringValue v = (case v of Some (SvString s) \<Rightarrow> TrimSpace s | _ \<Rightarrow> [])"

definition psSnapshotIntValue :: "snapshot_value option \<Rightarrow> int" where
  "psSnapshotIntValue v =
     (case v of
        Some (SvNumber n) \<Rightarrow> n
      | Some (SvString s) \<Rightarrow> (case Atoi (TrimSpace s) of Some n \<Rightarrow> n | None \<Rightarrow> 0)
      | _ \<Rightarrow> 0)"

definition psOrderProviderSnapshot :: "payment_order \<Rightarrow> provider_snapshot option" where
  "psOrderProviderSnapshot order =
     (if o_snapshot order = [] then None
      else
      let field = map_of (o_snapshot order);
          snapshot =
            \<lparr>SchemaVersion = psSnapshotIntValue (field ''schema_version''),
             ProviderInstanceID = psSnapshotStringValue (field ''provider_instance_id''),
             snap_ProviderKey = psSnapshotStringValue (field ''provider_key''),
             PaymentMode = psSnapshotStringValue (field ''payment_mode''),
             MerchantAppID = psSnapshotStringValue (field ''merchant_app_id''),
             MerchantID = psSnapshotStringValue (field ''merchant_id''),
             snap_Currency = psSnapshotStringValue (field ''currency'')\<rparr>
      in if SchemaVersion snapshot = 0 \<and> ProviderInstanceID snapshot = [] \<and>
            snap_ProviderKey snapshot = [] \<and> PaymentMode snapshot = [] \<and>
            MerchantAppID snapshot = [] \<and> MerchantID snapshot = [] \<and> snap_Currency snapshot = []
         then None else Some snapshot)"

definition PaymentOrderCurrency :: "payment_order \<Rightarrow> string" where
  "PaymentOrderCurrency order =
     (case psOrderProviderSnapshot order of
        Some snapshot \<Rightarrow>
          (case NormalizePaymentCurrency (snap_Currency snapshot) of
             Some currency \<Rightarrow> currency
           | None \<Rightarrow> DefaultPaymentCurrency)
      | None \<Rightarrow> DefaultPaymentCurrency)"

definition psHasPinnedProviderInstance :: "payment_order \<Rightarrow> bool" where
  "psHasPinnedProviderInstance order =
     (psOrderProviderSnapshot order \<noteq> None \<or>
      (case o_instance order of None \<Rightarrow> False | Some i \<Rightarrow> TrimSpace i \<noteq> []))"

section \<open>Which provider an order belongs to\<close>

text \<open>
  The registry of providers is its function \<open>GetProviderKey\<close> (\<open>payment/registry.go\<close>), with the empty
  string for a payment type that has no provider.
\<close>

definition expectedNotificationProviderKey ::
  "(string \<Rightarrow> string) \<Rightarrow> string \<Rightarrow> string \<Rightarrow> string \<Rightarrow> string" where
  "expectedNotificationProviderKey registry orderPaymentType orderProviderKey instanceProviderKey =
     (if TrimSpace instanceProviderKey \<noteq> [] then TrimSpace instanceProviderKey
      else if TrimSpace orderProviderKey \<noteq> [] then TrimSpace orderProviderKey
      else if TrimSpace (registry orderPaymentType) \<noteq> [] then TrimSpace (registry orderPaymentType)
      else TrimSpace orderPaymentType)"

definition expectedNotificationProviderKeyForOrder ::
  "(string \<Rightarrow> string) \<Rightarrow> payment_order \<Rightarrow> string \<Rightarrow> string" where
  "expectedNotificationProviderKeyForOrder registry order instanceProviderKey =
     (let orderProviderKey =
        (case psOrderProviderSnapshot order of
           Some snapshot \<Rightarrow>
             if snap_ProviderKey snapshot \<noteq> [] then snap_ProviderKey snapshot
             else psStringValue (o_provider_key order)
         | None \<Rightarrow> psStringValue (o_provider_key order))
      in expectedNotificationProviderKey registry (o_payment_type order) orderProviderKey
           instanceProviderKey)"

text \<open>
  The check of a notification's metadata against the merchant recorded in the snapshot. A missing key
  of a Go map reads as the empty string.
\<close>

datatype metadata_error = MetadataMissing string | MetadataMismatch string

definition meta :: "(string \<times> string) list \<Rightarrow> string \<Rightarrow> string" where
  "meta metadata k = (case map_of metadata k of None \<Rightarrow> [] | Some v \<Rightarrow> v)"

definition check_bound :: "string \<Rightarrow> string \<Rightarrow> string \<Rightarrow> metadata_error option" where
  "check_bound field expected actual =
     (if TrimSpace expected = [] then None
      else if actual = [] then Some (MetadataMissing field)
      else if \<not> EqualFold (TrimSpace expected) actual then Some (MetadataMismatch field)
      else None)"

definition check_state :: "string \<Rightarrow> string \<Rightarrow> string \<Rightarrow> metadata_error option" where
  "check_state field wanted actual =
     (if actual \<noteq> [] \<and> \<not> EqualFold actual wanted then Some (MetadataMismatch field) else None)"

fun first_error :: "'e option list \<Rightarrow> 'e option" where
  "first_error [] = None"
| "first_error (None # es) = first_error es"
| "first_error (Some e # es) = Some e"

definition validateProviderSnapshotMetadata ::
  "payment_order \<Rightarrow> string \<Rightarrow> (string \<times> string) list \<Rightarrow> metadata_error option" where
  "validateProviderSnapshotMetadata order providerKey metadata =
     (if metadata = [] then None
      else case psOrderProviderSnapshot order of
        None \<Rightarrow> None
      | Some snapshot \<Rightarrow>
          let text = (\<lambda>k. TrimSpace (meta metadata k));
              upper = (\<lambda>k. ToUpper (TrimSpace (meta metadata k)));
              pk = TrimSpace providerKey
          in if pk = TypeWxpay then
               first_error [check_bound ''appid'' (MerchantAppID snapshot) (text ''appid''),
                            check_bound ''mchid'' (MerchantID snapshot) (text ''mchid''),
                            check_bound ''currency'' (snap_Currency snapshot) (upper ''currency''),
                            check_state ''trade_state'' ''SUCCESS'' (text ''trade_state'')]
             else if pk = TypeAlipay then
               check_bound ''app_id'' (MerchantAppID snapshot) (text ''app_id'')
             else if pk = TypeEasyPay then
               check_bound ''pid'' (MerchantID snapshot) (text ''pid'')
             else if pk = TypeStripe then
               check_bound ''currency'' (snap_Currency snapshot) (upper ''currency'')
             else if pk = TypeAirwallex then
               first_error [check_bound ''account_id'' (MerchantID snapshot) (text ''account_id''),
                            check_bound ''currency'' (snap_Currency snapshot) (upper ''currency''),
                            check_state ''status'' ''SUCCEEDED'' (text ''status'')]
             else None)"

record provider_instance =
  inst_id :: int
  inst_provider_key :: string
  inst_supported_types :: string
  inst_enabled :: bool
  inst_payment_mode :: string
  inst_sort_order :: int
  RefundEnabled :: bool
  AllowUserRefund :: bool

definition psLegacyOrderMatchesInstance :: "string \<Rightarrow> provider_instance \<Rightarrow> bool" where
  "psLegacyOrderMatchesInstance orderPaymentType inst =
     (let baseType = GetBasePaymentType (TrimSpace orderPaymentType);
          instanceProviderKey = TrimSpace (inst_provider_key inst)
      in if baseType = [] then False
         else if baseType = TypeStripe then instanceProviderKey = TypeStripe
         else if instanceProviderKey = TypeStripe then False
         else if instanceProviderKey = baseType then True
         else InstanceSupportsType (inst_supported_types inst) baseType)"

definition psFilterLegacyOrderProviderInstances ::
  "string \<Rightarrow> provider_instance list \<Rightarrow> provider_instance list" where
  "psFilterLegacyOrderProviderInstances orderPaymentType instances =
     (if instances = [] then []
      else if TrimSpace orderPaymentType = [] then instances
      else filter (psLegacyOrderMatchesInstance orderPaymentType) instances)"

definition paymentOrderAllowsRegistryFallback :: "payment_order \<Rightarrow> bool" where
  "paymentOrderAllowsRegistryFallback order =
     (psOrderProviderSnapshot order = None \<and>
      TrimSpace (psStringValue (o_instance order)) = [] \<and>
      TrimSpace (psStringValue (o_provider_key order)) = [])"

definition paymentOrderFallbackProviderKey :: "(string \<Rightarrow> string) \<Rightarrow> payment_order \<Rightarrow> string" where
  "paymentOrderFallbackProviderKey registry order =
     (if TrimSpace (registry (o_payment_type order)) \<noteq> [] then TrimSpace (registry (o_payment_type order))
      else TrimSpace (GetBasePaymentType (TrimSpace (o_payment_type order))))"

section \<open>References of an order at the provider\<close>

definition paymentOrderQueryReference :: "payment_order \<Rightarrow> string option \<Rightarrow> string" where
  "paymentOrderQueryReference order provKey =
     (let k0 = (case provKey of None \<Rightarrow> [] | Some k \<Rightarrow> TrimSpace k);
          k1 = (if k0 \<noteq> [] then k0
                else case psOrderProviderSnapshot order of
                       Some snapshot \<Rightarrow> TrimSpace (snap_ProviderKey snapshot) | None \<Rightarrow> []);
          k2 = (if k1 \<noteq> [] then k1 else TrimSpace (psStringValue (o_provider_key order)));
          providerKey = (if k2 \<noteq> [] then k2 else TrimSpace (o_payment_type order))
      in if GetBasePaymentType providerKey \<in> {TypeAlipay, TypeEasyPay, TypeWxpay}
         then TrimSpace (o_out_trade_no order)
         else if TrimSpace (o_trade_no order) \<noteq> [] then TrimSpace (o_trade_no order)
         else TrimSpace (o_out_trade_no order))"

definition paymentOrderShouldPersistUpstreamTradeNo :: "string \<Rightarrow> string \<Rightarrow> string \<Rightarrow> bool" where
  "paymentOrderShouldPersistUpstreamTradeNo queryRef upstreamTradeNo currentTradeNo =
     (let upstream = TrimSpace upstreamTradeNo in
      if upstream = [] then False
      else if EqualFold upstream (TrimSpace currentTradeNo) then False
      else if EqualFold upstream (TrimSpace queryRef) then False
      else True)"

definition order_no_char :: "char \<Rightarrow> bool" where
  "order_no_char c =
     (let n = byte c in
      (97 \<le> n \<and> n \<le> 122) \<or> (65 \<le> n \<and> n \<le> 90) \<or> (48 \<le> n \<and> n \<le> 57) \<or> c = CHR ''_'' \<or> c = CHR ''-'')"

definition normalizeOrderLookupOutTradeNo :: "string \<Rightarrow> string option" where
  "normalizeOrderLookupOutTradeNo raw =
     (let outTradeNo = TrimSpace raw in
      if outTradeNo = [] then None
      else if length outTradeNo > 64 then None
      else if \<exists>c \<in> set outTradeNo. \<not> order_no_char c then None
      else Some outTradeNo)"

definition orderIDPrefix :: string where "orderIDPrefix = ''sub2_''"

text \<open>The lookup error is only asked whether the order was not found.\<close>

definition parseLegacyPaymentOrderID :: "string \<Rightarrow> bool \<Rightarrow> int option" where
  "parseLegacyPaymentOrderID orderID not_found =
     (if \<not> not_found then None
      else let orderID = TrimSpace orderID in
        if \<not> has_prefix orderID orderIDPrefix then None
        else let trimmed = drop (length orderIDPrefix) orderID in
          if trimmed = [] \<or> trimmed = orderID then None
          else case ParseInt trimmed of
                 None \<Rightarrow> None
               | Some oid \<Rightarrow> if oid \<le> 0 then None else Some oid)"

section \<open>Subscriptions and rebates\<close>

definition psComputeValidityDays :: "int \<Rightarrow> string \<Rightarrow> int" where
  "psComputeValidityDays days unit =
     (if unit = ''week'' \<or> unit = ''weeks'' then days * 7
      else if unit = ''month'' \<or> unit = ''months'' then days * 30
      else days)"

definition paymentSubscriptionOrderNote :: "int \<Rightarrow> string" where
  "paymentSubscriptionOrderNote orderID = ''payment order '' @ Itoa orderID"

text \<open>\<open>strings.ReplaceAll(notes, "\r\n", "\n")\<close>\<close>

fun unix_lines :: "string \<Rightarrow> string" where
  "unix_lines (a # b # s) =
     (if a = CHR 0x0D \<and> b = CHR 0x0A then CHR 0x0A # unix_lines s else a # unix_lines (b # s))"
| "unix_lines s = s"

definition hasPaymentSubscriptionOrderNote :: "string \<Rightarrow> string \<Rightarrow> bool" where
  "hasPaymentSubscriptionOrderNote notes orderNote =
     (\<exists>line \<in> set (split_at (CHR 0x0A) (unix_lines notes)). TrimSpace line = orderNote)"

definition affiliateRebateBaseAmount :: "payment_order \<Rightarrow> rat" where
  "affiliateRebateBaseAmount order =
     (if o_type order = OrderTypeBalance \<or> o_type order = OrderTypeSubscription
      then o_amount order else 0)"

end
