(* ===== verification/Shared_Database.thy ===== *)
theory Shared_Database
  imports Prelude "HOL-Library.State_Monad"
begin

text \<open>
  A database that other requests use at the same time. A program is a \<open>state\<close> computation over a
  \<open>shared\<close> world and reaches the tables only through \<open>call\<close>, one SQL statement, and \<open>transaction\<close>, a
  group of statements that takes effect as a whole or not at all. Before each of them the world's
  schedule lets time pass, lets the other requests change the tables (\<open>ev_others\<close>) and decides
  whether the statement, or its reply, is lost. An exhausted schedule is a quiet, faultless world.

  Programs are verified against a guarantee \<open>G\<close>, a reflexive and transitive relation on the tables:
  provided that whatever the others do respects \<open>G\<close>, the program respects it too. A property that
  \<open>G\<close> preserves therefore holds under every interleaving of verified programs.
\<close>

section \<open>Worlds and statements\<close>

record 'd event =
  ev_fault :: fault
  ev_elapsed :: nat
  ev_others :: "'d \<Rightarrow> 'd"

record 'd shared =
  db :: 'd
  schedule :: "'d event list"
  clock :: int

definition calm :: "'d event" where
  "calm = \<lparr>ev_fault = Fine, ev_elapsed = 0, ev_others = id\<rparr>"

definition next_event :: "('d, 'z) shared_scheme \<Rightarrow> 'd event" where
  "next_event w = (case schedule w of [] \<Rightarrow> calm | e # _ \<Rightarrow> e)"

definition run_call ::
  "(int \<Rightarrow> 'd \<Rightarrow> 'a \<times> 'd) \<Rightarrow> ('d, 'z) shared_scheme \<Rightarrow> (unit + 'a) \<times> ('d, 'z) shared_scheme" where
  "run_call stmt w =
     (let e = next_event w;
          now = clock w + int (ev_elapsed e);
          d = ev_others e (db w);
          w' = w\<lparr>schedule := tl (schedule w), clock := now\<rparr>
      in case ev_fault e of
           Fine \<Rightarrow> (Inr (fst (stmt now d)), w'\<lparr>db := snd (stmt now d)\<rparr>)
         | LostBefore \<Rightarrow> (Inl (), w'\<lparr>db := d\<rparr>)
         | LostReply \<Rightarrow> (Inl (), w'\<lparr>db := snd (stmt now d)\<rparr>))"

definition call ::
  "(int \<Rightarrow> 'd \<Rightarrow> 'a \<times> 'd) \<Rightarrow> (('d, 'z) shared_scheme, unit + 'a) state" where
  "call stmt = State (run_call stmt)"

text \<open>
  A transaction whose body fails is rolled back. \<open>Inl None\<close> is a failure of the database, \<open>Inl (Some e)\<close>
  an error of the body.
\<close>

definition all_or_nothing ::
  "(int \<Rightarrow> 'd \<Rightarrow> ('e + 'a) \<times> 'd) \<Rightarrow> int \<Rightarrow> 'd \<Rightarrow> ('e + 'a) \<times> 'd" where
  "all_or_nothing body now d =
     (case body now d of (Inl e, _) \<Rightarrow> (Inl e, d) | (Inr a, d') \<Rightarrow> (Inr a, d'))"

definition transaction ::
  "(int \<Rightarrow> 'd \<Rightarrow> ('e + 'a) \<times> 'd) \<Rightarrow> (('d, 'z) shared_scheme, 'e option + 'a) state" where
  "transaction body = do {
     r \<leftarrow> call (all_or_nothing body);
     State_Monad.return (case r of
       Inl _ \<Rightarrow> Inl None
     | Inr (Inl e) \<Rightarrow> Inl (Some e)
     | Inr (Inr a) \<Rightarrow> Inr a)}"

text \<open>\<open>time.Now()\<close> of the application.\<close>

definition time_now :: "(('d, 'z) shared_scheme, int) state" where
  "time_now = State (\<lambda>w. (clock w, w))"

lemma run_state_call [simp]: "run_state (call stmt) w = run_call stmt w"
  by (simp add: call_def)

lemma run_state_time_now [simp]: "run_state time_now w = (clock w, w)"
  by (simp add: time_now_def)

lemma run_call_quiet:
  assumes "schedule w = []"
  shows "run_call stmt w = (Inr (fst (stmt (clock w) (db w))), w\<lparr>db := snd (stmt (clock w) (db w))\<rparr>)"
  using assms by (simp add: run_call_def next_event_def calm_def Let_def)

lemma run_state_if: "run_state (if b then m else n) w = (if b then run_state m w else run_state n w)"
  by simp

section \<open>Guarantees\<close>

definition rely_ok :: "('d \<Rightarrow> 'd \<Rightarrow> bool) \<Rightarrow> ('d, 'z) shared_scheme \<Rightarrow> bool" where
  "rely_ok G w \<longleftrightarrow> (\<forall>e \<in> set (schedule w). \<forall>d. G d (ev_others e d))"

lemma rely_ok_quiet [simp]: "schedule w = [] \<Longrightarrow> rely_ok G w"
  by (simp add: rely_ok_def)

text \<open>
  \<open>obeys G P m Q\<close>: started with tables that satisfy \<open>P\<close> among requests that respect \<open>G\<close>, the program
  \<open>m\<close> respects \<open>G\<close> as well, and its result and the tables it leaves satisfy \<open>Q\<close>.
\<close>

definition obeys ::
  "('d \<Rightarrow> 'd \<Rightarrow> bool) \<Rightarrow> ('d \<Rightarrow> bool) \<Rightarrow> (('d, 'z) shared_scheme, 'a) state \<Rightarrow> ('a \<Rightarrow> 'd \<Rightarrow> bool) \<Rightarrow> bool" where
  "obeys G P m Q \<longleftrightarrow>
     (\<forall>w a w'. rely_ok G w \<longrightarrow> P (db w) \<longrightarrow> run_state m w = (a, w') \<longrightarrow>
        rely_ok G w' \<and> G (db w) (db w') \<and> Q a (db w'))"

lemma obeysI:
  assumes "\<And>w a w'. rely_ok G w \<Longrightarrow> P (db w) \<Longrightarrow> run_state m w = (a, w') \<Longrightarrow>
             rely_ok G w' \<and> G (db w) (db w') \<and> Q a (db w')"
  shows "obeys G P m Q"
  using assms by (simp add: obeys_def)

lemma obeysD:
  assumes "obeys G P m Q" "rely_ok G w" "P (db w)" "run_state m w = (a, w')"
  shows "rely_ok G w'" "G (db w) (db w')" "Q a (db w')"
  using assms by (auto simp: obeys_def)

definition stable :: "('d \<Rightarrow> 'd \<Rightarrow> bool) \<Rightarrow> ('d \<Rightarrow> bool) \<Rightarrow> bool" where
  "stable G P \<longleftrightarrow> (\<forall>d d'. P d \<longrightarrow> G d d' \<longrightarrow> P d')"

lemma stableD: "stable G P \<Longrightarrow> P d \<Longrightarrow> G d d' \<Longrightarrow> P d'"
  by (auto simp: stable_def)

lemma stable_True [simp, intro]: "stable G (\<lambda>_. True)"
  by (simp add: stable_def)

lemma stable_const [simp, intro]: "stable G (\<lambda>_. b)"
  by (simp add: stable_def)

lemma stable_conj [intro]: "stable G P \<Longrightarrow> stable G Q \<Longrightarrow> stable G (\<lambda>d. P d \<and> Q d)"
  by (auto simp: stable_def)

lemma stable_all [intro]: "(\<And>x. stable G (P x)) \<Longrightarrow> stable G (\<lambda>d. \<forall>x. P x d)"
  by (auto simp: stable_def)

lemma stable_imp [intro]: "stable G P \<Longrightarrow> stable G (\<lambda>d. b \<longrightarrow> P d)"
  by (auto simp: stable_def)

lemma obeys_weaken:
  assumes "obeys G P m Q" "\<And>d. P' d \<Longrightarrow> P d" "\<And>a d. Q a d \<Longrightarrow> Q' a d"
  shows "obeys G P' m Q'"
  using assms by (auto simp: obeys_def)

lemma obeys_vacuous: "(\<And>d. \<not> P d) \<Longrightarrow> obeys G P m Q"
  by (simp add: obeys_def)

lemma obeys_post: "obeys G P m Q \<Longrightarrow> (\<And>a d. Q a d \<Longrightarrow> Q' a d) \<Longrightarrow> obeys G P m Q'"
  by (auto simp: obeys_def)

text \<open>
  The general form: \<open>relies R G P m Q\<close> is \<open>obeys\<close> among requests that respect \<open>R\<close>, a relation that may be
  stronger than what the program itself respects. A program uses it for what is its own, such as a row
  that nobody else writes.
\<close>

definition relies ::
  "('d \<Rightarrow> 'd \<Rightarrow> bool) \<Rightarrow> ('d \<Rightarrow> 'd \<Rightarrow> bool) \<Rightarrow> ('d \<Rightarrow> bool) \<Rightarrow> (('d, 'z) shared_scheme, 'a) state \<Rightarrow>
   ('a \<Rightarrow> 'd \<Rightarrow> bool) \<Rightarrow> bool" where
  "relies R G P m Q \<longleftrightarrow>
     (\<forall>w a w'. rely_ok R w \<longrightarrow> P (db w) \<longrightarrow> run_state m w = (a, w') \<longrightarrow>
        rely_ok R w' \<and> G (db w) (db w') \<and> Q a (db w'))"

lemma relies_same: "relies G G P m Q \<longleftrightarrow> obeys G P m Q"
  by (simp add: relies_def obeys_def)

lemma reliesI:
  assumes "\<And>w a w'. rely_ok R w \<Longrightarrow> P (db w) \<Longrightarrow> run_state m w = (a, w') \<Longrightarrow>
             rely_ok R w' \<and> G (db w) (db w') \<and> Q a (db w')"
  shows "relies R G P m Q"
  using assms by (simp add: relies_def)

lemma reliesD:
  assumes "relies R G P m Q" "rely_ok R w" "P (db w)" "run_state m w = (a, w')"
  shows "rely_ok R w'" "G (db w) (db w')" "Q a (db w')"
  using assms by (auto simp: relies_def)

lemma relies_weaken:
  assumes "relies R G P m Q" "\<And>d. P' d \<Longrightarrow> P d" "\<And>a d. Q a d \<Longrightarrow> Q' a d"
  shows "relies R G P' m Q'"
  using assms by (auto simp: relies_def)

locale rely_guarantee =
  fixes R G :: "'d \<Rightarrow> 'd \<Rightarrow> bool"
  assumes refl: "G d d"
    and trans: "G d1 d2 \<Longrightarrow> G d2 d3 \<Longrightarrow> G d1 d3"
    and rely: "R d d' \<Longrightarrow> G d d'"
begin

lemma relies_return: "(\<And>d. P d \<Longrightarrow> Q a d) \<Longrightarrow> relies R G P (State_Monad.return a) Q"
  by (auto simp: relies_def refl)

lemma relies_bind:
  assumes "relies R G P m Q" "\<And>a. relies R G (Q a) (f a) S"
  shows "relies R G P (State_Monad.bind m f) S"
proof (rule reliesI)
  fix w b w'
  assume w: "rely_ok R w" "P (db w)" "run_state (State_Monad.bind m f) w = (b, w')"
  then obtain a v where v: "run_state m w = (a, v)" "run_state (f a) v = (b, w')"
    by (auto split: prod.splits)
  note m = reliesD [OF assms(1) w(1,2) v(1)]
  note f = reliesD [OF assms(2) m(1,3) v(2)]
  show "rely_ok R w' \<and> G (db w) (db w') \<and> S b (db w')"
    using m f trans by blast
qed

lemma relies_if:
  "(b \<Longrightarrow> relies R G P m Q) \<Longrightarrow> (\<not> b \<Longrightarrow> relies R G P n Q) \<Longrightarrow> relies R G P (if b then m else n) Q"
  by simp

lemma relies_sum:
  "(\<And>a. x = Inl a \<Longrightarrow> relies R G P (f a) Q) \<Longrightarrow> (\<And>b. x = Inr b \<Longrightarrow> relies R G P (g b) Q) \<Longrightarrow>
     relies R G P (case x of Inl a \<Rightarrow> f a | Inr b \<Rightarrow> g b) Q"
  by (cases x) auto

lemma relies_option:
  "(x = None \<Longrightarrow> relies R G P m Q) \<Longrightarrow> (\<And>b. x = Some b \<Longrightarrow> relies R G P (g b) Q) \<Longrightarrow>
     relies R G P (case x of None \<Rightarrow> m | Some b \<Rightarrow> g b) Q"
  by (cases x) auto

lemma relies_prod:
  "(\<And>a b. x = (a, b) \<Longrightarrow> relies R G P (f a b) Q) \<Longrightarrow> relies R G P (case x of (a, b) \<Rightarrow> f a b) Q"
  by (cases x) auto

lemma relies_let: "(\<And>x. x = v \<Longrightarrow> relies R G P (f x) Q) \<Longrightarrow> relies R G P (let x = v in f x) Q"
  by simp

lemma relies_time_now: "(\<And>d t. P d \<Longrightarrow> Q t d) \<Longrightarrow> relies R G P time_now Q"
  by (auto simp: relies_def refl)

lemma next_event_rely: "rely_ok R w \<Longrightarrow> ev_others (next_event w) = id \<or> (\<forall>d. R d (ev_others (next_event w) d))"
  by (cases "schedule w") (auto simp: rely_ok_def next_event_def calm_def)

text \<open>
  One statement. The precondition must survive what the others do; the statement itself must
  respect \<open>G\<close>; an error leaves the tables before or after the statement.
\<close>

lemma relies_call:
  assumes P: "stable R P"
    and G: "\<And>now d. P d \<Longrightarrow> G d (snd (stmt now d))"
    and Q: "\<And>now d. P d \<Longrightarrow> Q (Inr (fst (stmt now d))) (snd (stmt now d))"
    and E: "\<And>d. P d \<Longrightarrow> Q (Inl ()) d" "\<And>now d. P d \<Longrightarrow> Q (Inl ()) (snd (stmt now d))"
  shows "relies R G P (call stmt) Q"
proof (rule reliesI)
  fix w :: "('d, 'z) shared_scheme" and a w'
  assume w: "rely_ok R w" "P (db w)" "run_state (call stmt) w = (a, w')"
  define d where "d = ev_others (next_event w) (db w)"
  have r: "G (db w) d" using next_event_rely [OF w(1)] by (auto simp: d_def refl rely)
  have p: "P d" using next_event_rely [OF w(1)] w(2) stableD [OF P w(2)] by (auto simp: d_def)
  let ?now = "clock w + int (ev_elapsed (next_event w))"
  have g: "G (db w) (snd (stmt ?now d))" by (rule trans [OF r G [OF p]])
  have rw: "rely_ok R w'"
    using w(1,3) set_tl_subset [of "schedule w"]
    by (auto simp: run_call_def Let_def rely_ok_def split: fault.splits)
  show "rely_ok R w' \<and> G (db w) (db w') \<and> Q a (db w')"
    using w(3) rw r g Q [OF p] E(1) [OF p] E(2) [OF p]
    by (auto simp: run_call_def Let_def d_def [symmetric] split: fault.splits)
qed

text \<open>A query changes nothing.\<close>

lemma relies_query:
  assumes "stable R P" "\<And>now d. snd (stmt now d) = d"
    and "\<And>now d. P d \<Longrightarrow> Q (Inr (fst (stmt now d))) d" "\<And>d. P d \<Longrightarrow> Q (Inl ()) d"
  shows "relies R G P (call stmt) Q"
  by (rule relies_call) (use assms refl in auto)

lemma relies_transaction:
  assumes P: "stable R P"
    and G: "\<And>now d a d'. P d \<Longrightarrow> body now d = (Inr a, d') \<Longrightarrow> G d d'"
    and Q: "\<And>now d a d'. P d \<Longrightarrow> body now d = (Inr a, d') \<Longrightarrow> Q (Inr a) d'"
    and E: "\<And>d e. P d \<Longrightarrow> Q (Inl e) d" "\<And>now d a d'. P d \<Longrightarrow> body now d = (Inr a, d') \<Longrightarrow> Q (Inl None) d'"
  shows "relies R G P (transaction body) Q"
  unfolding transaction_def
proof (rule relies_bind [OF relies_call [OF P]])
  let ?Q = "\<lambda>r d. Q (case r of Inl _ \<Rightarrow> Inl None | Inr (Inl e) \<Rightarrow> Inl (Some e) | Inr (Inr a) \<Rightarrow> Inr a) d"
  fix now d
  assume p: "P d"
  show "G d (snd (all_or_nothing body now d))"
    using G [OF p] refl by (auto simp: all_or_nothing_def split: prod.splits sum.splits)
  show "?Q (Inr (fst (all_or_nothing body now d))) (snd (all_or_nothing body now d))"
    using Q [OF p] E(1) [OF p] by (auto simp: all_or_nothing_def split: prod.splits sum.splits)
  show "?Q (Inl ()) (snd (all_or_nothing body now d))"
    using E [OF p] by (auto simp: all_or_nothing_def split: prod.splits sum.splits)
next
  fix d
  assume p: "P d"
  show "(\<lambda>r d. Q (case r of Inl _ \<Rightarrow> Inl None | Inr (Inl e) \<Rightarrow> Inl (Some e) | Inr (Inr a) \<Rightarrow> Inr a) d)
          (Inl ()) d"
    using E(1) [OF p] by simp
qed (rule relies_return, simp)

lemmas relies_rules =
  relies_bind relies_return relies_if relies_sum relies_option relies_prod relies_let

end

text \<open>The case of one relation.\<close>

locale guarantee =
  fixes G :: "'d \<Rightarrow> 'd \<Rightarrow> bool"
  assumes refl: "G d d"
    and trans: "G d1 d2 \<Longrightarrow> G d2 d3 \<Longrightarrow> G d1 d3"

sublocale guarantee \<subseteq> same: rely_guarantee G G
  by unfold_locales (auto intro: refl trans)

context guarantee begin

lemmas obeys_return = same.relies_return [unfolded relies_same]
lemmas obeys_bind = same.relies_bind [unfolded relies_same]
lemmas obeys_if = same.relies_if [unfolded relies_same]
lemmas obeys_sum = same.relies_sum [unfolded relies_same]
lemmas obeys_option = same.relies_option [unfolded relies_same]
lemmas obeys_prod = same.relies_prod [unfolded relies_same]
lemmas obeys_let = same.relies_let [unfolded relies_same]
lemmas obeys_time_now = same.relies_time_now [unfolded relies_same]
lemmas obeys_query = same.relies_query [unfolded relies_same]

text \<open>A step that is taken on a condition, and otherwise does nothing.\<close>

lemma obeys_unless:
  "obeys G P m (\<lambda>_. P) \<Longrightarrow> obeys G P (if b then State_Monad.return r else m) (\<lambda>_. P)"
  "obeys G P m (\<lambda>_. P) \<Longrightarrow> obeys G P (if b then m else State_Monad.return r) (\<lambda>_. P)"
  by (cases b; simp add: obeys_return)+

lemma next_event_rely: "rely_ok G w \<Longrightarrow> G d (ev_others (next_event w) d)"
  using same.next_event_rely [of w] by (auto simp: refl)

text \<open>An error leaves the tables before or after the statement: in both the precondition holds.\<close>

lemma obeys_call:
  assumes P: "stable G P"
    and G: "\<And>now d. P d \<Longrightarrow> G d (snd (stmt now d))"
    and Q: "\<And>now d. P d \<Longrightarrow> Q (Inr (fst (stmt now d))) (snd (stmt now d))"
    and E: "\<And>d. P d \<Longrightarrow> Q (Inl ()) d"
  shows "obeys G P (call stmt) Q"
  unfolding relies_same [symmetric]
  by (rule same.relies_call [OF P G Q E]) (auto intro: E stableD [OF P _ G])

text \<open>A statement that keeps what was known before it.\<close>

lemma obeys_keep:
  assumes P: "stable G P" and G: "\<And>now d. P d \<Longrightarrow> G d (snd (stmt now d))"
  shows "obeys G P (call stmt) (\<lambda>_. P)"
  by (rule obeys_call [OF P G]) (use stableD [OF P _ G] in auto)

lemma obeys_transaction:
  assumes P: "stable G P"
    and G: "\<And>now d a d'. P d \<Longrightarrow> body now d = (Inr a, d') \<Longrightarrow> G d d'"
    and Q: "\<And>now d a d'. P d \<Longrightarrow> body now d = (Inr a, d') \<Longrightarrow> Q (Inr a) d'"
    and E: "\<And>d e. P d \<Longrightarrow> Q (Inl e) d"
  shows "obeys G P (transaction body) Q"
  unfolding relies_same [symmetric]
  by (rule same.relies_transaction [OF P G Q E]) (auto intro: E stableD [OF P _ G])

lemmas obeys_rules =
  obeys_bind obeys_return obeys_if obeys_sum obeys_option obeys_prod obeys_let

end

end
