(* ===== verification/Money.thy ===== *)
theory Money
  imports Complex_Main Prelude
begin

text \<open>
  Amounts of money are rationals: the decimal value of a column, or the shortest decimal that denotes
  a \<open>float64\<close>. What a \<open>NUMERIC(20, n)\<close> column keeps of a number is here, with the facts about the eight
  decimals of \<open>users.balance\<close> and the other columns of the ledger.
\<close>

text \<open>Writing a number into a column with \<open>n\<close> decimals rounds half away from zero.\<close>

definition column :: "nat \<Rightarrow> rat \<Rightarrow> rat" where
  "column n r = sgn r * of_int \<lfloor>\<bar>r\<bar> * 10 ^ n + 1 / 2\<rfloor> / 10 ^ n"

text \<open>A number with at most eight decimals is stored as it is.\<close>

definition scaled :: "rat \<Rightarrow> bool" where
  "scaled r \<longleftrightarrow> r * 10 ^ 8 \<in> \<int>"

lemma column_scaled: "scaled (column 8 r)"
proof -
  have "sgn r \<in> \<int>" by (auto simp: sgn_if)
  then show ?thesis by (simp add: scaled_def column_def)
qed

lemma column_id:
  assumes "scaled r"
  shows "column 8 r = r"
proof -
  from assms obtain k :: int where k: "r * 10 ^ 8 = of_int k" by (auto simp: scaled_def Ints_def)
  have "\<bar>r\<bar> * 10 ^ 8 = \<bar>r * 10 ^ 8\<bar>" by (simp add: abs_mult)
  also have "\<dots> = of_int \<bar>k\<bar>" unfolding k by simp
  finally have "\<lfloor>\<bar>r\<bar> * 10 ^ 8 + 1 / 2\<rfloor> = \<lfloor>of_int \<bar>k\<bar> + 1 / 2 :: rat\<rfloor>" by simp
  also have "\<dots> = \<bar>k\<bar>" by linarith
  finally have "column 8 r = sgn r * of_int \<bar>k\<bar> / 10 ^ 8" by (simp add: column_def)
  also have "\<dots> = sgn r * \<bar>r * 10 ^ 8\<bar> / 10 ^ 8" unfolding k by simp
  also have "\<dots> = r" by (simp add: abs_mult sgn_mult_abs)
  finally show ?thesis .
qed

lemma scaled_add: "scaled r \<Longrightarrow> scaled s \<Longrightarrow> scaled (r + s)"
  by (simp add: scaled_def distrib_right)

lemma scaled_0 [simp]: "scaled 0"
  by (simp add: scaled_def)

lemma scaled_diff: "scaled r \<Longrightarrow> scaled s \<Longrightarrow> scaled (r - s)"
  by (simp add: scaled_def left_diff_distrib)

text \<open>Rounding moves a number by at most half a unit.\<close>

lemma column_error: "\<bar>column n r - r\<bar> \<le> 1 / (2 * 10 ^ n)"
proof -
  let ?f = "of_int \<lfloor>\<bar>r\<bar> * 10 ^ n + 1 / 2\<rfloor> :: rat"
  have "\<bar>?f - \<bar>r\<bar> * 10 ^ n\<bar> \<le> 1 / 2" by linarith
  then have "\<bar>?f - \<bar>r\<bar> * 10 ^ n\<bar> / 10 ^ n \<le> (1 / 2) / 10 ^ n" by (rule divide_right_mono) simp
  moreover have "?f / 10 ^ n - \<bar>r\<bar> = (?f - \<bar>r\<bar> * 10 ^ n) / 10 ^ n" by (simp add: diff_divide_distrib)
  ultimately have e: "\<bar>?f / 10 ^ n - \<bar>r\<bar>\<bar> \<le> 1 / (2 * 10 ^ n)" by (simp add: abs_divide)
  have "column n r - r = sgn r * (?f / 10 ^ n - \<bar>r\<bar>)"
    by (simp add: column_def right_diff_distrib mult_sgn_abs)
  then have "\<bar>column n r - r\<bar> \<le> \<bar>?f / 10 ^ n - \<bar>r\<bar>\<bar>" by (simp add: abs_mult abs_sgn_eq)
  with e show ?thesis by simp
qed

text \<open>A number close to one that is stored as it is, is rounded to that one.\<close>

lemma column_near:
  assumes "scaled s" "\<bar>r - s\<bar> < 1 / (2 * 10 ^ 8)"
  shows "column 8 r = s"
proof -
  let ?m = "column 8 r"
  have "\<bar>?m - s\<bar> < 1 / 10 ^ 8"
    using column_error [of 8 r] assms(2) abs_triangle_ineq [of "?m - r" "r - s"] by simp
  then have "\<bar>?m * 10 ^ 8 - s * 10 ^ 8\<bar> < 1"
    unfolding left_diff_distrib [symmetric] abs_mult by simp
  moreover obtain a b :: int where "?m * 10 ^ 8 = of_int a" "s * 10 ^ 8 = of_int b"
    using column_scaled [of r] assms(1) by (auto simp: scaled_def Ints_def)
  ultimately have "\<bar>of_int (a - b)\<bar> < (1 :: rat)" "?m * 10 ^ 8 = of_int a" "s * 10 ^ 8 = of_int b" by simp_all
  moreover from this(1) have "a = b" by linarith
  ultimately show ?thesis by simp
qed

text \<open>Rounding does not cross a whole number of units.\<close>

lemma column_bound:
  assumes "\<bar>v\<bar> < of_nat b"
  shows "\<bar>column n v\<bar> \<le> of_nat b"
proof -
  let ?x = "\<lfloor>\<bar>v\<bar> * 10 ^ n + 1 / 2\<rfloor>"
  have "\<bar>v\<bar> * 10 ^ n < of_int (int (b * 10 ^ n))" using assms by simp
  then have "?x < int (b * 10 ^ n) + 1" unfolding floor_less_iff by linarith
  then have "of_int ?x \<le> (of_int (int (b * 10 ^ n)) :: rat)" by (simp only: of_int_le_iff)
  moreover have "0 \<le> (of_int ?x :: rat)" by simp
  ultimately have "\<bar>of_int ?x / 10 ^ n\<bar> \<le> (of_nat b :: rat)" by (simp add: divide_le_eq)
  moreover have "\<bar>column n v\<bar> \<le> \<bar>of_int ?x / 10 ^ n\<bar>"
  proof -
    have "\<bar>sgn v * y\<bar> \<le> \<bar>y\<bar>" for y :: rat by (simp add: abs_mult abs_sgn_eq)
    then show ?thesis unfolding column_def times_divide_eq_right [symmetric] .
  qed
  ultimately show ?thesis by (rule order_trans [rotated])
qed

text \<open>The scale of other columns.\<close>

definition on_scale :: "nat \<Rightarrow> rat \<Rightarrow> bool" where
  "on_scale n r \<longleftrightarrow> r * 10 ^ n \<in> \<int>"

lemma scaled_iff: "scaled r \<longleftrightarrow> on_scale 8 r"
  by (simp add: scaled_def on_scale_def)

lemma on_scale_column [simp]: "on_scale n (column n r)"
proof -
  have "sgn r \<in> \<int>" by (auto simp: sgn_if)
  then show ?thesis by (simp add: on_scale_def column_def)
qed

end
