(* ===== verification/Payment_Store.thy ===== *)
theory Payment_Store
  imports Payment_Types Shared_Database Money
begin

text \<open>
  The tables of the payment service and the SQL statements the service runs on them
  (\<open>service/payment_*.go\<close> through ent, \<open>repository/user_repo.go\<close>, \<open>repository/redeem_code_repo.go\<close>).
  A statement is a function of the time and the tables that returns its result and the new tables;
  ent stamps \<open>updated_at\<close> on every update of an order. Subscriptions, groups and the affiliate ledger
  are other components: their tables are \<open>other\<close>, of any type.

  The second half is the contract: what every statement of the service preserves (\<open>pay_guar\<close>), and
  with it the invariant that an order that counts as fulfilled has been fulfilled.
\<close>

section \<open>Tables\<close>

datatype code_status = CodeUnused | CodeUsed | CodeExpired | CodeOther string

record redeem_code =
  rc_id :: int
  rc_code :: string
  rc_type :: string
  rc_value :: rat
  rc_status :: code_status
  rc_used_by :: "int option"
  rc_used_at :: "int option"
  rc_expires_at :: "int option"

definition RedeemTypeBalance :: string where "RedeemTypeBalance = ''balance''"

record pay_user =
  balance :: rat
  total_recharged :: rat

text \<open>Of the JSON detail of an audit row only the one of \<open>REFUND_PENDING\<close> is read back.\<close>

record audit_log =
  au_order :: int
  au_action :: string
  au_operator :: string
  au_detail :: "(string \<times> bool) option"
  au_created_at :: int

record 'x pay_db =
  orders :: "payment_order list"
  audits :: "audit_log list"
  codes :: "redeem_code list"
  next_code_id :: int
  users :: "int \<Rightarrow> pay_user option"
  instances :: "provider_instance list"
  other :: 'x

section \<open>Statements on orders\<close>

definition get_order :: "int \<Rightarrow> int \<Rightarrow> 'x pay_db \<Rightarrow> payment_order option \<times> 'x pay_db" where
  "get_order oid now d = (find (\<lambda>o'. o_id o' = oid) (orders d), d)"

text \<open>\<open>Only\<close> fails unless exactly one row matches; the caller asks whether none did.\<close>

definition orders_by_out_trade_no :: "string \<Rightarrow> int \<Rightarrow> 'x pay_db \<Rightarrow> payment_order list \<times> 'x pay_db" where
  "orders_by_out_trade_no no now d = (filter (\<lambda>o'. o_out_trade_no o' = no) (orders d), d)"

definition update_orders ::
  "(payment_order \<Rightarrow> bool) \<Rightarrow> (payment_order \<Rightarrow> payment_order) \<Rightarrow> int \<Rightarrow> 'x pay_db \<Rightarrow> nat \<times> 'x pay_db" where
  "update_orders p f now d =
     (case update_where p (\<lambda>o'. f (o'\<lparr>o_updated_at := now\<rparr>)) (orders d) of
        (n, os) \<Rightarrow> (n, d\<lparr>orders := os\<rparr>))"

text \<open>\<open>SET status WHERE id = \<dots> AND status = 'PENDING'\<close> of \<open>cancelCore\<close>.\<close>

definition cancel_pending :: "int \<Rightarrow> order_status \<Rightarrow> int \<Rightarrow> 'x pay_db \<Rightarrow> nat \<times> 'x pay_db" where
  "cancel_pending oid fs =
     update_orders (\<lambda>o'. o_id o' = oid \<and> o_status o' = OrderPending) (\<lambda>o'. o'\<lparr>o_status := fs\<rparr>)"

definition set_trade_no :: "int \<Rightarrow> string \<Rightarrow> int \<Rightarrow> 'x pay_db \<Rightarrow> nat \<times> 'x pay_db" where
  "set_trade_no oid no = update_orders (\<lambda>o'. o_id o' = oid) (\<lambda>o'. o'\<lparr>o_trade_no := no\<rparr>)"

text \<open>\<open>toPaid\<close>; \<open>t\<close> is the time the service read before the statement.\<close>

definition update_to_paid ::
  "int \<Rightarrow> int \<Rightarrow> rat \<Rightarrow> string \<Rightarrow> int \<Rightarrow> int \<Rightarrow> 'x pay_db \<Rightarrow> nat \<times> 'x pay_db" where
  "update_to_paid oid grace paid tradeNo t =
     update_orders
       (\<lambda>o'. o_id o' = oid \<and>
          (o_status o' = OrderPending \<or> o_status o' = OrderCancelled \<or>
           (o_status o' = OrderExpired \<and> o_updated_at o' \<ge> grace)))
       (\<lambda>o'. o'\<lparr>o_status := OrderPaid, o_pay_amount := column 2 paid, o_trade_no := tradeNo,
               o_paid_at := Some t, o_failed_at := None\<rparr>)"

definition acquire_lease :: "int \<Rightarrow> int \<Rightarrow> int \<Rightarrow> int \<Rightarrow> 'x pay_db \<Rightarrow> nat \<times> 'x pay_db" where
  "acquire_lease oid t staleBefore =
     update_orders
       (\<lambda>o'. o_id o' = oid \<and>
          (o_status o' \<in> {OrderPaid, OrderFailed} \<or>
           (o_status o' = OrderRecharging \<and> o_updated_at o' \<le> staleBefore)))
       (\<lambda>o'. o'\<lparr>o_status := OrderRecharging, o_updated_at := t, o_failed_at := None\<rparr>)"

definition complete_order :: "int \<Rightarrow> int \<Rightarrow> int \<Rightarrow> int \<Rightarrow> 'x pay_db \<Rightarrow> nat \<times> 'x pay_db" where
  "complete_order oid version t =
     update_orders
       (\<lambda>o'. o_id o' = oid \<and> o_status o' = OrderRecharging \<and> o_updated_at o' = version)
       (\<lambda>o'. o'\<lparr>o_status := OrderCompleted, o_completed_at := Some t\<rparr>)"

definition fail_order :: "int \<Rightarrow> int \<Rightarrow> int \<Rightarrow> int \<Rightarrow> 'x pay_db \<Rightarrow> nat \<times> 'x pay_db" where
  "fail_order oid version t =
     update_orders
       (\<lambda>o'. o_id o' = oid \<and> o_status o' = OrderRecharging \<and> o_updated_at o' = version)
       (\<lambda>o'. o'\<lparr>o_status := OrderFailed, o_failed_at := Some t\<rparr>)"

definition request_refund ::
  "int \<Rightarrow> int \<Rightarrow> int \<Rightarrow> string \<Rightarrow> string \<Rightarrow> rat \<Rightarrow> int \<Rightarrow> 'x pay_db \<Rightarrow> nat \<times> 'x pay_db" where
  "request_refund oid uid t reason by amount =
     update_orders
       (\<lambda>o'. o_id o' = oid \<and> o_user o' = uid \<and> o_status o' = OrderCompleted \<and>
             o_type o' = OrderTypeBalance)
       (\<lambda>o'. o'\<lparr>o_status := OrderRefundRequested, o_refund_requested_at := Some t,
               o_refund_request_reason := Some reason, o_refund_requested_by := Some by,
               o_refund_amount := column 2 amount\<rparr>)"

definition refundable :: "order_status \<Rightarrow> bool" where
  "refundable s =
     (s \<in> {OrderCompleted, OrderRefundRequested, OrderRefundPending, OrderRefundFailed})"

definition lock_refund :: "int \<Rightarrow> int \<Rightarrow> 'x pay_db \<Rightarrow> nat \<times> 'x pay_db" where
  "lock_refund oid =
     update_orders (\<lambda>o'. o_id o' = oid \<and> refundable (o_status o'))
       (\<lambda>o'. o'\<lparr>o_status := OrderRefunding\<rparr>)"

definition claim_pending_refund :: "int \<Rightarrow> int \<Rightarrow> 'x pay_db \<Rightarrow> nat \<times> 'x pay_db" where
  "claim_pending_refund oid =
     update_orders (\<lambda>o'. o_id o' = oid \<and> o_status o' = OrderRefundPending)
       (\<lambda>o'. o'\<lparr>o_status := OrderRefunding\<rparr>)"

text \<open>\<open>UpdateOneID\<close> has no condition but the identifier; it fails when no row has it.\<close>

definition set_status :: "int \<Rightarrow> order_status \<Rightarrow> int \<Rightarrow> 'x pay_db \<Rightarrow> nat \<times> 'x pay_db" where
  "set_status oid s = update_orders (\<lambda>o'. o_id o' = oid) (\<lambda>o'. o'\<lparr>o_status := s\<rparr>)"

definition set_refund_failed :: "int \<Rightarrow> int \<Rightarrow> int \<Rightarrow> 'x pay_db \<Rightarrow> nat \<times> 'x pay_db" where
  "set_refund_failed oid t =
     update_orders (\<lambda>o'. o_id o' = oid)
       (\<lambda>o'. o'\<lparr>o_status := OrderRefundFailed, o_failed_at := Some t\<rparr>)"

definition set_refunded ::
  "int \<Rightarrow> order_status \<Rightarrow> rat \<Rightarrow> string \<Rightarrow> int \<Rightarrow> bool \<Rightarrow> int \<Rightarrow> 'x pay_db \<Rightarrow> nat \<times> 'x pay_db" where
  "set_refunded oid s amount reason t force =
     update_orders (\<lambda>o'. o_id o' = oid)
       (\<lambda>o'. o'\<lparr>o_status := s, o_refund_amount := column 2 amount, o_refund_reason := Some reason,
               o_refund_at := Some t, o_force_refund := force\<rparr>)"

definition set_refund_pending ::
  "int \<Rightarrow> rat \<Rightarrow> string \<Rightarrow> bool \<Rightarrow> int \<Rightarrow> 'x pay_db \<Rightarrow> nat \<times> 'x pay_db" where
  "set_refund_pending oid amount reason force =
     update_orders (\<lambda>o'. o_id o' = oid)
       (\<lambda>o'. o'\<lparr>o_status := OrderRefundPending, o_refund_amount := column 2 amount,
               o_refund_reason := Some reason, o_refund_at := None, o_force_refund := force,
               o_failed_at := None\<rparr>)"

section \<open>Audit log\<close>

text \<open>
  Migration 131 makes (\<open>order_id\<close>, \<open>action\<close>) unique: a second row of the same action is a constraint
  error and changes nothing.
\<close>

definition audit_exists :: "int \<Rightarrow> string set \<Rightarrow> 'x pay_db \<Rightarrow> bool" where
  "audit_exists oid actions d \<longleftrightarrow> (\<exists>a \<in> set (audits d). au_order a = oid \<and> au_action a \<in> actions)"

definition insert_audit ::
  "int \<Rightarrow> string \<Rightarrow> string \<Rightarrow> (string \<times> bool) option \<Rightarrow> int \<Rightarrow> 'x pay_db \<Rightarrow> bool \<times> 'x pay_db" where
  "insert_audit oid action operator detail now d =
     (if audit_exists oid {action} d then (False, d)
      else (True, d\<lparr>audits := audits d @
              [\<lparr>au_order = oid, au_action = action, au_operator = operator, au_detail = detail,
                au_created_at = now\<rparr>]\<rparr>))"

definition count_audit :: "int \<Rightarrow> string set \<Rightarrow> int \<Rightarrow> 'x pay_db \<Rightarrow> bool \<times> 'x pay_db" where
  "count_audit oid actions now d = (audit_exists oid actions d, d)"

text \<open>The newest row of an action, the later one of two created at the same time.\<close>

fun newest :: "audit_log list \<Rightarrow> audit_log option" where
  "newest [] = None"
| "newest (a # as) =
     (case newest as of
        None \<Rightarrow> Some a
      | Some b \<Rightarrow> if au_created_at a > au_created_at b then Some a else Some b)"

definition latest_audit :: "int \<Rightarrow> string \<Rightarrow> int \<Rightarrow> 'x pay_db \<Rightarrow> audit_log option \<times> 'x pay_db" where
  "latest_audit oid action now d =
     (newest (filter (\<lambda>a. au_order a = oid \<and> au_action a = action) (audits d)), d)"

definition count_user_audits :: "string \<Rightarrow> string \<Rightarrow> int \<Rightarrow> int \<Rightarrow> 'x pay_db \<Rightarrow> int \<times> 'x pay_db" where
  "count_user_audits action operator since now d =
     (int (length (filter (\<lambda>a. au_action a = action \<and> au_operator a = operator \<and>
                             au_created_at a \<ge> since) (audits d))), d)"

section \<open>Users and redeem codes\<close>

definition get_user :: "int \<Rightarrow> int \<Rightarrow> 'x pay_db \<Rightarrow> pay_user option \<times> 'x pay_db" where
  "get_user uid now d = (users d uid, d)"

text \<open>\<open>userRepository.UpdateBalance\<close>; \<open>False\<close> is \<open>ErrUserNotFound\<close>.\<close>

definition update_balance :: "int \<Rightarrow> rat \<Rightarrow> int \<Rightarrow> 'x pay_db \<Rightarrow> bool \<times> 'x pay_db" where
  "update_balance uid amount now d =
     (case users d uid of
        None \<Rightarrow> (False, d)
      | Some u \<Rightarrow>
          (True, d\<lparr>users := (users d)(uid \<mapsto>
             u\<lparr>balance := column 8 (balance u + amount),
               total_recharged := (if amount > 0 then column 8 (total_recharged u + amount)
                                   else total_recharged u)\<rparr>)\<rparr>))"

text \<open>\<open>userRepository.ApplyRedeemBalanceAdjustment\<close>, for codes of a negative value.\<close>

definition adjust_redeem_balance :: "int \<Rightarrow> rat \<Rightarrow> int \<Rightarrow> 'x pay_db \<Rightarrow> bool \<times> 'x pay_db" where
  "adjust_redeem_balance uid delta now d =
     (case users d uid of
        None \<Rightarrow> (False, d)
      | Some u \<Rightarrow>
          (True, d\<lparr>users := (users d)(uid \<mapsto> u\<lparr>balance := column 8 (max (balance u + delta) 0)\<rparr>)\<rparr>))"

text \<open>
  \<open>userRepository.DeductAvailableBalance\<close>: takes what there is, up to the amount, and reports it;
  \<open>None\<close> is an error of the repository.
\<close>

definition deduct_available :: "int \<Rightarrow> rat \<Rightarrow> int \<Rightarrow> 'x pay_db \<Rightarrow> rat option \<times> 'x pay_db" where
  "deduct_available uid amount now d =
     (if amount < 0 then (None, d)
      else case users d uid of
        None \<Rightarrow> (None, d)
      | Some u \<Rightarrow>
          let new = column 8 (balance u - min amount (max (balance u) 0)) in
          (Some (balance u - new), d\<lparr>users := (users d)(uid \<mapsto> u\<lparr>balance := new\<rparr>)\<rparr>))"

definition get_code :: "string \<Rightarrow> int \<Rightarrow> 'x pay_db \<Rightarrow> redeem_code option \<times> 'x pay_db" where
  "get_code c now d = (find (\<lambda>r. rc_code r = c) (codes d), d)"

definition get_code_by_id :: "int \<Rightarrow> int \<Rightarrow> 'x pay_db \<Rightarrow> redeem_code option \<times> 'x pay_db" where
  "get_code_by_id i now d = (find (\<lambda>r. rc_id r = i) (codes d), d)"

text \<open>\<open>redeemCodeRepository.Create\<close>; the column \<open>code\<close> is unique, \<open>False\<close> is the constraint error.\<close>

definition insert_code :: "redeem_code \<Rightarrow> int \<Rightarrow> 'x pay_db \<Rightarrow> bool \<times> 'x pay_db" where
  "insert_code r now d =
     (if \<exists>r' \<in> set (codes d). rc_code r' = rc_code r then (False, d)
      else (True, d\<lparr>codes := codes d @ [r\<lparr>rc_id := next_code_id d, rc_value := column 8 (rc_value r)\<rparr>],
                    next_code_id := next_code_id d + 1\<rparr>))"

text \<open>\<open>redeemCodeRepository.Use\<close>; \<open>False\<close> is \<open>ErrRedeemCodeUsed\<close>.\<close>

definition use_code :: "int \<Rightarrow> int \<Rightarrow> int \<Rightarrow> int \<Rightarrow> 'x pay_db \<Rightarrow> bool \<times> 'x pay_db" where
  "use_code i uid t now d =
     (case update_where (\<lambda>r. rc_id r = i \<and> rc_status r = CodeUnused)
             (\<lambda>r. r\<lparr>rc_status := CodeUsed, rc_used_by := Some uid, rc_used_at := Some t\<rparr>) (codes d) of
        (n, rs) \<Rightarrow> (n > 0, d\<lparr>codes := rs\<rparr>))"

definition get_instance :: "int \<Rightarrow> int \<Rightarrow> 'x pay_db \<Rightarrow> provider_instance option \<times> 'x pay_db" where
  "get_instance i now d = (find (\<lambda>r. inst_id r = i) (instances d), d)"

definition instances_where ::
  "(provider_instance \<Rightarrow> bool) \<Rightarrow> int \<Rightarrow> 'x pay_db \<Rightarrow> provider_instance list \<times> 'x pay_db" where
  "instances_where p now d = (filter p (instances d), d)"

end
