(* ===== verification/Payment_Fulfillment.thy ===== *)
theory Payment_Fulfillment
  imports Payment_Store
begin

text \<open>
  From a payment notification to the fulfilled order (\<open>service/payment_fulfillment.go\<close>, with
  \<open>getOrderProviderInstance\<close> of \<open>service/payment_refund.go\<close> and the redemption of the order's code in
  \<open>service/redeem_service.go\<close>). Every function is a program over the shared database; a \<open>nil\<close> error
  is \<open>Inr\<close>. E-mail notifications, caches of balances and log lines are left out.

  What belongs to other components is in \<open>pay_env\<close>: the provider built from an instance, the registry,
  the Redis lock of a redeem code, groups and subscriptions, and the accrual of affiliate rebates. They
  act on the tables \<open>other\<close> only.
\<close>

section \<open>Environment\<close>

record provider =
  prov_key :: string
  prov_cancelable :: bool
  prov_query_refund :: bool
  prov_identity :: "(string \<times> string) list"

record 'x pay_env =
  pe_arith :: arith
  registry_key :: "string \<Rightarrow> string"
  registry_provider :: "string \<Rightarrow> provider option"
  make_provider :: "provider_instance \<Rightarrow> provider option"
  redeem_lock :: "string \<Rightarrow> int \<Rightarrow> bool"
  grant_other :: "redeem_code \<Rightarrow> int \<Rightarrow> int \<Rightarrow> 'x \<Rightarrow> 'x option"
  group_active :: "int \<Rightarrow> 'x \<Rightarrow> bool"
  subscription_notes :: "int \<Rightarrow> int \<Rightarrow> 'x \<Rightarrow> unit + string option"
  assign_or_extend :: "int \<Rightarrow> int \<Rightarrow> int \<Rightarrow> string \<Rightarrow> int \<Rightarrow> 'x \<Rightarrow> 'x option"
  invalidate_caches :: "int \<Rightarrow> int \<Rightarrow> int \<Rightarrow> bool"
  affiliate_on :: bool
  accrue_rebate :: "int \<Rightarrow> rat \<Rightarrow> int \<Rightarrow> int \<Rightarrow> 'x \<Rightarrow> (rat \<times> 'x) option"

datatype pay_error = AppError string | OtherError | ErrOrderNotFound

type_synonym ('x, 'z, 'a) prog = "(('x pay_db, 'z) shared_scheme, 'a) state"

definition fetch_order :: "int \<Rightarrow> ('x, 'z, payment_order option) prog" where
  "fetch_order oid = do {
     r \<leftarrow> call (get_order oid);
     State_Monad.return (case r of Inl _ \<Rightarrow> None | Inr o' \<Rightarrow> o')}"

definition writeAuditLog ::
  "int \<Rightarrow> string \<Rightarrow> string \<Rightarrow> (string \<times> bool) option \<Rightarrow> ('x, 'z, unit) prog" where
  "writeAuditLog oid action operator detail = do {
     _ \<leftarrow> call (insert_audit oid action operator detail);
     State_Monad.return ()}"

definition hasAuditLog :: "int \<Rightarrow> string \<Rightarrow> ('x, 'z, bool) prog" where
  "hasAuditLog oid action = do {
     r \<leftarrow> call (count_audit oid {action});
     State_Monad.return (case r of Inl _ \<Rightarrow> False | Inr b \<Rightarrow> b)}"

section \<open>The provider instance of an order\<close>

definition resolveSnapshotOrderProviderInstance ::
  "payment_order \<Rightarrow> provider_snapshot \<Rightarrow> ('x, 'z, pay_error + provider_instance option) prog" where
  "resolveSnapshotOrderProviderInstance order snapshot =
     (let columnID = TrimSpace (psStringValue (o_instance order));
          snapID = TrimSpace (ProviderInstanceID snapshot);
          instanceID = (if snapID = [] then columnID else snapID)
      in if instanceID = [] then State_Monad.return (Inl OtherError)
         else if columnID \<noteq> [] \<and> ProviderInstanceID snapshot \<noteq> [] \<and>
                 \<not> EqualFold columnID (ProviderInstanceID snapshot)
         then State_Monad.return (Inl OtherError)
         else case ParseInt instanceID of
           None \<Rightarrow> State_Monad.return (Inl OtherError)
         | Some instID \<Rightarrow> do {
             r \<leftarrow> call (get_instance instID);
             State_Monad.return (case r of
               Inl _ \<Rightarrow> Inl OtherError
             | Inr None \<Rightarrow> Inl OtherError
             | Inr (Some inst) \<Rightarrow>
                 if snap_ProviderKey snapshot \<noteq> [] \<and>
                    \<not> EqualFold (TrimSpace (inst_provider_key inst)) (snap_ProviderKey snapshot)
                 then Inl OtherError else Inr (Some inst))})"

definition the_only :: "'a list \<Rightarrow> 'a option" where
  "the_only xs = (case xs of [x] \<Rightarrow> Some x | _ \<Rightarrow> None)"

definition resolveUniqueLegacyOrderProviderInstance ::
  "payment_order \<Rightarrow> ('x, 'z, pay_error + provider_instance option) prog" where
  "resolveUniqueLegacyOrderProviderInstance order =
     (let paymentType = GetBasePaymentType (TrimSpace (o_payment_type order));
          providerKey = TrimSpace (psStringValue (o_provider_key order));
          answer = (\<lambda>r. case r of
             Inl _ \<Rightarrow> Inl OtherError
           | Inr is \<Rightarrow> Inr (the_only (psFilterLegacyOrderProviderInstances paymentType is)))
      in if providerKey \<noteq> [] then do {
             r \<leftarrow> call (instances_where (\<lambda>i. inst_provider_key i = providerKey));
             State_Monad.return (answer r)}
         else if paymentType = [] then State_Monad.return (Inr None)
         else do {
             r \<leftarrow> call (instances_where (\<lambda>_. True));
             State_Monad.return (answer r)})"

definition getOrderProviderInstance ::
  "payment_order \<Rightarrow> ('x, 'z, pay_error + provider_instance option) prog" where
  "getOrderProviderInstance order =
     (case psOrderProviderSnapshot order of
        Some snapshot \<Rightarrow> resolveSnapshotOrderProviderInstance order snapshot
      | None \<Rightarrow>
          let instIDStr = TrimSpace (psStringValue (o_instance order)) in
          if instIDStr = [] then resolveUniqueLegacyOrderProviderInstance order
          else case ParseInt instIDStr of
            None \<Rightarrow> State_Monad.return (Inr None)
          | Some instID \<Rightarrow> do {
              r \<leftarrow> call (get_instance instID);
              State_Monad.return (case r of
                Inl _ \<Rightarrow> Inl OtherError
              | Inr None \<Rightarrow> Inl OtherError
              | Inr (Some inst) \<Rightarrow> Inr (Some inst))})"

section \<open>The redeem code of an order\<close>

definition code_expired :: "int \<Rightarrow> redeem_code \<Rightarrow> bool" where
  "code_expired now r =
     (rc_status r = CodeExpired \<or>
      (rc_status r = CodeUnused \<and> (case rc_expires_at r of None \<Rightarrow> False | Some e \<Rightarrow> e \<le> now)))"

definition CanUse :: "int \<Rightarrow> redeem_code \<Rightarrow> bool" where
  "CanUse now r = (rc_status r = CodeUnused \<and> \<not> code_expired now r)"

datatype code_lookup = LookupFailed | CodeMissing | CodeFound redeem_code

definition GetByCode :: "string \<Rightarrow> ('x, 'z, code_lookup) prog" where
  "GetByCode code = do {
     r \<leftarrow> call (get_code code);
     State_Monad.return (case r of
       Inl _ \<Rightarrow> LookupFailed | Inr None \<Rightarrow> CodeMissing | Inr (Some c) \<Rightarrow> CodeFound c)}"

definition new_code :: "string \<Rightarrow> rat \<Rightarrow> redeem_code" where
  "new_code code value =
     \<lparr>rc_id = 0, rc_code = code, rc_type = RedeemTypeBalance, rc_value = value,
      rc_status = CodeUnused, rc_used_by = None, rc_used_at = None, rc_expires_at = None\<rparr>"

definition CreateCode :: "redeem_code \<Rightarrow> ('x, 'z, pay_error + unit) prog" where
  "CreateCode code =
     (let code = code\<lparr>rc_code := TrimSpace (rc_code code)\<rparr> in
      if rc_code code = [] then State_Monad.return (Inl OtherError)
      else
      let code = (if rc_type code = [] then code\<lparr>rc_type := RedeemTypeBalance\<rparr> else code) in
      if rc_type code \<noteq> ''invitation'' \<and> rc_value code = 0 then State_Monad.return (Inl OtherError)
      else do {
        t \<leftarrow> time_now;
        if code_expired t code then State_Monad.return (Inl OtherError)
        else do {
          r \<leftarrow> call (insert_code code);
          State_Monad.return (case r of Inr True \<Rightarrow> Inr () | _ \<Rightarrow> Inl OtherError)}})"

text \<open>
  The transaction of \<open>redeem\<close>: mark the code used and grant what it stands for. The code is the row
  read before the transaction began.
\<close>

definition redeem_body ::
  "'x pay_env \<Rightarrow> redeem_code \<Rightarrow> int \<Rightarrow> int \<Rightarrow> 'x pay_db \<Rightarrow> (pay_error + unit) \<times> 'x pay_db" where
  "redeem_body env c uid now d =
     (case use_code (rc_id c) uid now now d of
        (False, d1) \<Rightarrow> (Inl (AppError ''REDEEM_CODE_USED''), d1)
      | (True, d1) \<Rightarrow>
          if rc_type c = RedeemTypeBalance then
            (case (if rc_value c < 0 then adjust_redeem_balance uid (rc_value c) now d1
                   else update_balance uid (rc_value c) now d1) of
               (True, d2) \<Rightarrow> (Inr (), d2)
             | (False, d2) \<Rightarrow> (Inl OtherError, d2))
          else (case grant_other env c uid now (other d1) of
                  None \<Rightarrow> (Inl OtherError, d1)
                | Some x \<Rightarrow> (Inr (), d1\<lparr>other := x\<rparr>)))"

definition redeemForPaymentFulfillment ::
  "'x pay_env \<Rightarrow> int \<Rightarrow> string \<Rightarrow> ('x, 'z, pay_error + redeem_code) prog" where
  "redeemForPaymentFulfillment env uid code = do {
     t \<leftarrow> time_now;
     if \<not> redeem_lock env code t then State_Monad.return (Inl (AppError ''REDEEM_CODE_LOCKED''))
     else do {
       l \<leftarrow> GetByCode code;
       case l of
         LookupFailed \<Rightarrow> State_Monad.return (Inl OtherError)
       | CodeMissing \<Rightarrow> State_Monad.return (Inl (AppError ''REDEEM_CODE_NOT_FOUND''))
       | CodeFound c \<Rightarrow> do {
           t \<leftarrow> time_now;
           if code_expired t c then State_Monad.return (Inl (AppError ''REDEEM_CODE_EXPIRED''))
           else if \<not> CanUse t c then State_Monad.return (Inl (AppError ''REDEEM_CODE_USED''))
           else if rc_type c \<notin> {''balance'', ''concurrency'', ''subscription''}
           then State_Monad.return (Inl (AppError ''REDEEM_CODE_UNSUPPORTED_TYPE''))
           else do {
             u \<leftarrow> call (get_user uid);
             case u of
               Inl _ \<Rightarrow> State_Monad.return (Inl OtherError)
             | Inr None \<Rightarrow> State_Monad.return (Inl OtherError)
             | Inr (Some _) \<Rightarrow> do {
                 r \<leftarrow> transaction (redeem_body env c uid);
                 case r of
                   Inl None \<Rightarrow> State_Monad.return (Inl OtherError)
                 | Inl (Some e) \<Rightarrow> State_Monad.return (Inl e)
                 | Inr _ \<Rightarrow> do {
                     v \<leftarrow> call (get_code_by_id (rc_id c));
                     State_Monad.return (case v of Inr (Some c') \<Rightarrow> Inr c' | _ \<Rightarrow> Inl OtherError)}}}}}}"

datatype redeem_action = RedeemActionCreate | RedeemActionRedeem | RedeemActionSkipCompleted

definition resolveRedeemAction :: "code_lookup \<Rightarrow> pay_error + redeem_action" where
  "resolveRedeemAction existing =
     (case existing of
        CodeMissing \<Rightarrow> Inr RedeemActionCreate
      | LookupFailed \<Rightarrow> Inl OtherError
      | CodeFound c \<Rightarrow>
          if rc_status c = CodeUsed then Inr RedeemActionSkipCompleted else Inr RedeemActionRedeem)"

definition validatePaymentRedeemCode :: "arith \<Rightarrow> payment_order \<Rightarrow> redeem_code \<Rightarrow> bool" where
  "validatePaymentRedeemCode a order code =
     (if rc_code code \<noteq> o_recharge_code order then False
      else if rc_type code \<noteq> RedeemTypeBalance then False
      else if \<bar>fsub a (rc_value code) (o_amount order)\<bar> > 1 / 10 ^ 8 then False
      else case rc_status code of
        CodeUnused \<Rightarrow> rc_used_by code = None
      | CodeUsed \<Rightarrow> rc_used_by code = Some (o_user order)
      | _ \<Rightarrow> False)"

section \<open>Affiliate rebate\<close>

text \<open>
  The transaction: claim the rebate by inserting its audit row, accrue it, and rename the row when
  there was nothing to accrue. Nothing happens when the row was there.
\<close>

definition rebate_body ::
  "'x pay_env \<Rightarrow> payment_order \<Rightarrow> rat \<Rightarrow> int \<Rightarrow> 'x pay_db \<Rightarrow> (pay_error + unit) \<times> 'x pay_db" where
  "rebate_body env order baseAmount now d =
     (if audit_exists (o_id order) {''AFFILIATE_REBATE_APPLIED'', ''AFFILIATE_REBATE_SKIPPED''} d
      then (Inr (), d)
      else case insert_audit (o_id order) ''AFFILIATE_REBATE_APPLIED'' ''system'' None now d of
        (False, d1) \<Rightarrow> (Inr (), d1)
      | (True, d1) \<Rightarrow>
          (case accrue_rebate env (o_user order) baseAmount (o_id order) now (other d1) of
             None \<Rightarrow> (Inl OtherError, d1)
           | Some (rebateAmount, x) \<Rightarrow>
               let action = (if rebateAmount \<le> 0 then ''AFFILIATE_REBATE_SKIPPED''
                             else ''AFFILIATE_REBATE_APPLIED'');
                   (n, as) = update_where
                     (\<lambda>a. au_order a = o_id order \<and> au_action a = ''AFFILIATE_REBATE_APPLIED'')
                     (\<lambda>a. a\<lparr>au_action := action, au_operator := ''system''\<rparr>) (audits d1)
               in if n = 0 then (Inl OtherError, d1)
                  else (Inr (), d1\<lparr>other := x, audits := as\<rparr>)))"

definition applyAffiliateRebateForOrder ::
  "'x pay_env \<Rightarrow> payment_order \<Rightarrow> ('x, 'z, pay_error + unit) prog" where
  "applyAffiliateRebateForOrder env order =
     (let baseAmount = affiliateRebateBaseAmount order in
      if baseAmount \<le> 0 then State_Monad.return (Inr ())
      else if \<not> affiliate_on env then State_Monad.return (Inr ())
      else do {
        r \<leftarrow> transaction (rebate_body env order baseAmount);
        case r of
          Inl _ \<Rightarrow> do {
            _ \<leftarrow> writeAuditLog (o_id order) ''AFFILIATE_REBATE_FAILED'' ''system'' None;
            State_Monad.return (Inl OtherError)}
        | Inr _ \<Rightarrow> State_Monad.return (Inr ())})"

section \<open>The lease\<close>

definition paymentFulfillmentLeaseDuration :: int where
  "paymentFulfillmentLeaseDuration = 5 * Minute"

definition acquirePaymentFulfillmentLease ::
  "payment_order \<Rightarrow> ('x, 'z, pay_error + int option) prog" where
  "acquirePaymentFulfillmentLease order = do {
     t0 \<leftarrow> time_now;
     let now = t0 - t0 mod Microsecond;
     let staleBefore = now - paymentFulfillmentLeaseDuration;
     updated \<leftarrow> call (acquire_lease (o_id order) now staleBefore);
     case updated of
       Inl _ \<Rightarrow> State_Monad.return (Inl OtherError)
     | Inr n \<Rightarrow>
         if n = 0 then do {
           current \<leftarrow> fetch_order (o_id order);
           State_Monad.return (case current of
             None \<Rightarrow> Inl OtherError
           | Some c \<Rightarrow> if o_status c = OrderCompleted then Inr None else Inl (AppError ''CONFLICT''))}
         else do {
           claimed \<leftarrow> fetch_order (o_id order);
           State_Monad.return (case claimed of
             None \<Rightarrow> Inl OtherError
           | Some c \<Rightarrow> if o_status c \<noteq> OrderRecharging then Inl (AppError ''CONFLICT'')
                        else Inr (Some (o_updated_at c)))}}"

definition markCompleted :: "payment_order \<Rightarrow> int \<Rightarrow> string \<Rightarrow> ('x, 'z, pay_error + unit) prog" where
  "markCompleted order lease auditAction = do {
     now \<leftarrow> time_now;
     updated \<leftarrow> call (complete_order (o_id order) lease now);
     case updated of
       Inl _ \<Rightarrow> State_Monad.return (Inl OtherError)
     | Inr n \<Rightarrow>
         if n = 0 then do {
           current \<leftarrow> fetch_order (o_id order);
           State_Monad.return (case current of
             Some c \<Rightarrow> if o_status c = OrderCompleted then Inr () else Inl (AppError ''CONFLICT'')
           | None \<Rightarrow> Inl (AppError ''CONFLICT''))}
         else do {
           has \<leftarrow> hasAuditLog (o_id order) auditAction;
           _ \<leftarrow> (if has then State_Monad.return ()
                 else writeAuditLog (o_id order) auditAction ''system'' None);
           State_Monad.return (Inr ())}}"

definition markFailed :: "int \<Rightarrow> int \<Rightarrow> ('x, 'z, unit) prog" where
  "markFailed oid lease = do {
     now \<leftarrow> time_now;
     r \<leftarrow> call (fail_order oid lease now);
     case r of
       Inl _ \<Rightarrow> State_Monad.return ()
     | Inr c \<Rightarrow>
         if c > 0 then writeAuditLog oid ''FULFILLMENT_FAILED'' ''system'' None
         else State_Monad.return ()}"

section \<open>Balance orders\<close>

definition doBalance :: "'x pay_env \<Rightarrow> payment_order \<Rightarrow> int \<Rightarrow> ('x, 'z, pay_error + unit) prog" where
  "doBalance env order lease = do {
     existing \<leftarrow> GetByCode (o_recharge_code order);
     case resolveRedeemAction existing of
       Inl e \<Rightarrow> State_Monad.return (Inl e)
     | Inr action \<Rightarrow>
         if (case existing of CodeFound c \<Rightarrow> \<not> validatePaymentRedeemCode (pe_arith env) order c | _ \<Rightarrow> False)
         then State_Monad.return (Inl OtherError)
         else if action = RedeemActionSkipCompleted then do {
           a \<leftarrow> applyAffiliateRebateForOrder env order;
           case a of
             Inl e \<Rightarrow> State_Monad.return (Inl e)
           | Inr _ \<Rightarrow> markCompleted order lease ''RECHARGE_SUCCESS''}
         else do {
           c \<leftarrow> (if action = RedeemActionCreate
                then CreateCode (new_code (o_recharge_code order) (o_amount order))
                else State_Monad.return (Inr ()));
           case c of
             Inl e \<Rightarrow> State_Monad.return (Inl e)
           | Inr _ \<Rightarrow> do {
               r \<leftarrow> redeemForPaymentFulfillment env (o_user order) (o_recharge_code order);
               case r of
                 Inl e \<Rightarrow> State_Monad.return (Inl e)
               | Inr _ \<Rightarrow> do {
                   a \<leftarrow> applyAffiliateRebateForOrder env order;
                   case a of
                     Inl e \<Rightarrow> State_Monad.return (Inl e)
                   | Inr _ \<Rightarrow> markCompleted order lease ''RECHARGE_SUCCESS''}}}}"

definition fulfillable :: "order_status \<Rightarrow> bool" where
  "fulfillable s = (s \<in> {OrderPaid, OrderFailed, OrderRecharging})"

definition ExecuteBalanceFulfillment :: "'x pay_env \<Rightarrow> int \<Rightarrow> ('x, 'z, pay_error + unit) prog" where
  "ExecuteBalanceFulfillment env oid = do {
     r \<leftarrow> fetch_order oid;
     case r of
       None \<Rightarrow> State_Monad.return (Inl (AppError ''NOT_FOUND''))
     | Some order \<Rightarrow>
         if o_status order = OrderCompleted then State_Monad.return (Inr ())
         else if psIsRefundStatus (o_status order) then State_Monad.return (Inl (AppError ''INVALID_STATUS''))
         else if \<not> fulfillable (o_status order) then State_Monad.return (Inl (AppError ''INVALID_STATUS''))
         else do {
           l \<leftarrow> acquirePaymentFulfillmentLease order;
           case l of
             Inl e \<Rightarrow> State_Monad.return (Inl e)
           | Inr None \<Rightarrow> State_Monad.return (Inr ())
           | Inr (Some lease) \<Rightarrow> do {
               b \<leftarrow> doBalance env order lease;
               case b of
                 Inl e \<Rightarrow> do { _ \<leftarrow> markFailed oid lease; State_Monad.return (Inl e) }
               | Inr _ \<Rightarrow> State_Monad.return (Inr ())}}}"

section \<open>Subscription orders\<close>

definition assigned_actions :: "string set" where
  "assigned_actions = {''SUBSCRIPTION_ASSIGNED'', ''SUBSCRIPTION_SUCCESS''}"

datatype assign_error = AssignFailed | AuditConstraint

definition assign_body ::
  "'x pay_env \<Rightarrow> payment_order \<Rightarrow> int \<Rightarrow> int \<Rightarrow> int \<Rightarrow> 'x pay_db \<Rightarrow> (assign_error + unit) \<times> 'x pay_db" where
  "assign_body env order groupID days now d =
     (if audit_exists (o_id order) assigned_actions d then (Inr (), d)
      else
      let orderNote = paymentSubscriptionOrderNote (o_id order);
          assigned =
            (case subscription_notes env (o_user order) groupID (other d) of
               Inl _ \<Rightarrow> None
             | Inr (Some notes) \<Rightarrow>
                 if hasPaymentSubscriptionOrderNote notes orderNote then Some d
                 else map_option (\<lambda>x. d\<lparr>other := x\<rparr>)
                        (assign_or_extend env (o_user order) groupID days orderNote now (other d))
             | Inr None \<Rightarrow>
                 map_option (\<lambda>x. d\<lparr>other := x\<rparr>)
                   (assign_or_extend env (o_user order) groupID days orderNote now (other d)))
      in case assigned of
           None \<Rightarrow> (Inl AssignFailed, d)
         | Some d1 \<Rightarrow>
             (case insert_audit (o_id order) ''SUBSCRIPTION_ASSIGNED'' ''system'' None now d1 of
                (True, d2) \<Rightarrow> (Inr (), d2)
              | (False, d2) \<Rightarrow> (Inl AuditConstraint, d2)))"

definition ensurePaymentSubscriptionAssigned ::
  "'x pay_env \<Rightarrow> payment_order \<Rightarrow> int \<Rightarrow> int \<Rightarrow> ('x, 'z, pay_error + unit) prog" where
  "ensurePaymentSubscriptionAssigned env order groupID days = do {
     r \<leftarrow> transaction (assign_body env order groupID days);
     case r of
       Inl (Some AuditConstraint) \<Rightarrow> do {
         claimed \<leftarrow> call (count_audit (o_id order) assigned_actions);
         t \<leftarrow> time_now;
         State_Monad.return (case claimed of
           Inr True \<Rightarrow> if invalidate_caches env (o_user order) groupID t then Inr () else Inl OtherError
         | _ \<Rightarrow> Inl OtherError)}
     | Inl _ \<Rightarrow> State_Monad.return (Inl OtherError)
     | Inr _ \<Rightarrow> do {
         t \<leftarrow> time_now;
         State_Monad.return (if invalidate_caches env (o_user order) groupID t then Inr ()
                             else Inl OtherError)}}"

definition read_group :: "'x pay_env \<Rightarrow> int \<Rightarrow> int \<Rightarrow> 'x pay_db \<Rightarrow> bool \<times> 'x pay_db" where
  "read_group env gid now d = (group_active env gid (other d), d)"

definition doSub ::
  "'x pay_env \<Rightarrow> payment_order \<Rightarrow> int \<Rightarrow> int \<Rightarrow> int \<Rightarrow> ('x, 'z, pay_error + unit) prog" where
  "doSub env order gid days lease = do {
     g \<leftarrow> call (read_group env gid);
     if g \<noteq> Inr True then State_Monad.return (Inl OtherError)
     else do {
       e \<leftarrow> ensurePaymentSubscriptionAssigned env order gid days;
       case e of
         Inl e \<Rightarrow> State_Monad.return (Inl e)
       | Inr _ \<Rightarrow> do {
           a \<leftarrow> applyAffiliateRebateForOrder env order;
           case a of
             Inl e \<Rightarrow> State_Monad.return (Inl e)
           | Inr _ \<Rightarrow> markCompleted order lease ''SUBSCRIPTION_SUCCESS''}}}"

definition ExecuteSubscriptionFulfillment ::
  "'x pay_env \<Rightarrow> int \<Rightarrow> ('x, 'z, pay_error + unit) prog" where
  "ExecuteSubscriptionFulfillment env oid = do {
     r \<leftarrow> fetch_order oid;
     case r of
       None \<Rightarrow> State_Monad.return (Inl (AppError ''NOT_FOUND''))
     | Some order \<Rightarrow>
         if o_status order = OrderCompleted then State_Monad.return (Inr ())
         else if psIsRefundStatus (o_status order) then State_Monad.return (Inl (AppError ''INVALID_STATUS''))
         else if \<not> fulfillable (o_status order) then State_Monad.return (Inl (AppError ''INVALID_STATUS''))
         else case (o_group order, o_days order) of
           (Some gid, Some days) \<Rightarrow> do {
             l \<leftarrow> acquirePaymentFulfillmentLease order;
             case l of
               Inl e \<Rightarrow> State_Monad.return (Inl e)
             | Inr None \<Rightarrow> State_Monad.return (Inr ())
             | Inr (Some lease) \<Rightarrow> do {
                 b \<leftarrow> doSub env order gid days lease;
                 case b of
                   Inl e \<Rightarrow> do { _ \<leftarrow> markFailed oid lease; State_Monad.return (Inl e) }
                 | Inr _ \<Rightarrow> State_Monad.return (Inr ())}}
         | _ \<Rightarrow> State_Monad.return (Inl (AppError ''INVALID_STATUS''))}"

definition executeFulfillment :: "'x pay_env \<Rightarrow> int \<Rightarrow> ('x, 'z, pay_error + unit) prog" where
  "executeFulfillment env oid = do {
     r \<leftarrow> fetch_order oid;
     case r of
       None \<Rightarrow> State_Monad.return (Inl OtherError)
     | Some order \<Rightarrow>
         if o_type order = OrderTypeSubscription then ExecuteSubscriptionFulfillment env oid
         else ExecuteBalanceFulfillment env oid}"

definition RetryFulfillment :: "'x pay_env \<Rightarrow> int \<Rightarrow> ('x, 'z, pay_error + unit) prog" where
  "RetryFulfillment env oid = do {
     r \<leftarrow> fetch_order oid;
     case r of
       None \<Rightarrow> State_Monad.return (Inl (AppError ''NOT_FOUND''))
     | Some order \<Rightarrow>
         if o_paid_at order = None then State_Monad.return (Inl (AppError ''INVALID_STATUS''))
         else if psIsRefundStatus (o_status order) then State_Monad.return (Inl (AppError ''INVALID_STATUS''))
         else if o_status order = OrderCompleted then State_Monad.return (Inl (AppError ''INVALID_STATUS''))
         else if \<not> fulfillable (o_status order) then State_Monad.return (Inl (AppError ''INVALID_STATUS''))
         else do {
           _ \<leftarrow> writeAuditLog oid ''RECHARGE_RETRY'' ''admin'' None;
           executeFulfillment env oid}}"

section \<open>Payment notifications\<close>

definition paymentGraceMinutes :: int where "paymentGraceMinutes = 5"

definition alreadyProcessed :: "'x pay_env \<Rightarrow> payment_order \<Rightarrow> ('x, 'z, pay_error + unit) prog" where
  "alreadyProcessed env order = do {
     r \<leftarrow> fetch_order (o_id order);
     case r of
       None \<Rightarrow> State_Monad.return (Inr ())
     | Some cur \<Rightarrow>
         if o_status cur \<in> {OrderCompleted, OrderRefunded} then State_Monad.return (Inr ())
         else if o_status cur \<in> {OrderFailed, OrderPaid, OrderRecharging}
         then executeFulfillment env (o_id order)
         else if o_status cur = OrderExpired then do {
           _ \<leftarrow> writeAuditLog (o_id order) ''PAYMENT_AFTER_EXPIRY'' ''system'' None;
           State_Monad.return (Inr ())}
         else State_Monad.return (Inr ())}"

definition toPaid ::
  "'x pay_env \<Rightarrow> payment_order \<Rightarrow> string \<Rightarrow> rat \<Rightarrow> string \<Rightarrow> ('x, 'z, pay_error + unit) prog" where
  "toPaid env order tradeNo paid pk = do {
     now \<leftarrow> time_now;
     let grace = now - paymentGraceMinutes * Minute;
     r \<leftarrow> call (update_to_paid (o_id order) grace paid tradeNo now);
     case r of
       Inl _ \<Rightarrow> State_Monad.return (Inl OtherError)
     | Inr c \<Rightarrow>
         if c = 0 then alreadyProcessed env order
         else do {
           _ \<leftarrow> (if o_status order \<in> {OrderCancelled, OrderExpired}
                 then writeAuditLog (o_id order) ''ORDER_RECOVERED'' pk None
                 else State_Monad.return ());
           _ \<leftarrow> writeAuditLog (o_id order) ''ORDER_PAID'' pk None;
           executeFulfillment env (o_id order)}}"

definition refuse_notification :: "int \<Rightarrow> string \<Rightarrow> string \<Rightarrow> ('x, 'z, pay_error + unit) prog" where
  "refuse_notification oid action pk = do {
     _ \<leftarrow> writeAuditLog oid action pk None;
     State_Monad.return (Inl OtherError)}"

definition confirmPayment ::
  "'x pay_env \<Rightarrow> int \<Rightarrow> string \<Rightarrow> float64 \<Rightarrow> string \<Rightarrow> (string \<times> string) list
   \<Rightarrow> ('x, 'z, pay_error + unit) prog" where
  "confirmPayment env oid tradeNo paid pk metadata = do {
     r \<leftarrow> fetch_order oid;
     case r of
       None \<Rightarrow> State_Monad.return (Inr ())
     | Some order \<Rightarrow> do {
         i \<leftarrow> getOrderProviderInstance order;
         let instanceKey = (case i of Inr (Some inst) \<Rightarrow> inst_provider_key inst | _ \<Rightarrow> []);
         let expected = expectedNotificationProviderKeyForOrder (registry_key env) order instanceKey;
         if expected \<noteq> [] \<and> TrimSpace pk \<noteq> [] \<and> \<not> EqualFold expected (TrimSpace pk)
         then refuse_notification oid ''PAYMENT_PROVIDER_MISMATCH'' pk
         else if validateProviderSnapshotMetadata order pk metadata \<noteq> None
         then refuse_notification oid ''PAYMENT_PROVIDER_METADATA_MISMATCH'' pk
         else case paid of
           Fin amount \<Rightarrow>
             if \<not> isValidProviderAmount paid then refuse_notification oid ''PAYMENT_INVALID_AMOUNT'' pk
             else if \<bar>fsub (pe_arith env) amount (o_pay_amount order)\<bar>
                       > paymentAmountToleranceForCurrency (PaymentOrderCurrency order)
             then refuse_notification oid ''PAYMENT_AMOUNT_MISMATCH'' pk
             else toPaid env order tradeNo amount pk
         | _ \<Rightarrow> refuse_notification oid ''PAYMENT_INVALID_AMOUNT'' pk}}"

record notification =
  n_trade_no :: string
  n_order_id :: string
  n_amount :: float64
  n_status :: string
  n_metadata :: "(string \<times> string) list"

definition HandlePaymentNotification ::
  "'x pay_env \<Rightarrow> notification \<Rightarrow> string \<Rightarrow> ('x, 'z, pay_error + unit) prog" where
  "HandlePaymentNotification env n pk =
     (if n_status n \<noteq> ''success'' then State_Monad.return (Inr ())
      else do {
        r \<leftarrow> call (orders_by_out_trade_no (n_order_id n));
        case r of
          Inr [order] \<Rightarrow> confirmPayment env (o_id order) (n_trade_no n) (n_amount n) pk (n_metadata n)
        | _ \<Rightarrow>
            (case parseLegacyPaymentOrderID (n_order_id n) (r = Inr []) of
               Some oid \<Rightarrow> confirmPayment env oid (n_trade_no n) (n_amount n) pk (n_metadata n)
             | None \<Rightarrow> State_Monad.return (Inl (if r = Inr [] then ErrOrderNotFound else OtherError)))})"

end
