(* ===== verification/Payment_Contract.thy ===== *)
theory Payment_Contract
  imports Payment_Fulfillment
begin

text \<open>
  What the payment service promises about its tables, whatever else happens to them. \<open>pay_inv\<close> is the
  invariant: identifiers and codes are unique, and an order that counts as fulfilled has been
  fulfilled, that is, its code has been redeemed by its user for its amount, or its subscription has
  been recorded as assigned. \<open>pay_guar\<close> is the guarantee every operation of the service respects: orders
  keep their terms and never fall back to an earlier phase, redeemed codes stay redeemed, audit rows
  stay, the invariant stays and, with the flag \<open>b\<close>, the amounts credited to a user are those of the
  codes the user redeemed. The flag is off for refunds, whose rollback also credits.
\<close>

section \<open>Phases of an order\<close>

definition phase :: "order_status \<Rightarrow> nat" where
  "phase s =
     (if s \<in> {OrderPending, OrderCancelled, OrderExpired} then 0
      else if s \<in> {OrderPaid, OrderRecharging, OrderFailed} then 1 else 2)"

definition later_status :: "order_status \<Rightarrow> order_status \<Rightarrow> bool" where
  "later_status s s' \<longleftrightarrow> phase s \<le> phase s' \<and> (s' = OrderPending \<longrightarrow> s = OrderPending)"

lemma later_status_refl [simp]: "later_status s s"
  by (simp add: later_status_def)

lemma later_status_trans: "later_status s1 s2 \<Longrightarrow> later_status s2 s3 \<Longrightarrow> later_status s1 s3"
  by (auto simp: later_status_def)

text \<open>What never changes of an order once it is created.\<close>

definition terms ::
  "payment_order \<Rightarrow> int \<times> int \<times> rat \<times> string \<times> string \<times> string \<times> int option \<times> int option
     \<times> string option \<times> string option \<times> (string \<times> snapshot_value) list" where
  "terms order =
     (o_id order, o_user order, o_amount order, o_recharge_code order, o_out_trade_no order, o_type order,
      o_group order, o_days order, o_instance order, o_provider_key order, o_snapshot order)"

definition known :: "payment_order \<Rightarrow> 'x pay_db \<Rightarrow> bool" where
  "known order d \<longleftrightarrow> (\<exists>o' \<in> set (orders d). terms o' = terms order)"

definition keeps_orders :: "'x pay_db \<Rightarrow> 'x pay_db \<Rightarrow> bool" where
  "keeps_orders d d' \<longleftrightarrow>
     (\<forall>o1 \<in> set (orders d). \<exists>o2 \<in> set (orders d').
        terms o2 = terms o1 \<and> later_status (o_status o1) (o_status o2))"

definition keeps_codes :: "'x pay_db \<Rightarrow> 'x pay_db \<Rightarrow> bool" where
  "keeps_codes d d' \<longleftrightarrow>
     (\<forall>c1 \<in> set (codes d). \<exists>c2 \<in> set (codes d').
        rc_id c2 = rc_id c1 \<and> rc_code c2 = rc_code c1 \<and> rc_type c2 = rc_type c1 \<and>
        rc_value c2 = rc_value c1 \<and>
        (rc_status c1 = CodeUsed \<longrightarrow> rc_status c2 = CodeUsed \<and> rc_used_by c2 = rc_used_by c1))"

definition audit_keys :: "'x pay_db \<Rightarrow> (int \<times> string) set" where
  "audit_keys d = (\<lambda>a. (au_order a, au_action a)) ` set (audits d)"

lemma audit_exists_iff: "audit_exists oid actions d \<longleftrightarrow> (\<exists>a \<in> actions. (oid, a) \<in> audit_keys d)"
  by (auto simp: audit_exists_def audit_keys_def)

section \<open>Fulfilled orders\<close>

definition credit_ok :: "arith \<Rightarrow> payment_order \<Rightarrow> redeem_code \<Rightarrow> bool" where
  "credit_ok a order c \<longleftrightarrow>
     rc_code c = o_recharge_code order \<and> rc_type c = RedeemTypeBalance \<and>
     (rc_value c = column 8 (o_amount order) \<or> \<bar>fsub a (rc_value c) (o_amount order)\<bar> \<le> 1 / 10 ^ 8)"

definition fulfilled :: "arith \<Rightarrow> payment_order \<Rightarrow> 'x pay_db \<Rightarrow> bool" where
  "fulfilled a order d \<longleftrightarrow>
     (if o_type order = OrderTypeSubscription then audit_exists (o_id order) assigned_actions d
      else \<exists>c \<in> set (codes d).
             credit_ok a order c \<and> rc_status c = CodeUsed \<and> rc_used_by c = Some (o_user order))"

section \<open>Amounts\<close>

definition credit_of :: "int \<Rightarrow> redeem_code \<Rightarrow> rat" where
  "credit_of uid c =
     (if rc_status c = CodeUsed \<and> rc_used_by c = Some uid \<and> rc_type c = RedeemTypeBalance \<and> rc_value c > 0
      then rc_value c else 0)"

definition redeemed_total :: "int \<Rightarrow> 'x pay_db \<Rightarrow> rat" where
  "redeemed_total uid d = sum_list (map (credit_of uid) (codes d))"

definition credits_match :: "'x pay_db \<Rightarrow> 'x pay_db \<Rightarrow> bool" where
  "credits_match d d' \<longleftrightarrow>
     (\<forall>uid u. users d uid = Some u \<longrightarrow>
        (\<exists>u'. users d' uid = Some u' \<and>
           total_recharged u' - total_recharged u = redeemed_total uid d' - redeemed_total uid d))"

lemma credits_match_refl: "credits_match d d"
  by (simp add: credits_match_def)

lemma credits_match_trans:
  assumes "credits_match d1 d2" "credits_match d2 d3"
  shows "credits_match d1 d3"
  unfolding credits_match_def
proof (intro allI impI)
  fix uid u
  assume "users d1 uid = Some u"
  then obtain u2 where u2: "users d2 uid = Some u2"
    "total_recharged u2 - total_recharged u = redeemed_total uid d2 - redeemed_total uid d1"
    using assms(1) unfolding credits_match_def by blast
  then obtain u3 where "users d3 uid = Some u3"
    "total_recharged u3 - total_recharged u2 = redeemed_total uid d3 - redeemed_total uid d2"
    using assms(2) unfolding credits_match_def by blast
  with u2 show "\<exists>u'. users d3 uid = Some u' \<and>
      total_recharged u' - total_recharged u = redeemed_total uid d3 - redeemed_total uid d1"
    by (intro exI [of _ u3]) linarith
qed

section \<open>Invariant and guarantee\<close>

definition pay_inv :: "arith \<Rightarrow> 'x pay_db \<Rightarrow> bool" where
  "pay_inv a d \<longleftrightarrow>
     distinct (map o_id (orders d)) \<and> distinct (map o_recharge_code (orders d)) \<and>
     (\<forall>order \<in> set (orders d). TrimSpace (o_recharge_code order) = o_recharge_code order) \<and>
     distinct (map rc_id (codes d)) \<and> distinct (map rc_code (codes d)) \<and>
     (\<forall>c \<in> set (codes d). rc_id c < next_code_id d \<and> scaled (rc_value c)) \<and>
     (\<forall>uid u. users d uid = Some u \<longrightarrow> scaled (total_recharged u)) \<and>
     (\<forall>order \<in> set (orders d). phase (o_status order) = 2 \<longrightarrow> fulfilled a order d)"

definition pay_guar :: "bool \<Rightarrow> arith \<Rightarrow> 'x pay_db \<Rightarrow> 'x pay_db \<Rightarrow> bool" where
  "pay_guar b a d d' \<longleftrightarrow>
     keeps_orders d d' \<and> keeps_codes d d' \<and> audit_keys d \<subseteq> audit_keys d' \<and>
     (pay_inv a d \<longrightarrow> pay_inv a d' \<and> (b \<longrightarrow> credits_match d d'))"

lemma keeps_orders_refl: "keeps_orders d d"
  by (auto simp: keeps_orders_def)

lemma keeps_orders_trans: "keeps_orders d1 d2 \<Longrightarrow> keeps_orders d2 d3 \<Longrightarrow> keeps_orders d1 d3"
  unfolding keeps_orders_def by (metis later_status_trans)

lemma keeps_codes_refl: "keeps_codes d d"
  by (auto simp: keeps_codes_def)

lemma keeps_codes_trans: "keeps_codes d1 d2 \<Longrightarrow> keeps_codes d2 d3 \<Longrightarrow> keeps_codes d1 d3"
  unfolding keeps_codes_def by metis

interpretation pay: guarantee "pay_guar b a" for b a
proof
  show "pay_guar b a d d" for d :: "'x pay_db"
    by (simp add: pay_guar_def keeps_orders_refl keeps_codes_refl credits_match_refl)
  show "pay_guar b a d1 d3" if "pay_guar b a d1 d2" "pay_guar b a d2 d3" for d1 d2 d3 :: "'x pay_db"
    using that keeps_orders_trans keeps_codes_trans credits_match_trans unfolding pay_guar_def by blast
qed

lemma known_stable [intro]: "stable (pay_guar b a) (known order)"
  unfolding stable_def pay_guar_def keeps_orders_def known_def by metis

lemma inv_stable [intro]: "stable (pay_guar b a) (pay_inv a)"
  unfolding stable_def pay_guar_def by blast

lemma fulfilled_mono:
  assumes "keeps_codes d d'" "audit_keys d \<subseteq> audit_keys d'" "fulfilled a order d"
  shows "fulfilled a order d'"
proof (cases "o_type order = OrderTypeSubscription")
  case True
  with assms(2,3) show ?thesis by (auto simp: fulfilled_def audit_exists_iff)
next
  case False
  with assms(3) obtain c where c: "c \<in> set (codes d)" "credit_ok a order c" "rc_status c = CodeUsed"
    "rc_used_by c = Some (o_user order)" by (auto simp: fulfilled_def)
  with assms(1) obtain c' where "c' \<in> set (codes d')" "rc_code c' = rc_code c" "rc_type c' = rc_type c"
    "rc_value c' = rc_value c" "rc_status c' = CodeUsed" "rc_used_by c' = rc_used_by c"
    unfolding keeps_codes_def by metis
  with c False show ?thesis by (auto simp: fulfilled_def credit_ok_def)
qed

lemma fulfilled_stable [intro]: "stable (pay_guar b a) (fulfilled a order)"
  unfolding stable_def pay_guar_def using fulfilled_mono by blast

lemma fulfilled_terms: "terms o1 = terms o2 \<Longrightarrow> fulfilled a o1 d = fulfilled a o2 d"
  by (simp add: terms_def fulfilled_def credit_ok_def)

lemma fulfilled_cong: "codes d = codes d' \<Longrightarrow> audits d = audits d' \<Longrightarrow> fulfilled a order d = fulfilled a order d'"
  by (simp add: fulfilled_def audit_exists_def)

section \<open>Every statement respects the guarantee\<close>

lemma guar_update_orders:
  assumes f: "\<And>order. order \<in> set (orders d) \<Longrightarrow> p order \<Longrightarrow>
      terms (f (order\<lparr>o_updated_at := now\<rparr>)) = terms order \<and>
      later_status (o_status order) (o_status (f (order\<lparr>o_updated_at := now\<rparr>))) \<and>
      (pay_inv a d \<longrightarrow> phase (o_status (f (order\<lparr>o_updated_at := now\<rparr>))) = 2 \<longrightarrow>
         phase (o_status order) = 2 \<or> fulfilled a order d)"
  shows "pay_guar b a d (snd (update_orders p f now d))"
proof -
  define g where "g = (\<lambda>order. if p order then f (order\<lparr>o_updated_at := now\<rparr>) else order)"
  let ?d = "d\<lparr>orders := map g (orders d)\<rparr>"
  have d': "snd (update_orders p f now d) = ?d"
    by (simp add: update_orders_def update_where_def g_def split: prod.splits)
  have g: "terms (g order) = terms order" "later_status (o_status order) (o_status (g order))"
    "pay_inv a d \<Longrightarrow> phase (o_status (g order)) = 2 \<Longrightarrow> phase (o_status order) = 2 \<or> fulfilled a order d"
    if "order \<in> set (orders d)" for order
    using f [OF that] by (cases "p order"; simp add: g_def)+
  have ids: "map o_id (map g (orders d)) = map o_id (orders d)"
    "map o_recharge_code (map g (orders d)) = map o_recharge_code (orders d)"
    using g(1) by (auto simp: terms_def)
  have "pay_inv a ?d" if inv: "pay_inv a d"
  proof -
    have "fulfilled a order ?d" if o': "order \<in> set (map g (orders d))" "phase (o_status order) = 2" for order
    proof -
      from o'(1) obtain o1 where o1: "o1 \<in> set (orders d)" "order = g o1" by auto
      then have "fulfilled a o1 d" using g(3) [OF o1(1) inv] o'(2) inv by (auto simp: pay_inv_def)
      then show ?thesis using fulfilled_terms [OF g(1) [OF o1(1)], of a d] o1(2)
        fulfilled_cong [of d ?d a order] by simp
    qed
    moreover have "distinct (map o_id (map g (orders d)))" "distinct (map o_recharge_code (map g (orders d)))"
      unfolding ids using inv by (simp_all add: pay_inv_def)
    moreover have "TrimSpace (o_recharge_code (g order)) = o_recharge_code (g order)"
      if "order \<in> set (orders d)" for order
      using g(1) [OF that] inv that by (auto simp: pay_inv_def terms_def)
    ultimately show ?thesis using inv by (simp add: pay_inv_def del: map_map)
  qed
  moreover have "credits_match d ?d" by (simp add: credits_match_def redeemed_total_def)
  moreover have "keeps_orders d ?d" using g(1,2) by (auto simp: keeps_orders_def)
  moreover have "keeps_codes d ?d" by (auto simp: keeps_codes_def)
  moreover have "audit_keys d = audit_keys ?d" by (simp add: audit_keys_def)
  ultimately show ?thesis by (simp add: d' pay_guar_def)
qed

lemma guar_insert_audit: "pay_guar b a d (snd (insert_audit oid action operator detail now d))"
proof (cases "audit_exists oid {action} d")
  case True
  then show ?thesis by (simp add: insert_audit_def pay.refl)
next
  case False
  let ?d = "snd (insert_audit oid action operator detail now d)"
  have eqs: "orders ?d = orders d" "codes ?d = codes d" "users ?d = users d"
    "next_code_id ?d = next_code_id d" using False by (simp_all add: insert_audit_def)
  have k: "audit_keys d \<subseteq> audit_keys ?d" using False by (auto simp: insert_audit_def audit_keys_def)
  have c: "keeps_codes d ?d" by (auto simp: keeps_codes_def eqs)
  have o': "keeps_orders d ?d" by (auto simp: keeps_orders_def eqs)
  have m: "credits_match d ?d" by (simp add: credits_match_def redeemed_total_def eqs)
  have "pay_inv a d \<longrightarrow> pay_inv a ?d"
    using fulfilled_mono [OF c k] by (simp add: pay_inv_def eqs)
  with k c o' m show ?thesis by (simp add: pay_guar_def)
qed

lemma guar_cancel_pending:
  "fs \<in> {OrderCancelled, OrderExpired} \<Longrightarrow> pay_guar b a d (snd (cancel_pending oid fs now d))"
  unfolding cancel_pending_def
  by (rule guar_update_orders) (auto simp: terms_def later_status_def phase_def)

lemma guar_set_trade_no: "pay_guar b a d (snd (set_trade_no oid no now d))"
  unfolding set_trade_no_def by (rule guar_update_orders) (auto simp: terms_def)

lemma guar_update_to_paid: "pay_guar b a d (snd (update_to_paid oid grace paid no t now d))"
  unfolding update_to_paid_def
  by (rule guar_update_orders) (auto simp: terms_def later_status_def phase_def)

lemma guar_acquire_lease: "pay_guar b a d (snd (acquire_lease oid t stale now d))"
  unfolding acquire_lease_def
  by (rule guar_update_orders) (auto simp: terms_def later_status_def phase_def)

lemma guar_fail_order: "pay_guar b a d (snd (fail_order oid v t now d))"
  unfolding fail_order_def
  by (rule guar_update_orders) (auto simp: terms_def later_status_def phase_def)

lemma known_unique:
  assumes "pay_inv a d" "known order d" "o' \<in> set (orders d)" "o_id o' = o_id order"
  shows "terms o' = terms order"
proof -
  from assms(2) obtain o2 where o2: "o2 \<in> set (orders d)" "terms o2 = terms order"
    by (auto simp: known_def)
  then have "o_id o2 = o_id o'" using assms(4) by (simp add: terms_def)
  with assms(1,3) o2(1) have "o2 = o'" by (auto simp: pay_inv_def distinct_map dest: inj_onD)
  with o2(2) show ?thesis by simp
qed

text \<open>Completing an order is allowed once it has been fulfilled.\<close>

lemma guar_complete_order:
  assumes "pay_inv a d \<Longrightarrow> known order d \<and> fulfilled a order d"
  shows "pay_guar b a d (snd (complete_order (o_id order) v t now d))"
  unfolding complete_order_def
proof (rule guar_update_orders)
  fix o'
  assume o': "o' \<in> set (orders d)"
    "o_id o' = o_id order \<and> o_status o' = OrderRecharging \<and> o_updated_at o' = v"
  have "fulfilled a o' d" if "pay_inv a d"
    using known_unique [OF that _ o'(1), of order] o'(2) assms [OF that] fulfilled_terms by blast
  then show "terms (o'\<lparr>o_updated_at := now, o_status := OrderCompleted, o_completed_at := Some t\<rparr>) = terms o' \<and>
      later_status (o_status o')
        (o_status (o'\<lparr>o_updated_at := now, o_status := OrderCompleted, o_completed_at := Some t\<rparr>)) \<and>
      (pay_inv a d \<longrightarrow>
       phase (o_status (o'\<lparr>o_updated_at := now, o_status := OrderCompleted, o_completed_at := Some t\<rparr>)) = 2 \<longrightarrow>
       phase (o_status o') = 2 \<or> fulfilled a o' d)"
    using o'(2) by (auto simp: terms_def later_status_def phase_def)
qed

text \<open>An update of an order that already counts as fulfilled, to a status that does too.\<close>

lemma guar_refund_update:
  assumes "\<And>order. p order \<Longrightarrow> pay_inv a d \<Longrightarrow> order \<in> set (orders d) \<Longrightarrow> phase (o_status order) = 2"
    and "\<And>order. terms (f order) = terms order" "\<And>order. phase (o_status (f order)) = 2"
    and "\<And>order. o_status (f order) \<noteq> OrderPending"
  shows "pay_guar b a d (snd (update_orders p f now d))"
proof (rule guar_update_orders)
  fix order
  assume o': "order \<in> set (orders d)" "p order"
  have "phase (o_status order) \<le> 2" by (simp add: phase_def)
  then show "terms (f (order\<lparr>o_updated_at := now\<rparr>)) = terms order \<and>
      later_status (o_status order) (o_status (f (order\<lparr>o_updated_at := now\<rparr>))) \<and>
      (pay_inv a d \<longrightarrow> phase (o_status (f (order\<lparr>o_updated_at := now\<rparr>))) = 2 \<longrightarrow>
         phase (o_status order) = 2 \<or> fulfilled a order d)"
    using assms(1) [OF o'(2) _ o'(1)] assms(2-4) by (auto simp: later_status_def terms_def)
qed

lemma guar_insert_code:
  assumes "rc_status c = CodeUnused"
  shows "pay_guar b a d (snd (insert_code c now d))"
proof (cases "\<exists>r' \<in> set (codes d). rc_code r' = rc_code c")
  case True
  then show ?thesis by (simp add: insert_code_def pay.refl)
next
  case False
  let ?d = "snd (insert_code c now d)"
  let ?r = "c\<lparr>rc_id := next_code_id d, rc_value := column 8 (rc_value c)\<rparr>"
  have eqs: "orders ?d = orders d" "audits ?d = audits d" "users ?d = users d"
    "codes ?d = codes d @ [?r]" "next_code_id ?d = next_code_id d + 1"
    using False by (simp_all add: insert_code_def)
  have k: "audit_keys d = audit_keys ?d" by (simp add: audit_keys_def eqs)
  have kc: "keeps_codes d ?d" by (auto simp: keeps_codes_def eqs)
  have ko: "keeps_orders d ?d" by (auto simp: keeps_orders_def eqs)
  have cm: "credits_match d ?d" using assms by (simp add: credits_match_def redeemed_total_def eqs credit_of_def)
  have "pay_inv a ?d" if inv: "pay_inv a d"
  proof -
    have lt: "\<forall>r \<in> set (codes d). rc_id r < next_code_id d \<and> scaled (rc_value r)"
      using inv by (simp add: pay_inv_def)
    then have "next_code_id d \<notin> rc_id ` set (codes d)" by force
    then have "distinct (map rc_id (codes ?d))" using inv by (simp add: eqs pay_inv_def)
    moreover have "distinct (map rc_code (codes ?d))" using inv False by (auto simp: eqs pay_inv_def)
    moreover have "\<forall>r \<in> set (codes ?d). rc_id r < next_code_id ?d \<and> scaled (rc_value r)"
      using lt by (auto simp: eqs column_scaled)
    moreover have "\<forall>order \<in> set (orders ?d). phase (o_status order) = 2 \<longrightarrow> fulfilled a order ?d"
      using inv fulfilled_mono [OF kc, of a] k by (auto simp: eqs(1) pay_inv_def)
    ultimately show ?thesis using inv by (simp add: pay_inv_def eqs(1,3))
  qed
  with k kc ko cm show ?thesis by (simp add: pay_guar_def)
qed

text \<open>Redeeming a code: the one statement that credits.\<close>

lemma sum_list_update_one:
  fixes f :: "'r \<Rightarrow> rat"
  assumes "distinct (map key rs)" "r \<in> set rs"
  shows "sum_list (map f (map (\<lambda>x. if key x = key r then h x else x) rs)) = sum_list (map f rs) + f (h r) - f r"
  using assms
proof (induction rs)
  case (Cons x rs)
  show ?case
  proof (cases "x = r")
    case True
    with Cons.prems have "key r \<notin> key ` set rs" by simp
    then have "key y \<noteq> key r" if "y \<in> set rs" for y using that by (metis imageI)
    then have "map (\<lambda>x. if key x = key r then h x else x) rs = rs" by (simp add: map_idI)
    then show ?thesis using True by simp
  next
    case False
    with Cons.prems have "key x \<noteq> key r" by auto
    then show ?thesis using Cons False by simp
  qed
qed simp

definition code_known :: "redeem_code \<Rightarrow> 'x pay_db \<Rightarrow> bool" where
  "code_known c d \<longleftrightarrow>
     (\<exists>c' \<in> set (codes d). rc_id c' = rc_id c \<and> rc_code c' = rc_code c \<and> rc_type c' = rc_type c \<and>
        rc_value c' = rc_value c)"

lemma code_known_stable [intro]: "stable (pay_guar b a) (code_known c)"
  unfolding stable_def pay_guar_def keeps_codes_def code_known_def by metis

definition redeem_mark :: "redeem_code \<Rightarrow> int \<Rightarrow> int \<Rightarrow> redeem_code \<Rightarrow> redeem_code" where
  "redeem_mark c uid now r =
     (if rc_id r = rc_id c \<and> rc_status r = CodeUnused
      then r\<lparr>rc_status := CodeUsed, rc_used_by := Some uid, rc_used_at := Some now\<rparr> else r)"

lemma redeem_mark_simps [simp]:
  "rc_id (redeem_mark c uid now r) = rc_id r" "rc_code (redeem_mark c uid now r) = rc_code r"
  "rc_type (redeem_mark c uid now r) = rc_type r" "rc_value (redeem_mark c uid now r) = rc_value r"
  by (simp_all add: redeem_mark_def)

lemma use_code_eq:
  "use_code (rc_id c) uid now now d =
     (\<exists>r \<in> set (codes d). rc_id r = rc_id c \<and> rc_status r = CodeUnused,
      d\<lparr>codes := map (redeem_mark c uid now) (codes d)\<rparr>)"
  by (auto simp: use_code_def update_where_def redeem_mark_def filter_empty_conv split: prod.splits)

text \<open>A successful redemption, in one piece.\<close>

lemma redeem_body_ok:
  assumes "redeem_body env c uid now d = (Inr u, d')"
  obtains r where "r \<in> set (codes d)" "rc_id r = rc_id c" "rc_status r = CodeUnused"
    "codes d' = map (redeem_mark c uid now) (codes d)" "orders d' = orders d" "audits d' = audits d"
    "next_code_id d' = next_code_id d"
    "rc_type c = RedeemTypeBalance \<and> rc_value c \<ge> 0 \<longrightarrow>
       (case users d uid of None \<Rightarrow> False
        | Some v \<Rightarrow> users d' = (users d)(uid \<mapsto> v\<lparr>balance := column 8 (balance v + rc_value c),
              total_recharged := (if rc_value c > 0 then column 8 (total_recharged v + rc_value c)
                                  else total_recharged v)\<rparr>))"
    "\<not> (rc_type c = RedeemTypeBalance \<and> rc_value c \<ge> 0) \<longrightarrow>
       (\<forall>i. map_option total_recharged (users d' i) = map_option total_recharged (users d i))"
proof -
  let ?d1 = "d\<lparr>codes := map (redeem_mark c uid now) (codes d)\<rparr>"
  have used: "\<exists>r \<in> set (codes d). rc_id r = rc_id c \<and> rc_status r = CodeUnused"
  proof (rule ccontr)
    assume "\<not> ?thesis"
    with assms show False by (simp add: redeem_body_def use_code_eq)
  qed
  then have d': "(if rc_type c = RedeemTypeBalance then
            (case (if rc_value c < 0 then adjust_redeem_balance uid (rc_value c) now ?d1
                   else update_balance uid (rc_value c) now ?d1) of
               (True, d2) \<Rightarrow> (Inr (), d2) | (False, d2) \<Rightarrow> (Inl OtherError, d2))
          else (case grant_other env c uid now (other ?d1) of
                  None \<Rightarrow> (Inl OtherError, ?d1) | Some x \<Rightarrow> (Inr (), ?d1\<lparr>other := x\<rparr>))) = (Inr u, d')"
    using assms by (simp add: redeem_body_def use_code_eq)
  from used obtain r where "r \<in> set (codes d)" "rc_id r = rc_id c" "rc_status r = CodeUnused" by blast
  then show thesis
    by (rule that)
      (use d' in \<open>auto simp: update_balance_def adjust_redeem_balance_def
         split: if_splits option.splits prod.splits bool.splits\<close>)
qed

lemma redeemed_total_mark:
  assumes "pay_inv a d" "r \<in> set (codes d)" "rc_id r = rc_id c" "rc_status r = CodeUnused"
    and "codes d' = map (redeem_mark c uid now) (codes d)"
  shows "redeemed_total i d' = redeemed_total i d +
           (if i = uid \<and> rc_type r = RedeemTypeBalance \<and> rc_value r > 0 then rc_value r else 0)"
proof -
  have "redeem_mark c uid now x = (if rc_id x = rc_id r then redeem_mark c uid now x else x)" for x
    using assms(3) by (simp add: redeem_mark_def)
  then have "codes d' = map (\<lambda>x. if rc_id x = rc_id r then redeem_mark c uid now x else x) (codes d)"
    unfolding assms(5) by (intro map_cong) auto
  then have "redeemed_total i d' =
      redeemed_total i d + credit_of i (redeem_mark c uid now r) - credit_of i r"
    using sum_list_update_one [of rc_id "codes d" r "credit_of i"] assms(1,2)
    by (simp add: redeemed_total_def pay_inv_def)
  then show ?thesis using assms(3,4) by (auto simp: credit_of_def redeem_mark_def)
qed

lemma guar_redeem_body:
  assumes ok: "redeem_body env c uid now d = (Inr u, d')" and known: "pay_inv a d \<Longrightarrow> code_known c d"
  shows "pay_guar b a d d'"
proof -
  from ok obtain r where r: "r \<in> set (codes d)" "rc_id r = rc_id c" "rc_status r = CodeUnused"
    "codes d' = map (redeem_mark c uid now) (codes d)" "orders d' = orders d" "audits d' = audits d"
    "next_code_id d' = next_code_id d"
    and bal: "rc_type c = RedeemTypeBalance \<and> rc_value c \<ge> 0 \<longrightarrow>
       (case users d uid of None \<Rightarrow> False
        | Some v \<Rightarrow> users d' = (users d)(uid \<mapsto> v\<lparr>balance := column 8 (balance v + rc_value c),
              total_recharged := (if rc_value c > 0 then column 8 (total_recharged v + rc_value c)
                                  else total_recharged v)\<rparr>))"
    and other: "\<not> (rc_type c = RedeemTypeBalance \<and> rc_value c \<ge> 0) \<longrightarrow>
       (\<forall>i. map_option total_recharged (users d' i) = map_option total_recharged (users d i))"
    by (rule redeem_body_ok)
  have kc: "keeps_codes d d'"
    unfolding keeps_codes_def r(4) set_map
    by (intro ballI bexI [OF _ imageI]) (auto simp: redeem_mark_def)
  have ko: "keeps_orders d d'" by (auto simp: keeps_orders_def r)
  have k: "audit_keys d = audit_keys d'" by (simp add: audit_keys_def r)
  have inv: "pay_inv a d' \<and> credits_match d d'" if inv: "pay_inv a d"
  proof
    from known [OF inv] r(1,2) inv have eq: "rc_type r = rc_type c" "rc_value r = rc_value c"
      unfolding code_known_def pay_inv_def distinct_map by (metis inj_onD)+
    have sc: "scaled (rc_value c)" using inv r(1) eq(2) by (auto simp: pay_inv_def)
    have tot: "scaled (total_recharged v)" if "users d i = Some v" for i v
      using inv that by (auto simp: pay_inv_def)
    show cm: "credits_match d d'"
    proof (cases "rc_type c = RedeemTypeBalance \<and> rc_value c \<ge> 0")
      case True
      then show ?thesis
        using bal redeemed_total_mark [OF inv r(1-4)] eq column_id [OF scaled_add [OF tot sc]]
        by (auto simp: credits_match_def split: option.splits)
    next
      case False
      show ?thesis unfolding credits_match_def
      proof (intro allI impI)
        fix i v
        assume v: "users d i = Some v"
        with other False obtain v' where v': "users d' i = Some v'" "total_recharged v' = total_recharged v"
          by (metis (no_types, lifting) map_option_eq_Some option.map(2))
        show "\<exists>u'. users d' i = Some u' \<and>
            total_recharged u' - total_recharged v = redeemed_total i d' - redeemed_total i d"
          using v' redeemed_total_mark [OF inv r(1-4), of i] False eq by auto
      qed
    qed
    have "scaled (total_recharged v)" if v: "users d' i = Some v" for i v
    proof (cases "rc_type c = RedeemTypeBalance \<and> rc_value c \<ge> 0")
      case True
      then show ?thesis using bal v tot column_scaled by (auto split: option.splits if_splits)
    next
      case False
      with other v have "Some (total_recharged v) = map_option total_recharged (users d i)"
        by (metis option.map(2))
      then show ?thesis using tot by (cases "users d i") auto
    qed
    moreover have "map rc_id (codes d') = map rc_id (codes d)" "map rc_code (codes d') = map rc_code (codes d)"
      by (simp_all add: r(4))
    moreover have "\<forall>x \<in> set (codes d'). rc_id x < next_code_id d' \<and> scaled (rc_value x)"
      using inv by (auto simp: r(4,7) pay_inv_def)
    ultimately show "pay_inv a d'" using inv fulfilled_mono [OF kc, of a] k
      by (simp add: pay_inv_def r(5))
  qed
  then show ?thesis using k kc ko by (simp add: pay_guar_def)
qed

text \<open>A redeemed code of the order fulfils it.\<close>

lemma redeem_body_fulfils:
  assumes "redeem_body env c (o_user order) now d = (Inr u, d')" "pay_inv a d" "code_known c d"
    and "credit_ok a order c" "o_type order \<noteq> OrderTypeSubscription"
  shows "fulfilled a order d'"
proof -
  from assms(1) obtain r where r: "r \<in> set (codes d)" "rc_id r = rc_id c" "rc_status r = CodeUnused"
    "codes d' = map (redeem_mark c (o_user order) now) (codes d)"
    by (rule redeem_body_ok)
  from assms(2,3) r(1,2) have eq: "rc_code r = rc_code c" "rc_type r = rc_type c" "rc_value r = rc_value c"
    unfolding code_known_def pay_inv_def distinct_map by (metis inj_onD)+
  have "redeem_mark c (o_user order) now r \<in> set (codes d')" using r(1,4) by simp
  moreover have "credit_ok a order (redeem_mark c (o_user order) now r)"
    using assms(4) eq by (simp add: credit_ok_def)
  moreover have "rc_status (redeem_mark c (o_user order) now r) = CodeUsed"
    "rc_used_by (redeem_mark c (o_user order) now r) = Some (o_user order)"
    using r by (simp_all add: redeem_mark_def)
  ultimately show ?thesis using assms(5) by (auto simp: fulfilled_def)
qed

text \<open>Statements that add audit rows and change other components' tables only.\<close>

lemma guar_audits_only:
  assumes "orders d' = orders d" "codes d' = codes d" "users d' = users d" "next_code_id d' = next_code_id d"
    and k: "audit_keys d \<subseteq> audit_keys d'"
  shows "pay_guar b a d d'"
proof -
  have kc: "keeps_codes d d'" by (auto simp: keeps_codes_def assms)
  show ?thesis using fulfilled_mono [OF kc k, of a] k kc
    by (auto simp: pay_guar_def pay_inv_def keeps_orders_def credits_match_def redeemed_total_def assms(1-4))
qed

lemma guar_assign_body:
  assumes "assign_body env order gid days now d = (Inr u, d')"
  shows "pay_guar b a d d'" and "audit_exists (o_id order) assigned_actions d'"
proof -
  have "orders d' = orders d \<and> codes d' = codes d \<and> users d' = users d \<and> next_code_id d' = next_code_id d \<and>
      audit_keys d \<subseteq> audit_keys d' \<and> audit_exists (o_id order) assigned_actions d'"
    using assms
    by (auto simp: assign_body_def insert_audit_def audit_exists_def audit_keys_def assigned_actions_def Let_def
        split: if_splits option.splits sum.splits)
  then show "pay_guar b a d d'" "audit_exists (o_id order) assigned_actions d'"
    by (blast intro: guar_audits_only)+
qed

lemma guar_rebate_body:
  assumes "rebate_body env order amount now d = (Inr u, d')"
  shows "pay_guar b a d d'"
proof (rule guar_audits_only)
  let ?claim = "\<lambda>a. au_order a = o_id order \<and> au_action a = ''AFFILIATE_REBATE_APPLIED''"
  have none: "\<not> ?claim x" if "\<not> audit_exists (o_id order) {''AFFILIATE_REBATE_APPLIED'', ''AFFILIATE_REBATE_SKIPPED''} d"
    "x \<in> set (audits d)" for x
    using that by (auto simp: audit_exists_def)
  show "audit_keys d \<subseteq> audit_keys d'"
    using assms none
    by (force simp: rebate_body_def insert_audit_def audit_keys_def update_where_def Let_def
        split: if_splits option.splits prod.splits)
qed (use assms in \<open>auto simp: rebate_body_def insert_audit_def update_where_def Let_def
        split: if_splits option.splits prod.splits\<close>)

end
