(* ===== verification/Payment_Safety.thy ===== *)
theory Payment_Safety
  imports Payment_Contract
begin

text \<open>
  The fulfilment side of the payment service respects the contract of \<open>Payment_Contract\<close>. Each lemma
  \<open>X_obeys\<close> says that the operation \<open>X\<close> respects \<open>pay_guar\<close> among requests that do, for every stable
  knowledge \<open>P\<close> about the tables that implies the invariant, and what it learns. They are composed by
  the rules of the locale \<open>guarantee\<close> along the structure of the programs.
\<close>

named_theorems pay_obeys \<open>the operations respect the guarantee\<close>

section \<open>Reading\<close>

lemma fetch_order_obeys [pay_obeys]:
  assumes "stable (pay_guar b a) P"
  shows "obeys (pay_guar b a) P (fetch_order oid)
           (\<lambda>r d. P d \<and> (\<forall>order. r = Some order \<longrightarrow> known order d \<and> o_id order = oid))"
  unfolding fetch_order_def
proof (rule pay.obeys_bind)
  show "obeys (pay_guar b a) P (call (get_order oid))
          (\<lambda>r d. P d \<and> (\<forall>order. r = Inr (Some order) \<longrightarrow> known order d \<and> o_id order = oid))"
    by (rule pay.obeys_query [OF assms])
      (auto simp: get_order_def known_def dest!: find_Some_in)
qed (rule pay.obeys_return, auto split: sum.splits)

lemma query_obeys [pay_obeys]:
  assumes "stable (pay_guar b a) P" "\<And>now d. snd (stmt now d) = d"
  shows "obeys (pay_guar b a) P (call stmt) (\<lambda>_. P)"
  by (rule pay.obeys_query [OF assms]) auto

lemma time_now_obeys [pay_obeys]: "obeys (pay_guar b a) P time_now (\<lambda>_. P)"
  by (rule pay.obeys_time_now)

lemma hasAuditLog_obeys [pay_obeys]:
  assumes "stable (pay_guar b a) P"
  shows "obeys (pay_guar b a) P (hasAuditLog oid action) (\<lambda>_. P)"
  unfolding hasAuditLog_def
  by (rule pay.obeys_bind [OF query_obeys [OF assms]] pay.obeys_return | simp add: count_audit_def)+

section \<open>Audit rows\<close>

lemma writeAuditLog_obeys [pay_obeys]:
  assumes "stable (pay_guar b a) P"
  shows "obeys (pay_guar b a) P (writeAuditLog oid action operator detail) (\<lambda>_. P)"
  unfolding writeAuditLog_def
  by (rule pay.obeys_bind [OF pay.obeys_keep [OF assms guar_insert_audit]] pay.obeys_return | simp)+

section \<open>The lease\<close>

lemma acquire_obeys [pay_obeys]:
  assumes "stable (pay_guar b a) P"
  shows "obeys (pay_guar b a) P (acquirePaymentFulfillmentLease order) (\<lambda>_. P)"
  unfolding acquirePaymentFulfillmentLease_def Let_def
  by (rule pay.obeys_rules time_now_obeys pay.obeys_keep fetch_order_obeys assms guar_acquire_lease
      | (auto split: option.splits; fail))+

lemma markFailed_obeys [pay_obeys]:
  assumes "stable (pay_guar b a) P"
  shows "obeys (pay_guar b a) P (markFailed oid lease) (\<lambda>_. P)"
  unfolding markFailed_def
  by (rule pay.obeys_rules time_now_obeys pay.obeys_keep writeAuditLog_obeys assms guar_fail_order
      | (auto; fail))+

lemma markCompleted_obeys [pay_obeys]:
  assumes "stable (pay_guar b a) P" "\<And>d. P d \<Longrightarrow> known order d \<and> fulfilled a order d"
  shows "obeys (pay_guar b a) P (markCompleted order lease action) (\<lambda>_. P)"
  unfolding markCompleted_def
  by (rule pay.obeys_unless pay.obeys_rules time_now_obeys pay.obeys_keep writeAuditLog_obeys
        hasAuditLog_obeys fetch_order_obeys assms(1) guar_complete_order assms(2)
      | (auto split: option.splits; fail))+

section \<open>Redeeming the code of a balance order\<close>

definition code_ready :: "arith \<Rightarrow> payment_order \<Rightarrow> 'x pay_db \<Rightarrow> bool" where
  "code_ready a order d \<longleftrightarrow> (\<exists>c \<in> set (codes d). credit_ok a order c)"

definition code_used :: "redeem_code \<Rightarrow> 'x pay_db \<Rightarrow> bool" where
  "code_used c d \<longleftrightarrow>
     (\<exists>c' \<in> set (codes d). rc_code c' = rc_code c \<and> rc_type c' = rc_type c \<and> rc_value c' = rc_value c \<and>
        rc_status c' = CodeUsed \<and> rc_used_by c' = rc_used_by c)"

lemma code_ready_stable [intro]: "stable (pay_guar b a) (code_ready a' order)"
  unfolding stable_def pay_guar_def keeps_codes_def code_ready_def credit_ok_def by metis

lemma code_used_stable [intro]: "stable (pay_guar b a) (code_used c)"
  unfolding stable_def pay_guar_def keeps_codes_def code_used_def by metis

lemmas stable_rules =
  stable_conj stable_all stable_imp known_stable inv_stable fulfilled_stable code_known_stable
  code_ready_stable code_used_stable stable_const

lemma GetByCode_obeys [pay_obeys]:
  assumes "stable (pay_guar b a) P"
  shows "obeys (pay_guar b a) P (GetByCode code)
           (\<lambda>r d. P d \<and> (\<forall>c. r = CodeFound c \<longrightarrow>
              code_known c d \<and> rc_code c = code \<and> (rc_status c = CodeUsed \<longrightarrow> code_used c d)))"
  unfolding GetByCode_def
proof (rule pay.obeys_bind)
  show "obeys (pay_guar b a) P (call (get_code code))
           (\<lambda>r d. P d \<and> (\<forall>c. r = Inr (Some c) \<longrightarrow>
              code_known c d \<and> rc_code c = code \<and> (rc_status c = CodeUsed \<longrightarrow> code_used c d)))"
    by (rule pay.obeys_query [OF assms])
      (auto simp: get_code_def code_known_def code_used_def dest!: find_Some_in)
qed (rule pay.obeys_return, auto split: sum.splits option.splits)

lemma credit_ok_ready:
  assumes "pay_inv a d" "code_ready a order d" "code_known c d" "rc_code c = o_recharge_code order"
  shows "credit_ok a order c"
proof -
  from assms(2,3) obtain c1 c2 where c: "c1 \<in> set (codes d)" "credit_ok a order c1"
    "c2 \<in> set (codes d)" "rc_code c2 = rc_code c" "rc_type c2 = rc_type c" "rc_value c2 = rc_value c"
    by (auto simp: code_ready_def code_known_def)
  have "rc_code c1 = rc_code c2" using assms(4) c by (simp add: credit_ok_def)
  moreover have "inj_on rc_code (set (codes d))" using assms(1) by (simp add: pay_inv_def distinct_map)
  ultimately have "c1 = c2" using c(1,3) by (blast dest: inj_onD)
  with c show ?thesis by (simp add: credit_ok_def)
qed

lemma CreateCode_obeys:
  assumes P: "stable (pay_guar b a) P"
    and trim: "\<And>d. P d \<Longrightarrow> TrimSpace (o_recharge_code order) = o_recharge_code order"
  shows "obeys (pay_guar b a) P (CreateCode (new_code (o_recharge_code order) (o_amount order)))
           (\<lambda>r d. P d \<and> (r = Inr () \<longrightarrow> code_ready a order d))"
proof -
  let ?c = "new_code (TrimSpace (o_recharge_code order)) (o_amount order)"
  have ins: "obeys (pay_guar b a) P (call (insert_code ?c))
      (\<lambda>r d. P d \<and> (r = Inr True \<longrightarrow> code_ready a order d))"
  proof (rule pay.obeys_call [OF P])
    fix now d
    assume p: "P d"
    show "pay_guar b a d (snd (insert_code ?c now d))"
      by (rule guar_insert_code) (simp add: new_code_def)
    with stableD [OF P p this]
    show "P (snd (insert_code ?c now d)) \<and>
        ((Inr (fst (insert_code ?c now d)) :: unit + bool) = Inr True \<longrightarrow>
           code_ready a order (snd (insert_code ?c now d)))"
      using trim [OF p] by (auto simp: insert_code_def new_code_def code_ready_def credit_ok_def)
  qed simp
  have e: "code_expired t (new_code c v) = False" for t c v by (simp add: code_expired_def new_code_def)
  have n: "(new_code c v)\<lparr>rc_code := c'\<rparr> = new_code c' v" "rc_code (new_code c v) = c"
    "rc_type (new_code c v) = RedeemTypeBalance" "rc_value (new_code c v) = v" for c v c'
    by (simp_all add: new_code_def)
  show ?thesis
    unfolding CreateCode_def Let_def n RedeemTypeBalance_def e
    by (rule pay.obeys_rules time_now_obeys ins | (auto split: sum.splits bool.splits; fail) | simp)+
qed

lemma redeem_transaction_obeys:
  assumes P: "stable (pay_guar b a) P"
    and k: "\<And>d. P d \<Longrightarrow> pay_inv a d \<and> code_known c d \<and> credit_ok a order c"
    and t: "o_type order \<noteq> OrderTypeSubscription"
  shows "obeys (pay_guar b a) P (transaction (redeem_body env c (o_user order)))
           (\<lambda>r d. P d \<and> (\<forall>u. r = Inr u \<longrightarrow> fulfilled a order d))"
proof (rule pay.obeys_transaction [OF P])
  fix now d u d'
  assume p: "P d" and ok: "redeem_body env c (o_user order) now d = (Inr u, d')"
  show g: "pay_guar b a d d'" by (rule guar_redeem_body [OF ok]) (use k [OF p] in simp)
  show "P d' \<and> (\<forall>v. (Inr u :: pay_error option + unit) = Inr v \<longrightarrow> fulfilled a order d')"
    using stableD [OF P p g] redeem_body_fulfils [OF ok] k [OF p] t by blast
qed simp

lemma obeys_lookup:
  assumes "l = LookupFailed \<Longrightarrow> obeys G P m1 Q" "l = CodeMissing \<Longrightarrow> obeys G P m2 Q"
    and "\<And>c. l = CodeFound c \<Longrightarrow> obeys G P (f c) Q"
  shows "obeys G P (case l of LookupFailed \<Rightarrow> m1 | CodeMissing \<Rightarrow> m2 | CodeFound c \<Rightarrow> f c) Q"
  using assms by (cases l) auto

lemma redeem_obeys [pay_obeys]:
  assumes P: "stable (pay_guar b a) P"
    and k: "\<And>d. P d \<Longrightarrow> pay_inv a d \<and> code_ready a order d"
    and t: "o_type order \<noteq> OrderTypeSubscription"
  shows "obeys (pay_guar b a) P
           (redeemForPaymentFulfillment env (o_user order) (o_recharge_code order))
           (\<lambda>r d. P d \<and> (\<forall>c. r = Inr c \<longrightarrow> fulfilled a order d))"
proof -
  have look: "obeys (pay_guar b a) P (GetByCode (o_recharge_code order))
      (\<lambda>r d. P d \<and> (\<forall>c. r = CodeFound c \<longrightarrow> code_known c d \<and> credit_ok a order c))"
    by (rule obeys_post [OF GetByCode_obeys [OF P]]) (use k credit_ok_ready in blast)
  show ?thesis
    unfolding redeemForPaymentFulfillment_def
    by (rule pay.obeys_rules time_now_obeys obeys_lookup look query_obeys
          redeem_transaction_obeys [OF _ _ t] P stable_rules
        | (auto dest: k simp: get_user_def get_code_by_id_def split: sum.splits option.splits; fail))+
qed

section \<open>Fulfilment\<close>

lemma rebate_obeys [pay_obeys]:
  assumes P: "stable (pay_guar b a) P"
  shows "obeys (pay_guar b a) P (applyAffiliateRebateForOrder env order) (\<lambda>_. P)"
proof -
  have tx: "obeys (pay_guar b a) P (transaction (rebate_body env order (affiliateRebateBaseAmount order))) (\<lambda>_. P)"
    by (rule pay.obeys_transaction [OF P]) (blast intro: guar_rebate_body stableD [OF P])+
  show ?thesis
    unfolding applyAffiliateRebateForOrder_def Let_def
    by (rule pay.obeys_rules tx writeAuditLog_obeys P | assumption | (simp; fail))+
qed

text \<open>The two endings of \<open>doBalance\<close>.\<close>

lemma finish_obeys:
  assumes P: "stable (pay_guar b a) P" and f: "\<And>d. P d \<Longrightarrow> known order d \<and> fulfilled a order d"
  shows "obeys (pay_guar b a) P
           (do { r \<leftarrow> applyAffiliateRebateForOrder env order;
                 case r of Inl e \<Rightarrow> State_Monad.return (Inl e) | Inr _ \<Rightarrow> markCompleted order lease action })
           (\<lambda>_. P)"
  by (rule pay.obeys_rules rebate_obeys markCompleted_obeys P f | assumption | (simp; fail))+

lemma redeem_finish_obeys:
  assumes P: "stable (pay_guar b a) P"
    and k: "\<And>d. P d \<Longrightarrow> pay_inv a d \<and> known order d \<and> code_ready a order d"
    and t: "o_type order \<noteq> OrderTypeSubscription"
  shows "obeys (pay_guar b a) P
           (do { r \<leftarrow> redeemForPaymentFulfillment env (o_user order) (o_recharge_code order);
                 case r of
                   Inl e \<Rightarrow> State_Monad.return (Inl e)
                 | Inr _ \<Rightarrow> do {
                     r \<leftarrow> applyAffiliateRebateForOrder env order;
                     case r of
                       Inl e \<Rightarrow> State_Monad.return (Inl e)
                     | Inr _ \<Rightarrow> markCompleted order lease action }})
           (\<lambda>_. P)"
proof (rule pay.obeys_bind [OF redeem_obeys [OF P _ t]])
  show "pay_inv a d \<and> code_ready a order d" if "P d" for d using k [OF that] by simp
next
  fix r :: "pay_error + redeem_code"
  show "obeys (pay_guar b a) (\<lambda>d. P d \<and> (\<forall>c. r = Inr c \<longrightarrow> fulfilled a order d))
      (case r of
         Inl e \<Rightarrow> State_Monad.return (Inl e)
       | Inr _ \<Rightarrow> do {
           r \<leftarrow> applyAffiliateRebateForOrder env order;
           case r of
             Inl e \<Rightarrow> State_Monad.return (Inl e)
           | Inr _ \<Rightarrow> markCompleted order lease action }) (\<lambda>_. P)"
  proof (cases r)
    case (Inr c)
    have st: "stable (pay_guar b a) (\<lambda>d. P d \<and> fulfilled a order d)" by (rule stable_rules P)+
    show ?thesis unfolding Inr sum.case
      by (rule obeys_weaken [OF finish_obeys [OF st]]) (use k in auto)
  qed (auto intro: pay.obeys_return)
qed

lemma known_trim:
  assumes "pay_inv a d" "known order d"
  shows "TrimSpace (o_recharge_code order) = o_recharge_code order"
  using assms by (auto simp: pay_inv_def known_def terms_def)

lemma validated_ready:
  assumes "validatePaymentRedeemCode a order c"
  shows "credit_ok a order c" and "rc_status c = CodeUsed \<Longrightarrow> rc_used_by c = Some (o_user order)"
  using assms by (auto simp: validatePaymentRedeemCode_def credit_ok_def split: if_splits code_status.splits)

lemma validated_code_ready:
  "validatePaymentRedeemCode a order c \<Longrightarrow> code_known c d \<Longrightarrow> code_ready a order d"
  using validated_ready(1) [of a order c] by (auto simp: code_known_def code_ready_def credit_ok_def)

lemma validated_code_used:
  assumes "validatePaymentRedeemCode a order c" "rc_status c = CodeUsed" "code_used c d"
    and "o_type order \<noteq> OrderTypeSubscription"
  shows "fulfilled a order d"
  using validated_ready [OF assms(1)] assms(2-4) by (auto simp: code_used_def fulfilled_def credit_ok_def)

lemma doBalance_obeys:
  assumes P: "stable (pay_guar b a) P" and k: "\<And>d. P d \<Longrightarrow> pay_inv a d \<and> known order d"
    and t: "o_type order \<noteq> OrderTypeSubscription" and a: "pe_arith env = a"
  shows "obeys (pay_guar b a) P (doBalance env order lease) (\<lambda>_. P)"
  unfolding doBalance_def a
proof (rule pay.obeys_bind [OF GetByCode_obeys [OF P]], goal_cases)
  case (1 existing)
  show ?case
  proof (cases existing)
    case LookupFailed
    then show ?thesis by (auto simp: resolveRedeemAction_def intro: pay.obeys_return)
  next
    case CodeMissing
    have st: "stable (pay_guar b a) (\<lambda>d. P d \<and> code_ready a order d)" by (rule stable_rules P)+
    have create: "obeys (pay_guar b a) P (CreateCode (new_code (o_recharge_code order) (o_amount order)))
        (\<lambda>r d. P d \<and> (r = Inr () \<longrightarrow> code_ready a order d))"
      by (rule CreateCode_obeys [OF P]) (use k known_trim in blast)
    have rest: "obeys (pay_guar b a) (\<lambda>d. P d \<and> code_ready a order d)
        (do { r \<leftarrow> redeemForPaymentFulfillment env (o_user order) (o_recharge_code order);
              case r of
                Inl e \<Rightarrow> State_Monad.return (Inl e)
              | Inr _ \<Rightarrow> do {
                  r \<leftarrow> applyAffiliateRebateForOrder env order;
                  case r of
                    Inl e \<Rightarrow> State_Monad.return (Inl e)
                  | Inr _ \<Rightarrow> markCompleted order lease ''RECHARGE_SUCCESS'' }}) (\<lambda>_. P)"
      by (rule obeys_post [OF redeem_finish_obeys [OF st _ t]]) (use k in auto)
    show ?thesis using CodeMissing
      by (auto simp: resolveRedeemAction_def
          intro!: pay.obeys_bind [OF create] pay.obeys_sum pay.obeys_return obeys_weaken [OF rest])
  next
    case (CodeFound c)
    let ?P = "\<lambda>d. P d \<and> code_known c d \<and> (rc_status c = CodeUsed \<longrightarrow> code_used c d)"
    have st: "stable (pay_guar b a) ?P" by (rule stable_rules P)+
    show ?thesis
    proof (cases "validatePaymentRedeemCode a order c")
      case False
      then show ?thesis using CodeFound
        by (auto simp: resolveRedeemAction_def intro: pay.obeys_return)
    next
      case True
      show ?thesis
      proof (cases "rc_status c = CodeUsed")
        case used: True
        have "obeys (pay_guar b a) ?P
            (do { r \<leftarrow> applyAffiliateRebateForOrder env order;
                  case r of Inl e \<Rightarrow> State_Monad.return (Inl e)
                  | Inr _ \<Rightarrow> markCompleted order lease ''RECHARGE_SUCCESS'' }) (\<lambda>_. ?P)"
          by (rule finish_obeys [OF st]) (use k validated_code_used [OF True used _ t] used in auto)
        then show ?thesis using CodeFound True used
          by (auto simp: resolveRedeemAction_def elim!: obeys_weaken)
      next
        case unused: False
        have "obeys (pay_guar b a) ?P
            (do { r \<leftarrow> redeemForPaymentFulfillment env (o_user order) (o_recharge_code order);
                  case r of
                    Inl e \<Rightarrow> State_Monad.return (Inl e)
                  | Inr _ \<Rightarrow> do {
                      r \<leftarrow> applyAffiliateRebateForOrder env order;
                      case r of
                        Inl e \<Rightarrow> State_Monad.return (Inl e)
                      | Inr _ \<Rightarrow> markCompleted order lease ''RECHARGE_SUCCESS'' }}) (\<lambda>_. ?P)"
          by (rule redeem_finish_obeys [OF st _ t]) (use k validated_code_ready [OF True] in auto)
        then show ?thesis using CodeFound True unused
          by (auto simp: resolveRedeemAction_def elim!: obeys_weaken)
      qed
    qed
  qed
qed

text \<open>A fetched order has the terms that are known of it.\<close>

lemma known_terms:
  assumes "pay_inv a d" "known o1 d" "known o2 d" "o_id o1 = o_id o2"
  shows "terms o1 = terms o2"
proof -
  from assms(2) obtain o' where o': "o' \<in> set (orders d)" "terms o' = terms o1" by (auto simp: known_def)
  then have "terms o' = terms o2"
    using known_unique [OF assms(1,3) o'(1)] assms(4) by (simp add: terms_def)
  with o'(2) show ?thesis by simp
qed

lemma terms_type: "terms o1 = terms o2 \<Longrightarrow> o_type o1 = o_type o2"
  by (simp add: terms_def)

lemma ExecuteBalanceFulfillment_obeys:
  assumes P: "stable (pay_guar b a) P" and k: "\<And>d. P d \<Longrightarrow> pay_inv a d \<and> known order0 d"
    and t: "o_type order0 \<noteq> OrderTypeSubscription" and a: "pe_arith env = a"
  shows "obeys (pay_guar b a) P (ExecuteBalanceFulfillment env (o_id order0)) (\<lambda>_. P)"
  unfolding ExecuteBalanceFulfillment_def
proof (rule pay.obeys_bind [OF fetch_order_obeys [OF P]], goal_cases)
  case (1 r)
  show ?case
  proof (cases r)
    case (Some order)
    let ?P = "\<lambda>d. P d \<and> known order d \<and> o_id order = o_id order0"
    have st: "stable (pay_guar b a) ?P" by (rule stable_rules P)+
    have "obeys (pay_guar b a) ?P (doBalance env order lease) (\<lambda>_. ?P)" for lease
    proof (cases "o_type order = OrderTypeSubscription")
      case True
      have "\<not> ?P d" for d using k [of d] known_terms [of a d order order0] terms_type t True by metis
      then show ?thesis by (rule obeys_vacuous)
    next
      case False
      show ?thesis by (rule doBalance_obeys [OF st _ False a]) (use k in blast)
    qed
    then have "obeys (pay_guar b a) ?P
       (if o_status order = OrderCompleted then State_Monad.return (Inr ())
        else if psIsRefundStatus (o_status order) then State_Monad.return (Inl (AppError ''INVALID_STATUS''))
        else if \<not> fulfillable (o_status order) then State_Monad.return (Inl (AppError ''INVALID_STATUS''))
        else do {
          l \<leftarrow> acquirePaymentFulfillmentLease order;
          case l of
            Inl e \<Rightarrow> State_Monad.return (Inl e)
          | Inr None \<Rightarrow> State_Monad.return (Inr ())
          | Inr (Some lease) \<Rightarrow> do {
              b \<leftarrow> doBalance env order lease;
              case b of
                Inl e \<Rightarrow> do { _ \<leftarrow> markFailed (o_id order0) lease; State_Monad.return (Inl e) }
              | Inr _ \<Rightarrow> State_Monad.return (Inr ())}}) (\<lambda>_. P)"
      by - (rule pay.obeys_rules acquire_obeys markFailed_obeys st | assumption | (auto; fail))+
    then show ?thesis unfolding Some option.case by (rule obeys_weaken) auto
  qed (auto intro: pay.obeys_return)
qed

lemma fulfilled_subscription:
  "o_type order = OrderTypeSubscription \<Longrightarrow>
     fulfilled a order d = audit_exists (o_id order) assigned_actions d"
  by (simp add: fulfilled_def)

lemma ensure_obeys:
  assumes P: "stable (pay_guar b a) P" and t: "o_type order = OrderTypeSubscription"
  shows "obeys (pay_guar b a) P (ensurePaymentSubscriptionAssigned env order gid days)
           (\<lambda>r d. P d \<and> (r = Inr () \<longrightarrow> fulfilled a order d))"
proof -
  note f = fulfilled_subscription [OF t]
  have tx: "obeys (pay_guar b a) P (transaction (assign_body env order gid days))
      (\<lambda>r d. P d \<and> (r = Inr () \<longrightarrow> fulfilled a order d))"
    by (rule pay.obeys_transaction [OF P])
      (auto simp: f intro: guar_assign_body(1) stableD [OF P] guar_assign_body(2))
  have q: "obeys (pay_guar b a) P (call (count_audit (o_id order) assigned_actions))
      (\<lambda>r d. P d \<and> (r = Inr True \<longrightarrow> fulfilled a order d))"
    by (rule pay.obeys_query [OF P]) (auto simp: count_audit_def f)
  have st: "stable (pay_guar b a) (\<lambda>d. P d \<and> fulfilled a order d)" by (rule stable_rules P)+
  show ?thesis
    unfolding ensurePaymentSubscriptionAssigned_def
  proof (rule pay.obeys_bind [OF tx], goal_cases)
    case (1 r)
    consider "r = Inl (Some AuditConstraint)" | "r = Inr ()" | e where "r = Inl e" "e \<noteq> Some AuditConstraint"
      by (cases r) auto
    then show ?case
    proof cases
      case 1
      have "obeys (pay_guar b a) P
          (do { claimed \<leftarrow> call (count_audit (o_id order) assigned_actions);
                t \<leftarrow> time_now;
                State_Monad.return (case claimed of
                  Inr True \<Rightarrow> if invalidate_caches env (o_user order) gid t then Inr () else Inl OtherError
                | _ \<Rightarrow> Inl OtherError) })
          (\<lambda>r d. P d \<and> (r = Inr () \<longrightarrow> fulfilled a order d))"
        by (rule pay.obeys_bind [OF q] pay.obeys_bind [OF time_now_obeys] pay.obeys_return
            | (auto split: sum.splits bool.splits if_splits; fail))+
      then show ?thesis using 1 by (auto elim!: obeys_weaken)
    next
      case 2
      have "obeys (pay_guar b a) (\<lambda>d. P d \<and> fulfilled a order d)
          (do { t \<leftarrow> time_now;
                State_Monad.return (if invalidate_caches env (o_user order) gid t then Inr () else Inl OtherError) })
          (\<lambda>r d. P d \<and> (r = Inr () \<longrightarrow> fulfilled a order d))"
        by (rule pay.obeys_bind [OF time_now_obeys] pay.obeys_return | simp)+
      then show ?thesis using 2 by (auto elim!: obeys_weaken)
    next
      case 3
      then show ?thesis
        by (cases e) (auto intro: pay.obeys_return split: assign_error.splits)
    qed
  qed
qed

lemma doSub_obeys:
  assumes P: "stable (pay_guar b a) P" and k: "\<And>d. P d \<Longrightarrow> known order d"
    and t: "o_type order = OrderTypeSubscription"
  shows "obeys (pay_guar b a) P (doSub env order gid days lease) (\<lambda>_. P)"
proof -
  have rest: "obeys (pay_guar b a) P
      (do { e \<leftarrow> ensurePaymentSubscriptionAssigned env order gid days;
            case e of
              Inl e \<Rightarrow> State_Monad.return (Inl e)
            | Inr _ \<Rightarrow> do {
                r \<leftarrow> applyAffiliateRebateForOrder env order;
                case r of
                  Inl e \<Rightarrow> State_Monad.return (Inl e)
                | Inr _ \<Rightarrow> markCompleted order lease ''SUBSCRIPTION_SUCCESS'' }}) (\<lambda>_. P)"
  proof (rule pay.obeys_bind [OF ensure_obeys [OF P t]], goal_cases)
    case (1 r)
    show ?case
    proof (cases r)
      case (Inr u)
      have st: "stable (pay_guar b a) (\<lambda>d. P d \<and> fulfilled a order d)" by (rule stable_rules P)+
      show ?thesis unfolding Inr sum.case
        by (rule obeys_weaken [OF finish_obeys [OF st]]) (use k in auto)
    qed (auto intro: pay.obeys_return)
  qed
  show ?thesis
    unfolding doSub_def
    by (rule pay.obeys_bind [OF query_obeys [OF P]] pay.obeys_if rest pay.obeys_return
        | simp add: read_group_def)+
qed

lemma ExecuteSubscriptionFulfillment_obeys:
  assumes P: "stable (pay_guar b a) P" and k: "\<And>d. P d \<Longrightarrow> pay_inv a d \<and> known order0 d"
    and t: "o_type order0 = OrderTypeSubscription"
  shows "obeys (pay_guar b a) P (ExecuteSubscriptionFulfillment env (o_id order0)) (\<lambda>_. P)"
  unfolding ExecuteSubscriptionFulfillment_def
proof (rule pay.obeys_bind [OF fetch_order_obeys [OF P]], goal_cases)
  case (1 r)
  show ?case
  proof (cases r)
    case (Some order)
    let ?P = "\<lambda>d. P d \<and> known order d \<and> o_id order = o_id order0"
    have st: "stable (pay_guar b a) ?P" by (rule stable_rules P)+
    have sub: "obeys (pay_guar b a) ?P (doSub env order gid days lease) (\<lambda>_. ?P)" for gid days lease
    proof (cases "o_type order = OrderTypeSubscription")
      case False
      have "\<not> ?P d" for d using k [of d] known_terms [of a d order order0] terms_type t False by metis
      then show ?thesis by (rule obeys_vacuous)
    next
      case True
      show ?thesis by (rule doSub_obeys [OF st _ True]) blast
    qed
    have "obeys (pay_guar b a) ?P
       (if o_status order = OrderCompleted then State_Monad.return (Inr ())
        else if psIsRefundStatus (o_status order) then State_Monad.return (Inl (AppError ''INVALID_STATUS''))
        else if \<not> fulfillable (o_status order) then State_Monad.return (Inl (AppError ''INVALID_STATUS''))
        else case (o_group order, o_days order) of
          (Some gid, Some days) \<Rightarrow> do {
            l \<leftarrow> acquirePaymentFulfillmentLease order;
            case l of
              Inl e \<Rightarrow> State_Monad.return (Inl e)
            | Inr None \<Rightarrow> State_Monad.return (Inr ())
            | Inr (Some lease) \<Rightarrow> do {
                b \<leftarrow> doSub env order gid days lease;
                case b of
                  Inl e \<Rightarrow> do { _ \<leftarrow> markFailed (o_id order0) lease; State_Monad.return (Inl e) }
                | Inr _ \<Rightarrow> State_Monad.return (Inr ())}}
        | _ \<Rightarrow> State_Monad.return (Inl (AppError ''INVALID_STATUS''))) (\<lambda>_. P)"
      by (rule pay.obeys_rules acquire_obeys markFailed_obeys sub st | assumption | (auto; fail))+
    then show ?thesis unfolding Some option.case by (rule obeys_weaken) auto
  qed (auto intro: pay.obeys_return)
qed

lemma executeFulfillment_obeys [pay_obeys]:
  assumes P: "stable (pay_guar b a) P" and k: "\<And>d. P d \<Longrightarrow> pay_inv a d" and a: "pe_arith env = a"
  shows "obeys (pay_guar b a) P (executeFulfillment env oid) (\<lambda>_. P)"
  unfolding executeFulfillment_def
proof (rule pay.obeys_bind [OF fetch_order_obeys [OF P]], goal_cases)
  case (1 r)
  show ?case
  proof (cases r)
    case (Some order)
    let ?P = "\<lambda>d. P d \<and> known order d"
    have st: "stable (pay_guar b a) ?P" by (rule stable_rules P)+
    show ?thesis
    proof (cases "o_id order = oid")
      case False
      then show ?thesis using Some by (simp add: obeys_def)
    next
      case True
      have sub: "obeys (pay_guar b a) ?P (ExecuteSubscriptionFulfillment env (o_id order)) (\<lambda>_. ?P)"
        if "o_type order = OrderTypeSubscription"
        by (rule ExecuteSubscriptionFulfillment_obeys [OF st _ that]) (use k in blast)
      have bal: "obeys (pay_guar b a) ?P (ExecuteBalanceFulfillment env (o_id order)) (\<lambda>_. ?P)"
        if "o_type order \<noteq> OrderTypeSubscription"
        by (rule ExecuteBalanceFulfillment_obeys [OF st _ that a]) (use k in blast)
      have "obeys (pay_guar b a) ?P
          (if o_type order = OrderTypeSubscription then ExecuteSubscriptionFulfillment env oid
           else ExecuteBalanceFulfillment env oid) (\<lambda>_. ?P)"
        unfolding True [symmetric] by (rule pay.obeys_if) (erule sub, erule bal)
      then show ?thesis unfolding Some option.case by (rule obeys_weaken) auto
    qed
  qed (auto intro: pay.obeys_return)
qed

lemma RetryFulfillment_obeys:
  assumes P: "stable (pay_guar b a) P" and k: "\<And>d. P d \<Longrightarrow> pay_inv a d" and a: "pe_arith env = a"
  shows "obeys (pay_guar b a) P (RetryFulfillment env oid) (\<lambda>_. P)"
proof -
  note exec = executeFulfillment_obeys [OF P k a]
  have rest: "obeys (pay_guar b a) P
      (do { _ \<leftarrow> writeAuditLog oid ''RECHARGE_RETRY'' ''admin'' None; executeFulfillment env oid }) (\<lambda>_. P)"
    by (rule pay.obeys_bind writeAuditLog_obeys P exec | assumption)+
  show ?thesis
    unfolding RetryFulfillment_def
    by (rule pay.obeys_bind [OF fetch_order_obeys [OF P]] pay.obeys_option pay.obeys_if pay.obeys_return
          obeys_weaken [OF rest] | (auto; fail))+
qed

section \<open>Notifications\<close>

lemma getOrderProviderInstance_obeys:
  assumes P: "stable (pay_guar b a) P"
  shows "obeys (pay_guar b a) P (getOrderProviderInstance order) (\<lambda>_. P)"
proof -
  have snap: "obeys (pay_guar b a) P (resolveSnapshotOrderProviderInstance order s) (\<lambda>_. P)" for s
    unfolding resolveSnapshotOrderProviderInstance_def Let_def
    by (rule pay.obeys_rules query_obeys P | assumption | simp add: get_instance_def)+
  have legacy: "obeys (pay_guar b a) P (resolveUniqueLegacyOrderProviderInstance order) (\<lambda>_. P)"
    unfolding resolveUniqueLegacyOrderProviderInstance_def Let_def
    by (rule pay.obeys_rules query_obeys P | assumption | simp add: instances_where_def)+
  show ?thesis
    unfolding getOrderProviderInstance_def Let_def
    by (rule pay.obeys_rules query_obeys P snap legacy | assumption | simp add: get_instance_def)+
qed

lemma alreadyProcessed_obeys:
  assumes P: "stable (pay_guar b a) P" and k: "\<And>d. P d \<Longrightarrow> pay_inv a d" and a: "pe_arith env = a"
  shows "obeys (pay_guar b a) P (alreadyProcessed env order) (\<lambda>_. P)"
proof -
  note exec = executeFulfillment_obeys [OF P k a]
  have audit: "obeys (pay_guar b a) P
      (do { _ \<leftarrow> writeAuditLog (o_id order) action op None; State_Monad.return r }) (\<lambda>_. P)" for action op r
    by (rule pay.obeys_bind writeAuditLog_obeys P pay.obeys_return | assumption)+
  show ?thesis
    unfolding alreadyProcessed_def
    by (rule pay.obeys_bind [OF fetch_order_obeys [OF P]] pay.obeys_option pay.obeys_if pay.obeys_return
          obeys_weaken [OF exec] obeys_weaken [OF audit] | (auto; fail))+
qed

lemma toPaid_obeys:
  assumes P: "stable (pay_guar b a) P" and k: "\<And>d. P d \<Longrightarrow> pay_inv a d" and a: "pe_arith env = a"
  shows "obeys (pay_guar b a) P (toPaid env order tradeNo paid pk) (\<lambda>_. P)"
  unfolding toPaid_def Let_def
  by (rule pay.obeys_bind [OF time_now_obeys] pay.obeys_bind [OF pay.obeys_keep [OF P guar_update_to_paid]]
        pay.obeys_bind [OF pay.obeys_unless(2) [OF writeAuditLog_obeys [OF P]]]
        pay.obeys_bind [OF writeAuditLog_obeys [OF P]] pay.obeys_sum pay.obeys_if pay.obeys_return
        alreadyProcessed_obeys [OF P k a] executeFulfillment_obeys [OF P k a] | assumption)+

lemma confirmPayment_obeys:
  assumes P: "stable (pay_guar b a) P" and k: "\<And>d. P d \<Longrightarrow> pay_inv a d" and a: "pe_arith env = a"
  shows "obeys (pay_guar b a) P (confirmPayment env oid tradeNo paid pk metadata) (\<lambda>_. P)"
proof -
  have refuse: "obeys (pay_guar b a) P (refuse_notification oid action pk) (\<lambda>_. P)" for action
    unfolding refuse_notification_def
    by (rule pay.obeys_bind writeAuditLog_obeys P pay.obeys_return | assumption)+
  note paid_ok = toPaid_obeys [OF P k a]
  have rest: "obeys (pay_guar b a) P
      (do { i \<leftarrow> getOrderProviderInstance order;
            let instanceKey = (case i of Inr (Some inst) \<Rightarrow> inst_provider_key inst | _ \<Rightarrow> []);
            let expected = expectedNotificationProviderKeyForOrder (registry_key env) order instanceKey;
            if expected \<noteq> [] \<and> TrimSpace pk \<noteq> [] \<and> \<not> EqualFold expected (TrimSpace pk)
            then refuse_notification oid ''PAYMENT_PROVIDER_MISMATCH'' pk
            else if validateProviderSnapshotMetadata order pk metadata \<noteq> None
            then refuse_notification oid ''PAYMENT_PROVIDER_METADATA_MISMATCH'' pk
            else case paid of
              Fin amount \<Rightarrow>
                if \<not> isValidProviderAmount paid then refuse_notification oid ''PAYMENT_INVALID_AMOUNT'' pk
                else if \<bar>fsub (pe_arith env) amount (o_pay_amount order)\<bar>
                          > paymentAmountToleranceForCurrency (PaymentOrderCurrency order)
                then refuse_notification oid ''PAYMENT_AMOUNT_MISMATCH'' pk
                else toPaid env order tradeNo amount pk
            | _ \<Rightarrow> refuse_notification oid ''PAYMENT_INVALID_AMOUNT'' pk}) (\<lambda>_. P)" for order
    unfolding Let_def
    by (rule pay.obeys_bind [OF getOrderProviderInstance_obeys [OF P]])
      (auto intro!: pay.obeys_if refuse paid_ok split: float64.split)
  show ?thesis
    unfolding confirmPayment_def
    by (rule pay.obeys_bind [OF fetch_order_obeys [OF P]] pay.obeys_option pay.obeys_return
          obeys_weaken [OF rest] | (auto; fail))+
qed

lemma HandlePaymentNotification_obeys:
  assumes P: "stable (pay_guar b a) P" and k: "\<And>d. P d \<Longrightarrow> pay_inv a d" and a: "pe_arith env = a"
  shows "obeys (pay_guar b a) P (HandlePaymentNotification env n pk) (\<lambda>_. P)"
proof -
  note confirm = confirmPayment_obeys [OF P k a]
  have q: "obeys (pay_guar b a) P (call (orders_by_out_trade_no no)) (\<lambda>_. P)" for no
    by (rule query_obeys [OF P]) (simp add: orders_by_out_trade_no_def)
  show ?thesis
    unfolding HandlePaymentNotification_def
    by (rule pay.obeys_if pay.obeys_return pay.obeys_bind [OF q] | assumption
        | (auto intro!: confirm pay.obeys_return split: sum.split list.split option.split; fail))+
qed

end
