(* ===== verification/Payment_Lifecycle.thy ===== *)
theory Payment_Lifecycle
  imports Payment_Safety
begin

text \<open>
  Cancelling and expiring orders, and asking the provider about them
  (\<open>service/payment_order_lifecycle.go\<close>, \<open>webhookRegistryFallbackAllowed\<close> of
  \<open>service/payment_webhook_provider.go\<close>). The provider answers from queues of replies, one for each
  kind of request; an empty queue is an error. \<open>gw_calls\<close> records the requests sent.
\<close>

section \<open>The payment provider\<close>

record query_response =
  q_status :: string
  q_amount :: float64
  q_trade_no :: string
  q_metadata :: "(string \<times> string) list"

datatype gw_call =
    CallQuery string | CallCancel string
  | CallRefund string string rat string | CallQueryRefund string string string rat

datatype refund_reply = RefundAnswer "string option" string bool

record 'x pay_world = "'x pay_db shared" +
  query_replies :: "(unit + query_response) list"
  refund_replies :: "refund_reply list"
  refund_query_replies :: "(unit + (string \<times> string)) list"
  gw_calls :: "gw_call list"

type_synonym ('x, 'a) gw_prog = "('x pay_world, 'a) state"

definition gw_QueryOrder :: "string \<Rightarrow> ('x, unit + query_response) gw_prog" where
  "gw_QueryOrder ref = State (\<lambda>w.
     (case query_replies w of [] \<Rightarrow> Inl () | r # _ \<Rightarrow> r,
      w\<lparr>query_replies := tl (query_replies w), gw_calls := gw_calls w @ [CallQuery ref]\<rparr>))"

definition gw_CancelPayment :: "string \<Rightarrow> ('x, unit) gw_prog" where
  "gw_CancelPayment ref = State (\<lambda>w. ((), w\<lparr>gw_calls := gw_calls w @ [CallCancel ref]\<rparr>))"

section \<open>The provider of an order\<close>

definition webhookRegistryFallbackAllowed :: "string \<Rightarrow> ('x, 'z, bool) prog" where
  "webhookRegistryFallbackAllowed providerKey =
     (let providerKey = TrimSpace providerKey in
      if providerKey = [] then State_Monad.return False
      else do {
        r \<leftarrow> call (instances_where (\<lambda>i. inst_provider_key i = providerKey \<and> inst_enabled i));
        State_Monad.return (case r of Inl _ \<Rightarrow> False | Inr is \<Rightarrow> length is \<le> 1)})"

definition getOrderProvider :: "'x pay_env \<Rightarrow> payment_order \<Rightarrow> ('x, 'z, provider option) prog" where
  "getOrderProvider env order = do {
     i \<leftarrow> getOrderProviderInstance order;
     case i of
       Inl _ \<Rightarrow> State_Monad.return None
     | Inr (Some inst) \<Rightarrow> State_Monad.return (make_provider env inst)
     | Inr None \<Rightarrow>
         if \<not> paymentOrderAllowsRegistryFallback order then State_Monad.return None
         else
         let providerKey = paymentOrderFallbackProviderKey (registry_key env) order in
         if providerKey = [] then State_Monad.return None
         else do {
           ok \<leftarrow> webhookRegistryFallbackAllowed providerKey;
           State_Monad.return (if ok then registry_provider env (o_payment_type order) else None)}}"

section \<open>Asking whether an order was paid\<close>

definition requeryPaidOrderOnce :: "string \<Rightarrow> ('x, query_response option) gw_prog" where
  "requeryPaidOrderOnce ref =
     (if TrimSpace ref = [] then State_Monad.return None
      else do {
        r \<leftarrow> gw_QueryOrder ref;
        State_Monad.return (case r of
          Inl _ \<Rightarrow> None
        | Inr resp \<Rightarrow>
            if q_status resp \<noteq> ''paid'' \<or> \<not> isValidProviderAmount (q_amount resp) then None
            else Some resp)})"

text \<open>
  A paid answer with a usable amount: the trade number of the provider is stored if it is news, and the
  order is confirmed as if a notification had arrived. Its error is only logged.
\<close>

definition confirm_reported :: "'x pay_env \<Rightarrow> payment_order \<Rightarrow> provider \<Rightarrow> string \<Rightarrow> query_response \<Rightarrow> ('x, unit) gw_prog" where
  "confirm_reported env order prov ref resp = do {
     let upstream = TrimSpace (q_trade_no resp);
     let persist = paymentOrderShouldPersistUpstreamTradeNo ref upstream (o_trade_no order);
     _ \<leftarrow> (if persist then do { _ \<leftarrow> call (set_trade_no (o_id order) upstream); State_Monad.return () }
           else State_Monad.return ());
     _ \<leftarrow> HandlePaymentNotification env
           \<lparr>n_trade_no = (if persist then upstream else o_trade_no order), n_order_id = o_out_trade_no order,
            n_amount = q_amount resp, n_status = ''success'', n_metadata = q_metadata resp\<rparr>
           (prov_key prov);
     State_Monad.return ()}"

text \<open>\<open>True\<close> is the outcome \<open>already_paid\<close>, \<open>False\<close> the empty outcome.\<close>

definition checkPaidWithOptions :: "'x pay_env \<Rightarrow> bool \<Rightarrow> payment_order \<Rightarrow> ('x, bool) gw_prog" where
  "checkPaidWithOptions env cancelIfUnpaid order = do {
     p \<leftarrow> getOrderProvider env order;
     case p of
       None \<Rightarrow> State_Monad.return False
     | Some prov \<Rightarrow>
         let ref = paymentOrderQueryReference order (Some (prov_key prov)) in
         if ref = [] then State_Monad.return False
         else do {
           r \<leftarrow> gw_QueryOrder ref;
           case r of
             Inl _ \<Rightarrow> State_Monad.return False
           | Inr resp \<Rightarrow>
               if q_status resp = ''paid'' then do {
                 usable \<leftarrow> (if isValidProviderAmount (q_amount resp) then State_Monad.return (Some resp)
                           else do {
                             _ \<leftarrow> writeAuditLog (o_id order) ''PAYMENT_INVALID_AMOUNT'' (prov_key prov) None;
                             requeryPaidOrderOnce ref});
                 case usable of
                   None \<Rightarrow> State_Monad.return False
                 | Some resp \<Rightarrow> do {
                     _ \<leftarrow> confirm_reported env order prov ref resp;
                     State_Monad.return True}}
               else if \<not> cancelIfUnpaid then State_Monad.return False
               else do {
                 _ \<leftarrow> (if prov_cancelable prov then gw_CancelPayment ref else State_Monad.return ());
                 State_Monad.return False}}}"

definition checkPaid :: "'x pay_env \<Rightarrow> payment_order \<Rightarrow> ('x, bool) gw_prog" where
  "checkPaid env = checkPaidWithOptions env True"

definition reconcilePaid :: "'x pay_env \<Rightarrow> payment_order \<Rightarrow> ('x, bool) gw_prog" where
  "reconcilePaid env = checkPaidWithOptions env False"

section \<open>Cancelling and expiring\<close>

datatype cancel_outcome = AlreadyPaid | CancelledOutcome

definition cancelCore ::
  "'x pay_env \<Rightarrow> payment_order \<Rightarrow> order_status \<Rightarrow> string \<Rightarrow> ('x, pay_error + cancel_outcome) gw_prog" where
  "cancelCore env order fs op = do {
     paid \<leftarrow> (if o_trade_no order \<noteq> [] \<or> o_payment_type order \<noteq> [] then checkPaid env order
             else State_Monad.return False);
     if paid then State_Monad.return (Inr AlreadyPaid)
     else do {
       r \<leftarrow> call (cancel_pending (o_id order) fs);
       case r of
         Inl _ \<Rightarrow> State_Monad.return (Inl OtherError)
       | Inr c \<Rightarrow> do {
           _ \<leftarrow> (if c > 0
                 then writeAuditLog (o_id order)
                        (if fs = OrderExpired then ''ORDER_EXPIRED'' else ''ORDER_CANCELLED'') op None
                 else State_Monad.return ());
           State_Monad.return (Inr CancelledOutcome)}}}"

definition CancelOrder :: "'x pay_env \<Rightarrow> int \<Rightarrow> int \<Rightarrow> ('x, pay_error + cancel_outcome) gw_prog" where
  "CancelOrder env orderID userID = do {
     r \<leftarrow> fetch_order orderID;
     case r of
       None \<Rightarrow> State_Monad.return (Inl (AppError ''NOT_FOUND''))
     | Some order \<Rightarrow>
         if o_user order \<noteq> userID then State_Monad.return (Inl (AppError ''FORBIDDEN''))
         else if o_status order \<noteq> OrderPending then State_Monad.return (Inl (AppError ''INVALID_STATUS''))
         else cancelCore env order OrderCancelled (''user:'' @ Itoa userID)}"

definition AdminCancelOrder :: "'x pay_env \<Rightarrow> int \<Rightarrow> ('x, pay_error + cancel_outcome) gw_prog" where
  "AdminCancelOrder env orderID = do {
     r \<leftarrow> fetch_order orderID;
     case r of
       None \<Rightarrow> State_Monad.return (Inl (AppError ''NOT_FOUND''))
     | Some order \<Rightarrow>
         if o_status order \<noteq> OrderPending then State_Monad.return (Inl (AppError ''INVALID_STATUS''))
         else cancelCore env order OrderCancelled ''admin''}"

definition orders_where ::
  "(payment_order \<Rightarrow> bool) \<Rightarrow> int \<Rightarrow> 'x pay_db \<Rightarrow> payment_order list \<times> 'x pay_db" where
  "orders_where p now d = (filter p (orders d), d)"

fun expire_all :: "'x pay_env \<Rightarrow> payment_order list \<Rightarrow> int \<Rightarrow> ('x, int) gw_prog" where
  "expire_all env [] n = State_Monad.return n"
| "expire_all env (order # os) n = do {
     outcome \<leftarrow> cancelCore env order OrderExpired ''system'';
     expire_all env os (if outcome = Inr CancelledOutcome then n + 1 else n)}"

definition ExpireTimedOutOrders :: "'x pay_env \<Rightarrow> ('x, pay_error + int) gw_prog" where
  "ExpireTimedOutOrders env = do {
     now \<leftarrow> time_now;
     r \<leftarrow> call (orders_where (\<lambda>o'. o_status o' = OrderPending \<and> o_expires_at o' \<le> now));
     case r of
       Inl _ \<Rightarrow> State_Monad.return (Inl OtherError)
     | Inr os \<Rightarrow> do { n \<leftarrow> expire_all env os 0; State_Monad.return (Inr n) }}"

section \<open>Reconciliation\<close>

definition pendingPaymentReconcileLimit :: nat where "pendingPaymentReconcileLimit = 20"

definition of_method :: "string \<Rightarrow> payment_order \<Rightarrow> bool" where
  "of_method t order =
     (o_payment_type order = t \<or> has_prefix (o_payment_type order) (t @ ''_'') \<or>
      (case o_provider_key order of None \<Rightarrow> False | Some k \<Rightarrow> k = t \<or> has_prefix k (t @ ''_'')))"

definition pending_to_reconcile :: "int \<Rightarrow> int \<Rightarrow> 'x pay_db \<Rightarrow> payment_order list \<times> 'x pay_db" where
  "pending_to_reconcile t now d =
     (take pendingPaymentReconcileLimit (sort_key o_created_at
        (filter (\<lambda>o'. o_status o' = OrderPending \<and> o_expires_at o' > t \<and>
                      (of_method TypeWxpay o' \<or> of_method TypeAlipay o')) (orders d))), d)"

fun reconcile_all :: "'x pay_env \<Rightarrow> payment_order list \<Rightarrow> int \<Rightarrow> ('x, int) gw_prog" where
  "reconcile_all env [] n = State_Monad.return n"
| "reconcile_all env (order # os) n = do {
     paid \<leftarrow> reconcilePaid env order;
     reconcile_all env os (if paid then n + 1 else n)}"

definition ReconcilePendingPaymentOrders :: "'x pay_env \<Rightarrow> ('x, pay_error + int) gw_prog" where
  "ReconcilePendingPaymentOrders env = do {
     now \<leftarrow> time_now;
     r \<leftarrow> call (pending_to_reconcile now);
     case r of
       Inl _ \<Rightarrow> State_Monad.return (Inl OtherError)
     | Inr os \<Rightarrow> do { n \<leftarrow> reconcile_all env os 0; State_Monad.return (Inr n) }}"

definition VerifyOrderByOutTradeNo ::
  "'x pay_env \<Rightarrow> string \<Rightarrow> int \<Rightarrow> ('x, pay_error + payment_order) gw_prog" where
  "VerifyOrderByOutTradeNo env raw userID =
     (case normalizeOrderLookupOutTradeNo raw of
        None \<Rightarrow> State_Monad.return (Inl (AppError ''INVALID_OUT_TRADE_NO''))
      | Some outTradeNo \<Rightarrow> do {
          r \<leftarrow> call (orders_by_out_trade_no outTradeNo);
          case r of
            Inr [order] \<Rightarrow>
              if o_user order \<noteq> userID then State_Monad.return (Inl (AppError ''FORBIDDEN''))
              else if o_status order = OrderPending \<or> o_status order = OrderExpired then do {
                paid \<leftarrow> reconcilePaid env order;
                if paid then do {
                  again \<leftarrow> fetch_order (o_id order);
                  State_Monad.return (case again of None \<Rightarrow> Inl OtherError | Some o' \<Rightarrow> Inr o')}
                else State_Monad.return (Inr order)}
              else State_Monad.return (Inr order)
          | _ \<Rightarrow> State_Monad.return (Inl (AppError ''NOT_FOUND''))})"

definition VerifyOrderPublic :: "string \<Rightarrow> ('x, 'z, pay_error + payment_order) prog" where
  "VerifyOrderPublic raw =
     (case normalizeOrderLookupOutTradeNo raw of
        None \<Rightarrow> State_Monad.return (Inl (AppError ''INVALID_OUT_TRADE_NO''))
      | Some outTradeNo \<Rightarrow> do {
          r \<leftarrow> call (orders_by_out_trade_no outTradeNo);
          State_Monad.return (case r of Inr [order] \<Rightarrow> Inr order | _ \<Rightarrow> Inl (AppError ''NOT_FOUND''))})"

section \<open>Limit on cancellations\<close>

text \<open>
  The calendar is a parameter: midnight of the local day of a time, and a time some days later. The
  unit \<open>hour\<close> is the default of both switches.
\<close>

record cancel_config =
  CancelRateLimitEnabled :: bool
  CancelRateLimitMax :: int
  CancelRateLimitWindow :: int
  CancelRateLimitUnit :: string
  CancelRateLimitMode :: string

record calendar =
  start_of_day :: "int \<Rightarrow> int"
  add_days :: "int \<Rightarrow> int \<Rightarrow> int"

definition cancelRateLimitWindowStart :: "calendar \<Rightarrow> cancel_config \<Rightarrow> int \<Rightarrow> int" where
  "cancelRateLimitWindowStart cal cfg now =
     (let w = (if CancelRateLimitWindow cfg \<le> 0 then 1 else CancelRateLimitWindow cfg);
          unit = (if CancelRateLimitUnit cfg = [] then ''day'' else CancelRateLimitUnit cfg)
      in if CancelRateLimitMode cfg = ''fixed'' then
           (if unit = ''minute'' then (now - now mod Minute) - (w - 1) * Minute
            else if unit = ''day'' then add_days cal (start_of_day cal now) (- (w - 1))
            else (now - now mod Hour) - (w - 1) * Hour)
         else
           (if unit = ''minute'' then now - w * Minute
            else if unit = ''day'' then add_days cal now (- w)
            else now - w * Hour))"

definition checkCancelRateLimit ::
  "calendar \<Rightarrow> cancel_config \<Rightarrow> int \<Rightarrow> ('x, 'z, pay_error + unit) prog" where
  "checkCancelRateLimit cal cfg userID =
     (if \<not> CancelRateLimitEnabled cfg \<or> CancelRateLimitMax cfg \<le> 0 then State_Monad.return (Inr ())
      else do {
        now \<leftarrow> time_now;
        r \<leftarrow> call (count_user_audits ''ORDER_CANCELLED'' (''user:'' @ Itoa userID)
               (cancelRateLimitWindowStart cal cfg now));
        State_Monad.return (case r of
          Inl _ \<Rightarrow> Inr ()
        | Inr count \<Rightarrow> if count \<ge> CancelRateLimitMax cfg then Inl (AppError ''CANCEL_RATE_LIMITED'')
                        else Inr ())})"

section \<open>The guarantee\<close>

lemma gw_obeys:
  "obeys (pay_guar b a) P (gw_QueryOrder ref) (\<lambda>_. P)"
  "obeys (pay_guar b a) P (gw_CancelPayment ref) (\<lambda>_. P)"
  by (auto simp: obeys_def gw_QueryOrder_def gw_CancelPayment_def rely_ok_def pay.refl)

lemma getOrderProvider_obeys:
  assumes P: "stable (pay_guar b a) P"
  shows "obeys (pay_guar b a) P (getOrderProvider env order) (\<lambda>_. P)"
proof -
  have fallback: "obeys (pay_guar b a) P (webhookRegistryFallbackAllowed key) (\<lambda>_. P)" for key
    unfolding webhookRegistryFallbackAllowed_def Let_def
    by (rule pay.obeys_rules query_obeys P | assumption | simp add: instances_where_def)+
  show ?thesis
    unfolding getOrderProvider_def Let_def
    by (rule pay.obeys_bind [OF getOrderProviderInstance_obeys [OF P]] pay.obeys_bind [OF fallback]
          pay.obeys_sum pay.obeys_option pay.obeys_if pay.obeys_return | assumption)+
qed

lemma confirm_reported_obeys:
  assumes P: "stable (pay_guar b a) P" and k: "\<And>d. P d \<Longrightarrow> pay_inv a d" and a: "pe_arith env = a"
  shows "obeys (pay_guar b a) P (confirm_reported env order prov ref resp) (\<lambda>_. P)"
proof -
  have set: "obeys (pay_guar b a) P
      (do { _ \<leftarrow> call (set_trade_no (o_id order) no); State_Monad.return () }) (\<lambda>_. P)" for no
    by (rule pay.obeys_bind [OF pay.obeys_keep [OF P guar_set_trade_no]] pay.obeys_return | assumption)+
  show ?thesis
    unfolding confirm_reported_def Let_def
    by (rule pay.obeys_bind [OF pay.obeys_unless(2) [OF set]]
          pay.obeys_bind [OF HandlePaymentNotification_obeys [OF P k a]] pay.obeys_return | assumption)+
qed

lemma checkPaid_obeys:
  assumes P: "stable (pay_guar b a) P" and k: "\<And>d. P d \<Longrightarrow> pay_inv a d" and a: "pe_arith env = a"
  shows "obeys (pay_guar b a) P (checkPaidWithOptions env cancel order) (\<lambda>_. P)"
proof -
  have again: "obeys (pay_guar b a) P (requeryPaidOrderOnce ref) (\<lambda>_. P)" for ref
    unfolding requeryPaidOrderOnce_def
    by (rule pay.obeys_if pay.obeys_return pay.obeys_bind [OF gw_obeys(1)] | assumption)+
  have usable: "obeys (pay_guar b a) P
      (if c then State_Monad.return x
       else do { _ \<leftarrow> writeAuditLog oid action op None; requeryPaidOrderOnce ref }) (\<lambda>_. P)"
    for c oid action op ref x
    by (rule pay.obeys_if pay.obeys_return pay.obeys_bind [OF writeAuditLog_obeys [OF P]] again | assumption)+
  note confirm = confirm_reported_obeys [OF P k a]
  show ?thesis
    unfolding checkPaidWithOptions_def Let_def
    by (rule pay.obeys_bind [OF getOrderProvider_obeys [OF P]] pay.obeys_bind [OF gw_obeys(1)]
          pay.obeys_bind [OF usable] pay.obeys_bind [OF confirm]
          pay.obeys_bind [OF pay.obeys_unless(2) [OF gw_obeys(2)]]
          pay.obeys_sum pay.obeys_option pay.obeys_if pay.obeys_return | assumption)+
qed

lemma cancelCore_obeys:
  assumes P: "stable (pay_guar b a) P" and k: "\<And>d. P d \<Longrightarrow> pay_inv a d" and a: "pe_arith env = a"
    and fs: "fs \<in> {OrderCancelled, OrderExpired}"
  shows "obeys (pay_guar b a) P (cancelCore env order fs op) (\<lambda>_. P)"
  unfolding cancelCore_def checkPaid_def
  by (rule pay.obeys_bind [OF pay.obeys_unless(2) [OF checkPaid_obeys [OF P k a]]]
        pay.obeys_bind [OF pay.obeys_keep [OF P guar_cancel_pending [OF fs]]]
        pay.obeys_bind [OF pay.obeys_unless(2) [OF writeAuditLog_obeys [OF P]]]
        pay.obeys_sum pay.obeys_if pay.obeys_return | assumption)+

lemma cancel_entry_obeys:
  assumes P: "stable (pay_guar b a) P" and k: "\<And>d. P d \<Longrightarrow> pay_inv a d" and a: "pe_arith env = a"
  shows "obeys (pay_guar b a) P (CancelOrder env oid uid) (\<lambda>_. P)"
    and "obeys (pay_guar b a) P (AdminCancelOrder env oid) (\<lambda>_. P)"
  unfolding CancelOrder_def AdminCancelOrder_def
  by (rule pay.obeys_bind [OF fetch_order_obeys [OF P]] pay.obeys_option pay.obeys_if pay.obeys_return
        obeys_weaken [OF cancelCore_obeys [OF P k a]] | assumption | (auto; fail))+

lemma expire_all_obeys:
  assumes P: "stable (pay_guar b a) P" and k: "\<And>d. P d \<Longrightarrow> pay_inv a d" and a: "pe_arith env = a"
  shows "obeys (pay_guar b a) P (expire_all env os n) (\<lambda>_. P)"
proof (induction os arbitrary: n)
  case (Cons order os)
  have "obeys (pay_guar b a) P (cancelCore env order OrderExpired ''system'') (\<lambda>_. P)"
    by (rule cancelCore_obeys [OF P k a]) auto
  then show ?case unfolding expire_all.simps by (rule pay.obeys_bind) (rule Cons.IH)
qed (auto intro: pay.obeys_return)

lemma ExpireTimedOutOrders_obeys:
  assumes P: "stable (pay_guar b a) P" and k: "\<And>d. P d \<Longrightarrow> pay_inv a d" and a: "pe_arith env = a"
  shows "obeys (pay_guar b a) P (ExpireTimedOutOrders env) (\<lambda>_. P)"
  unfolding ExpireTimedOutOrders_def
  by (rule pay.obeys_bind [OF time_now_obeys] pay.obeys_bind [OF query_obeys [OF P]]
        pay.obeys_bind [OF expire_all_obeys [OF P k a]] pay.obeys_sum pay.obeys_return
      | assumption | simp add: orders_where_def)+

lemma reconcile_all_obeys:
  assumes P: "stable (pay_guar b a) P" and k: "\<And>d. P d \<Longrightarrow> pay_inv a d" and a: "pe_arith env = a"
  shows "obeys (pay_guar b a) P (reconcile_all env os n) (\<lambda>_. P)"
proof (induction os arbitrary: n)
  case (Cons order os)
  show ?case unfolding reconcile_all.simps reconcilePaid_def
    by (rule pay.obeys_bind [OF checkPaid_obeys [OF P k a]] Cons.IH | assumption)+
qed (auto intro: pay.obeys_return)

lemma ReconcilePendingPaymentOrders_obeys:
  assumes P: "stable (pay_guar b a) P" and k: "\<And>d. P d \<Longrightarrow> pay_inv a d" and a: "pe_arith env = a"
  shows "obeys (pay_guar b a) P (ReconcilePendingPaymentOrders env) (\<lambda>_. P)"
  unfolding ReconcilePendingPaymentOrders_def
  by (rule pay.obeys_bind [OF time_now_obeys] pay.obeys_bind [OF query_obeys [OF P]]
        pay.obeys_bind [OF reconcile_all_obeys [OF P k a]] pay.obeys_sum pay.obeys_return
      | assumption | simp add: pending_to_reconcile_def)+

lemma VerifyOrderByOutTradeNo_obeys:
  assumes P: "stable (pay_guar b a) P" and k: "\<And>d. P d \<Longrightarrow> pay_inv a d" and a: "pe_arith env = a"
  shows "obeys (pay_guar b a) P (VerifyOrderByOutTradeNo env raw uid) (\<lambda>_. P)"
proof -
  have q: "obeys (pay_guar b a) P (call (orders_by_out_trade_no no)) (\<lambda>_. P)" for no
    by (rule query_obeys [OF P]) (simp add: orders_by_out_trade_no_def)
  have again: "obeys (pay_guar b a) P
      (do { again \<leftarrow> fetch_order oid;
            State_Monad.return (case again of None \<Rightarrow> Inl OtherError | Some o' \<Rightarrow> Inr o') }) (\<lambda>_. P)" for oid
    by (rule pay.obeys_bind [OF fetch_order_obeys [OF P]] pay.obeys_return | (auto; fail))+
  have rest: "obeys (pay_guar b a) P
      (do { paid \<leftarrow> reconcilePaid env order;
            if paid then do {
              again \<leftarrow> fetch_order (o_id order);
              State_Monad.return (case again of None \<Rightarrow> Inl OtherError | Some o' \<Rightarrow> Inr o')}
            else State_Monad.return (Inr order) }) (\<lambda>_. P)" for order
    unfolding reconcilePaid_def
    by (rule pay.obeys_bind [OF checkPaid_obeys [OF P k a]] pay.obeys_if again pay.obeys_return | assumption)+
  show ?thesis
    unfolding VerifyOrderByOutTradeNo_def
    by (rule pay.obeys_option pay.obeys_return pay.obeys_bind [OF q] | assumption
        | (auto intro!: rest pay.obeys_return pay.obeys_if split: sum.split list.split; fail))+
qed

end
