(* ===== verification/Payment_Refund.thy ===== *)
theory Payment_Refund
  imports Payment_Lifecycle
begin

text \<open>
  Refunds (\<open>service/payment_refund.go\<close>): the request of a user, the plan of an administrator, the
  deduction of what was granted, the call of the payment gateway and its outcomes, and the later
  confirmation of a refund the gateway left pending. Subscriptions are another component: \<open>sub_env\<close>
  has the operations of its service that refunds use, acting on the tables \<open>other\<close>.
\<close>

section \<open>Plans and results\<close>

datatype extend_error = WouldExpire | ExtendFailed

record 'x sub_env =
  active_subscription :: "int \<Rightarrow> int \<Rightarrow> 'x \<Rightarrow> int option"
  extend_subscription :: "int \<Rightarrow> int \<Rightarrow> int \<Rightarrow> 'x \<Rightarrow> extend_error + 'x"
  revoke_subscription :: "int \<Rightarrow> int \<Rightarrow> 'x \<Rightarrow> 'x option"

datatype deduction_type = DeductionNone | DeductionBalance | DeductionSubscription

record refund_plan =
  plan_order_id :: int
  plan_order :: payment_order
  RefundAmount :: rat
  GatewayAmount :: rat
  plan_reason :: string
  Force :: bool
  DeductBalance :: bool
  DeductionType :: deduction_type
  BalanceToDeduct :: rat
  SubDaysToDeduct :: int
  SubscriptionID :: int

record refund_result =
  Success :: bool
  RequireForce :: bool
  BalanceDeducted :: rat
  SubDaysDeducted :: int

definition refused :: "bool \<Rightarrow> refund_result" where
  "refused force = \<lparr>Success = False, RequireForce = force, BalanceDeducted = 0, SubDaysDeducted = 0\<rparr>"

definition refunded :: "refund_plan \<Rightarrow> refund_result" where
  "refunded p = \<lparr>Success = True, RequireForce = False, BalanceDeducted = BalanceToDeduct p,
                 SubDaysDeducted = SubDaysToDeduct p\<rparr>"

definition read_other :: "('x \<Rightarrow> 'a) \<Rightarrow> int \<Rightarrow> 'x pay_db \<Rightarrow> 'a \<times> 'x pay_db" where
  "read_other f now d = (f (other d), d)"

definition extend_statement ::
  "'x sub_env \<Rightarrow> int \<Rightarrow> int \<Rightarrow> int \<Rightarrow> 'x pay_db \<Rightarrow> (extend_error + unit) \<times> 'x pay_db" where
  "extend_statement se sub days now d =
     (case extend_subscription se sub days now (other d) of
        Inl e \<Rightarrow> (Inl e, d) | Inr x \<Rightarrow> (Inr (), d\<lparr>other := x\<rparr>))"

definition revoke_statement :: "'x sub_env \<Rightarrow> int \<Rightarrow> int \<Rightarrow> 'x pay_db \<Rightarrow> bool \<times> 'x pay_db" where
  "revoke_statement se sub now d =
     (case revoke_subscription se sub now (other d) of
        None \<Rightarrow> (False, d) | Some x \<Rightarrow> (True, d\<lparr>other := x\<rparr>))"

section \<open>The provider instance a refund is pinned to\<close>

definition getRefundOrderProviderInstance ::
  "payment_order \<Rightarrow> ('x, 'z, pay_error + provider_instance option) prog" where
  "getRefundOrderProviderInstance order =
     (case psOrderProviderSnapshot order of
        Some snapshot \<Rightarrow> resolveSnapshotOrderProviderInstance order snapshot
      | None \<Rightarrow>
          let instIDStr = TrimSpace (psStringValue (o_instance order)) in
          if instIDStr = [] then State_Monad.return (Inr None)
          else case ParseInt instIDStr of
            None \<Rightarrow> State_Monad.return (Inl OtherError)
          | Some instID \<Rightarrow> do {
              r \<leftarrow> call (get_instance instID);
              State_Monad.return (case r of
                Inr (Some inst) \<Rightarrow> Inr (Some inst) | _ \<Rightarrow> Inl OtherError)})"

definition getRefundProvider :: "'x pay_env \<Rightarrow> payment_order \<Rightarrow> ('x, 'z, pay_error + provider) prog" where
  "getRefundProvider env order = do {
     i \<leftarrow> getRefundOrderProviderInstance order;
     State_Monad.return (case i of
       Inr (Some inst) \<Rightarrow> (case make_provider env inst of Some p \<Rightarrow> Inr p | None \<Rightarrow> Inl OtherError)
     | _ \<Rightarrow> Inl OtherError)}"

section \<open>The user's request\<close>

definition validateRefundRequest :: "int \<Rightarrow> int \<Rightarrow> ('x, 'z, pay_error + payment_order) prog" where
  "validateRefundRequest oid uid = do {
     r \<leftarrow> fetch_order oid;
     case r of
       None \<Rightarrow> State_Monad.return (Inl (AppError ''NOT_FOUND''))
     | Some order \<Rightarrow>
         if o_user order \<noteq> uid then State_Monad.return (Inl (AppError ''FORBIDDEN''))
         else if o_type order \<noteq> OrderTypeBalance
         then State_Monad.return (Inl (AppError ''INVALID_ORDER_TYPE''))
         else if o_status order \<noteq> OrderCompleted
         then State_Monad.return (Inl (AppError ''INVALID_STATUS''))
         else do {
           i \<leftarrow> getRefundOrderProviderInstance order;
           State_Monad.return (case i of
             Inr (Some inst) \<Rightarrow>
               if AllowUserRefund inst then Inr order else Inl (AppError ''USER_REFUND_DISABLED'')
           | _ \<Rightarrow> Inl (AppError ''USER_REFUND_DISABLED''))}}"

definition RequestRefund :: "int \<Rightarrow> int \<Rightarrow> string \<Rightarrow> ('x, 'z, pay_error + unit) prog" where
  "RequestRefund oid uid reason = do {
     v \<leftarrow> validateRefundRequest oid uid;
     case v of
       Inl e \<Rightarrow> State_Monad.return (Inl e)
     | Inr order \<Rightarrow> do {
         u \<leftarrow> call (get_user (o_user order));
         case u of
           Inr (Some user) \<Rightarrow>
             if balance user < o_amount order
             then State_Monad.return (Inl (AppError ''BALANCE_NOT_ENOUGH''))
             else do {
               now \<leftarrow> time_now;
               r \<leftarrow> call (request_refund oid uid now (TrimSpace reason) (Itoa uid) (o_amount order));
               case r of
                 Inl _ \<Rightarrow> State_Monad.return (Inl OtherError)
               | Inr c \<Rightarrow>
                   if c = 0 then State_Monad.return (Inl (AppError ''CONFLICT''))
                   else do {
                     _ \<leftarrow> writeAuditLog oid ''REFUND_REQUESTED'' (''user:'' @ Itoa uid) None;
                     State_Monad.return (Inr ())}}
         | _ \<Rightarrow> State_Monad.return (Inl OtherError)}}"

section \<open>Planning\<close>

text \<open>\<open>Some\<close> is the early result that asks for force; \<open>None\<close> comes with the plan.\<close>

definition prepDeduct ::
  "'x sub_env \<Rightarrow> payment_order \<Rightarrow> refund_plan \<Rightarrow> bool \<Rightarrow> ('x, 'z, refund_result option \<times> refund_plan) prog" where
  "prepDeduct se order p force =
     (if o_type order = OrderTypeSubscription then
        (let p = p\<lparr>DeductionType := DeductionSubscription\<rparr> in
         case (o_group order, o_days order) of
           (Some gid, Some days) \<Rightarrow> do {
             let p = p\<lparr>SubDaysToDeduct := days\<rparr>;
             r \<leftarrow> call (read_other (active_subscription se (o_user order) gid));
             State_Monad.return (case r of
               Inr (Some sub) \<Rightarrow> (None, p\<lparr>SubscriptionID := sub\<rparr>)
             | _ \<Rightarrow> if \<not> force then (Some (refused True), p) else (None, p))}
         | _ \<Rightarrow> State_Monad.return (None, p))
      else do {
        u \<leftarrow> call (get_user (o_user order));
        State_Monad.return (case u of
          Inr (Some user) \<Rightarrow>
            let p = p\<lparr>DeductionType := DeductionBalance\<rparr> in
            if balance user < RefundAmount p \<and> \<not> force then (Some (refused True), p)
            else (None, p\<lparr>BalanceToDeduct := max 0 (min (RefundAmount p) (balance user))\<rparr>)
        | _ \<Rightarrow> if \<not> force then (Some (refused True), p) else (None, p))})"

definition refund_reason :: "payment_order \<Rightarrow> string \<Rightarrow> string" where
  "refund_reason order reason =
     (let r0 = TrimSpace reason;
          r1 = (if r0 = [] then (case o_refund_request_reason order of Some r \<Rightarrow> r | None \<Rightarrow> r0) else r0)
      in if r1 = [] then ''refund order:'' @ Itoa (o_id order) else r1)"

definition PrepareRefund ::
  "'x pay_env \<Rightarrow> 'x sub_env \<Rightarrow> int \<Rightarrow> float64 \<Rightarrow> string \<Rightarrow> bool \<Rightarrow> bool
   \<Rightarrow> ('x, 'z, pay_error + (refund_result + refund_plan)) prog" where
  "PrepareRefund env se oid amt reason force deduct = do {
     r \<leftarrow> fetch_order oid;
     case r of
       None \<Rightarrow> State_Monad.return (Inl (AppError ''NOT_FOUND''))
     | Some order \<Rightarrow>
         if \<not> refundable (o_status order) then State_Monad.return (Inl (AppError ''INVALID_STATUS''))
         else do {
           i \<leftarrow> getRefundOrderProviderInstance order;
           case i of
             Inl _ \<Rightarrow> State_Monad.return (Inl (AppError ''PROVIDER_LOOKUP_FAILED''))
           | Inr None \<Rightarrow> State_Monad.return (Inl (AppError ''REFUND_DISABLED''))
           | Inr (Some inst) \<Rightarrow>
               if \<not> RefundEnabled inst then State_Monad.return (Inl (AppError ''REFUND_DISABLED''))
               else case amt of
                 Fin v \<Rightarrow>
                   let amount = (if v \<le> 0 then o_amount order else v);
                       currency = PaymentOrderCurrency order
                   in if fsub (pe_arith env) amount (o_amount order) > paymentAmountToleranceForCurrency currency
                      then State_Monad.return (Inl (AppError ''REFUND_AMOUNT_EXCEEDED''))
                      else
                      let p = \<lparr>plan_order_id = oid, plan_order = order, RefundAmount = amount,
                               GatewayAmount = calculateGatewayRefundAmount (pe_arith env) (o_amount order)
                                                 (o_pay_amount order) amount currency,
                               plan_reason = refund_reason order reason, Force = force,
                               DeductBalance = deduct, DeductionType = DeductionNone,
                               BalanceToDeduct = 0, SubDaysToDeduct = 0, SubscriptionID = 0\<rparr>
                      in if deduct then do {
                           e \<leftarrow> prepDeduct se order p force;
                           State_Monad.return (case e of
                             (Some early, _) \<Rightarrow> Inr (Inl early) | (None, p') \<Rightarrow> Inr (Inr p'))}
                         else State_Monad.return (Inr (Inr p))
               | _ \<Rightarrow> State_Monad.return (Inl (AppError ''INVALID_AMOUNT''))}}"

section \<open>Outcomes\<close>

definition restoreStatus :: "refund_plan \<Rightarrow> ('x, 'z, unit) prog" where
  "restoreStatus p = do {
     _ \<leftarrow> call (set_status (plan_order_id p)
            (if o_status (plan_order p) = OrderRefundRequested then OrderRefundRequested else OrderCompleted));
     State_Monad.return ()}"

text \<open>An \<open>UpdateOneID\<close> that matched no row is an error.\<close>

definition update_one :: "(int \<Rightarrow> 'x pay_db \<Rightarrow> nat \<times> 'x pay_db) \<Rightarrow> ('x, 'z, bool) prog" where
  "update_one stmt = do {
     r \<leftarrow> call stmt;
     State_Monad.return (case r of Inl _ \<Rightarrow> False | Inr n \<Rightarrow> n > 0)}"

definition rollback_failed :: "refund_plan \<Rightarrow> ('x, 'z, bool) prog" where
  "rollback_failed p = do {
     _ \<leftarrow> writeAuditLog (plan_order_id p) ''REFUND_ROLLBACK_FAILED'' ''admin'' None;
     State_Monad.return False}"

definition RollbackRefund :: "'x sub_env \<Rightarrow> refund_plan \<Rightarrow> ('x, 'z, bool) prog" where
  "RollbackRefund se p = do {
     b \<leftarrow> (if DeductionType p = DeductionBalance \<and> BalanceToDeduct p > 0
          then do {
            r \<leftarrow> call (update_balance (o_user (plan_order p)) (BalanceToDeduct p));
            State_Monad.return (r = Inr True)}
          else State_Monad.return True);
     if \<not> b then rollback_failed p
     else do {
       s \<leftarrow> (if DeductionType p = DeductionSubscription \<and> SubDaysToDeduct p > 0 \<and> SubscriptionID p > 0
            then do {
              r \<leftarrow> call (extend_statement se (SubscriptionID p) (SubDaysToDeduct p));
              State_Monad.return (r = Inr (Inr ()))}
            else State_Monad.return True);
       if \<not> s then rollback_failed p else State_Monad.return True}}"

definition handleGwFail :: "'x sub_env \<Rightarrow> refund_plan \<Rightarrow> ('x, 'z, pay_error + refund_result) prog" where
  "handleGwFail se p = do {
     rolled \<leftarrow> RollbackRefund se p;
     if rolled then do {
       _ \<leftarrow> restoreStatus p;
       _ \<leftarrow> writeAuditLog (plan_order_id p) ''REFUND_GATEWAY_FAILED'' ''admin'' None;
       State_Monad.return (Inr (refused False))}
     else do {
       now \<leftarrow> time_now;
       _ \<leftarrow> update_one (set_refund_failed (plan_order_id p) now);
       _ \<leftarrow> writeAuditLog (plan_order_id p) ''REFUND_FAILED'' ''admin'' None;
       State_Monad.return (Inl (AppError ''REFUND_FAILED''))}}"

definition refund_status :: "refund_plan \<Rightarrow> order_status" where
  "refund_status p =
     (if RefundAmount p < o_amount (plan_order p) then OrderPartiallyRefunded else OrderRefunded)"

definition markRefundOk :: "refund_plan \<Rightarrow> ('x, 'z, pay_error + refund_result) prog" where
  "markRefundOk p = do {
     now \<leftarrow> time_now;
     ok \<leftarrow> update_one (set_refunded (plan_order_id p) (refund_status p) (RefundAmount p) (plan_reason p)
                          now (Force p));
     if \<not> ok then State_Monad.return (Inl OtherError)
     else do {
       _ \<leftarrow> writeAuditLog (plan_order_id p) ''REFUND_SUCCESS'' ''admin'' None;
       State_Monad.return (Inr (refunded p))}}"

definition markRefundPending :: "'x sub_env \<Rightarrow> refund_plan \<Rightarrow> string \<Rightarrow> ('x, 'z, pay_error + refund_result) prog" where
  "markRefundPending se p refundID = do {
     rollbackOK \<leftarrow> RollbackRefund se p;
     ok \<leftarrow> update_one (set_refund_pending (plan_order_id p) (RefundAmount p) (plan_reason p) (Force p));
     if \<not> ok then State_Monad.return (Inl OtherError)
     else do {
       _ \<leftarrow> writeAuditLog (plan_order_id p) ''REFUND_PENDING'' ''admin'' (Some (TrimSpace refundID, rollbackOK));
       State_Monad.return (Inr (refused False))}}"

text \<open>The answer of the gateway: a status and an identifier, or nothing.\<close>

definition validateRefundProviderResponse :: "(string \<times> string) option \<Rightarrow> bool" where
  "validateRefundProviderResponse resp =
     (case resp of None \<Rightarrow> False
      | Some (status, _) \<Rightarrow> TrimSpace status \<in> {''success'', ''refunded'', ''pending''})"

definition finishRefund ::
  "'x sub_env \<Rightarrow> refund_plan \<Rightarrow> string \<times> string \<Rightarrow> ('x, 'z, pay_error + refund_result) prog" where
  "finishRefund se p resp =
     (if \<not> validateRefundProviderResponse (Some resp) then handleGwFail se p
      else if TrimSpace (fst resp) \<in> {''success'', ''refunded''} then markRefundOk p
      else if TrimSpace (fst resp) = ''pending'' then markRefundPending se p (snd resp)
      else handleGwFail se p)"

section \<open>The gateway\<close>

definition gw_Refund :: "string \<Rightarrow> string \<Rightarrow> rat \<Rightarrow> string \<Rightarrow> ('x, refund_reply) gw_prog" where
  "gw_Refund tradeNo outTradeNo amount reason = State (\<lambda>w.
     (case refund_replies w of [] \<Rightarrow> RefundAnswer None [] True | r # _ \<Rightarrow> r,
      w\<lparr>refund_replies := tl (refund_replies w),
        gw_calls := gw_calls w @ [CallRefund tradeNo outTradeNo amount reason]\<rparr>))"

definition gw_QueryRefund ::
  "string \<Rightarrow> string \<Rightarrow> string \<Rightarrow> rat \<Rightarrow> ('x, unit + (string \<times> string)) gw_prog" where
  "gw_QueryRefund tradeNo outTradeNo refundID amount = State (\<lambda>w.
     (case refund_query_replies w of [] \<Rightarrow> Inl () | r # _ \<Rightarrow> r,
      w\<lparr>refund_query_replies := tl (refund_query_replies w),
        gw_calls := gw_calls w @ [CallQueryRefund tradeNo outTradeNo refundID amount]\<rparr>))"

definition gwRefund :: "'x pay_env \<Rightarrow> refund_plan \<Rightarrow> ('x, pay_error + string \<times> string) gw_prog" where
  "gwRefund env p =
     (let order = plan_order p in
      if o_trade_no order = [] then do {
        _ \<leftarrow> writeAuditLog (o_id order) ''REFUND_NO_TRADE_NO'' ''admin'' None;
        State_Monad.return (Inr (''success'', []))}
      else do {
        pr \<leftarrow> getRefundProvider env order;
        case pr of
          Inl e \<Rightarrow> State_Monad.return (Inl e)
        | Inr prov \<Rightarrow>
            if validateProviderSnapshotMetadata order (prov_key prov) (prov_identity prov) \<noteq> None
            then do {
              _ \<leftarrow> writeAuditLog (o_id order) ''REFUND_PROVIDER_METADATA_MISMATCH'' ''admin'' None;
              State_Monad.return (Inl OtherError)}
            else do {
              r \<leftarrow> gw_Refund (o_trade_no order) (o_out_trade_no order) (GatewayAmount p) (plan_reason p);
              State_Monad.return (case r of
                RefundAnswer (Some status) i True \<Rightarrow>
                  if TrimSpace status = ''pending'' then Inr (status, i) else Inl OtherError
              | RefundAnswer None _ _ \<Rightarrow> Inl OtherError
              | RefundAnswer (Some status) i False \<Rightarrow>
                  if validateRefundProviderResponse (Some (status, i)) then Inr (status, i)
                  else Inl OtherError)}})"

section \<open>Executing a refund\<close>

definition deduct_balance :: "refund_plan \<Rightarrow> ('x, 'z, pay_error + refund_plan) prog" where
  "deduct_balance p =
     (if DeductionType p = DeductionBalance \<and> BalanceToDeduct p > 0 then do {
        failedBefore \<leftarrow> hasAuditLog (plan_order_id p) ''REFUND_ROLLBACK_FAILED'';
        if \<not> failedBefore then do {
          r \<leftarrow> call (deduct_available (o_user (plan_order p)) (BalanceToDeduct p));
          case r of
            Inr (Some deducted) \<Rightarrow> State_Monad.return (Inr (p\<lparr>BalanceToDeduct := deducted\<rparr>))
          | _ \<Rightarrow> do { _ \<leftarrow> restoreStatus p; State_Monad.return (Inl OtherError) }}
        else State_Monad.return (Inr (p\<lparr>BalanceToDeduct := 0\<rparr>))}
      else State_Monad.return (Inr p))"

definition deduct_days :: "'x sub_env \<Rightarrow> refund_plan \<Rightarrow> ('x, 'z, pay_error + refund_plan) prog" where
  "deduct_days se p =
     (if DeductionType p = DeductionSubscription \<and> SubDaysToDeduct p > 0 \<and> SubscriptionID p > 0 then do {
        failedBefore \<leftarrow> hasAuditLog (plan_order_id p) ''REFUND_ROLLBACK_FAILED'';
        if \<not> failedBefore then do {
          r \<leftarrow> call (extend_statement se (SubscriptionID p) (- SubDaysToDeduct p));
          case r of
            Inr (Inr _) \<Rightarrow> State_Monad.return (Inr p)
          | Inr (Inl WouldExpire) \<Rightarrow> do {
              v \<leftarrow> call (revoke_statement se (SubscriptionID p));
              if v = Inr True then State_Monad.return (Inr p)
              else do { _ \<leftarrow> restoreStatus p; State_Monad.return (Inl OtherError) }}
          | _ \<Rightarrow> do { _ \<leftarrow> restoreStatus p; State_Monad.return (Inl OtherError) }}
        else State_Monad.return (Inr (p\<lparr>SubDaysToDeduct := 0\<rparr>))}
      else State_Monad.return (Inr p))"

definition ExecuteRefund ::
  "'x pay_env \<Rightarrow> 'x sub_env \<Rightarrow> refund_plan \<Rightarrow> ('x, pay_error + refund_result) gw_prog" where
  "ExecuteRefund env se p = do {
     c \<leftarrow> call (lock_refund (plan_order_id p));
     case c of
       Inl _ \<Rightarrow> State_Monad.return (Inl OtherError)
     | Inr n \<Rightarrow>
         if n = 0 then State_Monad.return (Inl (AppError ''CONFLICT''))
         else do {
           b \<leftarrow> deduct_balance p;
           case b of
             Inl e \<Rightarrow> State_Monad.return (Inl e)
           | Inr p \<Rightarrow> do {
               s \<leftarrow> deduct_days se p;
               case s of
                 Inl e \<Rightarrow> State_Monad.return (Inl e)
               | Inr p \<Rightarrow> do {
                   g \<leftarrow> gwRefund env p;
                   case g of
                     Inl _ \<Rightarrow> handleGwFail se p
                   | Inr resp \<Rightarrow> finishRefund se p resp}}}}"

section \<open>Confirming a pending refund\<close>

definition latestRefundPendingDetail :: "int \<Rightarrow> ('x, 'z, string \<times> bool) prog" where
  "latestRefundPendingDetail oid = do {
     r \<leftarrow> call (latest_audit oid ''REFUND_PENDING'');
     State_Monad.return (case r of
       Inr (Some entry) \<Rightarrow>
         (case au_detail entry of Some (i, ok) \<Rightarrow> (TrimSpace i, ok) | None \<Rightarrow> ([], True))
     | _ \<Rightarrow> ([], True))}"

definition refundFinalizePlan :: "arith \<Rightarrow> payment_order \<Rightarrow> refund_plan" where
  "refundFinalizePlan a order =
     (let reason = TrimSpace (psStringValue (o_refund_reason order)) in
      \<lparr>plan_order_id = o_id order, plan_order = order, RefundAmount = o_refund_amount order,
       GatewayAmount = calculateGatewayRefundAmount a (o_amount order) (o_pay_amount order)
                         (o_refund_amount order) (PaymentOrderCurrency order),
       plan_reason = (if reason = [] then ''refund order:'' @ Itoa (o_id order) else reason),
       Force = o_force_refund order, DeductBalance = True, DeductionType = DeductionBalance,
       BalanceToDeduct = (if o_type order = OrderTypeBalance then o_refund_amount order else 0),
       SubDaysToDeduct = 0, SubscriptionID = 0\<rparr>)"

definition finalizeRefundFailed :: "payment_order \<Rightarrow> ('x, 'z, pay_error + refund_result) prog" where
  "finalizeRefundFailed order = do {
     now \<leftarrow> time_now;
     _ \<leftarrow> update_one (set_refund_failed (o_id order) now);
     _ \<leftarrow> writeAuditLog (o_id order) ''REFUND_FAILED'' ''admin'' None;
     State_Monad.return (Inr (refused False))}"

text \<open>\<open>applyRefundFinalDeduction\<close> and \<open>markRefundOkTx\<close>, inside the transaction.\<close>

definition final_deduction ::
  "'x sub_env \<Rightarrow> refund_plan \<Rightarrow> int \<Rightarrow> 'x pay_db \<Rightarrow> (pay_error + refund_plan) \<times> 'x pay_db" where
  "final_deduction se p now d =
     (case (if DeductionType p = DeductionBalance \<and> BalanceToDeduct p > 0 then
              (case deduct_available (o_user (plan_order p)) (BalanceToDeduct p) now d of
                 (None, d1) \<Rightarrow> (Inl OtherError, d1)
               | (Some v, d1) \<Rightarrow> (Inr (p\<lparr>BalanceToDeduct := v\<rparr>), d1))
            else (Inr p, d)) of
        (Inl e, d1) \<Rightarrow> (Inl e, d1)
      | (Inr p, d1) \<Rightarrow>
          if DeductionType p = DeductionSubscription \<and> SubDaysToDeduct p > 0 \<and> SubscriptionID p > 0 then
            (case extend_statement se (SubscriptionID p) (- SubDaysToDeduct p) now d1 of
               (Inr _, d2) \<Rightarrow> (Inr p, d2)
             | (Inl WouldExpire, d2) \<Rightarrow>
                 (case revoke_statement se (SubscriptionID p) now d2 of
                    (True, d3) \<Rightarrow> (Inr p, d3) | (False, d3) \<Rightarrow> (Inl OtherError, d3))
             | (Inl ExtendFailed, d2) \<Rightarrow> (Inl OtherError, d2))
          else (Inr p, d1))"

definition finalize_body ::
  "'x sub_env \<Rightarrow> refund_plan \<Rightarrow> int \<Rightarrow> 'x pay_db \<Rightarrow> (pay_error + refund_result) \<times> 'x pay_db" where
  "finalize_body se p now d =
     (case claim_pending_refund (plan_order_id p) now d of
        (n, d1) \<Rightarrow>
          if n = 0 then (Inl (AppError ''CONFLICT''), d1)
          else case final_deduction se p now d1 of
            (Inl e, d2) \<Rightarrow> (Inl e, d2)
          | (Inr p, d2) \<Rightarrow>
              (case set_refunded (plan_order_id p) (refund_status p) (RefundAmount p) (plan_reason p) now
                      (Force p) now d2 of
                 (k, d3) \<Rightarrow>
                   if k = 0 then (Inl OtherError, d3)
                   else case insert_audit (plan_order_id p) ''REFUND_SUCCESS'' ''admin'' None now d3 of
                     (False, d4) \<Rightarrow> (Inl OtherError, d4)
                   | (True, d4) \<Rightarrow> (Inr (refunded p), d4)))"

definition finalizePendingRefundSuccess ::
  "'x sub_env \<Rightarrow> refund_plan \<Rightarrow> ('x, 'z, pay_error + refund_result) prog" where
  "finalizePendingRefundSuccess se p = do {
     r \<leftarrow> transaction (finalize_body se p);
     State_Monad.return (case r of
       Inl None \<Rightarrow> Inl OtherError | Inl (Some e) \<Rightarrow> Inl e | Inr res \<Rightarrow> Inr res)}"

definition QueryAndFinalizeRefund ::
  "'x pay_env \<Rightarrow> 'x sub_env \<Rightarrow> int \<Rightarrow> ('x, pay_error + refund_result) gw_prog" where
  "QueryAndFinalizeRefund env se oid = do {
     r \<leftarrow> fetch_order oid;
     case r of
       None \<Rightarrow> State_Monad.return (Inl (AppError ''NOT_FOUND''))
     | Some order \<Rightarrow>
         if o_status order \<noteq> OrderRefundPending then State_Monad.return (Inl (AppError ''INVALID_STATUS''))
         else do {
           pr \<leftarrow> getRefundProvider env order;
           case pr of
             Inl e \<Rightarrow> State_Monad.return (Inl e)
           | Inr prov \<Rightarrow>
               if \<not> prov_query_refund prov
               then State_Monad.return (Inl (AppError ''REFUND_QUERY_UNSUPPORTED''))
               else do {
                 detail \<leftarrow> latestRefundPendingDetail oid;
                 q \<leftarrow> gw_QueryRefund (o_trade_no order) (o_out_trade_no order) (fst detail) (o_refund_amount order);
                 case q of
                   Inl _ \<Rightarrow> State_Monad.return (Inl OtherError)
                 | Inr resp \<Rightarrow>
                     if \<not> validateRefundProviderResponse (Some resp) then finalizeRefundFailed order
                     else do {
                       let plan = refundFinalizePlan (pe_arith env) order;
                       e \<leftarrow> (if \<not> snd detail
                            then State_Monad.return (None, plan\<lparr>BalanceToDeduct := 0, SubDaysToDeduct := 0\<rparr>)
                            else if o_type order = OrderTypeSubscription then prepDeduct se order plan True
                            else State_Monad.return (None, plan));
                       case e of
                         (Some early, _) \<Rightarrow> State_Monad.return (Inr early)
                       | (None, plan) \<Rightarrow>
                           if TrimSpace (fst resp) \<in> {''success'', ''refunded''}
                           then finalizePendingRefundSuccess se plan
                           else if TrimSpace (fst resp) = ''pending'' then do {
                             _ \<leftarrow> writeAuditLog oid ''REFUND_QUERY_PENDING'' ''admin'' None;
                             State_Monad.return (Inr (refused False))}
                           else finalizeRefundFailed order}}}}"

end
