(* ===== verification/Payment_Refund_Safety.thy ===== *)
theory Payment_Refund_Safety
  imports Payment_Refund
begin

text \<open>
  The refund side respects the contract of \<open>Payment_Contract\<close> as well, except that its rollback credits
  a user without a redeemed code: the guarantee holds with the flag \<open>b\<close> off. Refunds write the status
  of an order without looking at it; what makes this safe for the invariant is that the order counted
  as fulfilled before (\<open>settled_order\<close>), which no other request can take back.
\<close>

definition settled_order :: "int \<Rightarrow> 'x pay_db \<Rightarrow> bool" where
  "settled_order oid d \<longleftrightarrow> (\<exists>order \<in> set (orders d). o_id order = oid \<and> phase (o_status order) = 2)"

lemma phase_le_2: "phase s \<le> 2"
  by (simp add: phase_def)

lemma settled_stable [intro]: "stable (pay_guar b a) (settled_order oid)"
  unfolding stable_def
proof (intro allI impI)
  fix d d' :: "'x pay_db"
  assume "settled_order oid d" "pay_guar b a d d'"
  then obtain o1 o2 where "o_id o1 = oid" "phase (o_status o1) = 2" "o2 \<in> set (orders d')"
    "terms o2 = terms o1" "later_status (o_status o1) (o_status o2)"
    unfolding settled_order_def pay_guar_def keeps_orders_def by blast
  then show "settled_order oid d'"
    using phase_le_2 [of "o_status o2"] by (force simp: settled_order_def terms_def later_status_def)
qed

lemma settled_phase:
  "pay_inv a d \<Longrightarrow> settled_order oid d \<Longrightarrow> order \<in> set (orders d) \<Longrightarrow> o_id order = oid \<Longrightarrow> phase (o_status order) = 2"
  unfolding settled_order_def pay_inv_def distinct_map by (metis inj_onD)

section \<open>Statements\<close>

lemma guar_set_status:
  assumes "settled_order oid d" "phase s = 2" "s \<noteq> OrderPending"
  shows "pay_guar b a d (snd (set_status oid s now d))"
  unfolding set_status_def
  by (rule guar_refund_update) (use assms settled_phase in \<open>auto simp: terms_def\<close>)

lemma guar_set_refund_failed:
  "settled_order oid d \<Longrightarrow> pay_guar b a d (snd (set_refund_failed oid t now d))"
  unfolding set_refund_failed_def
  by (rule guar_refund_update) (auto simp: terms_def phase_def dest: settled_phase)

lemma guar_set_refunded:
  "settled_order oid d \<Longrightarrow> phase s = 2 \<Longrightarrow> pay_guar b a d (snd (set_refunded oid s amount reason t force now d))"
  unfolding set_refunded_def
  by (rule guar_refund_update) (auto simp: terms_def phase_def dest: settled_phase split: if_splits)

lemma guar_set_refund_pending:
  "settled_order oid d \<Longrightarrow> pay_guar b a d (snd (set_refund_pending oid amount reason force now d))"
  unfolding set_refund_pending_def
  by (rule guar_refund_update) (auto simp: terms_def phase_def dest: settled_phase)

lemma guar_lock_refund: "pay_guar b a d (snd (lock_refund oid now d))"
  unfolding lock_refund_def
  by (rule guar_refund_update) (auto simp: terms_def phase_def refundable_def)

lemma guar_claim_pending_refund: "pay_guar b a d (snd (claim_pending_refund oid now d))"
  unfolding claim_pending_refund_def
  by (rule guar_refund_update) (auto simp: terms_def phase_def)

lemma guar_request_refund: "pay_guar b a d (snd (request_refund oid uid t reason by amount now d))"
  unfolding request_refund_def
  by (rule guar_refund_update) (auto simp: terms_def phase_def)

lemma updated_settled:
  assumes "fst (update_orders (\<lambda>o'. o_id o' = oid \<and> q o') f now d) > 0"
    and "\<And>o'. o_id (f o') = o_id o' \<and> phase (o_status (f o')) = 2"
  shows "settled_order oid (snd (update_orders (\<lambda>o'. o_id o' = oid \<and> q o') f now d))"
proof -
  let ?g = "\<lambda>o'. if o_id o' = oid \<and> q o' then f (o'\<lparr>o_updated_at := now\<rparr>) else o'"
  from assms(1) obtain o1 where "o1 \<in> set (orders d)" "o_id o1 = oid \<and> q o1"
    by (auto simp: update_orders_def update_where_def filter_empty_conv)
  then have "?g o1 \<in> set (orders (snd (update_orders (\<lambda>o'. o_id o' = oid \<and> q o') f now d)))"
    "o_id (?g o1) = oid \<and> phase (o_status (?g o1)) = 2"
    using assms(2) by (auto simp: update_orders_def update_where_def)
  then show ?thesis unfolding settled_order_def by blast
qed

lemma guar_users:
  assumes "orders d' = orders d" "codes d' = codes d" "audits d' = audits d" "next_code_id d' = next_code_id d"
    and "\<And>uid u. users d' uid = Some u \<Longrightarrow> (\<forall>v. users d uid = Some v \<longrightarrow> scaled (total_recharged v)) \<Longrightarrow>
           scaled (total_recharged u)"
    and "b \<Longrightarrow> \<forall>uid. map_option total_recharged (users d' uid) = map_option total_recharged (users d uid)"
  shows "pay_guar b a d d'"
proof -
  have m: "credits_match d d'" if b
    unfolding credits_match_def
  proof (intro allI impI)
    fix uid u
    assume "users d uid = Some u"
    with assms(6) [OF that] have "map_option total_recharged (users d' uid) = Some (total_recharged u)" by simp
    then show "\<exists>u'. users d' uid = Some u' \<and>
        total_recharged u' - total_recharged u = redeemed_total uid d' - redeemed_total uid d"
      by (auto simp: redeemed_total_def assms(2))
  qed
  have f: "fulfilled a order d' = fulfilled a order d" for order
    by (rule fulfilled_cong) (simp_all add: assms)
  have "pay_inv a d'" if "pay_inv a d"
    using that assms(5) by (auto simp: pay_inv_def f assms(1,2,4))
  with m show ?thesis
    by (auto simp: pay_guar_def keeps_orders_def keeps_codes_def audit_keys_def assms(1-3))
qed

lemma guar_update_balance: "pay_guar False a d (snd (update_balance uid amount now d))"
  by (rule guar_users)
    (auto simp: update_balance_def column_scaled split: option.splits if_splits)

lemma guar_deduct_available: "pay_guar b a d (snd (deduct_available uid amount now d))"
  by (rule guar_users)
    (auto simp: deduct_available_def Let_def split: option.splits if_splits)

lemma guar_extend: "pay_guar b a d (snd (extend_statement se sub days now d))"
  by (rule guar_audits_only) (auto simp: extend_statement_def audit_keys_def split: sum.splits)

lemma guar_revoke: "pay_guar b a d (snd (revoke_statement se sub now d))"
  by (rule guar_audits_only) (auto simp: revoke_statement_def audit_keys_def split: option.splits)

section \<open>Programs\<close>

lemma getRefundOrderProviderInstance_obeys:
  assumes P: "stable (pay_guar b a) P"
  shows "obeys (pay_guar b a) P (getRefundOrderProviderInstance order) (\<lambda>_. P)"
proof -
  have snap: "obeys (pay_guar b a) P (resolveSnapshotOrderProviderInstance order s) (\<lambda>_. P)" for s
    unfolding resolveSnapshotOrderProviderInstance_def Let_def
    by (rule pay.obeys_rules query_obeys P | assumption | simp add: get_instance_def)+
  show ?thesis
    unfolding getRefundOrderProviderInstance_def Let_def
    by (rule pay.obeys_rules query_obeys P snap | assumption | simp add: get_instance_def)+
qed

lemma getRefundProvider_obeys:
  assumes P: "stable (pay_guar b a) P"
  shows "obeys (pay_guar b a) P (getRefundProvider env order) (\<lambda>_. P)"
  unfolding getRefundProvider_def
  by (rule pay.obeys_bind [OF getRefundOrderProviderInstance_obeys [OF P]] pay.obeys_return | assumption)+

lemma get_user_obeys:
  "stable (pay_guar b a) P \<Longrightarrow> obeys (pay_guar b a) P (call (get_user u)) (\<lambda>_. P)"
  by (rule query_obeys) (simp_all add: get_user_def)

lemma read_other_obeys:
  "stable (pay_guar b a) P \<Longrightarrow> obeys (pay_guar b a) P (call (read_other f)) (\<lambda>_. P)"
  by (rule query_obeys) (simp_all add: read_other_def)

lemma RequestRefund_obeys:
  assumes P: "stable (pay_guar b a) P"
  shows "obeys (pay_guar b a) P (RequestRefund oid uid reason) (\<lambda>_. P)"
proof -
  note read_user = get_user_obeys [OF P]
  have inst: "obeys (pay_guar b a) P
      (do { i \<leftarrow> getRefundOrderProviderInstance order; State_Monad.return (f i) }) (\<lambda>_. P)"
    for order and f :: "pay_error + provider_instance option \<Rightarrow> pay_error + payment_order"
    by (rule pay.obeys_bind [OF getRefundOrderProviderInstance_obeys [OF P]] pay.obeys_return | assumption)+
  have valid: "obeys (pay_guar b a) P (validateRefundRequest oid uid) (\<lambda>_. P)"
    unfolding validateRefundRequest_def
    by (rule pay.obeys_bind [OF fetch_order_obeys [OF P]] pay.obeys_option pay.obeys_if pay.obeys_return
          obeys_weaken [OF inst] | (auto; fail))+
  show ?thesis
    unfolding RequestRefund_def
    by (rule pay.obeys_bind [OF valid] pay.obeys_bind [OF read_user] pay.obeys_bind [OF time_now_obeys]
          pay.obeys_bind [OF pay.obeys_keep [OF P guar_request_refund]]
          pay.obeys_bind [OF writeAuditLog_obeys [OF P]] pay.obeys_sum pay.obeys_option pay.obeys_if
          pay.obeys_return | assumption)+
qed

lemma prepDeduct_obeys:
  assumes P: "stable (pay_guar b a) P"
  shows "obeys (pay_guar b a) P (prepDeduct se order p force) (\<lambda>_. P)"
  unfolding prepDeduct_def Let_def
  by (rule pay.obeys_if pay.obeys_prod pay.obeys_option pay.obeys_bind [OF get_user_obeys [OF P]]
        pay.obeys_bind [OF read_other_obeys [OF P]] pay.obeys_return | assumption)+

lemma PrepareRefund_obeys:
  assumes P: "stable (pay_guar b a) P"
  shows "obeys (pay_guar b a) P (PrepareRefund env se oid amt reason force deduct) (\<lambda>_. P)"
proof -
  have plan: "obeys (pay_guar b a) P
      (do { e \<leftarrow> prepDeduct se order p force; State_Monad.return (f e) }) (\<lambda>_. P)"
    for order p and f :: "refund_result option \<times> refund_plan \<Rightarrow> pay_error + (refund_result + refund_plan)"
    by (rule pay.obeys_bind [OF prepDeduct_obeys [OF P]] pay.obeys_return | assumption)+
  have rest: "obeys (pay_guar b a) P
      (do { i \<leftarrow> getRefundOrderProviderInstance order;
            case i of
              Inl _ \<Rightarrow> State_Monad.return (Inl (AppError ''PROVIDER_LOOKUP_FAILED''))
            | Inr None \<Rightarrow> State_Monad.return (Inl (AppError ''REFUND_DISABLED''))
            | Inr (Some inst) \<Rightarrow>
                if \<not> RefundEnabled inst then State_Monad.return (Inl (AppError ''REFUND_DISABLED''))
                else case amt of Fin v \<Rightarrow> f inst v | _ \<Rightarrow> State_Monad.return (Inl (AppError ''INVALID_AMOUNT'')) })
      (\<lambda>_. P)" if "\<And>inst v. obeys (pay_guar b a) P (f inst v) (\<lambda>_. P)" for order f
    by (rule pay.obeys_bind [OF getRefundOrderProviderInstance_obeys [OF P]])
      (auto intro!: pay.obeys_return pay.obeys_if that split: sum.split option.split float64.split)
  show ?thesis
    unfolding PrepareRefund_def Let_def
    by (rule pay.obeys_bind [OF fetch_order_obeys [OF P]] pay.obeys_option pay.obeys_if pay.obeys_return
          obeys_weaken [OF rest] plan | (auto; fail))+
qed

section \<open>Outcomes\<close>

lemma update_one_obeys:
  assumes P: "stable (pay_guar b a) P" and g: "\<And>now d. P d \<Longrightarrow> pay_guar b a d (snd (stmt now d))"
  shows "obeys (pay_guar b a) P (update_one stmt) (\<lambda>_. P)"
  unfolding update_one_def
  by (rule pay.obeys_bind [OF pay.obeys_keep [OF P g]] pay.obeys_return | assumption)+

lemma restoreStatus_obeys:
  assumes P: "stable (pay_guar b a) P" and s: "\<And>d. P d \<Longrightarrow> settled_order (plan_order_id p) d"
  shows "obeys (pay_guar b a) P (restoreStatus p) (\<lambda>_. P)"
  unfolding restoreStatus_def
  by (rule pay.obeys_bind [OF pay.obeys_keep [OF P guar_set_status]] pay.obeys_return
      | assumption | erule s | simp add: phase_def)+

lemma rollback_failed_obeys:
  assumes P: "stable (pay_guar b a) P"
  shows "obeys (pay_guar b a) P (rollback_failed p) (\<lambda>_. P)"
  unfolding rollback_failed_def
  by (rule pay.obeys_bind [OF writeAuditLog_obeys [OF P]] pay.obeys_return | assumption)+

lemma RollbackRefund_obeys:
  assumes P: "stable (pay_guar False a) P"
  shows "obeys (pay_guar False a) P (RollbackRefund se p) (\<lambda>_. P)"
proof -
  have credit: "obeys (pay_guar False a) P
      (do { r \<leftarrow> call (update_balance uid v); State_Monad.return (r = Inr True) }) (\<lambda>_. P)" for uid v
    by (rule pay.obeys_bind [OF pay.obeys_keep [OF P guar_update_balance]] pay.obeys_return | assumption)+
  have extend: "obeys (pay_guar False a) P
      (do { r \<leftarrow> call (extend_statement se sub days); State_Monad.return (r = Inr (Inr ())) }) (\<lambda>_. P)"
    for sub days
    by (rule pay.obeys_bind [OF pay.obeys_keep [OF P guar_extend]] pay.obeys_return | assumption)+
  show ?thesis
    unfolding RollbackRefund_def
    by (rule pay.obeys_bind [OF pay.obeys_unless(2) [OF credit]] pay.obeys_bind [OF pay.obeys_unless(2) [OF extend]]
          rollback_failed_obeys [OF P] pay.obeys_if pay.obeys_return | assumption)+
qed

lemma handleGwFail_obeys:
  assumes P: "stable (pay_guar False a) P" and s: "\<And>d. P d \<Longrightarrow> settled_order (plan_order_id p) d"
  shows "obeys (pay_guar False a) P (handleGwFail se p) (\<lambda>_. P)"
proof -
  have failed: "obeys (pay_guar False a) P (update_one (set_refund_failed (plan_order_id p) t)) (\<lambda>_. P)" for t
    by (rule update_one_obeys [OF P guar_set_refund_failed]) (rule s)
  show ?thesis
    unfolding handleGwFail_def
    by (rule pay.obeys_bind [OF RollbackRefund_obeys [OF P]] pay.obeys_bind [OF restoreStatus_obeys [OF P s]]
          pay.obeys_bind [OF writeAuditLog_obeys [OF P]] pay.obeys_bind [OF time_now_obeys]
          pay.obeys_bind [OF failed] pay.obeys_if pay.obeys_return | assumption)+
qed

lemma refund_status_phase: "phase (refund_status p) = 2"
  by (simp add: refund_status_def phase_def)

lemma markRefundOk_obeys:
  assumes P: "stable (pay_guar b a) P" and s: "\<And>d. P d \<Longrightarrow> settled_order (plan_order_id p) d"
  shows "obeys (pay_guar b a) P (markRefundOk p) (\<lambda>_. P)"
proof -
  have upd: "obeys (pay_guar b a) P
      (update_one (set_refunded (plan_order_id p) (refund_status p) v r t f)) (\<lambda>_. P)" for v r t f
    by (rule update_one_obeys [OF P guar_set_refunded]) (rule s refund_status_phase | assumption)+
  show ?thesis
    unfolding markRefundOk_def
    by (rule pay.obeys_bind [OF upd] pay.obeys_bind [OF writeAuditLog_obeys [OF P]]
          pay.obeys_bind [OF time_now_obeys] pay.obeys_if pay.obeys_return | assumption)+
qed

lemma markRefundPending_obeys:
  assumes P: "stable (pay_guar False a) P" and s: "\<And>d. P d \<Longrightarrow> settled_order (plan_order_id p) d"
  shows "obeys (pay_guar False a) P (markRefundPending se p i) (\<lambda>_. P)"
proof -
  have upd: "obeys (pay_guar False a) P (update_one (set_refund_pending (plan_order_id p) v r f)) (\<lambda>_. P)"
    for v r f
    by (rule update_one_obeys [OF P guar_set_refund_pending]) (rule s)
  show ?thesis
    unfolding markRefundPending_def
    by (rule pay.obeys_bind [OF RollbackRefund_obeys [OF P]] pay.obeys_bind [OF upd]
          pay.obeys_bind [OF writeAuditLog_obeys [OF P]] pay.obeys_if pay.obeys_return | assumption)+
qed

lemma finishRefund_obeys:
  assumes P: "stable (pay_guar False a) P" and s: "\<And>d. P d \<Longrightarrow> settled_order (plan_order_id p) d"
  shows "obeys (pay_guar False a) P (finishRefund se p resp) (\<lambda>_. P)"
  unfolding finishRefund_def
  by (rule pay.obeys_if handleGwFail_obeys [OF P s] markRefundOk_obeys [OF P s]
        markRefundPending_obeys [OF P s] | assumption)+

section \<open>The gateway\<close>

lemma gw_refund_obeys:
  "obeys (pay_guar b a) P (gw_Refund tn on v r) (\<lambda>_. P)"
  "obeys (pay_guar b a) P (gw_QueryRefund tn on i v) (\<lambda>_. P)"
  by (auto simp: obeys_def gw_Refund_def gw_QueryRefund_def rely_ok_def pay.refl)

lemma gwRefund_obeys:
  assumes P: "stable (pay_guar b a) P"
  shows "obeys (pay_guar b a) P (gwRefund env p) (\<lambda>_. P)"
  unfolding gwRefund_def Let_def
  by (rule pay.obeys_bind [OF writeAuditLog_obeys [OF P]] pay.obeys_bind [OF getRefundProvider_obeys [OF P]]
        pay.obeys_bind [OF gw_refund_obeys(1)] pay.obeys_sum pay.obeys_if pay.obeys_return | assumption)+

section \<open>Executing a refund\<close>

definition same_target :: "refund_plan \<Rightarrow> pay_error + refund_plan \<Rightarrow> bool" where
  "same_target p r \<longleftrightarrow> (\<forall>p'. r = Inr p' \<longrightarrow> plan_order_id p' = plan_order_id p)"

lemma restore_then_obeys:
  assumes P: "stable (pay_guar b a) P" and s: "\<And>d. P d \<Longrightarrow> settled_order (plan_order_id p) d"
  shows "obeys (pay_guar b a) P (do { _ \<leftarrow> restoreStatus p; State_Monad.return (Inl e) })
           (\<lambda>r d. P d \<and> same_target p r)"
  by (rule pay.obeys_bind [OF restoreStatus_obeys [OF P s]] pay.obeys_return | simp add: same_target_def)+

lemma deduct_balance_obeys:
  assumes P: "stable (pay_guar b a) P" and s: "\<And>d. P d \<Longrightarrow> settled_order (plan_order_id p) d"
  shows "obeys (pay_guar b a) P (deduct_balance p) (\<lambda>r d. P d \<and> same_target p r)"
  unfolding deduct_balance_def
  by (rule pay.obeys_bind [OF hasAuditLog_obeys [OF P]]
        pay.obeys_bind [OF pay.obeys_keep [OF P guar_deduct_available]] restore_then_obeys [OF P s]
        pay.obeys_sum pay.obeys_option pay.obeys_if pay.obeys_return | (simp add: same_target_def; fail))+

lemma deduct_days_obeys:
  assumes P: "stable (pay_guar b a) P" and s: "\<And>d. P d \<Longrightarrow> settled_order (plan_order_id p) d"
  shows "obeys (pay_guar b a) P (deduct_days se p) (\<lambda>r d. P d \<and> same_target p r)"
proof -
  have revoke: "obeys (pay_guar b a) P
      (do { v \<leftarrow> call (revoke_statement se (SubscriptionID p));
            if v = Inr True then State_Monad.return (Inr p)
            else do { _ \<leftarrow> restoreStatus p; State_Monad.return (Inl OtherError) } })
      (\<lambda>r d. P d \<and> same_target p r)"
    by (rule pay.obeys_bind [OF pay.obeys_keep [OF P guar_revoke]] restore_then_obeys [OF P s]
          pay.obeys_if pay.obeys_return | (simp add: same_target_def; fail))+
  have outcome: "obeys (pay_guar b a) P
      (case r of
         Inr (Inr _) \<Rightarrow> State_Monad.return (Inr p)
       | Inr (Inl WouldExpire) \<Rightarrow> do {
           v \<leftarrow> call (revoke_statement se (SubscriptionID p));
           if v = Inr True then State_Monad.return (Inr p)
           else do { _ \<leftarrow> restoreStatus p; State_Monad.return (Inl OtherError) }}
       | _ \<Rightarrow> do { _ \<leftarrow> restoreStatus p; State_Monad.return (Inl OtherError) })
      (\<lambda>r d. P d \<and> same_target p r)" for r :: "unit + extend_error + unit"
  proof (cases r)
    case (Inr x)
    then show ?thesis
    proof (cases x)
      case (Inl e)
      with Inr show ?thesis using revoke restore_then_obeys [OF P s] by (cases e) simp_all
    next
      case (Inr y)
      then show ?thesis unfolding \<open>r = Inr x\<close> Inr sum.case
        by (rule_tac pay.obeys_return) (simp add: same_target_def)
    qed
  qed (use restore_then_obeys [OF P s] in simp)
  show ?thesis
    unfolding deduct_days_def
    by (rule pay.obeys_bind [OF hasAuditLog_obeys [OF P]]
          pay.obeys_bind [OF pay.obeys_keep [OF P guar_extend] outcome] pay.obeys_if pay.obeys_return
        | (simp add: same_target_def; fail))+
qed

text \<open>A step that may refuse, and keeps the order of the plan.\<close>

lemma continue:
  assumes "\<And>q. plan_order_id q = oid \<Longrightarrow> obeys (pay_guar b a) S (f q) (\<lambda>_. S)"
    and "plan_order_id p = oid"
  shows "obeys (pay_guar b a) (\<lambda>d. S d \<and> same_target p r)
           (case r of Inl e \<Rightarrow> State_Monad.return (Inl e) | Inr q \<Rightarrow> f q) (\<lambda>_. S)"
proof (cases r)
  case (Inr q)
  show ?thesis
  proof (cases "plan_order_id q = oid")
    case True
    show ?thesis unfolding Inr sum.case by (rule obeys_weaken [OF assms(1) [OF True]]) auto
  next
    case False
    then show ?thesis using assms(2) by (intro obeys_vacuous) (auto simp: same_target_def Inr)
  qed
qed (auto intro: pay.obeys_return)

lemma lock_refund_obeys:
  assumes P: "stable (pay_guar b a) P"
  shows "obeys (pay_guar b a) P (call (lock_refund oid))
           (\<lambda>r d. P d \<and> (\<forall>n. r = Inr n \<longrightarrow> n \<noteq> 0 \<longrightarrow> settled_order oid d))"
proof (rule pay.obeys_call [OF P guar_lock_refund])
  fix now d
  assume "P d"
  with stableD [OF P this guar_lock_refund]
  show "P (snd (lock_refund oid now d)) \<and>
      (\<forall>n. Inr (fst (lock_refund oid now d)) = Inr n \<longrightarrow> n \<noteq> 0 \<longrightarrow> settled_order oid (snd (lock_refund oid now d)))"
    unfolding lock_refund_def by (auto intro!: updated_settled simp: phase_def)
qed simp

lemma ExecuteRefund_obeys:
  assumes P: "stable (pay_guar False a) P"
  shows "obeys (pay_guar False a) P (ExecuteRefund env se p) (\<lambda>_. P)"
proof -
  let ?S = "\<lambda>d. P d \<and> settled_order (plan_order_id p) d"
  have S: "stable (pay_guar False a) ?S" by (rule stable_conj [OF P settled_stable])
  have tail: "obeys (pay_guar False a) ?S
      (do { g \<leftarrow> gwRefund env p'';
            case g of Inl _ \<Rightarrow> handleGwFail se p'' | Inr resp \<Rightarrow> finishRefund se p'' resp }) (\<lambda>_. ?S)"
    if "plan_order_id p'' = plan_order_id p" for p''
    by (rule pay.obeys_bind [OF gwRefund_obeys [OF S]] pay.obeys_sum handleGwFail_obeys [OF S]
          finishRefund_obeys [OF S] | simp add: that)+
  have days: "obeys (pay_guar False a) ?S
      (do { s \<leftarrow> deduct_days se p';
            case s of
              Inl e \<Rightarrow> State_Monad.return (Inl e)
            | Inr p \<Rightarrow> do { g \<leftarrow> gwRefund env p;
                case g of Inl _ \<Rightarrow> handleGwFail se p | Inr resp \<Rightarrow> finishRefund se p resp } }) (\<lambda>_. ?S)"
    if same: "plan_order_id p' = plan_order_id p" for p'
  proof (rule pay.obeys_bind [OF deduct_days_obeys [OF S]], goal_cases)
    case (2 r)
    show ?case by (rule continue [OF tail]) (simp_all add: same)
  qed (simp add: same)
  show ?thesis
    unfolding ExecuteRefund_def
  proof (rule pay.obeys_bind [OF lock_refund_obeys [OF P]], goal_cases)
    case (1 c)
    have enter: "obeys (pay_guar False a) ?S
        (do { b \<leftarrow> deduct_balance p;
              case b of
                Inl e \<Rightarrow> State_Monad.return (Inl e)
              | Inr p \<Rightarrow> do { s \<leftarrow> deduct_days se p;
                  case s of
                    Inl e \<Rightarrow> State_Monad.return (Inl e)
                  | Inr p \<Rightarrow> do { g \<leftarrow> gwRefund env p;
                      case g of Inl _ \<Rightarrow> handleGwFail se p | Inr resp \<Rightarrow> finishRefund se p resp } } })
        (\<lambda>_. ?S)"
    proof (rule pay.obeys_bind [OF deduct_balance_obeys [OF S]], goal_cases)
      case (2 r)
      show ?case by (rule continue [OF days]) simp_all
    qed simp
    show ?case
      by (rule pay.obeys_sum pay.obeys_if pay.obeys_return obeys_weaken [OF enter] | (simp; fail) | (auto; fail))+
  qed
qed

section \<open>Confirming a pending refund\<close>

lemma guar_final_deduction:
  assumes "final_deduction se p now d = (Inr q, d')"
  shows "pay_guar b a d d'" and "plan_order_id q = plan_order_id p"
proof -
  obtain p1 d1 where one: "pay_guar b a d d1" "plan_order_id p1 = plan_order_id p"
    "(Inr q, d') =
       (if DeductionType p1 = DeductionSubscription \<and> SubDaysToDeduct p1 > 0 \<and> SubscriptionID p1 > 0 then
          (case extend_statement se (SubscriptionID p1) (- SubDaysToDeduct p1) now d1 of
             (Inr _, d2) \<Rightarrow> (Inr p1, d2)
           | (Inl WouldExpire, d2) \<Rightarrow>
               (case revoke_statement se (SubscriptionID p1) now d2 of
                  (True, d3) \<Rightarrow> (Inr p1, d3) | (False, d3) \<Rightarrow> (Inl OtherError, d3))
           | (Inl ExtendFailed, d2) \<Rightarrow> (Inl OtherError, d2))
        else (Inr p1, d1))"
  proof (cases "DeductionType p = DeductionBalance \<and> BalanceToDeduct p > 0")
    case True
    with assms obtain v d1 where v: "deduct_available (o_user (plan_order p)) (BalanceToDeduct p) now d = (Some v, d1)"
      by (cases "deduct_available (o_user (plan_order p)) (BalanceToDeduct p) now d")
        (auto simp: final_deduction_def split: option.splits)
    have g: "pay_guar b a d d1" using guar_deduct_available [of b a d] v by (metis snd_conv)
    show thesis
      by (rule that [OF g, of "p\<lparr>BalanceToDeduct := v\<rparr>"])
        (use assms [symmetric] True v in \<open>auto simp: final_deduction_def\<close>)
  next
    case False
    then show thesis using assms that [of d p, OF pay.refl] by (auto simp: final_deduction_def)
  qed
  have ext: "pay_guar b a d1 (snd (extend_statement se sub days now d1))" for sub days
    by (rule guar_extend)
  have rev: "pay_guar b a d2 (snd (revoke_statement se sub now d2))" for sub d2
    by (rule guar_revoke)
  have two: "pay_guar b a d1 d' \<and> q = p1"
    using one(3) ext [of "SubscriptionID p1" "- SubDaysToDeduct p1"]
      rev [of "snd (extend_statement se (SubscriptionID p1) (- SubDaysToDeduct p1) now d1)" "SubscriptionID p1"]
    by (auto split: if_splits prod.splits sum.splits extend_error.splits bool.splits
        intro: pay.refl pay.trans)
  then show "pay_guar b a d d'" "plan_order_id q = plan_order_id p" using one pay.trans by blast+
qed

lemma guar_finalize_body:
  assumes "finalize_body se p now d = (Inr r, d')"
  shows "pay_guar b a d d'"
proof -
  let ?oid = "plan_order_id p"
  obtain n d1 where claim: "claim_pending_refund ?oid now d = (n, d1)" by fastforce
  with assms have n: "n \<noteq> 0" by (auto simp: finalize_body_def split: if_splits)
  have g1: "pay_guar b a d d1" using guar_claim_pending_refund [of b a d ?oid now] claim by simp
  have s1: "settled_order ?oid d1"
    using claim n updated_settled [of ?oid "\<lambda>o'. o_status o' = OrderRefundPending"
        "\<lambda>o'. o'\<lparr>o_status := OrderRefunding\<rparr>" now d]
    by (simp add: claim_pending_refund_def phase_def)
  from assms n claim obtain q d2 where deduct: "final_deduction se p now d1 = (Inr q, d2)"
    by (auto simp: finalize_body_def split: prod.splits sum.splits)
  note g2 = guar_final_deduction(1) [OF deduct] and q = guar_final_deduction(2) [OF deduct]
  let ?set = "set_refunded ?oid (refund_status q) (RefundAmount q) (plan_reason q) now (Force q) now d2"
  have s2: "settled_order ?oid d2" by (rule stableD [OF settled_stable s1 g2])
  have g3: "pay_guar b a d2 (snd ?set)"
    by (rule guar_set_refunded [OF s2 refund_status_phase])
  have d': "d' = snd (insert_audit ?oid ''REFUND_SUCCESS'' ''admin'' None now (snd ?set))"
    using assms n claim deduct q
    by (auto simp: finalize_body_def split: prod.splits if_splits bool.splits)
  show ?thesis
    unfolding d' by (rule pay.trans [OF g1 pay.trans [OF g2 pay.trans [OF g3 guar_insert_audit]]])
qed

lemma finalize_success_obeys:
  assumes P: "stable (pay_guar b a) P"
  shows "obeys (pay_guar b a) P (finalizePendingRefundSuccess se p) (\<lambda>_. P)"
proof -
  have tx: "obeys (pay_guar b a) P (transaction (finalize_body se p)) (\<lambda>_. P)"
    by (rule pay.obeys_transaction [OF P]) (blast intro: guar_finalize_body stableD [OF P])+
  show ?thesis
    unfolding finalizePendingRefundSuccess_def
    by (rule pay.obeys_bind [OF tx] pay.obeys_return | assumption)+
qed

lemma finalizeRefundFailed_obeys:
  assumes P: "stable (pay_guar b a) P" and s: "\<And>d. P d \<Longrightarrow> settled_order (o_id order) d"
  shows "obeys (pay_guar b a) P (finalizeRefundFailed order) (\<lambda>_. P)"
proof -
  have upd: "obeys (pay_guar b a) P (update_one (set_refund_failed (o_id order) t)) (\<lambda>_. P)" for t
    by (rule update_one_obeys [OF P guar_set_refund_failed]) (rule s)
  show ?thesis
    unfolding finalizeRefundFailed_def
    by (rule pay.obeys_bind [OF upd] pay.obeys_bind [OF writeAuditLog_obeys [OF P]]
          pay.obeys_bind [OF time_now_obeys] pay.obeys_return | assumption)+
qed

text \<open>An order that was read in a status of the refund phase is settled.\<close>

lemma fetch_settled_obeys:
  assumes P: "stable (pay_guar b a) P"
  shows "obeys (pay_guar b a) P (fetch_order oid)
           (\<lambda>r d. P d \<and> (\<forall>order. r = Some order \<longrightarrow>
              o_id order = oid \<and> (phase (o_status order) = 2 \<longrightarrow> settled_order oid d)))"
  unfolding fetch_order_def
proof (rule pay.obeys_bind)
  show "obeys (pay_guar b a) P (call (get_order oid))
          (\<lambda>r d. P d \<and> (\<forall>order. r = Inr (Some order) \<longrightarrow>
             o_id order = oid \<and> (phase (o_status order) = 2 \<longrightarrow> settled_order oid d)))"
    by (rule pay.obeys_query [OF P]) (auto simp: get_order_def settled_order_def dest!: find_Some_in)
qed (rule pay.obeys_return, auto split: sum.splits)

lemma latestRefundPendingDetail_obeys:
  assumes P: "stable (pay_guar b a) P"
  shows "obeys (pay_guar b a) P (latestRefundPendingDetail oid) (\<lambda>_. P)"
  unfolding latestRefundPendingDetail_def
  by (rule pay.obeys_bind [OF query_obeys [OF P]] pay.obeys_return | assumption | simp add: latest_audit_def)+

lemma QueryAndFinalizeRefund_obeys:
  assumes P: "stable (pay_guar b a) P"
  shows "obeys (pay_guar b a) P (QueryAndFinalizeRefund env se oid) (\<lambda>_. P)"
  unfolding QueryAndFinalizeRefund_def
proof (rule pay.obeys_bind [OF fetch_settled_obeys [OF P]], goal_cases)
  case (1 r)
  show ?case
  proof (cases r)
    case (Some order)
    show ?thesis
    proof (cases "o_id order = oid \<and> o_status order = OrderRefundPending")
      case True
      let ?S = "\<lambda>d. P d \<and> settled_order oid d"
      have S: "stable (pay_guar b a) ?S" by (rule stable_conj [OF P settled_stable])
      have failed: "obeys (pay_guar b a) ?S (finalizeRefundFailed order) (\<lambda>_. P)"
        by (rule obeys_post [OF finalizeRefundFailed_obeys [OF S]]) (use True in auto)
      have success: "obeys (pay_guar b a) ?S (finalizePendingRefundSuccess se p) (\<lambda>_. P)" for p
        by (rule obeys_post [OF finalize_success_obeys [OF S]]) auto
      have audit: "obeys (pay_guar b a) ?S
          (do { _ \<leftarrow> writeAuditLog oid action op e; State_Monad.return x }) (\<lambda>_. P)" for action op e x
        by (rule pay.obeys_bind [OF writeAuditLog_obeys [OF S]] pay.obeys_return | (auto; fail))+
      have plan: "obeys (pay_guar b a) ?S
          (if c then State_Monad.return x else if c' then prepDeduct se order p force else State_Monad.return y)
          (\<lambda>_. ?S)" for c x c' p force y
        by (rule pay.obeys_if pay.obeys_return prepDeduct_obeys [OF S] | assumption)+
      show ?thesis
        unfolding Some option.case Let_def
        by (rule obeys_weaken [where P = ?S and Q = "\<lambda>_. P"],
            (rule pay.obeys_bind [OF getRefundProvider_obeys [OF S]]
              pay.obeys_bind [OF latestRefundPendingDetail_obeys [OF S]]
              pay.obeys_bind [OF gw_refund_obeys(2)] pay.obeys_bind [OF plan] failed success audit
              pay.obeys_sum pay.obeys_option pay.obeys_prod pay.obeys_if pay.obeys_return | (simp; fail))+)
          (use True in \<open>auto simp: phase_def\<close>)
    next
      case False
      then show ?thesis
        by (cases "o_id order = oid") (auto simp: Some intro: pay.obeys_return obeys_vacuous)
    qed
  qed (auto intro: pay.obeys_return)
qed

end
