(* ===== verification/Payment_Demo.thy ===== *)
theory Payment_Demo
  imports Payment_Fulfillment
begin

text \<open>
  A small shop for the witnesses: one user, one balance order of 10 that is to be paid through Stripe,
  exact arithmetic, and other components that accept everything and remember nothing.
\<close>

definition exact :: arith where
  "exact = \<lparr>fsub = (-), dec_div = (/), dec_round = (\<lambda>_ r. r)\<rparr>"

definition demo_order :: "order_status \<Rightarrow> payment_order" where
  "demo_order s =
     \<lparr>o_id = 7, o_user = 1, o_amount = 10, o_pay_amount = 10, o_recharge_code = ''PAY7'',
      o_out_trade_no = ''sub2_7'', o_payment_type = ''stripe'', o_trade_no = ''pi_7'', o_type = ''balance'',
      o_group = None, o_days = None, o_instance = Some ''3'', o_provider_key = Some ''stripe'',
      o_snapshot = [], o_status = s, o_refund_amount = 0, o_refund_reason = None, o_refund_at = None,
      o_force_refund = False, o_refund_requested_at = None, o_refund_request_reason = None,
      o_refund_requested_by = None, o_expires_at = 1000, o_paid_at = None, o_completed_at = None,
      o_failed_at = None, o_created_at = 0, o_updated_at = 0\<rparr>"

definition demo_instance :: provider_instance where
  "demo_instance =
     \<lparr>inst_id = 3, inst_provider_key = ''stripe'', inst_supported_types = [], inst_enabled = True,
      inst_payment_mode = [], inst_sort_order = 0, RefundEnabled = True, AllowUserRefund = True\<rparr>"

definition demo_code :: "code_status \<Rightarrow> redeem_code" where
  "demo_code s =
     \<lparr>rc_id = 1, rc_code = ''PAY7'', rc_type = ''balance'', rc_value = 10, rc_status = s,
      rc_used_by = (if s = CodeUsed then Some 1 else None), rc_used_at = None, rc_expires_at = None\<rparr>"

definition demo_db :: "rat \<Rightarrow> payment_order list \<Rightarrow> redeem_code list \<Rightarrow> unit pay_db" where
  "demo_db b os cs =
     \<lparr>orders = os, audits = [], codes = cs, next_code_id = 2,
      users = (\<lambda>u. if u = 1 then Some \<lparr>balance = b, total_recharged = 10\<rparr> else None),
      instances = [demo_instance], other = ()\<rparr>"

definition demo_provider :: provider where
  "demo_provider =
     \<lparr>prov_key = ''stripe'', prov_cancelable = True, prov_query_refund = True, prov_identity = []\<rparr>"

definition demo_env :: "unit pay_env" where
  "demo_env =
     \<lparr>pe_arith = exact, registry_key = (\<lambda>_. ''stripe''), registry_provider = (\<lambda>_. Some demo_provider),
      make_provider = (\<lambda>_. Some demo_provider), redeem_lock = (\<lambda>_ _. True),
      grant_other = (\<lambda>_ _ _ x. Some x), group_active = (\<lambda>_ _. True),
      subscription_notes = (\<lambda>_ _ _. Inr None), assign_or_extend = (\<lambda>_ _ _ _ _ x. Some x),
      invalidate_caches = (\<lambda>_ _ _. True), affiliate_on = False,
      accrue_rebate = (\<lambda>_ _ _ _ x. Some (0, x))\<rparr>"

definition quiet :: "int \<Rightarrow> 'd \<Rightarrow> 'd shared" where
  "quiet t d = \<lparr>db = d, schedule = [], clock = t\<rparr>"

definition demo_notification :: "rat \<Rightarrow> notification" where
  "demo_notification v =
     \<lparr>n_trade_no = ''pi_7'', n_order_id = ''sub2_7'', n_amount = Fin v, n_status = ''success'',
      n_metadata = []\<rparr>"

lemmas demo_defs =
  demo_order_def demo_instance_def demo_code_def demo_db_def demo_provider_def demo_env_def quiet_def
  demo_notification_def exact_def

lemma quiet_simps [simp]: "schedule (quiet t d) = []" "db (quiet t d) = d" "clock (quiet t d) = t"
  by (simp_all add: quiet_def)

end
