(* ===== verification/Payment_Progress.thy ===== *)
theory Payment_Progress
  imports Payment_Safety Payment_Demo
begin

text \<open>
  What the fulfilment side does when nothing interferes: the world is quiet, no statement is lost and no
  other request runs. Then a paid order is completed, from whatever point an earlier attempt reached,
  a repeated notification changes nothing and a lease excludes a second worker.
\<close>

section \<open>Orders by identifier\<close>

definition order_at :: "'x pay_db \<Rightarrow> int \<Rightarrow> payment_order option" where
  "order_at d oid = find (\<lambda>o'. o_id o' = oid) (orders d)"

lemma order_at_in: "order_at d oid = Some order \<Longrightarrow> order \<in> set (orders d) \<and> o_id order = oid"
  unfolding order_at_def by (rule find_Some_in)

lemma order_at_known: "order_at d oid = Some order \<Longrightarrow> known order d"
  using order_at_in by (force simp: known_def)

lemma order_at_update:
  assumes "\<And>o'. o_id (f o') = o_id o'"
  shows "order_at (snd (update_orders p f now d)) oid =
     map_option (\<lambda>o'. if p o' then f (o'\<lparr>o_updated_at := now\<rparr>) else o') (order_at d oid)"
proof -
  have "orders (snd (update_orders p f now d)) =
      map (\<lambda>o'. if p o' then f (o'\<lparr>o_updated_at := now\<rparr>) else o') (orders d)"
    by (simp add: update_orders_def update_where_def split: prod.splits)
  then show ?thesis unfolding order_at_def by (simp add: find_map_same assms)
qed

lemma update_orders_frame [simp]:
  "codes (snd (update_orders p f now d)) = codes d" "users (snd (update_orders p f now d)) = users d"
  "audits (snd (update_orders p f now d)) = audits d" "other (snd (update_orders p f now d)) = other d"
  "next_code_id (snd (update_orders p f now d)) = next_code_id d"
  "instances (snd (update_orders p f now d)) = instances d"
  by (simp_all add: update_orders_def split: prod.splits)

definition unique_ids :: "'x pay_db \<Rightarrow> bool" where
  "unique_ids d \<longleftrightarrow> distinct (map o_id (orders d))"

lemma pay_inv_unique: "pay_inv a d \<Longrightarrow> unique_ids d"
  by (simp add: pay_inv_def unique_ids_def)

lemma order_at_unique:
  "unique_ids d \<Longrightarrow> order_at d oid = Some order \<Longrightarrow> o' \<in> set (orders d) \<Longrightarrow> o_id o' = oid \<Longrightarrow> o' = order"
  using order_at_in unfolding unique_ids_def distinct_map by (metis inj_onD)

lemma unique_ids_update:
  assumes "\<And>o'. o_id (f o') = o_id o'"
  shows "unique_ids (snd (update_orders p f now d)) = unique_ids d"
proof -
  have "map o_id (orders (snd (update_orders p f now d))) = map o_id (orders d)"
    by (simp add: update_orders_def update_where_def assms split: prod.splits)
  then show ?thesis by (simp add: unique_ids_def)
qed

lemma fst_update_orders: "fst (update_orders p f now d) = length (filter p (orders d))"
  by (simp add: update_orders_def update_where_def)

lemma count_update_orders:
  assumes "unique_ids d" "order_at d oid = Some order"
  shows "fst (update_orders (\<lambda>o'. o_id o' = oid \<and> q o') f now d) = 0 \<longleftrightarrow> \<not> q order"
  using order_at_in [OF assms(2)] order_at_unique [OF assms]
  by (auto simp: fst_update_orders filter_empty_conv)

lemma update_orders_nothing:
  assumes "\<forall>o' \<in> set (orders d). \<not> p o'"
  shows "update_orders p f now d = (0, d)"
  using update_where_none [OF assms, of "\<lambda>o'. f (o'\<lparr>o_updated_at := now\<rparr>)"] by (simp add: update_orders_def)

section \<open>Programs in a quiet world\<close>

lemma fetch_order_quiet:
  "schedule w = [] \<Longrightarrow> run_state (fetch_order oid) w = (order_at (db w) oid, w)"
  by (simp add: fetch_order_def run_call_quiet get_order_def order_at_def)

lemma writeAuditLog_quiet:
  "schedule w = [] \<Longrightarrow>
     run_state (writeAuditLog oid action op detail) w =
       ((), w\<lparr>db := snd (insert_audit oid action op detail (clock w) (db w))\<rparr>)"
  by (simp add: writeAuditLog_def run_call_quiet)

lemma hasAuditLog_quiet:
  "schedule w = [] \<Longrightarrow> run_state (hasAuditLog oid action) w = (audit_exists oid {action} (db w), w)"
  by (simp add: hasAuditLog_def run_call_quiet count_audit_def)

lemma insert_audit_frame [simp]:
  "orders (snd (insert_audit oid action op detail now d)) = orders d"
  "codes (snd (insert_audit oid action op detail now d)) = codes d"
  "users (snd (insert_audit oid action op detail now d)) = users d"
  "other (snd (insert_audit oid action op detail now d)) = other d"
  by (simp_all add: insert_audit_def)

definition same_money :: "'x pay_db \<Rightarrow> 'x pay_db \<Rightarrow> bool" where
  "same_money d d' \<longleftrightarrow> codes d' = codes d \<and> users d' = users d"

lemma rebate_quiet:
  assumes w: "schedule w = []" and ok: "\<And>amount t x. accrue_rebate env (o_user order) amount (o_id order) t x \<noteq> None"
  obtains d' where "run_state (applyAffiliateRebateForOrder env order) w = (Inr (), w\<lparr>db := d'\<rparr>)"
    "same_money (db w) d'" "orders d' = orders (db w)"
proof -
  let ?b = "affiliateRebateBaseAmount order"
  let ?body = "rebate_body env order ?b (clock w) (db w)"
  have body: "\<exists>d'. ?body = (Inr (), d') \<and> same_money (db w) d' \<and> orders d' = orders (db w)"
  proof (cases "audit_exists (o_id order) {''AFFILIATE_REBATE_APPLIED'', ''AFFILIATE_REBATE_SKIPPED''} (db w)")
    case True
    then show ?thesis by (simp add: rebate_body_def same_money_def)
  next
    case False
    then have "\<not> audit_exists (o_id order) {''AFFILIATE_REBATE_APPLIED''} (db w)"
      by (auto simp: audit_exists_def)
    moreover obtain r x where "accrue_rebate env (o_user order) ?b (o_id order) (clock w) (other (db w)) = Some (r, x)"
      using ok by fast
    ultimately show ?thesis using False
      by (simp add: rebate_body_def insert_audit_def update_where_def same_money_def Let_def)
  qed
  then obtain d' where d': "?body = (Inr (), d')" "same_money (db w) d'" "orders d' = orders (db w)" by blast
  show thesis
  proof (cases "?b \<le> 0 \<or> \<not> affiliate_on env")
    case True
    then have "run_state (applyAffiliateRebateForOrder env order) w = (Inr (), w\<lparr>db := db w\<rparr>)"
      by (auto simp: applyAffiliateRebateForOrder_def Let_def)
    then show thesis by (rule that) (simp_all add: same_money_def)
  next
    case False
    then have "run_state (applyAffiliateRebateForOrder env order) w = (Inr (), w\<lparr>db := d'\<rparr>)"
      using w d'(1) by (simp add: applyAffiliateRebateForOrder_def transaction_def run_call_quiet
          all_or_nothing_def Let_def)
    then show thesis by (rule that) (use d' in simp_all)
  qed
qed

lemma markCompleted_quiet:
  assumes w: "schedule w = []" and inv: "unique_ids (db w)" and at: "order_at (db w) (o_id order) = Some o1"
    and st: "o_status o1 = OrderRecharging" "o_updated_at o1 = lease"
  obtains d' where "run_state (markCompleted order lease action) w = (Inr (), w\<lparr>db := d'\<rparr>)"
    "same_money (db w) d'"
    "order_at d' (o_id order) =
       Some (o1\<lparr>o_updated_at := clock w, o_status := OrderCompleted, o_completed_at := Some (clock w)\<rparr>)"
proof -
  let ?d1 = "snd (complete_order (o_id order) lease (clock w) (clock w) (db w))"
  let ?d2 = "if audit_exists (o_id order) {action} ?d1 then ?d1
             else snd (insert_audit (o_id order) action ''system'' None (clock w) ?d1)"
  have "fst (complete_order (o_id order) lease (clock w) (clock w) (db w)) \<noteq> 0"
    unfolding complete_order_def using count_update_orders [OF inv at] st by auto
  then have "run_state (markCompleted order lease action) w = (Inr (), w\<lparr>db := ?d2\<rparr>)"
    using w by (simp add: markCompleted_def run_call_quiet hasAuditLog_quiet writeAuditLog_quiet run_state_if)
  moreover have "same_money (db w) ?d2" by (simp add: same_money_def complete_order_def)
  moreover have "order_at ?d1 (o_id order) =
       Some (o1\<lparr>o_updated_at := clock w, o_status := OrderCompleted, o_completed_at := Some (clock w)\<rparr>)"
    unfolding complete_order_def using at st order_at_in [OF at] by (subst order_at_update) auto
  then have "order_at ?d2 (o_id order) =
       Some (o1\<lparr>o_updated_at := clock w, o_status := OrderCompleted, o_completed_at := Some (clock w)\<rparr>)"
    by (simp add: order_at_def)
  ultimately show thesis by (rule that)
qed

text \<open>The lease of an order that is free, or that was left behind more than five minutes ago.\<close>

definition lease_time :: "int \<Rightarrow> int" where
  "lease_time t = t - t mod Microsecond"

definition lease_free :: "int \<Rightarrow> payment_order \<Rightarrow> bool" where
  "lease_free t order \<longleftrightarrow>
     o_status order \<in> {OrderPaid, OrderFailed} \<or>
     (o_status order = OrderRecharging \<and> o_updated_at order \<le> lease_time t - paymentFulfillmentLeaseDuration)"

definition leased :: "int \<Rightarrow> payment_order \<Rightarrow> payment_order" where
  "leased t order = order\<lparr>o_updated_at := lease_time t, o_status := OrderRecharging, o_failed_at := None\<rparr>"

lemma acquire_quiet:
  assumes w: "schedule w = []" and inv: "unique_ids (db w)"
    and at: "order_at (db w) (o_id order) = Some o1" and free: "lease_free (clock w) o1"
  obtains d' where "run_state (acquirePaymentFulfillmentLease order) w =
      (Inr (Some (lease_time (clock w))), w\<lparr>db := d'\<rparr>)"
    "same_money (db w) d'" "order_at d' (o_id order) = Some (leased (clock w) o1)" "unique_ids d'"
proof -
  let ?t = "lease_time (clock w)"
  let ?stale = "?t - paymentFulfillmentLeaseDuration"
  let ?d = "snd (acquire_lease (o_id order) ?t ?stale (clock w) (db w))"
  have n: "fst (acquire_lease (o_id order) ?t ?stale (clock w) (db w)) \<noteq> 0"
    unfolding acquire_lease_def using count_update_orders [OF inv at] free by (auto simp: lease_free_def)
  have at': "order_at ?d (o_id order) = Some (leased (clock w) o1)"
    unfolding acquire_lease_def
    using at free order_at_in [OF at] by (subst order_at_update) (auto simp: leased_def lease_free_def)
  have "run_state (acquirePaymentFulfillmentLease order) w = (Inr (Some ?t), w\<lparr>db := ?d\<rparr>)"
    using w n at' by (simp add: acquirePaymentFulfillmentLease_def run_call_quiet fetch_order_quiet
        lease_time_def [symmetric] Let_def leased_def)
  moreover have "same_money (db w) ?d" by (simp add: same_money_def acquire_lease_def)
  moreover have "unique_ids ?d" unfolding acquire_lease_def using inv by (subst unique_ids_update) simp_all
  ultimately show thesis using at' that by blast
qed

lemma acquire_busy:
  assumes w: "schedule w = []" and inv: "unique_ids (db w)"
    and at: "order_at (db w) (o_id order) = Some o1" and st: "o_status o1 = OrderRecharging"
    and fresh: "lease_time (clock w) - paymentFulfillmentLeaseDuration < o_updated_at o1"
  shows "run_state (acquirePaymentFulfillmentLease order) w = (Inl (AppError ''CONFLICT''), w)"
proof -
  have "\<forall>o' \<in> set (orders (db w)). \<not> (o_id o' = o_id order \<and> (o_status o' \<in> {OrderPaid, OrderFailed} \<or>
      (o_status o' = OrderRecharging \<and>
       o_updated_at o' \<le> lease_time (clock w) - paymentFulfillmentLeaseDuration)))"
    using order_at_unique [OF inv at] st fresh by fastforce
  then have "acquire_lease (o_id order) (lease_time (clock w))
      (lease_time (clock w) - paymentFulfillmentLeaseDuration) (clock w) (db w) = (0, db w)"
    unfolding acquire_lease_def by (rule update_orders_nothing)
  then show ?thesis using w at st
    by (simp add: acquirePaymentFulfillmentLease_def run_call_quiet fetch_order_quiet Let_def
        lease_time_def [symmetric])
qed

section \<open>A balance order is completed, and credited once\<close>

text \<open>
  How far earlier attempts got: no code yet, a code that waits to be redeemed, or a code already
  redeemed for the order's user.
\<close>

definition code_at :: "'x pay_db \<Rightarrow> string \<Rightarrow> redeem_code option" where
  "code_at d c = find (\<lambda>r. rc_code r = c) (codes d)"

definition redeemable :: "arith \<Rightarrow> int \<Rightarrow> payment_order \<Rightarrow> redeem_code \<Rightarrow> bool" where
  "redeemable a t order c \<longleftrightarrow>
     validatePaymentRedeemCode a order c \<and> rc_status c = CodeUnused \<and> \<not> code_expired t c \<and> 0 \<le> rc_value c"

lemma GetByCode_quiet:
  "schedule w = [] \<Longrightarrow> run_state (GetByCode c) w =
     (case code_at (db w) c of None \<Rightarrow> CodeMissing | Some r \<Rightarrow> CodeFound r, w)"
  by (simp add: GetByCode_def run_call_quiet get_code_def code_at_def split: option.splits)

lemma code_at_in: "code_at d c = Some r \<Longrightarrow> r \<in> set (codes d) \<and> rc_code r = c"
  unfolding code_at_def by (rule find_Some_in)

lemma redeem_quiet:
  assumes w: "schedule w = []" and inv: "unique_ids (db w)"
    and c: "code_at (db w) code = Some c" "rc_status c = CodeUnused" "\<not> code_expired (clock w) c"
      "rc_type c = RedeemTypeBalance" "0 \<le> rc_value c"
    and lock: "redeem_lock env code (clock w)" and u: "users (db w) uid = Some u"
  obtains c' d' where "run_state (redeemForPaymentFulfillment env uid code) w = (Inr c', w\<lparr>db := d'\<rparr>)"
    "orders d' = orders (db w)" "users d' = (users (db w))(uid \<mapsto> u\<lparr>balance := column 8 (balance u + rc_value c),
       total_recharged := (if rc_value c > 0 then column 8 (total_recharged u + rc_value c) else total_recharged u)\<rparr>)"
proof -
  note mem = code_at_in [OF c(1)]
  let ?u = "u\<lparr>balance := column 8 (balance u + rc_value c),
       total_recharged := (if rc_value c > 0 then column 8 (total_recharged u + rc_value c) else total_recharged u)\<rparr>"
  let ?d = "(db w)\<lparr>codes := map (redeem_mark c uid (clock w)) (codes (db w)), users := (users (db w))(uid \<mapsto> ?u)\<rparr>"
  have "\<exists>r \<in> set (codes (db w)). rc_id r = rc_id c \<and> rc_status r = CodeUnused" using mem c(2) by blast
  then have body: "redeem_body env c uid (clock w) (db w) = (Inr (), ?d)"
    using c(4,5) u by (simp add: redeem_body_def use_code_eq update_balance_def)
  have "find (\<lambda>r. rc_id r = rc_id c) (codes ?d) \<noteq> None"
    using mem by (auto simp: find_None)
  then obtain c' where c': "find (\<lambda>r. rc_id r = rc_id c) (codes ?d) = Some c'" by blast
  have "CanUse (clock w) c" using c by (simp add: CanUse_def)
  then have "run_state (redeemForPaymentFulfillment env uid code) w = (Inr c', w\<lparr>db := ?d\<rparr>)"
    using w lock c(1,3,4) u body c'
    by (simp add: redeemForPaymentFulfillment_def GetByCode_quiet run_call_quiet get_user_def transaction_def
        all_or_nothing_def get_code_by_id_def RedeemTypeBalance_def run_state_if)
  then show thesis by (rule that) simp_all
qed

text \<open>The end of \<open>doBalance\<close> after the code has been redeemed.\<close>

lemma finish_quiet:
  assumes w: "schedule w = []" and inv: "unique_ids (db w)"
    and at: "order_at (db w) (o_id order) = Some o1" "o_status o1 = OrderRecharging" "o_updated_at o1 = lease"
    and ok: "\<And>amount t x. accrue_rebate env (o_user order) amount (o_id order) t x \<noteq> None"
  obtains d' where "run_state (do { r \<leftarrow> applyAffiliateRebateForOrder env order;
        case r of Inl e \<Rightarrow> State_Monad.return (Inl e) | Inr _ \<Rightarrow> markCompleted order lease action }) w =
      (Inr (), w\<lparr>db := d'\<rparr>)"
    "users d' = users (db w)"
    "map_option o_status (order_at d' (o_id order)) = Some OrderCompleted"
proof -
  from rebate_quiet [OF w ok] obtain d1 where d1:
    "run_state (applyAffiliateRebateForOrder env order) w = (Inr (), w\<lparr>db := d1\<rparr>)"
    "same_money (db w) d1" "orders d1 = orders (db w)" by metis
  have w1: "schedule (w\<lparr>db := d1\<rparr>) = []" "unique_ids (db (w\<lparr>db := d1\<rparr>))"
    using w inv d1(3) by (simp_all add: unique_ids_def)
  have at1: "order_at (db (w\<lparr>db := d1\<rparr>)) (o_id order) = Some o1" using at(1) d1(3) by (simp add: order_at_def)
  from markCompleted_quiet [OF w1 at1 at(2,3), of action] obtain d' where d':
    "run_state (markCompleted order lease action) (w\<lparr>db := d1\<rparr>) = (Inr (), w\<lparr>db := d1, db := d'\<rparr>)"
    "same_money d1 d'" "map_option o_status (order_at d' (o_id order)) = Some OrderCompleted"
    by (force simp: that)
  show thesis
    by (rule that [of d']) (use d1 d' in \<open>simp_all add: same_money_def\<close>)
qed

text \<open>What is still to be credited for an order: nothing once its code is used.\<close>

definition pending_credit :: "payment_order \<Rightarrow> 'x pay_db \<Rightarrow> rat option" where
  "pending_credit order d =
     (case code_at d (o_recharge_code order) of
        None \<Rightarrow> Some (o_amount order)
      | Some c \<Rightarrow> if rc_status c = CodeUsed then None else Some (rc_value c))"

definition credited :: "rat option \<Rightarrow> pay_user \<Rightarrow> rat" where
  "credited credit u = (case credit of None \<Rightarrow> balance u | Some v \<Rightarrow> column 8 (balance u + v))"

definition can_credit :: "'x pay_env \<Rightarrow> int \<Rightarrow> payment_order \<Rightarrow> 'x pay_db \<Rightarrow> bool" where
  "can_credit env t order d \<longleftrightarrow>
     (case code_at d (o_recharge_code order) of
        None \<Rightarrow> TrimSpace (o_recharge_code order) = o_recharge_code order \<and> o_recharge_code order \<noteq> [] \<and>
                scaled (o_amount order) \<and> 0 < o_amount order \<and> redeem_lock env (o_recharge_code order) t
      | Some c \<Rightarrow>
          validatePaymentRedeemCode (pe_arith env) order c \<and>
          (rc_status c = CodeUsed \<or>
           (\<not> code_expired t c \<and> 0 \<le> rc_value c \<and> redeem_lock env (o_recharge_code order) t)))"

lemma redeem_finish_quiet:
  assumes w: "schedule w = []" and inv: "unique_ids (db w)"
    and at: "order_at (db w) (o_id order) = Some o1" "o_status o1 = OrderRecharging" "o_updated_at o1 = lease"
    and ok: "\<And>amount t x. accrue_rebate env (o_user order) amount (o_id order) t x \<noteq> None"
    and c: "code_at (db w) (o_recharge_code order) = Some c" "rc_status c = CodeUnused"
      "\<not> code_expired (clock w) c" "rc_type c = RedeemTypeBalance" "0 \<le> rc_value c"
    and lock: "redeem_lock env (o_recharge_code order) (clock w)" and u: "users (db w) (o_user order) = Some u"
  obtains d' where "run_state (do { r \<leftarrow> redeemForPaymentFulfillment env (o_user order) (o_recharge_code order);
        case r of
          Inl e \<Rightarrow> State_Monad.return (Inl e)
        | Inr _ \<Rightarrow> do {
            r \<leftarrow> applyAffiliateRebateForOrder env order;
            case r of Inl e \<Rightarrow> State_Monad.return (Inl e) | Inr _ \<Rightarrow> markCompleted order lease action }}) w =
      (Inr (), w\<lparr>db := d'\<rparr>)"
    "map_option balance (users d' (o_user order)) = Some (column 8 (balance u + rc_value c))"
    "map_option o_status (order_at d' (o_id order)) = Some OrderCompleted"
proof -
  obtain c' d1 where d1:
    "run_state (redeemForPaymentFulfillment env (o_user order) (o_recharge_code order)) w = (Inr c', w\<lparr>db := d1\<rparr>)"
    "orders d1 = orders (db w)" and us: "users d1 = (users (db w))(o_user order \<mapsto>
       u\<lparr>balance := column 8 (balance u + rc_value c),
         total_recharged := (if rc_value c > 0 then column 8 (total_recharged u + rc_value c)
                             else total_recharged u)\<rparr>)"
    by (rule redeem_quiet [OF w inv c lock u])
  have bal: "map_option balance (users d1 (o_user order)) = Some (column 8 (balance u + rc_value c))"
    by (simp add: us)
  have w1: "schedule (w\<lparr>db := d1\<rparr>) = []" "unique_ids (db (w\<lparr>db := d1\<rparr>))"
    "order_at (db (w\<lparr>db := d1\<rparr>)) (o_id order) = Some o1"
    using w inv at d1(2) by (simp_all add: unique_ids_def order_at_def)
  obtain d' where d':
    "run_state (do { r \<leftarrow> applyAffiliateRebateForOrder env order;
        case r of Inl e \<Rightarrow> State_Monad.return (Inl e) | Inr _ \<Rightarrow> markCompleted order lease action })
       (w\<lparr>db := d1\<rparr>) = (Inr (), w\<lparr>db := d1, db := d'\<rparr>)"
    "users d' = users (db (w\<lparr>db := d1\<rparr>))"
    "map_option o_status (order_at d' (o_id order)) = Some OrderCompleted"
    by (rule finish_quiet [OF w1(1,2,3) at(2,3) ok])
  show thesis by (rule that [of d']) (use d1 d' bal in simp_all)
qed

lemma CreateCode_quiet:
  assumes w: "schedule w = []" and none: "code_at (db w) (o_recharge_code order) = None"
    and c: "TrimSpace (o_recharge_code order) = o_recharge_code order" "o_recharge_code order \<noteq> []"
      "scaled (o_amount order)" "0 < o_amount order"
  obtains d' i where "run_state (CreateCode (new_code (o_recharge_code order) (o_amount order))) w =
      (Inr (), w\<lparr>db := d'\<rparr>)"
    "orders d' = orders (db w)" "users d' = users (db w)"
    "code_at d' (o_recharge_code order) = Some (new_code (o_recharge_code order) (o_amount order)\<lparr>rc_id := i\<rparr>)"
proof -
  let ?c = "new_code (o_recharge_code order) (o_amount order)"
  let ?d = "snd (insert_code ?c (clock w) (db w))"
  have n: "rc_code ?c = o_recharge_code order" "rc_type ?c = RedeemTypeBalance" "rc_value ?c = o_amount order"
    "?c\<lparr>rc_code := o_recharge_code order\<rparr> = ?c" "\<not> code_expired t ?c" for t
    by (simp_all add: new_code_def code_expired_def)
  have free: "\<not> (\<exists>r' \<in> set (codes (db w)). rc_code r' = rc_code ?c)"
    using none by (auto simp: code_at_def find_None n)
  have run: "run_state (CreateCode ?c) w = (Inr (), w\<lparr>db := ?d\<rparr>)"
    using w c free by (simp add: CreateCode_def n run_call_quiet insert_code_def Let_def RedeemTypeBalance_def)
  have at: "code_at ?d (o_recharge_code order) = Some (?c\<lparr>rc_id := next_code_id (db w)\<rparr>)"
    using free none c(3) by (simp add: insert_code_def code_at_def find_append n column_id)
  show thesis by (rule that [OF run _ _ at]) (use free in \<open>simp_all add: insert_code_def\<close>)
qed

lemma doBalance_quiet:
  assumes w: "schedule w = []" and inv: "unique_ids (db w)"
    and at: "order_at (db w) (o_id order) = Some o1" "o_status o1 = OrderRecharging" "o_updated_at o1 = lease"
    and ok: "\<And>amount t x. accrue_rebate env (o_user order) amount (o_id order) t x \<noteq> None"
    and can: "can_credit env (clock w) order (db w)" and u: "users (db w) (o_user order) = Some u"
  obtains d' where "run_state (doBalance env order lease) w = (Inr (), w\<lparr>db := d'\<rparr>)"
    "map_option balance (users d' (o_user order)) = Some (credited (pending_credit order (db w)) u)"
    "map_option o_status (order_at d' (o_id order)) = Some OrderCompleted"
proof (cases "code_at (db w) (o_recharge_code order)")
  case None
  with can have c: "TrimSpace (o_recharge_code order) = o_recharge_code order" "o_recharge_code order \<noteq> []"
    "scaled (o_amount order)" "0 < o_amount order" "redeem_lock env (o_recharge_code order) (clock w)"
    by (auto simp: can_credit_def)
  let ?c = "new_code (o_recharge_code order) (o_amount order)"
  from CreateCode_quiet [OF w None c(1-4)] obtain d1 i where d1:
    "run_state (CreateCode ?c) w = (Inr (), w\<lparr>db := d1\<rparr>)" "orders d1 = orders (db w)"
    "users d1 = users (db w)" "code_at d1 (o_recharge_code order) = Some (?c\<lparr>rc_id := i\<rparr>)" by metis
  have w1: "schedule (w\<lparr>db := d1\<rparr>) = []" "unique_ids (db (w\<lparr>db := d1\<rparr>))"
    "order_at (db (w\<lparr>db := d1\<rparr>)) (o_id order) = Some o1"
    "code_at (db (w\<lparr>db := d1\<rparr>)) (o_recharge_code order) = Some (?c\<lparr>rc_id := i\<rparr>)"
    "redeem_lock env (o_recharge_code order) (clock (w\<lparr>db := d1\<rparr>))"
    "users (db (w\<lparr>db := d1\<rparr>)) (o_user order) = Some u"
    using w inv at d1 c(5) u by (simp_all add: unique_ids_def order_at_def)
  have new: "rc_status (?c\<lparr>rc_id := i\<rparr>) = CodeUnused" "\<not> code_expired t (?c\<lparr>rc_id := i\<rparr>)"
    "rc_type (?c\<lparr>rc_id := i\<rparr>) = RedeemTypeBalance" "0 \<le> rc_value (?c\<lparr>rc_id := i\<rparr>)"
    "rc_value (?c\<lparr>rc_id := i\<rparr>) = o_amount order" for t
    using c(4) by (simp_all add: new_code_def code_expired_def)
  from redeem_finish_quiet [OF w1(1-3) at(2,3) ok w1(4) new(1-4) w1(5,6), of "''RECHARGE_SUCCESS''"]
  obtain d' where d': "run_state (do { r \<leftarrow> redeemForPaymentFulfillment env (o_user order) (o_recharge_code order);
        case r of
          Inl e \<Rightarrow> State_Monad.return (Inl e)
        | Inr _ \<Rightarrow> do {
            r \<leftarrow> applyAffiliateRebateForOrder env order;
            case r of Inl e \<Rightarrow> State_Monad.return (Inl e)
            | Inr _ \<Rightarrow> markCompleted order lease ''RECHARGE_SUCCESS'' }}) (w\<lparr>db := d1\<rparr>) =
      (Inr (), w\<lparr>db := d1, db := d'\<rparr>)"
    "map_option balance (users d' (o_user order)) = Some (column 8 (balance u + o_amount order))"
    "map_option o_status (order_at d' (o_id order)) = Some OrderCompleted"
    unfolding new(5) by blast
  show thesis
    by (rule that [of d'])
      (use w d1 d' None in \<open>simp_all add: doBalance_def GetByCode_quiet resolveRedeemAction_def
         pending_credit_def credited_def\<close>)
next
  case (Some c)
  with can have val: "validatePaymentRedeemCode (pe_arith env) order c" by (simp add: can_credit_def)
  have ty: "rc_type c = RedeemTypeBalance" "rc_status c \<in> {CodeUnused, CodeUsed}"
    using val by (auto simp: validatePaymentRedeemCode_def split: if_splits code_status.splits)
  show thesis
  proof (cases "rc_status c = CodeUsed")
    case True
    from finish_quiet [OF w inv at ok, of "''RECHARGE_SUCCESS''"] obtain d' where d':
      "run_state (do { r \<leftarrow> applyAffiliateRebateForOrder env order;
          case r of Inl e \<Rightarrow> State_Monad.return (Inl e)
          | Inr _ \<Rightarrow> markCompleted order lease ''RECHARGE_SUCCESS'' }) w = (Inr (), w\<lparr>db := d'\<rparr>)"
      "users d' = users (db w)" "map_option o_status (order_at d' (o_id order)) = Some OrderCompleted"
      by blast
    show thesis
      by (rule that [of d'])
        (use w d' Some True val u in \<open>simp_all add: doBalance_def GetByCode_quiet resolveRedeemAction_def
           pending_credit_def credited_def\<close>)
  next
    case False
    with ty have un: "rc_status c = CodeUnused" by simp
    with can Some False have c: "\<not> code_expired (clock w) c" "0 \<le> rc_value c"
      "redeem_lock env (o_recharge_code order) (clock w)" by (auto simp: can_credit_def)
    from redeem_finish_quiet [OF w inv at ok Some un c(1) ty(1) c(2,3) u, of "''RECHARGE_SUCCESS''"]
    obtain d' where d': "run_state (do { r \<leftarrow> redeemForPaymentFulfillment env (o_user order) (o_recharge_code order);
          case r of
            Inl e \<Rightarrow> State_Monad.return (Inl e)
          | Inr _ \<Rightarrow> do {
              r \<leftarrow> applyAffiliateRebateForOrder env order;
              case r of Inl e \<Rightarrow> State_Monad.return (Inl e)
              | Inr _ \<Rightarrow> markCompleted order lease ''RECHARGE_SUCCESS'' }}) w = (Inr (), w\<lparr>db := d'\<rparr>)"
      "map_option balance (users d' (o_user order)) = Some (column 8 (balance u + rc_value c))"
      "map_option o_status (order_at d' (o_id order)) = Some OrderCompleted"
      by blast
    show thesis
      by (rule that [of d'])
        (use w d' Some un val in \<open>simp_all add: doBalance_def GetByCode_quiet resolveRedeemAction_def
           pending_credit_def credited_def\<close>)
  qed
qed

section \<open>Notifications in a quiet world\<close>

definition only_audits :: "'x pay_db \<Rightarrow> 'x pay_db \<Rightarrow> bool" where
  "only_audits d d' \<longleftrightarrow> orders d' = orders d \<and> codes d' = codes d \<and> users d' = users d \<and> other d' = other d"

lemma only_audits_refl [simp]: "only_audits d d"
  by (simp add: only_audits_def)

lemma instance_quiet:
  assumes "schedule w = []"
  obtains i where "run_state (getOrderProviderInstance order) w = (i, w)"
proof -
  have snap: "\<exists>i. run_state (resolveSnapshotOrderProviderInstance order s) w = (i, w)" for s
    using assms by (auto simp: resolveSnapshotOrderProviderInstance_def Let_def run_call_quiet get_instance_def
        split: option.splits)
  have legacy: "\<exists>i. run_state (resolveUniqueLegacyOrderProviderInstance order) w = (i, w)"
    using assms by (auto simp: resolveUniqueLegacyOrderProviderInstance_def Let_def run_call_quiet
        instances_where_def)
  have "\<exists>i. run_state (getOrderProviderInstance order) w = (i, w)"
    using assms snap legacy by (auto simp: getOrderProviderInstance_def Let_def run_call_quiet
        get_instance_def split: option.splits)
  with that show thesis by blast
qed

lemma refuse_quiet:
  "schedule w = [] \<Longrightarrow> run_state (refuse_notification oid action pk) w =
     (Inl OtherError, w\<lparr>db := snd (insert_audit oid action pk None (clock w) (db w))\<rparr>)"
  by (simp add: refuse_notification_def writeAuditLog_quiet)

text \<open>What a notification must satisfy to be accepted for an order.\<close>

definition agreed ::
  "'x pay_env \<Rightarrow> payment_order \<Rightarrow> string \<Rightarrow> float64 \<Rightarrow> string \<Rightarrow> (string \<times> string) list \<Rightarrow> bool" where
  "agreed env order instanceKey paid pk metadata \<longleftrightarrow>
     (let expected = expectedNotificationProviderKeyForOrder (registry_key env) order instanceKey in
      (expected = [] \<or> TrimSpace pk = [] \<or> EqualFold expected (TrimSpace pk)) \<and>
      validateProviderSnapshotMetadata order pk metadata = None \<and>
      (\<exists>amount. paid = Fin amount \<and> amount > 0 \<and>
         \<bar>fsub (pe_arith env) amount (o_pay_amount order)\<bar>
           \<le> paymentAmountToleranceForCurrency (PaymentOrderCurrency order)))"

definition instance_key :: "pay_error + provider_instance option \<Rightarrow> string" where
  "instance_key i = (case i of Inr (Some inst) \<Rightarrow> inst_provider_key inst | _ \<Rightarrow> [])"

lemma confirm_quiet:
  assumes w: "schedule w = []" and at: "order_at (db w) oid = Some order"
    and i: "run_state (getOrderProviderInstance order) w = (i, w)"
  shows "(agreed env order (instance_key i) paid pk metadata \<and>
          (\<exists>amount. paid = Fin amount \<and>
             run_state (confirmPayment env oid tradeNo paid pk metadata) w =
             run_state (toPaid env order tradeNo amount pk) w)) \<or>
         (\<not> agreed env order (instance_key i) paid pk metadata \<and>
          (\<exists>d'. run_state (confirmPayment env oid tradeNo paid pk metadata) w = (Inl OtherError, w\<lparr>db := d'\<rparr>) \<and>
             only_audits (db w) d'))"
  using w at i
  by (cases paid)
    (auto simp: confirmPayment_def fetch_order_quiet agreed_def instance_key_def [symmetric] Let_def
       run_state_if refuse_quiet isValidProviderAmount_def only_audits_def)

lemma toPaid_done:
  assumes w: "schedule w = []" and ids: "unique_ids (db w)"
    and at: "order_at (db w) (o_id order) = Some order" and ph: "phase (o_status order) = 2"
  shows "run_state (toPaid env order tradeNo amount pk) w = (Inr (), w)"
proof -
  have s: "o_status order \<notin> {OrderPending, OrderCancelled, OrderExpired, OrderPaid, OrderRecharging, OrderFailed}"
    using ph by (auto simp: phase_def)
  have "\<forall>o' \<in> set (orders (db w)). \<not> (o_id o' = o_id order \<and>
      (o_status o' = OrderPending \<or> o_status o' = OrderCancelled \<or>
       (o_status o' = OrderExpired \<and> o_updated_at o' \<ge> grace)))" for grace
    using order_at_unique [OF ids at] s by auto
  then have "update_to_paid (o_id order) grace amount tradeNo t now (db w) = (0, db w)" for grace t now
    unfolding update_to_paid_def by (simp add: update_orders_nothing)
  then show ?thesis using w at s
    by (auto simp: toPaid_def run_call_quiet alreadyProcessed_def fetch_order_quiet Let_def)
qed

section \<open>Properties\<close>

lemma not_refund_status: "lease_free t order \<Longrightarrow> \<not> psIsRefundStatus (o_status order) \<and>
    fulfillable (o_status order) \<and> o_status order \<noteq> OrderCompleted"
  by (auto simp: lease_free_def psIsRefundStatus_def fulfillable_def)

text \<open>
  C3. A paid order gets completed and credited. Left alone, fulfilment of a balance order that is paid, has
  failed or was abandoned completes it from whatever an earlier attempt left behind, and credits what
  was still to be credited: the amount, the value of the waiting code, or nothing when the code had
  already been redeemed.
\<close>

theorem paid_order_completes:
  assumes "schedule w = []" and "unique_ids (db w)"
    and "order_at (db w) oid = Some order" and "o_type order \<noteq> OrderTypeSubscription"
    and "lease_free (clock w) order" and "can_credit env (clock w) order (db w)"
    and "users (db w) (o_user order) = Some u"
    and "\<And>amount t x. accrue_rebate env (o_user order) amount oid t x \<noteq> None"
  shows "\<exists>w'. run_state (executeFulfillment env oid) w = (Inr (), w') \<and>
           map_option o_status (order_at (db w') oid) = Some OrderCompleted \<and>
           map_option balance (users (db w') (o_user order)) =
             Some (credited (pending_credit order (db w)) u)"
proof -
  have id: "o_id order = oid" using order_at_in [OF assms(3)] by simp
  have at: "order_at (db w) (o_id order) = Some order" using assms(3) id by simp
  obtain d1 where d1: "run_state (acquirePaymentFulfillmentLease order) w =
      (Inr (Some (lease_time (clock w))), w\<lparr>db := d1\<rparr>)"
    "same_money (db w) d1" "order_at d1 (o_id order) = Some (leased (clock w) order)" "unique_ids d1"
    by (rule acquire_quiet [OF assms(1,2) at assms(5)])
  have code: "code_at d1 c = code_at (db w) c" for c using d1(2) by (simp add: same_money_def code_at_def)
  have w1: "schedule (w\<lparr>db := d1\<rparr>) = []" "unique_ids (db (w\<lparr>db := d1\<rparr>))"
    "order_at (db (w\<lparr>db := d1\<rparr>)) (o_id order) = Some (leased (clock w) order)"
    "o_status (leased (clock w) order) = OrderRecharging"
    "o_updated_at (leased (clock w) order) = lease_time (clock w)"
    "can_credit env (clock (w\<lparr>db := d1\<rparr>)) order (db (w\<lparr>db := d1\<rparr>))"
    "users (db (w\<lparr>db := d1\<rparr>)) (o_user order) = Some u"
    using assms(1,6,7) d1 by (simp_all add: leased_def can_credit_def code same_money_def)
  obtain d' where d': "run_state (doBalance env order (lease_time (clock w))) (w\<lparr>db := d1\<rparr>) =
      (Inr (), w\<lparr>db := d1, db := d'\<rparr>)"
    "map_option balance (users d' (o_user order)) = Some (credited (pending_credit order (db (w\<lparr>db := d1\<rparr>))) u)"
    "map_option o_status (order_at d' (o_id order)) = Some OrderCompleted"
    by (rule doBalance_quiet [OF w1(1-5) assms(8) [folded id] w1(6,7)])
  have "run_state (executeFulfillment env oid) w = (Inr (), w\<lparr>db := d'\<rparr>)"
    using not_refund_status [OF assms(5)] assms(1,3,4) d1(1) d'(1)
    by (simp add: executeFulfillment_def ExecuteBalanceFulfillment_def fetch_order_quiet)
  moreover have "pending_credit order d1 = pending_credit order (db w)" by (simp add: pending_credit_def code)
  ultimately show ?thesis using d'(2,3) id by auto
qed

lemma demo_rate [simp]: "accrue_rebate demo_env u v i t x \<noteq> None"
  by (simp add: demo_env_def)

lemma demo_unique [simp]: "unique_ids (demo_db b [order] cs)"
  by (simp add: demo_db_def unique_ids_def)

lemma demo_at [simp]: "order_at (demo_db b [demo_order s] cs) 7 = Some (demo_order s)"
  by (simp add: demo_db_def demo_order_def order_at_def)

theorem paid_order_completes_witness:
  "\<exists>w'. run_state (executeFulfillment demo_env 7) (quiet 5000 (demo_db 4 [demo_order OrderPaid] [])) = (Inr (), w') \<and>
     map_option o_status (order_at (db w') 7) = Some OrderCompleted \<and>
     map_option balance (users (db w') 1) = Some 14"
proof -
  let ?w = "quiet 5000 (demo_db 4 [demo_order OrderPaid] [])"
  have code: "TrimSpace ''PAY7'' = ''PAY7''" by code_simp
  have credit: "can_credit demo_env (clock ?w) (demo_order OrderPaid) (db ?w)"
    by (simp add: can_credit_def code_at_def demo_defs code scaled_def)
  have "\<exists>w'. run_state (executeFulfillment demo_env 7) ?w = (Inr (), w') \<and>
      map_option o_status (order_at (db w') 7) = Some OrderCompleted \<and>
      map_option balance (users (db w') (o_user (demo_order OrderPaid))) =
        Some (credited (pending_credit (demo_order OrderPaid) (db ?w)) \<lparr>balance = 4, total_recharged = 10\<rparr>)"
    by (rule paid_order_completes [OF _ _ _ _ _ credit])
      (simp_all add: lease_free_def, simp_all add: demo_defs OrderTypeSubscription_def)
  moreover have "o_user (demo_order OrderPaid) = 1" by (simp add: demo_order_def)
  moreover have "credited (pending_credit (demo_order OrderPaid) (db ?w)) \<lparr>balance = 4, total_recharged = 10\<rparr> = 14"
    by (simp add: pending_credit_def credited_def code_at_def demo_db_def)
      (simp add: demo_order_def column_id scaled_def)
  ultimately show ?thesis by simp
qed



text \<open>
  C17. A worker that lost its lease can neither complete nor fail the order: the version in its lease no
  longer matches, so both leave the tables as they are.
\<close>

theorem stale_worker_is_harmless:
  assumes "schedule w = []" and "unique_ids (db w)"
    and "order_at (db w) (o_id order) = Some o1" and "o_updated_at o1 \<noteq> lease"
    and "o_status o1 \<noteq> OrderCompleted"
  shows "run_state (markCompleted order lease action) w = (Inl (AppError ''CONFLICT''), w) \<and>
         run_state (markFailed (o_id order) lease) w = ((), w)"
proof -
  have "\<forall>o' \<in> set (orders (db w)).
      \<not> (o_id o' = o_id order \<and> o_status o' = OrderRecharging \<and> o_updated_at o' = lease)"
    using order_at_unique [OF assms(2,3)] assms(4) by auto
  then have "complete_order (o_id order) lease t now (db w) = (0, db w)"
    "fail_order (o_id order) lease t now (db w) = (0, db w)" for t now
    unfolding complete_order_def fail_order_def by (simp_all add: update_orders_nothing)
  then show ?thesis using assms(1,3,5)
    by (simp add: markCompleted_def markFailed_def run_call_quiet fetch_order_quiet)
qed

theorem stale_worker_is_harmless_witness:
  "run_state (markCompleted (demo_order OrderRecharging) 99 ''RECHARGE_SUCCESS'')
     (quiet 5000 (demo_db 4 [demo_order OrderRecharging] [])) =
     (Inl (AppError ''CONFLICT''), quiet 5000 (demo_db 4 [demo_order OrderRecharging] []))"
  by (rule stale_worker_is_harmless [where ?o1.0 = "demo_order OrderRecharging", THEN conjunct1])
    (simp_all add: demo_db_def unique_ids_def order_at_def demo_order_def)

lemma only_match:
  assumes "orders_by_out_trade_no no t d = ([order], d)"
  shows "filter (\<lambda>o'. o_out_trade_no o' = no) (orders d) = [order]"
    and "unique_ids d \<Longrightarrow> order_at d (o_id order) = Some order"
proof -
  show f: "filter (\<lambda>o'. o_out_trade_no o' = no) (orders d) = [order]"
    using assms by (simp add: orders_by_out_trade_no_def)
  have "order \<in> set (filter (\<lambda>o'. o_out_trade_no o' = no) (orders d))" unfolding f by simp
  then have mem: "order \<in> set (orders d)" by simp
  assume ids: "unique_ids d"
  from mem obtain o' where o': "order_at d (o_id order) = Some o'"
    unfolding order_at_def by (metis (mono_tags, lifting) find_None not_None_eq)
  with order_at_unique [OF ids o' mem] show "order_at d (o_id order) = Some order" by simp
qed

text \<open>
  C19. A notification that is delivered again, or invented, after the order has been fulfilled (or is being
  refunded) changes nothing but the audit log: no order, no code, no balance.
\<close>

theorem redelivered_notification:
  assumes "schedule w = []" and "unique_ids (db w)"
    and "orders_by_out_trade_no (n_order_id n) t (db w) = ([order], db w)"
    and "phase (o_status order) = 2"
    and "run_state (HandlePaymentNotification env n pk) w = (r, w')"
  shows "orders (db w') = orders (db w) \<and> codes (db w') = codes (db w) \<and>
         users (db w') = users (db w) \<and> other (db w') = other (db w)"
proof -
  note f = only_match(1) [OF assms(3)] and at = only_match(2) [OF assms(3,2)]
  obtain i where i: "run_state (getOrderProviderInstance order) w = (i, w)"
    by (rule instance_quiet [OF assms(1)])
  show ?thesis
    using assms(1,5) f confirm_quiet [OF assms(1) at i, of env "n_amount n" pk "n_metadata n" "n_trade_no n"]
      toPaid_done [OF assms(1,2) at assms(4)]
    by (auto simp: HandlePaymentNotification_def run_call_quiet orders_by_out_trade_no_def only_audits_def
        split: if_splits)
qed

theorem redelivered_notification_witness:
  "users (db (snd (run_state (HandlePaymentNotification demo_env (demo_notification 10) ''stripe'')
      (quiet 5000 (demo_db 4 [demo_order OrderRefunded] [demo_code CodeUsed]))))) =
   users (demo_db 4 [demo_order OrderRefunded] [demo_code CodeUsed])"
proof -
  let ?w = "quiet 5000 (demo_db 4 [demo_order OrderRefunded] [demo_code CodeUsed])"
  obtain r w' where run: "run_state (HandlePaymentNotification demo_env (demo_notification 10) ''stripe'') ?w = (r, w')"
    by fastforce
  have "users (db w') = users (db ?w)"
    by (rule redelivered_notification [where order = "demo_order OrderRefunded" and t = 0, OF _ _ _ _ run,
          THEN conjunct2, THEN conjunct2, THEN conjunct1])
      (simp_all add: orders_by_out_trade_no_def phase_def demo_defs unique_ids_def)
  then show ?thesis by (simp add: run)
qed



end
