(* ===== verification/Payment_Service.thy ===== *)
theory Payment_Service
  imports Payment_Refund_Safety Payment_Progress
begin

text \<open>
  The payment service as a whole: every request and background job that touches orders, one after
  another, each among any other requests that respect the contract and with any statement or reply lost
  on the way (a worker that dies is one that loses all its later statements).
\<close>

section \<open>Requests and jobs\<close>

text \<open>\<open>PaymentHandler.ProcessRefund\<close> of the administration: plan, then execute.\<close>

definition ProcessRefund ::
  "'x pay_env \<Rightarrow> 'x sub_env \<Rightarrow> int \<Rightarrow> float64 \<Rightarrow> string \<Rightarrow> bool \<Rightarrow> bool
   \<Rightarrow> ('x, pay_error + refund_result) gw_prog" where
  "ProcessRefund env se oid amt reason force deduct = do {
     r \<leftarrow> PrepareRefund env se oid amt reason force deduct;
     case r of
       Inl e \<Rightarrow> State_Monad.return (Inl e)
     | Inr (Inl early) \<Rightarrow> State_Monad.return (Inr early)
     | Inr (Inr plan) \<Rightarrow> ExecuteRefund env se plan}"

datatype operation =
    Notification notification string
  | Retry int
  | UserCancel int int
  | AdminCancel int
  | ExpireJob
  | ReconcileJob
  | Verify string int
  | VerifyPublic string
  | AskRefund int int string
  | AdminRefund int float64 string bool bool
  | ConfirmRefund int

definition ignore :: "('w, 'a) state \<Rightarrow> ('w, unit) state" where
  "ignore m = do { _ \<leftarrow> m; State_Monad.return () }"

fun perform :: "'x pay_env \<Rightarrow> 'x sub_env \<Rightarrow> operation \<Rightarrow> ('x, unit) gw_prog" where
  "perform env se (Notification n pk) = ignore (HandlePaymentNotification env n pk)"
| "perform env se (Retry oid) = ignore (RetryFulfillment env oid)"
| "perform env se (UserCancel oid uid) = ignore (CancelOrder env oid uid)"
| "perform env se (AdminCancel oid) = ignore (AdminCancelOrder env oid)"
| "perform env se ExpireJob = ignore (ExpireTimedOutOrders env)"
| "perform env se ReconcileJob = ignore (ReconcilePendingPaymentOrders env)"
| "perform env se (Verify no uid) = ignore (VerifyOrderByOutTradeNo env no uid)"
| "perform env se (VerifyPublic no) = ignore (VerifyOrderPublic no)"
| "perform env se (AskRefund oid uid reason) = ignore (RequestRefund oid uid reason)"
| "perform env se (AdminRefund oid amt reason force deduct) =
     ignore (ProcessRefund env se oid amt reason force deduct)"
| "perform env se (ConfirmRefund oid) = ignore (QueryAndFinalizeRefund env se oid)"

text \<open>Only executing a refund can give money back outside a redeem code: its rollback does.\<close>

fun may_roll_back :: "operation \<Rightarrow> bool" where
  "may_roll_back (AdminRefund _ _ _ _ _) = True"
| "may_roll_back _ = False"

section \<open>Every operation respects the contract\<close>

lemma ignore_obeys: "obeys (pay_guar b a) P m (\<lambda>_. P) \<Longrightarrow> obeys (pay_guar b a) P (ignore m) (\<lambda>_. P)"
  unfolding ignore_def by (rule pay.obeys_bind pay.obeys_return | assumption)+

lemma VerifyOrderPublic_obeys:
  assumes P: "stable (pay_guar b a) P"
  shows "obeys (pay_guar b a) P (VerifyOrderPublic raw) (\<lambda>_. P)"
  unfolding VerifyOrderPublic_def
  by (rule pay.obeys_option pay.obeys_return pay.obeys_bind [OF query_obeys [OF P]] | assumption
      | simp add: orders_by_out_trade_no_def)+

lemma ProcessRefund_obeys:
  assumes P: "stable (pay_guar False a) P"
  shows "obeys (pay_guar False a) P (ProcessRefund env se oid amt reason force deduct) (\<lambda>_. P)"
  unfolding ProcessRefund_def
  by (rule pay.obeys_bind [OF PrepareRefund_obeys [OF P]] pay.obeys_sum pay.obeys_return
        ExecuteRefund_obeys [OF P] | assumption)+

lemma perform_obeys:
  assumes a: "pe_arith env = a" and b: "b \<Longrightarrow> \<not> may_roll_back op"
  shows "obeys (pay_guar b a) (pay_inv a) (perform env se op) (\<lambda>_. pay_inv a)"
proof (cases op)
  case (AdminRefund oid amt reason force deduct)
  with b show ?thesis
    by (cases b) (auto intro: ignore_obeys ProcessRefund_obeys inv_stable)
qed (auto intro!: ignore_obeys HandlePaymentNotification_obeys [OF inv_stable _ a]
    RetryFulfillment_obeys [OF inv_stable _ a] cancel_entry_obeys [OF inv_stable _ a]
    ExpireTimedOutOrders_obeys [OF inv_stable _ a] ReconcilePendingPaymentOrders_obeys [OF inv_stable _ a]
    VerifyOrderByOutTradeNo_obeys [OF inv_stable _ a] VerifyOrderPublic_obeys RequestRefund_obeys
    QueryAndFinalizeRefund_obeys inv_stable)

section \<open>Histories\<close>

text \<open>
  \<open>history env se b d d'\<close>: the tables went from \<open>d\<close> to \<open>d'\<close> through any number of operations, none of
  which may roll back a refund if \<open>b\<close> is set. Between two operations, as within them, others act.
\<close>

inductive history ::
  "'x pay_env \<Rightarrow> 'x sub_env \<Rightarrow> bool \<Rightarrow> 'x pay_db \<Rightarrow> 'x pay_db \<Rightarrow> bool"
  for env se b d0
where
  start: "history env se b d0 d0"
| operate: "history env se b d0 (db w) \<Longrightarrow> (b \<Longrightarrow> \<not> may_roll_back op) \<Longrightarrow>
     rely_ok (pay_guar b (pe_arith env)) w \<Longrightarrow> run_state (perform env se op) w = ((), w') \<Longrightarrow>
     history env se b d0 (db w')"

lemma history_guar:
  assumes "history env se b d0 d" "pay_inv (pe_arith env) d0"
  shows "pay_guar b (pe_arith env) d0 d \<and> pay_inv (pe_arith env) d"
  using assms(1)
proof induction
  case start
  then show ?case using assms(2) pay.refl by blast
next
  case (operate w op w')
  have "pay_inv (pe_arith env) (db w)" using operate.IH by blast
  note step = obeysD [OF perform_obeys [OF HOL.refl operate.hyps(2)] operate.hyps(3) this operate.hyps(4)]
  show ?case using pay.trans [OF _ step(2)] operate.IH step(3) by blast
qed

text \<open>For the witnesses: a notification arrives while the order is being cancelled by another request.\<close>

definition demo_subs :: "'x sub_env" where
  "demo_subs =
     \<lparr>active_subscription = (\<lambda>_ _ _. None), extend_subscription = (\<lambda>_ _ _ x. Inr x),
      revoke_subscription = (\<lambda>_ _ x. Some x)\<rparr>"

definition pay_world :: "int \<Rightarrow> 'x pay_db event list \<Rightarrow> 'x pay_db \<Rightarrow> refund_reply list
    \<Rightarrow> (unit + string \<times> string) list \<Rightarrow> 'x pay_world" where
  "pay_world t es d rs qs =
     \<lparr>db = d, schedule = es, clock = t, query_replies = [], refund_replies = rs,
      refund_query_replies = qs, gw_calls = []\<rparr>"

definition demo_race :: "unit pay_world" where
  "demo_race =
     pay_world 5000
       [calm, calm, calm,
        \<lparr>ev_fault = Fine, ev_elapsed = 10, ev_others = (\<lambda>d. snd (cancel_pending 7 OrderCancelled 5005 d))\<rparr>]
       (demo_db 4 [demo_order OrderPending] []) [] []"

lemma demo_rely: "rely_ok (pay_guar b exact) demo_race"
  by (auto simp: rely_ok_def demo_race_def pay_world_def calm_def pay.refl intro: guar_cancel_pending)

lemma demo_race_db: "db demo_race = demo_db 4 [demo_order OrderPending] []"
  by (simp add: demo_race_def pay_world_def)

lemma demo_arith: "pe_arith demo_env = exact"
  by (simp add: demo_env_def)

lemma demo_pay_inv: "pay_inv exact (demo_db 4 [demo_order OrderPending] [])"
proof -
  have "TrimSpace ''PAY7'' = ''PAY7''" by code_simp
  then show ?thesis by (simp add: pay_inv_def demo_db_def demo_order_def phase_def scaled_def)
qed

abbreviation demo_after :: "unit pay_db" where
  "demo_after \<equiv>
     db (snd (run_state (perform demo_env demo_subs (Notification (demo_notification 10) ''stripe'')) demo_race))"

lemma demo_history: "history demo_env demo_subs b (demo_db 4 [demo_order OrderPending] []) demo_after"
proof (rule history.operate)
  let ?op = "Notification (demo_notification 10) ''stripe''"
  show "history demo_env demo_subs b (demo_db 4 [demo_order OrderPending] []) (db demo_race)"
    unfolding demo_race_db by (rule history.start)
  show "\<not> may_roll_back ?op" by simp
  show "run_state (perform demo_env demo_subs ?op) demo_race =
      ((), snd (run_state (perform demo_env demo_subs ?op) demo_race))"
    by (rule prod_eqI) simp_all
qed (simp add: demo_arith demo_rely)

text \<open>
  C1. Money for value, always. Whatever requests, notifications and jobs run, interleave, fail or die, an
  order that counts as fulfilled (completed, or in a refund status) has been fulfilled: its redeem code
  was redeemed by its user for its amount, or its subscription was recorded as assigned. And an order
  never falls back to an earlier phase, so a paid one never becomes pending, cancelled or expired again,
  and a completed one is never fulfilled a second time.
\<close>

theorem service_invariant:
  assumes "history env se b d0 d" and "pay_inv (pe_arith env) d0"
  shows "(\<forall>order \<in> set (orders d). phase (o_status order) = 2 \<longrightarrow> fulfilled (pe_arith env) order d) \<and>
         (\<forall>o1 \<in> set (orders d0). \<exists>o2 \<in> set (orders d).
            terms o2 = terms o1 \<and> phase (o_status o1) \<le> phase (o_status o2))"
proof -
  have "pay_inv (pe_arith env) d" "keeps_orders d0 d"
    using history_guar [OF assms] by (auto simp: pay_guar_def)
  then show ?thesis by (force simp: pay_inv_def keeps_orders_def later_status_def)
qed

theorem service_invariant_witness:
  "\<exists>order \<in> set (orders demo_after). o_status order = OrderCompleted \<and> fulfilled exact order demo_after"
proof -
  have "map o_status (orders demo_after) = [OrderCompleted]" by code_simp
  then obtain order where "order \<in> set (orders demo_after)" "o_status order = OrderCompleted" by auto
  with service_invariant [OF demo_history, unfolded demo_arith, OF demo_pay_inv] show ?thesis
    by (auto simp: phase_def)
qed



end
