(* ===== verification/Payment_Refund_Outcome.thy ===== *)
theory Payment_Refund_Outcome
  imports Payment_Service
begin

text \<open>
  Refunds of balance orders when nothing interferes: the gateway may answer anything, but the world is
  quiet. The balance is taken exactly when the refund is recorded as made. Then runs in which statements
  are lost, where that breaks.
\<close>

section \<open>The steps in a quiet world\<close>

lemma only_audits_insert [simp]: "only_audits d (snd (insert_audit oid action op detail now d))"
  by (simp add: only_audits_def)

lemma only_audits_trans: "only_audits d1 d2 \<Longrightarrow> only_audits d2 d3 \<Longrightarrow> only_audits d1 d3"
  by (simp add: only_audits_def)

lemma order_at_audits: "only_audits d d' \<Longrightarrow> order_at d' oid = order_at d oid"
  by (simp add: only_audits_def order_at_def)

lemma getRefundProvider_quiet:
  assumes "schedule w = []"
  obtains i where "run_state (getRefundProvider env order) w = (i, w)"
proof -
  have snap: "\<exists>i. run_state (resolveSnapshotOrderProviderInstance order s) w = (i, w)" for s
    using assms by (auto simp: resolveSnapshotOrderProviderInstance_def Let_def run_call_quiet get_instance_def
        split: option.splits)
  have "\<exists>i. run_state (getRefundOrderProviderInstance order) w = (i, w)"
    using assms snap by (auto simp: getRefundOrderProviderInstance_def Let_def run_call_quiet get_instance_def
        split: option.splits)
  then have "\<exists>i. run_state (getRefundProvider env order) w = (i, w)"
    by (auto simp: getRefundProvider_def)
  with that show thesis by blast
qed

lemma gwRefund_quiet:
  assumes w: "schedule w = []" and run: "run_state (gwRefund env p) w = (g, w')"
  shows "schedule w' = [] \<and> clock w' = clock w \<and> only_audits (db w) (db w')"
proof -
  obtain i where i: "run_state (getRefundProvider env (plan_order p)) w = (i, w)"
    by (rule getRefundProvider_quiet [OF w])
  show ?thesis
    using run w i
    by (auto simp: gwRefund_def Let_def writeAuditLog_quiet run_state_if gw_Refund_def split: if_splits sum.splits)
qed

lemma order_at_one:
  assumes "\<And>o'. o_id (f o') = o_id o'" "order_at d oid = Some order"
  shows "order_at (snd (update_orders (\<lambda>o'. o_id o' = oid) f now d)) oid = Some (f (order\<lparr>o_updated_at := now\<rparr>))"
  using assms(2) order_at_in [OF assms(2)] by (simp add: order_at_update assms(1))

lemma count_one:
  assumes "order_at d oid = Some order"
  shows "fst (update_orders (\<lambda>o'. o_id o' = oid) f now d) > 0"
  using order_at_in [OF assms] by (auto simp: fst_update_orders filter_empty_conv)

text \<open>\<open>settles w m oid s us\<close>: run in \<open>w\<close>, the step \<open>m\<close> leaves the order in \<open>s\<close> and the users \<open>us\<close>.\<close>

definition leaves ::
  "('x pay_db, 'z) shared_scheme \<Rightarrow> int \<Rightarrow> order_status \<Rightarrow> (int \<Rightarrow> pay_user option) \<Rightarrow> bool" where
  "leaves w oid s us \<longleftrightarrow> map_option o_status (order_at (db w) oid) = Some s \<and> users (db w) = us"

definition restored :: "refund_plan \<Rightarrow> pay_user \<Rightarrow> pay_user" where
  "restored p u =
     (if BalanceToDeduct p > 0
      then u\<lparr>balance := column 8 (balance u + BalanceToDeduct p),
             total_recharged := column 8 (total_recharged u + BalanceToDeduct p)\<rparr>
      else u)"

lemma RollbackRefund_quiet:
  assumes "schedule w = []" "DeductionType p = DeductionBalance" "users (db w) (o_user (plan_order p)) = Some u"
  obtains d' where "run_state (RollbackRefund se p) w = (True, w\<lparr>db := d'\<rparr>)" "orders d' = orders (db w)"
    "users d' = (users (db w))(o_user (plan_order p) \<mapsto> restored p u)"
proof (cases "BalanceToDeduct p > 0")
  case True
  then show thesis
    using assms that [of "snd (update_balance (o_user (plan_order p)) (BalanceToDeduct p) (clock w) (db w))"]
    by (simp add: RollbackRefund_def run_call_quiet update_balance_def restored_def)
next
  case False
  then show thesis using assms(2,3) that [of "db w"]
    by (simp add: RollbackRefund_def restored_def fun_upd_idem)
qed

lemma restoreStatus_quiet:
  "schedule w = [] \<Longrightarrow> run_state (restoreStatus p) w = ((), w\<lparr>db := snd (set_status (plan_order_id p)
     (if o_status (plan_order p) = OrderRefundRequested then OrderRefundRequested else OrderCompleted)
     (clock w) (db w))\<rparr>)"
  by (simp add: restoreStatus_def run_call_quiet)

lemma handleGwFail_quiet:
  assumes w: "schedule w = []" and t: "DeductionType p = DeductionBalance"
    and u: "users (db w) (o_user (plan_order p)) = Some u"
    and at: "order_at (db w) (plan_order_id p) = Some order"
    and run: "run_state (handleGwFail se p) w = (r, w')"
  shows "r = Inr (refused False) \<and>
         leaves w' (plan_order_id p)
           (if o_status (plan_order p) = OrderRefundRequested then OrderRefundRequested else OrderCompleted)
           ((users (db w))(o_user (plan_order p) \<mapsto> restored p u))"
proof -
  obtain d' where d': "run_state (RollbackRefund se p) w = (True, w\<lparr>db := d'\<rparr>)"
    "orders d' = orders (db w)" "users d' = (users (db w))(o_user (plan_order p) \<mapsto> restored p u)"
    by (rule RollbackRefund_quiet [OF w t u])
  have at': "order_at d' (plan_order_id p) = Some order" using at d'(2) by (simp add: order_at_def)
  show ?thesis
    using run w d' order_at_one [OF _ at', of "\<lambda>o'. o'\<lparr>o_status := s\<rparr>" for s]
    by (auto simp: handleGwFail_def restoreStatus_quiet writeAuditLog_quiet leaves_def set_status_def order_at_def)
qed

lemma markRefundOk_quiet:
  assumes w: "schedule w = []" and at: "order_at (db w) (plan_order_id p) = Some order"
    and run: "run_state (markRefundOk p) w = (r, w')"
  shows "r = Inr (refunded p) \<and> leaves w' (plan_order_id p) (refund_status p) (users (db w))"
  using run w count_one [OF at] order_at_one [OF _ at]
  by (auto simp: markRefundOk_def update_one_def run_call_quiet writeAuditLog_quiet leaves_def set_refunded_def
      order_at_def)

lemma markRefundPending_quiet:
  assumes w: "schedule w = []" and t: "DeductionType p = DeductionBalance"
    and u: "users (db w) (o_user (plan_order p)) = Some u"
    and at: "order_at (db w) (plan_order_id p) = Some order"
    and run: "run_state (markRefundPending se p i) w = (r, w')"
  shows "r = Inr (refused False) \<and>
         leaves w' (plan_order_id p) OrderRefundPending ((users (db w))(o_user (plan_order p) \<mapsto> restored p u))"
proof -
  obtain d' where d': "run_state (RollbackRefund se p) w = (True, w\<lparr>db := d'\<rparr>)"
    "orders d' = orders (db w)" "users d' = (users (db w))(o_user (plan_order p) \<mapsto> restored p u)"
    by (rule RollbackRefund_quiet [OF w t u])
  have at': "order_at d' (plan_order_id p) = Some order" using at d'(2) by (simp add: order_at_def)
  show ?thesis
    using run w d' count_one [OF at'] order_at_one [OF _ at']
    by (auto simp: markRefundPending_def update_one_def run_call_quiet writeAuditLog_quiet leaves_def
        set_refund_pending_def order_at_def)
qed

text \<open>\<open>ExecuteRefund\<close> of a balance plan: after the lock and the deduction only the gateway decides.\<close>

definition deducts :: "refund_plan \<Rightarrow> pay_user \<Rightarrow> bool" where
  "deducts p u \<longleftrightarrow>
     DeductionType p = DeductionBalance \<and> 0 < BalanceToDeduct p \<and> BalanceToDeduct p \<le> balance u \<and>
     scaled (BalanceToDeduct p) \<and> scaled (balance u)"

lemma deduct_balance_quiet:
  assumes w: "schedule w = []" and d: "deducts p u"
    and u: "users (db w) (o_user (plan_order p)) = Some u"
    and fresh: "\<not> audit_exists (plan_order_id p) {''REFUND_ROLLBACK_FAILED''} (db w)"
  obtains d' where "run_state (deduct_balance p) w = (Inr p, w\<lparr>db := d'\<rparr>)" "orders d' = orders (db w)"
    "users d' = (users (db w))(o_user (plan_order p) \<mapsto> u\<lparr>balance := balance u - BalanceToDeduct p\<rparr>)"
proof -
  have c: "column 8 (balance u - BalanceToDeduct p) = balance u - BalanceToDeduct p"
    using d by (intro column_id scaled_diff) (simp_all add: deducts_def)
  have "deduct_available (o_user (plan_order p)) (BalanceToDeduct p) (clock w) (db w) =
      (Some (BalanceToDeduct p), (db w)\<lparr>users := (users (db w))(o_user (plan_order p) \<mapsto>
         u\<lparr>balance := balance u - BalanceToDeduct p\<rparr>)\<rparr>)"
    using d u c by (simp add: deduct_available_def deducts_def Let_def)
  then have "run_state (deduct_balance p) w = (Inr p, w\<lparr>db := (db w)\<lparr>users :=
      (users (db w))(o_user (plan_order p) \<mapsto> u\<lparr>balance := balance u - BalanceToDeduct p\<rparr>)\<rparr>\<rparr>)"
    using w d fresh by (simp add: deduct_balance_def deducts_def hasAuditLog_quiet run_call_quiet run_state_if)
  then show thesis by (rule that) simp_all
qed

lemma restored_balance:
  assumes "deducts p u"
  shows "balance (restored p (u\<lparr>balance := balance u - BalanceToDeduct p\<rparr>)) = balance u"
  using assms by (simp add: restored_def deducts_def column_id)

text \<open>What the gateway's answer leads to.\<close>

definition refund_outcome :: "refund_plan \<Rightarrow> pay_user \<Rightarrow> order_status \<Rightarrow> pay_user \<Rightarrow> refund_result \<Rightarrow> bool" where
  "refund_outcome p u s u' res \<longleftrightarrow>
     (if Success res
      then s = refund_status p \<and> balance u' = balance u - BalanceToDeduct p \<and> BalanceDeducted res = BalanceToDeduct p
      else s \<in> {OrderCompleted, OrderRefundRequested, OrderRefundPending} \<and> balance u' = balance u)"

lemma answer_quiet:
  assumes w: "schedule w = []" and d: "deducts p u"
    and us: "users (db w) (o_user (plan_order p)) = Some (u\<lparr>balance := balance u - BalanceToDeduct p\<rparr>)"
    and at: "order_at (db w) (plan_order_id p) = Some order"
    and run: "run_state (case g of Inl _ \<Rightarrow> handleGwFail se p | Inr resp \<Rightarrow> finishRefund se p resp) w = (r, w')"
  shows "\<exists>res s u'. r = Inr res \<and> map_option o_status (order_at (db w') (plan_order_id p)) = Some s \<and>
           users (db w') (o_user (plan_order p)) = Some u' \<and> refund_outcome p u s u' res"
proof -
  have t: "DeductionType p = DeductionBalance" using d by (simp add: deducts_def)
  let ?u = "restored p (u\<lparr>balance := balance u - BalanceToDeduct p\<rparr>)"
  consider (failed) "run_state (handleGwFail se p) w = (r, w')"
    | (ok) "run_state (markRefundOk p) w = (r, w')"
    | (pending) i where "run_state (markRefundPending se p i) w = (r, w')"
    using run by (auto simp: finishRefund_def split: sum.splits if_splits)
  then show ?thesis
  proof cases
    case failed
    then show ?thesis
      using handleGwFail_quiet [OF w t us at failed] restored_balance [OF d]
      by (auto simp: leaves_def refund_outcome_def refused_def)
  next
    case ok
    then show ?thesis
      using markRefundOk_quiet [OF w at ok] us by (auto simp: leaves_def refund_outcome_def refunded_def)
  next
    case pending
    then show ?thesis
      using markRefundPending_quiet [OF w t us at pending] restored_balance [OF d]
      by (auto simp: leaves_def refund_outcome_def refused_def)
  qed
qed

text \<open>
  C13. The balance is taken exactly when the refund is made. Executed undisturbed, a refund of a balance order
  ends, whatever the gateway answers: either it succeeds, the order is refunded and the planned amount
  is gone from the balance, or it does not, the order is completed, requested or pending again and the
  balance is what it was.
\<close>

theorem refund_takes_exactly_when_refunded:
  assumes "schedule w = []" and "unique_ids (db w)" and "deducts p u"
    and "users (db w) (o_user (plan_order p)) = Some u"
    and "order_at (db w) (plan_order_id p) = Some order" and "refundable (o_status order)"
    and "\<not> audit_exists (plan_order_id p) {''REFUND_ROLLBACK_FAILED''} (db w)"
  shows "\<exists>res w' s u'. run_state (ExecuteRefund env se p) w = (Inr res, w') \<and>
           map_option o_status (order_at (db w') (plan_order_id p)) = Some s \<and>
           users (db w') (o_user (plan_order p)) = Some u' \<and> refund_outcome p u s u' res"
proof -
  let ?d1 = "snd (lock_refund (plan_order_id p) (clock w) (db w))"
  let ?w1 = "w\<lparr>db := ?d1\<rparr>"
  have lock: "fst (lock_refund (plan_order_id p) (clock w) (db w)) \<noteq> 0"
    unfolding lock_refund_def using count_update_orders [OF assms(2,5)] assms(6) by simp
  have w1: "schedule ?w1 = []" "users (db ?w1) (o_user (plan_order p)) = Some u"
    "\<not> audit_exists (plan_order_id p) {''REFUND_ROLLBACK_FAILED''} (db ?w1)"
    using assms(1,4,7) by (simp_all add: lock_refund_def audit_exists_def)
  have at1: "order_at ?d1 (plan_order_id p) = Some (order\<lparr>o_updated_at := clock w, o_status := OrderRefunding\<rparr>)"
    unfolding lock_refund_def using assms(5,6) order_at_in [OF assms(5)] by (subst order_at_update) auto
  obtain d2 where d2: "run_state (deduct_balance p) ?w1 = (Inr p, ?w1\<lparr>db := d2\<rparr>)" "orders d2 = orders (db ?w1)"
    "users d2 = (users (db ?w1))(o_user (plan_order p) \<mapsto> u\<lparr>balance := balance u - BalanceToDeduct p\<rparr>)"
    by (rule deduct_balance_quiet [OF w1(1) assms(3) w1(2,3)])
  obtain g w3 where g: "run_state (gwRefund env p) (?w1\<lparr>db := d2\<rparr>) = (g, w3)" by fastforce
  note q = gwRefund_quiet [OF _ g]
  obtain r w' where tail: "run_state (case g of Inl _ \<Rightarrow> handleGwFail se p | Inr resp \<Rightarrow> finishRefund se p resp) w3 = (r, w')"
    by fastforce
  have run: "run_state (ExecuteRefund env se p) w = (r, w')"
    using assms(1,3) lock d2(1) g tail
    by (simp add: ExecuteRefund_def run_call_quiet deduct_days_def deducts_def split: sum.splits)
  have "schedule w3 = []" "order_at (db w3) (plan_order_id p) =
      Some (order\<lparr>o_updated_at := clock w, o_status := OrderRefunding\<rparr>)"
    "users (db w3) (o_user (plan_order p)) = Some (u\<lparr>balance := balance u - BalanceToDeduct p\<rparr>)"
    using q assms(1) at1 d2(2,3) by (auto simp: only_audits_def order_at_def)
  from answer_quiet [OF this(1) assms(3) this(3,2) tail] run show ?thesis by auto
qed

definition demo_plan :: refund_plan where
  "demo_plan =
     \<lparr>plan_order_id = 7, plan_order = demo_order OrderCompleted, RefundAmount = 10, GatewayAmount = 10,
      plan_reason = ''broken'', Force = False, DeductBalance = True, DeductionType = DeductionBalance,
      BalanceToDeduct = 10, SubDaysToDeduct = 0, SubscriptionID = 0\<rparr>"

definition demo_paid :: "unit pay_db" where
  "demo_paid = demo_db 30 [demo_order OrderCompleted] [demo_code CodeUsed]"

definition refund_answer :: "string \<Rightarrow> refund_reply" where
  "refund_answer s = RefundAnswer (Some s) ''re_1'' False"

theorem refund_takes_exactly_when_refunded_witness:
  "\<exists>res w' s u'. run_state (ExecuteRefund demo_env demo_subs demo_plan)
        (pay_world 5000 [] demo_paid [refund_answer ''pending''] []) = (Inr res, w') \<and>
     map_option o_status (order_at (db w') (plan_order_id demo_plan)) = Some s \<and>
     users (db w') (o_user (plan_order demo_plan)) = Some u' \<and>
     refund_outcome demo_plan \<lparr>balance = 30, total_recharged = 10\<rparr> s u' res"
  by (rule refund_takes_exactly_when_refunded [where order = "demo_order OrderCompleted"])
    (simp_all add: pay_world_def demo_paid_def demo_plan_def deducts_def scaled_def refundable_def,
     simp_all add: demo_defs audit_exists_def)

section \<open>Where a lost rollback leads\<close>

text \<open>
  The gateway refuses the refund and the statement that gives the balance back is lost: the order
  becomes \<open>REFUND_FAILED\<close>, with the balance deducted and a \<open>REFUND_ROLLBACK_FAILED\<close> row. The events
  before are the two reads of the order, the read of the user, the lock, the audit row, the deduction
  and the read of the instance.
\<close>

definition refund_again :: "operation" where
  "refund_again = AdminRefund 7 (Fin 10) ''broken'' False True"

definition after_lost_rollback :: "unit pay_world" where
  "after_lost_rollback = snd (run_state (perform demo_env demo_subs refund_again)
     (pay_world 5000 (replicate 7 calm @ [calm\<lparr>ev_fault := LostBefore\<rparr>]) demo_paid [RefundAnswer None [] True] []))"

text \<open>Then another operation in a quiet world, with one answer of the gateway.\<close>

definition then_refund :: "unit pay_world \<Rightarrow> refund_reply \<Rightarrow> unit pay_world" where
  "then_refund w r = snd (run_state (perform demo_env demo_subs refund_again)
     (pay_world (clock w + 100) [] (db w) [r] []))"

definition then_confirm :: "unit pay_world \<Rightarrow> string \<Rightarrow> unit pay_world" where
  "then_confirm w s = snd (run_state (perform demo_env demo_subs (ConfirmRefund 7))
     (pay_world (clock w + 100) [] (db w) [] [Inr (s, ''re_1'')]))"

text \<open>Status, amount recorded as refunded and the user's balance.\<close>

definition shown :: "unit pay_world \<Rightarrow> order_status list \<times> rat list \<times> rat option" where
  "shown w = (map o_status (orders (db w)), map o_refund_amount (orders (db w)), map_option balance (users (db w) 1))"


text \<open>
  A lost rollback is forgotten by the next failure. When the retry is refused by the gateway too, its
  rollback has nothing to give back and the order is restored to \<open>COMPLETED\<close>, with no money refunded
  and the 10 still missing from the balance.
\<close>

lemma lost_rollback_forgotten:
  "shown (then_refund after_lost_rollback (refund_answer ''failed'')) = ([OrderCompleted], [0], Some 20)"
  by code_simp

text \<open>
  Rolling a refund back counts as a recharge: a refund the gateway refuses leaves the balance as it was,
  but adds its amount to the total the user recharged.
\<close>

lemma rollback_counts_as_recharge:
  "map_option total_recharged (users demo_paid 1) = Some 10 \<and>
   users (db (then_refund (pay_world 5000 [] demo_paid [] []) (refund_answer ''failed''))) 1 =
     Some \<lparr>balance = 30, total_recharged = 20\<rparr>"
  by code_simp

definition pending_refund :: "unit pay_world" where
  "pending_refund = then_refund (pay_world 5000 [] demo_paid [] []) (refund_answer ''pending'')"

text \<open>
  One administrator asks about a pending refund and is told that it failed; before the failure is
  written, another asks again, is told that it succeeded, and the refund is finalized.
\<close>

definition overtaken :: "unit pay_world" where
  "overtaken = snd (run_state (perform demo_env demo_subs (ConfirmRefund 7))
     (pay_world 6000
        [calm, calm, calm,
         calm\<lparr>ev_others := (\<lambda>d. db (then_confirm (pay_world 6000 [] d [] []) ''success''))\<rparr>]
        (db pending_refund) [] [Inr (''failed'', ''re_1'')]))"


end
