(* ===== verification/Compat_Types.thy ===== *)
theory Compat_Types
  imports Prelude
begin

text \<open>
  The two wire formats the gateway translates between (\<open>pkg/apicompat/types.go\<close>): the Messages API of
  Anthropic and the Responses API of OpenAI, with the rules both directions share (call identifiers,
  token usage, stop reasons, the repair of a tool's input). The strings that tag a structure are
  datatypes whose last constructor stands for any other string; fields no conversion reads are left
  out. A Go composite literal is an update of the zero value (\<open>no_block\<close>, \<open>no_output\<close> and so on).
\<close>

section \<open>Anthropic Messages\<close>

datatype block_type =
  TextBlock | ThinkingBlock | ToolUse | ServerToolUse | WebSearchToolResult | OtherBlock string

record content_block =
  cb_Type :: block_type
  cb_Text :: string
  cb_Thinking :: string
  cb_Signature :: string
  cb_ID :: string
  cb_Name :: string
  cb_Input :: string
  cb_ToolUseID :: string
  cb_Content :: string

definition no_block :: "block_type \<Rightarrow> content_block" where
  "no_block t = \<lparr>cb_Type = t, cb_Text = [], cb_Thinking = [], cb_Signature = [], cb_ID = [], cb_Name = [],
                 cb_Input = [], cb_ToolUseID = [], cb_Content = []\<rparr>"

record anthropic_usage =
  u_InputTokens :: int
  u_OutputTokens :: int
  u_CacheReadInputTokens :: int
  u_CacheCreationInputTokens :: int

definition no_usage :: anthropic_usage where
  "no_usage = \<lparr>u_InputTokens = 0, u_OutputTokens = 0, u_CacheReadInputTokens = 0, u_CacheCreationInputTokens = 0\<rparr>"

record anthropic_response =
  an_ID :: string
  an_Content :: "content_block list"
  an_Model :: string
  an_StopReason :: "string option"
  an_Usage :: anthropic_usage

datatype anth_type =
    MessageStart | ContentBlockStart | ContentBlockDelta | ContentBlockStop | MessageDelta | MessageStop
  | OtherAnth string

datatype delta_type = TextDelta | InputJSONDelta | ThinkingDelta | SignatureDelta | OtherDelta string

record anthropic_delta =
  d_Type :: delta_type
  d_Text :: string
  d_PartialJSON :: string
  d_Thinking :: string
  d_Signature :: string
  d_StopReason :: string

definition no_delta :: "delta_type \<Rightarrow> anthropic_delta" where
  "no_delta t = \<lparr>d_Type = t, d_Text = [], d_PartialJSON = [], d_Thinking = [], d_Signature = [], d_StopReason = []\<rparr>"

record anthropic_event =
  ae_Type :: anth_type
  ae_Message :: "anthropic_response option"
  ae_Index :: "int option"
  ae_ContentBlock :: "content_block option"
  ae_Delta :: "anthropic_delta option"
  ae_Usage :: "anthropic_usage option"

definition anth_event :: "anth_type \<Rightarrow> anthropic_event" where
  "anth_event t = \<lparr>ae_Type = t, ae_Message = None, ae_Index = None, ae_ContentBlock = None, ae_Delta = None,
                   ae_Usage = None\<rparr>"

section \<open>OpenAI Responses\<close>

datatype item_type = NoItem | MessageItem | ReasoningItem | FunctionCall | CustomToolCall | WebSearchCall | OtherItem string

record content_part =
  cp_Type :: string
  cp_Text :: string

definition output_text :: "string \<Rightarrow> content_part" where
  "output_text t = \<lparr>cp_Type = ''output_text'', cp_Text = t\<rparr>"

record reasoning_summary =
  rs_Type :: string
  rs_Text :: string

definition summary_text :: "string \<Rightarrow> reasoning_summary" where
  "summary_text t = \<lparr>rs_Type = ''summary_text'', rs_Text = t\<rparr>"

record responses_output =
  o_Type :: item_type
  o_ID :: string
  o_Role :: string
  o_Content :: "content_part list"
  o_Status :: string
  o_EncryptedContent :: string
  o_Summary :: "reasoning_summary list"
  o_CallID :: string
  o_Name :: string
  o_Arguments :: string
  o_Query :: "string option"

definition no_output :: "item_type \<Rightarrow> responses_output" where
  "no_output t = \<lparr>o_Type = t, o_ID = [], o_Role = [], o_Content = [], o_Status = [], o_EncryptedContent = [],
                  o_Summary = [], o_CallID = [], o_Name = [], o_Arguments = [], o_Query = None\<rparr>"

record responses_usage =
  ru_InputTokens :: int
  ru_OutputTokens :: int
  ru_TotalTokens :: int
  ru_CacheCreationInputTokens :: int
  ru_CachedTokens :: "int option"

record responses_response =
  r_ID :: string
  r_CreatedAt :: int
  r_Model :: string
  r_Status :: string
  r_Output :: "responses_output list"
  r_Usage :: "responses_usage option"
  r_IncompleteReason :: "string option"

datatype resp_type =
    Created | OutputItemAdded | OutputItemDone | OutputTextDelta | OutputTextDone
  | ContentPartAdded | ContentPartDone
  | FunctionCallArgumentsDelta | CustomToolCallInputDelta | FunctionCallArgumentsDone
  | ReasoningSummaryTextDelta | ReasoningTextDelta | ReasoningSummaryTextDone
  | Completed | Done | Incomplete | ResponseFailed | OtherResp string

record responses_event =
  re_Type :: resp_type
  re_Response :: "responses_response option"
  re_Usage :: "responses_usage option"
  re_Item :: "responses_output option"
  re_OutputIndex :: int
  re_ContentIndex :: int
  re_Delta :: string
  re_Text :: string
  re_ItemID :: string
  re_CallID :: string
  re_Name :: string
  re_Arguments :: string
  re_SummaryIndex :: int
  re_Part :: "content_part option"
  re_SequenceNumber :: int

definition resp_event :: "resp_type \<Rightarrow> responses_event" where
  "resp_event t = \<lparr>re_Type = t, re_Response = None, re_Usage = None, re_Item = None, re_OutputIndex = 0,
                   re_ContentIndex = 0, re_Delta = [], re_Text = [], re_ItemID = [], re_CallID = [],
                   re_Name = [], re_Arguments = [], re_SummaryIndex = 0, re_Part = None, re_SequenceNumber = 0\<rparr>"

section \<open>Shared rules\<close>

definition toResponsesCallID :: "string \<Rightarrow> string" where
  "toResponsesCallID i = i"

definition fromResponsesCallID :: "string \<Rightarrow> string" where
  "fromResponsesCallID i =
     (case strip_prefix ''fc_'' i of
        Some after \<Rightarrow> if has_prefix after ''toolu_'' \<or> has_prefix after ''call_'' then after else i
      | None \<Rightarrow> i)"

definition anthropicUsageFromResponsesUsage :: "responses_usage option \<Rightarrow> anthropic_usage" where
  "anthropicUsageFromResponsesUsage usage =
     (case usage of
        None \<Rightarrow> no_usage
      | Some u \<Rightarrow>
          let cached = (case ru_CachedTokens u of None \<Rightarrow> 0 | Some c \<Rightarrow> c);
              input = ru_InputTokens u - cached - ru_CacheCreationInputTokens u
          in \<lparr>u_InputTokens = (if input < 0 then 0 else input), u_OutputTokens = ru_OutputTokens u,
              u_CacheReadInputTokens = cached, u_CacheCreationInputTokens = ru_CacheCreationInputTokens u\<rparr>)"

text \<open>Anthropic's input tokens exclude the cached ones, those of OpenAI include them.\<close>

definition responsesUsage :: "anthropic_usage \<Rightarrow> responses_usage" where
  "responsesUsage u =
     (let total = u_InputTokens u + u_CacheReadInputTokens u + u_CacheCreationInputTokens u
      in \<lparr>ru_InputTokens = total, ru_OutputTokens = u_OutputTokens u,
          ru_TotalTokens = total + u_OutputTokens u,
          ru_CacheCreationInputTokens = u_CacheCreationInputTokens u,
          ru_CachedTokens = (if u_CacheReadInputTokens u > 0 then Some (u_CacheReadInputTokens u) else None)\<rparr>)"

definition containsAnthropicToolUseBlock :: "content_block list \<Rightarrow> bool" where
  "containsAnthropicToolUseBlock blocks = (\<exists>b \<in> set blocks. cb_Type b = ToolUse)"

definition responsesStatusToAnthropicStopReason :: "string \<Rightarrow> string option \<Rightarrow> content_block list \<Rightarrow> string" where
  "responsesStatusToAnthropicStopReason status details blocks =
     (if status = ''incomplete'' then
        (if details = Some ''max_output_tokens'' then ''max_tokens'' else ''end_turn'')
      else if status = ''completed'' then
        (if containsAnthropicToolUseBlock blocks then ''tool_use'' else ''end_turn'')
      else ''end_turn'')"

definition anthropicStopReasonToResponsesStatus :: "string \<Rightarrow> string" where
  "anthropicStopReasonToResponsesStatus stopReason =
     (if stopReason = ''max_tokens'' then ''incomplete'' else ''completed'')"

text \<open>
  JSON is the parameter \<open>json_lib\<close>: decoding an object into its raw members (a repeated key keeps its
  last value), encoding one, and validity. The query of a web search is encoded by it as well.
\<close>

record json_lib =
  json_object :: "string \<Rightarrow> (string \<times> string) list option"
  json_encode :: "(string \<times> string) list \<Rightarrow> string"
  json_string :: "string \<Rightarrow> string"
  json_valid :: "string \<Rightarrow> bool"

definition sanitizeAnthropicToolUseInput :: "json_lib \<Rightarrow> string \<Rightarrow> string \<Rightarrow> string" where
  "sanitizeAnthropicToolUseInput js name raw =
     (if name \<noteq> ''Read'' \<or> raw = [] then raw
      else case json_object js raw of
        None \<Rightarrow> raw
      | Some input \<Rightarrow>
          if map_of input ''pages'' \<noteq> Some [CHR 0x22, CHR 0x22] then raw
          else json_encode js (filter (\<lambda>(k, _). k \<noteq> ''pages'') input))"

end
