(* ===== verification/Event_Converter.thy ===== *)
theory Event_Converter
  imports Prelude
begin

text \<open>
  Converters of event streams. A converter answers every event with the events it causes and a new
  state; a protocol is an automaton over events that accepts or rejects. The locale states when the
  states of a converter stand for the states of the protocol of its output, and gives that whole streams
  are then accepted.
\<close>

fun accept :: "('e \<Rightarrow> 'p \<Rightarrow> 'p option) \<Rightarrow> 'e list \<Rightarrow> 'p \<Rightarrow> 'p option" where
  "accept step [] p = Some p"
| "accept step (e # es) p = (case step e p of None \<Rightarrow> None | Some p' \<Rightarrow> accept step es p')"

lemma accept_append:
  "accept step (es @ fs) p = (case accept step es p of None \<Rightarrow> None | Some p' \<Rightarrow> accept step fs p')"
  by (induction es arbitrary: p) (auto split: option.splits)

definition andThen :: "('s \<Rightarrow> 'o list \<times> 's) \<Rightarrow> ('s \<Rightarrow> 'o list \<times> 's) \<Rightarrow> 's \<Rightarrow> 'o list \<times> 's" where
  "andThen m n st = (let (out, st') = m st; (out', st'') = n st' in (out @ out', st''))"

fun convert :: "('i \<Rightarrow> 's \<Rightarrow> 'o list \<times> 's) \<Rightarrow> 'i list \<Rightarrow> 's \<Rightarrow> 'o list \<times> 's" where
  "convert conv [] st = ([], st)"
| "convert conv (e # es) st =
     (let (out, st') = conv e st;
          (outs, st'') = convert conv es st'
      in (out @ outs, st''))"

lemma convert_append:
  "convert conv (es @ fs) st =
     (case convert conv es st of (out, st') \<Rightarrow>
        case convert conv fs st' of (out', st'') \<Rightarrow> (out @ out', st''))"
  by (induction es arbitrary: st) (auto split: prod.splits)

text \<open>\<open>follows step phase r st\<close>: the answer \<open>r\<close> of a state keeps the protocol of the output.\<close>

definition follows :: "('o \<Rightarrow> 'p \<Rightarrow> 'p option) \<Rightarrow> ('s \<Rightarrow> 'p) \<Rightarrow> 'o list \<times> 's \<Rightarrow> 's \<Rightarrow> bool" where
  "follows step phase r st \<longleftrightarrow> accept step (fst r) (phase st) = Some (phase (snd r))"

lemma follows_append:
  assumes "follows step phase (out, st') st" "follows step phase (outs, st'') st'"
  shows "follows step phase (out @ outs, st'') st"
  using assms by (simp add: follows_def accept_append)

locale simulation =
  fixes conv :: "'i \<Rightarrow> 's \<Rightarrow> 'o list \<times> 's"
    and upstream :: "'i \<Rightarrow> 'u \<Rightarrow> 'u option"
    and client :: "'o \<Rightarrow> 'p \<Rightarrow> 'p option"
    and phase :: "'s \<Rightarrow> 'p"
    and rel :: "'u \<Rightarrow> 's \<Rightarrow> bool"
  assumes conv: "upstream e u = Some u' \<Longrightarrow> rel u st \<Longrightarrow> rel u' (snd (conv e st)) \<and> follows client phase (conv e st) st"
begin

lemma convert_follows:
  assumes "accept upstream es u = Some u'" "rel u st"
  shows "rel u' (snd (convert conv es st)) \<and> follows client phase (convert conv es st) st"
  using assms
proof (induction es arbitrary: u st)
  case Nil
  then show ?case by (simp add: follows_def)
next
  case (Cons e es)
  then obtain u1 where u1: "upstream e u = Some u1" "accept upstream es u1 = Some u'"
    by (auto split: option.splits)
  obtain out st1 where one: "conv e st = (out, st1)" by fastforce
  obtain outs st2 where rest: "convert conv es st1 = (outs, st2)" by fastforce
  have "rel u1 st1" "follows client phase (out, st1) st"
    using conv [OF u1(1) Cons.prems(2)] one by simp_all
  with Cons.IH [OF u1(2), of st1] follows_append [of client phase out st1 st outs st2] rest one show ?case
    by simp
qed

end

text \<open>An upstream of which nothing is known.\<close>

definition lawless :: "'i \<Rightarrow> unit \<Rightarrow> unit option" where
  "lawless e u = Some ()"

lemma accept_lawless [simp]: "accept lawless es u = Some ()"
  by (induction es) (simp_all add: lawless_def)

end
