(* ===== verification/Responses_To_Anthropic.thy ===== *)
theory Responses_To_Anthropic
  imports Compat_Types Event_Converter
begin

text \<open>
  \<open>pkg/apicompat/responses_to_anthropic.go\<close>: a whole Responses API response as an Anthropic message,
  and the converter of a stream of events, which passes its state along and answers every event with
  the events it causes.
\<close>

section \<open>A whole response\<close>

definition reasoning_text :: "reasoning_summary list \<Rightarrow> string" where
  "reasoning_text ss = concat (map (\<lambda>s. if rs_Type s = ''summary_text'' \<and> rs_Text s \<noteq> [] then rs_Text s else []) ss)"

definition web_search_use :: "json_lib \<Rightarrow> responses_output \<Rightarrow> content_block" where
  "web_search_use js item = (no_block ServerToolUse)\<lparr>cb_ID := ''srvtoolu_'' @ o_ID item, cb_Name := ''web_search'',
     cb_Input := json_encode js [(''query'', json_string js (case o_Query item of None \<Rightarrow> [] | Some q \<Rightarrow> q))]\<rparr>"

definition web_search_result :: "responses_output \<Rightarrow> content_block" where
  "web_search_result item = (no_block WebSearchToolResult)\<lparr>cb_ToolUseID := ''srvtoolu_'' @ o_ID item, cb_Content := ''[]''\<rparr>"

definition item_blocks :: "json_lib \<Rightarrow> responses_output \<Rightarrow> content_block list" where
  "item_blocks js item =
     (case o_Type item of
        ReasoningItem \<Rightarrow>
          (let summaryText = reasoning_text (o_Summary item) in
           if summaryText \<noteq> [] \<or> TrimSpace (o_EncryptedContent item) \<noteq> []
           then [(no_block ThinkingBlock)\<lparr>cb_Thinking := summaryText, cb_Signature := o_EncryptedContent item\<rparr>]
           else [])
      | MessageItem \<Rightarrow>
          map (\<lambda>part. (no_block TextBlock)\<lparr>cb_Text := cp_Text part\<rparr>)
            (filter (\<lambda>part. cp_Type part = ''output_text'' \<and> cp_Text part \<noteq> []) (o_Content item))
      | FunctionCall \<Rightarrow>
          [(no_block ToolUse)\<lparr>cb_ID := fromResponsesCallID (o_CallID item), cb_Name := o_Name item,
             cb_Input := sanitizeAnthropicToolUseInput js (o_Name item) (o_Arguments item)\<rparr>]
      | WebSearchCall \<Rightarrow> [web_search_use js item, web_search_result item]
      | _ \<Rightarrow> [])"

definition ResponsesToAnthropic :: "json_lib \<Rightarrow> responses_response \<Rightarrow> string \<Rightarrow> anthropic_response" where
  "ResponsesToAnthropic js resp model =
     (let blocks = concat (map (item_blocks js) (r_Output resp));
          blocks = (if blocks = [] then [no_block TextBlock] else blocks)
      in \<lparr>an_ID = r_ID resp, an_Content = blocks, an_Model = model,
          an_StopReason = Some (responsesStatusToAnthropicStopReason (r_Status resp) (r_IncompleteReason resp) blocks),
          an_Usage = (case r_Usage resp of None \<Rightarrow> no_usage
                      | Some u \<Rightarrow> anthropicUsageFromResponsesUsage (Some u))\<rparr>)"

section \<open>The state of the stream\<close>

datatype open_block = NoBlockYet | TextOpen | ThinkingOpen | ToolOpen

record to_anthropic =
  MessageStartSent :: bool
  MessageStopSent :: bool
  ContentBlockIndex :: int
  ContentBlockOpen :: bool
  CurrentBlockType :: open_block
  CurrentToolName :: string
  CurrentToolArgs :: string
  CurrentToolHadDelta :: bool
  PendingThinkingSignature :: string
  HasToolCall :: bool
  OutputIndexToBlockIdx :: "int \<Rightarrow> int option"
  to_Usage :: anthropic_usage
  to_ResponseID :: string
  to_Model :: string

definition NewResponsesEventToAnthropicState :: "string \<Rightarrow> to_anthropic" where
  "NewResponsesEventToAnthropicState model =
     \<lparr>MessageStartSent = False, MessageStopSent = False, ContentBlockIndex = 0, ContentBlockOpen = False,
      CurrentBlockType = NoBlockYet, CurrentToolName = [], CurrentToolArgs = [], CurrentToolHadDelta = False,
      PendingThinkingSignature = [], HasToolCall = False, OutputIndexToBlockIdx = (\<lambda>_. None),
      to_Usage = no_usage, to_ResponseID = [], to_Model = model\<rparr>"

type_synonym to_anthropic_step = "to_anthropic \<Rightarrow> anthropic_event list \<times> to_anthropic"

section \<open>Events\<close>

definition block_start :: "int \<Rightarrow> content_block \<Rightarrow> anthropic_event" where
  "block_start i b = (anth_event ContentBlockStart)\<lparr>ae_Index := Some i, ae_ContentBlock := Some b\<rparr>"

definition block_delta :: "int \<Rightarrow> anthropic_delta \<Rightarrow> anthropic_event" where
  "block_delta i d = (anth_event ContentBlockDelta)\<lparr>ae_Index := Some i, ae_Delta := Some d\<rparr>"

definition block_stop :: "int \<Rightarrow> anthropic_event" where
  "block_stop i = (anth_event ContentBlockStop)\<lparr>ae_Index := Some i\<rparr>"

definition message_end :: "string \<Rightarrow> anthropic_usage \<Rightarrow> anthropic_event list" where
  "message_end stopReason u =
     [(anth_event MessageDelta)\<lparr>ae_Delta := Some ((no_delta (OtherDelta []))\<lparr>d_StopReason := stopReason\<rparr>),
        ae_Usage := Some u\<rparr>,
      anth_event MessageStop]"

section \<open>Handlers\<close>

definition closeCurrentBlock :: to_anthropic_step where
  "closeCurrentBlock st =
     (if \<not> ContentBlockOpen st then ([], st)
      else
      let idx = ContentBlockIndex st;
          sig = TrimSpace (PendingThinkingSignature st);
          thinking = (CurrentBlockType st = ThinkingOpen);
          signed = (if thinking \<and> sig \<noteq> []
                    then [block_delta idx ((no_delta SignatureDelta)\<lparr>d_Signature := sig\<rparr>)] else []);
          st = (if thinking then st\<lparr>PendingThinkingSignature := []\<rparr> else st)
      in (signed @ [block_stop idx],
          st\<lparr>ContentBlockOpen := False, ContentBlockIndex := idx + 1, CurrentToolName := [],
             CurrentToolArgs := [], CurrentToolHadDelta := False\<rparr>))"

definition resToAnthHandleCreated :: "responses_event \<Rightarrow> to_anthropic_step" where
  "resToAnthHandleCreated evt st =
     (let st = (case re_Response evt of
                  None \<Rightarrow> st
                | Some resp \<Rightarrow> st\<lparr>to_ResponseID := r_ID resp,
                                 to_Model := (if to_Model st = [] then r_Model resp else to_Model st)\<rparr>)
      in if MessageStartSent st then ([], st)
         else ([(anth_event MessageStart)\<lparr>ae_Message := Some
                  \<lparr>an_ID = to_ResponseID st, an_Content = [], an_Model = to_Model st, an_StopReason = None,
                   an_Usage = no_usage\<rparr>\<rparr>],
               st\<lparr>MessageStartSent := True\<rparr>))"

definition resToAnthHandleOutputItemAdded :: "responses_event \<Rightarrow> to_anthropic_step" where
  "resToAnthHandleOutputItemAdded evt st =
     (case re_Item evt of
        None \<Rightarrow> ([], st)
      | Some item \<Rightarrow>
          if o_Type item = FunctionCall \<or> o_Type item = CustomToolCall then
            (let (events, st) = closeCurrentBlock st;
                 idx = ContentBlockIndex st
             in (events @ [block_start idx ((no_block ToolUse)\<lparr>cb_ID := fromResponsesCallID (o_CallID item),
                             cb_Name := o_Name item, cb_Input := ''{}''\<rparr>)],
                 st\<lparr>OutputIndexToBlockIdx := (OutputIndexToBlockIdx st)(re_OutputIndex evt \<mapsto> idx),
                    ContentBlockOpen := True, CurrentBlockType := ToolOpen, CurrentToolName := o_Name item,
                    CurrentToolArgs := [], CurrentToolHadDelta := False, HasToolCall := True\<rparr>))
          else if o_Type item = ReasoningItem then
            (let (events, st) = closeCurrentBlock st;
                 idx = ContentBlockIndex st
             in (events @ [block_start idx (no_block ThinkingBlock)],
                 st\<lparr>OutputIndexToBlockIdx := (OutputIndexToBlockIdx st)(re_OutputIndex evt \<mapsto> idx),
                    ContentBlockOpen := True, CurrentBlockType := ThinkingOpen,
                    PendingThinkingSignature := TrimSpace (o_EncryptedContent item)\<rparr>))
          else ([], st))"

definition resToAnthHandleTextDelta :: "responses_event \<Rightarrow> to_anthropic_step" where
  "resToAnthHandleTextDelta evt st =
     (if re_Delta evt = [] then ([], st)
      else
      let (events, st) =
            (if \<not> ContentBlockOpen st \<or> CurrentBlockType st \<noteq> TextOpen then
               (let (events, st) = closeCurrentBlock st in
                (events @ [block_start (ContentBlockIndex st) (no_block TextBlock)],
                 st\<lparr>ContentBlockOpen := True, CurrentBlockType := TextOpen\<rparr>))
             else ([], st))
      in (events @ [block_delta (ContentBlockIndex st) ((no_delta TextDelta)\<lparr>d_Text := re_Delta evt\<rparr>)], st))"

definition resToAnthHandleFuncArgsDelta :: "json_lib \<Rightarrow> responses_event \<Rightarrow> to_anthropic_step" where
  "resToAnthHandleFuncArgsDelta js evt st =
     (if re_Delta evt = [] then ([], st)
      else if CurrentBlockType st = ToolOpen \<and> CurrentToolName st = ''Read'' then
        (let st = st\<lparr>CurrentToolArgs := CurrentToolArgs st @ re_Delta evt\<rparr> in
         if CurrentToolHadDelta st \<or> \<not> json_valid js (CurrentToolArgs st) then ([], st)
         else case OutputIndexToBlockIdx st (re_OutputIndex evt) of
           None \<Rightarrow> ([], st)
         | Some blockIdx \<Rightarrow>
             ([block_delta blockIdx ((no_delta InputJSONDelta)\<lparr>d_PartialJSON :=
                 sanitizeAnthropicToolUseInput js (CurrentToolName st) (CurrentToolArgs st)\<rparr>)],
              st\<lparr>CurrentToolHadDelta := True\<rparr>))
      else
        (let st = (if CurrentBlockType st = ToolOpen then st\<lparr>CurrentToolHadDelta := True\<rparr> else st) in
         case OutputIndexToBlockIdx st (re_OutputIndex evt) of
           None \<Rightarrow> ([], st)
         | Some blockIdx \<Rightarrow>
             ([block_delta blockIdx ((no_delta InputJSONDelta)\<lparr>d_PartialJSON := re_Delta evt\<rparr>)], st)))"

definition resToAnthHandleBlockDone :: to_anthropic_step where
  "resToAnthHandleBlockDone st = (if \<not> ContentBlockOpen st then ([], st) else closeCurrentBlock st)"

definition resToAnthHandleFuncArgsDone :: "json_lib \<Rightarrow> responses_event \<Rightarrow> to_anthropic_step" where
  "resToAnthHandleFuncArgsDone js evt st =
     (if \<not> ContentBlockOpen st then ([], st)
      else if CurrentBlockType st \<noteq> ToolOpen then resToAnthHandleBlockDone st
      else
      let raw = (if re_Arguments evt = [] then CurrentToolArgs st else re_Arguments evt) in
      if raw = [] \<or> CurrentToolHadDelta st then closeCurrentBlock st
      else if CurrentToolName st = ''Read'' \<and> sanitizeAnthropicToolUseInput js (CurrentToolName st) raw = []
      then closeCurrentBlock st
      else
      let raw = (if CurrentToolName st = ''Read'' then sanitizeAnthropicToolUseInput js (CurrentToolName st) raw
                 else raw);
          blockIdx = (case OutputIndexToBlockIdx st (re_OutputIndex evt) of
                        None \<Rightarrow> ContentBlockIndex st | Some i \<Rightarrow> i)
      in if \<not> ContentBlockOpen st \<or> blockIdx \<noteq> ContentBlockIndex st then ([], st)
         else let (events, st) = closeCurrentBlock st in
           (block_delta blockIdx ((no_delta InputJSONDelta)\<lparr>d_PartialJSON := raw\<rparr>) # events, st))"

definition resToAnthHandleReasoningDelta :: "responses_event \<Rightarrow> to_anthropic_step" where
  "resToAnthHandleReasoningDelta evt st =
     (if re_Delta evt = [] then ([], st)
      else case OutputIndexToBlockIdx st (re_OutputIndex evt) of
        None \<Rightarrow> ([], st)
      | Some blockIdx \<Rightarrow>
          ([block_delta blockIdx ((no_delta ThinkingDelta)\<lparr>d_Thinking := re_Delta evt\<rparr>)], st))"

definition resToAnthHandleWebSearchDone :: "json_lib \<Rightarrow> responses_output \<Rightarrow> to_anthropic_step" where
  "resToAnthHandleWebSearchDone js item st =
     (let (events, st) = closeCurrentBlock st;
          idx1 = ContentBlockIndex st;
          idx2 = idx1 + 1
      in (events @ [block_start idx1 (web_search_use js item), block_stop idx1,
                    block_start idx2 (web_search_result item), block_stop idx2],
          st\<lparr>ContentBlockIndex := idx2 + 1\<rparr>))"

definition resToAnthHandleOutputItemDone :: "json_lib \<Rightarrow> responses_event \<Rightarrow> to_anthropic_step" where
  "resToAnthHandleOutputItemDone js evt st =
     (case re_Item evt of
        None \<Rightarrow> ([], st)
      | Some item \<Rightarrow>
          if o_Type item = WebSearchCall \<and> o_Status item = ''completed''
          then resToAnthHandleWebSearchDone js item st
          else
          let sig = TrimSpace (o_EncryptedContent item);
              st = (if o_Type item = ReasoningItem \<and> sig \<noteq> [] then st\<lparr>PendingThinkingSignature := sig\<rparr> else st)
          in if ContentBlockOpen st then closeCurrentBlock st else ([], st))"

definition resToAnthHandleCompleted :: "responses_event \<Rightarrow> to_anthropic_step" where
  "resToAnthHandleCompleted evt st =
     (if MessageStopSent st then ([], st)
      else
      let (events, st) = closeCurrentBlock st;
          st = (case re_Usage evt of None \<Rightarrow> st
                | Some u \<Rightarrow> st\<lparr>to_Usage := anthropicUsageFromResponsesUsage (Some u)\<rparr>);
          st = (case re_Response evt of None \<Rightarrow> st
                | Some resp \<Rightarrow> (case r_Usage resp of None \<Rightarrow> st
                     | Some u \<Rightarrow> st\<lparr>to_Usage := anthropicUsageFromResponsesUsage (Some u)\<rparr>));
          stopReason =
            (case re_Response evt of
               None \<Rightarrow> ''end_turn''
             | Some resp \<Rightarrow>
                 if r_Status resp = ''incomplete'' \<and> r_IncompleteReason resp = Some ''max_output_tokens''
                 then ''max_tokens''
                 else if r_Status resp = ''completed'' \<and> HasToolCall st then ''tool_use''
                 else ''end_turn'')
      in (events @ message_end stopReason (to_Usage st), st\<lparr>MessageStopSent := True\<rparr>))"

definition ResponsesEventToAnthropicEvents :: "json_lib \<Rightarrow> responses_event \<Rightarrow> to_anthropic_step" where
  "ResponsesEventToAnthropicEvents js evt st =
     (case re_Type evt of
        Created \<Rightarrow> resToAnthHandleCreated evt st
      | OutputItemAdded \<Rightarrow> resToAnthHandleOutputItemAdded evt st
      | OutputTextDelta \<Rightarrow> resToAnthHandleTextDelta evt st
      | OutputTextDone \<Rightarrow> resToAnthHandleBlockDone st
      | FunctionCallArgumentsDelta \<Rightarrow> resToAnthHandleFuncArgsDelta js evt st
      | CustomToolCallInputDelta \<Rightarrow> resToAnthHandleFuncArgsDelta js evt st
      | FunctionCallArgumentsDone \<Rightarrow> resToAnthHandleFuncArgsDone js evt st
      | OutputItemDone \<Rightarrow> resToAnthHandleOutputItemDone js evt st
      | ReasoningSummaryTextDelta \<Rightarrow> resToAnthHandleReasoningDelta evt st
      | ReasoningTextDelta \<Rightarrow> resToAnthHandleReasoningDelta evt st
      | Completed \<Rightarrow> resToAnthHandleCompleted evt st
      | Done \<Rightarrow> resToAnthHandleCompleted evt st
      | Incomplete \<Rightarrow> resToAnthHandleCompleted evt st
      | ResponseFailed \<Rightarrow> resToAnthHandleCompleted evt st
      | _ \<Rightarrow> ([], st))"

definition FinalizeResponsesAnthropicStream :: to_anthropic_step where
  "FinalizeResponsesAnthropicStream st =
     (if \<not> MessageStartSent st \<or> MessageStopSent st then ([], st)
      else
      let (events, st) = closeCurrentBlock st;
          stopReason = (if HasToolCall st then ''tool_use'' else ''end_turn'')
      in (events @ message_end stopReason (to_Usage st), st\<lparr>MessageStopSent := True\<rparr>))"

text \<open>The loop of the forwarding services: every event of the upstream is converted in turn.\<close>

definition to_anthropic_run :: "json_lib \<Rightarrow> responses_event list \<Rightarrow> to_anthropic_step" where
  "to_anthropic_run js = convert (ResponsesEventToAnthropicEvents js)"

lemma to_anthropic_run_simps [simp]:
  "to_anthropic_run js [] st = ([], st)"
  "to_anthropic_run js (e # es) st =
     (let (out, st') = ResponsesEventToAnthropicEvents js e st; (outs, st'') = to_anthropic_run js es st' in (out @ outs, st''))"
  by (simp_all add: to_anthropic_run_def)

lemma to_anthropic_run_append:
  "to_anthropic_run js (es @ fs) st =
     (case to_anthropic_run js es st of (out, st') \<Rightarrow>
        case to_anthropic_run js fs st' of (out', st'') \<Rightarrow> (out @ out', st''))"
  by (simp add: to_anthropic_run_def convert_append)

end
