(* ===== verification/Compat_Protocol.thy ===== *)
theory Compat_Protocol
  imports Responses_To_Anthropic
begin

text \<open>
  What clients rely on: the grammar of an Anthropic event stream, as an automaton that accepts or
  rejects. The converter of Responses streams is proved to produce accepted streams from every upstream
  stream that follows the protocol of the Responses API, itself given as an automaton, by a simulation:
  a relation between the phases of both and the state of the converter that every event preserves.
\<close>

section \<open>The grammar of an Anthropic stream\<close>

datatype anth_phase = NotStarted | Between int | Inside int block_type | Ending | Over

fun delta_fits :: "block_type \<Rightarrow> anthropic_delta \<Rightarrow> bool" where
  "delta_fits TextBlock d = (d_Type d = TextDelta)"
| "delta_fits ThinkingBlock d = (d_Type d = ThinkingDelta \<or> d_Type d = SignatureDelta)"
| "delta_fits ToolUse d = (d_Type d = InputJSONDelta)"
| "delta_fits _ d = False"

definition anth_step :: "anthropic_event \<Rightarrow> anth_phase \<Rightarrow> anth_phase option" where
  "anth_step e ph =
     (case (ph, ae_Type e) of
        (NotStarted, MessageStart) \<Rightarrow> if ae_Message e \<noteq> None then Some (Between 0) else None
      | (Between n, ContentBlockStart) \<Rightarrow>
          (case ae_ContentBlock e of
             Some b \<Rightarrow> if ae_Index e = Some n then Some (Inside n (cb_Type b)) else None
           | None \<Rightarrow> None)
      | (Inside n t, ContentBlockDelta) \<Rightarrow>
          (case ae_Delta e of
             Some d \<Rightarrow> if ae_Index e = Some n \<and> delta_fits t d then Some (Inside n t) else None
           | None \<Rightarrow> None)
      | (Inside n t, ContentBlockStop) \<Rightarrow> if ae_Index e = Some n then Some (Between (n + 1)) else None
      | (Between n, MessageDelta) \<Rightarrow> Some Ending
      | (Ending, MessageStop) \<Rightarrow> Some Over
      | _ \<Rightarrow> None)"

abbreviation anth_run :: "anthropic_event list \<Rightarrow> anth_phase \<Rightarrow> anth_phase option" where
  "anth_run \<equiv> accept anth_step"

lemma anth_step_simps [simp]:
  "anth_step (block_start i b) (Between n) = (if i = n then Some (Inside n (cb_Type b)) else None)"
  "anth_step (block_delta i d) (Inside n t) = (if i = n \<and> delta_fits t d then Some (Inside n t) else None)"
  "anth_step (block_stop i) (Inside n t) = (if i = n then Some (Between (n + 1)) else None)"
  by (simp_all add: anth_step_def block_start_def block_delta_def block_stop_def anth_event_def)

lemma anth_run_end [simp]: "anth_run (message_end s u) (Between n) = Some Over"
  by (simp add: message_end_def anth_step_def anth_event_def)

lemma block_type_simps [simp]: "cb_Type (no_block t) = t" "d_Type (no_delta t') = t'"
  by (simp_all add: no_block_def no_delta_def)

section \<open>The protocol of a Responses stream\<close>

text \<open>
  One output item at a time: it is added, receives what belongs to its type under its own index, and is
  done. The arguments of a tool call are done before the call is. The response may end at any time.
\<close>

datatype resp_phase = RStart | RIdle | RItem int item_type | RArgsDone int | ROver

definition ends_response :: "resp_type \<Rightarrow> bool" where
  "ends_response t = (t \<in> {Completed, Done, Incomplete, ResponseFailed})"

definition is_tool :: "item_type \<Rightarrow> bool" where
  "is_tool t = (t = FunctionCall \<or> t = CustomToolCall)"

definition resp_ignored :: "resp_type \<Rightarrow> bool" where
  "resp_ignored t = (case t of OtherResp _ \<Rightarrow> True | ContentPartAdded \<Rightarrow> True | ContentPartDone \<Rightarrow> True
                     | ReasoningSummaryTextDone \<Rightarrow> True | _ \<Rightarrow> False)"

definition resp_step :: "responses_event \<Rightarrow> resp_phase \<Rightarrow> resp_phase option" where
  "resp_step e ph =
     (if resp_ignored (re_Type e) then Some ph
      else if ends_response (re_Type e) then (if ph = RStart \<or> ph = ROver then None else Some ROver)
      else case ph of
        RStart \<Rightarrow> if re_Type e = Created then Some RIdle else None
      | RIdle \<Rightarrow>
          (case re_Item e of
             Some item \<Rightarrow> if re_Type e = OutputItemAdded then Some (RItem (re_OutputIndex e) (o_Type item)) else None
           | None \<Rightarrow> None)
      | RItem i t \<Rightarrow>
          if re_Type e = OutputItemDone
          then (case re_Item e of Some item \<Rightarrow> if o_Type item = t then Some RIdle else None | None \<Rightarrow> None)
          else if re_OutputIndex e \<noteq> i then None
          else if t = MessageItem then
            (if re_Type e = OutputTextDelta \<or> re_Type e = OutputTextDone then Some ph else None)
          else if t = ReasoningItem then
            (if re_Type e = ReasoningSummaryTextDelta \<or> re_Type e = ReasoningTextDelta then Some ph else None)
          else if is_tool t then
            (if re_Type e = FunctionCallArgumentsDelta \<or> re_Type e = CustomToolCallInputDelta then Some ph
             else if re_Type e = FunctionCallArgumentsDone then Some (RArgsDone i) else None)
          else None
      | RArgsDone i \<Rightarrow>
          if re_Type e = OutputItemDone
          then (case re_Item e of Some item \<Rightarrow> if is_tool (o_Type item) then Some RIdle else None | None \<Rightarrow> None)
          else None
      | ROver \<Rightarrow> None)"

abbreviation resp_run :: "responses_event list \<Rightarrow> resp_phase \<Rightarrow> resp_phase option" where
  "resp_run \<equiv> accept resp_step"

section \<open>The simulation\<close>

text \<open>The phase of the output that the converter's state stands for.\<close>

fun shown_type :: "open_block \<Rightarrow> block_type" where
  "shown_type ThinkingOpen = ThinkingBlock"
| "shown_type ToolOpen = ToolUse"
| "shown_type _ = TextBlock"

definition phase_of :: "to_anthropic \<Rightarrow> anth_phase" where
  "phase_of st =
     (if MessageStopSent st then Over
      else if \<not> MessageStartSent st then NotStarted
      else if ContentBlockOpen st then Inside (ContentBlockIndex st) (shown_type (CurrentBlockType st))
      else Between (ContentBlockIndex st))"

definition running :: "to_anthropic \<Rightarrow> bool" where
  "running st \<longleftrightarrow> MessageStartSent st \<and> \<not> MessageStopSent st"

definition maps_here :: "to_anthropic \<Rightarrow> int \<Rightarrow> bool" where
  "maps_here st i \<longleftrightarrow> OutputIndexToBlockIdx st i = Some (ContentBlockIndex st)"

fun simulates :: "resp_phase \<Rightarrow> to_anthropic \<Rightarrow> bool" where
  "simulates RStart st =
     (\<not> MessageStartSent st \<and> \<not> MessageStopSent st \<and> \<not> ContentBlockOpen st \<and> ContentBlockIndex st = 0)"
| "simulates RIdle st = (running st \<and> \<not> ContentBlockOpen st)"
| "simulates (RItem i t) st =
     (running st \<and>
      (if t = MessageItem then ContentBlockOpen st \<longrightarrow> CurrentBlockType st = TextOpen
       else if t = ReasoningItem then ContentBlockOpen st \<and> CurrentBlockType st = ThinkingOpen \<and> maps_here st i
       else if is_tool t then ContentBlockOpen st \<and> CurrentBlockType st = ToolOpen \<and> maps_here st i
       else \<not> ContentBlockOpen st))"
| "simulates (RArgsDone i) st = (running st \<and> \<not> ContentBlockOpen st)"
| "simulates ROver st = (MessageStartSent st \<and> MessageStopSent st)"

lemma close_block:
  assumes "closeCurrentBlock st = (out, st')" "running st"
  shows "anth_run out (phase_of st) = Some (phase_of st')" "\<not> ContentBlockOpen st'" "running st'"
    "phase_of st' = Between (ContentBlockIndex st')"
    "ContentBlockIndex st' = (if ContentBlockOpen st then ContentBlockIndex st + 1 else ContentBlockIndex st)"
    "HasToolCall st' = HasToolCall st" "OutputIndexToBlockIdx st' = OutputIndexToBlockIdx st"
  using assms
  by (auto simp: closeCurrentBlock_def phase_of_def running_def Let_def split: if_splits)

text \<open>Closing, as an equation when there is nothing to close.\<close>

lemma close_nothing: "\<not> ContentBlockOpen st \<Longrightarrow> closeCurrentBlock st = ([], st)"
  by (simp add: closeCurrentBlock_def)

text \<open>\<open>moves out st st' ph'\<close>: the step is right for a next phase \<open>ph'\<close> of the upstream.\<close>

definition moves :: "anthropic_event list \<times> to_anthropic \<Rightarrow> to_anthropic \<Rightarrow> resp_phase \<Rightarrow> bool" where
  "moves r st ph' \<longleftrightarrow> simulates ph' (snd r) \<and> follows anth_step phase_of r st"

lemma moves_stay: "simulates ph st \<Longrightarrow> moves ([], st) st ph"
  by (simp add: moves_def follows_def)

lemma moves_close:
  assumes "running st" "\<And>st'. running st' \<Longrightarrow> \<not> ContentBlockOpen st' \<Longrightarrow> simulates ph st'"
  shows "moves (closeCurrentBlock st) st ph"
  using close_block [OF _ assms(1), of "fst (closeCurrentBlock st)" "snd (closeCurrentBlock st)"] assms(2)
  by (simp add: moves_def follows_def)

lemma created_moves:
  assumes "simulates RStart st"
  shows "moves (resToAnthHandleCreated e st) st RIdle"
  using assms
  by (auto simp: resToAnthHandleCreated_def moves_def follows_def phase_of_def running_def anth_step_def anth_event_def Let_def
      split: option.splits)

lemma added_moves:
  assumes "running st" "\<not> ContentBlockOpen st" "re_Item e = Some item"
  shows "moves (resToAnthHandleOutputItemAdded e st) st (RItem (re_OutputIndex e) (o_Type item))"
  using assms
  by (auto simp: resToAnthHandleOutputItemAdded_def moves_def follows_def phase_of_def running_def close_nothing is_tool_def
      maps_here_def Let_def)

lemma text_moves:
  assumes "running st" "ContentBlockOpen st \<longrightarrow> CurrentBlockType st = TextOpen"
  shows "moves (resToAnthHandleTextDelta e st) st (RItem i MessageItem)"
  using assms
  by (auto simp: resToAnthHandleTextDelta_def moves_def follows_def phase_of_def running_def close_nothing Let_def)

lemma args_delta_moves:
  assumes "simulates (RItem (re_OutputIndex e) t) st" "is_tool t"
  shows "moves (resToAnthHandleFuncArgsDelta js e st) st (RItem (re_OutputIndex e) t)"
proof -
  have t: "t \<noteq> MessageItem" "t \<noteq> ReasoningItem" using assms(2) by (auto simp: is_tool_def)
  have st: "MessageStartSent st" "\<not> MessageStopSent st" "ContentBlockOpen st" "CurrentBlockType st = ToolOpen"
    "OutputIndexToBlockIdx st (re_OutputIndex e) = Some (ContentBlockIndex st)"
    using assms t by (simp_all add: running_def maps_here_def)
  show ?thesis
    using st assms(2) t
    by (simp add: resToAnthHandleFuncArgsDelta_def moves_def follows_def phase_of_def running_def maps_here_def Let_def)
qed

lemma close_with_delta:
  assumes "running st" "ContentBlockOpen st" "CurrentBlockType st = ToolOpen" "d_Type d = InputJSONDelta"
    and "closeCurrentBlock st = (out, st')"
  shows "anth_run (block_delta (ContentBlockIndex st) d # out) (phase_of st) = Some (phase_of st')"
proof -
  have "phase_of st = Inside (ContentBlockIndex st) ToolUse" using assms by (simp add: phase_of_def running_def)
  with close_block(1) [OF assms(5,1)] assms(4) show ?thesis by simp
qed

lemma args_done_moves:
  assumes "simulates (RItem (re_OutputIndex e) t) st" "is_tool t"
  shows "moves (resToAnthHandleFuncArgsDone js e st) st (RArgsDone (re_OutputIndex e))"
proof -
  have st: "running st" "ContentBlockOpen st" "CurrentBlockType st = ToolOpen"
    "OutputIndexToBlockIdx st (re_OutputIndex e) = Some (ContentBlockIndex st)"
    using assms by (auto simp: is_tool_def maps_here_def)
  have close: "moves (closeCurrentBlock st) st (RArgsDone (re_OutputIndex e))"
    by (rule moves_close [OF st(1)]) simp
  have late: "moves (block_delta (ContentBlockIndex st) d # out, st') st (RArgsDone (re_OutputIndex e))"
    if "closeCurrentBlock st = (out, st')" "d_Type d = InputJSONDelta" for d out st'
    using close_with_delta [OF st(1-3) that(2,1)] close_block(2,3) [OF that(1) st(1)] by (simp add: moves_def follows_def)
  show ?thesis
    using st close late
    by (cases "closeCurrentBlock st") (auto simp: resToAnthHandleFuncArgsDone_def Let_def)
qed

lemma reasoning_moves:
  assumes "simulates (RItem (re_OutputIndex e) ReasoningItem) st"
  shows "moves (resToAnthHandleReasoningDelta e st) st (RItem (re_OutputIndex e) ReasoningItem)"
  using assms
  by (auto simp: resToAnthHandleReasoningDelta_def moves_def follows_def phase_of_def running_def maps_here_def)

lemma block_done_moves:
  assumes "running st" "ContentBlockOpen st \<longrightarrow> CurrentBlockType st = TextOpen"
  shows "moves (resToAnthHandleBlockDone st) st (RItem i MessageItem)"
  using assms moves_close [OF assms(1), of "RItem i MessageItem"]
  by (auto simp: resToAnthHandleBlockDone_def intro: moves_stay)

lemma web_search_moves:
  assumes "running st"
  shows "moves (resToAnthHandleWebSearchDone js item st) st RIdle"
proof -
  obtain out st' where c: "closeCurrentBlock st = (out, st')" by fastforce
  show ?thesis
    using close_block [OF c assms]
    by (simp add: resToAnthHandleWebSearchDone_def c moves_def follows_def accept_append Let_def running_def phase_of_def
        web_search_use_def web_search_result_def)
qed

lemma item_done_moves:
  assumes "running st" "re_Item e = Some item"
  shows "moves (resToAnthHandleOutputItemDone js e st) st RIdle"
proof -
  have close: "moves (closeCurrentBlock (st\<lparr>PendingThinkingSignature := s\<rparr>)) (st\<lparr>PendingThinkingSignature := s\<rparr>) RIdle" for s
    by (rule moves_close) (use assms(1) in \<open>simp_all add: running_def\<close>)
  have close': "moves (closeCurrentBlock st) st RIdle"
    by (rule moves_close) (use assms(1) in simp_all)
  have "phase_of (st\<lparr>PendingThinkingSignature := s\<rparr>) = phase_of st" for s by (simp add: phase_of_def)
  then have "moves (closeCurrentBlock (st\<lparr>PendingThinkingSignature := s\<rparr>)) st RIdle" for s
    using close [of s] by (simp add: moves_def follows_def)
  moreover have "moves ([], st\<lparr>PendingThinkingSignature := s\<rparr>) st RIdle" if "\<not> ContentBlockOpen st" for s
    using assms(1) that by (simp add: moves_def follows_def running_def phase_of_def)
  ultimately show ?thesis
    using assms close' web_search_moves [OF assms(1), of js item]
    by (auto simp: resToAnthHandleOutputItemDone_def Let_def intro: moves_stay)
qed

lemma completed_moves:
  assumes "running st"
  shows "moves (resToAnthHandleCompleted e st) st ROver"
proof -
  obtain out st' where c: "closeCurrentBlock st = (out, st')" by fastforce
  note close = close_block [OF c assms]
  show ?thesis
    using assms close(1,3,4)
    by (auto simp: resToAnthHandleCompleted_def c moves_def follows_def accept_append Let_def running_def phase_of_def
        split: option.split)
qed

lemma step_moves:
  assumes "resp_step e ph = Some ph'" "simulates ph st"
  shows "moves (ResponsesEventToAnthropicEvents js e st) st ph'"
proof (cases "resp_ignored (re_Type e)")
  case True
  then have "ResponsesEventToAnthropicEvents js e st = ([], st)"
    by (auto simp: resp_ignored_def ResponsesEventToAnthropicEvents_def split: resp_type.splits)
  with assms True show ?thesis by (simp add: resp_step_def moves_stay)
next
  case live: False
  show ?thesis
  proof (cases "ends_response (re_Type e)")
    case True
    with assms live have "ph' = ROver" "running st"
      by (cases ph; auto simp: resp_step_def running_def split: if_splits)+
    moreover have "ResponsesEventToAnthropicEvents js e st = resToAnthHandleCompleted e st"
      using True by (auto simp: ends_response_def ResponsesEventToAnthropicEvents_def)
    ultimately show ?thesis by (simp add: completed_moves)
  next
    case False
    note step = assms(1) [unfolded resp_step_def, simplified live False if_False]
    show ?thesis
    proof (cases ph)
      case RStart
      with step assms(2) created_moves [of st e] show ?thesis
        by (auto simp: ResponsesEventToAnthropicEvents_def split: if_splits)
    next
      case RIdle
      with step obtain item where "re_Item e = Some item" "re_Type e = OutputItemAdded"
        "ph' = RItem (re_OutputIndex e) (o_Type item)"
        by (auto split: option.splits if_splits)
      with RIdle assms(2) added_moves [of st e item] show ?thesis
        by (simp add: ResponsesEventToAnthropicEvents_def)
    next
      case (RItem i t)
      show ?thesis
      proof (cases "re_Type e = OutputItemDone")
        case True
        with RItem step assms(2) item_done_moves [of st e _ js] show ?thesis
          by (auto simp: ResponsesEventToAnthropicEvents_def split: option.splits if_splits)
      next
        case False
        with RItem step have "re_OutputIndex e = i" by (auto split: if_splits)
        with False RItem step assms(2) text_moves [of st e i] block_done_moves [of st i] reasoning_moves [of e st]
            args_delta_moves [of e t st js] args_done_moves [of e t st js]
        show ?thesis
          by (auto simp: ResponsesEventToAnthropicEvents_def split: if_splits)
      qed
    next
      case (RArgsDone i)
      with step assms(2) item_done_moves [of st e _ js] show ?thesis
        by (auto simp: ResponsesEventToAnthropicEvents_def split: option.splits if_splits)
    qed (use step in simp)
  qed
qed

interpretation protocol: simulation "ResponsesEventToAnthropicEvents js" resp_step anth_step phase_of simulates for js
  by unfold_locales (use step_moves in \<open>auto simp: moves_def\<close>)

lemma finalize_moves:
  assumes "running st"
  shows "moves (FinalizeResponsesAnthropicStream st) st ROver"
proof -
  obtain out st' where c: "closeCurrentBlock st = (out, st')" by fastforce
  note close = close_block [OF c assms]
  show ?thesis
    using assms close(1,3,4)
    by (auto simp: FinalizeResponsesAnthropicStream_def c moves_def follows_def accept_append Let_def running_def phase_of_def)
qed

end
