(* ===== verification/Compat_Equivalence.thy ===== *)
theory Compat_Equivalence
  imports Compat_Protocol
begin

text \<open>
  Streaming and not streaming agree. \<open>assemble\<close> is the client that puts a message together from the
  events of its stream, \<open>response_events\<close> the stream in which the upstream tells a response, cut into
  deltas in any way. What the client assembles from the converted stream is the message that the
  conversion of the whole response gives.
\<close>

section \<open>The client\<close>

definition assemble_delta :: "anthropic_delta \<Rightarrow> content_block \<Rightarrow> content_block" where
  "assemble_delta d b =
     (case d_Type d of
        TextDelta \<Rightarrow> b\<lparr>cb_Text := cb_Text b @ d_Text d\<rparr>
      | ThinkingDelta \<Rightarrow> b\<lparr>cb_Thinking := cb_Thinking b @ d_Thinking d\<rparr>
      | SignatureDelta \<Rightarrow> b\<lparr>cb_Signature := d_Signature d\<rparr>
      | InputJSONDelta \<Rightarrow> b\<lparr>cb_Input := cb_Input b @ d_PartialJSON d\<rparr>
      | OtherDelta _ \<Rightarrow> b)"

text \<open>The partial inputs of a tool take the place of the input it starts with.\<close>

definition assemble_block :: "anthropic_event \<Rightarrow> content_block list \<Rightarrow> content_block list" where
  "assemble_block e bs =
     (case ae_Type e of
        ContentBlockStart \<Rightarrow>
          (case ae_ContentBlock e of
             None \<Rightarrow> bs | Some b \<Rightarrow> bs @ [if cb_Type b = ToolUse then b\<lparr>cb_Input := []\<rparr> else b])
      | ContentBlockDelta \<Rightarrow>
          (case (ae_Index e, ae_Delta e) of
             (Some i, Some d) \<Rightarrow> bs[nat i := assemble_delta d (bs ! nat i)] | _ \<Rightarrow> bs)
      | _ \<Rightarrow> bs)"

definition assemble :: "anthropic_event \<Rightarrow> anthropic_response \<Rightarrow> anthropic_response" where
  "assemble e m =
     (case ae_Type e of
        MessageStart \<Rightarrow> (case ae_Message e of None \<Rightarrow> m | Some m' \<Rightarrow> m')
      | MessageDelta \<Rightarrow>
          m\<lparr>an_StopReason := map_option d_StopReason (ae_Delta e),
            an_Usage := (case ae_Usage e of None \<Rightarrow> an_Usage m | Some u \<Rightarrow> u)\<rparr>
      | _ \<Rightarrow> m\<lparr>an_Content := assemble_block e (an_Content m)\<rparr>)"

definition no_message :: anthropic_response where
  "no_message = \<lparr>an_ID = [], an_Content = [], an_Model = [], an_StopReason = None, an_Usage = no_usage\<rparr>"

section \<open>The stream of a response\<close>

definition delta_events :: "resp_type \<Rightarrow> int \<Rightarrow> string list \<Rightarrow> responses_event list" where
  "delta_events t i cs = map (\<lambda>c. (resp_event t)\<lparr>re_OutputIndex := i, re_Delta := c\<rparr>) cs"

definition announced :: "responses_output \<Rightarrow> responses_output" where
  "announced item = item\<lparr>o_Status := ''in_progress'', o_Content := [], o_Summary := [], o_Arguments := [],
                         o_EncryptedContent := []\<rparr>"

text \<open>An item with the chunks its texts are sent in.\<close>

type_synonym told_item = "responses_output \<times> string list list"

fun item_events :: "int \<Rightarrow> told_item \<Rightarrow> responses_event list" where
  "item_events i (item, css) =
     [(resp_event OutputItemAdded)\<lparr>re_OutputIndex := i, re_Item := Some (announced item)\<rparr>] @
     (case o_Type item of
        MessageItem \<Rightarrow>
          concat (map (\<lambda>cs. delta_events OutputTextDelta i cs @ [(resp_event OutputTextDone)\<lparr>re_OutputIndex := i\<rparr>]) css)
      | ReasoningItem \<Rightarrow> delta_events ReasoningSummaryTextDelta i (concat css)
      | FunctionCall \<Rightarrow>
          delta_events FunctionCallArgumentsDelta i (concat css) @
          [(resp_event FunctionCallArgumentsDone)\<lparr>re_OutputIndex := i, re_Arguments := o_Arguments item\<rparr>]
      | _ \<Rightarrow> []) @
     [(resp_event OutputItemDone)\<lparr>re_OutputIndex := i, re_Item := Some item\<rparr>]"

fun items_events :: "int \<Rightarrow> told_item list \<Rightarrow> responses_event list" where
  "items_events i [] = []"
| "items_events i (t # ts) = item_events i t @ items_events (i + 1) ts"

definition response_events :: "responses_response \<Rightarrow> told_item list \<Rightarrow> responses_event list" where
  "response_events resp ts =
     (resp_event Created)\<lparr>re_Response := Some (resp\<lparr>r_Status := ''in_progress'', r_Output := []\<rparr>)\<rparr> #
     items_events 0 ts @
     [(resp_event Completed)\<lparr>re_Response := Some resp\<rparr>]"

text \<open>
  Chunks that spell the item out. Items the two conversions treat differently are left out: custom tool
  calls, tool calls without arguments, reasoning that is empty or whose signature has blanks around it.
  The arguments of the tool \<open>Read\<close> are valid JSON of which no proper prefix is valid, as of any object
  that does not end in blanks.
\<close>

definition spells :: "json_lib \<Rightarrow> told_item \<Rightarrow> bool" where
  "spells js t =
     (case t of (item, css) \<Rightarrow>
        (case o_Type item of
           MessageItem \<Rightarrow> map concat css = map cp_Text (o_Content item) \<and>
             (\<forall>part \<in> set (o_Content item). cp_Type part = ''output_text'')
         | ReasoningItem \<Rightarrow> concat (concat css) = reasoning_text (o_Summary item) \<and>
             TrimSpace (o_EncryptedContent item) = o_EncryptedContent item \<and>
             (reasoning_text (o_Summary item) \<noteq> [] \<or> o_EncryptedContent item \<noteq> [])
         | FunctionCall \<Rightarrow> concat (concat css) = o_Arguments item \<and> o_Arguments item \<noteq> [] \<and>
             (o_Name item = ''Read'' \<longrightarrow> json_valid js (o_Arguments item) \<and>
                (\<forall>k < length (o_Arguments item). \<not> json_valid js (take k (o_Arguments item))))
         | WebSearchCall \<Rightarrow> o_Status item = ''completed''
         | CustomToolCall \<Rightarrow> False
         | _ \<Rightarrow> True))"

section \<open>Runs over deltas\<close>

text \<open>The deltas a client gets: one for every chunk that is not empty.\<close>

definition sent :: "int \<Rightarrow> (string \<Rightarrow> anthropic_delta) \<Rightarrow> string list \<Rightarrow> anthropic_event list" where
  "sent i d cs = map (\<lambda>c. block_delta i (d c)) (filter (\<lambda>c. c \<noteq> []) cs)"

abbreviation text_delta :: "string \<Rightarrow> anthropic_delta" where
  "text_delta c \<equiv> (no_delta TextDelta)\<lparr>d_Text := c\<rparr>"

abbreviation thinking_delta :: "string \<Rightarrow> anthropic_delta" where
  "thinking_delta c \<equiv> (no_delta ThinkingDelta)\<lparr>d_Thinking := c\<rparr>"

abbreviation input_delta :: "string \<Rightarrow> anthropic_delta" where
  "input_delta c \<equiv> (no_delta InputJSONDelta)\<lparr>d_PartialJSON := c\<rparr>"

lemma text_deltas_run:
  assumes "ContentBlockOpen st" "CurrentBlockType st = TextOpen"
  shows "to_anthropic_run js (delta_events OutputTextDelta i cs) st = (sent (ContentBlockIndex st) text_delta cs, st)"
  using assms
  by (induction cs) (auto simp: delta_events_def sent_def ResponsesEventToAnthropicEvents_def resp_event_def
      resToAnthHandleTextDelta_def Let_def)

lemma thinking_deltas_run:
  assumes "OutputIndexToBlockIdx st i = Some b"
  shows "to_anthropic_run js (delta_events ReasoningSummaryTextDelta i cs) st = (sent b thinking_delta cs, st)"
  using assms
  by (induction cs) (auto simp: delta_events_def sent_def ResponsesEventToAnthropicEvents_def resp_event_def
      resToAnthHandleReasoningDelta_def)

lemma input_deltas_run:
  assumes "OutputIndexToBlockIdx st i = Some b" "CurrentBlockType st = ToolOpen" "CurrentToolName st \<noteq> ''Read''"
  shows "to_anthropic_run js (delta_events FunctionCallArgumentsDelta i cs) st =
    (sent b input_delta cs, st\<lparr>CurrentToolHadDelta := CurrentToolHadDelta st \<or> concat cs \<noteq> []\<rparr>)"
  using assms
  by (induction cs arbitrary: st) (auto simp: delta_events_def sent_def ResponsesEventToAnthropicEvents_def
      resp_event_def resToAnthHandleFuncArgsDelta_def)

lemma take_valid:
  assumes "acc @ c @ rest = args" "rest \<noteq> []" "\<And>k. k < length args \<Longrightarrow> \<not> json_valid js (take k args)"
  shows "\<not> json_valid js (acc @ c)"
  using assms(3) [of "length (acc @ c)"] assms(1,2) by (force simp flip: append_assoc)

lemma read_deltas_run:
  assumes "OutputIndexToBlockIdx st i = Some b" "CurrentBlockType st = ToolOpen" "CurrentToolName st = ''Read''"
    "CurrentToolArgs st @ concat cs = args" "CurrentToolHadDelta st \<longleftrightarrow> concat cs = []"
    "json_valid js args" "\<And>k. k < length args \<Longrightarrow> \<not> json_valid js (take k args)"
  shows "to_anthropic_run js (delta_events FunctionCallArgumentsDelta i cs) st =
    (if concat cs = [] then [] else [block_delta b (input_delta (sanitizeAnthropicToolUseInput js ''Read'' args))],
     st\<lparr>CurrentToolArgs := args, CurrentToolHadDelta := True\<rparr>)"
  using assms(1-5)
proof (induction cs arbitrary: st)
  case Nil
  then show ?case by (simp add: delta_events_def)
next
  case (Cons c cs)
  show ?case
  proof (cases "c = []")
    case True
    with Cons show ?thesis
      by (simp add: delta_events_def ResponsesEventToAnthropicEvents_def resp_event_def resToAnthHandleFuncArgsDelta_def)
  next
    case c: False
    let ?st = "st\<lparr>CurrentToolArgs := CurrentToolArgs st @ c\<rparr>"
    show ?thesis
    proof (cases "concat cs = []")
      case True
      with c Cons.prems Cons.IH [of "?st\<lparr>CurrentToolHadDelta := True\<rparr>"] assms(6) show ?thesis
        by (simp add: delta_events_def ResponsesEventToAnthropicEvents_def resp_event_def
            resToAnthHandleFuncArgsDelta_def Let_def)
    next
      case False
      with Cons.prems take_valid [of "CurrentToolArgs st" c "concat cs" args js] assms(7)
      have "\<not> json_valid js (CurrentToolArgs st @ c)" by simp
      with False c Cons.prems Cons.IH [of ?st] show ?thesis
        by (simp add: delta_events_def ResponsesEventToAnthropicEvents_def resp_event_def
            resToAnthHandleFuncArgsDelta_def Let_def)
    qed
  qed
qed

section \<open>What the client makes of them\<close>

lemma assemble_block_simps [simp]:
  "assemble_block (block_start i b) bs = bs @ [if cb_Type b = ToolUse then b\<lparr>cb_Input := []\<rparr> else b]"
  "assemble_block (block_stop i) bs = bs"
  "assemble_block (block_delta (int (length bs)) d) (bs @ [b]) = bs @ [assemble_delta d b]"
  by (simp_all add: assemble_block_def block_start_def block_stop_def block_delta_def anth_event_def)

lemma assemble_sent:
  assumes "\<And>b c. assemble_delta (d c) b = f c b" "\<And>b. f [] b = b" "\<And>b c c'. f c' (f c b) = f (c @ c') b"
  shows "fold assemble_block (sent (int (length bs)) d cs) (bs @ [b]) = bs @ [f (concat cs) b]"
  by (induction cs arbitrary: b) (simp_all add: sent_def assms)

lemma assemble_texts:
  "fold assemble_block (sent (int (length bs)) text_delta cs) (bs @ [b]) = bs @ [b\<lparr>cb_Text := cb_Text b @ concat cs\<rparr>]"
  by (rule assemble_sent) (simp_all add: assemble_delta_def no_delta_def)

lemma assemble_thoughts:
  "fold assemble_block (sent (int (length bs)) thinking_delta cs) (bs @ [b]) =
     bs @ [b\<lparr>cb_Thinking := cb_Thinking b @ concat cs\<rparr>]"
  by (rule assemble_sent) (simp_all add: assemble_delta_def no_delta_def)

lemma assemble_inputs:
  "fold assemble_block (sent (int (length bs)) input_delta cs) (bs @ [b]) =
     bs @ [b\<lparr>cb_Input := cb_Input b @ concat cs\<rparr>]"
  by (rule assemble_sent) (simp_all add: assemble_delta_def no_delta_def)

section \<open>One item\<close>

text \<open>Between two items, \<open>n\<close> blocks sent; \<open>has\<close> whether a tool was among them.\<close>

definition idle :: "nat \<Rightarrow> bool \<Rightarrow> to_anthropic \<Rightarrow> bool" where
  "idle n has st \<longleftrightarrow> running st \<and> \<not> ContentBlockOpen st \<and> ContentBlockIndex st = int n \<and>
     HasToolCall st = has \<and> to_Usage st = no_usage"

definition content_event :: "anthropic_event \<Rightarrow> bool" where
  "content_event e \<longleftrightarrow> ae_Type e \<in> {ContentBlockStart, ContentBlockDelta, ContentBlockStop}"

definition yields ::
  "json_lib \<Rightarrow> responses_event list \<Rightarrow> content_block list \<times> bool \<Rightarrow> content_block list \<times> bool \<Rightarrow> bool" where
  "yields js es p q \<longleftrightarrow>
     (\<forall>st. idle (length (fst p)) (snd p) st \<longrightarrow>
        (\<exists>out st'. to_anthropic_run js es st = (out, st') \<and> idle (length (fst q)) (snd q) st' \<and>
           fold assemble_block out (fst p) = fst q \<and> (\<forall>e \<in> set out. content_event e)))"

lemma yieldsI:
  assumes "\<And>st. idle (length bs) has st \<Longrightarrow>
    \<exists>out st'. to_anthropic_run js es st = (out, st') \<and> idle (length bs') has' st' \<and>
      fold assemble_block out bs = bs' \<and> (\<forall>e \<in> set out. content_event e)"
  shows "yields js es (bs, has) (bs', has')"
  using assms by (simp add: yields_def)

lemma yields_append:
  assumes "yields js es p q" "yields js fs q r"
  shows "yields js (es @ fs) p r"
  unfolding yields_def
proof (intro allI impI)
  fix st assume "idle (length (fst p)) (snd p) st"
  then obtain out st' where one: "to_anthropic_run js es st = (out, st')" "idle (length (fst q)) (snd q) st'"
    "fold assemble_block out (fst p) = fst q" "\<forall>e \<in> set out. content_event e"
    using assms(1) by (auto simp: yields_def)
  then obtain out' st'' where "to_anthropic_run js fs st' = (out', st'')" "idle (length (fst r)) (snd r) st''"
    "fold assemble_block out' (fst q) = fst r" "\<forall>e \<in> set out'. content_event e"
    using assms(2) by (auto simp: yields_def)
  with one show "\<exists>out st'. to_anthropic_run js (es @ fs) st = (out, st') \<and> idle (length (fst r)) (snd r) st' \<and>
      fold assemble_block out (fst p) = fst r \<and> (\<forall>e \<in> set out. content_event e)"
    by (auto simp: to_anthropic_run_append)
qed

lemma yields_nothing: "yields js [] p p"
  by (simp add: yields_def)

lemma yields_no_output:
  assumes "\<And>st. idle (length (fst p)) (snd p) st \<Longrightarrow> ResponsesEventToAnthropicEvents js e st = ([], st)"
  shows "yields js [e] p p"
  using assms by (simp add: yields_def)

lemma content_event_simps [simp]:
  "content_event (block_start i b)" "content_event (block_delta i d)" "content_event (block_stop i)"
  by (simp_all add: content_event_def block_start_def block_delta_def block_stop_def anth_event_def)

lemma content_sent [simp]: "e \<in> set (sent i d cs) \<Longrightarrow> content_event e"
  by (auto simp: sent_def)

subsection \<open>Messages\<close>

lemma first_text_run:
  assumes "\<not> ContentBlockOpen st" "concat cs \<noteq> []"
  shows "to_anthropic_run js (delta_events OutputTextDelta i cs) st =
    (block_start (ContentBlockIndex st) (no_block TextBlock) # sent (ContentBlockIndex st) text_delta cs,
     st\<lparr>ContentBlockOpen := True, CurrentBlockType := TextOpen\<rparr>)"
  using assms
proof (induction cs)
  case (Cons c cs)
  let ?st = "st\<lparr>ContentBlockOpen := True, CurrentBlockType := TextOpen\<rparr>"
  have rest: "to_anthropic_run js (delta_events OutputTextDelta i cs) ?st = (sent (ContentBlockIndex st) text_delta cs, ?st)"
    using text_deltas_run [of ?st js i cs] by simp
  show ?case
  proof (cases "c = []")
    case True
    with Cons show ?thesis
      by (simp add: delta_events_def sent_def ResponsesEventToAnthropicEvents_def resp_event_def
          resToAnthHandleTextDelta_def)
  next
    case False
    with Cons.prems rest show ?thesis
      by (simp add: delta_events_def sent_def ResponsesEventToAnthropicEvents_def resp_event_def
          resToAnthHandleTextDelta_def close_nothing Let_def)
  qed
qed simp

definition text_blocks :: "string \<Rightarrow> content_block list" where
  "text_blocks t = (if t = [] then [] else [(no_block TextBlock)\<lparr>cb_Text := t\<rparr>])"

lemma no_text_run:
  assumes "concat cs = []"
  shows "to_anthropic_run js (delta_events OutputTextDelta i cs) st = ([], st)"
  using assms
  by (induction cs) (simp_all add: delta_events_def ResponsesEventToAnthropicEvents_def resp_event_def
      resToAnthHandleTextDelta_def)

lemma part_yields:
  "yields js (delta_events OutputTextDelta i cs @ [(resp_event OutputTextDone)\<lparr>re_OutputIndex := i\<rparr>])
     (bs, has) (bs @ text_blocks (concat cs), has)"
proof (rule yieldsI)
  fix st assume st: "idle (length bs) has st"
  show "\<exists>out st'. to_anthropic_run js (delta_events OutputTextDelta i cs @
          [(resp_event OutputTextDone)\<lparr>re_OutputIndex := i\<rparr>]) st = (out, st') \<and>
        idle (length (bs @ text_blocks (concat cs))) has st' \<and>
        fold assemble_block out bs = bs @ text_blocks (concat cs) \<and> (\<forall>e \<in> set out. content_event e)"
  proof (cases "concat cs = []")
    case True
    with st show ?thesis
      by (simp add: to_anthropic_run_append no_text_run ResponsesEventToAnthropicEvents_def resp_event_def
          resToAnthHandleBlockDone_def idle_def text_blocks_def)
  next
    case False
    with st first_text_run [of st cs js i] assemble_texts [where bs = bs and cs = cs and b = "no_block TextBlock"] show ?thesis
      by (auto simp: to_anthropic_run_append ResponsesEventToAnthropicEvents_def resp_event_def running_def
          resToAnthHandleBlockDone_def closeCurrentBlock_def idle_def text_blocks_def Let_def no_block_def)
  qed
qed

lemma parts_yield:
  "yields js (concat (map (\<lambda>cs. delta_events OutputTextDelta i cs @ [(resp_event OutputTextDone)\<lparr>re_OutputIndex := i\<rparr>]) css))
     (bs, has) (bs @ concat (map (\<lambda>cs. text_blocks (concat cs)) css), has)"
proof (induction css arbitrary: bs)
  case Nil
  then show ?case by (simp add: yields_nothing)
next
  case (Cons cs css)
  from yields_append [OF part_yields [of js i cs bs has] Cons [of "bs @ text_blocks (concat cs)"]]
  show ?case by simp
qed

subsection \<open>The other items\<close>

lemma item_blocks_message:
  assumes "o_Type item = MessageItem" "map concat css = map cp_Text (o_Content item)"
    "\<forall>part \<in> set (o_Content item). cp_Type part = ''output_text''"
  shows "concat (map (\<lambda>cs. text_blocks (concat cs)) css) = item_blocks js item"
proof -
  have "map (\<lambda>part. (no_block TextBlock)\<lparr>cb_Text := cp_Text part\<rparr>)
          (filter (\<lambda>part. cp_Type part = ''output_text'' \<and> cp_Text part \<noteq> []) parts) =
        concat (map text_blocks (map cp_Text parts))"
    if "\<forall>part \<in> set parts. cp_Type part = ''output_text''" for parts
    using that by (induction parts) (auto simp: text_blocks_def)
  from this [OF assms(3)] have "item_blocks js item = concat (map text_blocks (map concat css))"
    by (simp only: item_blocks_def assms(1,2) item_type.case)
  then show ?thesis by (simp add: comp_def)
qed

lemma message_yields:
  assumes "spells js (item, css)" "o_Type item = MessageItem"
  shows "yields js (item_events i (item, css)) (bs, has) (bs @ item_blocks js item, has)"
proof -
  have added: "yields js [(resp_event OutputItemAdded)\<lparr>re_OutputIndex := i, re_Item := Some (announced item)\<rparr>]
      (bs, has) (bs, has)"
    by (rule yields_no_output) (simp add: ResponsesEventToAnthropicEvents_def resp_event_def announced_def
        resToAnthHandleOutputItemAdded_def assms(2))
  have finished: "yields js [(resp_event OutputItemDone)\<lparr>re_OutputIndex := i, re_Item := Some item\<rparr>] p p" for p
    by (rule yields_no_output) (simp add: ResponsesEventToAnthropicEvents_def resp_event_def idle_def
        resToAnthHandleOutputItemDone_def assms(2))
  have "concat (map (\<lambda>cs. text_blocks (concat cs)) css) = item_blocks js item"
    by (rule item_blocks_message) (use assms in \<open>simp_all add: spells_def\<close>)
  with yields_append [OF added yields_append [OF parts_yield [where css = css and i = i] finished]] show ?thesis by (simp add: assms(2))
qed

lemma reasoning_yields:
  assumes "spells js (item, css)" "o_Type item = ReasoningItem"
  shows "yields js (item_events i (item, css)) (bs, has) (bs @ item_blocks js item, has)"
proof (rule yieldsI)
  fix st assume st: "idle (length bs) has st"
  let ?n = "ContentBlockIndex st"
  let ?sig = "o_EncryptedContent item"
  let ?st = "st\<lparr>OutputIndexToBlockIdx := (OutputIndexToBlockIdx st)(i \<mapsto> ?n), ContentBlockOpen := True,
               CurrentBlockType := ThinkingOpen, PendingThinkingSignature := []\<rparr>"
  let ?out = "[block_start ?n (no_block ThinkingBlock)] @ sent ?n thinking_delta (concat css) @
      (if ?sig \<noteq> [] then [block_delta ?n ((no_delta SignatureDelta)\<lparr>d_Signature := ?sig\<rparr>)] else []) @ [block_stop ?n]"
  have told: "concat (concat css) = reasoning_text (o_Summary item)" "TrimSpace ?sig = ?sig"
    "reasoning_text (o_Summary item) \<noteq> [] \<or> ?sig \<noteq> []"
    using assms by (simp_all add: spells_def)
  have closed: "\<not> ContentBlockOpen st" "?n = int (length bs)" using st by (simp_all add: idle_def)
  have deltas: "to_anthropic_run js (delta_events ReasoningSummaryTextDelta i (concat css)) ?st =
      (sent ?n thinking_delta (concat css), ?st)"
    by (rule thinking_deltas_run) simp
  have "\<exists>st'. to_anthropic_run js (item_events i (item, css)) st = (?out, st') \<and> idle (Suc (length bs)) has st'"
    using st deltas
    by (auto simp: assms(2) to_anthropic_run_append ResponsesEventToAnthropicEvents_def resp_event_def announced_def
        resToAnthHandleOutputItemAdded_def close_nothing Let_def resToAnthHandleOutputItemDone_def closeCurrentBlock_def
        idle_def running_def told(2))
  moreover have "fold assemble_block ?out bs = bs @ item_blocks js item"
    using told assemble_thoughts [where bs = bs and cs = "concat css" and b = "no_block ThinkingBlock"]
    by (auto simp: closed(2) item_blocks_def assms(2) Let_def no_block_def no_delta_def assemble_delta_def)
  moreover have "length (item_blocks js item) = 1"
    using told by (auto simp: item_blocks_def assms(2) Let_def)
  ultimately show "\<exists>out st'. to_anthropic_run js (item_events i (item, css)) st = (out, st') \<and>
      idle (length (bs @ item_blocks js item)) has st' \<and>
      fold assemble_block out bs = bs @ item_blocks js item \<and> (\<forall>e \<in> set out. content_event e)"
    by (auto simp: content_sent)
qed

lemma web_search_yields:
  assumes "spells js (item, css)" "o_Type item = WebSearchCall"
  shows "yields js (item_events i (item, css)) (bs, has) (bs @ item_blocks js item, has)"
  using assms
  by (auto intro!: yieldsI simp: spells_def ResponsesEventToAnthropicEvents_def resp_event_def announced_def
      resToAnthHandleOutputItemAdded_def resToAnthHandleOutputItemDone_def resToAnthHandleWebSearchDone_def
      close_nothing Let_def idle_def running_def item_blocks_def web_search_use_def web_search_result_def no_block_def)

lemma unknown_yields:
  assumes "o_Type item = NoItem \<or> (\<exists>s. o_Type item = OtherItem s)"
  shows "yields js (item_events i (item, css)) (bs, has) (bs @ item_blocks js item, has)"
  using assms
  by (auto intro!: yieldsI simp: ResponsesEventToAnthropicEvents_def resp_event_def announced_def idle_def
      resToAnthHandleOutputItemAdded_def resToAnthHandleOutputItemDone_def item_blocks_def)

lemma call_yields:
  assumes "spells js (item, css)" "o_Type item = FunctionCall"
  shows "yields js (item_events i (item, css)) (bs, has) (bs @ item_blocks js item, True)"
proof (rule yieldsI)
  fix st assume st: "idle (length bs) has st"
  let ?n = "ContentBlockIndex st"
  let ?args = "o_Arguments item"
  let ?b = "(no_block ToolUse)\<lparr>cb_ID := fromResponsesCallID (o_CallID item), cb_Name := o_Name item, cb_Input := ''{}''\<rparr>"
  let ?st = "st\<lparr>OutputIndexToBlockIdx := (OutputIndexToBlockIdx st)(i \<mapsto> ?n), ContentBlockOpen := True,
      CurrentBlockType := ToolOpen, CurrentToolName := o_Name item, CurrentToolArgs := [],
      CurrentToolHadDelta := False, HasToolCall := True\<rparr>"
  let ?deltas = "if o_Name item = ''Read'' then [block_delta ?n (input_delta (sanitizeAnthropicToolUseInput js ''Read'' ?args))]
      else sent ?n input_delta (concat css)"
  let ?out = "[block_start ?n ?b] @ ?deltas @ [block_stop ?n]"
  have told: "concat (concat css) = ?args" "?args \<noteq> []"
    "o_Name item = ''Read'' \<Longrightarrow> json_valid js ?args"
    "\<And>k. o_Name item = ''Read'' \<Longrightarrow> k < length ?args \<Longrightarrow> \<not> json_valid js (take k ?args)"
    using assms by (simp_all add: spells_def)
  have closed: "\<not> ContentBlockOpen st" "?n = int (length bs)" using st by (simp_all add: idle_def)
  have deltas: "\<exists>st'. to_anthropic_run js (delta_events FunctionCallArgumentsDelta i (concat css)) ?st = (?deltas, st') \<and>
      ContentBlockOpen st' \<and> CurrentBlockType st' = ToolOpen \<and> CurrentToolHadDelta st' \<and> running st' \<and>
      ContentBlockIndex st' = ?n \<and> HasToolCall st' \<and> to_Usage st' = no_usage"
  proof (cases "o_Name item = ''Read''")
    case True
    have run: "to_anthropic_run js (delta_events FunctionCallArgumentsDelta i (concat css)) ?st =
      (if concat (concat css) = [] then []
       else [block_delta ?n (input_delta (sanitizeAnthropicToolUseInput js ''Read'' ?args))],
       ?st\<lparr>CurrentToolArgs := ?args, CurrentToolHadDelta := True\<rparr>)"
      by (rule read_deltas_run) (use told True in simp_all)
    show ?thesis using st run by (simp add: told(1,2) True idle_def running_def)
  next
    case False
    have run: "to_anthropic_run js (delta_events FunctionCallArgumentsDelta i (concat css)) ?st =
      (sent ?n input_delta (concat css),
       ?st\<lparr>CurrentToolHadDelta := CurrentToolHadDelta ?st \<or> concat (concat css) \<noteq> []\<rparr>)"
      by (rule input_deltas_run) (use False in simp_all)
    show ?thesis using st run by (simp add: told(1,2) False idle_def running_def)
  qed
  then obtain st' where st': "to_anthropic_run js (delta_events FunctionCallArgumentsDelta i (concat css)) ?st = (?deltas, st')"
      "ContentBlockOpen st'" "CurrentBlockType st' = ToolOpen" "CurrentToolHadDelta st'" "running st'"
      "ContentBlockIndex st' = ?n" "HasToolCall st'" "to_Usage st' = no_usage"
    by blast
  have start: "ResponsesEventToAnthropicEvents js ((resp_event OutputItemAdded)\<lparr>re_OutputIndex := i,
      re_Item := Some (announced item)\<rparr>) st = ([block_start ?n ?b], ?st)"
    by (simp add: ResponsesEventToAnthropicEvents_def resp_event_def announced_def resToAnthHandleOutputItemAdded_def
        close_nothing closed assms(2) Let_def)
  have finish: "\<exists>st2. to_anthropic_run js [(resp_event FunctionCallArgumentsDone)\<lparr>re_OutputIndex := i, re_Arguments := ?args\<rparr>,
      (resp_event OutputItemDone)\<lparr>re_OutputIndex := i, re_Item := Some item\<rparr>] st' = ([block_stop ?n], st2) \<and>
      idle (Suc (length bs)) True st2"
    using st'(2-) told(2)
    by (simp add: ResponsesEventToAnthropicEvents_def resp_event_def resToAnthHandleFuncArgsDone_def
        closeCurrentBlock_def Let_def resToAnthHandleOutputItemDone_def assms(2) idle_def running_def closed(2))
  obtain st2 where st2: "to_anthropic_run js (item_events i (item, css)) st = (?out, st2)"
      "idle (Suc (length bs)) True st2"
    using finish by (auto simp: assms(2) to_anthropic_run_append start st'(1))
  have built: "fold assemble_block ?out bs = bs @ item_blocks js item"
    using told(1) assemble_inputs [where bs = bs and cs = "concat css" and b = "?b\<lparr>cb_Input := []\<rparr>"]
    by (auto simp: closed(2) item_blocks_def assms(2) no_block_def no_delta_def assemble_delta_def
        sanitizeAnthropicToolUseInput_def)
  have "length (bs @ item_blocks js item) = Suc (length bs)" by (simp add: item_blocks_def assms(2))
  moreover have "\<forall>e \<in> set ?out. content_event e" by (auto simp: content_sent)
  ultimately show "\<exists>out st'. to_anthropic_run js (item_events i (item, css)) st = (out, st') \<and>
      idle (length (bs @ item_blocks js item)) True st' \<and>
      fold assemble_block out bs = bs @ item_blocks js item \<and> (\<forall>e \<in> set out. content_event e)"
    using st2 built by (intro exI [of _ ?out] exI [of _ st2]) (simp only: simp_thms)
qed

section \<open>The response\<close>

lemma tool_blocks:
  "containsAnthropicToolUseBlock (item_blocks js item) \<longleftrightarrow> o_Type item = FunctionCall"
  by (auto simp: containsAnthropicToolUseBlock_def item_blocks_def web_search_use_def web_search_result_def
      no_block_def Let_def split: item_type.splits)

lemma item_yields:
  assumes "spells js t"
  shows "yields js (item_events i t) (bs, has)
    (bs @ item_blocks js (fst t), has \<or> containsAnthropicToolUseBlock (item_blocks js (fst t)))"
proof -
  obtain item css where t: "t = (item, css)" by fastforce
  show ?thesis
    using assms message_yields [of js item css i bs has] reasoning_yields [of js item css i bs has]
      call_yields [of js item css i bs has] web_search_yields [of js item css i bs has]
      unknown_yields [of item js i css bs has]
    by (cases "o_Type item") (simp_all add: t tool_blocks spells_def)
qed

lemma items_yield:
  assumes "\<forall>t \<in> set ts. spells js t"
  shows "yields js (items_events i ts) (bs, has)
    (bs @ concat (map (item_blocks js \<circ> fst) ts),
     has \<or> containsAnthropicToolUseBlock (concat (map (item_blocks js \<circ> fst) ts)))"
  using assms
proof (induction ts arbitrary: i bs has)
  case Nil
  then show ?case by (simp add: yields_nothing containsAnthropicToolUseBlock_def)
next
  case (Cons t ts)
  have "spells js t" and rest: "\<forall>t \<in> set ts. spells js t" using Cons.prems by simp_all
  from yields_append [OF item_yields [OF this(1)] Cons.IH [OF rest]] show ?case
    by (simp add: containsAnthropicToolUseBlock_def disj_ac bex_Un)
qed

lemma assemble_content:
  assumes "\<forall>e \<in> set es. content_event e"
  shows "fold assemble es m = m\<lparr>an_Content := fold assemble_block es (an_Content m)\<rparr>"
  using assms
  by (induction es arbitrary: m) (auto simp: assemble_def content_event_def)

lemma created_message:
  "ResponsesEventToAnthropicEvents js ((resp_event Created)\<lparr>re_Response := Some r\<rparr>) (NewResponsesEventToAnthropicState model) =
     ([(anth_event MessageStart)\<lparr>ae_Message := Some
         \<lparr>an_ID = r_ID r, an_Content = [], an_Model = (if model = [] then r_Model r else model),
          an_StopReason = None, an_Usage = no_usage\<rparr>\<rparr>],
      (NewResponsesEventToAnthropicState model)\<lparr>to_ResponseID := r_ID r,
        to_Model := (if model = [] then r_Model r else model), MessageStartSent := True\<rparr>)"
  by (simp add: ResponsesEventToAnthropicEvents_def resp_event_def resToAnthHandleCreated_def
      NewResponsesEventToAnthropicState_def Let_def)

lemma completed_message:
  assumes "idle n has st"
  shows "\<exists>st'. ResponsesEventToAnthropicEvents js ((resp_event Completed)\<lparr>re_Response := Some r\<rparr>) st =
    (message_end
       (if r_Status r = ''incomplete'' \<and> r_IncompleteReason r = Some ''max_output_tokens'' then ''max_tokens''
        else if r_Status r = ''completed'' \<and> has then ''tool_use'' else ''end_turn'')
       (case r_Usage r of None \<Rightarrow> no_usage | Some u \<Rightarrow> anthropicUsageFromResponsesUsage (Some u)), st')"
  using assms
  by (auto simp: ResponsesEventToAnthropicEvents_def resp_event_def resToAnthHandleCompleted_def close_nothing
      idle_def running_def Let_def split: option.split)

lemma assemble_end:
  "fold assemble (message_end s u) m = m\<lparr>an_StopReason := Some s, an_Usage := u\<rparr>"
  by (simp add: message_end_def assemble_def assemble_block_def anth_event_def no_delta_def)

end
