(* ===== verification/Anthropic_To_Responses.thy ===== *)
theory Anthropic_To_Responses
  imports Compat_Types Event_Converter
begin

text \<open>
  \<open>pkg/apicompat/anthropic_to_responses_response.go\<close>: the opposite direction, a whole Anthropic message
  as a response and the converter of its stream. Identifiers of items come from a random source: the
  parameter \<open>fresh\<close> is its sequence of answers, and \<open>n\<close> of them have been drawn.
\<close>

section \<open>A whole message\<close>

type_synonym id_source = "nat \<Rightarrow> string"

definition block_output :: "id_source \<Rightarrow> nat \<Rightarrow> content_block \<Rightarrow> responses_output option" where
  "block_output fresh n block =
     (case cb_Type block of
        ThinkingBlock \<Rightarrow>
          if cb_Thinking block \<noteq> []
          then Some ((no_output ReasoningItem)\<lparr>o_ID := fresh n, o_Summary := [summary_text (cb_Thinking block)]\<rparr>)
          else None
      | ToolUse \<Rightarrow>
          Some ((no_output FunctionCall)\<lparr>o_ID := fresh n, o_CallID := toResponsesCallID (cb_ID block),
             o_Name := cb_Name block, o_Arguments := (if cb_Input block \<noteq> [] then cb_Input block else ''{}''),
             o_Status := ''completed''\<rparr>)
      | _ \<Rightarrow> None)"

text \<open>One pass over the blocks: items as they come, and the parts of the message.\<close>

fun collect_outputs ::
  "id_source \<Rightarrow> nat \<Rightarrow> content_block list \<Rightarrow> responses_output list \<times> content_part list \<times> nat" where
  "collect_outputs fresh n [] = ([], [], n)"
| "collect_outputs fresh n (b # bs) =
     (case block_output fresh n b of
        Some out \<Rightarrow> (case collect_outputs fresh (n + 1) bs of (outs, parts, k) \<Rightarrow> (out # outs, parts, k))
      | None \<Rightarrow>
          (case collect_outputs fresh n bs of (outs, parts, k) \<Rightarrow>
             (outs, if cb_Type b = TextBlock \<and> cb_Text b \<noteq> [] then output_text (cb_Text b) # parts else parts, k)))"

definition message_output :: "string \<Rightarrow> content_part list \<Rightarrow> responses_output" where
  "message_output i parts = (no_output MessageItem)\<lparr>o_ID := i, o_Role := ''assistant'', o_Content := parts,
     o_Status := ''completed''\<rparr>"

definition AnthropicToResponsesResponse ::
  "id_source \<Rightarrow> string \<Rightarrow> int \<Rightarrow> anthropic_response \<Rightarrow> responses_response" where
  "AnthropicToResponsesResponse fresh freshResponse now resp =
     (let (outputs, msgParts, n) = collect_outputs fresh 0 (an_Content resp);
          outputs = (if msgParts \<noteq> [] then outputs @ [message_output (fresh n) msgParts] else outputs);
          outputs = (if outputs = [] then [message_output (fresh n) [output_text []]] else outputs);
          stop = (case an_StopReason resp of None \<Rightarrow> [] | Some s \<Rightarrow> s);
          status = anthropicStopReasonToResponsesStatus stop
      in \<lparr>r_ID = (if an_ID resp = [] then freshResponse else an_ID resp), r_CreatedAt = now,
          r_Model = an_Model resp, r_Status = status, r_Output = outputs,
          r_Usage = Some (responsesUsage (an_Usage resp)),
          r_IncompleteReason = (if status = ''incomplete'' then Some ''max_output_tokens'' else None)\<rparr>)"

section \<open>The state of the stream\<close>

record to_responses =
  tr_ResponseID :: string
  tr_Model :: string
  tr_Created :: int
  SequenceNumber :: int
  CreatedSent :: bool
  CompletedSent :: bool
  OutputIndex :: int
  CurrentItemID :: string
  CurrentItemType :: item_type
  ContentIndex :: int
  TextAccum :: string
  CurrentCallID :: string
  CurrentName :: string
  CurrentContent :: "content_part list"
  CurrentArgs :: string
  CurrentSummary :: string
  Outputs :: "responses_output list"
  tr_Usage :: anthropic_usage
  tr_StopReason :: string
  ids_drawn :: nat

definition NewAnthropicEventToResponsesState :: "string \<Rightarrow> int \<Rightarrow> to_responses" where
  "NewAnthropicEventToResponsesState model now =
     \<lparr>tr_ResponseID = [], tr_Model = model, tr_Created = now, SequenceNumber = 0, CreatedSent = False,
      CompletedSent = False, OutputIndex = 0, CurrentItemID = [], CurrentItemType = NoItem, ContentIndex = 0,
      TextAccum = [], CurrentCallID = [], CurrentName = [], CurrentContent = [], CurrentArgs = [],
      CurrentSummary = [], Outputs = [], tr_Usage = no_usage, tr_StopReason = [], ids_drawn = 0\<rparr>"

type_synonym to_responses_step = "to_responses \<Rightarrow> responses_event list \<times> to_responses"

text \<open>\<open>makeResponsesEvent\<close>: one event, numbered.\<close>

definition makeResponsesEvent :: "responses_event \<Rightarrow> to_responses_step" where
  "makeResponsesEvent evt st =
     ([evt\<lparr>re_SequenceNumber := SequenceNumber st\<rparr>], st\<lparr>SequenceNumber := SequenceNumber st + 1\<rparr>)"

definition makeResponsesCreatedEvent :: to_responses_step where
  "makeResponsesCreatedEvent st =
     makeResponsesEvent ((resp_event Created)\<lparr>re_Response := Some
       \<lparr>r_ID = tr_ResponseID st, r_CreatedAt = tr_Created st, r_Model = tr_Model st, r_Status = ''in_progress'',
        r_Output = [], r_Usage = None, r_IncompleteReason = None\<rparr>\<rparr>) st"

definition makeResponsesCompletedEvent :: "string \<Rightarrow> string option \<Rightarrow> to_responses_step" where
  "makeResponsesCompletedEvent status incompleteDetails st =
     makeResponsesEvent ((resp_event (if status = ''incomplete'' then Incomplete else Completed))\<lparr>re_Response := Some
       \<lparr>r_ID = tr_ResponseID st, r_CreatedAt = tr_Created st, r_Model = tr_Model st, r_Status = status,
        r_Output = Outputs st, r_Usage = Some (responsesUsage (tr_Usage st)),
        r_IncompleteReason = incompleteDetails\<rparr>\<rparr>) st"

definition current_item :: "to_responses \<Rightarrow> responses_output" where
  "current_item st =
     (let item = (no_output (CurrentItemType st))\<lparr>o_ID := CurrentItemID st, o_Status := ''completed''\<rparr> in
      case CurrentItemType st of
        MessageItem \<Rightarrow> item\<lparr>o_Role := ''assistant'', o_Content := CurrentContent st\<rparr>
      | FunctionCall \<Rightarrow> item\<lparr>o_CallID := CurrentCallID st, o_Name := CurrentName st,
                          o_Arguments := (if CurrentArgs st = [] then ''{}'' else CurrentArgs st)\<rparr>
      | ReasoningItem \<Rightarrow>
          (if CurrentSummary st \<noteq> [] then item\<lparr>o_Summary := [summary_text (CurrentSummary st)]\<rparr> else item)
      | _ \<Rightarrow> item)"

definition closeCurrentResponsesItem :: to_responses_step where
  "closeCurrentResponsesItem st =
     (if CurrentItemType st = NoItem then ([], st)
      else
      let item = current_item st;
          st = st\<lparr>Outputs := Outputs st @ [item], CurrentItemType := NoItem, CurrentItemID := [],
                  CurrentCallID := [], CurrentName := [], CurrentContent := [], CurrentArgs := [],
                  CurrentSummary := [], TextAccum := [], OutputIndex := OutputIndex st + 1, ContentIndex := 0\<rparr>
      in makeResponsesEvent ((resp_event OutputItemDone)\<lparr>re_OutputIndex := OutputIndex st - 1,
           re_Item := Some item\<rparr>) st)"

section \<open>Handlers\<close>

definition anthToResHandleMessageStart :: "anthropic_event \<Rightarrow> to_responses_step" where
  "anthToResHandleMessageStart evt st =
     (let st = (case ae_Message evt of
          None \<Rightarrow> st
        | Some m \<Rightarrow>
            let u = an_Usage m; t = tr_Usage st in
            st\<lparr>tr_ResponseID := an_ID m,
               tr_Model := (if tr_Model st = [] then an_Model m else tr_Model st),
               tr_Usage := t\<lparr>u_InputTokens := (if u_InputTokens u > 0 then u_InputTokens u else u_InputTokens t),
                 u_CacheReadInputTokens := (if u_CacheReadInputTokens u > 0 then u_CacheReadInputTokens u
                                            else u_CacheReadInputTokens t),
                 u_CacheCreationInputTokens := (if u_CacheCreationInputTokens u > 0 then u_CacheCreationInputTokens u
                                                else u_CacheCreationInputTokens t)\<rparr>\<rparr>)
      in if CreatedSent st then ([], st) else makeResponsesCreatedEvent (st\<lparr>CreatedSent := True\<rparr>))"

definition open_item :: "id_source \<Rightarrow> item_type \<Rightarrow> to_responses \<Rightarrow> to_responses" where
  "open_item fresh t st =
     st\<lparr>CurrentItemID := fresh (ids_drawn st), ids_drawn := ids_drawn st + 1, CurrentItemType := t\<rparr>"

definition item_added :: "(responses_output \<Rightarrow> responses_output) \<Rightarrow> to_responses_step" where
  "item_added f st =
     makeResponsesEvent ((resp_event OutputItemAdded)\<lparr>re_OutputIndex := OutputIndex st,
       re_Item := Some (f ((no_output (CurrentItemType st))\<lparr>o_ID := CurrentItemID st\<rparr>))\<rparr>) st"

definition anthToResHandleContentBlockStart :: "id_source \<Rightarrow> anthropic_event \<Rightarrow> to_responses_step" where
  "anthToResHandleContentBlockStart fresh evt st =
     (case ae_ContentBlock evt of
        None \<Rightarrow> ([], st)
      | Some block \<Rightarrow>
          (case cb_Type block of
             ThinkingBlock \<Rightarrow>
               andThen closeCurrentResponsesItem
                 (\<lambda>st. item_added id ((open_item fresh ReasoningItem st)\<lparr>ContentIndex := 0\<rparr>)) st
           | TextBlock \<Rightarrow>
               andThen
                 (\<lambda>st. if CurrentItemType st \<noteq> MessageItem then
                    andThen closeCurrentResponsesItem
                      (\<lambda>st. item_added (\<lambda>i. i\<lparr>o_Role := ''assistant'', o_Status := ''in_progress''\<rparr>)
                              ((open_item fresh MessageItem st)\<lparr>ContentIndex := 0\<rparr>)) st
                  else ([], st))
                 (\<lambda>st. let (out, st) = makeResponsesEvent ((resp_event ContentPartAdded)\<lparr>
                          re_OutputIndex := OutputIndex st, re_ContentIndex := ContentIndex st,
                          re_ItemID := CurrentItemID st, re_Part := Some (output_text [])\<rparr>) st
                       in (out, st\<lparr>TextAccum := []\<rparr>)) st
           | ToolUse \<Rightarrow>
               andThen closeCurrentResponsesItem
                 (\<lambda>st. let st = (open_item fresh FunctionCall st)\<lparr>CurrentCallID := toResponsesCallID (cb_ID block),
                                CurrentName := cb_Name block\<rparr>
                       in item_added (\<lambda>i. i\<lparr>o_CallID := CurrentCallID st, o_Name := CurrentName st,
                                          o_Status := ''in_progress''\<rparr>) st) st
           | _ \<Rightarrow> ([], st)))"

definition anthToResHandleContentBlockDelta :: "anthropic_event \<Rightarrow> to_responses_step" where
  "anthToResHandleContentBlockDelta evt st =
     (case ae_Delta evt of
        None \<Rightarrow> ([], st)
      | Some d \<Rightarrow>
          (case d_Type d of
             TextDelta \<Rightarrow>
               if d_Text d = [] then ([], st)
               else makeResponsesEvent ((resp_event OutputTextDelta)\<lparr>re_OutputIndex := OutputIndex st,
                      re_ContentIndex := ContentIndex st, re_Delta := d_Text d, re_ItemID := CurrentItemID st\<rparr>)
                    (st\<lparr>TextAccum := TextAccum st @ d_Text d\<rparr>)
           | ThinkingDelta \<Rightarrow>
               if d_Thinking d = [] then ([], st)
               else makeResponsesEvent ((resp_event ReasoningSummaryTextDelta)\<lparr>re_OutputIndex := OutputIndex st,
                      re_Delta := d_Thinking d, re_ItemID := CurrentItemID st\<rparr>)
                    (st\<lparr>CurrentSummary := CurrentSummary st @ d_Thinking d\<rparr>)
           | InputJSONDelta \<Rightarrow>
               if d_PartialJSON d = [] then ([], st)
               else makeResponsesEvent ((resp_event FunctionCallArgumentsDelta)\<lparr>re_OutputIndex := OutputIndex st,
                      re_Delta := d_PartialJSON d, re_ItemID := CurrentItemID st, re_CallID := CurrentCallID st,
                      re_Name := CurrentName st\<rparr>)
                    (st\<lparr>CurrentArgs := CurrentArgs st @ d_PartialJSON d\<rparr>)
           | _ \<Rightarrow> ([], st)))"

definition anthToResHandleContentBlockStop :: to_responses_step where
  "anthToResHandleContentBlockStop st =
     (case CurrentItemType st of
        ReasoningItem \<Rightarrow>
          andThen (\<lambda>st. makeResponsesEvent ((resp_event ReasoningSummaryTextDone)\<lparr>re_OutputIndex := OutputIndex st,
                      re_ItemID := CurrentItemID st\<rparr>) st)
            closeCurrentResponsesItem st
      | FunctionCall \<Rightarrow>
          andThen (\<lambda>st. makeResponsesEvent ((resp_event FunctionCallArgumentsDone)\<lparr>re_OutputIndex := OutputIndex st,
                      re_ItemID := CurrentItemID st, re_CallID := CurrentCallID st, re_Name := CurrentName st\<rparr>) st)
            closeCurrentResponsesItem st
      | MessageItem \<Rightarrow>
          (let text = TextAccum st;
               contentIndex = ContentIndex st;
               st = st\<lparr>TextAccum := [], CurrentContent := CurrentContent st @ [output_text text],
                       ContentIndex := contentIndex + 1\<rparr>
           in andThen
                (\<lambda>st. makeResponsesEvent ((resp_event OutputTextDone)\<lparr>re_OutputIndex := OutputIndex st,
                   re_ContentIndex := contentIndex, re_ItemID := CurrentItemID st, re_Text := text\<rparr>) st)
                (\<lambda>st. makeResponsesEvent ((resp_event ContentPartDone)\<lparr>re_OutputIndex := OutputIndex st,
                   re_ContentIndex := contentIndex, re_ItemID := CurrentItemID st,
                   re_Part := Some (output_text text)\<rparr>) st) st)
      | _ \<Rightarrow> ([], st))"

definition anthToResHandleMessageDelta :: "anthropic_event \<Rightarrow> to_responses_step" where
  "anthToResHandleMessageDelta evt st =
     (let st = (case ae_Usage evt of
          None \<Rightarrow> st
        | Some u \<Rightarrow>
            let t = tr_Usage st in
            st\<lparr>tr_Usage := \<lparr>u_InputTokens = (if u_InputTokens u > 0 then u_InputTokens u else u_InputTokens t),
                 u_OutputTokens = u_OutputTokens u,
                 u_CacheReadInputTokens = (if u_CacheReadInputTokens u > 0 then u_CacheReadInputTokens u
                                           else u_CacheReadInputTokens t),
                 u_CacheCreationInputTokens = (if u_CacheCreationInputTokens u > 0 then u_CacheCreationInputTokens u
                                               else u_CacheCreationInputTokens t)\<rparr>\<rparr>)
      in ([], case ae_Delta evt of
                None \<Rightarrow> st
              | Some d \<Rightarrow> if d_StopReason d \<noteq> [] then st\<lparr>tr_StopReason := d_StopReason d\<rparr> else st))"

definition anthropicResponsesStreamTerminalState :: "string \<Rightarrow> string \<times> string option" where
  "anthropicResponsesStreamTerminalState stopReason =
     (if stopReason = ''max_tokens'' then (''incomplete'', Some ''max_output_tokens'') else (''completed'', None))"

definition terminate_stream :: to_responses_step where
  "terminate_stream st =
     (let (out, st) = andThen closeCurrentResponsesItem
            (\<lambda>st. case anthropicResponsesStreamTerminalState (tr_StopReason st) of
               (status, details) \<Rightarrow> makeResponsesCompletedEvent status details st) st
      in (out, st\<lparr>CompletedSent := True\<rparr>))"

definition anthToResHandleMessageStop :: to_responses_step where
  "anthToResHandleMessageStop st = (if CompletedSent st then ([], st) else terminate_stream st)"

definition FinalizeAnthropicResponsesStream :: to_responses_step where
  "FinalizeAnthropicResponsesStream st =
     (if \<not> CreatedSent st \<or> CompletedSent st then ([], st) else terminate_stream st)"

definition AnthropicEventToResponsesEvents :: "id_source \<Rightarrow> anthropic_event \<Rightarrow> to_responses_step" where
  "AnthropicEventToResponsesEvents fresh evt st =
     (case ae_Type evt of
        MessageStart \<Rightarrow> anthToResHandleMessageStart evt st
      | ContentBlockStart \<Rightarrow> anthToResHandleContentBlockStart fresh evt st
      | ContentBlockDelta \<Rightarrow> anthToResHandleContentBlockDelta evt st
      | ContentBlockStop \<Rightarrow> anthToResHandleContentBlockStop st
      | MessageDelta \<Rightarrow> anthToResHandleMessageDelta evt st
      | MessageStop \<Rightarrow> anthToResHandleMessageStop st
      | OtherAnth _ \<Rightarrow> ([], st))"

definition to_responses_run :: "id_source \<Rightarrow> anthropic_event list \<Rightarrow> to_responses_step" where
  "to_responses_run fresh = convert (AnthropicEventToResponsesEvents fresh)"

lemma to_responses_run_simps [simp]:
  "to_responses_run fresh [] st = ([], st)"
  "to_responses_run fresh (e # es) st =
     (let (out, st') = AnthropicEventToResponsesEvents fresh e st; (outs, st'') = to_responses_run fresh es st' in (out @ outs, st''))"
  by (simp_all add: to_responses_run_def)

lemma to_responses_run_append:
  "to_responses_run fresh (es @ fs) st =
     (case to_responses_run fresh es st of (out, st') \<Rightarrow>
        case to_responses_run fresh fs st' of (out', st'') \<Rightarrow> (out @ out', st''))"
  by (simp add: to_responses_run_def convert_append)

end
