(* ===== verification/Compat_Frames.thy ===== *)
theory Compat_Frames
  imports Compat_Protocol Anthropic_To_Responses
begin

text \<open>
  What the two stream converters promise for every input, also for an upstream that breaks its own
  protocol: the events they write are framed correctly. Two automata say what that is, one per format,
  and an invariant ties the state of each converter to the state of its automaton.
\<close>

section \<open>Anthropic events\<close>

record anth_frame =
  f_started :: bool
  f_stopped :: bool
  f_next :: int
  f_open :: bool

definition anth_frame0 :: anth_frame where
  "anth_frame0 = \<lparr>f_started = False, f_stopped = False, f_next = 0, f_open = False\<rparr>"

text \<open>
  The message starts once and stops once. Blocks open one at a time, numbered from zero without a gap,
  and close under their number; a delta belongs to a block that has been opened.
\<close>

definition anth_frame_step :: "anthropic_event \<Rightarrow> anth_frame \<Rightarrow> anth_frame option" where
  "anth_frame_step e f =
     (case ae_Type e of
        MessageStart \<Rightarrow> if f_started f then None else Some (f\<lparr>f_started := True\<rparr>)
      | ContentBlockStart \<Rightarrow>
          if \<not> f_open f \<and> ae_Index e = Some (f_next f) then Some (f\<lparr>f_open := True\<rparr>) else None
      | ContentBlockStop \<Rightarrow>
          if f_open f \<and> ae_Index e = Some (f_next f) then Some (f\<lparr>f_open := False, f_next := f_next f + 1\<rparr>) else None
      | ContentBlockDelta \<Rightarrow>
          (case ae_Index e of
             Some i \<Rightarrow> if 0 \<le> i \<and> (i < f_next f \<or> f_open f \<and> i = f_next f) then Some f else None
           | None \<Rightarrow> None)
      | MessageDelta \<Rightarrow> if f_stopped f \<or> f_open f then None else Some f
      | MessageStop \<Rightarrow> if f_stopped f \<or> f_open f then None else Some (f\<lparr>f_stopped := True\<rparr>)
      | OtherAnth _ \<Rightarrow> Some f)"

abbreviation anth_frame_run :: "anthropic_event list \<Rightarrow> anth_frame \<Rightarrow> anth_frame option" where
  "anth_frame_run \<equiv> accept anth_frame_step"

definition shown_frame :: "to_anthropic \<Rightarrow> anth_frame" where
  "shown_frame st = \<lparr>f_started = MessageStartSent st, f_stopped = MessageStopSent st,
                     f_next = ContentBlockIndex st, f_open = ContentBlockOpen st\<rparr>"

text \<open>Every output index that is known stands for a block that has been opened.\<close>

definition indices_known :: "to_anthropic \<Rightarrow> bool" where
  "indices_known st \<longleftrightarrow> 0 \<le> ContentBlockIndex st \<and>
     (\<forall>i b. OutputIndexToBlockIdx st i = Some b \<longrightarrow>
        0 \<le> b \<and> (b < ContentBlockIndex st \<or> ContentBlockOpen st \<and> b = ContentBlockIndex st))"

definition framed :: "anthropic_event list \<times> to_anthropic \<Rightarrow> to_anthropic \<Rightarrow> bool" where
  "framed r st \<longleftrightarrow> indices_known (snd r) \<and> follows anth_frame_step shown_frame r st"

lemma framed_stay: "indices_known st \<Longrightarrow> framed ([], st) st"
  by (simp add: framed_def follows_def)

lemma framed_append:
  assumes "framed (out, st') st" "framed (outs, st'') st'"
  shows "framed (out @ outs, st'') st"
  using assms by (simp add: framed_def follows_def accept_append)

text \<open>An update of the state that no frame shows.\<close>

lemma framed_hidden:
  assumes "framed (out, st') st" "shown_frame st'' = shown_frame st'"
    "OutputIndexToBlockIdx st'' = OutputIndexToBlockIdx st'"
  shows "framed (out, st'') st"
  using assms by (auto simp: framed_def follows_def indices_known_def shown_frame_def)

lemma anth_frame_step_simps [simp]:
  "anth_frame_step (block_start i b) f =
     (if \<not> f_open f \<and> i = f_next f then Some (f\<lparr>f_open := True\<rparr>) else None)"
  "anth_frame_step (block_stop i) f =
     (if f_open f \<and> i = f_next f then Some (f\<lparr>f_open := False, f_next := f_next f + 1\<rparr>) else None)"
  "anth_frame_step (block_delta i d) f =
     (if 0 \<le> i \<and> (i < f_next f \<or> f_open f \<and> i = f_next f) then Some f else None)"
  by (simp_all add: anth_frame_step_def block_start_def block_stop_def block_delta_def anth_event_def)

lemma anth_frame_end [simp]:
  "anth_frame_run (message_end s u) f = (if f_stopped f \<or> f_open f then None else Some (f\<lparr>f_stopped := True\<rparr>))"
  by (simp add: message_end_def anth_frame_step_def anth_event_def)

lemma close_framed:
  assumes "closeCurrentBlock st = (out, st')" "indices_known st"
  shows "framed (out, st') st" "\<not> ContentBlockOpen st'" "indices_known st'" "MessageStopSent st' = MessageStopSent st"
  using assms
  by (auto simp: closeCurrentBlock_def framed_def follows_def indices_known_def shown_frame_def Let_def split: if_splits;
      fastforce)+

lemma framed_delta:
  assumes "indices_known st" "OutputIndexToBlockIdx st i = Some b"
  shows "framed ([block_delta b d], st) st"
  using assms by (auto simp: framed_def follows_def indices_known_def shown_frame_def)

lemma framed_start:
  assumes "framed (out, st') st" "\<not> ContentBlockOpen st'"
    "shown_frame st'' = (shown_frame st')\<lparr>f_open := True\<rparr>"
    "OutputIndexToBlockIdx st'' = OutputIndexToBlockIdx st' \<or>
     OutputIndexToBlockIdx st'' = (OutputIndexToBlockIdx st')(i \<mapsto> ContentBlockIndex st')"
  shows "framed (out @ [block_start (ContentBlockIndex st') b], st'') st"
  using assms
  by (auto simp: framed_def follows_def accept_append indices_known_def shown_frame_def split: if_splits)

lemma created_framed: "indices_known st \<Longrightarrow> framed (resToAnthHandleCreated e st) st"
  by (auto simp: resToAnthHandleCreated_def framed_def follows_def indices_known_def shown_frame_def anth_frame_step_def
      anth_event_def Let_def split: option.splits)

lemma added_framed:
  assumes "indices_known st"
  shows "framed (resToAnthHandleOutputItemAdded e st) st"
proof -
  obtain out st' where c: "closeCurrentBlock st = (out, st')" by fastforce
  note close = close_framed [OF c assms]
  show ?thesis
    by (auto simp: resToAnthHandleOutputItemAdded_def c Let_def shown_frame_def framed_stay assms split: option.split
        intro!: framed_start [OF close(1,2), where i = "re_OutputIndex e"])
qed

lemma text_framed:
  assumes "indices_known st"
  shows "framed (resToAnthHandleTextDelta e st) st"
proof -
  obtain out st' where c: "closeCurrentBlock st = (out, st')" by fastforce
  note close = close_framed [OF c assms]
  let ?st = "st'\<lparr>ContentBlockOpen := True, CurrentBlockType := TextOpen\<rparr>"
  have start: "framed (out @ [block_start (ContentBlockIndex st') b], ?st) st" for b
    by (rule framed_start [OF close(1,2)]) (simp_all add: shown_frame_def)
  have delta: "framed ([block_delta (ContentBlockIndex s) d], s) s" if "indices_known s" "ContentBlockOpen s" for s d
    using that by (simp add: framed_def follows_def shown_frame_def indices_known_def)
  have "indices_known ?st" using start by (simp add: framed_def follows_def)
  then have both: "framed ((out @ [block_start (ContentBlockIndex st') b]) @ [block_delta (ContentBlockIndex st') d], ?st) st" for b d
    using framed_append [OF start delta [of ?st d]] by simp
  show ?thesis
    using assms both delta [OF assms] framed_stay [OF assms]
    by (simp add: resToAnthHandleTextDelta_def c Let_def)
qed

lemma args_delta_framed:
  assumes "indices_known st"
  shows "framed (resToAnthHandleFuncArgsDelta js e st) st"
proof -
  have stay: "framed ([], s) st"
    if "shown_frame s = shown_frame st" "OutputIndexToBlockIdx s = OutputIndexToBlockIdx st" for s
    by (rule framed_hidden [OF framed_stay [OF assms] that])
  have delta: "framed ([block_delta b d], s) st"
    if "OutputIndexToBlockIdx st i = Some b" "shown_frame s = shown_frame st"
      "OutputIndexToBlockIdx s = OutputIndexToBlockIdx st" for i b d s
    by (rule framed_hidden [OF framed_delta [OF assms that(1)] that(2,3)])
  show ?thesis
    by (auto simp: resToAnthHandleFuncArgsDelta_def Let_def shown_frame_def split: option.split
        intro!: stay intro: delta)
qed

lemma block_done_framed: "indices_known st \<Longrightarrow> framed (resToAnthHandleBlockDone st) st"
  using close_framed(1) [of st "fst (closeCurrentBlock st)" "snd (closeCurrentBlock st)"]
  by (simp add: resToAnthHandleBlockDone_def framed_stay)

lemma framed_late_delta:
  assumes "closeCurrentBlock st = (out, st')" "indices_known st" "ContentBlockOpen st"
  shows "framed (block_delta (ContentBlockIndex st) d # out, st') st"
  using close_framed(1) [OF assms(1,2)] assms(2,3) by (simp add: framed_def follows_def shown_frame_def indices_known_def)

lemma args_done_framed:
  assumes "indices_known st"
  shows "framed (resToAnthHandleFuncArgsDone js e st) st"
proof -
  obtain out st' where c: "closeCurrentBlock st = (out, st')" by fastforce
  show ?thesis
    using close_framed(1) [OF c assms] framed_late_delta [OF c assms] framed_stay [OF assms] block_done_framed [OF assms]
    by (simp add: resToAnthHandleFuncArgsDone_def c Let_def)
qed

lemma reasoning_framed: "indices_known st \<Longrightarrow> framed (resToAnthHandleReasoningDelta e st) st"
  by (auto simp: resToAnthHandleReasoningDelta_def framed_stay framed_delta split: option.split)

lemma web_search_framed:
  assumes "indices_known st"
  shows "framed (resToAnthHandleWebSearchDone js item st) st"
proof -
  obtain out st' where c: "closeCurrentBlock st = (out, st')" by fastforce
  note close = close_framed [OF c assms]
  have "framed ([block_start i a, block_stop i, block_start (i + 1) b, block_stop (i + 1)],
                st'\<lparr>ContentBlockIndex := i + 2\<rparr>) st'"
    if "i = ContentBlockIndex st'" for i a b
    using close(2,3) that by (force simp: framed_def follows_def shown_frame_def indices_known_def)
  from framed_append [OF close(1) this [OF refl]] show ?thesis
    by (simp add: resToAnthHandleWebSearchDone_def c Let_def add.commute)
qed

lemma item_done_framed:
  assumes "indices_known st"
  shows "framed (resToAnthHandleOutputItemDone js e st) st"
proof -
  have close: "framed (closeCurrentBlock s) st"
    if "shown_frame s = shown_frame st" "OutputIndexToBlockIdx s = OutputIndexToBlockIdx st" for s
  proof -
    have "indices_known s" using assms that by (simp add: indices_known_def shown_frame_def)
    with close_framed(1) [of s "fst (closeCurrentBlock s)" "snd (closeCurrentBlock s)"] that(1)
    show ?thesis by (simp add: framed_def follows_def)
  qed
  have stay: "framed ([], st\<lparr>PendingThinkingSignature := sig\<rparr>) st" for sig
    by (rule framed_hidden [OF framed_stay [OF assms]]) (simp_all add: shown_frame_def)
  show ?thesis
    using web_search_framed [OF assms] framed_stay [OF assms] stay close [of st]
      close [of "st\<lparr>PendingThinkingSignature := sig\<rparr>" for sig]
    by (simp add: resToAnthHandleOutputItemDone_def Let_def shown_frame_def split: option.split)
qed

lemma framed_end:
  assumes "framed (out, st') st" "\<not> ContentBlockOpen st'" "\<not> MessageStopSent st'"
    "shown_frame st'' = (shown_frame st')\<lparr>f_stopped := True\<rparr>"
    "OutputIndexToBlockIdx st'' = OutputIndexToBlockIdx st'"
  shows "framed (out @ message_end s u, st'') st"
  using assms by (auto simp: framed_def follows_def accept_append indices_known_def shown_frame_def)

lemma completed_framed:
  assumes "indices_known st"
  shows "framed (resToAnthHandleCompleted e st) st"
proof -
  obtain out st' where c: "closeCurrentBlock st = (out, st')" by fastforce
  note close = close_framed [OF c assms]
  show ?thesis
    using close(4) framed_stay [OF assms]
    by (auto simp: resToAnthHandleCompleted_def c Let_def shown_frame_def split: option.split
        intro!: framed_end [OF close(1,2)])
qed

lemma finalize_framed:
  assumes "indices_known st"
  shows "framed (FinalizeResponsesAnthropicStream st) st"
proof -
  obtain out st' where c: "closeCurrentBlock st = (out, st')" by fastforce
  note close = close_framed [OF c assms]
  show ?thesis
    using close(4) framed_stay [OF assms]
    by (auto simp: FinalizeResponsesAnthropicStream_def c Let_def shown_frame_def
        intro!: framed_end [OF close(1,2)])
qed

lemmas handlers_framed = created_framed added_framed text_framed args_delta_framed block_done_framed args_done_framed
  reasoning_framed item_done_framed completed_framed framed_stay

lemma step_framed: "indices_known st \<Longrightarrow> framed (ResponsesEventToAnthropicEvents js e st) st"
  by (auto simp: ResponsesEventToAnthropicEvents_def handlers_framed split: resp_type.split)

interpretation framing: simulation "ResponsesEventToAnthropicEvents js" lawless anth_frame_step shown_frame
    "\<lambda>_. indices_known" for js
  by unfold_locales (use step_framed in \<open>auto simp: framed_def\<close>)

lemma new_state_known: "indices_known (NewResponsesEventToAnthropicState model)"
  "shown_frame (NewResponsesEventToAnthropicState model) = anth_frame0"
  by (simp_all add: indices_known_def shown_frame_def anth_frame0_def NewResponsesEventToAnthropicState_def)

text \<open>
  C27. For every sequence of upstream events, well formed or not, and also when the stream is cut and
  finalized: the output starts its message at most once and stops it at most once, opens one block at a
  time, numbers the blocks from zero without a gap, closes each under its number, and sends a delta
  only for a block that has been opened. After finalizing no block is open once the message started.
\<close>

theorem message_stream_is_framed:
  "case to_anthropic_run js evs (NewResponsesEventToAnthropicState model) of (out, st) \<Rightarrow>
     case FinalizeResponsesAnthropicStream st of (fin, st') \<Rightarrow>
       anth_frame_run (out @ fin) anth_frame0 =
         Some \<lparr>f_started = MessageStartSent st, f_stopped = MessageStartSent st \<or> MessageStopSent st,
               f_next = ContentBlockIndex st', f_open = ContentBlockOpen st'\<rparr>"
proof -
  obtain out st where run: "to_anthropic_run js evs (NewResponsesEventToAnthropicState model) = (out, st)"
    by fastforce
  obtain fin st' where final: "FinalizeResponsesAnthropicStream st = (fin, st')" by fastforce
  have a: "framed (out, st) (NewResponsesEventToAnthropicState model)"
    using framing.convert_follows [where js = js and es = evs, OF accept_lawless new_state_known(1) [of model]] run
    by (simp add: framed_def to_anthropic_run_def)
  then have "indices_known st" by (simp add: framed_def follows_def)
  with final have "framed (fin, st') st" using finalize_framed [of st] by simp
  from framed_append [OF a this] have "anth_frame_run (out @ fin) anth_frame0 = Some (shown_frame st')"
    by (simp add: framed_def follows_def new_state_known)
  moreover have "MessageStartSent st' = MessageStartSent st"
    "MessageStopSent st' = (MessageStartSent st \<or> MessageStopSent st)"
    using final by (auto simp: FinalizeResponsesAnthropicStream_def closeCurrentBlock_def Let_def split: if_splits)
  ultimately show ?thesis by (simp add: run final shown_frame_def)
qed

section \<open>Responses events\<close>

record resp_frame =
  g_seq :: int
  g_next :: int
  g_open :: "(item_type \<times> string) option"
  g_items :: "responses_output list"
  g_created :: bool
  g_over :: bool

definition resp_frame0 :: resp_frame where
  "resp_frame0 = \<lparr>g_seq = 0, g_next = 0, g_open = None, g_items = [], g_created = False, g_over = False\<rparr>"

definition tick :: "resp_frame \<Rightarrow> resp_frame" where
  "tick f = f\<lparr>g_seq := g_seq f + 1\<rparr>"

text \<open>
  Every event carries the next sequence number and no output index but that of the current item; items
  are added and done one at a time, under consecutive indices; and the event that ends the response
  lists, in order, exactly the items that were announced as done.
\<close>

definition resp_frame_step :: "responses_event \<Rightarrow> resp_frame \<Rightarrow> resp_frame option" where
  "resp_frame_step e f =
     (if re_SequenceNumber e \<noteq> g_seq f then None
      else case re_Type e of
        Created \<Rightarrow> if g_created f then None else Some (tick (f\<lparr>g_created := True\<rparr>))
      | OutputItemAdded \<Rightarrow>
          (case (re_Item e, g_open f) of
             (Some item, None) \<Rightarrow>
               if re_OutputIndex e = g_next f then Some (tick (f\<lparr>g_open := Some (o_Type item, o_ID item)\<rparr>)) else None
           | _ \<Rightarrow> None)
      | OutputItemDone \<Rightarrow>
          (case (re_Item e, g_open f) of
             (Some item, Some key) \<Rightarrow>
               if re_OutputIndex e = g_next f \<and> key = (o_Type item, o_ID item)
               then Some (tick (f\<lparr>g_open := None, g_next := g_next f + 1, g_items := g_items f @ [item]\<rparr>)) else None
           | _ \<Rightarrow> None)
      | Completed \<Rightarrow>
          if \<not> g_over f \<and> g_open f = None \<and> map_option r_Output (re_Response e) = Some (g_items f)
          then Some (tick (f\<lparr>g_over := True\<rparr>)) else None
      | Incomplete \<Rightarrow>
          if \<not> g_over f \<and> g_open f = None \<and> map_option r_Output (re_Response e) = Some (g_items f)
          then Some (tick (f\<lparr>g_over := True\<rparr>)) else None
      | _ \<Rightarrow> if re_OutputIndex e = g_next f then Some (tick f) else None)"

abbreviation resp_frame_run :: "responses_event list \<Rightarrow> resp_frame \<Rightarrow> resp_frame option" where
  "resp_frame_run \<equiv> accept resp_frame_step"

definition shown_response :: "to_responses \<Rightarrow> resp_frame" where
  "shown_response st =
     \<lparr>g_seq = SequenceNumber st, g_next = OutputIndex st,
      g_open = (if CurrentItemType st = NoItem then None else Some (CurrentItemType st, CurrentItemID st)),
      g_items = Outputs st, g_created = CreatedSent st, g_over = CompletedSent st\<rparr>"

abbreviation numbered :: "responses_event list \<times> to_responses \<Rightarrow> to_responses \<Rightarrow> bool" where
  "numbered \<equiv> follows resp_frame_step shown_response"

lemma numbered_hidden: "shown_response st' = shown_response st \<Longrightarrow> numbered ([], st') st"
  by (simp add: follows_def)

lemma numbered_andThen:
  assumes "numbered (m st) st" "numbered (n (snd (m st))) (snd (m st))"
  shows "numbered (andThen m n st) st"
  using assms
  by (cases "m st"; cases "n (snd (m st))") (auto simp: follows_def andThen_def accept_append)

text \<open>One event, from a state that shows the same.\<close>

lemma numbered_event:
  assumes "resp_frame_step (evt\<lparr>re_SequenceNumber := SequenceNumber st\<rparr>) (shown_response st0) =
      Some (tick (shown_response st))"
    "SequenceNumber st = SequenceNumber st0"
  shows "numbered (makeResponsesEvent evt st) st0"
  using assms by (simp add: follows_def makeResponsesEvent_def tick_def shown_response_def)

definition passes :: "responses_event \<Rightarrow> bool" where
  "passes e \<longleftrightarrow> re_Type e \<notin> {Created, OutputItemAdded, OutputItemDone, Completed, Incomplete}"

lemma numbered_passing:
  assumes "passes evt" "re_OutputIndex evt = OutputIndex st" "shown_response st = shown_response st0"
  shows "numbered (makeResponsesEvent evt st) st0"
proof (rule numbered_event)
  show "resp_frame_step (evt\<lparr>re_SequenceNumber := SequenceNumber st\<rparr>) (shown_response st0) =
      Some (tick (shown_response st))"
    using assms by (cases "re_Type evt") (auto simp: resp_frame_step_def passes_def shown_response_def)
  show "SequenceNumber st = SequenceNumber st0"
    using assms(3) by (simp add: shown_response_def)
qed

lemma current_item_key: "o_Type (current_item st) = CurrentItemType st" "o_ID (current_item st) = CurrentItemID st"
  by (cases "CurrentItemType st"; simp add: current_item_def no_output_def Let_def)+

lemma close_numbered:
  "numbered (closeCurrentResponsesItem st) st" "CurrentItemType (snd (closeCurrentResponsesItem st)) = NoItem"
  "CompletedSent (snd (closeCurrentResponsesItem st)) = CompletedSent st"
  by (simp_all add: closeCurrentResponsesItem_def makeResponsesEvent_def follows_def shown_response_def Let_def
      resp_frame_step_def resp_event_def current_item_key tick_def)

lemma item_added_numbered:
  assumes "CurrentItemType st0 = NoItem" "CurrentItemType st \<noteq> NoItem"
    "shown_response st0 = (shown_response st)\<lparr>g_open := None\<rparr>"
    "\<And>i. o_Type (f i) = o_Type i \<and> o_ID (f i) = o_ID i"
  shows "numbered (item_added f st) st0"
  using assms
  by (auto simp: item_added_def makeResponsesEvent_def follows_def shown_response_def
      resp_frame_step_def resp_event_def tick_def no_output_def)

lemma message_start_numbered: "numbered (anthToResHandleMessageStart e st) st"
  by (auto simp: anthToResHandleMessageStart_def makeResponsesCreatedEvent_def makeResponsesEvent_def follows_def
      shown_response_def resp_frame_step_def resp_event_def tick_def Let_def split: option.split)

lemma block_start_numbered: "numbered (anthToResHandleContentBlockStart fresh e st) st"
proof -
  note closed = close_numbered
  have thinking: "numbered (andThen closeCurrentResponsesItem
      (\<lambda>st. item_added id ((open_item fresh ReasoningItem st)\<lparr>ContentIndex := 0\<rparr>)) st) st"
    by (rule numbered_andThen [OF closed(1) item_added_numbered])
      (simp_all add: closed open_item_def shown_response_def)
  have tool: "numbered (andThen closeCurrentResponsesItem
      (\<lambda>st. let st = (open_item fresh FunctionCall st)\<lparr>CurrentCallID := c, CurrentName := n\<rparr>
            in item_added (\<lambda>i. i\<lparr>o_CallID := CurrentCallID st, o_Name := CurrentName st,
                 o_Status := ''in_progress''\<rparr>) st) st) st" for c n
    unfolding Let_def
    by (rule numbered_andThen [OF closed(1) item_added_numbered])
      (simp_all add: closed open_item_def shown_response_def)
  have message: "numbered (andThen closeCurrentResponsesItem
      (\<lambda>st. item_added (\<lambda>i. i\<lparr>o_Role := ''assistant'', o_Status := ''in_progress''\<rparr>)
              ((open_item fresh MessageItem st)\<lparr>ContentIndex := 0\<rparr>)) s) s" for s
    by (rule numbered_andThen [OF closed(1) item_added_numbered])
      (simp_all add: closed open_item_def shown_response_def)
  have part: "numbered (let (out, s) = makeResponsesEvent ((resp_event ContentPartAdded)\<lparr>
      re_OutputIndex := OutputIndex s, re_ContentIndex := ContentIndex s,
      re_ItemID := CurrentItemID s, re_Part := Some (output_text [])\<rparr>) s in (out, s\<lparr>TextAccum := []\<rparr>)) s" for s
    by (simp add: makeResponsesEvent_def follows_def shown_response_def resp_frame_step_def resp_event_def tick_def)
  have words: "numbered (andThen
      (\<lambda>st. if CurrentItemType st \<noteq> MessageItem then
         andThen closeCurrentResponsesItem
           (\<lambda>st. item_added (\<lambda>i. i\<lparr>o_Role := ''assistant'', o_Status := ''in_progress''\<rparr>)
                   ((open_item fresh MessageItem st)\<lparr>ContentIndex := 0\<rparr>)) st
         else ([], st))
      (\<lambda>st. let (out, st) = makeResponsesEvent ((resp_event ContentPartAdded)\<lparr>
               re_OutputIndex := OutputIndex st, re_ContentIndex := ContentIndex st,
               re_ItemID := CurrentItemID st, re_Part := Some (output_text [])\<rparr>) st
            in (out, st\<lparr>TextAccum := []\<rparr>)) st) st"
    by (rule numbered_andThen) (simp add: message numbered_hidden, rule part)
  show ?thesis
  proof (cases "ae_ContentBlock e")
    case None
    then show ?thesis by (simp add: anthToResHandleContentBlockStart_def numbered_hidden)
  next
    case (Some block)
    show ?thesis
      unfolding anthToResHandleContentBlockStart_def Some option.case
      by (cases "cb_Type block") (simp_all only: block_type.case thinking tool words numbered_hidden)
  qed
qed

lemma delta_numbered: "numbered (anthToResHandleContentBlockDelta e st) st"
  by (auto simp: anthToResHandleContentBlockDelta_def numbered_hidden shown_response_def passes_def resp_event_def
      split: option.split delta_type.split intro!: numbered_passing)

lemma block_stop_numbered: "numbered (anthToResHandleContentBlockStop st) st"
proof -
  have passing: "numbered (makeResponsesEvent (f s) s) s" if "passes (f s)" "re_OutputIndex (f s) = OutputIndex s" for f s
    by (rule numbered_passing) (simp_all add: that)
  have then_close: "numbered (andThen (\<lambda>s. makeResponsesEvent (f s) s) closeCurrentResponsesItem st) st"
    if "\<And>s. passes (f s)" "\<And>s. re_OutputIndex (f s) = OutputIndex s" for f
    by (rule numbered_andThen) (simp_all add: passing that close_numbered)
  have pair: "numbered (andThen (\<lambda>s. makeResponsesEvent (f s) s) (\<lambda>s. makeResponsesEvent (g s) s) s) st"
    if "\<And>s. passes (f s)" "\<And>s. re_OutputIndex (f s) = OutputIndex s"
      "\<And>s. passes (g s)" "\<And>s. re_OutputIndex (g s) = OutputIndex s" "shown_response s = shown_response st" for f g s
  proof -
    have "numbered (andThen (\<lambda>s. makeResponsesEvent (f s) s) (\<lambda>s. makeResponsesEvent (g s) s) s) s"
      by (rule numbered_andThen) (simp_all add: passing that)
    then show ?thesis by (simp only: follows_def that(5))
  qed
  show ?thesis
    unfolding anthToResHandleContentBlockStop_def
    by (auto simp: Let_def numbered_hidden passes_def resp_event_def shown_response_def split: item_type.split
        intro!: then_close pair)
qed

lemma message_delta_numbered: "numbered (anthToResHandleMessageDelta e st) st"
  by (auto simp: anthToResHandleMessageDelta_def Let_def shown_response_def split: option.split intro!: numbered_hidden)

lemma terminate_numbered:
  assumes "\<not> CompletedSent st"
  shows "numbered (terminate_stream st) st"
proof -
  obtain out s where c: "closeCurrentResponsesItem st = (out, s)" by fastforce
  obtain status details where t: "anthropicResponsesStreamTerminalState (tr_StopReason s) = (status, details)"
    by fastforce
  have "numbered (out, s) st" "CurrentItemType s = NoItem" "\<not> CompletedSent s"
    using close_numbered [of st] assms by (simp_all add: c)
  then show ?thesis
    by (simp add: terminate_stream_def andThen_def c t makeResponsesCompletedEvent_def makeResponsesEvent_def
        follows_def accept_append shown_response_def resp_frame_step_def resp_event_def tick_def)
qed

lemma to_responses_step_numbered: "numbered (AnthropicEventToResponsesEvents fresh e st) st"
  by (auto simp: AnthropicEventToResponsesEvents_def message_start_numbered block_start_numbered delta_numbered
      block_stop_numbered message_delta_numbered anthToResHandleMessageStop_def terminate_numbered numbered_hidden
      split: anth_type.split)

interpretation numbering: simulation "AnthropicEventToResponsesEvents fresh" lawless resp_frame_step shown_response
    "\<lambda>_ _. True" for fresh
  by unfold_locales (use to_responses_step_numbered in auto)

text \<open>
  C28. For every sequence of Anthropic events, well formed or not, also when the stream is cut and finalized:
  the Responses events carry the sequence numbers 0, 1, 2 and so on, items are added and done one at a
  time under consecutive output indices with the same type and identifier, there is at most one
  response.created and at most one terminal event, and the terminal event lists exactly the items that
  were announced as done.
\<close>

theorem response_stream_is_numbered:
  "case andThen (to_responses_run fresh evs) FinalizeAnthropicResponsesStream
          (NewAnthropicEventToResponsesState model now) of (out, st) \<Rightarrow>
     resp_frame_run out resp_frame0 = Some (shown_response st)"
proof -
  have "numbered (FinalizeAnthropicResponsesStream st) st" for st
    by (simp add: FinalizeAnthropicResponsesStream_def terminate_numbered numbered_hidden)
  then have "numbered (andThen (to_responses_run fresh evs) FinalizeAnthropicResponsesStream st) st" for st
    using numbering.convert_follows [OF accept_lawless TrueI] by (intro numbered_andThen) (auto simp: to_responses_run_def)
  moreover have "shown_response (NewAnthropicEventToResponsesState model now) = resp_frame0"
    by (simp add: shown_response_def resp_frame0_def NewAnthropicEventToResponsesState_def)
  ultimately show ?thesis by (metis (mono_tags, lifting) case_prod_beta follows_def)
qed

end
