(* ===== verification/Compat_Roundtrip.thy ===== *)
theory Compat_Roundtrip
  imports Compat_Equivalence Compat_Frames
begin

text \<open>
  What the parts of the format conversion give together: a message that is converted to a response and
  back, the stream of an upstream that keeps its protocol, the instances (\<open>demo_\<close> constants) on which
  hypotheses are discharged, and two inputs on which the converters disagree with each other.
\<close>

section \<open>There and back\<close>

lemma usage_roundtrip:
  assumes "0 \<le> u_InputTokens u" "0 \<le> u_CacheReadInputTokens u"
  shows "anthropicUsageFromResponsesUsage (Some (responsesUsage u)) = u"
  using assms by (simp add: anthropicUsageFromResponsesUsage_def responsesUsage_def Let_def)

text \<open>Blocks that carry nothing the other format has no place for.\<close>

definition plain_block :: "content_block \<Rightarrow> bool" where
  "plain_block b \<longleftrightarrow>
     (case cb_Type b of
        TextBlock \<Rightarrow> cb_Text b \<noteq> [] \<and> b = (no_block TextBlock)\<lparr>cb_Text := cb_Text b\<rparr>
      | ThinkingBlock \<Rightarrow> cb_Thinking b \<noteq> [] \<and> b = (no_block ThinkingBlock)\<lparr>cb_Thinking := cb_Thinking b\<rparr>
      | ToolUse \<Rightarrow>
          cb_Input b \<noteq> [] \<and> cb_Name b \<noteq> ''Read'' \<and> strip_prefix ''fc_'' (cb_ID b) = None \<and>
          b = (no_block ToolUse)\<lparr>cb_ID := cb_ID b, cb_Name := cb_Name b, cb_Input := cb_Input b\<rparr>
      | _ \<Rightarrow> False)"

abbreviation is_text :: "content_block \<Rightarrow> bool" where
  "is_text b \<equiv> cb_Type b = TextBlock"

lemma block_back:
  assumes "plain_block b"
  shows "block_output fresh n b = Some out \<Longrightarrow> item_blocks js out = [b] \<and> \<not> is_text b"
    "block_output fresh n b = None \<Longrightarrow> is_text b \<and> cb_Text b \<noteq> [] \<and> (no_block TextBlock)\<lparr>cb_Text := cb_Text b\<rparr> = b"
proof -
  have tool: "sanitizeAnthropicToolUseInput js (cb_Name b) (cb_Input b) = cb_Input b" if "cb_Name b \<noteq> ''Read''"
    using that by (simp add: sanitizeAnthropicToolUseInput_def)
  have call: "fromResponsesCallID (cb_ID b) = cb_ID b" if "strip_prefix ''fc_'' (cb_ID b) = None"
    using that by (simp add: fromResponsesCallID_def)
  show "block_output fresh n b = Some out \<Longrightarrow> item_blocks js out = [b] \<and> \<not> is_text b"
    using assms tool call
    by (cases b) (auto simp: no_block_def block_output_def plain_block_def item_blocks_def no_output_def summary_text_def reasoning_text_def
        Let_def toResponsesCallID_def split: block_type.splits if_splits)
  show "block_output fresh n b = None \<Longrightarrow> is_text b \<and> cb_Text b \<noteq> [] \<and> (no_block TextBlock)\<lparr>cb_Text := cb_Text b\<rparr> = b"
    using assms by (auto simp: block_output_def plain_block_def split: block_type.splits)
qed

lemma message_blocks:
  "item_blocks js (message_output i (output_text t # parts)) =
     (if t = [] then [] else [(no_block TextBlock)\<lparr>cb_Text := t\<rparr>]) @ item_blocks js (message_output i parts)"
  by (simp add: item_blocks_def message_output_def no_output_def output_text_def)

lemma collect_outputs_back:
  assumes "\<forall>b \<in> set bs. plain_block b" "collect_outputs fresh n bs = (outs, parts, k)"
  shows "concat (map (item_blocks js) outs) = filter (\<lambda>b. \<not> is_text b) bs \<and>
    item_blocks js (message_output i parts) = filter is_text bs \<and> (parts = [] \<longleftrightarrow> filter is_text bs = [])"
  using assms
proof (induction bs arbitrary: n outs parts k)
  case Nil
  then show ?case by (simp add: item_blocks_def message_output_def no_output_def)
next
  case (Cons b bs)
  then have b: "plain_block b" and bs: "\<forall>b \<in> set bs. plain_block b" by simp_all
  show ?case
  proof (cases "block_output fresh n b")
    case None
    then obtain parts' where rest: "collect_outputs fresh n bs = (outs, parts', k)"
      and "parts = output_text (cb_Text b) # parts'"
      using Cons.prems(2) block_back(2) [OF b None] by (auto split: prod.splits)
    with Cons.IH [OF bs rest] block_back(2) [OF b None] show ?thesis by (simp add: message_blocks)
  next
    case (Some out)
    then obtain outs' where rest: "collect_outputs fresh (n + 1) bs = (outs', parts, k)" and "outs = out # outs'"
      using Cons.prems(2) by (auto split: prod.splits)
    with Cons.IH [OF bs rest] block_back(1) [OF b Some, of js] show ?thesis by simp
  qed
qed

definition ends_plainly :: "anthropic_response \<Rightarrow> bool" where
  "ends_plainly m \<longleftrightarrow>
     an_StopReason m = Some ''max_tokens'' \<or>
     an_StopReason m = Some (if containsAnthropicToolUseBlock (an_Content m) then ''tool_use'' else ''end_turn'')"

lemma batch_blocks:
  assumes "\<forall>b \<in> set (an_Content m). plain_block b" "an_Content m \<noteq> []"
  shows "concat (map (item_blocks js) (r_Output (AnthropicToResponsesResponse fresh freshResponse now m))) =
    filter (\<lambda>b. \<not> is_text b) (an_Content m) @ filter is_text (an_Content m)"
proof -
  obtain outs parts k where c: "collect_outputs fresh 0 (an_Content m) = (outs, parts, k)"
    by (cases "collect_outputs fresh 0 (an_Content m)") auto
  note returned = collect_outputs_back [OF assms(1) c, of js "fresh k"]
  have "filter is_text (an_Content m) \<noteq> [] \<or> filter (\<lambda>b. \<not> is_text b) (an_Content m) \<noteq> []"
    using assms(2) by (cases "an_Content m") auto
  then have "outs \<noteq> [] \<or> parts \<noteq> []" using returned by auto
  then show ?thesis
    using returned by (auto simp: AnthropicToResponsesResponse_def c Let_def)
qed


section \<open>Streaming\<close>


section \<open>Instances\<close>

definition demo_js :: json_lib where
  "demo_js = \<lparr>json_object = (\<lambda>_. None), json_encode = (\<lambda>_. ''{}''), json_string = (\<lambda>s. s),
              json_valid = (\<lambda>s. s = ''{}'')\<rparr>"

definition demo_items :: "told_item list" where
  "demo_items =
     [((no_output ReasoningItem)\<lparr>o_ID := ''rs_1'', o_Summary := [summary_text ''think''], o_EncryptedContent := ''sig''\<rparr>,
       [[''th'', ''ink'']]),
      ((no_output MessageItem)\<lparr>o_ID := ''msg_1'', o_Content := [output_text ''hello'', output_text []]\<rparr>,
       [[''hel'', [], ''lo''], []]),
      ((no_output FunctionCall)\<lparr>o_ID := ''fc_1'', o_CallID := ''fc_toolu_1'', o_Name := ''Read'', o_Arguments := ''{}''\<rparr>,
       [[''{'', ''}'']]),
      ((no_output WebSearchCall)\<lparr>o_ID := ''ws_1'', o_Status := ''completed'', o_Query := Some ''q''\<rparr>, [])]"

definition demo_response :: responses_response where
  "demo_response = \<lparr>r_ID = ''resp_1'', r_CreatedAt = 0, r_Model = ''gpt'', r_Status = ''completed'',
     r_Output = map fst demo_items,
     r_Usage = Some \<lparr>ru_InputTokens = 10, ru_OutputTokens = 5, ru_TotalTokens = 15, ru_CacheCreationInputTokens = 0,
                     ru_CachedTokens = Some 4\<rparr>,
     r_IncompleteReason = None\<rparr>"

lemma demo_spells: "\<forall>t \<in> set demo_items. spells demo_js t"
  by code_simp

lemma demo_blocks: "concat (map (item_blocks demo_js) (r_Output demo_response)) \<noteq> []"
  by code_simp


definition demo_message :: anthropic_response where
  "demo_message = \<lparr>an_ID = ''msg_1'',
     an_Content = [(no_block TextBlock)\<lparr>cb_Text := ''hello''\<rparr>,
                   (no_block ToolUse)\<lparr>cb_ID := ''toolu_1'', cb_Name := ''Bash'', cb_Input := ''{}''\<rparr>],
     an_Model = ''claude'', an_StopReason = Some ''tool_use'',
     an_Usage = \<lparr>u_InputTokens = 3, u_OutputTokens = 2, u_CacheReadInputTokens = 1, u_CacheCreationInputTokens = 0\<rparr>\<rparr>"


section \<open>Protocols\<close>

text \<open>
  C24. An upstream that keeps the protocol of the Responses API makes the converter keep the grammar of
  Anthropic streams: one message, blocks of a known type one after the other, only deltas that fit the
  type of the open block, and after the upstream's last event or after finalizing a message that is
  over. Finalizing adds nothing to a stream that the upstream ended itself.
\<close>

theorem conforming_stream:
  assumes "resp_run evs RStart = Some ph"
    and "to_anthropic_run js evs (NewResponsesEventToAnthropicState model) = (out, st)"
    and "FinalizeResponsesAnthropicStream st = (rest, st')"
  shows "anth_run (out @ rest) NotStarted = Some (if ph = RStart then NotStarted else Over) \<and>
    (ph = ROver \<longrightarrow> rest = [])"
proof -
  have init: "simulates RStart (NewResponsesEventToAnthropicState model)"
    and start: "phase_of (NewResponsesEventToAnthropicState model) = NotStarted"
    by (simp_all add: NewResponsesEventToAnthropicState_def phase_of_def)
  have sim: "simulates ph st" and out: "anth_run out NotStarted = Some (phase_of st)"
    using protocol.convert_follows [OF assms(1) init, of js] assms(2) start
    by (simp_all add: follows_def to_anthropic_run_def)
  show ?thesis
  proof (cases "running st")
    case True
    then have "anth_run rest (phase_of st) = Some Over"
      using finalize_moves [OF True] assms(3) by (simp add: moves_def follows_def phase_of_def)
    moreover have "ph \<noteq> RStart" "ph \<noteq> ROver" using sim True by (auto simp: running_def)
    ultimately show ?thesis by (simp add: accept_append out)
  next
    case False
    then have "ph = RStart \<or> ph = ROver" using sim by (cases ph) auto
    then have "phase_of st = (if ph = RStart then NotStarted else Over)" "rest = []"
      using sim assms(3) by (auto simp: phase_of_def FinalizeResponsesAnthropicStream_def)
    then show ?thesis by (simp add: accept_append out)
  qed
qed

theorem conforming_stream_witness:
  "resp_run (response_events demo_response demo_items) RStart = Some ROver \<and>
   anth_run (fst (to_anthropic_run demo_js (response_events demo_response demo_items)
      (NewResponsesEventToAnthropicState ''claude''))) NotStarted = Some Over"
proof -
  have run: "resp_run (response_events demo_response demo_items) RStart = Some ROver"
    by code_simp
  from conforming_stream [OF run prod.collapse [symmetric] prod.collapse [symmetric], of demo_js "''claude''"]
  show ?thesis by (elim conjE) (simp add: run)
qed

section \<open>Where the converters disagree\<close>

definition anth_start :: "int \<Rightarrow> content_block \<Rightarrow> anthropic_event" where
  "anth_start i b = (anth_event ContentBlockStart)\<lparr>ae_Index := Some i, ae_ContentBlock := Some b\<rparr>"

definition anth_stop :: "int \<Rightarrow> anthropic_event" where
  "anth_stop i = (anth_event ContentBlockStop)\<lparr>ae_Index := Some i\<rparr>"

text \<open>A text, then a search that the provider runs itself: two blocks the converter knows nothing of.\<close>

definition searching_stream :: "anthropic_event list" where
  "searching_stream =
     [(anth_event MessageStart)\<lparr>ae_Message := Some demo_message\<rparr>,
      anth_start 0 (no_block TextBlock), block_delta 0 (text_delta ''hello''), anth_stop 0,
      anth_start 1 (no_block ServerToolUse), anth_stop 1,
      anth_start 2 (no_block WebSearchToolResult), anth_stop 2,
      anth_event MessageStop]"

text \<open>
  The two blocks are skipped when they start, but not when they stop: each stop closes a content part
  that was never opened, so the message of the response ends with two empty text parts.
\<close>

lemma skipped_blocks_add_empty_parts:
  "case to_responses_run (\<lambda>_. ''id'') searching_stream (NewAnthropicEventToResponsesState ''m'' 0) of (out, st) \<Rightarrow>
     length (filter (\<lambda>e. re_Type e = ContentPartAdded) out) = 1 \<and>
     length (filter (\<lambda>e. re_Type e = ContentPartDone) out) = 3 \<and>
     map (\<lambda>item. map cp_Text (o_Content item)) (Outputs st) = [[''hello'', [], []]]"
  by code_simp

definition custom_call :: responses_output where
  "custom_call = (no_output CustomToolCall)\<lparr>o_CallID := ''toolu_1'', o_Name := ''apply_patch''\<rparr>"

definition custom_response :: responses_response where
  "custom_response = demo_response\<lparr>r_Output := [custom_call], r_Usage := None\<rparr>"

definition custom_streamed :: anthropic_response where
  "custom_streamed = fold assemble (fst (to_anthropic_run demo_js (response_events custom_response [(custom_call, [])])
     (NewResponsesEventToAnthropicState ''claude''))) no_message"

text \<open>
  A custom tool call is a tool use for the client that streams and nothing for the client that does not:
  there the whole answer becomes one empty text, and the stop reason is that of a finished turn.
\<close>

lemma custom_tool_call_lost_in_batch:
  "an_Content (ResponsesToAnthropic demo_js custom_response ''claude'') = [no_block TextBlock] \<and>
   an_StopReason (ResponsesToAnthropic demo_js custom_response ''claude'') = Some ''end_turn'' \<and>
   map cb_Type (an_Content custom_streamed) = [ToolUse] \<and>
   an_StopReason custom_streamed = Some ''tool_use''"
  by code_simp

end
