(* ===== verification/Redis_Store.thy ===== *)
theory Redis_Store
  imports Shared_Database "HOL-Library.AList" "HOL-Library.List_Lexorder"
    "HOL-Library.Char_ord" "HOL-Library.Product_Lexorder"
begin

text \<open>
  Redis, as far as the concurrency cache uses it: sorted sets of members with integer scores, counters,
  and a time to live per key. A command or script runs at the server's own time, which does not go
  back, after keys whose time has passed are gone. Commands are state transformers on \<open>redis\<close>; the
  client reaches them through \<open>call\<close> of \<open>Shared_Database\<close>, so other clients run between any two and
  every command, or its reply, can be lost.
\<close>

section \<open>The server\<close>

type_synonym zset = "(string \<times> int) list"

record redis =
  zset_table :: "(string \<times> zset) list"
  counter_table :: "(string \<times> int) list"
  expire_table :: "(string \<times> int) list"
  redis_time :: int

definition zsets :: "redis \<Rightarrow> string \<Rightarrow> zset" where
  "zsets d k = (case map_of (zset_table d) k of None \<Rightarrow> [] | Some z \<Rightarrow> z)"

definition counters :: "redis \<Rightarrow> string \<Rightarrow> int option" where
  "counters d k = map_of (counter_table d) k"

definition expires :: "redis \<Rightarrow> string \<Rightarrow> int option" where
  "expires d k = map_of (expire_table d) k"

definition empty_redis :: redis where
  "empty_redis = \<lparr>zset_table = [], counter_table = [], expire_table = [], redis_time = 0\<rparr>"

definition gone :: "int \<Rightarrow> redis \<Rightarrow> string \<Rightarrow> bool" where
  "gone t d k = (case expires d k of None \<Rightarrow> False | Some e \<Rightarrow> e < t)"

definition at_time :: "int \<Rightarrow> redis \<Rightarrow> redis" where
  "at_time now d =
     (let t = max now (redis_time d) in
      d\<lparr>zset_table := filter (\<lambda>(k, _). \<not> gone t d k) (zset_table d),
        counter_table := filter (\<lambda>(k, _). \<not> gone t d k) (counter_table d),
        expire_table := filter (\<lambda>(k, _). \<not> gone t d k) (expire_table d),
        redis_time := t\<rparr>)"

text \<open>\<open>TIME\<close>: the seconds of the server's clock.\<close>

definition TIME :: "redis \<Rightarrow> int" where
  "TIME d = redis_time d div Second"

section \<open>Commands\<close>

definition key_exists :: "redis \<Rightarrow> string \<Rightarrow> bool" where
  "key_exists d k \<longleftrightarrow> zsets d k \<noteq> [] \<or> counters d k \<noteq> None"

text \<open>A set that becomes empty is no longer a key.\<close>

definition set_zset :: "string \<Rightarrow> zset \<Rightarrow> redis \<Rightarrow> redis" where
  "set_zset k z d =
     (if z = [] then d\<lparr>zset_table := AList.delete k (zset_table d), expire_table := AList.delete k (expire_table d)\<rparr>
      else d\<lparr>zset_table := AList.update k z (zset_table d)\<rparr>)"

definition ZCARD :: "string \<Rightarrow> redis \<Rightarrow> int" where
  "ZCARD k d = int (length (zsets d k))"

definition ZSCORE :: "string \<Rightarrow> string \<Rightarrow> redis \<Rightarrow> int option" where
  "ZSCORE k m d = map_of (zsets d k) m"

definition ZADD :: "string \<Rightarrow> int \<Rightarrow> string \<Rightarrow> redis \<Rightarrow> redis" where
  "ZADD k s m d = set_zset k (AList.update m s (zsets d k)) d"

definition ZREM :: "string \<Rightarrow> string \<Rightarrow> redis \<Rightarrow> redis" where
  "ZREM k m d = set_zset k (AList.delete m (zsets d k)) d"

text \<open>\<open>ZREMRANGEBYSCORE k -inf hi\<close>.\<close>

definition ZREMUPTO :: "string \<Rightarrow> int \<Rightarrow> redis \<Rightarrow> redis" where
  "ZREMUPTO k hi d = set_zset k (filter (\<lambda>(m, s). s > hi) (zsets d k)) d"

text \<open>\<open>ZRANGEBYSCORE k -inf hi LIMIT 0 n\<close> and \<open>ZRANGE k 0 -1\<close>: members by score,
  then by name.\<close>

definition ZRANGE :: "string \<Rightarrow> redis \<Rightarrow> string list" where
  "ZRANGE k d = map fst (sort_key (\<lambda>(m, s). (s, m)) (zsets d k))"

definition ZRANGEUPTO :: "string \<Rightarrow> int \<Rightarrow> nat \<Rightarrow> redis \<Rightarrow> string list" where
  "ZRANGEUPTO k hi n d = take n (map fst (sort_key (\<lambda>(m, s). (s, m)) (filter (\<lambda>(m, s). s \<le> hi) (zsets d k))))"

definition DEL :: "string \<Rightarrow> redis \<Rightarrow> redis" where
  "DEL k d = d\<lparr>zset_table := AList.delete k (zset_table d), counter_table := AList.delete k (counter_table d),
               expire_table := AList.delete k (expire_table d)\<rparr>"

definition EXPIRE :: "string \<Rightarrow> int \<Rightarrow> redis \<Rightarrow> redis" where
  "EXPIRE k ttl d =
     (if \<not> key_exists d k then d
      else if ttl \<le> 0 then DEL k d
      else d\<lparr>expire_table := AList.update k (redis_time d + ttl * Second) (expire_table d)\<rparr>)"

definition INCR :: "string \<Rightarrow> redis \<Rightarrow> redis" where
  "INCR k d = d\<lparr>counter_table := AList.update k (case counters d k of None \<Rightarrow> 1 | Some n \<Rightarrow> n + 1) (counter_table d)\<rparr>"

definition DECR :: "string \<Rightarrow> redis \<Rightarrow> redis" where
  "DECR k d = d\<lparr>counter_table := AList.update k (case counters d k of None \<Rightarrow> -1 | Some n \<Rightarrow> n - 1) (counter_table d)\<rparr>"

definition SET :: "string \<Rightarrow> int \<Rightarrow> redis \<Rightarrow> redis" where
  "SET k v d = d\<lparr>counter_table := AList.update k v (counter_table d), expire_table := AList.delete k (expire_table d)\<rparr>"

section \<open>The client\<close>

type_synonym ('z, 'a) redis_prog = "((redis, 'z) shared_scheme, 'a) state"

definition run_script :: "(redis \<Rightarrow> 'a \<times> redis) \<Rightarrow> ('z, unit + 'a) redis_prog" where
  "run_script script = call (\<lambda>now d. script (at_time now d))"

definition command :: "(redis \<Rightarrow> redis) \<Rightarrow> ('z, unit + unit) redis_prog" where
  "command f = run_script (\<lambda>d. ((), f d))"

definition read_redis :: "(redis \<Rightarrow> 'a) \<Rightarrow> ('z, unit + 'a) redis_prog" where
  "read_redis f = run_script (\<lambda>d. (f d, d))"

text \<open>
  A pipeline that is not a transaction: the commands run one after the other with others in between,
  and it fails if one of them, or its reply, is lost.
\<close>

fun pipeline :: "(redis \<Rightarrow> 'a \<times> redis) list \<Rightarrow> ('z, unit + 'a list) redis_prog" where
  "pipeline [] = State_Monad.return (Inr [])"
| "pipeline (s # ss) = do {
     r \<leftarrow> run_script s;
     rs \<leftarrow> pipeline ss;
     State_Monad.return (case (r, rs) of (Inr a, Inr as) \<Rightarrow> Inr (a # as) | _ \<Rightarrow> Inl ())}"

section \<open>Facts on sorted sets\<close>

text \<open>No member occurs twice.\<close>

definition zsets_ok :: "redis \<Rightarrow> bool" where
  "zsets_ok d \<longleftrightarrow> (\<forall>k. distinct (map fst (zsets d k)))"

lemmas table_defs = zsets_def counters_def expires_def

lemma table_updates [simp]:
  "zsets (d\<lparr>counter_table := x\<rparr>) = zsets d" "zsets (d\<lparr>expire_table := y\<rparr>) = zsets d" "zsets (d\<lparr>redis_time := t\<rparr>) = zsets d"
  "counters (d\<lparr>zset_table := z\<rparr>) = counters d" "counters (d\<lparr>expire_table := y\<rparr>) = counters d"
  "counters (d\<lparr>redis_time := t\<rparr>) = counters d"
  "expires (d\<lparr>zset_table := z\<rparr>) = expires d" "expires (d\<lparr>counter_table := x\<rparr>) = expires d"
  "expires (d\<lparr>redis_time := t\<rparr>) = expires d"
  by (simp_all add: table_defs fun_eq_iff)

lemma set_zset_simps [simp]:
  "zsets (set_zset k z d) = (zsets d)(k := z)"
  "counters (set_zset k z d) = counters d"
  "redis_time (set_zset k z d) = redis_time d"
  "expires (set_zset k z d) = (if z = [] then (expires d)(k := None) else expires d)"
  by (auto simp: set_zset_def table_defs fun_eq_iff update_conv' delete_conv')

lemma zset_simps [simp]:
  "zsets (ZADD k s m d) = (zsets d)(k := AList.update m s (zsets d k))"
  "zsets (ZREM k m d) = (zsets d)(k := AList.delete m (zsets d k))"
  "zsets (ZREMUPTO k hi d) = (zsets d)(k := filter (\<lambda>(m, s). s > hi) (zsets d k))"
  "zsets (DEL k d) = (zsets d)(k := [])"
  "zsets (INCR k d) = zsets d" "zsets (DECR k d) = zsets d" "zsets (SET k v d) = zsets d"
  by (auto simp: ZADD_def ZREM_def ZREMUPTO_def DEL_def INCR_def DECR_def SET_def zsets_def fun_eq_iff delete_conv')

lemma counter_simps [simp]:
  "counters (ZADD k s m d) = counters d" "counters (ZREM k m d) = counters d"
  "counters (ZREMUPTO k hi d) = counters d" "counters (DEL k d) = (counters d)(k := None)"
  "counters (INCR k d) = (counters d)(k \<mapsto> (case counters d k of None \<Rightarrow> 1 | Some n \<Rightarrow> n + 1))"
  "counters (DECR k d) = (counters d)(k \<mapsto> (case counters d k of None \<Rightarrow> -1 | Some n \<Rightarrow> n - 1))"
  "counters (SET k v d) = (counters d)(k \<mapsto> v)"
  by (auto simp: ZADD_def ZREM_def ZREMUPTO_def DEL_def INCR_def DECR_def SET_def counters_def fun_eq_iff delete_conv'
      update_conv')

lemma redis_time_simps [simp]:
  "redis_time (ZADD k s m d) = redis_time d" "redis_time (ZREM k m d) = redis_time d"
  "redis_time (ZREMUPTO k hi d) = redis_time d" "redis_time (DEL k d) = redis_time d"
  "redis_time (INCR k d) = redis_time d" "redis_time (DECR k d) = redis_time d" "redis_time (SET k v d) = redis_time d"
  "redis_time (EXPIRE k ttl d) = redis_time d" "redis_time (at_time now d) = max now (redis_time d)"
  by (simp_all add: ZADD_def ZREM_def ZREMUPTO_def DEL_def INCR_def DECR_def SET_def EXPIRE_def at_time_def Let_def)

lemma expires_simps:
  "expires (ZADD k s m d) k' = expires d k'"
  "expires (ZREM k m d) k' = (if AList.delete m (zsets d k) = [] \<and> k' = k then None else expires d k')"
  "expires (ZREMUPTO k hi d) k' =
     (if filter (\<lambda>(m, s). s > hi) (zsets d k) = [] \<and> k' = k then None else expires d k')"
  "expires (DEL k d) k' = (if k' = k then None else expires d k')"
  "expires (INCR k d) = expires d" "expires (DECR k d) = expires d"
  "expires (SET k v d) k' = (if k' = k then None else expires d k')"
  by (auto simp: ZADD_def ZREM_def ZREMUPTO_def DEL_def INCR_def DECR_def SET_def expires_def set_zset_def delete_conv'
      update_nonempty)

lemma EXPIRE_simps:
  "0 < ttl \<Longrightarrow> zsets (EXPIRE k ttl d) = zsets d" "0 < ttl \<Longrightarrow> counters (EXPIRE k ttl d) = counters d"
  "0 < ttl \<Longrightarrow> expires (EXPIRE k ttl d) =
     (if key_exists d k then (expires d)(k \<mapsto> redis_time d + ttl * Second) else expires d)"
  by (auto simp: EXPIRE_def expires_def fun_eq_iff update_conv')

lemmas zsets_EXPIRE = EXPIRE_simps(1,2)

lemma map_of_filter_key: "map_of (filter (\<lambda>(k, _). p k) xs) k = (if p k then map_of xs k else None)"
  by (induction xs) auto

lemma at_time_simps:
  "zsets (at_time now d) k = (if gone (max now (redis_time d)) d k then [] else zsets d k)"
  "counters (at_time now d) k = (if gone (max now (redis_time d)) d k then None else counters d k)"
  "expires (at_time now d) k = (if gone (max now (redis_time d)) d k then None else expires d k)"
  by (simp_all add: at_time_def Let_def table_defs map_of_filter_key)

lemma at_time_shrinks: "zsets (at_time now d) k \<in> {zsets d k, []}"
  by (simp add: at_time_simps)

lemma empty_redis_simps [simp]:
  "zsets empty_redis k = []" "counters empty_redis k = None" "expires empty_redis k = None" "redis_time empty_redis = 0"
  by (simp_all add: empty_redis_def table_defs)

lemma length_AList_update:
  "length (AList.update m s z) = (if m \<in> fst ` set z then length z else Suc (length z))"
  by (induction z) auto

lemma distinct_filter_fst: "distinct (map fst z) \<Longrightarrow> distinct (map fst (filter p z))"
  by (induction z) auto

lemma map_of_filter_value:
  "map_of z m = Some s \<Longrightarrow> p s \<Longrightarrow> map_of (filter (\<lambda>(m, s). p s) z) m = Some s"
  by (induction z) (auto split: if_splits)

end
