(* ===== verification/Concurrency_Cache.thy ===== *)
theory Concurrency_Cache
  imports Redis_Store
begin

text \<open>
  The limits on concurrent requests (\<open>repository/concurrency_cache.go\<close>). A running request holds a slot,
  a member of the sorted set of its account or user, scored with the second it was taken; slots older
  than their time to live count as abandoned. The Lua scripts run as one step of the server, the Go
  functions around them are programs. Waiting requests are counted, and two indexes remember which
  accounts and users may have slots or waiting requests.
\<close>

section \<open>Keys\<close>

definition accountSlotKey :: "int \<Rightarrow> string" where "accountSlotKey i = ''concurrency:account:'' @ Itoa i"
definition userSlotKey :: "int \<Rightarrow> string" where "userSlotKey i = ''concurrency:user:'' @ Itoa i"
definition apiKeySlotKey :: "int \<Rightarrow> string" where "apiKeySlotKey i = ''concurrency:api_key:'' @ Itoa i"
definition liveAccountSlotKey :: "int \<Rightarrow> string" where "liveAccountSlotKey i = ''concurrency:live:account:'' @ Itoa i"
definition liveUserSlotKey :: "int \<Rightarrow> string" where "liveUserSlotKey i = ''concurrency:live:user:'' @ Itoa i"
definition liveAPIKeySlotKey :: "int \<Rightarrow> string" where "liveAPIKeySlotKey i = ''concurrency:live:api_key:'' @ Itoa i"
definition openAIWSIngressLeaseKey :: "int \<Rightarrow> string" where
  "openAIWSIngressLeaseKey i = ''concurrency:openai_ws_ingress:api_key:'' @ Itoa i"
definition waitQueueKey :: "int \<Rightarrow> string" where "waitQueueKey i = ''concurrency:wait:'' @ Itoa i"
definition accountWaitKey :: "int \<Rightarrow> string" where "accountWaitKey i = ''wait:account:'' @ Itoa i"
definition accountActiveIndexKey :: string where "accountActiveIndexKey = ''concurrency:account:active_index''"
definition userActiveIndexKey :: string where "userActiveIndexKey = ''concurrency:user:active_index''"
definition legacyWaitSweepMarkerKey :: string where
  "legacyWaitSweepMarkerKey = ''concurrency:startup:legacy_wait_sweep:v1''"

abbreviation (input) liveLeaseTTLSeconds :: int where "liveLeaseTTLSeconds \<equiv> 60"
abbreviation (input) openAIWSIngressLeaseTTLSeconds :: int where "openAIWSIngressLeaseTTLSeconds \<equiv> 60"

section \<open>Scripts\<close>

definition acquireScript :: "string \<Rightarrow> string \<Rightarrow> int \<Rightarrow> int \<Rightarrow> string \<Rightarrow> redis \<Rightarrow> (bool \<times> int) \<times> redis" where
  "acquireScript key liveKey maxConcurrency ttl requestID d =
     (let now = TIME d;
          d = ZREMUPTO key (now - ttl) d;
          d = ZREMUPTO liveKey (now - 60) d
      in if ZSCORE key requestID d \<noteq> None
         then ((True, now), EXPIRE key ttl (ZADD key now requestID d))
         else if ZCARD key d + ZCARD liveKey d < maxConcurrency
         then ((True, now), EXPIRE key ttl (ZADD key now requestID d))
         else ((False, now), d))"

definition getCountScript :: "string \<Rightarrow> string \<Rightarrow> int \<Rightarrow> redis \<Rightarrow> int \<times> redis" where
  "getCountScript key liveKey ttl d =
     (let now = TIME d;
          d = ZREMUPTO key (now - ttl) d;
          d = ZREMUPTO liveKey (now - 60) d
      in (ZCARD key d + ZCARD liveKey d, d))"

definition acquireLiveLeaseScript ::
  "string \<Rightarrow> string \<Rightarrow> string \<Rightarrow> string \<Rightarrow> string \<Rightarrow> int \<Rightarrow> int \<Rightarrow> int \<Rightarrow> string \<Rightarrow> bool \<Rightarrow> redis \<Rightarrow> bool \<times> redis" where
  "acquireLiveLeaseScript accountRegular accountLive userRegular userLive apiLive accountMax userMax ttl leaseID replacing d =
     (let now = TIME d;
          d = ZREMUPTO accountLive (now - ttl) d;
          d = ZREMUPTO userLive (now - ttl) d;
          d = ZREMUPTO apiLive (now - ttl) d
      in if ZSCORE accountLive leaseID d \<noteq> None then (True, d)
         else
         let accountCount = ZCARD accountRegular d + ZCARD accountLive d;
             userCount = ZCARD userRegular d + ZCARD userLive d;
             allowance = (if replacing then 1 else 0)
         in if accountMax > 0 \<and> accountCount \<ge> accountMax + allowance then (False, d)
            else if userMax > 0 \<and> userCount \<ge> userMax + allowance then (False, d)
            else
            let d = ZADD accountLive now leaseID d;
                d = ZADD userLive now leaseID d;
                d = ZADD apiLive now leaseID d;
                d = EXPIRE accountLive ttl d;
                d = EXPIRE userLive ttl d
            in (True, EXPIRE apiLive ttl d))"

text \<open>The two loops of the refresh script; the first stops at the first set without the lease.\<close>

fun lease_everywhere :: "string list \<Rightarrow> int \<Rightarrow> string \<Rightarrow> redis \<Rightarrow> bool \<times> redis" where
  "lease_everywhere [] expireBefore leaseID d = (True, d)"
| "lease_everywhere (key # keys) expireBefore leaseID d =
     (let d = ZREMUPTO key expireBefore d in
      if ZSCORE key leaseID d = None then (False, d) else lease_everywhere keys expireBefore leaseID d)"

definition refreshLiveLeaseScript :: "string list \<Rightarrow> int \<Rightarrow> string \<Rightarrow> redis \<Rightarrow> bool \<times> redis" where
  "refreshLiveLeaseScript keys ttl leaseID d =
     (let now = TIME d in
      case lease_everywhere keys (now - ttl) leaseID d of
        (False, d) \<Rightarrow> (False, d)
      | (True, d) \<Rightarrow> (True, fold (\<lambda>key d. EXPIRE key ttl (ZADD key now leaseID d)) keys d))"

definition trackSlotScript :: "string \<Rightarrow> int \<Rightarrow> string \<Rightarrow> redis \<Rightarrow> unit \<times> redis" where
  "trackSlotScript key ttl requestID d =
     (let now = TIME d in
      ((), EXPIRE key ttl (ZADD key now requestID (ZREMUPTO key (now - ttl) d))))"

definition acquireOpenAIWSIngressLeaseScript :: "string \<Rightarrow> int \<Rightarrow> int \<Rightarrow> string \<Rightarrow> redis \<Rightarrow> bool \<times> redis" where
  "acquireOpenAIWSIngressLeaseScript key maxConnections ttl leaseID d =
     (let now = TIME d;
          d = ZREMUPTO key (now - ttl) d
      in if ZSCORE key leaseID d \<noteq> None then (True, EXPIRE key ttl (ZADD key now leaseID d))
         else if ZCARD key d < maxConnections then (True, EXPIRE key ttl (ZADD key now leaseID d))
         else (False, d))"

definition refreshOpenAIWSIngressLeaseScript :: "string \<Rightarrow> int \<Rightarrow> string \<Rightarrow> redis \<Rightarrow> bool \<times> redis" where
  "refreshOpenAIWSIngressLeaseScript key ttl leaseID d =
     (let now = TIME d;
          d = ZREMUPTO key (now - ttl) d
      in if ZSCORE key leaseID d = None then (False, d)
         else (True, EXPIRE key ttl (ZADD key now leaseID d)))"

text \<open>The two scripts that count a waiting request, for users and for accounts, are the same.\<close>

definition incrementWaitScript :: "string \<Rightarrow> int \<Rightarrow> int \<Rightarrow> redis \<Rightarrow> (bool \<times> int) \<times> redis" where
  "incrementWaitScript key maxWait ttl d =
     (let current = (case counters d key of None \<Rightarrow> 0 | Some n \<Rightarrow> n);
          now = TIME d
      in if current \<ge> maxWait then ((False, now), d)
         else ((True, now), EXPIRE key ttl (INCR key d)))"

definition decrementWaitScript :: "string \<Rightarrow> redis \<Rightarrow> unit \<times> redis" where
  "decrementWaitScript key d =
     (case counters d key of
        Some n \<Rightarrow> if n > 0 then ((), DECR key d) else ((), d)
      | None \<Rightarrow> ((), d))"

definition cleanupExpiredSlotsScript :: "string \<Rightarrow> int \<Rightarrow> redis \<Rightarrow> unit \<times> redis" where
  "cleanupExpiredSlotsScript key ttl d =
     (let d = ZREMUPTO key (TIME d - ttl) d in
      ((), if ZCARD key d = 0 then DEL key d else EXPIRE key ttl d))"

text \<open>The loop over the members, and the members it removed.\<close>

fun remove_foreign :: "string \<Rightarrow> string \<Rightarrow> string list \<Rightarrow> int \<Rightarrow> redis \<Rightarrow> int \<times> redis" where
  "remove_foreign key activePrefix [] removed d = (removed, d)"
| "remove_foreign key activePrefix (member # members) removed d =
     (if \<not> has_prefix member activePrefix
      then remove_foreign key activePrefix members (removed + (if ZSCORE key member d = None then 0 else 1)) (ZREM key member d)
      else remove_foreign key activePrefix members removed d)"

definition startupCleanupSlotScript :: "string \<Rightarrow> string \<Rightarrow> int \<Rightarrow> redis \<Rightarrow> (int \<times> int) \<times> redis" where
  "startupCleanupSlotScript key activePrefix slotTTL d =
     (case remove_foreign key activePrefix (ZRANGE key d) 0 d of
        (removed, d) \<Rightarrow>
          let remaining = ZCARD key d in
          ((removed, remaining), if remaining = 0 then DEL key d else EXPIRE key slotTTL d))"

section \<open>The cache\<close>

record concurrency_cache =
  slotTTLSeconds :: int
  waitQueueTTLSeconds :: int

definition NewConcurrencyCache :: "int \<Rightarrow> int \<Rightarrow> concurrency_cache" where
  "NewConcurrencyCache slotTTLMinutes waitQueueTTL =
     (let slotTTLMinutes = (if slotTTLMinutes \<le> 0 then 15 else slotTTLMinutes);
          waitQueueTTL = (if waitQueueTTL \<le> 0 then slotTTLMinutes * 60 else waitQueueTTL)
      in \<lparr>slotTTLSeconds = slotTTLMinutes * 60, waitQueueTTLSeconds = waitQueueTTL\<rparr>)"

type_synonym 'z attempt = "('z, unit + bool) redis_prog"
type_synonym 'z task = "('z, unit + unit) redis_prog"

subsection \<open>Indexes\<close>

record slot_index =
  si_indexKey :: string
  si_slotKey :: "int \<Rightarrow> string"
  si_waitKey :: "int \<Rightarrow> string"

definition accountSlotIndex :: slot_index where
  "accountSlotIndex = \<lparr>si_indexKey = accountActiveIndexKey, si_slotKey = accountSlotKey, si_waitKey = accountWaitKey\<rparr>"

definition userSlotIndex :: slot_index where
  "userSlotIndex = \<lparr>si_indexKey = userActiveIndexKey, si_slotKey = userSlotKey, si_waitKey = waitQueueKey\<rparr>"

definition touchActiveIndexAt :: "string \<Rightarrow> int \<Rightarrow> int \<Rightarrow> ('z, unit) redis_prog" where
  "touchActiveIndexAt indexKey i expireAt =
     (if i \<le> 0 \<or> expireAt \<le> 0 then State_Monad.return ()
      else do { _ \<leftarrow> command (ZADD indexKey expireAt (Itoa i)); State_Monad.return () })"

definition activeIndexTTL :: "concurrency_cache \<Rightarrow> int \<Rightarrow> int \<Rightarrow> int" where
  "activeIndexTTL c slotCount waitCount =
     (let ttl = (if slotCount > 0 then slotTTLSeconds c else 0) in
      if waitCount > 0 \<and> waitQueueTTLSeconds c > ttl then waitQueueTTLSeconds c else ttl)"

text \<open>
  The three commands that read the load of an identifier. A reply is an integer or nil; a missing or a
  negative count of waiting requests is zero.
\<close>

definition load_commands :: "string \<Rightarrow> string \<Rightarrow> int \<Rightarrow> (redis \<Rightarrow> int option \<times> redis) list" where
  "load_commands slotKey waitKey cutoff =
     [\<lambda>d. (None, ZREMUPTO slotKey cutoff d), \<lambda>d. (Some (ZCARD slotKey d), d), \<lambda>d. (counters d waitKey, d)]"

definition wait_count :: "int option \<Rightarrow> int" where
  "wait_count r = (case r of Some v \<Rightarrow> if v > 0 then v else 0 | None \<Rightarrow> 0)"

definition slot_count :: "int option \<Rightarrow> int" where
  "slot_count r = (case r of Some v \<Rightarrow> v | None \<Rightarrow> 0)"

fun read_loads :: "'i list \<Rightarrow> int option list \<Rightarrow> ('i \<times> int \<times> int) list" where
  "read_loads (i # is) (_ # s # w # rs) = (i, slot_count s, wait_count w) # read_loads is rs"
| "read_loads _ _ = []"

definition readActiveLoadForKey :: "concurrency_cache \<Rightarrow> string \<Rightarrow> string \<Rightarrow> int \<Rightarrow> ('z, unit + int \<times> int) redis_prog" where
  "readActiveLoadForKey c slotKey waitKey now = do {
     r \<leftarrow> pipeline (load_commands slotKey waitKey (now - slotTTLSeconds c));
     State_Monad.return (case r of
       Inl e \<Rightarrow> Inl e
     | Inr rs \<Rightarrow> (case read_loads [()] rs of (_, s, w) # _ \<Rightarrow> Inr (s, w) | [] \<Rightarrow> Inr (0, 0)))}"

definition refreshActiveIndex :: "concurrency_cache \<Rightarrow> string \<Rightarrow> int \<Rightarrow> string \<Rightarrow> string \<Rightarrow> ('z, unit) redis_prog" where
  "refreshActiveIndex c indexKey i slotKey waitKey =
     (if i \<le> 0 then State_Monad.return ()
      else do {
        t \<leftarrow> read_redis TIME;
        case t of
          Inl _ \<Rightarrow> State_Monad.return ()
        | Inr now \<Rightarrow> do {
            load \<leftarrow> readActiveLoadForKey c slotKey waitKey now;
            case load of
              Inl _ \<Rightarrow> State_Monad.return ()
            | Inr (slots, waiting) \<Rightarrow>
                if slots = 0 \<and> waiting \<le> 0
                then do { _ \<leftarrow> command (ZREM indexKey (Itoa i)); State_Monad.return () }
                else if activeIndexTTL c slots waiting \<le> 0 then State_Monad.return ()
                else touchActiveIndexAt indexKey i (now + activeIndexTTL c slots waiting)}})"

definition refreshAccountActiveIndex :: "concurrency_cache \<Rightarrow> int \<Rightarrow> ('z, unit) redis_prog" where
  "refreshAccountActiveIndex c i = refreshActiveIndex c accountActiveIndexKey i (accountSlotKey i) (accountWaitKey i)"

definition refreshUserActiveIndex :: "concurrency_cache \<Rightarrow> int \<Rightarrow> ('z, unit) redis_prog" where
  "refreshUserActiveIndex c i = refreshActiveIndex c userActiveIndexKey i (userSlotKey i) (waitQueueKey i)"

subsection \<open>Slots\<close>

text \<open>What taking a slot has in common: run the script, and on success mark the index.\<close>

definition acquire_slot :: "string \<Rightarrow> int \<Rightarrow> int \<Rightarrow> (redis \<Rightarrow> (bool \<times> int) \<times> redis) \<Rightarrow> 'z attempt" where
  "acquire_slot indexKey i ttl script = do {
     r \<leftarrow> run_script script;
     case r of
       Inl e \<Rightarrow> State_Monad.return (Inl e)
     | Inr (ok, now) \<Rightarrow>
         if ok then do { _ \<leftarrow> touchActiveIndexAt indexKey i (now + ttl); State_Monad.return (Inr True) }
         else State_Monad.return (Inr False)}"

text \<open>And giving back: one command, and if it ran, correct the index.\<close>

definition give_back :: "('z, unit + unit) redis_prog \<Rightarrow> ('z, unit) redis_prog \<Rightarrow> 'z task" where
  "give_back cmd refresh = do {
     r \<leftarrow> cmd;
     case r of
       Inl e \<Rightarrow> State_Monad.return (Inl e)
     | Inr _ \<Rightarrow> do { _ \<leftarrow> refresh; State_Monad.return (Inr ()) }}"

definition AcquireAccountSlot :: "concurrency_cache \<Rightarrow> int \<Rightarrow> int \<Rightarrow> string \<Rightarrow> 'z attempt" where
  "AcquireAccountSlot c accountID maxConcurrency requestID =
     acquire_slot accountActiveIndexKey accountID (slotTTLSeconds c)
       (acquireScript (accountSlotKey accountID) (liveAccountSlotKey accountID) maxConcurrency (slotTTLSeconds c) requestID)"

definition ReleaseAccountSlot :: "concurrency_cache \<Rightarrow> int \<Rightarrow> string \<Rightarrow> 'z task" where
  "ReleaseAccountSlot c accountID requestID =
     give_back (command (ZREM (accountSlotKey accountID) requestID)) (refreshAccountActiveIndex c accountID)"

definition GetAccountConcurrency :: "concurrency_cache \<Rightarrow> int \<Rightarrow> ('z, unit + int) redis_prog" where
  "GetAccountConcurrency c accountID =
     run_script (getCountScript (accountSlotKey accountID) (liveAccountSlotKey accountID) (slotTTLSeconds c))"

definition AcquireUserSlot :: "concurrency_cache \<Rightarrow> int \<Rightarrow> int \<Rightarrow> string \<Rightarrow> 'z attempt" where
  "AcquireUserSlot c userID maxConcurrency requestID =
     acquire_slot userActiveIndexKey userID (slotTTLSeconds c)
       (acquireScript (userSlotKey userID) (liveUserSlotKey userID) maxConcurrency (slotTTLSeconds c) requestID)"

definition ReleaseUserSlot :: "concurrency_cache \<Rightarrow> int \<Rightarrow> string \<Rightarrow> 'z task" where
  "ReleaseUserSlot c userID requestID =
     give_back (command (ZREM (userSlotKey userID) requestID)) (refreshUserActiveIndex c userID)"

definition GetUserConcurrency :: "concurrency_cache \<Rightarrow> int \<Rightarrow> ('z, unit + int) redis_prog" where
  "GetUserConcurrency c userID =
     run_script (getCountScript (userSlotKey userID) (liveUserSlotKey userID) (slotTTLSeconds c))"

definition TrackAPIKeySlot :: "concurrency_cache \<Rightarrow> int \<Rightarrow> string \<Rightarrow> 'z task" where
  "TrackAPIKeySlot c apiKeyID requestID = run_script (trackSlotScript (apiKeySlotKey apiKeyID) (slotTTLSeconds c) requestID)"

definition ReleaseAPIKeySlot :: "int \<Rightarrow> string \<Rightarrow> 'z task" where
  "ReleaseAPIKeySlot apiKeyID requestID = command (ZREM (apiKeySlotKey apiKeyID) requestID)"

text \<open>A count over a list of identifiers, each the members of a set and of its live set.\<close>

definition count_commands :: "(int \<Rightarrow> string) \<Rightarrow> (int \<Rightarrow> string) \<Rightarrow> int \<Rightarrow> int \<Rightarrow> int \<Rightarrow> (redis \<Rightarrow> int option \<times> redis) list" where
  "count_commands slotKey liveKey cutoff liveCutoff i =
     [\<lambda>d. (None, ZREMUPTO (slotKey i) cutoff d), \<lambda>d. (None, ZREMUPTO (liveKey i) liveCutoff d),
      \<lambda>d. (Some (ZCARD (slotKey i) d), d), \<lambda>d. (Some (ZCARD (liveKey i) d), d)]"

fun read_counts :: "int list \<Rightarrow> int option list \<Rightarrow> (int \<times> int) list" where
  "read_counts (i # is) (_ # _ # s # l # rs) = (i, slot_count s + slot_count l) # read_counts is rs"
| "read_counts _ _ = []"

definition concurrency_batch ::
  "concurrency_cache \<Rightarrow> (int \<Rightarrow> string) \<Rightarrow> (int \<Rightarrow> string) \<Rightarrow> int list \<Rightarrow> ('z, unit + (int \<Rightarrow> int option)) redis_prog" where
  "concurrency_batch c slotKey liveKey ids =
     (if ids = [] then State_Monad.return (Inr Map.empty)
      else do {
        t \<leftarrow> read_redis TIME;
        case t of
          Inl e \<Rightarrow> State_Monad.return (Inl e)
        | Inr now \<Rightarrow> do {
            r \<leftarrow> pipeline (concat (map (count_commands slotKey liveKey (now - slotTTLSeconds c) (now - liveLeaseTTLSeconds)) ids));
            State_Monad.return (case r of
              Inl e \<Rightarrow> Inl e | Inr rs \<Rightarrow> Inr (map_of (rev (read_counts ids rs))))}})"

definition GetAccountConcurrencyBatch :: "concurrency_cache \<Rightarrow> int list \<Rightarrow> ('z, unit + (int \<Rightarrow> int option)) redis_prog" where
  "GetAccountConcurrencyBatch c = concurrency_batch c accountSlotKey liveAccountSlotKey"

definition GetAPIKeyConcurrencyBatch :: "concurrency_cache \<Rightarrow> int list \<Rightarrow> ('z, unit + (int \<Rightarrow> int option)) redis_prog" where
  "GetAPIKeyConcurrencyBatch c = concurrency_batch c apiKeySlotKey liveAPIKeySlotKey"

subsection \<open>Leases\<close>

definition AcquireOpenAIWSIngressLease :: "int \<Rightarrow> int \<Rightarrow> string \<Rightarrow> 'z attempt" where
  "AcquireOpenAIWSIngressLease apiKeyID maxConnections leaseID =
     (if apiKeyID \<le> 0 \<or> maxConnections \<le> 0 \<or> leaseID = [] then State_Monad.return (Inr False)
      else run_script (acquireOpenAIWSIngressLeaseScript (openAIWSIngressLeaseKey apiKeyID) maxConnections
             openAIWSIngressLeaseTTLSeconds leaseID))"

definition RefreshOpenAIWSIngressLease :: "int \<Rightarrow> string \<Rightarrow> 'z attempt" where
  "RefreshOpenAIWSIngressLease apiKeyID leaseID =
     (if apiKeyID \<le> 0 \<or> leaseID = [] then State_Monad.return (Inr False)
      else run_script (refreshOpenAIWSIngressLeaseScript (openAIWSIngressLeaseKey apiKeyID)
             openAIWSIngressLeaseTTLSeconds leaseID))"

definition ReleaseOpenAIWSIngressLease :: "int \<Rightarrow> string \<Rightarrow> 'z task" where
  "ReleaseOpenAIWSIngressLease apiKeyID leaseID =
     (if apiKeyID \<le> 0 \<or> leaseID = [] then State_Monad.return (Inr ())
      else command (ZREM (openAIWSIngressLeaseKey apiKeyID) leaseID))"

definition AcquireLiveLease :: "int \<Rightarrow> int \<Rightarrow> int \<Rightarrow> int \<Rightarrow> int \<Rightarrow> string \<Rightarrow> bool \<Rightarrow> 'z attempt" where
  "AcquireLiveLease accountID accountMax userID userMax apiKeyID leaseID replacingRegularSlots =
     (if accountID \<le> 0 \<or> userID \<le> 0 \<or> apiKeyID \<le> 0 \<or> leaseID = [] then State_Monad.return (Inr False)
      else run_script (acquireLiveLeaseScript (accountSlotKey accountID) (liveAccountSlotKey accountID)
             (userSlotKey userID) (liveUserSlotKey userID) (liveAPIKeySlotKey apiKeyID) accountMax userMax
             liveLeaseTTLSeconds leaseID replacingRegularSlots))"

definition RefreshLiveLease :: "int \<Rightarrow> int \<Rightarrow> int \<Rightarrow> string \<Rightarrow> 'z attempt" where
  "RefreshLiveLease accountID userID apiKeyID leaseID =
     (if leaseID = [] then State_Monad.return (Inr False)
      else run_script (refreshLiveLeaseScript
             [liveAccountSlotKey accountID, liveUserSlotKey userID, liveAPIKeySlotKey apiKeyID] liveLeaseTTLSeconds leaseID))"

text \<open>A transaction: the three commands are one step.\<close>

definition ReleaseLiveLease :: "int \<Rightarrow> int \<Rightarrow> int \<Rightarrow> string \<Rightarrow> 'z task" where
  "ReleaseLiveLease accountID userID apiKeyID leaseID =
     (if leaseID = [] then State_Monad.return (Inr ())
      else command (\<lambda>d. ZREM (liveAPIKeySlotKey apiKeyID) leaseID
             (ZREM (liveUserSlotKey userID) leaseID (ZREM (liveAccountSlotKey accountID) leaseID d))))"

subsection \<open>Waiting\<close>

definition IncrementWaitCount :: "concurrency_cache \<Rightarrow> int \<Rightarrow> int \<Rightarrow> 'z attempt" where
  "IncrementWaitCount c userID maxWait =
     acquire_slot userActiveIndexKey userID (waitQueueTTLSeconds c)
       (incrementWaitScript (waitQueueKey userID) maxWait (waitQueueTTLSeconds c))"

definition DecrementWaitCount :: "concurrency_cache \<Rightarrow> int \<Rightarrow> 'z task" where
  "DecrementWaitCount c userID =
     give_back (run_script (decrementWaitScript (waitQueueKey userID))) (refreshUserActiveIndex c userID)"

definition IncrementAccountWaitCount :: "concurrency_cache \<Rightarrow> int \<Rightarrow> int \<Rightarrow> 'z attempt" where
  "IncrementAccountWaitCount c accountID maxWait =
     acquire_slot accountActiveIndexKey accountID (waitQueueTTLSeconds c)
       (incrementWaitScript (accountWaitKey accountID) maxWait (waitQueueTTLSeconds c))"

definition DecrementAccountWaitCount :: "concurrency_cache \<Rightarrow> int \<Rightarrow> 'z task" where
  "DecrementAccountWaitCount c accountID =
     give_back (run_script (decrementWaitScript (accountWaitKey accountID))) (refreshAccountActiveIndex c accountID)"

definition GetAccountWaitingCount :: "int \<Rightarrow> ('z, unit + int) redis_prog" where
  "GetAccountWaitingCount accountID = read_redis (\<lambda>d. case counters d (accountWaitKey accountID) of None \<Rightarrow> 0 | Some v \<Rightarrow> v)"

subsection \<open>Load\<close>

record load_info =
  CurrentConcurrency :: int
  WaitingCount :: int
  LoadRate :: int

definition load_of :: "int \<Rightarrow> int \<Rightarrow> int \<Rightarrow> load_info" where
  "load_of current waiting maxConcurrency =
     \<lparr>CurrentConcurrency = current, WaitingCount = waiting,
      LoadRate = (if maxConcurrency > 0 then tdiv ((current + waiting) * 100) maxConcurrency else 0)\<rparr>"

fun read_load_infos :: "(int \<times> int) list \<Rightarrow> int option list \<Rightarrow> (int \<times> load_info) list" where
  "read_load_infos ((i, maxConcurrency) # is) (_ # _ # s # l # w # rs) =
     (i, load_of (slot_count s + slot_count l) (slot_count w) maxConcurrency) # read_load_infos is rs"
| "read_load_infos _ _ = []"

definition loads_batch ::
  "concurrency_cache \<Rightarrow> (int \<Rightarrow> string) \<Rightarrow> (int \<Rightarrow> string) \<Rightarrow> (int \<Rightarrow> string) \<Rightarrow> (int \<times> int) list
   \<Rightarrow> ('z, unit + (int \<Rightarrow> load_info option)) redis_prog" where
  "loads_batch c slotKey liveKey waitKey ids =
     (if ids = [] then State_Monad.return (Inr Map.empty)
      else do {
        t \<leftarrow> read_redis TIME;
        case t of
          Inl e \<Rightarrow> State_Monad.return (Inl e)
        | Inr now \<Rightarrow> do {
            r \<leftarrow> pipeline (concat (map (\<lambda>(i, _).
                   count_commands slotKey liveKey (now - slotTTLSeconds c) (now - liveLeaseTTLSeconds) i @
                   [\<lambda>d. (counters d (waitKey i), d)]) ids));
            State_Monad.return (case r of
              Inl e \<Rightarrow> Inl e | Inr rs \<Rightarrow> Inr (map_of (rev (read_load_infos ids rs))))}})"

definition GetAccountsLoadBatch :: "concurrency_cache \<Rightarrow> (int \<times> int) list \<Rightarrow> ('z, unit + (int \<Rightarrow> load_info option)) redis_prog" where
  "GetAccountsLoadBatch c = loads_batch c accountSlotKey liveAccountSlotKey accountWaitKey"

definition GetUsersLoadBatch :: "concurrency_cache \<Rightarrow> (int \<times> int) list \<Rightarrow> ('z, unit + (int \<Rightarrow> load_info option)) redis_prog" where
  "GetUsersLoadBatch c = loads_batch c userSlotKey liveUserSlotKey waitQueueKey"

subsection \<open>Cleaning up\<close>

definition CleanupExpiredAccountSlots :: "concurrency_cache \<Rightarrow> int \<Rightarrow> 'z task" where
  "CleanupExpiredAccountSlots c accountID =
     give_back (run_script (cleanupExpiredSlotsScript (accountSlotKey accountID) (slotTTLSeconds c)))
       (refreshAccountActiveIndex c accountID)"

text \<open>Members of an index that are identifiers, and the others.\<close>

definition index_id :: "string \<Rightarrow> int option" where
  "index_id member = (case ParseInt member of None \<Rightarrow> None | Some i \<Rightarrow> if i \<le> 0 then None else Some i)"

definition activeIndexPipelineChunkSize :: nat where "activeIndexPipelineChunkSize = 500"
definition activeIndexCleanupBatchSize :: nat where "activeIndexCleanupBatchSize = 1000"

text \<open>The loads of the candidates, a pipeline per chunk.\<close>

function read_chunks :: "concurrency_cache \<Rightarrow> slot_index \<Rightarrow> int \<Rightarrow> (int \<times> string) list
   \<Rightarrow> ('z, unit + ((int \<times> string) \<times> int \<times> int) list) redis_prog" where
  "read_chunks c spec cutoff candidates =
     (if candidates = [] then State_Monad.return (Inr [])
      else do {
        let chunk = take activeIndexPipelineChunkSize candidates;
        r \<leftarrow> pipeline (concat (map (\<lambda>(i, _). load_commands (si_slotKey spec i) (si_waitKey spec i) cutoff) chunk));
        case r of
          Inl e \<Rightarrow> State_Monad.return (Inl e)
        | Inr rs \<Rightarrow> do {
            rest \<leftarrow> read_chunks c spec cutoff (drop activeIndexPipelineChunkSize candidates);
            State_Monad.return (case rest of Inl e \<Rightarrow> Inl e | Inr loads \<Rightarrow> Inr (read_loads chunk rs @ loads))}})"
  by pat_completeness auto
termination
  by (relation "measure (\<lambda>(c, spec, cutoff, candidates). length candidates)")
    (auto simp: activeIndexPipelineChunkSize_def)

declare read_chunks.simps [simp del]

definition readIndexLoads ::
  "concurrency_cache \<Rightarrow> slot_index \<Rightarrow> string list \<Rightarrow> int
   \<Rightarrow> ('z, unit + ((int \<times> string) \<times> int \<times> int) list \<times> string list) redis_prog" where
  "readIndexLoads c spec members now = do {
     let candidates = concat (map (\<lambda>m. case index_id m of None \<Rightarrow> [] | Some i \<Rightarrow> [(i, m)]) members);
     let stale = filter (\<lambda>m. index_id m = None) members;
     r \<leftarrow> read_chunks c spec (now - slotTTLSeconds c) candidates;
     State_Monad.return (case r of Inl e \<Rightarrow> Inl e | Inr loads \<Rightarrow> Inr (loads, stale))}"

definition removeActiveIndexMembers :: "string \<Rightarrow> string list \<Rightarrow> ('z, unit) redis_prog" where
  "removeActiveIndexMembers indexKey members =
     (if members = [] then State_Monad.return ()
      else do { _ \<leftarrow> command (fold (ZREM indexKey) members); State_Monad.return () })"

definition refresh_members :: "string \<Rightarrow> (string \<times> int) list \<Rightarrow> ('z, unit) redis_prog" where
  "refresh_members indexKey refreshed =
     (if refreshed = [] then State_Monad.return ()
      else do { _ \<leftarrow> command (fold (\<lambda>(m, s). ZADD indexKey s m) refreshed); State_Monad.return () })"

definition reconcileExpiredIndexCandidates :: "concurrency_cache \<Rightarrow> slot_index \<Rightarrow> 'z task" where
  "reconcileExpiredIndexCandidates c spec = do {
     t \<leftarrow> read_redis TIME;
     case t of
       Inl e \<Rightarrow> State_Monad.return (Inl e)
     | Inr now \<Rightarrow> do {
         m \<leftarrow> read_redis (ZRANGEUPTO (si_indexKey spec) now activeIndexCleanupBatchSize);
         case m of
           Inl e \<Rightarrow> State_Monad.return (Inl e)
         | Inr members \<Rightarrow> do {
             r \<leftarrow> readIndexLoads c spec members now;
             case r of
               Inl e \<Rightarrow> State_Monad.return (Inl e)
             | Inr (loads, stale) \<Rightarrow> do {
                 let idle = filter (\<lambda>(_, s, w). s = 0 \<and> w \<le> 0) loads;
                 let busy = filter (\<lambda>(_, s, w). \<not> (s = 0 \<and> w \<le> 0)) loads;
                 _ \<leftarrow> refresh_members (si_indexKey spec) (map (\<lambda>((_, m), s, w). (m, now + activeIndexTTL c s w)) busy);
                 _ \<leftarrow> removeActiveIndexMembers (si_indexKey spec) (stale @ map (\<lambda>((_, m), _). m) idle);
                 State_Monad.return (Inr ())}}}}"

definition CleanupExpiredAccountSlotKeys :: "concurrency_cache \<Rightarrow> 'z task" where
  "CleanupExpiredAccountSlotKeys c = do {
     r \<leftarrow> reconcileExpiredIndexCandidates c accountSlotIndex;
     case r of
       Inl e \<Rightarrow> State_Monad.return (Inl e)
     | Inr _ \<Rightarrow> reconcileExpiredIndexCandidates c userSlotIndex}"

text \<open>The loop over the members of an index at startup.\<close>

fun clean_members ::
  "concurrency_cache \<Rightarrow> slot_index \<Rightarrow> string \<Rightarrow> int \<Rightarrow> string list \<Rightarrow> string list \<Rightarrow> (string \<times> int) list
   \<Rightarrow> ('z, unit + string list \<times> (string \<times> int) list) redis_prog" where
  "clean_members c spec prefix now [] stale refreshed = State_Monad.return (Inr (stale, refreshed))"
| "clean_members c spec prefix now (member # members) stale refreshed =
     (case index_id member of
        None \<Rightarrow> clean_members c spec prefix now members (stale @ [member]) refreshed
      | Some i \<Rightarrow> do {
          r \<leftarrow> run_script (startupCleanupSlotScript (si_slotKey spec i) prefix (slotTTLSeconds c));
          case r of
            Inl e \<Rightarrow> State_Monad.return (Inl e)
          | Inr (_, remaining) \<Rightarrow> do {
              w \<leftarrow> command (DEL (si_waitKey spec i));
              case w of
                Inl e \<Rightarrow> State_Monad.return (Inl e)
              | Inr _ \<Rightarrow>
                  if remaining > 0
                  then clean_members c spec prefix now members stale (refreshed @ [(member, now + slotTTLSeconds c)])
                  else clean_members c spec prefix now members (stale @ [member]) refreshed}})"

definition cleanupStaleProcessSlotsForIndex ::
  "concurrency_cache \<Rightarrow> slot_index \<Rightarrow> string list \<Rightarrow> string \<Rightarrow> int \<Rightarrow> 'z task" where
  "cleanupStaleProcessSlotsForIndex c spec members prefix now = do {
     r \<leftarrow> clean_members c spec prefix now members [] [];
     case r of
       Inl e \<Rightarrow> State_Monad.return (Inl e)
     | Inr (stale, refreshed) \<Rightarrow> do {
         _ \<leftarrow> refresh_members (si_indexKey spec) refreshed;
         _ \<leftarrow> removeActiveIndexMembers (si_indexKey spec) stale;
         State_Monad.return (Inr ())}}"

text \<open>
  The sweep of waiting counters from before the indexes existed. Which keys each \<open>SCAN\<close> answers is up to
  the server: the pages it returns until its cursor is zero again are an input.
\<close>

fun sweep_pages :: "string list list \<Rightarrow> 'z task" where
  "sweep_pages [] = State_Monad.return (Inr ())"
| "sweep_pages (keys # pages) = do {
     s \<leftarrow> read_redis (\<lambda>_. ());
     case s of
       Inl e \<Rightarrow> State_Monad.return (Inl e)
     | Inr _ \<Rightarrow> do {
         r \<leftarrow> (if keys = [] then State_Monad.return (Inr ()) else command (fold DEL keys));
         case r of
           Inl e \<Rightarrow> State_Monad.return (Inl e)
         | Inr _ \<Rightarrow> sweep_pages pages}}"

definition sweepLegacyWaitKeysOnce :: "string list list \<Rightarrow> 'z task" where
  "sweepLegacyWaitKeysOnce pages = do {
     e \<leftarrow> read_redis (\<lambda>d. key_exists d legacyWaitSweepMarkerKey);
     case e of
       Inl x \<Rightarrow> State_Monad.return (Inl x)
     | Inr True \<Rightarrow> State_Monad.return (Inr ())
     | Inr False \<Rightarrow> do {
         r \<leftarrow> sweep_pages pages;
         case r of
           Inl x \<Rightarrow> State_Monad.return (Inl x)
         | Inr _ \<Rightarrow> command (SET legacyWaitSweepMarkerKey 1)}}"

definition CleanupStaleProcessSlots :: "concurrency_cache \<Rightarrow> string list list \<Rightarrow> string \<Rightarrow> 'z task" where
  "CleanupStaleProcessSlots c pages prefix =
     (if prefix = [] then State_Monad.return (Inr ())
      else do {
        s \<leftarrow> sweepLegacyWaitKeysOnce pages;
        case s of
          Inl e \<Rightarrow> State_Monad.return (Inl e)
        | Inr _ \<Rightarrow> do {
            t \<leftarrow> read_redis TIME;
            case t of
              Inl e \<Rightarrow> State_Monad.return (Inl e)
            | Inr now \<Rightarrow> do {
                a \<leftarrow> read_redis (ZRANGE accountActiveIndexKey);
                case a of
                  Inl e \<Rightarrow> State_Monad.return (Inl e)
                | Inr accounts \<Rightarrow> do {
                    r \<leftarrow> cleanupStaleProcessSlotsForIndex c accountSlotIndex accounts prefix now;
                    case r of
                      Inl e \<Rightarrow> State_Monad.return (Inl e)
                    | Inr _ \<Rightarrow> do {
                        u \<leftarrow> read_redis (ZRANGE userActiveIndexKey);
                        case u of
                          Inl e \<Rightarrow> State_Monad.return (Inl e)
                        | Inr users \<Rightarrow> cleanupStaleProcessSlotsForIndex c userSlotIndex users prefix now}}}}})"

end
