(* ===== verification/Concurrency_Limit.thy ===== *)
theory Concurrency_Limit
  imports Concurrency_Cache
begin

text \<open>
  The limits hold. A room is what a limit counts: the slots and live leases of an account or user, the
  connections of a key. \<open>conc_inv\<close> says that no room is over its bound and no waiting counter over its
  maximum, \<open>conc_guar\<close> that a step keeps that and does not take a protected slot away before its time;
  it is a guarantee in the sense of \<open>Shared_Database\<close>, and every operation of the cache respects it.
\<close>

section \<open>Keys do not collide\<close>

lemma show_nat_inj: "show_nat m = show_nat n \<Longrightarrow> m = n"
proof -
  assume "show_nat m = show_nat n"
  then have "parse_digits 0 (show_nat m) = parse_digits 0 (show_nat n)" by (rule arg_cong)
  then show "m = n" unfolding parse_show_nat by simp
qed

lemma show_nat_no_minus: "CHR ''-'' \<notin> set (show_nat n)"
  using show_nat_digits [of "CHR ''-''" n] by (auto simp: is_digit_def)

lemma Itoa_inj [simp]: "Itoa i = Itoa j \<longleftrightarrow> i = j"
proof
  assume eq: "Itoa i = Itoa j"
  have "(i < 0) = (j < 0)"
    using eq show_nat_no_minus [of "nat i"] show_nat_no_minus [of "nat j"]
    by (auto simp: Itoa_def split: if_splits) (metis list.set_intros(1))+
  with eq show "i = j" by (auto simp: Itoa_def dest: show_nat_inj split: if_splits)
qed simp

lemma Itoa_not_index [simp]: "Itoa i \<noteq> ''active_index''" "''active_index'' \<noteq> Itoa i"
proof -
  have "CHR ''a'' \<in> set (Itoa i) \<Longrightarrow> False"
    by (auto simp: Itoa_def is_digit_def dest: show_nat_digits split: if_splits)
  then show "Itoa i \<noteq> ''active_index''" by force
  then show "''active_index'' \<noteq> Itoa i" by simp
qed

lemmas key_defs = accountSlotKey_def userSlotKey_def apiKeySlotKey_def liveAccountSlotKey_def liveUserSlotKey_def
  liveAPIKeySlotKey_def openAIWSIngressLeaseKey_def waitQueueKey_def accountWaitKey_def accountActiveIndexKey_def
  userActiveIndexKey_def legacyWaitSweepMarkerKey_def

definition key_families :: "(int \<Rightarrow> string) list" where
  "key_families = [accountSlotKey, userSlotKey, apiKeySlotKey, liveAccountSlotKey, liveUserSlotKey, liveAPIKeySlotKey,
     openAIWSIngressLeaseKey, waitQueueKey, accountWaitKey]"

definition single_keys :: "string list" where
  "single_keys = [accountActiveIndexKey, userActiveIndexKey, legacyWaitSweepMarkerKey]"

definition room_keys :: "string set" where
  "room_keys = range accountSlotKey \<union> range liveAccountSlotKey \<union> range userSlotKey \<union> range liveUserSlotKey \<union>
     range openAIWSIngressLeaseKey"

definition wait_keys :: "string set" where
  "wait_keys = range waitQueueKey \<union> range accountWaitKey"

lemma room_key_simps [simp]:
  "accountSlotKey i \<in> room_keys" "liveAccountSlotKey i \<in> room_keys" "userSlotKey i \<in> room_keys"
  "liveUserSlotKey i \<in> room_keys" "openAIWSIngressLeaseKey i \<in> room_keys"
  "accountActiveIndexKey \<notin> room_keys" "userActiveIndexKey \<notin> room_keys" "legacyWaitSweepMarkerKey \<notin> room_keys"
  "apiKeySlotKey i \<notin> room_keys" "liveAPIKeySlotKey i \<notin> room_keys"
  "waitQueueKey i \<notin> room_keys" "accountWaitKey i \<notin> room_keys"
  by (auto simp: room_keys_def key_defs)

lemma wait_key_simps [simp]:
  "waitQueueKey i \<in> wait_keys" "accountWaitKey i \<in> wait_keys" "legacyWaitSweepMarkerKey \<notin> wait_keys"
  by (auto simp: wait_keys_def key_defs)

lemma room_wait_disjoint: "k \<in> room_keys \<Longrightarrow> k \<notin> wait_keys"
  by (auto simp: room_keys_def wait_keys_def key_defs)

section \<open>Rooms\<close>

datatype room = AccountRoom int | UserRoom int | IngressRoom int

fun room_of :: "room \<Rightarrow> string list" where
  "room_of (AccountRoom a) = [accountSlotKey a, liveAccountSlotKey a]"
| "room_of (UserRoom u) = [userSlotKey u, liveUserSlotKey u]"
| "room_of (IngressRoom i) = [openAIWSIngressLeaseKey i]"

definition occupancy :: "room \<Rightarrow> redis \<Rightarrow> int" where
  "occupancy r d = sum_list (map (\<lambda>k. ZCARD k d) (room_of r))"

lemma room_of_keys: "k \<in> set (room_of r) \<Longrightarrow> k \<in> room_keys"
  by (cases r) auto

lemma key_neq [simp]:
  "accountSlotKey i \<noteq> liveAccountSlotKey j" "liveAccountSlotKey j \<noteq> accountSlotKey i"
  "userSlotKey i \<noteq> liveUserSlotKey j" "liveUserSlotKey j \<noteq> userSlotKey i"
  by (simp_all add: key_defs)

lemma room_unique: "k \<in> set (room_of r) \<Longrightarrow> k \<in> set (room_of r') \<Longrightarrow> r = r'"
  by (cases r; cases r') (auto simp: key_defs)

lemma room_distinct: "distinct (room_of r)"
  by (cases r) (auto simp: key_defs)

lemma room_exists: "k \<in> room_keys \<Longrightarrow> \<exists>r. k \<in> set (room_of r)"
  unfolding room_keys_def by (auto intro: exI [where x = "AccountRoom _"] exI [where x = "UserRoom _"] exI [where x = "IngressRoom _"])

record limits =
  lim_room :: "room \<Rightarrow> int"
  lim_wait :: "string \<Rightarrow> int"

lemma occupancy_update:
  assumes "zsets d' = (zsets d)(k := z)"
  shows "occupancy r d' =
    (if k \<in> set (room_of r) then occupancy r d - int (length (zsets d k)) + int (length z) else occupancy r d)"
  using assms by (cases r) (auto simp: occupancy_def ZCARD_def)

definition slot_ttl :: "concurrency_cache \<Rightarrow> string \<Rightarrow> int" where
  "slot_ttl c k = (if has_prefix k ''concurrency:account:'' \<or> has_prefix k ''concurrency:user:'' then slotTTLSeconds c else 60)"

lemma slot_ttl_simps [simp]:
  "slot_ttl c (accountSlotKey a) = slotTTLSeconds c" "slot_ttl c (userSlotKey u) = slotTTLSeconds c"
  "slot_ttl c (liveAccountSlotKey a) = 60" "slot_ttl c (liveUserSlotKey u) = 60"
  "slot_ttl c (openAIWSIngressLeaseKey i) = 60"
  by (simp_all add: slot_ttl_def has_prefix_def key_defs)

definition cache_ok :: "concurrency_cache \<Rightarrow> bool" where
  "cache_ok c \<longleftrightarrow> 0 < slotTTLSeconds c \<and> 0 < waitQueueTTLSeconds c"

lemma slot_ttl_pos: "cache_ok c \<Longrightarrow> 0 < slot_ttl c k"
  by (simp add: cache_ok_def slot_ttl_def)

lemma new_cache_ok: "cache_ok (NewConcurrencyCache m s)"
  by (simp add: cache_ok_def NewConcurrencyCache_def Let_def)

section \<open>The invariant and the guarantee\<close>

text \<open>
  Members are unique, scores lie in the past, and a key lives at least as long as each of its members.
\<close>

definition set_ok :: "concurrency_cache \<Rightarrow> redis \<Rightarrow> string \<Rightarrow> bool" where
  "set_ok c d k \<longleftrightarrow> distinct (map fst (zsets d k)) \<and>
     (\<forall>(m, s) \<in> set (zsets d k). s \<le> TIME d \<and> (\<forall>e. expires d k = Some e \<longrightarrow> (s + slot_ttl c k) * Second \<le> e))"

definition wait_ok :: "limits \<Rightarrow> redis \<Rightarrow> string \<Rightarrow> bool" where
  "wait_ok b d k \<longleftrightarrow> (case counters d k of None \<Rightarrow> True | Some n \<Rightarrow> 0 \<le> n \<and> n \<le> lim_wait b k)"

definition conc_inv :: "concurrency_cache \<Rightarrow> limits \<Rightarrow> redis \<Rightarrow> bool" where
  "conc_inv c b d \<longleftrightarrow> (\<forall>k \<in> room_keys. set_ok c d k) \<and> (\<forall>r. occupancy r d \<le> lim_room b r) \<and> (\<forall>k \<in> wait_keys. wait_ok b d k)"

text \<open>A protected slot stays, with the same score or a later one, until its time is over.\<close>

definition kept :: "concurrency_cache \<Rightarrow> string \<times> string \<Rightarrow> redis \<Rightarrow> redis \<Rightarrow> bool" where
  "kept c p d d' \<longleftrightarrow>
     (case p of (k, m) \<Rightarrow> k \<in> room_keys \<longrightarrow>
        (\<forall>s. ZSCORE k m d = Some s \<longrightarrow>
           (\<exists>s' \<ge> s. ZSCORE k m d' = Some s') \<or> s + slot_ttl c k \<le> TIME d'))"

definition conc_guar :: "concurrency_cache \<Rightarrow> limits \<Rightarrow> (string \<times> string) set \<Rightarrow> redis \<Rightarrow> redis \<Rightarrow> bool" where
  "conc_guar c b P d d' \<longleftrightarrow> TIME d \<le> TIME d' \<and> (conc_inv c b d \<longrightarrow> conc_inv c b d' \<and> (\<forall>p \<in> P. kept c p d d'))"

lemma kept_trans:
  assumes "kept c p d1 d2" "kept c p d2 d3" "TIME d2 \<le> TIME d3"
  shows "kept c p d1 d3"
  unfolding kept_def
proof (clarsimp split: prod.split)
  fix k m s
  assume p: "p = (k, m)" "k \<in> room_keys" "ZSCORE k m d1 = Some s" "\<not> s + slot_ttl c k \<le> TIME d3"
  then obtain s' where s': "s \<le> s'" "ZSCORE k m d2 = Some s'"
    using assms(1,3) by (force simp: kept_def)
  then have "\<not> s' + slot_ttl c k \<le> TIME d3" using p(4) by simp
  with s' p(1,2) obtain s'' where "s' \<le> s''" "ZSCORE k m d3 = Some s''"
    using assms(2) by (auto simp: kept_def)
  with s'(1) show "\<exists>s' \<ge> s. ZSCORE k m d3 = Some s'" by force
qed

interpretation conc: guarantee "conc_guar c b P" for c b P
proof
  show "conc_guar c b P d d" for d by (auto simp: conc_guar_def kept_def)
  show "conc_guar c b P d1 d3" if "conc_guar c b P d1 d2" "conc_guar c b P d2 d3" for d1 d2 d3
    using that kept_trans [of c _ d1 d2 d3] by (auto simp: conc_guar_def)
qed

section \<open>Commands\<close>

lemma TIME_cong: "redis_time d' = redis_time d \<Longrightarrow> TIME d' = TIME d"
  by (simp add: TIME_def)

lemma occupancy_mono:
  assumes "\<And>k. k \<in> room_keys \<Longrightarrow> length (zsets d' k) \<le> length (zsets d k)"
  shows "occupancy r d' \<le> occupancy r d"
  using assms by (cases r) (auto simp: occupancy_def ZCARD_def intro!: add_mono)

text \<open>A command that adds nothing to a room: what it removes is not protected or has expired.\<close>

lemma removing_guar:
  assumes time: "redis_time d' = redis_time d"
    and waits: "\<And>k. k \<in> wait_keys \<Longrightarrow> wait_ok b d k \<Longrightarrow> wait_ok b d' k"
    and sets: "\<And>k. k \<in> room_keys \<Longrightarrow> \<exists>p. zsets d' k = filter p (zsets d k)"
    and deadline: "\<And>k e. k \<in> room_keys \<Longrightarrow> expires d' k = Some e \<Longrightarrow>
      expires d k = Some e \<or> redis_time d + slot_ttl c k * Second \<le> e"
    and protected: "\<And>k m s. (k, m) \<in> P \<Longrightarrow> k \<in> room_keys \<Longrightarrow> ZSCORE k m d = Some s \<Longrightarrow>
      ZSCORE k m d' = Some s \<or> s + slot_ttl c k \<le> TIME d"
  shows "conc_guar c b P d d'"
proof -
  have T: "TIME d' = TIME d" by (rule TIME_cong [OF time])
  have set: "set_ok c d' k" if k: "k \<in> room_keys" and ok: "set_ok c d k" for k
  proof -
    obtain p where p: "zsets d' k = filter p (zsets d k)" using sets [OF k] ..
    have "TIME d * Second \<le> redis_time d" by (simp add: TIME_def)
    then have late: "(s + slot_ttl c k) * Second \<le> e" if "redis_time d + slot_ttl c k * Second \<le> e" "s \<le> TIME d" for s e
    proof -
      have "s * Second \<le> TIME d * Second" using that(2) by simp
      with \<open>TIME d * Second \<le> redis_time d\<close> that(1) show ?thesis by (simp add: algebra_simps)
    qed
    have "distinct (map fst (zsets d' k))" using ok by (simp add: set_ok_def p distinct_filter_fst)
    moreover have "s \<le> TIME d'" "expires d' k = Some e \<Longrightarrow> (s + slot_ttl c k) * Second \<le> e"
      if "(m, s) \<in> set (zsets d' k)" for m s e
    proof -
      have s: "s \<le> TIME d" "\<And>e. expires d k = Some e \<Longrightarrow> (s + slot_ttl c k) * Second \<le> e"
        using ok that by (auto simp: set_ok_def p)
      show "s \<le> TIME d'" using s(1) T by simp
      show "expires d' k = Some e \<Longrightarrow> (s + slot_ttl c k) * Second \<le> e"
        using deadline [OF k] s late by blast
    qed
    ultimately show ?thesis by (auto simp: set_ok_def)
  qed
  have room: "occupancy r d' \<le> occupancy r d" for r
    by (rule occupancy_mono) (use sets in \<open>metis length_filter_le\<close>)
  have "kept c p d d'" if "p \<in> P" for p
    using protected that by (cases p) (force simp: kept_def T)
  then show ?thesis
    using set room waits T order.trans by (fastforce simp: conc_guar_def conc_inv_def)
qed

text \<open>A command that touches no room.\<close>

lemma outside_guar:
  assumes "redis_time d' = redis_time d" "\<And>k. k \<in> wait_keys \<Longrightarrow> wait_ok b d k \<Longrightarrow> wait_ok b d' k"
    and "\<And>k. k \<in> room_keys \<Longrightarrow> zsets d' k = zsets d k \<and> expires d' k = expires d k"
  shows "conc_guar c b P d d'"
  by (rule removing_guar) (use assms in \<open>auto simp: ZSCORE_def intro: exI [where x = "\<lambda>_. True"]\<close>)

lemma wait_ok_cong: "counters d' k = counters d k \<Longrightarrow> wait_ok b d' k = wait_ok b d k"
  by (simp add: wait_ok_def)

lemma ZREMUPTO_guar:
  assumes "k \<in> room_keys \<Longrightarrow> hi \<le> TIME d - slot_ttl c k"
  shows "conc_guar c b P d (ZREMUPTO k hi d)"
proof (rule removing_guar)
  show "ZSCORE k' m (ZREMUPTO k hi d) = Some s \<or> s + slot_ttl c k' \<le> TIME d"
    if "(k', m) \<in> P" "k' \<in> room_keys" "ZSCORE k' m d = Some s" for k' m s
  proof (cases "k' = k \<and> s \<le> hi")
    case True
    with assms that(2) show ?thesis by simp
  next
    case False
    then show ?thesis
      using that(3) map_of_filter_value [of "zsets d k" m s "\<lambda>s. hi < s"] by (auto simp: ZSCORE_def)
  qed
  show "\<exists>p. zsets (ZREMUPTO k hi d) k' = filter p (zsets d k')" if "k' \<in> room_keys" for k'
    by (cases "k' = k") (auto intro: exI [where x = "\<lambda>_. True"])
qed (auto simp: expires_simps wait_ok_def split: if_splits)

lemma ZREM_guar:
  assumes "(k, m) \<notin> P"
  shows "conc_guar c b P d (ZREM k m d)"
proof (rule removing_guar)
  show "ZSCORE k' m' (ZREM k m d) = Some s \<or> s + slot_ttl c k' \<le> TIME d"
    if "(k', m') \<in> P" "ZSCORE k' m' d = Some s" for k' m' s
    using that assms by (auto simp: ZSCORE_def delete_conv' split: if_splits)
  show "\<exists>p. zsets (ZREM k m d) k' = filter p (zsets d k')" for k'
    by (cases "k' = k") (auto simp: AList.delete_eq intro: exI [where x = "\<lambda>_. True"])
qed (auto simp: expires_simps wait_ok_def split: if_splits)

lemma EXPIRE_guar:
  assumes "0 < ttl" "k \<in> room_keys \<Longrightarrow> ttl = slot_ttl c k"
  shows "conc_guar c b P d (EXPIRE k ttl d)"
  by (rule removing_guar)
    (use assms in \<open>auto simp: EXPIRE_simps ZSCORE_def wait_ok_def split: if_splits
       intro: exI [where x = "\<lambda>_. True"]\<close>)

text \<open>The passing of time: a key that is gone had only members that had expired.\<close>

lemma at_time_guar: "conc_guar c b P d (at_time now d)"
proof -
  let ?d = "at_time now d"
  define t where "t = max now (redis_time d)"
  have T: "TIME d \<le> TIME ?d" by (simp add: TIME_def zdiv_mono1)
  have room: "occupancy r ?d \<le> occupancy r d" for r
    by (rule occupancy_mono) (simp add: at_time_simps)
  have set: "set_ok c ?d k" if "set_ok c d k" for k
    using that T by (auto simp: set_ok_def at_time_simps split: if_splits)
  have wait: "wait_ok b ?d k" if "wait_ok b d k" for k
    using that by (simp add: wait_ok_def at_time_simps)
  have late: "s + slot_ttl c k \<le> TIME ?d" if ok: "set_ok c d k" and g: "gone t d k" and m: "ZSCORE k m d = Some s" for k m s
  proof -
    from g obtain e where e: "expires d k = Some e" "e < t" by (auto simp: gone_def split: option.splits)
    have "(m, s) \<in> set (zsets d k)" using m by (simp add: ZSCORE_def map_of_SomeD)
    then have "(s + slot_ttl c k) * Second \<le> t" using ok e by (force simp: set_ok_def)
    then have "(s + slot_ttl c k) * Second div Second \<le> t div Second" by (rule zdiv_mono1) simp
    then show ?thesis by (simp add: TIME_def t_def)
  qed
  have kept: "kept c (k, m) d ?d" if "k \<in> room_keys \<Longrightarrow> set_ok c d k" for k m
    using that late [of k m] by (auto simp: kept_def ZSCORE_def at_time_simps t_def)
  show ?thesis
    unfolding conc_guar_def conc_inv_def using T room set wait kept order.trans by fastforce
qed

text \<open>Taking a slot: the member is there already, or there is room for it.\<close>

lemma take_guar:
  assumes k: "k \<in> room_keys" and ttl: "ttl = slot_ttl c k" "0 < ttl"
    and room: "\<And>r. ZSCORE k m d = None \<Longrightarrow> k \<in> set (room_of r) \<Longrightarrow> occupancy r d < lim_room b r"
  shows "conc_guar c b P d (EXPIRE k ttl (ZADD k (TIME d) m d))"
proof -
  let ?d = "EXPIRE k ttl (ZADD k (TIME d) m d)"
  have T: "TIME ?d = TIME d" by (rule TIME_cong) simp
  have z: "zsets ?d = (zsets d)(k := AList.update m (TIME d) (zsets d k))"
    using ttl by (simp add: zsets_EXPIRE)
  have e: "expires ?d k' = (if k' = k then Some (redis_time d + ttl * Second) else expires d k')" for k'
    using ttl by (simp add: EXPIRE_simps key_exists_def update_nonempty expires_simps)
  have deadline: "(s + ttl) * Second \<le> redis_time d + ttl * Second" if "s \<le> TIME d" for s
  proof -
    have "s * Second \<le> TIME d * Second" using that by simp
    also have "\<dots> \<le> redis_time d" by (simp add: TIME_def)
    finally show ?thesis by (simp add: algebra_simps)
  qed
  have set: "set_ok c ?d k'" if ok: "set_ok c d k'" for k'
  proof (cases "k' = k")
    case False
    with ok show ?thesis by (simp add: set_ok_def z e T)
  next
    case True
    have "s \<le> TIME d" if "(m', s) \<in> set (AList.update m (TIME d) (zsets d k))" for m' s
    proof -
      have dist: "distinct (map fst (AList.update m (TIME d) (zsets d k)))"
        using ok True by (simp add: set_ok_def distinct_update)
      from map_of_is_SomeI [OF dist that] have "((map_of (zsets d k))(m \<mapsto> TIME d)) m' = Some s"
        by (simp add: update_conv')
      then show ?thesis
        using ok True by (auto simp: set_ok_def dest: map_of_SomeD split: if_splits)
    qed
    then show ?thesis
      using ok True deadline unfolding set_ok_def z e T by (auto simp: distinct_update simp flip: ttl(1))
  qed
  have "occupancy r ?d \<le> lim_room b r" if "occupancy r d \<le> lim_room b r" for r
    using that room [of r]
    by (cases "ZSCORE k m d")
      (auto simp: occupancy_update [OF z] length_AList_update ZSCORE_def map_of_eq_None_iff dest: map_of_SomeD
        intro: rev_image_eqI)
  moreover have "kept c p d ?d" if "conc_inv c b d" for p
  proof -
    have "s \<le> TIME d" if "ZSCORE k m d = Some s" for s
      using that \<open>conc_inv c b d\<close> k by (auto simp: conc_inv_def set_ok_def ZSCORE_def dest: map_of_SomeD)
    then show ?thesis by (cases p) (auto simp: kept_def ZSCORE_def z update_conv')
  qed
  moreover have "wait_ok b ?d k'" if "wait_ok b d k'" for k'
    using that ttl by (simp add: wait_ok_def zsets_EXPIRE)
  ultimately show ?thesis using set T by (auto simp: conc_guar_def conc_inv_def)
qed

end
