(* ===== verification/Concurrency_Safety.thy ===== *)
theory Concurrency_Safety
  imports Concurrency_Limit
begin

text \<open>
  Every operation of the concurrency cache respects the guarantee of \<open>Concurrency_Limit\<close>: first the
  scripts, then the programs around them.
\<close>

section \<open>Scripts\<close>

definition respectful :: "concurrency_cache \<Rightarrow> limits \<Rightarrow> (string \<times> string) set \<Rightarrow> (redis \<Rightarrow> 'a \<times> redis) \<Rightarrow> bool" where
  "respectful c b P script \<longleftrightarrow> (\<forall>d. conc_guar c b P d (snd (script d)))"

lemma respectfulI: "(\<And>d. conc_guar c b P d (snd (script d))) \<Longrightarrow> respectful c b P script"
  by (simp add: respectful_def)

lemmas guar_trans = conc.trans

lemma TIME_simps [simp]:
  "TIME (ZADD k s m d) = TIME d" "TIME (ZREM k m d) = TIME d" "TIME (ZREMUPTO k hi d) = TIME d"
  "TIME (EXPIRE k ttl d) = TIME d" "TIME (DEL k d) = TIME d" "TIME (INCR k d) = TIME d" "TIME (DECR k d) = TIME d"
  by (rule TIME_cong, simp)+

lemma read_respectful: "respectful c b P (\<lambda>d. (f d, d))"
  by (simp add: respectful_def conc.refl)

lemma index_ZADD_guar: "k \<notin> room_keys \<Longrightarrow> conc_guar c b P d (ZADD k s m d)"
  by (rule outside_guar) (auto simp: expires_simps wait_ok_def)

lemma index_ZREM_guar: "k \<notin> room_keys \<Longrightarrow> conc_guar c b P d (ZREM k m d)"
  by (rule outside_guar) (auto simp: expires_simps wait_ok_def)

lemma outside_EXPIRE_guar: "0 < ttl \<Longrightarrow> k \<notin> room_keys \<Longrightarrow> conc_guar c b P d (EXPIRE k ttl d)"
  by (rule EXPIRE_guar) auto

lemma purge_guar:
  assumes "k \<in> room_keys" "ttl = slot_ttl c k"
  shows "conc_guar c b P d (ZREMUPTO k (TIME d - ttl) d)"
  by (rule ZREMUPTO_guar) (simp add: assms)

lemma acquireScript_respectful:
  assumes "room_of r = [key, liveKey]" "cache_ok c" "ttl = slot_ttl c key" "slot_ttl c liveKey = 60"
    "maxConcurrency \<le> lim_room b r"
  shows "respectful c b P (acquireScript key liveKey maxConcurrency ttl requestID)"
proof (rule respectfulI)
  fix d
  let ?d = "ZREMUPTO liveKey (TIME d - 60) (ZREMUPTO key (TIME d - ttl) d)"
  have keys: "key \<in> room_keys" "liveKey \<in> room_keys"
    using assms(1) by (metis list.set_intros room_of_keys)+
  have unique: "r' = r" if "key \<in> set (room_of r')" for r'
    using that assms(1) room_unique [of key r' r] by simp
  have clean: "conc_guar c b P d ?d"
    using guar_trans [OF purge_guar [OF keys(1) assms(3), of b P d] purge_guar [OF keys(2) assms(4) [symmetric]]]
    by simp
  have "0 < ttl" by (simp add: assms(2,3) slot_ttl_pos)
  then have take: "conc_guar c b P ?d (EXPIRE key ttl (ZADD key (TIME d) requestID ?d))"
    if "ZSCORE key requestID ?d \<noteq> None \<or> ZCARD key ?d + ZCARD liveKey ?d < maxConcurrency"
    using take_guar [OF keys(1) assms(3), where d = ?d and m = requestID and b = b and P = P] that assms(1,5) unique
    by (force simp: occupancy_def)
  show "conc_guar c b P d (snd (acquireScript key liveKey maxConcurrency ttl requestID d))"
    using clean guar_trans [OF clean take] by (auto simp: acquireScript_def Let_def)
qed

lemma getCountScript_respectful:
  assumes "key \<in> room_keys" "liveKey \<in> room_keys" "ttl = slot_ttl c key" "slot_ttl c liveKey = 60"
  shows "respectful c b P (getCountScript key liveKey ttl)"
  using guar_trans [OF purge_guar [OF assms(1,3)] purge_guar [OF assms(2) assms(4) [symmetric]]]
  by (auto simp: respectful_def getCountScript_def Let_def)

lemma trackSlotScript_respectful:
  assumes "key \<notin> room_keys" "0 < ttl"
  shows "respectful c b P (trackSlotScript key ttl requestID)"
proof (rule respectfulI)
  fix d
  have "conc_guar c b P d (ZREMUPTO key (TIME d - ttl) d)" by (rule ZREMUPTO_guar) (simp add: assms)
  from guar_trans [OF guar_trans [OF this index_ZADD_guar [OF assms(1)]] outside_EXPIRE_guar [OF assms(2,1)]]
  show "conc_guar c b P d (snd (trackSlotScript key ttl requestID d))"
    by (simp add: trackSlotScript_def Let_def)
qed

lemma ingress_acquire_respectful:
  assumes "maxConnections \<le> lim_room b (IngressRoom i)"
  shows "respectful c b P (acquireOpenAIWSIngressLeaseScript (openAIWSIngressLeaseKey i) maxConnections 60 leaseID)"
proof (rule respectfulI)
  fix d
  let ?k = "openAIWSIngressLeaseKey i"
  let ?d = "ZREMUPTO ?k (TIME d - 60) d"
  have clean: "conc_guar c b P d ?d" by (rule purge_guar) simp_all
  have unique: "r = IngressRoom i" if "?k \<in> set (room_of r)" for r
    using that room_unique [of ?k r "IngressRoom i"] by simp
  have take: "conc_guar c b P ?d (EXPIRE ?k 60 (ZADD ?k (TIME d) leaseID ?d))"
    if "ZSCORE ?k leaseID ?d \<noteq> None \<or> ZCARD ?k ?d < maxConnections"
    using take_guar [where k = ?k and ttl = 60 and c = c and d = ?d and m = leaseID and b = b and P = P] that assms unique by (force simp: occupancy_def)
  show "conc_guar c b P d (snd (acquireOpenAIWSIngressLeaseScript ?k maxConnections 60 leaseID d))"
    using clean guar_trans [OF clean take] by (auto simp: acquireOpenAIWSIngressLeaseScript_def Let_def)
qed

text \<open>Renewing a lease that is there.\<close>

lemma renew_guar:
  assumes "k \<in> room_keys \<Longrightarrow> ZSCORE k m d \<noteq> None \<and> ttl = slot_ttl c k" "0 < ttl"
  shows "conc_guar c b P d (EXPIRE k ttl (ZADD k (TIME d) m d))"
proof (cases "k \<in> room_keys")
  case True
  with assms show ?thesis by (intro take_guar) auto
next
  case False
  show ?thesis by (rule guar_trans [OF index_ZADD_guar [OF False] outside_EXPIRE_guar [OF assms(2) False]])
qed

lemma ingress_refresh_respectful:
  "respectful c b P (refreshOpenAIWSIngressLeaseScript (openAIWSIngressLeaseKey i) 60 leaseID)"
proof (rule respectfulI)
  fix d
  let ?k = "openAIWSIngressLeaseKey i"
  let ?d = "ZREMUPTO ?k (TIME d - 60) d"
  have clean: "conc_guar c b P d ?d" by (rule purge_guar) simp_all
  show "conc_guar c b P d (snd (refreshOpenAIWSIngressLeaseScript ?k 60 leaseID d))"
    using clean guar_trans [OF clean renew_guar [where k = ?k and ttl = 60 and c = c and d = ?d and m = leaseID and b = b and P = P]]
    by (auto simp: refreshOpenAIWSIngressLeaseScript_def Let_def)
qed

lemma lease_everywhere_guar:
  assumes "\<forall>k \<in> set keys. k \<in> room_keys \<longrightarrow> slot_ttl c k = 60"
  shows "conc_guar c b P d (snd (lease_everywhere keys (TIME d - 60) leaseID d)) \<and>
    TIME (snd (lease_everywhere keys (TIME d - 60) leaseID d)) = TIME d"
  using assms
proof (induction keys arbitrary: d)
  case Nil
  then show ?case by (simp add: conc.refl)
next
  case (Cons k keys)
  let ?d = "ZREMUPTO k (TIME d - 60) d"
  have clean: "conc_guar c b P d ?d" by (rule ZREMUPTO_guar) (use Cons.prems in simp)
  have "\<forall>k \<in> set keys. k \<in> room_keys \<longrightarrow> slot_ttl c k = 60" using Cons.prems by simp
  from Cons.IH [OF this, of ?d] clean guar_trans [OF clean] show ?case by (auto simp: Let_def)
qed

lemma lease_everywhere_found:
  assumes "lease_everywhere keys e leaseID d = (True, d')" "distinct keys"
  shows "\<forall>k \<in> set keys. ZSCORE k leaseID d' \<noteq> None"
proof -
  have later: "zsets (snd (lease_everywhere keys e leaseID d)) k = zsets d k" if "k \<notin> set keys" for keys d k
    using that by (induction keys arbitrary: d) (auto simp: Let_def)
  show ?thesis
    using assms
  proof (induction keys arbitrary: d)
    case (Cons k keys)
    then have rest: "lease_everywhere keys e leaseID (ZREMUPTO k e d) = (True, d')"
      and found: "ZSCORE k leaseID (ZREMUPTO k e d) \<noteq> None" by (auto simp: Let_def split: if_splits)
    have "ZSCORE k leaseID d' \<noteq> None"
      using later [of k keys "ZREMUPTO k e d"] rest found Cons.prems(2) by (simp add: ZSCORE_def)
    with Cons.IH [OF rest] Cons.prems(2) show ?case by simp
  qed simp
qed

lemma renew_all_guar:
  assumes "\<forall>k \<in> set keys. k \<in> room_keys \<longrightarrow> ZSCORE k leaseID d \<noteq> None \<and> slot_ttl c k = 60"
    and "now = TIME d"
  shows "conc_guar c b P d (fold (\<lambda>key d. EXPIRE key 60 (ZADD key now leaseID d)) keys d)"
  using assms
proof (induction keys arbitrary: d)
  case Nil
  then show ?case by (simp add: conc.refl)
next
  case (Cons k keys)
  let ?d = "EXPIRE k 60 (ZADD k now leaseID d)"
  have one: "conc_guar c b P d ?d"
    unfolding Cons.prems(2) by (rule renew_guar) (use Cons.prems(1) in auto)
  have "\<forall>k \<in> set keys. k \<in> room_keys \<longrightarrow> ZSCORE k leaseID ?d \<noteq> None \<and> slot_ttl c k = 60"
    using Cons.prems(1) by (auto simp: ZSCORE_def zsets_EXPIRE update_conv')
  from guar_trans [OF one Cons.IH [OF this]] Cons.prems(2) show ?case by simp
qed

lemma live_refresh_respectful:
  assumes "distinct keys" "\<forall>k \<in> set keys. k \<in> room_keys \<longrightarrow> slot_ttl c k = 60"
  shows "respectful c b P (refreshLiveLeaseScript keys 60 leaseID)"
proof (rule respectfulI)
  fix d
  obtain found d1 where r: "lease_everywhere keys (TIME d - 60) leaseID d = (found, d1)" by fastforce
  have clean: "conc_guar c b P d d1" "TIME d1 = TIME d"
    using lease_everywhere_guar [OF assms(2), of b P d leaseID] by (simp_all add: r)
  show "conc_guar c b P d (snd (refreshLiveLeaseScript keys 60 leaseID d))"
  proof (cases found)
    case True
    then have "\<forall>k \<in> set keys. k \<in> room_keys \<longrightarrow> ZSCORE k leaseID d1 \<noteq> None \<and> slot_ttl c k = 60"
      using lease_everywhere_found [of keys "TIME d - 60" leaseID d d1] r assms by simp
    from guar_trans [OF clean(1) renew_all_guar [OF this, of "TIME d"]] clean(2) True r show ?thesis
      by (simp add: refreshLiveLeaseScript_def Let_def)
  next
    case False
    with clean r show ?thesis by (simp add: refreshLiveLeaseScript_def Let_def)
  qed
qed

lemma EXPIRE_ZADD: "k \<noteq> k' \<Longrightarrow> 0 < t \<Longrightarrow> EXPIRE k t (ZADD k' s m d) = ZADD k' s m (EXPIRE k t d)"
  by (simp add: EXPIRE_def key_exists_def ZADD_def set_zset_def update_nonempty) (simp add: table_defs update_conv')

lemma live_acquire_respectful:
  assumes "0 < accountMax" "accountMax + (if replacing then 1 else 0) \<le> lim_room b (AccountRoom a)"
    and "0 < userMax" "userMax + (if replacing then 1 else 0) \<le> lim_room b (UserRoom u)"
  shows "respectful c b P (acquireLiveLeaseScript (accountSlotKey a) (liveAccountSlotKey a) (userSlotKey u)
    (liveUserSlotKey u) (liveAPIKeySlotKey i) accountMax userMax 60 leaseID replacing)"
proof (rule respectfulI)
  fix d
  let ?a = "liveAccountSlotKey a" and ?u = "liveUserSlotKey u" and ?i = "liveAPIKeySlotKey i"
  let ?now = "TIME d"
  let ?d = "ZREMUPTO ?i (?now - 60) (ZREMUPTO ?u (?now - 60) (ZREMUPTO ?a (?now - 60) d))"
  have keys: "?a \<noteq> ?u" "?a \<noteq> ?i" "?u \<noteq> ?i" by (simp_all add: key_defs)
  have clean: "conc_guar c b P d ?d"
    by (rule guar_trans [OF guar_trans]; rule ZREMUPTO_guar; simp)
  let ?d1 = "EXPIRE ?a 60 (ZADD ?a ?now leaseID ?d)"
  let ?d2 = "EXPIRE ?u 60 (ZADD ?u ?now leaseID ?d1)"
  have take: "conc_guar c b P ?d (EXPIRE ?i 60 (ZADD ?i ?now leaseID ?d2))"
    if "occupancy (AccountRoom a) ?d < lim_room b (AccountRoom a)" "occupancy (UserRoom u) ?d < lim_room b (UserRoom u)"
  proof -
    have "conc_guar c b P ?d ?d1"
      using take_guar [where k = ?a and ttl = 60 and c = c and d = ?d and m = leaseID and b = b and P = P] that(1)
        room_unique [of ?a _ "AccountRoom a"]
      by (simp; metis)
    moreover have "conc_guar c b P ?d1 ?d2"
    proof -
      have "occupancy (UserRoom u) ?d1 = occupancy (UserRoom u) ?d"
        by (simp add: occupancy_def ZCARD_def zsets_EXPIRE key_defs)
      then show ?thesis
        using take_guar [where k = ?u and ttl = 60 and c = c and d = ?d1 and m = leaseID and b = b and P = P] that(2)
          room_unique [of ?u _ "UserRoom u"]
        by (simp; metis)
    qed
    moreover have "conc_guar c b P ?d2 (EXPIRE ?i 60 (ZADD ?i ?now leaseID ?d2))"
      by (rule guar_trans [OF index_ZADD_guar outside_EXPIRE_guar]) simp_all
    ultimately show ?thesis by (blast intro: guar_trans)
  qed
  have order: "EXPIRE ?i 60 (EXPIRE ?u 60 (EXPIRE ?a 60 (ZADD ?i ?now leaseID (ZADD ?u ?now leaseID (ZADD ?a ?now leaseID ?d))))) =
      EXPIRE ?i 60 (ZADD ?i ?now leaseID ?d2)"
    using keys by (simp add: EXPIRE_ZADD)
  show "conc_guar c b P d (snd (acquireLiveLeaseScript (accountSlotKey a) ?a (userSlotKey u) ?u ?i accountMax userMax 60
      leaseID replacing d))"
    using clean guar_trans [OF clean take] assms
    by (auto simp: acquireLiveLeaseScript_def Let_def order occupancy_def split: if_splits)
qed

lemma increment_respectful:
  assumes "key \<in> wait_keys" "0 < ttl" "maxWait \<le> lim_wait b key"
  shows "respectful c b P (incrementWaitScript key maxWait ttl)"
proof (rule respectfulI)
  fix d
  have key: "key \<notin> room_keys" using assms(1) room_wait_disjoint by blast
  have "conc_guar c b P d (INCR key d)"
    if "(case counters d key of None \<Rightarrow> 0 | Some n \<Rightarrow> n) < maxWait"
    by (rule outside_guar) (use that assms(3) in \<open>auto simp: expires_simps wait_ok_def split: option.splits\<close>)
  from guar_trans [OF this outside_EXPIRE_guar [OF assms(2) key]]
  show "conc_guar c b P d (snd (incrementWaitScript key maxWait ttl d))"
    by (auto simp: incrementWaitScript_def Let_def conc.refl split: option.splits)
qed

lemma decrement_respectful: "respectful c b P (decrementWaitScript key)"
proof (rule respectfulI)
  fix d
  have "conc_guar c b P d (DECR key d)" if "counters d key = Some n" "0 < n" for n
    by (rule outside_guar) (use that in \<open>auto simp: expires_simps wait_ok_def split: option.splits\<close>)
  then show "conc_guar c b P d (snd (decrementWaitScript key d))"
    by (auto simp: decrementWaitScript_def conc.refl split: option.split)
qed

lemma DEL_empty_guar: "zsets d key = [] \<Longrightarrow> conc_guar c b P d (DEL key d)"
  by (rule removing_guar)
    (auto simp: expires_simps wait_ok_def ZSCORE_def split: if_splits intro: exI [where x = "\<lambda>_. True"])

lemma DEL_wait_guar: "key \<notin> room_keys \<Longrightarrow> conc_guar c b P d (DEL key d)"
  by (rule outside_guar) (auto simp: expires_simps wait_ok_def)

lemma close_set_guar:
  assumes "key \<in> room_keys" "0 < ttl" "ttl = slot_ttl c key"
  shows "conc_guar c b P d (if ZCARD key d = 0 then DEL key d else EXPIRE key ttl d)"
  using EXPIRE_guar [of ttl key c b P d] DEL_empty_guar [of d key c b P] assms by (simp add: ZCARD_def)

lemma cleanup_respectful:
  assumes "key \<in> room_keys" "0 < ttl" "ttl = slot_ttl c key"
  shows "respectful c b P (cleanupExpiredSlotsScript key ttl)"
  using guar_trans [OF purge_guar [OF assms(1,3)] close_set_guar [OF assms]]
  by (auto simp: respectful_def cleanupExpiredSlotsScript_def Let_def)

lemma remove_foreign_guar:
  assumes "\<forall>(k, m) \<in> P. has_prefix m prefix"
  shows "conc_guar c b P d (snd (remove_foreign key prefix ms n d))"
proof (induction ms arbitrary: n d)
  case Nil
  then show ?case by (simp add: conc.refl)
next
  case (Cons m ms)
  have "conc_guar c b P d (ZREM key m d)" if "\<not> has_prefix m prefix"
    by (rule ZREM_guar) (use that assms in auto)
  with Cons guar_trans [OF this Cons] show ?case by (auto simp: conc.refl)
qed

lemma startup_respectful:
  assumes "\<forall>(k, m) \<in> P. has_prefix m prefix" "key \<in> room_keys" "0 < ttl" "ttl = slot_ttl c key"
  shows "respectful c b P (startupCleanupSlotScript key prefix ttl)"
proof (rule respectfulI)
  fix d
  obtain n d1 where r: "remove_foreign key prefix (ZRANGE key d) 0 d = (n, d1)" by fastforce
  have "conc_guar c b P d d1" using remove_foreign_guar [OF assms(1), of c b d key "ZRANGE key d" 0] by (simp add: r)
  from guar_trans [OF this close_set_guar [OF assms(2-4)]]
  show "conc_guar c b P d (snd (startupCleanupSlotScript key prefix ttl d))"
    by (simp add: startupCleanupSlotScript_def r Let_def)
qed

section \<open>Programs\<close>

text \<open>Programs that start at a time \<open>t\<close> of the server or later.\<close>

definition safe ::
  "concurrency_cache \<Rightarrow> limits \<Rightarrow> (string \<times> string) set \<Rightarrow> int \<Rightarrow> ('z, 'a) redis_prog \<Rightarrow> bool" where
  "safe c b P t m \<longleftrightarrow> obeys (conc_guar c b P) (\<lambda>d. t \<le> TIME d) m (\<lambda>_ _. True)"

lemma time_stable: "stable (conc_guar c b P) (\<lambda>d. t \<le> TIME d)"
  by (auto simp: stable_def conc_guar_def)

lemma obeys_stable:
  assumes "obeys G S m (\<lambda>_ _. True)" "stable G S"
  shows "obeys G S m (\<lambda>_. S)"
  using assms unfolding obeys_def stable_def by blast

lemma safe_return: "safe c b P t (State_Monad.return a)"
  unfolding safe_def by (rule conc.obeys_return) simp

lemma safe_bind: "safe c b P t m \<Longrightarrow> (\<And>a. safe c b P t (f a)) \<Longrightarrow> safe c b P t (State_Monad.bind m f)"
  unfolding safe_def by (rule conc.obeys_bind [OF obeys_stable [OF _ time_stable]])

lemma safe_sum: "(\<And>e. x = Inl e \<Longrightarrow> safe c b P t (f e)) \<Longrightarrow> (\<And>a. x = Inr a \<Longrightarrow> safe c b P t (g a)) \<Longrightarrow>
    safe c b P t (case x of Inl e \<Rightarrow> f e | Inr a \<Rightarrow> g a)"
  by (cases x) auto

lemma safe_option: "(x = None \<Longrightarrow> safe c b P t m) \<Longrightarrow> (\<And>a. x = Some a \<Longrightarrow> safe c b P t (g a)) \<Longrightarrow>
    safe c b P t (case x of None \<Rightarrow> m | Some a \<Rightarrow> g a)"
  by (cases x) auto

lemma safe_prod: "(\<And>a e. x = (a, e) \<Longrightarrow> safe c b P t (f a e)) \<Longrightarrow> safe c b P t (case x of (a, e) \<Rightarrow> f a e)"
  by (cases x) auto

lemma safe_if: "(p \<Longrightarrow> safe c b P t m) \<Longrightarrow> (\<not> p \<Longrightarrow> safe c b P t n) \<Longrightarrow> safe c b P t (if p then m else n)"
  by simp

lemma safe_bool: "safe c b P t m \<Longrightarrow> safe c b P t n \<Longrightarrow> safe c b P t (case x of True \<Rightarrow> m | False \<Rightarrow> n)"
  by (cases x) auto

lemma safe_let: "(\<And>x. x = v \<Longrightarrow> safe c b P t (f x)) \<Longrightarrow> safe c b P t (let x = v in f x)"
  by simp

definition respects_from ::
  "concurrency_cache \<Rightarrow> limits \<Rightarrow> (string \<times> string) set \<Rightarrow> int \<Rightarrow> (redis \<Rightarrow> 'a \<times> redis) \<Rightarrow> bool" where
  "respects_from c b P t script \<longleftrightarrow> (\<forall>d. t \<le> TIME d \<longrightarrow> conc_guar c b P d (snd (script d)))"

lemma respects_any: "respectful c b P s \<Longrightarrow> respects_from c b P t s"
  by (simp add: respectful_def respects_from_def)

lemma TIME_at_time: "TIME d \<le> TIME (at_time now d)"
  by (simp add: TIME_def zdiv_mono1)

lemma safe_script: "respects_from c b P t script \<Longrightarrow> safe c b P t (run_script script)"
  unfolding safe_def run_script_def
  by (rule conc.obeys_call [OF time_stable])
    (auto simp: respects_from_def intro: guar_trans [OF at_time_guar] order.trans [OF _ TIME_at_time])

lemma safe_run: "respectful c b P script \<Longrightarrow> safe c b P t (run_script script)"
  by (rule safe_script [OF respects_any])

lemma safe_command: "(\<And>d. conc_guar c b P d (f d)) \<Longrightarrow> safe c b P t (command f)"
  unfolding command_def by (rule safe_run) (simp add: respectful_def)

lemma safe_read: "safe c b P t (read_redis f)"
  unfolding read_redis_def by (rule safe_run [OF read_respectful])

lemma safe_pipeline: "\<forall>s \<in> set ss. respects_from c b P t s \<Longrightarrow> safe c b P t (pipeline ss)"
  by (induction ss) (auto intro!: safe_bind safe_return safe_script)

text \<open>The server's time, once read, has been reached.\<close>

lemma safe_time:
  assumes "\<And>now. t \<le> now \<Longrightarrow> safe c b P now (f (Inr now))" "safe c b P t (f (Inl ()))"
  shows "safe c b P t (State_Monad.bind (read_redis TIME) f)"
  unfolding safe_def
proof (rule conc.obeys_bind)
  let ?Q = "\<lambda>r d. case r of Inl _ \<Rightarrow> t \<le> TIME d | Inr now \<Rightarrow> t \<le> now \<and> now \<le> TIME d"
  show "obeys (conc_guar c b P) (\<lambda>d. t \<le> TIME d) (read_redis TIME) ?Q"
    unfolding read_redis_def run_script_def
    by (rule conc.obeys_call [OF time_stable]) (auto intro: at_time_guar order.trans [OF _ TIME_at_time])
  show "obeys (conc_guar c b P) (?Q r) (f r) (\<lambda>_ _. True)" for r
  proof (cases r)
    case (Inl e)
    then show ?thesis using assms(2) by (simp add: safe_def)
  next
    case (Inr now)
    then show ?thesis
      using assms(1) [of now] by (cases "t \<le> now") (auto simp: safe_def intro: obeys_weaken obeys_vacuous)
  qed
qed

lemmas safe_rules = safe_time safe_bind safe_return safe_sum safe_option safe_prod safe_if safe_bool safe_let safe_read

subsection \<open>Indexes\<close>

lemma touch_safe: "k \<notin> room_keys \<Longrightarrow> safe c b P t (touchActiveIndexAt k i e)"
  unfolding touchActiveIndexAt_def by (intro safe_rules safe_command index_ZADD_guar)

lemma purge_from:
  assumes "k \<in> room_keys \<Longrightarrow> slot_ttl c k = ttl"
  shows "respects_from c b P now (\<lambda>d. (r, ZREMUPTO k (now - ttl) d))"
  unfolding respects_from_def using ZREMUPTO_guar [of k "now - ttl"] assms by auto

lemma load_commands_from:
  assumes "slotKey \<in> room_keys \<Longrightarrow> slot_ttl c slotKey = slotTTLSeconds c"
  shows "\<forall>s \<in> set (load_commands slotKey waitKey (now - slotTTLSeconds c)). respects_from c b P now s"
  using purge_from [of slotKey c "slotTTLSeconds c" b P now] assms
  by (auto simp: load_commands_def intro: respects_any read_respectful)

lemma refresh_safe:
  assumes "k \<notin> room_keys" "slotKey \<in> room_keys \<Longrightarrow> slot_ttl c slotKey = slotTTLSeconds c"
  shows "safe c b P t (refreshActiveIndex c k i slotKey waitKey)"
  unfolding refreshActiveIndex_def readActiveLoadForKey_def
  by (intro safe_rules safe_command index_ZREM_guar touch_safe safe_pipeline assms(1))
    (use load_commands_from [OF assms(2)] in auto)

lemma refresh_indexes_safe:
  "safe c b P t (refreshAccountActiveIndex c i)" "safe c b P t (refreshUserActiveIndex c i)"
  unfolding refreshAccountActiveIndex_def refreshUserActiveIndex_def by (rule refresh_safe; simp)+

lemma acquire_slot_safe:
  assumes "k \<notin> room_keys" "respectful c b P script"
  shows "safe c b P t (acquire_slot k i ttl script)"
  unfolding acquire_slot_def by (intro safe_rules safe_run touch_safe assms)

lemma give_back_safe: "safe c b P t m \<Longrightarrow> safe c b P t n \<Longrightarrow> safe c b P t (give_back m n)"
  unfolding give_back_def by (intro safe_rules)

subsection \<open>Operations\<close>

text \<open>The operations of the cache, with the identifiers of the requests and leases.\<close>

datatype conc_op =
    OpAcquireAccount int int string | OpReleaseAccount int string | OpCountAccount int | OpCountAccounts "int list"
  | OpAcquireUser int int string | OpReleaseUser int string | OpCountUser int
  | OpTrackKey int string | OpReleaseKey int string | OpCountKeys "int list"
  | OpAcquireIngress int int string | OpRefreshIngress int string | OpReleaseIngress int string
  | OpAcquireLive int int int int int string bool | OpRefreshLive int int int string | OpReleaseLive int int int string
  | OpWaitUser int int | OpLeaveUser int | OpWaitAccount int int | OpLeaveAccount int | OpWaitingAccount int
  | OpAccountLoads "(int \<times> int) list" | OpUserLoads "(int \<times> int) list"
  | OpCleanAccount int | OpCleanIndexes | OpStartup "string list list" string

definition quietly :: "('z, 'a) redis_prog \<Rightarrow> ('z, unit) redis_prog" where
  "quietly m = do { _ \<leftarrow> m; State_Monad.return () }"

fun conc_perform :: "concurrency_cache \<Rightarrow> conc_op \<Rightarrow> ('z, unit) redis_prog" where
  "conc_perform c (OpAcquireAccount a n r) = quietly (AcquireAccountSlot c a n r)"
| "conc_perform c (OpReleaseAccount a r) = quietly (ReleaseAccountSlot c a r)"
| "conc_perform c (OpCountAccount a) = quietly (GetAccountConcurrency c a)"
| "conc_perform c (OpCountAccounts as) = quietly (GetAccountConcurrencyBatch c as)"
| "conc_perform c (OpAcquireUser u n r) = quietly (AcquireUserSlot c u n r)"
| "conc_perform c (OpReleaseUser u r) = quietly (ReleaseUserSlot c u r)"
| "conc_perform c (OpCountUser u) = quietly (GetUserConcurrency c u)"
| "conc_perform c (OpTrackKey i r) = quietly (TrackAPIKeySlot c i r)"
| "conc_perform c (OpReleaseKey i r) = quietly (ReleaseAPIKeySlot i r)"
| "conc_perform c (OpCountKeys is) = quietly (GetAPIKeyConcurrencyBatch c is)"
| "conc_perform c (OpAcquireIngress i n l) = quietly (AcquireOpenAIWSIngressLease i n l)"
| "conc_perform c (OpRefreshIngress i l) = quietly (RefreshOpenAIWSIngressLease i l)"
| "conc_perform c (OpReleaseIngress i l) = quietly (ReleaseOpenAIWSIngressLease i l)"
| "conc_perform c (OpAcquireLive a am u um i l repl) = quietly (AcquireLiveLease a am u um i l repl)"
| "conc_perform c (OpRefreshLive a u i l) = quietly (RefreshLiveLease a u i l)"
| "conc_perform c (OpReleaseLive a u i l) = quietly (ReleaseLiveLease a u i l)"
| "conc_perform c (OpWaitUser u n) = quietly (IncrementWaitCount c u n)"
| "conc_perform c (OpLeaveUser u) = quietly (DecrementWaitCount c u)"
| "conc_perform c (OpWaitAccount a n) = quietly (IncrementAccountWaitCount c a n)"
| "conc_perform c (OpLeaveAccount a) = quietly (DecrementAccountWaitCount c a)"
| "conc_perform c (OpWaitingAccount a) = quietly (GetAccountWaitingCount a)"
| "conc_perform c (OpAccountLoads as) = quietly (GetAccountsLoadBatch c as)"
| "conc_perform c (OpUserLoads us) = quietly (GetUsersLoadBatch c us)"
| "conc_perform c (OpCleanAccount a) = quietly (CleanupExpiredAccountSlots c a)"
| "conc_perform c OpCleanIndexes = quietly (CleanupExpiredAccountSlotKeys c)"
| "conc_perform c (OpStartup pages prefix) = quietly (CleanupStaleProcessSlots c pages prefix)"

text \<open>
  What may be asked for: limits within the bounds, nobody gives back a protected slot, a process that
  starts does not find protected slots of others, and \<open>SCAN\<close> answers with keys that match.
\<close>

fun permitted :: "limits \<Rightarrow> (string \<times> string) set \<Rightarrow> conc_op \<Rightarrow> bool" where
  "permitted b P (OpAcquireAccount a n r) = (n \<le> lim_room b (AccountRoom a))"
| "permitted b P (OpReleaseAccount a r) = ((accountSlotKey a, r) \<notin> P)"
| "permitted b P (OpAcquireUser u n r) = (n \<le> lim_room b (UserRoom u))"
| "permitted b P (OpReleaseUser u r) = ((userSlotKey u, r) \<notin> P)"
| "permitted b P (OpAcquireIngress i n l) = (n \<le> lim_room b (IngressRoom i))"
| "permitted b P (OpReleaseIngress i l) = ((openAIWSIngressLeaseKey i, l) \<notin> P)"
| "permitted b P (OpAcquireLive a am u um i l repl) =
     (0 < am \<and> am + (if repl then 1 else 0) \<le> lim_room b (AccountRoom a) \<and>
      0 < um \<and> um + (if repl then 1 else 0) \<le> lim_room b (UserRoom u))"
| "permitted b P (OpReleaseLive a u i l) = ((liveAccountSlotKey a, l) \<notin> P \<and> (liveUserSlotKey u, l) \<notin> P)"
| "permitted b P (OpWaitUser u n) = (n \<le> lim_wait b (waitQueueKey u))"
| "permitted b P (OpWaitAccount a n) = (n \<le> lim_wait b (accountWaitKey a))"
| "permitted b P (OpStartup pages prefix) =
     ((\<forall>(k, m) \<in> P. has_prefix m prefix) \<and> (\<forall>keys \<in> set pages. set keys \<subseteq> wait_keys))"
| "permitted b P _ = True"

lemma safe_quietly: "safe c b P t m \<Longrightarrow> safe c b P t (quietly m)"
  unfolding quietly_def by (intro safe_rules)

text \<open>Identifiers that are not protected may be removed from sets that are not rooms, too.\<close>

lemma ZREM_guar': "k \<in> room_keys \<longrightarrow> (k, m) \<notin> P \<Longrightarrow> conc_guar c b P d (ZREM k m d)"
  by (cases "k \<in> room_keys") (auto intro: ZREM_guar index_ZREM_guar)

lemma slot_scripts:
  assumes "cache_ok c"
  shows "n \<le> lim_room b (AccountRoom a) \<Longrightarrow>
      respectful c b P (acquireScript (accountSlotKey a) (liveAccountSlotKey a) n (slotTTLSeconds c) r)"
    "n \<le> lim_room b (UserRoom u) \<Longrightarrow>
      respectful c b P (acquireScript (userSlotKey u) (liveUserSlotKey u) n (slotTTLSeconds c) r)"
  by (rule acquireScript_respectful [OF _ assms]; simp)+

lemma slots_safe:
  assumes "cache_ok c"
  shows "n \<le> lim_room b (AccountRoom a) \<Longrightarrow> safe c b P t (AcquireAccountSlot c a n r)"
    "n \<le> lim_room b (UserRoom u) \<Longrightarrow> safe c b P t (AcquireUserSlot c u n r)"
    "(accountSlotKey a, r) \<notin> P \<Longrightarrow> safe c b P t (ReleaseAccountSlot c a r)"
    "(userSlotKey u, r) \<notin> P \<Longrightarrow> safe c b P t (ReleaseUserSlot c u r)"
    "safe c b P t (GetAccountConcurrency c a)" "safe c b P t (GetUserConcurrency c u)"
    "safe c b P t (TrackAPIKeySlot c i r)" "safe c b P t (ReleaseAPIKeySlot i r)"
  unfolding AcquireAccountSlot_def AcquireUserSlot_def ReleaseAccountSlot_def ReleaseUserSlot_def
    GetAccountConcurrency_def GetUserConcurrency_def TrackAPIKeySlot_def ReleaseAPIKeySlot_def
  using assms
  by (auto simp: cache_ok_def intro!: acquire_slot_safe give_back_safe safe_command safe_run ZREM_guar'
      refresh_indexes_safe getCountScript_respectful trackSlotScript_respectful slot_scripts [OF assms])

lemma counts_safe:
  assumes "\<And>i. slotKey i \<in> room_keys \<Longrightarrow> slot_ttl c (slotKey i) = slotTTLSeconds c"
    "\<And>i. liveKey i \<in> room_keys \<Longrightarrow> slot_ttl c (liveKey i) = 60"
  shows "safe c b P t (concurrency_batch c slotKey liveKey ids)" "safe c b P t (loads_batch c slotKey liveKey waitKey xs)"
proof -
  have counts: "\<forall>s \<in> set (count_commands slotKey liveKey (now - slotTTLSeconds c) (now - 60) i). respects_from c b P now s" for now i
    using purge_from [of "slotKey i" c "slotTTLSeconds c" b P now] purge_from [of "liveKey i" c 60 b P now] assms
    by (auto simp: count_commands_def intro: respects_any read_respectful)
  show "safe c b P t (concurrency_batch c slotKey liveKey ids)"
    unfolding concurrency_batch_def by (intro safe_rules safe_pipeline) (use counts in auto)
  show "safe c b P t (loads_batch c slotKey liveKey waitKey xs)"
    unfolding loads_batch_def
    by (intro safe_rules safe_pipeline) (use counts respects_any [OF read_respectful] in auto)
qed

lemma leases_safe:
  assumes "cache_ok c"
  shows "n \<le> lim_room b (IngressRoom i) \<Longrightarrow> safe c b P t (AcquireOpenAIWSIngressLease i n l)"
    "safe c b P t (RefreshOpenAIWSIngressLease i l)"
    "(openAIWSIngressLeaseKey i, l) \<notin> P \<Longrightarrow> safe c b P t (ReleaseOpenAIWSIngressLease i l)"
    "permitted b P (OpAcquireLive a am u um i l repl) \<Longrightarrow> safe c b P t (AcquireLiveLease a am u um i l repl)"
    "safe c b P t (RefreshLiveLease a u i l)"
    "(liveAccountSlotKey a, l) \<notin> P \<Longrightarrow> (liveUserSlotKey u, l) \<notin> P \<Longrightarrow> safe c b P t (ReleaseLiveLease a u i l)"
proof -
  show "n \<le> lim_room b (IngressRoom i) \<Longrightarrow> safe c b P t (AcquireOpenAIWSIngressLease i n l)"
    unfolding AcquireOpenAIWSIngressLease_def by (intro safe_rules safe_run ingress_acquire_respectful)
  show "safe c b P t (RefreshOpenAIWSIngressLease i l)"
    unfolding RefreshOpenAIWSIngressLease_def by (intro safe_rules safe_run ingress_refresh_respectful)
  show "(openAIWSIngressLeaseKey i, l) \<notin> P \<Longrightarrow> safe c b P t (ReleaseOpenAIWSIngressLease i l)"
    unfolding ReleaseOpenAIWSIngressLease_def by (intro safe_rules safe_command ZREM_guar)
  show "permitted b P (OpAcquireLive a am u um i l repl) \<Longrightarrow> safe c b P t (AcquireLiveLease a am u um i l repl)"
    unfolding AcquireLiveLease_def by (intro safe_rules safe_run live_acquire_respectful) simp_all
  have "distinct [liveAccountSlotKey a, liveUserSlotKey u, liveAPIKeySlotKey i]" by (simp add: key_defs)
  then show "safe c b P t (RefreshLiveLease a u i l)"
    unfolding RefreshLiveLease_def by (intro safe_rules safe_run live_refresh_respectful) auto
  show "safe c b P t (ReleaseLiveLease a u i l)"
    if "(liveAccountSlotKey a, l) \<notin> P" "(liveUserSlotKey u, l) \<notin> P"
    unfolding ReleaseLiveLease_def
    by (intro safe_if safe_return safe_command, rule guar_trans [OF guar_trans]; rule ZREM_guar'; use that in simp)
qed

lemma waiting_safe:
  assumes "cache_ok c"
  shows "n \<le> lim_wait b (waitQueueKey u) \<Longrightarrow> safe c b P t (IncrementWaitCount c u n)"
    "n \<le> lim_wait b (accountWaitKey a) \<Longrightarrow> safe c b P t (IncrementAccountWaitCount c a n)"
    "safe c b P t (DecrementWaitCount c u)" "safe c b P t (DecrementAccountWaitCount c a)"
    "safe c b P t (GetAccountWaitingCount a)"
  unfolding IncrementWaitCount_def IncrementAccountWaitCount_def DecrementWaitCount_def DecrementAccountWaitCount_def
    GetAccountWaitingCount_def
  using assms
  by (auto simp: cache_ok_def intro!: acquire_slot_safe give_back_safe safe_run increment_respectful decrement_respectful
      refresh_indexes_safe safe_read)

subsection \<open>Cleaning up\<close>

lemma fold_guar: "(\<And>x d. x \<in> set xs \<Longrightarrow> conc_guar c b P d (f x d)) \<Longrightarrow> conc_guar c b P d (fold f xs d)"
proof (induction xs arbitrary: d)
  case Nil
  then show ?case by (simp add: conc.refl)
next
  case (Cons x xs)
  have "conc_guar c b P d (f x d)" by (rule Cons.prems) simp
  moreover have "conc_guar c b P (f x d) (fold f xs (f x d))" by (rule Cons.IH) (simp add: Cons.prems)
  ultimately have "conc_guar c b P d (fold f xs (f x d))" by (rule guar_trans)
  then show ?case by simp
qed

lemma index_members_safe:
  assumes "k \<notin> room_keys"
  shows "safe c b P t (removeActiveIndexMembers k ms)" "safe c b P t (refresh_members k xs)"
  unfolding removeActiveIndexMembers_def refresh_members_def
  by (auto intro!: safe_bind safe_return safe_command fold_guar index_ZREM_guar index_ZADD_guar assms)

lemma read_chunks_safe:
  assumes "\<And>i. slot_ttl c (si_slotKey spec i) = slotTTLSeconds c"
  shows "safe c b P now (read_chunks c spec (now - slotTTLSeconds c) xs)"
proof (induction xs rule: length_induct)
  case (1 xs)
  let ?n = activeIndexPipelineChunkSize
  have pipe: "safe c b P now (pipeline (concat (map (\<lambda>(i, _). load_commands (si_slotKey spec i) (si_waitKey spec i)
      (now - slotTTLSeconds c)) (take ?n xs))))"
    by (rule safe_pipeline) (use load_commands_from [OF assms] in fastforce)
  show ?case
    by (subst read_chunks.simps, unfold Let_def, intro safe_bind safe_return safe_sum safe_if pipe 1 [rule_format])
      (simp add: activeIndexPipelineChunkSize_def)
qed

definition spec_ok :: "concurrency_cache \<Rightarrow> slot_index \<Rightarrow> bool" where
  "spec_ok c spec \<longleftrightarrow> si_indexKey spec \<notin> room_keys \<and>
     (\<forall>i. si_slotKey spec i \<in> room_keys \<and> slot_ttl c (si_slotKey spec i) = slotTTLSeconds c \<and> si_waitKey spec i \<notin> room_keys)"

lemma specs_ok: "spec_ok c accountSlotIndex" "spec_ok c userSlotIndex"
  by (simp_all add: spec_ok_def accountSlotIndex_def userSlotIndex_def)

lemma reconcile_safe:
  assumes "spec_ok c spec"
  shows "safe c b P t (reconcileExpiredIndexCandidates c spec)"
proof -
  have "safe c b P now (readIndexLoads c spec ms now)" for now ms
    unfolding readIndexLoads_def
    by (intro safe_bind safe_let safe_return read_chunks_safe) (use assms in \<open>simp add: spec_ok_def\<close>)
  then show ?thesis
    unfolding reconcileExpiredIndexCandidates_def
    by (intro safe_rules index_members_safe) (use assms in \<open>auto simp: spec_ok_def\<close>)
qed

lemma clean_members_safe:
  assumes "spec_ok c spec" "cache_ok c" "\<forall>(k, m) \<in> P. has_prefix m prefix"
  shows "safe c b P t (clean_members c spec prefix now ms stale refreshed)"
proof (induction ms arbitrary: stale refreshed)
  case Nil
  then show ?case by (simp add: safe_return)
next
  case (Cons m ms)
  have "respectful c b P (startupCleanupSlotScript (si_slotKey spec i) prefix (slotTTLSeconds c))" for i
    by (rule startup_respectful) (use assms in \<open>auto simp: spec_ok_def cache_ok_def\<close>)
  moreover have "conc_guar c b P d (DEL (si_waitKey spec i) d)" for i d
    by (rule DEL_wait_guar) (use assms(1) in \<open>simp add: spec_ok_def\<close>)
  ultimately show ?case
    by (simp only: clean_members.simps) (intro safe_option safe_bind safe_sum safe_return safe_prod safe_if safe_run safe_command Cons)
qed

lemma sweep_safe:
  assumes "\<forall>keys \<in> set pages. set keys \<subseteq> wait_keys"
  shows "safe c b P t (sweepLegacyWaitKeysOnce pages)"
proof -
  have "safe c b P t (sweep_pages pages)"
    using assms
  proof (induction pages)
    case (Cons keys pages)
    have "conc_guar c b P d (fold DEL keys d)" for d
      by (rule fold_guar, rule DEL_wait_guar) (use Cons.prems room_wait_disjoint in auto)
    with Cons show ?case
      by (simp only: sweep_pages.simps) (intro safe_bind safe_read safe_sum safe_return safe_if safe_command; simp)
  qed (simp add: safe_return)
  moreover have "conc_guar c b P d (SET legacyWaitSweepMarkerKey 1 d)" for d
    by (rule outside_guar) (auto simp: expires_simps wait_ok_def)
  ultimately show ?thesis
    unfolding sweepLegacyWaitKeysOnce_def
    by (intro safe_bind safe_read safe_sum safe_bool safe_return safe_command)
qed

lemma startup_safe:
  assumes "cache_ok c" "permitted b P (OpStartup pages prefix)"
  shows "safe c b P t (CleanupStaleProcessSlots c pages prefix)"
proof -
  have index: "safe c b P t (cleanupStaleProcessSlotsForIndex c spec ms prefix now)" if "spec_ok c spec" for spec ms t now
    unfolding cleanupStaleProcessSlotsForIndex_def
    by (intro safe_bind safe_sum safe_return safe_prod clean_members_safe index_members_safe)
      (use that assms in \<open>auto simp: spec_ok_def\<close>)
  show ?thesis
    unfolding CleanupStaleProcessSlots_def
    by (intro safe_if safe_bind safe_sum safe_return safe_read sweep_safe index specs_ok) (use assms(2) in simp)
qed

lemma operation_safe:
  assumes "cache_ok c" "permitted b P x"
  shows "safe c b P t (conc_perform c x)"
proof -
  have "safe c b P t (CleanupExpiredAccountSlots c a)" for a
    unfolding CleanupExpiredAccountSlots_def
    by (intro give_back_safe safe_run cleanup_respectful refresh_indexes_safe) (use assms(1) in \<open>simp_all add: cache_ok_def\<close>)
  moreover have "safe c b P t (CleanupExpiredAccountSlotKeys c)"
    unfolding CleanupExpiredAccountSlotKeys_def by (intro safe_bind safe_sum safe_return reconcile_safe specs_ok)
  moreover have "safe c b P t (GetAccountConcurrencyBatch c is)" "safe c b P t (GetAPIKeyConcurrencyBatch c is)"
    "safe c b P t (GetAccountsLoadBatch c xs)" "safe c b P t (GetUsersLoadBatch c xs)" for "is" xs
    unfolding GetAccountConcurrencyBatch_def GetAPIKeyConcurrencyBatch_def GetAccountsLoadBatch_def GetUsersLoadBatch_def
    by (rule counts_safe; simp)+
  ultimately show ?thesis
    using assms(2)
    by (cases x) (auto simp del: permitted.simps(26) intro!: safe_quietly slots_safe [OF assms(1)] leases_safe [OF assms(1)]
        waiting_safe [OF assms(1)] intro: startup_safe [OF assms(1)])
qed

end
