(* ===== verification/Concurrency_Service.thy ===== *)
theory Concurrency_Service
  imports Concurrency_Safety
begin

text \<open>
  The concurrency cache as a whole: any operations, one after another, each among any other clients that
  respect the guarantee and with any command or reply lost. Then what a quiet server does, and a start
  of a second process that lets a limit be exceeded.
\<close>

section \<open>Histories\<close>

fun conc_history :: "concurrency_cache \<Rightarrow> conc_op list \<Rightarrow> ('z, unit) redis_prog" where
  "conc_history c [] = State_Monad.return ()"
| "conc_history c (x # xs) = do { _ \<leftarrow> conc_perform c x; conc_history c xs }"

lemma history_safe:
  assumes "cache_ok c" "\<forall>x \<in> set xs. permitted b P x"
  shows "safe c b P t (conc_history c xs)"
  using assms by (induction xs) (auto intro: safe_return safe_bind operation_safe)

lemma commands_guar:
  assumes "cache_ok c" "\<forall>x \<in> set xs. permitted b P x" "rely_ok (conc_guar c b P) w"
    and "run_state (conc_history c xs) w = (u, w')"
  shows "conc_guar c b P (db w) (db w')"
  using obeysD(2) [OF history_safe [OF assms(1,2), of "TIME (db w)", unfolded safe_def] assms(3) _ assms(4)] by simp

lemma card_members:
  assumes "distinct (map fst z)"
  shows "card {m. map_of z m \<noteq> None} = length z"
proof -
  have "{m. map_of z m \<noteq> None} = fst ` set z" by (auto simp: map_of_eq_None_iff)
  then show ?thesis using assms by (metis distinct_card length_map set_map)
qed

definition holders :: "string \<Rightarrow> redis \<Rightarrow> string set" where
  "holders k d = {m. ZSCORE k m d \<noteq> None}"

lemma card_holders: "set_ok c d k \<Longrightarrow> int (card (holders k d)) = ZCARD k d"
  unfolding holders_def ZSCORE_def ZCARD_def set_ok_def by (simp only: card_members)

text \<open>
  C8. Whatever operations run, interleave with other clients or lose commands and replies: never do more
  requests and live leases hold a slot of an account than its bound, likewise for users and for the
  connections of a key, and no counter of waiting requests leaves the range from zero to its maximum.
\<close>

theorem limits_hold:
  assumes "cache_ok c" "\<forall>x \<in> set xs. permitted b P x"
    and "rely_ok (conc_guar c b P) w" "conc_inv c b (db w)" "run_state (conc_history c xs) w = (u, w')"
  shows "int (card (holders (accountSlotKey a) (db w'))) + int (card (holders (liveAccountSlotKey a) (db w')))
      \<le> lim_room b (AccountRoom a) \<and>
    int (card (holders (userSlotKey v) (db w'))) + int (card (holders (liveUserSlotKey v) (db w')))
      \<le> lim_room b (UserRoom v) \<and>
    int (card (holders (openAIWSIngressLeaseKey i) (db w'))) \<le> lim_room b (IngressRoom i) \<and>
    wait_ok b (db w') (waitQueueKey v) \<and> wait_ok b (db w') (accountWaitKey a)"
proof -
  have inv: "conc_inv c b (db w')"
    using commands_guar [OF assms(1-3,5)] assms(4) by (simp add: conc_guar_def)
  then have "int (card (holders k (db w'))) = ZCARD k (db w')" if "k \<in> room_keys" for k
    using that card_holders [of c "db w'" k] by (simp add: conc_inv_def)
  moreover have "occupancy r (db w') \<le> lim_room b r" for r using inv by (simp add: conc_inv_def)
  from this [of "AccountRoom a"] this [of "UserRoom v"] this [of "IngressRoom i"]
  moreover have "wait_ok b (db w') (waitQueueKey v)" "wait_ok b (db w') (accountWaitKey a)"
    using inv by (simp_all add: conc_inv_def)
  ultimately show ?thesis by (simp add: occupancy_def)
qed

section \<open>Slots that are held\<close>

lemma acquire_script_holds:
  assumes "fst (fst (acquireScript key liveKey n ttl r d))" "0 < ttl" "key \<noteq> liveKey"
  shows "ZSCORE key r (snd (acquireScript key liveKey n ttl r d)) = Some (TIME d)"
  using assms by (auto simp: acquireScript_def Let_def ZSCORE_def zsets_EXPIRE update_conv' split: if_splits)

definition still_held :: "concurrency_cache \<Rightarrow> string \<Rightarrow> string \<Rightarrow> int \<Rightarrow> redis \<Rightarrow> bool" where
  "still_held c k m t d \<longleftrightarrow> (\<exists>s \<ge> t. ZSCORE k m d = Some s) \<or> t + slot_ttl c k \<le> TIME d"

lemma held_stable:
  assumes "(k, m) \<in> P" "k \<in> room_keys"
  shows "stable (conc_guar c b P) (\<lambda>d. conc_inv c b d \<and> still_held c k m t d)"
  unfolding stable_def
proof (intro allI impI)
  fix d d' assume d: "conc_inv c b d \<and> still_held c k m t d" and g: "conc_guar c b P d d'"
  then have "kept c (k, m) d d'" "conc_inv c b d'" "TIME d \<le> TIME d'" using assms by (auto simp: conc_guar_def)
  with d assms(2) show "conc_inv c b d' \<and> still_held c k m t d'"
    by (force simp: still_held_def kept_def)
qed

lemma acquire_account_holds:
  assumes "cache_ok c" "n \<le> lim_room b (AccountRoom a)" "(accountSlotKey a, r) \<in> P"
  shows "obeys (conc_guar c b P) (\<lambda>d. t \<le> TIME d \<and> conc_inv c b d) (AcquireAccountSlot c a n r)
    (\<lambda>res d. res = Inr True \<longrightarrow> conc_inv c b d \<and> still_held c (accountSlotKey a) r t d)"
proof -
  let ?S = "\<lambda>d. conc_inv c b d \<and> still_held c (accountSlotKey a) r t d"
  let ?pre = "\<lambda>d. t \<le> TIME d \<and> conc_inv c b d"
  let ?script = "acquireScript (accountSlotKey a) (liveAccountSlotKey a) n (slotTTLSeconds c) r"
  let ?Q = "\<lambda>res d. case res of Inr (True, _) \<Rightarrow> ?S d | _ \<Rightarrow> True"
  have pre: "stable (conc_guar c b P) ?pre" by (auto simp: stable_def conc_guar_def)
  have G: "conc_guar c b P d (snd (?script (at_time now d)))" for now d
    by (rule guar_trans [OF at_time_guar [of c b P d now]]) (use slot_scripts(1) [OF assms(1,2), of P r] in \<open>simp add: respectful_def\<close>)
  have Q: "?Q (Inr (fst (?script (at_time now d)))) (snd (?script (at_time now d)))" if d: "?pre d" for now d
  proof (cases "fst (fst (?script (at_time now d)))")
    case True
    have "ZSCORE (accountSlotKey a) r (snd (?script (at_time now d))) = Some (TIME (at_time now d))"
      by (rule acquire_script_holds) (use True assms(1) in \<open>auto simp: cache_ok_def\<close>)
    moreover have "t \<le> TIME (at_time now d)" using d TIME_at_time [of d now] by simp
    moreover have "conc_inv c b (snd (?script (at_time now d)))" using G [of d now] d by (simp add: conc_guar_def)
    ultimately show ?thesis by (auto simp: still_held_def split: prod.split bool.split)
  qed (auto split: prod.splits bool.splits)
  have "obeys (conc_guar c b P) ?pre (run_script ?script) ?Q"
    unfolding run_script_def by (rule conc.obeys_call [OF pre]; (rule G | erule Q | simp))
  moreover have "obeys (conc_guar c b P) (?Q x)
      (case x of Inl e \<Rightarrow> State_Monad.return (Inl e)
       | Inr (ok, now) \<Rightarrow>
           if ok then do { _ \<leftarrow> touchActiveIndexAt accountActiveIndexKey a (now + slotTTLSeconds c); State_Monad.return (Inr True) }
           else State_Monad.return (Inr False))
      (\<lambda>res d. res = Inr True \<longrightarrow> ?S d)" for x
  proof (cases "\<exists>now. x = Inr (True, now)")
    case True
    then obtain now where x: "x = Inr (True, now)" by blast
    have "stable (conc_guar c b P) ?S" by (rule held_stable) (simp_all add: assms(3))
    moreover have "safe c b P u (touchActiveIndexAt accountActiveIndexKey a (now + slotTTLSeconds c))" for u
      by (rule touch_safe) simp
    then have "obeys (conc_guar c b P) ?S (touchActiveIndexAt accountActiveIndexKey a (now + slotTTLSeconds c)) (\<lambda>_ _. True)"
      unfolding safe_def obeys_def by blast
    ultimately have "obeys (conc_guar c b P) ?S (touchActiveIndexAt accountActiveIndexKey a (now + slotTTLSeconds c)) (\<lambda>_. ?S)"
      by (intro obeys_stable)
    then show ?thesis by (simp add: x) (rule conc.obeys_bind, assumption, rule conc.obeys_return, simp)
  next
    case False
    then show ?thesis by (cases x) (auto intro!: conc.obeys_return split: prod.splits)
  qed
  ultimately show ?thesis
    unfolding AcquireAccountSlot_def acquire_slot_def by (rule conc.obeys_bind)
qed


section \<open>A quiet server\<close>

text \<open>
  C35. Slots that were never given back do not block an account for ever: once every slot has outlived its
  time to live, and every live lease its minute, the next request is granted a slot.
\<close>

theorem abandoned_slots_expire:
  assumes "schedule w = []" "0 < n" "redis_time (db w) \<le> clock w"
    and "\<And>m s. ZSCORE (accountSlotKey a) m (db w) = Some s \<Longrightarrow> s + slotTTLSeconds c \<le> clock w div Second"
    and "\<And>m s. ZSCORE (liveAccountSlotKey a) m (db w) = Some s \<Longrightarrow> s + 60 \<le> clock w div Second"
    and "distinct (map fst (zsets (db w) (accountSlotKey a)))" "distinct (map fst (zsets (db w) (liveAccountSlotKey a)))"
  shows "fst (run_state (AcquireAccountSlot c a n r) w) = Inr True"
proof -
  let ?d = "at_time (clock w) (db w)"
  have T: "TIME ?d = clock w div Second" using assms(3) by (simp add: TIME_def max_def)
  have empty: "filter (\<lambda>(m, s). s > clock w div Second - ttl) (zsets ?d k) = []"
    if old: "\<And>m s. ZSCORE k m (db w) = Some s \<Longrightarrow> s + ttl \<le> clock w div Second"
      and dist: "distinct (map fst (zsets (db w) k))" for k ttl
  proof -
    have "s + ttl \<le> clock w div Second" if "(m, s) \<in> set (zsets ?d k)" for m s
    proof -
      have "(m, s) \<in> set (zsets (db w) k)" using that at_time_shrinks [of "clock w" "db w" k] by auto
      with old [of m s] dist show ?thesis by (simp add: ZSCORE_def)
    qed
    then show ?thesis by (force simp: filter_empty_conv)
  qed
  have "fst (fst (acquireScript (accountSlotKey a) (liveAccountSlotKey a) n (slotTTLSeconds c) r ?d))"
    using empty [OF assms(4,6)] empty [OF assms(5,7)] assms(2) by (simp add: acquireScript_def Let_def T ZCARD_def ZSCORE_def)
  then show ?thesis
    by (cases "acquireScript (accountSlotKey a) (liveAccountSlotKey a) n (slotTTLSeconds c) r ?d")
      (auto simp: AcquireAccountSlot_def acquire_slot_def run_script_def run_call_quiet [OF assms(1)] touchActiveIndexAt_def
        split: prod.split)
qed

section \<open>Instances\<close>

definition redis_world :: "redis shared" where
  "redis_world = \<lparr>db = empty_redis, schedule = [], clock = 1000 * Second\<rparr>"

definition demo_limits :: limits where
  "demo_limits = \<lparr>lim_room = (\<lambda>_. 1), lim_wait = (\<lambda>_. 1)\<rparr>"

definition demo_cache :: concurrency_cache where
  "demo_cache = NewConcurrencyCache 0 0"

lemma demo_starts: "cache_ok demo_cache" "conc_inv demo_cache demo_limits empty_redis"
  "rely_ok G redis_world" "db redis_world = empty_redis"
  by (simp_all add: demo_cache_def new_cache_ok conc_inv_def demo_limits_def set_ok_def wait_ok_def
      occupancy_def ZCARD_def redis_world_def sum_list_0)

definition demo_ops :: "conc_op list" where
  "demo_ops = [OpAcquireAccount 7 1 ''r1-1'', OpAcquireAccount 7 1 ''r1-2'', OpWaitAccount 7 1, OpWaitAccount 7 1]"

theorem limits_hold_witness:
  "let d = db (snd (run_state (conc_history demo_cache demo_ops) redis_world)) in
   card (holders (accountSlotKey 7) d) \<le> 1 \<and> wait_ok demo_limits d (accountWaitKey 7)"
proof -
  have "\<forall>x \<in> set demo_ops. permitted demo_limits {} x" by (simp add: demo_ops_def demo_limits_def)
  from limits_hold [OF demo_starts(1) this demo_starts(3) demo_starts(2) [folded demo_starts(4)] prod.collapse [symmetric],
      of 7 0 0]
  show ?thesis by (simp add: Let_def demo_limits_def)
qed


theorem abandoned_slots_expire_witness:
  "fst (run_state (AcquireAccountSlot demo_cache 7 1 ''r2-1'') (redis_world\<lparr>db := ZADD (accountSlotKey 7) 10 ''r1-1'' empty_redis\<rparr>))
     = Inr True"
  by (rule abandoned_slots_expire)
    (auto simp: redis_world_def demo_cache_def NewConcurrencyCache_def ZSCORE_def split: if_splits)

section \<open>A second process\<close>

definition two_instances :: "(unit, (unit + bool) \<times> (unit + bool)) redis_prog" where
  "two_instances = do {
     first \<leftarrow> AcquireAccountSlot demo_cache 7 1 ''r1-1'';
     _ \<leftarrow> CleanupStaleProcessSlots demo_cache [] ''r2'';
     second \<leftarrow> AcquireAccountSlot demo_cache 7 1 ''r2-1'';
     State_Monad.return (first, second)}"


end
