(* ===== verification/Billing_Types.thy ===== *)
theory Billing_Types
  imports Money
begin

text \<open>
  Commands of the usage ledger (\<open>service/usage_billing.go\<close>) and the commands on the balance held for a
  batch of images (\<open>service/batch_image_billing_hold.go\<close>): their normal form, and the fingerprint by
  which a repeated request is told from a conflicting one. SHA-256, the formatting of a \<open>float64\<close>, the
  conversion of a decimal to a \<open>float64\<close>, the subtraction of two of them and the time zones of the
  database are parameters.
\<close>

record billing_ext =
  sha256_hex :: "string \<Rightarrow> string"
  fmt_cost :: "rat \<Rightarrow> string"
  float64 :: "rat \<Rightarrow> rat"
  float_sub :: "rat \<Rightarrow> rat \<Rightarrow> rat"
  to_local :: "string \<Rightarrow> int \<Rightarrow> int"
  to_instant :: "string \<Rightarrow> int \<Rightarrow> int"
  session_zone :: string

text \<open>
  A decimal of at most fifteen digits survives the conversion to \<open>float64\<close> and back; with eight digits
  behind the point these are the amounts below ten million.
\<close>

definition float64_exact :: "billing_ext \<Rightarrow> bool" where
  "float64_exact ext \<longleftrightarrow> (\<forall>r. scaled r \<longrightarrow> \<bar>r\<bar> \<le> 10 ^ 7 \<longrightarrow> float64 ext r = r)"

datatype billing_error =
    ErrUsageBillingRequestIDRequired
  | ErrUsageBillingRequestConflict
  | ErrSubscriptionNotFound
  | ErrUserNotFound
  | ErrAPIKeyNotFound
  | ErrAccountNotFound
  | ErrBatchImageInsufficientBalance
  | ErrBatchImageSettlementCostExceedsHold
  | ErrFrozenInsufficient
  | ErrDatabase

section \<open>Usage\<close>

record usage_command =
  uc_request_id :: string
  uc_api_key_id :: int
  uc_request_fingerprint :: string
  uc_request_payload_hash :: string
  uc_user_id :: int
  uc_account_id :: int
  uc_subscription_id :: "int option"
  uc_account_type :: string
  uc_model :: string
  uc_service_tier :: string
  uc_reasoning_effort :: string
  uc_billing_type :: int
  uc_input_tokens :: int
  uc_output_tokens :: int
  uc_cache_creation_tokens :: int
  uc_cache_read_tokens :: int
  uc_image_count :: int
  uc_media_type :: string
  uc_balance_cost :: rat
  uc_subscription_cost :: rat
  uc_api_key_quota_cost :: rat
  uc_api_key_rate_limit_cost :: rat
  uc_account_quota_cost :: rat

record account_quota_state =
  TotalUsed :: rat
  TotalLimit :: rat
  DailyUsed :: rat
  DailyLimit :: rat
  WeeklyUsed :: rat
  WeeklyLimit :: rat

record usage_result =
  ur_applied :: bool
  ur_api_key_quota_exhausted :: bool
  ur_new_balance :: "rat option"
  ur_balance_overdrafted :: bool
  ur_quota_state :: "account_quota_state option"

definition no_usage_result :: usage_result where
  "no_usage_result =
     \<lparr>ur_applied = False, ur_api_key_quota_exhausted = False, ur_new_balance = None,
      ur_balance_overdrafted = False, ur_quota_state = None\<rparr>"

text \<open>\<open>strings.Join\<close>; the format strings below are fields separated by bars.\<close>

fun Join :: "string \<Rightarrow> string list \<Rightarrow> string" where
  "Join sep [] = []"
| "Join sep [x] = x"
| "Join sep (x # y # ys) = x @ sep @ Join sep (y # ys)"

definition with_payload_hash :: "string \<Rightarrow> string \<Rightarrow> string" where
  "with_payload_hash raw hash = (if TrimSpace hash \<noteq> [] then raw @ ''|'' @ TrimSpace hash else raw)"

definition valueOrZero :: "int option \<Rightarrow> int" where
  "valueOrZero v = (case v of None \<Rightarrow> 0 | Some x \<Rightarrow> x)"

definition buildUsageBillingFingerprint :: "billing_ext \<Rightarrow> usage_command \<Rightarrow> string" where
  "buildUsageBillingFingerprint ext c =
     sha256_hex ext (with_payload_hash
       (Join ''|''
         [Itoa (uc_user_id c), Itoa (uc_account_id c), Itoa (uc_api_key_id c),
          TrimSpace (uc_account_type c), TrimSpace (uc_model c), TrimSpace (uc_service_tier c),
          TrimSpace (uc_reasoning_effort c), Itoa (uc_billing_type c), Itoa (uc_input_tokens c),
          Itoa (uc_output_tokens c), Itoa (uc_cache_creation_tokens c), Itoa (uc_cache_read_tokens c),
          Itoa (uc_image_count c), TrimSpace (uc_media_type c), Itoa (valueOrZero (uc_subscription_id c)),
          fmt_cost ext (uc_balance_cost c), fmt_cost ext (uc_subscription_cost c),
          fmt_cost ext (uc_api_key_quota_cost c), fmt_cost ext (uc_api_key_rate_limit_cost c),
          fmt_cost ext (uc_account_quota_cost c)])
       (uc_request_payload_hash c))"

text \<open>
  The decimal library rounds half away from zero, as a column of eight decimals does. Amounts are
  finite: a NaN or an infinity, which the function returns as it is, is no rational.
\<close>

definition QuantizeUsageBillingAmount :: "billing_ext \<Rightarrow> rat \<Rightarrow> rat" where
  "QuantizeUsageBillingAmount ext v = (if v = 0 then v else float64 ext (column 8 v))"

definition quantizeMonetaryFields :: "billing_ext \<Rightarrow> usage_command \<Rightarrow> usage_command" where
  "quantizeMonetaryFields ext c =
     c\<lparr>uc_balance_cost := QuantizeUsageBillingAmount ext (uc_balance_cost c),
       uc_subscription_cost := QuantizeUsageBillingAmount ext (uc_subscription_cost c),
       uc_api_key_quota_cost := QuantizeUsageBillingAmount ext (uc_api_key_quota_cost c),
       uc_api_key_rate_limit_cost := QuantizeUsageBillingAmount ext (uc_api_key_rate_limit_cost c),
       uc_account_quota_cost := QuantizeUsageBillingAmount ext (uc_account_quota_cost c)\<rparr>"

definition Normalize_usage :: "billing_ext \<Rightarrow> usage_command \<Rightarrow> usage_command" where
  "Normalize_usage ext c =
     (let c1 = c\<lparr>uc_request_id := TrimSpace (uc_request_id c)\<rparr>;
          c2 = (if TrimSpace (uc_request_fingerprint c1) = []
                then c1\<lparr>uc_request_fingerprint := buildUsageBillingFingerprint ext c1\<rparr> else c1)
      in quantizeMonetaryFields ext c2)"

section \<open>Held balances\<close>

record hold_command =
  hc_request_id :: string
  hc_api_key_id :: int
  hc_request_fingerprint :: string
  hc_request_payload_hash :: string
  hc_user_id :: int
  hc_batch_id :: string
  hc_hold_amount :: rat
  hc_actual_amount :: rat

record hold_result =
  hr_applied :: bool
  hr_new_balance :: "rat option"
  hr_frozen_balance :: "rat option"

definition no_hold_result :: hold_result where
  "no_hold_result = \<lparr>hr_applied = False, hr_new_balance = None, hr_frozen_balance = None\<rparr>"

definition buildBatchImageBalanceHoldFingerprint :: "billing_ext \<Rightarrow> hold_command \<Rightarrow> string" where
  "buildBatchImageBalanceHoldFingerprint ext c =
     sha256_hex ext (with_payload_hash
       (Join ''|''
         [Itoa (hc_user_id c), Itoa (hc_api_key_id c), TrimSpace (hc_batch_id c),
          fmt_cost ext (hc_hold_amount c), fmt_cost ext (hc_actual_amount c)])
       (hc_request_payload_hash c))"

definition Normalize_hold :: "billing_ext \<Rightarrow> hold_command \<Rightarrow> hold_command" where
  "Normalize_hold ext c =
     (let c1 = c\<lparr>hc_request_id := TrimSpace (hc_request_id c), hc_batch_id := TrimSpace (hc_batch_id c)\<rparr>
      in if TrimSpace (hc_request_fingerprint c1) = []
         then c1\<lparr>hc_request_fingerprint := buildBatchImageBalanceHoldFingerprint ext c1\<rparr> else c1)"

definition BatchImageHoldRequestID :: "string \<Rightarrow> string" where
  "BatchImageHoldRequestID batchID = ''batch_image_hold:'' @ TrimSpace batchID"

definition BatchImageCaptureRequestID :: "string \<Rightarrow> string" where
  "BatchImageCaptureRequestID batchID = ''batch_image_capture:'' @ TrimSpace batchID"

definition BatchImageReleaseRequestID :: "string \<Rightarrow> string" where
  "BatchImageReleaseRequestID batchID = ''batch_image_release:'' @ TrimSpace batchID"

section \<open>Facts about the commands\<close>

lemma Normalize_usage_simps [simp]:
  "uc_api_key_id (Normalize_usage ext c) = uc_api_key_id c"
  "uc_user_id (Normalize_usage ext c) = uc_user_id c"
  "uc_account_id (Normalize_usage ext c) = uc_account_id c"
  "uc_account_type (Normalize_usage ext c) = uc_account_type c"
  "uc_subscription_id (Normalize_usage ext c) = uc_subscription_id c"
  "uc_request_id (Normalize_usage ext c) = TrimSpace (uc_request_id c)"
  "uc_balance_cost (Normalize_usage ext c) = QuantizeUsageBillingAmount ext (uc_balance_cost c)"
  "uc_subscription_cost (Normalize_usage ext c) = QuantizeUsageBillingAmount ext (uc_subscription_cost c)"
  "uc_api_key_quota_cost (Normalize_usage ext c) = QuantizeUsageBillingAmount ext (uc_api_key_quota_cost c)"
  "uc_api_key_rate_limit_cost (Normalize_usage ext c) =
     QuantizeUsageBillingAmount ext (uc_api_key_rate_limit_cost c)"
  "uc_account_quota_cost (Normalize_usage ext c) = QuantizeUsageBillingAmount ext (uc_account_quota_cost c)"
  by (simp_all add: Normalize_usage_def quantizeMonetaryFields_def Let_def)

lemma Normalize_hold_simps [simp]:
  "hc_api_key_id (Normalize_hold ext c) = hc_api_key_id c"
  "hc_user_id (Normalize_hold ext c) = hc_user_id c"
  "hc_batch_id (Normalize_hold ext c) = TrimSpace (hc_batch_id c)"
  "hc_request_id (Normalize_hold ext c) = TrimSpace (hc_request_id c)"
  "hc_hold_amount (Normalize_hold ext c) = hc_hold_amount c"
  "hc_actual_amount (Normalize_hold ext c) = hc_actual_amount c"
  by (simp_all add: Normalize_hold_def Let_def)

lemma quantized_scaled:
  assumes "float64_exact ext" "\<bar>v\<bar> < 10 ^ 7"
  shows "scaled (QuantizeUsageBillingAmount ext v)" "v \<noteq> 0 \<Longrightarrow> QuantizeUsageBillingAmount ext v = column 8 v"
proof -
  have "\<bar>column 8 v\<bar> \<le> 10 ^ 7" using column_bound [of v "10 ^ 7" 8] assms(2) by simp
  then show eq: "v \<noteq> 0 \<Longrightarrow> QuantizeUsageBillingAmount ext v = column 8 v"
    using assms(1) column_scaled by (simp add: QuantizeUsageBillingAmount_def float64_exact_def)
  show "scaled (QuantizeUsageBillingAmount ext v)"
    by (cases "v = 0") (use eq column_scaled in \<open>simp_all add: QuantizeUsageBillingAmount_def\<close>)
qed

end
