(* ===== verification/Billing_Store.thy ===== *)
theory Billing_Store
  imports Billing_Types Shared_Database
begin

text \<open>
  The tables of the usage ledger and the statements of \<open>repository/usage_billing_repo.go\<close>, with the
  round that moves old keys to the archive (\<open>repository/dashboard_aggregation_repo.go\<close>). A row that is
  soft-deleted is absent. \<open>NOW()\<close> is an argument, in microseconds. A statement that fails for another
  reason than the ones below (a value too long, a malformed number in the JSON of an account) is a
  fault of the database.
\<close>

section \<open>Tables\<close>

record dedup_row =
  dd_request_id :: string
  dd_api_key_id :: int
  dd_fingerprint :: string
  dd_created_at :: int

record bill_user =
  bu_balance :: rat
  bu_frozen :: rat

record bill_key =
  bk_quota :: rat
  bk_quota_used :: rat
  bk_status :: string
  bk_usage_5h :: rat
  bk_usage_1d :: rat
  bk_usage_7d :: rat
  bk_window_5h :: "int option"
  bk_window_1d :: "int option"
  bk_window_7d :: "int option"

record bill_sub =
  bs_group :: int
  bs_daily :: rat
  bs_weekly :: rat
  bs_monthly :: rat

text \<open>The entries of the JSON column \<open>accounts.extra\<close> about one period, and the others in use.\<close>

record period_quota =
  pq_limit :: "rat option"
  pq_used :: "rat option"
  pq_start :: "int option"
  pq_reset_mode :: "string option"
  pq_reset_at :: "int option"
  pq_reset_hour :: "int option"
  pq_reset_day :: "int option"

record account_extra =
  ae_quota_used :: "rat option"
  ae_quota_limit :: "rat option"
  ae_daily :: period_quota
  ae_weekly :: period_quota
  ae_reset_timezone :: "string option"

record bill_db =
  dedup :: "dedup_row list"
  archive :: "dedup_row list"
  b_users :: "int \<Rightarrow> bill_user option"
  b_keys :: "int \<Rightarrow> bill_key option"
  b_subs :: "int \<Rightarrow> bill_sub option"
  b_groups :: "int \<Rightarrow> bool"
  b_accounts :: "int \<Rightarrow> account_extra option"
  b_outbox :: "int list"

definition StatusAPIKeyActive :: string where "StatusAPIKeyActive = ''active''"
definition StatusAPIKeyQuotaExhausted :: string where "StatusAPIKeyQuotaExhausted = ''quota_exhausted''"

text \<open>
  Statements of one transaction: the first error ends it. They work on any database that has these
  tables (a record scheme), so that a component with tables of its own can use the ledger.
\<close>

type_synonym ('x, 'a) tx = "'x bill_db_scheme \<Rightarrow> (billing_error + 'a) \<times> 'x bill_db_scheme"

definition tx_then :: "('x, 'a) tx \<Rightarrow> ('a \<Rightarrow> ('x, 'b) tx) \<Rightarrow> ('x, 'b) tx" where
  "tx_then m f d = (case m d of (Inl e, d') \<Rightarrow> (Inl e, d') | (Inr a, d') \<Rightarrow> f a d')"

section \<open>Claims\<close>

definition has_claim :: "string \<Rightarrow> int \<Rightarrow> dedup_row \<Rightarrow> bool" where
  "has_claim rid kid r \<longleftrightarrow> dd_request_id r = rid \<and> dd_api_key_id r = kid"

definition same_fingerprint :: "dedup_row \<Rightarrow> string \<Rightarrow> (billing_error + bool)" where
  "same_fingerprint r fp =
     (if TrimSpace (dd_fingerprint r) \<noteq> TrimSpace fp then Inl ErrUsageBillingRequestConflict
      else Inr False)"

definition claimUsageBillingRequest :: "string \<Rightarrow> int \<Rightarrow> string \<Rightarrow> int \<Rightarrow> ('x, bool) tx" where
  "claimUsageBillingRequest rid kid fp now d =
     (case find (has_claim rid kid) (dedup d) of
        Some r \<Rightarrow> (same_fingerprint r fp, d)
      | None \<Rightarrow>
          let d' = d\<lparr>dedup := dedup d @ [\<lparr>dd_request_id = rid, dd_api_key_id = kid,
                                           dd_fingerprint = fp, dd_created_at = now\<rparr>]\<rparr>
          in case find (has_claim rid kid) (archive d') of
               Some r \<Rightarrow> (same_fingerprint r fp, d')
             | None \<Rightarrow> (Inr True, d'))"

definition batchImageHoldClaimExists :: "string \<Rightarrow> int \<Rightarrow> 'x bill_db_scheme \<Rightarrow> bool" where
  "batchImageHoldClaimExists rid kid d \<longleftrightarrow>
     find (has_claim rid kid) (dedup d) \<noteq> None \<or> find (has_claim rid kid) (archive d) \<noteq> None"

section \<open>Balances\<close>

text \<open>\<open>UPDATE users SET \<dots> WHERE id = \<dots> AND deleted_at IS NULL AND \<dots> RETURNING \<dots>\<close>\<close>

definition update_user ::
  "int \<Rightarrow> (bill_user \<Rightarrow> bool) \<Rightarrow> (bill_user \<Rightarrow> bill_user) \<Rightarrow>
   'x bill_db_scheme \<Rightarrow> bill_user option \<times> 'x bill_db_scheme" where
  "update_user uid p f d =
     (case b_users d uid of
        None \<Rightarrow> (None, d)
      | Some u \<Rightarrow> if p u then (Some (f u), d\<lparr>b_users := (b_users d)(uid \<mapsto> f u)\<rparr>) else (None, d))"

definition userExistsForBilling :: "int \<Rightarrow> 'x bill_db_scheme \<Rightarrow> bool" where
  "userExistsForBilling uid d \<longleftrightarrow> b_users d uid \<noteq> None"

definition deductUsageBillingBalance :: "billing_ext \<Rightarrow> int \<Rightarrow> rat \<Rightarrow> ('x, rat \<times> bool) tx" where
  "deductUsageBillingBalance ext uid amount d =
     (let deduct = (\<lambda>u. u\<lparr>bu_balance := column 8 (bu_balance u - amount)\<rparr>) in
      case update_user uid (\<lambda>u. bu_balance u \<ge> amount) deduct d of
        (Some u, d') \<Rightarrow> (Inr (float64 ext (bu_balance u), True), d')
      | (None, _) \<Rightarrow>
          (case update_user uid (\<lambda>_. True) deduct d of
             (Some u, d') \<Rightarrow> (Inr (float64 ext (bu_balance u), False), d')
           | (None, _) \<Rightarrow> (Inl ErrUserNotFound, d)))"

definition hold_reply :: "billing_ext \<Rightarrow> bill_user \<Rightarrow> hold_result" where
  "hold_reply ext u =
     \<lparr>hr_applied = False, hr_new_balance = Some (float64 ext (bu_balance u)),
      hr_frozen_balance = Some (float64 ext (bu_frozen u))\<rparr>"

definition reserveUsageBillingBatchImageBalance :: "billing_ext \<Rightarrow> hold_command \<Rightarrow> ('x, hold_result) tx" where
  "reserveUsageBillingBatchImageBalance ext c d =
     (if hc_hold_amount c \<le> 0 then (Inr no_hold_result, d)
      else case update_user (hc_user_id c) (\<lambda>u. bu_balance u \<ge> hc_hold_amount c)
             (\<lambda>u. u\<lparr>bu_balance := column 8 (bu_balance u - hc_hold_amount c),
                    bu_frozen := column 8 (bu_frozen u + hc_hold_amount c)\<rparr>) d of
        (Some u, d') \<Rightarrow> (Inr (hold_reply ext u), d')
      | (None, _) \<Rightarrow>
          (Inl (if userExistsForBilling (hc_user_id c) d then ErrBatchImageInsufficientBalance
                else ErrUserNotFound), d))"

definition captureUsageBillingBatchImageBalance :: "billing_ext \<Rightarrow> hold_command \<Rightarrow> ('x, hold_result) tx" where
  "captureUsageBillingBatchImageBalance ext c d =
     (if hc_hold_amount c \<le> 0 \<and> hc_actual_amount c \<le> 0 then (Inr no_hold_result, d)
      else if float_sub ext (hc_actual_amount c) (hc_hold_amount c) > 1 / 10 ^ 8
      then (Inl ErrBatchImageSettlementCostExceedsHold, d)
      else case update_user (hc_user_id c) (\<lambda>u. bu_frozen u \<ge> hc_hold_amount c)
             (\<lambda>u. u\<lparr>bu_balance := column 8 (bu_balance u
                      + (if hc_hold_amount c > hc_actual_amount c
                         then hc_hold_amount c - hc_actual_amount c else 0)
                      - (if hc_actual_amount c > hc_hold_amount c
                         then hc_actual_amount c - hc_hold_amount c else 0)),
                    bu_frozen := column 8 (bu_frozen u - hc_hold_amount c)\<rparr>) d of
        (Some u, d') \<Rightarrow> (Inr (hold_reply ext u), d')
      | (None, _) \<Rightarrow>
          (Inl (if userExistsForBilling (hc_user_id c) d then ErrFrozenInsufficient
                else ErrUserNotFound), d))"

definition releaseUsageBillingBatchImageBalance :: "billing_ext \<Rightarrow> hold_command \<Rightarrow> ('x, hold_result) tx" where
  "releaseUsageBillingBatchImageBalance ext c d =
     (if hc_hold_amount c \<le> 0 then (Inr no_hold_result, d)
      else if \<not> batchImageHoldClaimExists (BatchImageHoldRequestID (hc_batch_id c)) (hc_api_key_id c) d
      then (Inr no_hold_result, d)
      else case update_user (hc_user_id c) (\<lambda>u. bu_frozen u \<ge> hc_hold_amount c)
             (\<lambda>u. u\<lparr>bu_balance := column 8 (bu_balance u + hc_hold_amount c),
                    bu_frozen := column 8 (bu_frozen u - hc_hold_amount c)\<rparr>) d of
        (Some u, d') \<Rightarrow> (Inr (hold_reply ext u), d')
      | (None, _) \<Rightarrow>
          (Inl (if userExistsForBilling (hc_user_id c) d then ErrFrozenInsufficient
                else ErrUserNotFound), d))"

section \<open>Subscriptions and API keys\<close>

definition incrementUsageBillingSubscription :: "int \<Rightarrow> rat \<Rightarrow> ('x, unit) tx" where
  "incrementUsageBillingSubscription sid cost d =
     (case b_subs d sid of
        None \<Rightarrow> (Inl ErrSubscriptionNotFound, d)
      | Some s \<Rightarrow>
          if b_groups d (bs_group s)
          then (Inr (), d\<lparr>b_subs := (b_subs d)(sid \<mapsto>
                  s\<lparr>bs_daily := column 10 (bs_daily s + cost), bs_weekly := column 10 (bs_weekly s + cost),
                    bs_monthly := column 10 (bs_monthly s + cost)\<rparr>)\<rparr>)
          else (Inl ErrSubscriptionNotFound, d))"

definition incrementUsageBillingAPIKeyQuota :: "int \<Rightarrow> rat \<Rightarrow> ('x, bool) tx" where
  "incrementUsageBillingAPIKeyQuota kid amount d =
     (case b_keys d kid of
        None \<Rightarrow> (Inl ErrAPIKeyNotFound, d)
      | Some k \<Rightarrow>
          let used = column 8 (bk_quota_used k + amount);
              status = (if bk_quota k > 0 \<and> bk_status k = StatusAPIKeyActive \<and>
                           bk_quota_used k < bk_quota k \<and> bk_quota_used k + amount \<ge> bk_quota k
                        then StatusAPIKeyQuotaExhausted else bk_status k)
          in (Inr (bk_quota k > 0 \<and> used \<ge> bk_quota k \<and> used - amount < bk_quota k),
              d\<lparr>b_keys := (b_keys d)(kid \<mapsto> k\<lparr>bk_quota_used := used, bk_status := status\<rparr>)\<rparr>))"

definition hours :: "int \<Rightarrow> int" where
  "hours n = n * (3600 * 10 ^ 6)"

definition day_of :: "int \<Rightarrow> int" where
  "day_of local = local - local mod hours 24"

text \<open>\<open>date_trunc('day', NOW())\<close> truncates in the zone of the session.\<close>

definition today :: "billing_ext \<Rightarrow> int \<Rightarrow> int" where
  "today ext now = to_instant ext (session_zone ext) (day_of (to_local ext (session_zone ext) now))"

definition window_over :: "int option \<Rightarrow> int \<Rightarrow> int \<Rightarrow> bool" where
  "window_over start len now \<longleftrightarrow> (case start of None \<Rightarrow> False | Some t \<Rightarrow> t + len \<le> now)"

definition window_usage :: "int option \<Rightarrow> int \<Rightarrow> int \<Rightarrow> rat \<Rightarrow> rat \<Rightarrow> rat" where
  "window_usage start len now used cost = column 8 (if window_over start len now then cost else used + cost)"

definition window_start :: "int option \<Rightarrow> int \<Rightarrow> int \<Rightarrow> int \<Rightarrow> int option" where
  "window_start start len now fresh =
     (if start = None \<or> window_over start len now then Some fresh else start)"

definition incrementUsageBillingAPIKeyRateLimit :: "billing_ext \<Rightarrow> int \<Rightarrow> rat \<Rightarrow> int \<Rightarrow> ('x, unit) tx" where
  "incrementUsageBillingAPIKeyRateLimit ext kid cost now d =
     (case b_keys d kid of
        None \<Rightarrow> (Inl ErrAPIKeyNotFound, d)
      | Some k \<Rightarrow>
          (Inr (), d\<lparr>b_keys := (b_keys d)(kid \<mapsto>
             k\<lparr>bk_usage_5h := window_usage (bk_window_5h k) (hours 5) now (bk_usage_5h k) cost,
               bk_usage_1d := window_usage (bk_window_1d k) (hours 24) now (bk_usage_1d k) cost,
               bk_usage_7d := window_usage (bk_window_7d k) (hours 168) now (bk_usage_7d k) cost,
               bk_window_5h := window_start (bk_window_5h k) (hours 5) now now,
               bk_window_1d := window_start (bk_window_1d k) (hours 24) now (today ext now),
               bk_window_7d := window_start (bk_window_7d k) (hours 168) now (today ext now)\<rparr>)\<rparr>))"

end
