(* ===== verification/Billing_Repository.thy ===== *)
theory Billing_Repository
  imports Billing_Store
begin

text \<open>
  The operations of \<open>repository/usage_billing_repo.go\<close>, each of them one transaction over the shared
  database: \<open>Apply\<close> bills a request, the three others hold, capture and release the price of a batch of
  images. Then the cleanup that moves old claims to the archive, a round at a time.
\<close>

section \<open>Quotas of an account\<close>

definition coalesce :: "'a option \<Rightarrow> 'a \<Rightarrow> 'a" where
  "coalesce x y = (case x of None \<Rightarrow> y | Some v \<Rightarrow> v)"

definition fixed_mode :: "period_quota \<Rightarrow> bool" where
  "fixed_mode q \<longleftrightarrow> coalesce (pq_reset_mode q) ''rolling'' = ''fixed''"

text \<open>\<open>dailyExpiredExpr\<close> and \<open>weeklyExpiredExpr\<close>, which differ in the length of the period.\<close>

definition periodExpired :: "billing_ext \<Rightarrow> int \<Rightarrow> period_quota \<Rightarrow> int \<Rightarrow> bool" where
  "periodExpired ext len q now \<longleftrightarrow>
     (let epoch = to_instant ext (session_zone ext) 0 in
      if fixed_mode q then now \<ge> coalesce (pq_reset_at q) epoch
      else coalesce (pq_start q) epoch + len \<le> now)"

definition whole_seconds :: "int \<Rightarrow> int" where
  "whole_seconds t = t - t mod 10 ^ 6"

definition nextDailyResetAt :: "billing_ext \<Rightarrow> string \<Rightarrow> period_quota \<Rightarrow> int \<Rightarrow> int option" where
  "nextDailyResetAt ext zone q now =
     (if fixed_mode q
      then let point = day_of (to_local ext zone now) + hours (coalesce (pq_reset_hour q) 0) in
           Some (whole_seconds
             (if now \<ge> to_instant ext zone point then to_instant ext zone (point + hours 24)
              else to_instant ext zone point))
      else None)"

text \<open>\<open>EXTRACT(DOW \<dots>)\<close>; the day zero was a Thursday.\<close>

definition day_of_week :: "int \<Rightarrow> int" where
  "day_of_week local = (local div hours 24 + 4) mod 7"

definition nextWeeklyResetAt :: "billing_ext \<Rightarrow> string \<Rightarrow> period_quota \<Rightarrow> int \<Rightarrow> int option" where
  "nextWeeklyResetAt ext zone q now =
     (if fixed_mode q
      then let local = to_local ext zone now;
               point = day_of local + hours (coalesce (pq_reset_hour q) 0);
               ahead = coalesce (pq_reset_day q) 1 - day_of_week local + 7;
               forward = ahead - 7 * tdiv ahead 7 in
           Some (whole_seconds
             (if forward = 0 \<and> now \<ge> to_instant ext zone point
              then to_instant ext zone (point + hours 168)
              else to_instant ext zone (point + hours (24 * forward))))
      else None)"

definition bump_period ::
  "billing_ext \<Rightarrow> int \<Rightarrow> int option \<Rightarrow> period_quota \<Rightarrow> rat \<Rightarrow> int \<Rightarrow> period_quota" where
  "bump_period ext len nextReset q amount now =
     (if coalesce (pq_limit q) 0 > 0
      then let expired = periodExpired ext len q now;
               q' = q\<lparr>pq_used := Some (if expired then amount else coalesce (pq_used q) 0 + amount),
                      pq_start := Some (if expired then now else coalesce (pq_start q) now)\<rparr>
           in if expired \<and> nextReset \<noteq> None then q'\<lparr>pq_reset_at := nextReset\<rparr> else q'
      else q)"

definition increment_extra :: "billing_ext \<Rightarrow> rat \<Rightarrow> int \<Rightarrow> account_extra \<Rightarrow> account_extra" where
  "increment_extra ext amount now e =
     (let zone = coalesce (ae_reset_timezone e) ''UTC'' in
      e\<lparr>ae_quota_used := Some (coalesce (ae_quota_used e) 0 + amount),
        ae_daily := bump_period ext (hours 24) (nextDailyResetAt ext zone (ae_daily e) now) (ae_daily e) amount now,
        ae_weekly := bump_period ext (hours 168) (nextWeeklyResetAt ext zone (ae_weekly e) now) (ae_weekly e) amount now\<rparr>)"

definition quota_state :: "billing_ext \<Rightarrow> account_extra \<Rightarrow> account_quota_state" where
  "quota_state ext e =
     (let num = (\<lambda>x. float64 ext (coalesce x 0)) in
      \<lparr>TotalUsed = num (ae_quota_used e), TotalLimit = num (ae_quota_limit e),
       DailyUsed = num (pq_used (ae_daily e)), DailyLimit = num (pq_limit (ae_daily e)),
       WeeklyUsed = num (pq_used (ae_weekly e)), WeeklyLimit = num (pq_limit (ae_weekly e))\<rparr>)"

definition crossed :: "billing_ext \<Rightarrow> rat \<Rightarrow> rat \<Rightarrow> rat \<Rightarrow> bool" where
  "crossed ext limit used amount \<longleftrightarrow> limit > 0 \<and> used \<ge> limit \<and> float_sub ext used amount < limit"

text \<open>
  \<open>enqueueSchedulerOutbox\<close> for the event that an account changed: the key of the event is unique among
  those that wait, so that one event per account does.
\<close>

definition enqueueAccountChanged :: "int \<Rightarrow> 'x bill_db_scheme \<Rightarrow> 'x bill_db_scheme" where
  "enqueueAccountChanged aid d =
     (if aid \<in> set (b_outbox d) then d else d\<lparr>b_outbox := b_outbox d @ [aid]\<rparr>)"

definition incrementUsageBillingAccountQuota ::
  "billing_ext \<Rightarrow> int \<Rightarrow> rat \<Rightarrow> int \<Rightarrow> ('x, account_quota_state) tx" where
  "incrementUsageBillingAccountQuota ext aid amount now d =
     (case b_accounts d aid of
        None \<Rightarrow> (Inl ErrAccountNotFound, d)
      | Some e \<Rightarrow>
          let e' = increment_extra ext amount now e;
              s = quota_state ext e';
              d' = d\<lparr>b_accounts := (b_accounts d)(aid \<mapsto> e')\<rparr>
          in (Inr s,
              if crossed ext (TotalLimit s) (TotalUsed s) amount \<or>
                 crossed ext (DailyLimit s) (DailyUsed s) amount \<or>
                 crossed ext (WeeklyLimit s) (WeeklyUsed s) amount
              then enqueueAccountChanged aid d' else d'))"

section \<open>Apply\<close>

definition bill_subscription :: "usage_command \<Rightarrow> ('x, unit) tx" where
  "bill_subscription c =
     (case uc_subscription_id c of
        Some sid \<Rightarrow>
          if uc_subscription_cost c > 0 then incrementUsageBillingSubscription sid (uc_subscription_cost c)
          else Pair (Inr ())
      | None \<Rightarrow> Pair (Inr ()))"

definition bill_balance :: "billing_ext \<Rightarrow> usage_command \<Rightarrow> usage_result \<Rightarrow> ('x, usage_result) tx" where
  "bill_balance ext c r =
     (if uc_balance_cost c > 0
      then tx_then (deductUsageBillingBalance ext (uc_user_id c) (uc_balance_cost c))
             (\<lambda>(newBalance, sufficient). Pair (Inr (r\<lparr>ur_new_balance := Some newBalance,
                                                      ur_balance_overdrafted := \<not> sufficient\<rparr>)))
      else Pair (Inr r))"

definition bill_key_quota :: "usage_command \<Rightarrow> usage_result \<Rightarrow> ('x, usage_result) tx" where
  "bill_key_quota c r =
     (if uc_api_key_quota_cost c > 0
      then tx_then (incrementUsageBillingAPIKeyQuota (uc_api_key_id c) (uc_api_key_quota_cost c))
             (\<lambda>exhausted. Pair (Inr (r\<lparr>ur_api_key_quota_exhausted := exhausted\<rparr>)))
      else Pair (Inr r))"

definition bill_key_rate :: "billing_ext \<Rightarrow> usage_command \<Rightarrow> int \<Rightarrow> ('x, unit) tx" where
  "bill_key_rate ext c now =
     (if uc_api_key_rate_limit_cost c > 0
      then incrementUsageBillingAPIKeyRateLimit ext (uc_api_key_id c) (uc_api_key_rate_limit_cost c) now
      else Pair (Inr ()))"

definition bill_account :: "billing_ext \<Rightarrow> usage_command \<Rightarrow> int \<Rightarrow> usage_result \<Rightarrow> ('x, usage_result) tx" where
  "bill_account ext c now r =
     (if uc_account_quota_cost c > 0 \<and>
         (EqualFold (uc_account_type c) ''apikey'' \<or> EqualFold (uc_account_type c) ''bedrock'')
      then tx_then (incrementUsageBillingAccountQuota ext (uc_account_id c) (uc_account_quota_cost c) now)
             (\<lambda>s. Pair (Inr (r\<lparr>ur_quota_state := Some s\<rparr>)))
      else Pair (Inr r))"

definition applyUsageBillingEffects :: "billing_ext \<Rightarrow> usage_command \<Rightarrow> int \<Rightarrow> ('x, usage_result) tx" where
  "applyUsageBillingEffects ext c now =
     tx_then (bill_subscription c) (\<lambda>_.
     tx_then (bill_balance ext c (no_usage_result\<lparr>ur_applied := True\<rparr>)) (\<lambda>r.
     tx_then (bill_key_quota c r) (\<lambda>r.
     tx_then (bill_key_rate ext c now) (\<lambda>_.
     bill_account ext c now r))))"

text \<open>
  A transaction that claims the key first. When the key is taken already it ends without a commit,
  which is no error.
\<close>

datatype tx_stop = AlreadyApplied | Stopped billing_error

definition claimed_tx ::
  "string \<Rightarrow> int \<Rightarrow> string \<Rightarrow> (int \<Rightarrow> ('x, 'a) tx) \<Rightarrow> int \<Rightarrow>
   'x bill_db_scheme \<Rightarrow> (tx_stop + 'a) \<times> 'x bill_db_scheme" where
  "claimed_tx rid kid fp effects now d =
     (case claimUsageBillingRequest rid kid fp now d of
        (Inl e, d') \<Rightarrow> (Inl (Stopped e), d')
      | (Inr False, d') \<Rightarrow> (Inl AlreadyApplied, d')
      | (Inr True, d') \<Rightarrow>
          (case effects now d' of (Inl e, d'') \<Rightarrow> (Inl (Stopped e), d'') | (Inr a, d'') \<Rightarrow> (Inr a, d'')))"

definition claimed_transaction ::
  "string \<Rightarrow> int \<Rightarrow> string \<Rightarrow> 'a \<Rightarrow> (int \<Rightarrow> ('x, 'a) tx) \<Rightarrow>
   (('x bill_db_scheme, 'z) shared_scheme, billing_error + 'a) state" where
  "claimed_transaction rid kid fp nothing effects = do {
     r \<leftarrow> transaction (claimed_tx rid kid fp effects);
     State_Monad.return (case r of
       Inl None \<Rightarrow> Inl ErrDatabase
     | Inl (Some AlreadyApplied) \<Rightarrow> Inr nothing
     | Inl (Some (Stopped e)) \<Rightarrow> Inl e
     | Inr a \<Rightarrow> Inr a)}"

definition Apply ::
  "billing_ext \<Rightarrow> usage_command \<Rightarrow>
   (('x bill_db_scheme, 'z) shared_scheme, billing_error + usage_result) state" where
  "Apply ext cmd =
     (let c = Normalize_usage ext cmd in
      if uc_request_id c = [] then State_Monad.return (Inl ErrUsageBillingRequestIDRequired)
      else claimed_transaction (uc_request_id c) (uc_api_key_id c) (uc_request_fingerprint c) no_usage_result
             (applyUsageBillingEffects ext c))"

section \<open>Held balances\<close>

definition applyBatchImageBalanceHold ::
  "billing_ext \<Rightarrow> hold_command \<Rightarrow> (hold_command \<Rightarrow> ('x, hold_result) tx) \<Rightarrow>
   (('x bill_db_scheme, 'z) shared_scheme, billing_error + hold_result) state" where
  "applyBatchImageBalanceHold ext cmd apply =
     (let c = Normalize_hold ext cmd in
      if hc_request_id c = [] then State_Monad.return (Inl ErrUsageBillingRequestIDRequired)
      else claimed_transaction (hc_request_id c) (hc_api_key_id c) (hc_request_fingerprint c) no_hold_result
             (\<lambda>now. tx_then (apply c) (\<lambda>r. Pair (Inr (r\<lparr>hr_applied := True\<rparr>)))))"

definition ReserveBatchImageBalance ::
  "billing_ext \<Rightarrow> hold_command \<Rightarrow>
   (('x bill_db_scheme, 'z) shared_scheme, billing_error + hold_result) state" where
  "ReserveBatchImageBalance ext cmd =
     applyBatchImageBalanceHold ext cmd (reserveUsageBillingBatchImageBalance ext)"

definition CaptureBatchImageBalance ::
  "billing_ext \<Rightarrow> hold_command \<Rightarrow>
   (('x bill_db_scheme, 'z) shared_scheme, billing_error + hold_result) state" where
  "CaptureBatchImageBalance ext cmd =
     applyBatchImageBalanceHold ext cmd (captureUsageBillingBatchImageBalance ext)"

definition ReleaseBatchImageBalance ::
  "billing_ext \<Rightarrow> hold_command \<Rightarrow>
   (('x bill_db_scheme, 'z) shared_scheme, billing_error + hold_result) state" where
  "ReleaseBatchImageBalance ext cmd =
     applyBatchImageBalanceHold ext cmd (releaseUsageBillingBatchImageBalance ext)"

section \<open>Cleanup of old claims\<close>

text \<open>
  One statement moves at most \<open>n\<close> old rows to the archive; which ones, when there are more, is left to
  the database, and the model takes the first. A row whose key the archive has already is dropped.
\<close>

definition archive_old :: "int \<Rightarrow> nat \<Rightarrow> 'x bill_db_scheme \<Rightarrow> nat \<times> 'x bill_db_scheme" where
  "archive_old cutoff n d =
     (let old = (\<lambda>r. dd_created_at r < cutoff);
          victims = take n (filter old (dedup d));
          fresh = filter (\<lambda>r. \<not> (\<exists>a \<in> set (archive d). has_claim (dd_request_id r) (dd_api_key_id r) a)) victims
      in (length victims,
          d\<lparr>dedup := filter (\<lambda>r. r \<notin> set victims) (dedup d), archive := archive d @ fresh\<rparr>))"

definition usageBillingDedupCleanupBatchSize :: nat where
  "usageBillingDedupCleanupBatchSize = 10000"

text \<open>
  The loop ends with a round that finds fewer rows than a full batch. The fuel bounds the number of
  rounds; \<open>None\<close> is a loop that has not ended.
\<close>

fun CleanupUsageBillingDedup ::
  "nat \<Rightarrow> int \<Rightarrow> (('x bill_db_scheme, 'z) shared_scheme, (unit + unit) option) state" where
  "CleanupUsageBillingDedup 0 cutoff = State_Monad.return None"
| "CleanupUsageBillingDedup (Suc n) cutoff = do {
     r \<leftarrow> call (\<lambda>_. archive_old cutoff usageBillingDedupCleanupBatchSize);
     (case r of
        Inl _ \<Rightarrow> State_Monad.return (Some (Inl ()))
      | Inr affected \<Rightarrow>
          if affected < usageBillingDedupCleanupBatchSize then State_Monad.return (Some (Inr ()))
          else CleanupUsageBillingDedup n cutoff)}"

end
