(* ===== verification/Billing_Demo.thy ===== *)
theory Billing_Demo
  imports Billing_Repository
begin

text \<open>
  A small ledger for the witnesses of the theorems: a user with ten dollars, a key with five of which
  three are used, and one request that costs three. Then the commands for a batch of images.
\<close>

definition demo_ext :: billing_ext where
  "demo_ext = \<lparr>sha256_hex = (\<lambda>s. s), fmt_cost = (\<lambda>_. ''0''), float64 = (\<lambda>r. r), float_sub = (-),
     to_local = (\<lambda>_ t. t), to_instant = (\<lambda>_ t. t), session_zone = ''UTC''\<rparr>"

definition demo_key :: bill_key where
  "demo_key = \<lparr>bk_quota = 5, bk_quota_used = 3, bk_status = ''active'', bk_usage_5h = 0, bk_usage_1d = 0,
     bk_usage_7d = 0, bk_window_5h = None, bk_window_1d = None, bk_window_7d = None\<rparr>"

definition bill_demo_db :: bill_db where
  "bill_demo_db = \<lparr>dedup = [], archive = [], b_users = [1 \<mapsto> \<lparr>bu_balance = 10, bu_frozen = 0\<rparr>],
     b_keys = [7 \<mapsto> demo_key], b_subs = Map.empty, b_groups = (\<lambda>_. False), b_accounts = Map.empty, b_outbox = []\<rparr>"

definition bill_world :: "bill_db event list \<Rightarrow> bill_db shared" where
  "bill_world es = \<lparr>db = bill_demo_db, schedule = es, clock = 1000\<rparr>"

definition lost_reply :: "bill_db event" where
  "lost_reply = \<lparr>ev_fault = LostReply, ev_elapsed = 0, ev_others = (\<lambda>d. d)\<rparr>"

definition demo_usage :: usage_command where
  "demo_usage = \<lparr>uc_request_id = ''r1'', uc_api_key_id = 7, uc_request_fingerprint = ''f1'',
     uc_request_payload_hash = [], uc_user_id = 1, uc_account_id = 9, uc_subscription_id = None,
     uc_account_type = ''oauth'', uc_model = ''m'', uc_service_tier = [], uc_reasoning_effort = [],
     uc_billing_type = 0, uc_input_tokens = 1, uc_output_tokens = 1, uc_cache_creation_tokens = 0,
     uc_cache_read_tokens = 0, uc_image_count = 0, uc_media_type = [], uc_balance_cost = 3,
     uc_subscription_cost = 0, uc_api_key_quota_cost = 3, uc_api_key_rate_limit_cost = 0,
     uc_account_quota_cost = 0\<rparr>"

definition demo_hold :: "string \<Rightarrow> rat \<Rightarrow> hold_command" where
  "demo_hold rid actual = \<lparr>hc_request_id = rid, hc_api_key_id = 7, hc_request_fingerprint = ''f2'',
     hc_request_payload_hash = [], hc_user_id = 1, hc_batch_id = ''b'', hc_hold_amount = 4,
     hc_actual_amount = actual\<rparr>"

lemma demo_trim [simp]:
  "TrimSpace ''r1'' = ''r1''" "TrimSpace ''f1'' = ''f1''" "TrimSpace ''f2'' = ''f2''" "TrimSpace ''b'' = ''b''"
  "TrimSpace ''batch_image_hold:b'' = ''batch_image_hold:b''"
  "TrimSpace ''batch_image_capture:b'' = ''batch_image_capture:b''"
  "TrimSpace ''batch_image_release:b'' = ''batch_image_release:b''"
  by code_simp+

lemma demo_exact [simp]: "float64_exact demo_ext"
  by (simp add: float64_exact_def demo_ext_def)

lemma demo_numbers [simp]:
  "column 8 (numeral n) = numeral n" "column 8 1 = 1" "column 8 0 = 0" "scaled (numeral n)" "scaled 1"
proof -
  have s: "scaled (numeral n)" "scaled 1" by (simp_all add: scaled_def)
  then show "column 8 (numeral n) = numeral n" "column 8 1 = 1" "scaled (numeral n)" "scaled 1"
    by (simp_all add: column_id)
  show "column 8 0 = 0" by (simp add: column_def)
qed

lemma demo_quantize [simp]:
  "QuantizeUsageBillingAmount demo_ext (numeral n) = numeral n" "QuantizeUsageBillingAmount demo_ext 0 = 0"
  by (simp_all add: QuantizeUsageBillingAmount_def) (simp add: demo_ext_def)

definition demo_billed :: bill_db where
  "demo_billed = bill_demo_db\<lparr>dedup := [\<lparr>dd_request_id = ''r1'', dd_api_key_id = 7, dd_fingerprint = ''f1'',
       dd_created_at = 1000\<rparr>],
     b_users := [1 \<mapsto> \<lparr>bu_balance = 7, bu_frozen = 0\<rparr>],
     b_keys := [7 \<mapsto> demo_key\<lparr>bk_quota_used := 6, bk_status := ''quota_exhausted''\<rparr>]\<rparr>"

definition demo_result :: usage_result where
  "demo_result = \<lparr>ur_applied = True, ur_api_key_quota_exhausted = True, ur_new_balance = Some 7,
     ur_balance_overdrafted = False, ur_quota_state = None\<rparr>"

lemma demo_claimed_tx:
  "claimed_tx ''r1'' 7 ''f1'' (applyUsageBillingEffects demo_ext (Normalize_usage demo_ext demo_usage)) 1000 bill_demo_db
     = (Inr demo_result, demo_billed)"
  by (simp add: claimed_tx_def claimUsageBillingRequest_def applyUsageBillingEffects_def bill_subscription_def
      bill_balance_def bill_key_quota_def bill_key_rate_def bill_account_def tx_then_def Let_def bill_demo_db_def
      demo_usage_def demo_billed_def demo_result_def demo_key_def deductUsageBillingBalance_def update_user_def
      incrementUsageBillingAPIKeyQuota_def no_usage_result_def StatusAPIKeyActive_def
      StatusAPIKeyQuotaExhausted_def) (simp add: demo_ext_def)

lemma demo_fingerprint [simp]: "uc_request_fingerprint (Normalize_usage demo_ext demo_usage) = ''f1''"
  by (simp add: Normalize_usage_def quantizeMonetaryFields_def demo_usage_def Let_def)

lemma demo_usage_simps [simp]:
  "uc_request_id demo_usage = ''r1''" "uc_api_key_id demo_usage = 7" "uc_user_id demo_usage = 1"
  "uc_balance_cost demo_usage = 3" "uc_api_key_quota_cost demo_usage = 3"
  by (simp_all add: demo_usage_def)

lemma demo_Apply:
  "run_state (Apply demo_ext demo_usage) (bill_world []) = (Inr demo_result, (bill_world [])\<lparr>db := demo_billed\<rparr>)"
  "run_state (Apply demo_ext demo_usage) (bill_world [lost_reply]) =
     (Inl ErrDatabase, (bill_world [])\<lparr>db := demo_billed\<rparr>)"
  by (simp_all add: Apply_def claimed_transaction_def transaction_def run_call_def next_event_def calm_def Let_def
      all_or_nothing_def bill_world_def demo_claimed_tx lost_reply_def)

lemma demo_Apply_again:
  "run_state (Apply demo_ext demo_usage) ((bill_world [])\<lparr>db := demo_billed\<rparr>) =
     (Inr no_usage_result, (bill_world [])\<lparr>db := demo_billed\<rparr>)"
  by (simp add: Apply_def claimed_transaction_def transaction_def run_call_def next_event_def calm_def Let_def
      all_or_nothing_def bill_world_def claimed_tx_def claimUsageBillingRequest_def demo_billed_def has_claim_def
      same_fingerprint_def)

text \<open>Four dollars are held for the batch \<open>b\<close>.\<close>

definition demo_reserve :: hold_command where "demo_reserve = demo_hold ''batch_image_hold:b'' 0"
definition demo_release :: hold_command where "demo_release = demo_hold ''batch_image_release:b'' 0"
definition demo_capture :: "rat \<Rightarrow> hold_command" where "demo_capture = demo_hold ''batch_image_capture:b''"

definition demo_held :: bill_db where
  "demo_held = bill_demo_db\<lparr>dedup := [\<lparr>dd_request_id = ''batch_image_hold:b'', dd_api_key_id = 7,
       dd_fingerprint = ''f2'', dd_created_at = 1000\<rparr>],
     b_users := [1 \<mapsto> \<lparr>bu_balance = 6, bu_frozen = 4\<rparr>]\<rparr>"

definition held_reply :: hold_result where
  "held_reply = \<lparr>hr_applied = True, hr_new_balance = Some 6, hr_frozen_balance = Some 4\<rparr>"

lemma demo_Reserve:
  "run_state (ReserveBatchImageBalance demo_ext demo_reserve) (bill_world []) =
     (Inr held_reply, (bill_world [])\<lparr>db := demo_held\<rparr>)"
  by (simp add: ReserveBatchImageBalance_def applyBatchImageBalanceHold_def claimed_transaction_def transaction_def
      run_call_def next_event_def calm_def Let_def all_or_nothing_def bill_world_def claimed_tx_def
      claimUsageBillingRequest_def reserveUsageBillingBatchImageBalance_def update_user_def tx_then_def
      demo_reserve_def demo_hold_def Normalize_hold_def bill_demo_db_def demo_held_def held_reply_def hold_reply_def)
    (simp add: demo_ext_def)

text \<open>What evaluates the operations on held balances.\<close>

lemmas hold_run_defs =
  ReserveBatchImageBalance_def CaptureBatchImageBalance_def ReleaseBatchImageBalance_def
  applyBatchImageBalanceHold_def claimed_transaction_def transaction_def run_call_def next_event_def calm_def
  all_or_nothing_def claimed_tx_def claimUsageBillingRequest_def
  reserveUsageBillingBatchImageBalance_def captureUsageBillingBatchImageBalance_def
  releaseUsageBillingBatchImageBalance_def userExistsForBilling_def batchImageHoldClaimExists_def
  update_user_def tx_then_def Normalize_hold_def hold_reply_def same_fingerprint_def has_claim_def
  no_hold_result_def BatchImageHoldRequestID_def

end
