(* ===== verification/Billing_Ledger.thy ===== *)
theory Billing_Ledger
  imports Billing_Demo
begin

text \<open>
  What a transaction of the ledger does to the claims and to the money of the users: nothing, or all of
  it under a key that was free. The first part is about single statements and transactions, the second
  about the tables as a whole (\<open>bill_ok\<close>): keys are unique and every amount has the scale of its column.
\<close>

section \<open>Claims\<close>

definition row_claim :: "dedup_row \<Rightarrow> string \<times> int" where
  "row_claim r = (dd_request_id r, dd_api_key_id r)"

definition claim_list :: "'x bill_db_scheme \<Rightarrow> (string \<times> int) list" where
  "claim_list d = map row_claim (dedup d @ archive d)"

definition claims :: "'x bill_db_scheme \<Rightarrow> (string \<times> int) set" where
  "claims d = set (claim_list d)"

lemma has_claim_iff: "has_claim rid kid r \<longleftrightarrow> row_claim r = (rid, kid)"
  by (auto simp: has_claim_def row_claim_def)

lemma find_claim_None: "find (has_claim rid kid) rs = None \<longleftrightarrow> (rid, kid) \<notin> row_claim ` set rs"
  by (auto simp: find_None has_claim_iff image_iff)

lemma claims_eq: "claims d = row_claim ` set (dedup d) \<union> row_claim ` set (archive d)"
  by (auto simp: claims_def claim_list_def)

lemma hold_claim_exists: "batchImageHoldClaimExists rid kid d \<longleftrightarrow> (rid, kid) \<in> claims d"
  by (auto simp: batchImageHoldClaimExists_def claims_eq find_claim_None)

text \<open>A key that is free is claimed by one new row; a key that is taken is not, and nothing is billed.\<close>

definition new_claim :: "string \<Rightarrow> int \<Rightarrow> string \<Rightarrow> int \<Rightarrow> 'x bill_db_scheme \<Rightarrow> 'x bill_db_scheme" where
  "new_claim rid kid fp now d =
     d\<lparr>dedup := dedup d @ [\<lparr>dd_request_id = rid, dd_api_key_id = kid, dd_fingerprint = fp,
                            dd_created_at = now\<rparr>]\<rparr>"

lemma new_claim_simps [simp]:
  "archive (new_claim rid kid fp now d) = archive d" "b_users (new_claim rid kid fp now d) = b_users d"
  "b_keys (new_claim rid kid fp now d) = b_keys d" "b_subs (new_claim rid kid fp now d) = b_subs d"
  "b_groups (new_claim rid kid fp now d) = b_groups d"
  "b_accounts (new_claim rid kid fp now d) = b_accounts d"
  "claims (new_claim rid kid fp now d) = insert (rid, kid) (claims d)"
  by (auto simp: new_claim_def claims_eq row_claim_def)

lemma claim_free:
  "(rid, kid) \<notin> claims d \<Longrightarrow> claimUsageBillingRequest rid kid fp now d = (Inr True, new_claim rid kid fp now d)"
  using find_claim_None [of rid kid "dedup d"] find_claim_None [of rid kid "archive d"]
  by (simp add: claimUsageBillingRequest_def new_claim_def claims_eq)

lemma claim_taken:
  assumes "(rid, kid) \<in> claims d"
  obtains r where "r \<in> set (dedup d) \<union> set (archive d)" "row_claim r = (rid, kid)"
    "fst (claimUsageBillingRequest rid kid fp now d) = same_fingerprint r fp"
proof (cases "find (has_claim rid kid) (dedup d)")
  case None
  then have "find (has_claim rid kid) (archive d) \<noteq> None"
    using assms find_claim_None by (auto simp: claims_eq)
  then obtain r where r: "find (has_claim rid kid) (archive d) = Some r" by blast
  then show thesis
    using None find_Some_in [OF r] by (intro that) (auto simp: claimUsageBillingRequest_def has_claim_iff)
next
  case (Some r)
  then show thesis
    using find_Some_in [OF Some] by (intro that) (auto simp: claimUsageBillingRequest_def has_claim_iff)
qed

lemma claim_True: "fst (claimUsageBillingRequest rid kid fp now d) = Inr True \<longleftrightarrow> (rid, kid) \<notin> claims d"
proof (cases "(rid, kid) \<in> claims d")
  case True
  then show ?thesis by (rule claim_taken [of _ _ _ fp now]) (auto simp: same_fingerprint_def True)
qed (simp add: claim_free)

section \<open>Transactions\<close>

text \<open>The outcomes of the body of a transaction, and those of the transaction among others.\<close>

lemma claimed_tx_Inr:
  "claimed_tx rid kid fp effects now d = (Inr a, d') \<longleftrightarrow>
     (rid, kid) \<notin> claims d \<and> effects now (new_claim rid kid fp now d) = (Inr a, d')"
proof (cases "(rid, kid) \<in> claims d")
  case True
  then have "fst (claimUsageBillingRequest rid kid fp now d) \<noteq> Inr True" by (simp add: claim_True)
  then show ?thesis using True by (auto simp: claimed_tx_def split: prod.splits sum.splits bool.splits)
qed (auto simp: claimed_tx_def claim_free split: prod.splits sum.splits)

lemma claimed_tx_AlreadyApplied:
  "fst (claimed_tx rid kid fp effects now d) = Inl AlreadyApplied \<longleftrightarrow>
     fst (claimUsageBillingRequest rid kid fp now d) = Inr False"
  by (auto simp: claimed_tx_def split: prod.splits sum.splits bool.splits)

definition seen_by :: "('x bill_db_scheme, 'z) shared_scheme \<Rightarrow> 'x bill_db_scheme" where
  "seen_by w = ev_others (next_event w) (db w)"

definition time_of :: "('x bill_db_scheme, 'z) shared_scheme \<Rightarrow> int" where
  "time_of w = clock w + int (ev_elapsed (next_event w))"

lemma claimed_transaction_cases:
  assumes "run_state (claimed_transaction rid kid fp nothing effects) w = (r, w')"
  obtains
    (unchanged) "db w' = seen_by w"
      "\<forall>a. r = Inr a \<longrightarrow> a = nothing \<and>
         fst (claimUsageBillingRequest rid kid fp (time_of w) (seen_by w)) = Inr False"
  | (applied) a where "(rid, kid) \<notin> claims (seen_by w)"
      "effects (time_of w) (new_claim rid kid fp (time_of w) (seen_by w)) = (Inr a, db w')"
      "r = Inr a \<or> r = Inl ErrDatabase"
proof -
  let ?body = "claimed_tx rid kid fp effects (time_of w) (seen_by w)"
  have w': "fst ?body = Inl e \<Longrightarrow> db w' = seen_by w" for e
    using assms by (auto simp: claimed_transaction_def transaction_def run_call_def Let_def all_or_nothing_def
        seen_by_def time_of_def split: fault.splits prod.splits)
  show thesis
  proof (cases "fst ?body")
    case (Inl e)
    have "\<forall>a. r = Inr a \<longrightarrow> a = nothing \<and>
        fst (claimUsageBillingRequest rid kid fp (time_of w) (seen_by w)) = Inr False"
      using assms Inl claimed_tx_AlreadyApplied [of rid kid fp effects "time_of w" "seen_by w"]
      by (auto simp: claimed_transaction_def transaction_def run_call_def Let_def all_or_nothing_def
          seen_by_def time_of_def split: fault.splits prod.splits tx_stop.splits)
    with w' [OF Inl] show thesis by (rule unchanged)
  next
    case (Inr a)
    then obtain d' where body: "?body = (Inr a, d')" by (cases ?body) auto
    then consider "r = Inr a" "db w' = d'" | "r = Inl ErrDatabase" "db w' = d'"
      | "r = Inl ErrDatabase" "db w' = seen_by w"
      using assms by (auto simp: claimed_transaction_def transaction_def run_call_def Let_def all_or_nothing_def
          seen_by_def time_of_def split: fault.splits)
    then show thesis
    proof cases
      case 3
      show thesis by (rule unchanged) (use 3 in simp_all)
    qed (use body in \<open>auto simp: claimed_tx_Inr intro: applied\<close>)
  qed
qed

lemma claimed_transaction_world:
  assumes "run_state (claimed_transaction rid kid fp nothing effects) w = (r, w')"
  shows "schedule w' = tl (schedule w)"
  using assms by (auto simp: claimed_transaction_def transaction_def run_call_def Let_def split: fault.splits)

section \<open>What transactions keep\<close>

text \<open>\<open>keeps G m\<close>: a transaction body that succeeds relates the tables before and after it by \<open>G\<close>.\<close>

definition keeps :: "('x bill_db_scheme \<Rightarrow> 'x bill_db_scheme \<Rightarrow> bool) \<Rightarrow> ('x, 'a) tx \<Rightarrow> bool" where
  "keeps G m \<longleftrightarrow> (\<forall>d a d'. m d = (Inr a, d') \<longrightarrow> G d d')"

lemma keepsI: "(\<And>d a d'. m d = (Inr a, d') \<Longrightarrow> G d d') \<Longrightarrow> keeps G m"
  by (auto simp: keeps_def)

lemma keepsD: "keeps G m \<Longrightarrow> m d = (Inr a, d') \<Longrightarrow> G d d'"
  by (auto simp: keeps_def)

lemma tx_then_Inr:
  "tx_then m f d = (Inr b, d'') \<longleftrightarrow> (\<exists>a d'. m d = (Inr a, d') \<and> f a d' = (Inr b, d''))"
  by (auto simp: tx_then_def split: prod.splits sum.splits)

locale tx_guarantee = guarantee G for G :: "'x bill_db_scheme \<Rightarrow> 'x bill_db_scheme \<Rightarrow> bool"
begin

lemma keeps_Pair: "keeps G (Pair x)"
  by (auto intro: keepsI refl)

lemma keeps_then: "keeps G m \<Longrightarrow> (\<And>a. keeps G (f a)) \<Longrightarrow> keeps G (tx_then m f)"
  by (rule keepsI) (auto simp: tx_then_Inr intro: trans dest: keepsD)

lemma keeps_effects:
  assumes "\<And>sid. keeps G (incrementUsageBillingSubscription sid (uc_subscription_cost c))"
    and "keeps G (deductUsageBillingBalance ext (uc_user_id c) (uc_balance_cost c))"
    and "\<And>kid. keeps G (incrementUsageBillingAPIKeyQuota kid (uc_api_key_quota_cost c))"
    and "\<And>kid. keeps G (incrementUsageBillingAPIKeyRateLimit ext kid (uc_api_key_rate_limit_cost c) now)"
    and "\<And>aid. keeps G (incrementUsageBillingAccountQuota ext aid (uc_account_quota_cost c) now)"
  shows "keeps G (applyUsageBillingEffects ext c now)"
  unfolding applyUsageBillingEffects_def bill_subscription_def bill_balance_def bill_key_quota_def
    bill_key_rate_def bill_account_def
  using assms by (auto intro!: keeps_then keeps_Pair split: option.splits)

text \<open>Then the whole operation respects the relation, among others that do.\<close>

lemma claimed_transaction_obeys:
  assumes "\<And>d now. (rid, kid) \<notin> claims d \<Longrightarrow> G d (new_claim rid kid fp now d)" "\<And>now. keeps G (effects now)"
  shows "obeys G (\<lambda>_. True) (claimed_transaction rid kid fp nothing effects) (\<lambda>_ _. True)"
  unfolding claimed_transaction_def
  by (intro obeys_bind [OF obeys_transaction] obeys_return stable_True TrueI)
    (auto simp: claimed_tx_Inr intro: trans [OF assms(1) keepsD [OF assms(2)]])

end

text \<open>Everything but the balance leaves the users alone, and no effect touches the claims.\<close>

definition apart_from_users :: "'x bill_db_scheme \<Rightarrow> 'x bill_db_scheme \<Rightarrow> bool" where
  "apart_from_users d d' \<longleftrightarrow> dedup d' = dedup d \<and> archive d' = archive d \<and> b_users d' = b_users d"

interpretation apart: tx_guarantee apart_from_users
  by unfold_locales (auto simp: apart_from_users_def)

lemma subscription_apart: "keeps apart_from_users (incrementUsageBillingSubscription sid cost)"
  by (rule keepsI)
    (auto simp: incrementUsageBillingSubscription_def apart_from_users_def split: option.splits if_splits)

lemma key_quota_apart: "keeps apart_from_users (incrementUsageBillingAPIKeyQuota kid cost)"
  by (rule keepsI)
    (auto simp: incrementUsageBillingAPIKeyQuota_def apart_from_users_def Let_def split: option.splits)

lemma key_rate_apart: "keeps apart_from_users (incrementUsageBillingAPIKeyRateLimit ext kid cost now)"
  by (rule keepsI)
    (auto simp: incrementUsageBillingAPIKeyRateLimit_def apart_from_users_def split: option.splits)

lemma account_quota_apart: "keeps apart_from_users (incrementUsageBillingAccountQuota ext aid cost now)"
  by (rule keepsI)
    (auto simp: incrementUsageBillingAccountQuota_def apart_from_users_def enqueueAccountChanged_def Let_def
      split: option.splits if_splits)

lemma deduct_Inr:
  assumes "deductUsageBillingBalance ext uid amount d = (Inr a, d')"
  obtains u where "b_users d uid = Some u"
    "d' = d\<lparr>b_users := (b_users d)(uid \<mapsto> u\<lparr>bu_balance := column 8 (bu_balance u - amount)\<rparr>)\<rparr>"
    "a = (float64 ext (column 8 (bu_balance u - amount)), bu_balance u \<ge> amount)"
  using assms
  by (auto simp: deductUsageBillingBalance_def update_user_def Let_def split: option.splits if_splits)

definition charged :: "usage_command \<Rightarrow> 'x bill_db_scheme \<Rightarrow> (int \<Rightarrow> bill_user option)" where
  "charged c d =
     (if uc_balance_cost c > 0
      then (b_users d)(uc_user_id c := map_option
             (\<lambda>u. u\<lparr>bu_balance := column 8 (bu_balance u - uc_balance_cost c)\<rparr>) (b_users d (uc_user_id c)))
      else b_users d)"

lemma bill_balance_Inr:
  assumes "bill_balance ext c r d = (Inr a, d')"
  shows "dedup d' = dedup d \<and> archive d' = archive d \<and> b_users d' = charged c d \<and>
    (uc_balance_cost c > 0 \<longrightarrow> b_users d (uc_user_id c) \<noteq> None)"
  using assms
  by (auto simp: bill_balance_def tx_then_Inr charged_def elim!: deduct_Inr split: if_splits)

lemma effects_users:
  assumes "applyUsageBillingEffects ext c now d = (Inr r, d')"
  shows "dedup d' = dedup d \<and> archive d' = archive d \<and> b_users d' = charged c d \<and>
    (uc_balance_cost c > 0 \<longrightarrow> b_users d (uc_user_id c) \<noteq> None)"
proof -
  from assms obtain a1 d1 a2 d2 where 1: "bill_subscription c d = (Inr a1, d1)"
    and 2: "bill_balance ext c (no_usage_result\<lparr>ur_applied := True\<rparr>) d1 = (Inr a2, d2)"
    and 3: "tx_then (bill_key_quota c a2) (\<lambda>r. tx_then (bill_key_rate ext c now) (\<lambda>_. bill_account ext c now r)) d2
              = (Inr r, d')"
    unfolding applyUsageBillingEffects_def tx_then_Inr by blast
  have "keeps apart_from_users (bill_subscription c)"
    unfolding bill_subscription_def
    by (auto intro: subscription_apart apart.keeps_Pair split: option.splits)
  from keepsD [OF this 1] have d1: "apart_from_users d d1" .
  have "keeps apart_from_users
      (tx_then (bill_key_quota c a2) (\<lambda>r. tx_then (bill_key_rate ext c now) (\<lambda>_. bill_account ext c now r)))"
    unfolding bill_key_quota_def bill_key_rate_def bill_account_def
    by (auto intro!: apart.keeps_then apart.keeps_Pair key_quota_apart key_rate_apart account_quota_apart)
  from keepsD [OF this 3] have d': "apart_from_users d2 d'" .
  show ?thesis using d1 d' bill_balance_Inr [OF 2] by (simp add: apart_from_users_def charged_def)
qed

end
