(* ===== verification/Billing_Service.thy ===== *)
theory Billing_Service
  imports Billing_Ledger
begin

text \<open>
  The usage ledger as a service: any operations one after another, among others that use the same
  database, with statements and replies lost. The tables stay well-formed; every key is billed at most
  once, and the money of a user changes by what the committed operations cost; an answer tells whether
  the operation was billed.
\<close>

section \<open>Operations\<close>

datatype bill_op =
    UsageOp usage_command
  | ReserveOp hold_command
  | CaptureOp hold_command
  | ReleaseOp hold_command
  | ArchiveOp int

datatype bill_reply =
    UsageReply "billing_error + usage_result"
  | HoldReply "billing_error + hold_result"
  | ArchiveReply "(unit + unit) option"

fun bill_perform :: "billing_ext \<Rightarrow> bill_op \<Rightarrow> (('x bill_db_scheme, 'z) shared_scheme, bill_reply) state" where
  "bill_perform ext (UsageOp c) = do { r \<leftarrow> Apply ext c; State_Monad.return (UsageReply r) }"
| "bill_perform ext (ReserveOp c) =
     do { r \<leftarrow> ReserveBatchImageBalance ext c; State_Monad.return (HoldReply r) }"
| "bill_perform ext (CaptureOp c) =
     do { r \<leftarrow> CaptureBatchImageBalance ext c; State_Monad.return (HoldReply r) }"
| "bill_perform ext (ReleaseOp c) =
     do { r \<leftarrow> ReleaseBatchImageBalance ext c; State_Monad.return (HoldReply r) }"
| "bill_perform ext (ArchiveOp cutoff) =
     do { r \<leftarrow> CleanupUsageBillingDedup 1 cutoff; State_Monad.return (ArchiveReply r) }"

fun bill_history :: "billing_ext \<Rightarrow> bill_op list \<Rightarrow> (('x bill_db_scheme, 'z) shared_scheme, bill_reply list) state" where
  "bill_history ext [] = State_Monad.return []"
| "bill_history ext (x # xs) =
     do { r \<leftarrow> bill_perform ext x; rs \<leftarrow> bill_history ext xs; State_Monad.return (r # rs) }"

section \<open>Well-formed tables\<close>

definition user_ok :: "bill_user \<Rightarrow> bool" where
  "user_ok u \<longleftrightarrow> scaled (bu_balance u) \<and> scaled (bu_frozen u)"

definition key_ok :: "bill_key \<Rightarrow> bool" where
  "key_ok k \<longleftrightarrow>
     scaled (bk_quota_used k) \<and> scaled (bk_usage_5h k) \<and> scaled (bk_usage_1d k) \<and> scaled (bk_usage_7d k)"

definition subscription_ok :: "bill_sub \<Rightarrow> bool" where
  "subscription_ok s \<longleftrightarrow> on_scale 10 (bs_daily s) \<and> on_scale 10 (bs_weekly s) \<and> on_scale 10 (bs_monthly s)"

definition bill_ok :: "'x bill_db_scheme \<Rightarrow> bool" where
  "bill_ok d \<longleftrightarrow>
     distinct (claim_list d) \<and> distinct (b_outbox d) \<and>
     (\<forall>i u. b_users d i = Some u \<longrightarrow> user_ok u) \<and> (\<forall>i k. b_keys d i = Some k \<longrightarrow> key_ok k) \<and>
     (\<forall>i s. b_subs d i = Some s \<longrightarrow> subscription_ok s)"

definition bill_typed :: "'x bill_db_scheme \<Rightarrow> 'x bill_db_scheme \<Rightarrow> bool" where
  "bill_typed d d' \<longleftrightarrow> (bill_ok d \<longrightarrow> bill_ok d')"

interpretation typed: tx_guarantee bill_typed
  by unfold_locales (auto simp: bill_typed_def)

lemma claim_list_update [simp]:
  "claim_list (d\<lparr>b_users := us\<rparr>) = claim_list d" "claim_list (d\<lparr>b_keys := ks\<rparr>) = claim_list d"
  "claim_list (d\<lparr>b_subs := ss\<rparr>) = claim_list d" "claim_list (d\<lparr>b_accounts := as\<rparr>) = claim_list d"
  "claim_list (d\<lparr>b_outbox := os\<rparr>) = claim_list d"
  by (simp_all add: claim_list_def)

lemma typed_claim: "(rid, kid) \<notin> claims d \<Longrightarrow> bill_typed d (new_claim rid kid fp now d)"
  by (auto simp: bill_typed_def bill_ok_def new_claim_def claim_list_def claims_def row_claim_def)

lemma typed_user:
  assumes "update_user uid p f d = (r, d')" "\<And>u. user_ok u \<Longrightarrow> user_ok (f u)"
  shows "bill_typed d d'"
  using assms
  by (auto simp: update_user_def bill_typed_def bill_ok_def split: option.splits if_splits)

lemma user_ok_column [simp]:
  "user_ok u \<Longrightarrow> user_ok (u\<lparr>bu_balance := column 8 a\<rparr>)"
  "user_ok (u\<lparr>bu_balance := column 8 a, bu_frozen := column 8 b\<rparr>)"
  by (simp_all add: user_ok_def column_scaled)

lemma typed_subscription: "keeps bill_typed (incrementUsageBillingSubscription sid cost)"
  by (rule keepsI)
    (auto simp: incrementUsageBillingSubscription_def bill_typed_def bill_ok_def subscription_ok_def
      split: option.splits if_splits)

lemma typed_deduct: "keeps bill_typed (deductUsageBillingBalance ext uid amount)"
  by (rule keepsI)
    (auto simp: deductUsageBillingBalance_def Let_def split: prod.splits option.splits elim!: typed_user)

lemma typed_key_quota: "keeps bill_typed (incrementUsageBillingAPIKeyQuota kid amount)"
  by (rule keepsI)
    (auto simp: incrementUsageBillingAPIKeyQuota_def bill_typed_def bill_ok_def key_ok_def
      column_scaled Let_def split: option.splits if_splits)

lemma typed_key_rate: "keeps bill_typed (incrementUsageBillingAPIKeyRateLimit ext kid cost now)"
  by (rule keepsI)
    (auto simp: incrementUsageBillingAPIKeyRateLimit_def bill_typed_def bill_ok_def key_ok_def
      window_usage_def column_scaled split: option.splits if_splits)

lemma typed_account_quota: "keeps bill_typed (incrementUsageBillingAccountQuota ext aid amount now)"
  by (rule keepsI)
    (auto simp: incrementUsageBillingAccountQuota_def bill_typed_def bill_ok_def
      enqueueAccountChanged_def Let_def split: option.splits if_splits)

lemmas typed_effects =
  typed.keeps_effects [OF typed_subscription typed_deduct typed_key_quota typed_key_rate typed_account_quota]

lemma typed_hold:
  "keeps bill_typed (reserveUsageBillingBatchImageBalance ext c)"
  "keeps bill_typed (captureUsageBillingBatchImageBalance ext c)"
  "keeps bill_typed (releaseUsageBillingBatchImageBalance ext c)"
  by (rule keepsI; auto simp: reserveUsageBillingBatchImageBalance_def captureUsageBillingBatchImageBalance_def
      releaseUsageBillingBatchImageBalance_def typed.refl
      split: prod.splits option.splits if_splits elim!: typed_user)+

lemma archive_old_claims:
  defines "victims cutoff n d \<equiv> take n (filter (\<lambda>r. dd_created_at r < cutoff) (dedup d))"
  shows "archive_old cutoff n d = (length (victims cutoff n d),
    d\<lparr>dedup := filter (\<lambda>r. r \<notin> set (victims cutoff n d)) (dedup d),
      archive := archive d @ filter (\<lambda>r. row_claim r \<notin> row_claim ` set (archive d)) (victims cutoff n d)\<rparr>)"
proof -
  have "(\<lambda>r. \<not> (\<exists>a \<in> set (archive d). has_claim (dd_request_id r) (dd_api_key_id r) a)) =
      (\<lambda>r. row_claim r \<notin> row_claim ` set (archive d))"
    by (auto simp: fun_eq_iff has_claim_iff row_claim_def image_iff)
  then show ?thesis by (simp add: archive_old_def victims_def Let_def)
qed

text \<open>Moving rows from one list of claims to another keeps the keys.\<close>

lemma move_claims:
  assumes "distinct (map row_claim (new @ old))" "set moved \<subseteq> set new" "distinct moved"
  shows "distinct (map row_claim (filter (\<lambda>r. r \<notin> set moved) new
           @ old @ filter (\<lambda>r. row_claim r \<notin> row_claim ` set old) moved))"
proof -
  have inj: "inj_on row_claim (set new)" using assms(1) by (simp add: distinct_map)
  have m: "distinct (map row_claim moved)"
    using assms(2,3) inj by (auto simp: distinct_map intro: inj_on_subset)
  let ?A = "filter (\<lambda>r. r \<notin> set moved) new"
  let ?M = "filter (\<lambda>r. row_claim r \<notin> row_claim ` set old) moved"
  have "row_claim ` (set new - set moved) \<inter> row_claim ` set moved = {}"
    using inj_on_image_set_diff [OF inj, of "set new" "set moved"] assms(2) by blast
  moreover have "row_claim ` set ?A = row_claim ` (set new - set moved)" by (simp add: set_diff_eq)
  moreover have "row_claim ` set ?M \<subseteq> row_claim ` set moved" by auto
  ultimately have AM: "row_claim ` set ?A \<inter> row_claim ` set ?M = {}" by blast
  have new: "row_claim ` set new \<inter> row_claim ` set old = {}" "distinct (map row_claim new)"
    "distinct (map row_claim old)"
    using assms(1) by auto
  have "row_claim ` set ?A \<subseteq> row_claim ` set new" by auto
  then have AO: "row_claim ` set ?A \<inter> row_claim ` set old = {}" using new(1) by blast
  have "row_claim ` set old \<inter> row_claim ` set ?M = {}" by auto
  with AM AO new distinct_map_filter [OF m] distinct_map_filter [OF new(2)] show ?thesis
    unfolding map_append distinct_append set_append set_map by (simp only: Int_Un_distrib) simp
qed

lemma typed_archive: "bill_typed d (snd (archive_old cutoff n d))"
proof -
  let ?v = "take n (filter (\<lambda>r. dd_created_at r < cutoff) (dedup d))"
  have "distinct (claim_list (snd (archive_old cutoff n d)))" if "distinct (claim_list d)"
  proof -
    have "set ?v \<subseteq> set (dedup d)" by (auto dest: in_set_takeD)
    moreover have "distinct ?v" using that by (simp add: claim_list_def distinct_map)
    ultimately show ?thesis
      using move_claims [of "dedup d" "archive d" ?v] that unfolding archive_old_claims claim_list_def
      by simp
  qed
  then show ?thesis by (auto simp: bill_typed_def bill_ok_def archive_old_def Let_def)
qed

lemmas bill_op_defs =
  Apply_def applyBatchImageBalanceHold_def ReserveBatchImageBalance_def CaptureBatchImageBalance_def
  ReleaseBatchImageBalance_def

lemma typed_perform: "obeys bill_typed (\<lambda>_. True) (bill_perform ext x) (\<lambda>_ _. True)"
proof (cases x)
  case (ArchiveOp cutoff)
  have "obeys bill_typed (\<lambda>_. True) (call (\<lambda>_. archive_old cutoff n)) (\<lambda>_ _. True)" for n
    by (rule typed.obeys_call) (simp_all add: typed_archive)
  then show ?thesis
    unfolding ArchiveOp by (auto intro!: typed.obeys_rules simp: numeral_1_eq_Suc_0)
qed (auto simp: bill_op_defs Let_def intro!: typed.obeys_rules typed.claimed_transaction_obeys typed_claim
       typed_effects typed.keeps_then typed_hold typed.keeps_Pair)

text \<open>
  C34. The tables of the ledger stay well-formed under every history of operations: a request and a key
  are recorded once, in the claims or in their archive; an account waits at most once for the
  scheduler; every balance and every counter has the scale of its column.
\<close>

theorem billing_tables_well_formed:
  assumes "bill_ok (db w)" "rely_ok bill_typed w" "run_state (bill_history ext ops) w = (rs, w')"
  shows "bill_ok (db w')"
proof -
  have "obeys bill_typed (\<lambda>_. True) (bill_history ext ops) (\<lambda>_ _. True)"
    by (induction ops) (auto intro!: typed.obeys_rules typed_perform)
  from obeysD(2) [OF this assms(2) _ assms(3)] assms(1) show ?thesis by (simp add: bill_typed_def)
qed

section \<open>What a history costs\<close>

text \<open>The key an operation claims, and whether the operation claimed it in a given run.\<close>

fun op_claim :: "bill_op \<Rightarrow> (string \<times> int) option" where
  "op_claim (UsageOp c) = Some (TrimSpace (uc_request_id c), uc_api_key_id c)"
| "op_claim (ReserveOp c) = Some (TrimSpace (hc_request_id c), hc_api_key_id c)"
| "op_claim (CaptureOp c) = Some (TrimSpace (hc_request_id c), hc_api_key_id c)"
| "op_claim (ReleaseOp c) = Some (TrimSpace (hc_request_id c), hc_api_key_id c)"
| "op_claim (ArchiveOp _) = None"

definition committed :: "bill_op \<Rightarrow> 'x bill_db_scheme \<Rightarrow> 'x bill_db_scheme \<Rightarrow> bool" where
  "committed x d d' \<longleftrightarrow> (case op_claim x of None \<Rightarrow> False | Some k \<Rightarrow> k \<notin> claims d \<and> k \<in> claims d')"

fun ledger :: "billing_ext \<Rightarrow> bill_op list \<Rightarrow> ('x bill_db_scheme, 'z) shared_scheme \<Rightarrow> bill_op list" where
  "ledger ext [] w = []"
| "ledger ext (x # xs) w =
     (let w' = snd (run_state (bill_perform ext x) w) in
      (if committed x (db w) (db w') then [x] else []) @ ledger ext xs w')"

text \<open>
  What a committed operation takes from a user. Holding an amount and releasing it moves money between
  the balance and the frozen balance and costs nothing.
\<close>

fun op_cost :: "billing_ext \<Rightarrow> int \<Rightarrow> bill_op \<Rightarrow> rat" where
  "op_cost ext uid (UsageOp c) =
     (if uc_user_id c = uid then max 0 (QuantizeUsageBillingAmount ext (uc_balance_cost c)) else 0)"
| "op_cost ext uid (CaptureOp c) =
     (if hc_user_id c = uid \<and> \<not> (hc_hold_amount c \<le> 0 \<and> hc_actual_amount c \<le> 0)
      then hc_actual_amount c else 0)"
| "op_cost ext uid _ = 0"

definition funds :: "'x bill_db_scheme \<Rightarrow> int \<Rightarrow> rat" where
  "funds d uid = (case b_users d uid of None \<Rightarrow> 0 | Some u \<Rightarrow> bu_balance u + bu_frozen u)"

text \<open>
  Amounts that a balance can hold exactly: an amount for usage is rounded to that, the amounts of a
  batch are not.
\<close>

fun exact_amounts :: "bill_op \<Rightarrow> bool" where
  "exact_amounts (UsageOp c) \<longleftrightarrow> \<bar>uc_balance_cost c\<bar> < 10 ^ 7"
| "exact_amounts (ReserveOp c) \<longleftrightarrow> scaled (hc_hold_amount c)"
| "exact_amounts (CaptureOp c) \<longleftrightarrow> scaled (hc_hold_amount c) \<and> scaled (hc_actual_amount c)"
| "exact_amounts (ReleaseOp c) \<longleftrightarrow> scaled (hc_hold_amount c)"
| "exact_amounts (ArchiveOp _) \<longleftrightarrow> True"

text \<open>Others leave the money and the claims alone; they may move claims to the archive.\<close>

definition others_elsewhere :: "'x bill_db_scheme \<Rightarrow> 'x bill_db_scheme \<Rightarrow> bool" where
  "others_elsewhere d d' \<longleftrightarrow> claims d' = claims d \<and> b_users d' = b_users d"

interpretation elsewhere: guarantee others_elsewhere
  by unfold_locales (auto simp: others_elsewhere_def)

definition users_ok :: "'x bill_db_scheme \<Rightarrow> bool" where
  "users_ok d \<longleftrightarrow> (\<forall>i u. b_users d i = Some u \<longrightarrow> user_ok u)"

text \<open>\<open>costs f m\<close>: a body that succeeds takes \<open>f uid\<close> from every user, and leaves the claims alone.\<close>

definition costs :: "(int \<Rightarrow> rat) \<Rightarrow> ('x, 'a) tx \<Rightarrow> bool" where
  "costs f m \<longleftrightarrow>
     (\<forall>d a d'. users_ok d \<longrightarrow> m d = (Inr a, d') \<longrightarrow>
        claims d' = claims d \<and> users_ok d' \<and> (\<forall>i. funds d' i = funds d i - f i))"

lemma costs_then_Pair: "costs f m \<Longrightarrow> costs f (tx_then m (\<lambda>a. Pair (Inr (g a))))"
  by (auto simp: costs_def tx_then_Inr)

lemma costs_nothing: "costs (\<lambda>_. 0) (Pair x)"
  by (auto simp: costs_def)

lemma update_user_costs:
  assumes "update_user uid p f d = (Some v, d')" "users_ok d"
    and "\<And>u. p u \<Longrightarrow> user_ok u \<Longrightarrow> user_ok (f u) \<and>
           bu_balance (f u) + bu_frozen (f u) = bu_balance u + bu_frozen u - cost uid"
    and "\<And>i. i \<noteq> uid \<Longrightarrow> cost i = 0"
  shows "claims d' = claims d \<and> users_ok d' \<and> (\<forall>i. funds d' i = funds d i - cost i)"
proof -
  from assms(1) obtain u where u: "b_users d uid = Some u" "p u"
    and d': "d' = d\<lparr>b_users := (b_users d)(uid \<mapsto> f u)\<rparr>"
    by (auto simp: update_user_def split: option.splits if_splits)
  have "user_ok u" using assms(2) u(1) by (simp add: users_ok_def)
  note f = assms(3) [OF u(2) this]
  have "funds d' i = funds d i - cost i" for i
    using u f assms(4) [of i] by (cases "i = uid") (simp_all add: d' funds_def)
  moreover have "users_ok d'" using assms(2) f by (simp add: d' users_ok_def)
  ultimately show ?thesis by (simp add: d' claims_def)
qed

lemma reserve_costs:
  assumes "scaled (hc_hold_amount c)"
  shows "costs (\<lambda>_. 0) (reserveUsageBillingBatchImageBalance ext c)"
  unfolding costs_def
proof (intro allI impI)
  fix d a d'
  assume d: "users_ok d" and r: "reserveUsageBillingBatchImageBalance ext c d = (Inr a, d')"
  show "claims d' = claims d \<and> users_ok d' \<and> (\<forall>i. funds d' i = funds d i - 0)"
  proof (cases "hc_hold_amount c \<le> 0")
    case False
    with r obtain v where "update_user (hc_user_id c) (\<lambda>u. bu_balance u \<ge> hc_hold_amount c)
        (\<lambda>u. u\<lparr>bu_balance := column 8 (bu_balance u - hc_hold_amount c),
               bu_frozen := column 8 (bu_frozen u + hc_hold_amount c)\<rparr>) d = (Some v, d')"
      by (auto simp: reserveUsageBillingBatchImageBalance_def split: prod.splits option.splits)
    then show ?thesis
      by (rule update_user_costs [OF _ d])
        (simp_all add: user_ok_def column_id scaled_add scaled_diff assms)
  qed (use d r in \<open>auto simp: reserveUsageBillingBatchImageBalance_def\<close>)
qed

lemma release_costs:
  assumes "scaled (hc_hold_amount c)"
  shows "costs (\<lambda>_. 0) (releaseUsageBillingBatchImageBalance ext c)"
  unfolding costs_def
proof (intro allI impI)
  fix d a d'
  assume d: "users_ok d" and r: "releaseUsageBillingBatchImageBalance ext c d = (Inr a, d')"
  show "claims d' = claims d \<and> users_ok d' \<and> (\<forall>i. funds d' i = funds d i - 0)"
  proof (cases "hc_hold_amount c \<le> 0 \<or>
      \<not> batchImageHoldClaimExists (BatchImageHoldRequestID (hc_batch_id c)) (hc_api_key_id c) d")
    case False
    with r obtain v where "update_user (hc_user_id c) (\<lambda>u. bu_frozen u \<ge> hc_hold_amount c)
        (\<lambda>u. u\<lparr>bu_balance := column 8 (bu_balance u + hc_hold_amount c),
               bu_frozen := column 8 (bu_frozen u - hc_hold_amount c)\<rparr>) d = (Some v, d')"
      by (auto simp: releaseUsageBillingBatchImageBalance_def split: prod.splits option.splits)
    then show ?thesis
      by (rule update_user_costs [OF _ d])
        (simp_all add: user_ok_def column_id scaled_add scaled_diff assms)
  qed (use d r in \<open>auto simp: releaseUsageBillingBatchImageBalance_def split: if_splits\<close>)
qed

lemma op_cost_Normalize [simp]: "op_cost ext i (CaptureOp (Normalize_hold ext c)) = op_cost ext i (CaptureOp c)"
  unfolding op_cost.simps Normalize_hold_simps ..

lemma capture_costs:
  assumes "scaled (hc_hold_amount c)" "scaled (hc_actual_amount c)"
  shows "costs (\<lambda>i. op_cost ext i (CaptureOp c)) (captureUsageBillingBatchImageBalance ext c)"
  unfolding costs_def
proof (intro allI impI)
  fix d a d'
  assume d: "users_ok d" and r: "captureUsageBillingBatchImageBalance ext c d = (Inr a, d')"
  show "claims d' = claims d \<and> users_ok d' \<and> (\<forall>i. funds d' i = funds d i - op_cost ext i (CaptureOp c))"
  proof (cases "hc_hold_amount c \<le> 0 \<and> hc_actual_amount c \<le> 0")
    case False
    with r obtain v where "update_user (hc_user_id c) (\<lambda>u. bu_frozen u \<ge> hc_hold_amount c)
        (\<lambda>u. u\<lparr>bu_balance := column 8 (bu_balance u
                 + (if hc_hold_amount c > hc_actual_amount c
                    then hc_hold_amount c - hc_actual_amount c else 0)
                 - (if hc_actual_amount c > hc_hold_amount c
                    then hc_actual_amount c - hc_hold_amount c else 0)),
               bu_frozen := column 8 (bu_frozen u - hc_hold_amount c)\<rparr>) d = (Some v, d')"
      by (auto simp: captureUsageBillingBatchImageBalance_def split: prod.splits option.splits if_splits)
    then show ?thesis
      by (rule update_user_costs [OF _ d])
        (use False in \<open>auto simp: user_ok_def column_id scaled_add scaled_diff assms\<close>)
  qed (use d r in \<open>auto simp: captureUsageBillingBatchImageBalance_def\<close>)
qed

lemma usage_costs:
  assumes "float64_exact ext" "\<bar>uc_balance_cost c\<bar> < 10 ^ 7"
  shows "costs (\<lambda>i. op_cost ext i (UsageOp c)) (applyUsageBillingEffects ext (Normalize_usage ext c) now)"
  unfolding costs_def
proof (intro allI impI)
  fix d a d'
  assume d: "users_ok d" and r: "applyUsageBillingEffects ext (Normalize_usage ext c) now d = (Inr a, d')"
  let ?q = "QuantizeUsageBillingAmount ext (uc_balance_cost c)"
  note q = quantized_scaled(1) [OF assms]
  note e = effects_users [OF r]
  have claims: "claims d' = claims d" using e by (simp add: claims_eq)
  show "claims d' = claims d \<and> users_ok d' \<and> (\<forall>i. funds d' i = funds d i - op_cost ext i (UsageOp c))"
  proof (cases "?q > 0")
    case True
    with e obtain u where u: "b_users d (uc_user_id c) = Some u" by auto
    with d have ok: "user_ok u" by (simp add: users_ok_def)
    then have "column 8 (bu_balance u - ?q) = bu_balance u - ?q"
      using q by (simp add: user_ok_def column_id scaled_diff)
    with True u e have d': "b_users d' = (b_users d)(uc_user_id c \<mapsto> u\<lparr>bu_balance := bu_balance u - ?q\<rparr>)"
      by (simp add: charged_def)
    have "user_ok (u\<lparr>bu_balance := bu_balance u - ?q\<rparr>)" using ok q by (simp add: user_ok_def scaled_diff)
    with d d' True u claims show ?thesis by (auto simp: users_ok_def funds_def)
  qed (use e d claims in \<open>simp add: charged_def users_ok_def funds_def\<close>)
qed

definition unbilled :: "'x bill_db_scheme \<Rightarrow> 'x bill_db_scheme \<Rightarrow> bool" where
  "unbilled d d' \<longleftrightarrow> claims d' = claims d \<and> users_ok d' \<and> (\<forall>i. funds d' i = funds d i)"

definition billed :: "string \<times> int \<Rightarrow> (int \<Rightarrow> rat) \<Rightarrow> 'x bill_db_scheme \<Rightarrow> 'x bill_db_scheme \<Rightarrow> bool" where
  "billed k f d d' \<longleftrightarrow>
     k \<notin> claims d \<and> claims d' = insert k (claims d) \<and> users_ok d' \<and> (\<forall>i. funds d' i = funds d i - f i)"

lemma rely_tl: "rely_ok G w \<Longrightarrow> schedule w' = tl (schedule w) \<Longrightarrow> rely_ok G w'"
  using set_tl_subset [of "schedule w"] by (auto simp: rely_ok_def)

lemma seen_unbilled:
  assumes "rely_ok others_elsewhere w" "users_ok (db w)"
  shows "unbilled (db w) (seen_by w)"
  using elsewhere.next_event_rely [OF assms(1), of "db w"] assms(2)
  by (simp add: unbilled_def seen_by_def others_elsewhere_def users_ok_def funds_def)

lemma claimed_transaction_costs:
  assumes "run_state (claimed_transaction rid kid fp nothing effects) w = (r, w')" "\<And>now. costs f (effects now)"
    and "rely_ok others_elsewhere w" "users_ok (db w)"
  shows "unbilled (db w) (db w') \<or> billed (rid, kid) f (db w) (db w')"
  using assms(1)
proof (cases rule: claimed_transaction_cases)
  case unchanged
  then show ?thesis using seen_unbilled [OF assms(3,4)] by simp
next
  case (applied a)
  note s = seen_unbilled [OF assms(3,4)]
  have "users_ok (new_claim rid kid fp (time_of w) (seen_by w))"
    using s by (simp add: unbilled_def users_ok_def)
  with applied(2) assms(2) have
    "claims (db w') = claims (new_claim rid kid fp (time_of w) (seen_by w))" "users_ok (db w')"
    "\<forall>i. funds (db w') i = funds (new_claim rid kid fp (time_of w) (seen_by w)) i - f i"
    unfolding costs_def by blast+
  with applied(1) s show ?thesis by (simp add: billed_def unbilled_def funds_def)
qed

lemma moved_claims:
  assumes "V \<subseteq> N"
  shows "f ` {x \<in> N. x \<notin> V} \<union> f ` (A \<union> {x \<in> V. f x \<notin> f ` A}) = f ` N \<union> f ` A"
proof -
  have "f x \<in> f ` {x \<in> N. x \<notin> V} \<union> f ` (A \<union> {x \<in> V. f x \<notin> f ` A})" if "x \<in> N" for x
    using that by (cases "x \<in> V"; cases "f x \<in> f ` A") auto
  then show ?thesis using assms by auto
qed

lemma archive_unbilled: "users_ok d \<Longrightarrow> unbilled d (snd (archive_old cutoff n d))"
proof -
  let ?v = "take n (filter (\<lambda>r. dd_created_at r < cutoff) (dedup d))"
  have "set ?v \<subseteq> set (dedup d)" by (auto dest: in_set_takeD)
  then have "claims (snd (archive_old cutoff n d)) = claims d"
    using moved_claims [of "set ?v" "set (dedup d)" row_claim "set (archive d)"]
    unfolding archive_old_claims claims_eq by simp
  then show "users_ok d \<Longrightarrow> ?thesis" by (simp add: unbilled_def users_ok_def funds_def archive_old_def Let_def)
qed

lemma perform_cleanup:
  assumes "run_state (CleanupUsageBillingDedup 1 cutoff) w = (r, w')"
    "rely_ok others_elsewhere w" "users_ok (db w)"
  shows "unbilled (db w) (db w') \<and> schedule w' = tl (schedule w)"
proof -
  have "db w' = seen_by w \<or> db w' = snd (archive_old cutoff usageBillingDedupCleanupBatchSize (seen_by w))"
    using assms(1)
    by (auto simp: run_call_def Let_def seen_by_def split: fault.splits sum.splits if_splits)
  moreover have "schedule w' = tl (schedule w)"
    using assms(1) by (auto simp: run_call_def Let_def split: fault.splits sum.splits if_splits)
  moreover have "unbilled (db w) (seen_by w)" by (rule seen_unbilled [OF assms(2,3)])
  ultimately show ?thesis
    using archive_unbilled [of "seen_by w" cutoff usageBillingDedupCleanupBatchSize]
    by (auto simp: unbilled_def)
qed

lemma usage_step:
  assumes "run_state (Apply ext c) w = (r, w')" "float64_exact ext" "\<bar>uc_balance_cost c\<bar> < 10 ^ 7"
    and w: "rely_ok others_elsewhere w" "users_ok (db w)"
  shows "(w' = w \<or> schedule w' = tl (schedule w)) \<and> (unbilled (db w) (db w') \<or>
    billed (TrimSpace (uc_request_id c), uc_api_key_id c) (\<lambda>i. op_cost ext i (UsageOp c)) (db w) (db w'))"
proof (cases "TrimSpace (uc_request_id c) = []")
  case False
  with assms(1) have run: "run_state (claimed_transaction (TrimSpace (uc_request_id c)) (uc_api_key_id c)
      (uc_request_fingerprint (Normalize_usage ext c)) no_usage_result
      (applyUsageBillingEffects ext (Normalize_usage ext c))) w = (r, w')"
    by (simp add: Apply_def Let_def)
  show ?thesis
    using claimed_transaction_costs [OF run usage_costs [OF assms(2,3)] w] claimed_transaction_world [OF run] by blast
qed (use assms in \<open>simp add: Apply_def Let_def unbilled_def\<close>)

lemma hold_step:
  assumes "run_state (applyBatchImageBalanceHold ext c apply) w = (r, w')" "costs f (apply (Normalize_hold ext c))"
    and w: "rely_ok others_elsewhere w" "users_ok (db w)"
  shows "(w' = w \<or> schedule w' = tl (schedule w)) \<and> (unbilled (db w) (db w') \<or>
    billed (TrimSpace (hc_request_id c), hc_api_key_id c) f (db w) (db w'))"
proof (cases "TrimSpace (hc_request_id c) = []")
  case False
  with assms(1) have run: "run_state (claimed_transaction (TrimSpace (hc_request_id c)) (hc_api_key_id c)
      (hc_request_fingerprint (Normalize_hold ext c)) no_hold_result
      (\<lambda>now. tx_then (apply (Normalize_hold ext c)) (\<lambda>r. Pair (Inr (r\<lparr>hr_applied := True\<rparr>))))) w = (r, w')"
    by (simp add: applyBatchImageBalanceHold_def Let_def)
  show ?thesis
    using claimed_transaction_costs [OF run costs_then_Pair [OF assms(2)] w] claimed_transaction_world [OF run] by blast
qed (use assms in \<open>simp add: applyBatchImageBalanceHold_def Let_def unbilled_def\<close>)

lemma perform_step:
  assumes ext: "float64_exact ext" "exact_amounts x"
    and w: "rely_ok others_elsewhere w" "users_ok (db w)"
    and run: "run_state (bill_perform ext x) w = (r, w')"
  shows "rely_ok others_elsewhere w'"
    and "unbilled (db w) (db w') \<or> (\<exists>k. op_claim x = Some k \<and> billed k (\<lambda>i. op_cost ext i x) (db w) (db w'))"
proof -
  have "(w' = w \<or> schedule w' = tl (schedule w)) \<and>
    (unbilled (db w) (db w') \<or> (\<exists>k. op_claim x = Some k \<and> billed k (\<lambda>i. op_cost ext i x) (db w) (db w')))"
  proof (cases x)
    case (UsageOp c)
    with run obtain r' where "run_state (Apply ext c) w = (r', w')" by (auto split: prod.splits)
    from usage_step [OF this ext(1) _ w] ext(2) UsageOp show ?thesis by simp
  next
    case (ArchiveOp cutoff)
    with run obtain r' where "run_state (CleanupUsageBillingDedup 1 cutoff) w = (r', w')"
      by (auto split: prod.splits)
    from perform_cleanup [OF this w] show ?thesis by simp
  next
    case (ReserveOp c)
    with run obtain r' where "run_state (applyBatchImageBalanceHold ext c
        (reserveUsageBillingBatchImageBalance ext)) w = (r', w')"
      by (auto simp: ReserveBatchImageBalance_def split: prod.splits)
    from hold_step [OF this reserve_costs w] ext(2) ReserveOp show ?thesis by simp
  next
    case (CaptureOp c)
    with run obtain r' where "run_state (applyBatchImageBalanceHold ext c
        (captureUsageBillingBatchImageBalance ext)) w = (r', w')"
      by (auto simp: CaptureBatchImageBalance_def split: prod.splits)
    from hold_step [OF this capture_costs w] ext(2) CaptureOp show ?thesis
      unfolding op_cost_Normalize by (simp del: op_cost.simps)
  next
    case (ReleaseOp c)
    with run obtain r' where "run_state (applyBatchImageBalanceHold ext c
        (releaseUsageBillingBatchImageBalance ext)) w = (r', w')"
      by (auto simp: ReleaseBatchImageBalance_def split: prod.splits)
    from hold_step [OF this release_costs w] ext(2) ReleaseOp show ?thesis by simp
  qed
  then show "rely_ok others_elsewhere w'"
    and "unbilled (db w) (db w') \<or> (\<exists>k. op_claim x = Some k \<and> billed k (\<lambda>i. op_cost ext i x) (db w) (db w'))"
    using rely_tl [OF w(1)] w(1) by auto
qed

text \<open>
  C5. Whatever usage is billed, amounts are held, captured and released, old claims are archived, and
  statements and replies are lost: the operations that were committed have distinct keys, none of which
  was claimed before; the claims grow by exactly these keys; and the money of every user, balance and
  frozen balance together, has changed by exactly what these operations cost.
\<close>

theorem billed_at_most_once:
  assumes "float64_exact ext" "\<forall>x \<in> set ops. exact_amounts x"
    and "rely_ok others_elsewhere w" "users_ok (db w)" "run_state (bill_history ext ops) w = (rs, w')"
  shows "distinct (map op_claim (ledger ext ops w)) \<and>
    Some ` claims (db w') = Some ` claims (db w) \<union> op_claim ` set (ledger ext ops w) \<and>
    op_claim ` set (ledger ext ops w) \<inter> Some ` claims (db w) = {} \<and>
    funds (db w') uid = funds (db w) uid - (\<Sum>x \<leftarrow> ledger ext ops w. op_cost ext uid x)"
  using assms(2-5)
proof (induction ops arbitrary: w rs)
  case (Cons x xs)
  obtain r v where v: "run_state (bill_perform ext x) w = (r, v)" by fastforce
  with Cons.prems(4) obtain rs' where run: "run_state (bill_history ext xs) v = (rs', w')"
    by (auto split: prod.splits)
  note step = perform_step [OF assms(1) _ Cons.prems(2,3) v]
  have x: "exact_amounts x" using Cons.prems(1) by simp
  have "users_ok (db v)" using step(2) [OF x] by (auto simp: unbilled_def billed_def)
  note IH = Cons.IH [OF _ step(1) [OF x] this run]
  from step(2) [OF x] show ?case
  proof
    assume u: "unbilled (db w) (db v)"
    then have "\<not> committed x (db w) (db v)" by (simp add: unbilled_def committed_def split: option.splits)
    with u IH Cons.prems(1) v show ?thesis by (simp add: unbilled_def Let_def)
  next
    assume "\<exists>k. op_claim x = Some k \<and> billed k (\<lambda>i. op_cost ext i x) (db w) (db v)"
    then obtain k where k: "op_claim x = Some k" "billed k (\<lambda>i. op_cost ext i x) (db w) (db v)" by blast
    then have "committed x (db w) (db v)" by (simp add: billed_def committed_def)
    with k IH Cons.prems(1) v show ?thesis by (auto simp: billed_def Let_def)
  qed
qed simp

section \<open>A request whose reply was lost\<close>

lemma demo_ok: "bill_ok bill_demo_db"
  by (simp add: bill_ok_def bill_demo_db_def claim_list_def user_ok_def key_ok_def demo_key_def)

lemma bill_demo_rely: "G bill_demo_db bill_demo_db \<Longrightarrow> (\<And>d. G d d) \<Longrightarrow> rely_ok G (bill_world [lost_reply])"
  by (simp add: rely_ok_def bill_world_def lost_reply_def)

lemma bill_demo_history:
  "run_state (bill_history demo_ext [UsageOp demo_usage, UsageOp demo_usage]) (bill_world [lost_reply]) =
     ([UsageReply (Inl ErrDatabase), UsageReply (Inr no_usage_result)], (bill_world [])\<lparr>db := demo_billed\<rparr>)"
  by (simp add: demo_Apply demo_Apply_again)

lemma demo_ledger: "ledger demo_ext [UsageOp demo_usage, UsageOp demo_usage] (bill_world [lost_reply]) =
    [UsageOp demo_usage]"
  by (simp add: demo_Apply demo_Apply_again committed_def)
    (simp add: claims_def claim_list_def bill_world_def bill_demo_db_def demo_billed_def row_claim_def)

theorem billing_tables_well_formed_witness: "bill_ok ((db ((bill_world [])\<lparr>db := demo_billed\<rparr>)) :: bill_db)"
  by (rule billing_tables_well_formed [OF _ bill_demo_rely bill_demo_history])
    (simp_all add: demo_ok typed.refl bill_world_def)

lemma image_eq_singleton_Some: "Some ` A = {Some a} \<longleftrightarrow> A = {a}"
  using inj_image_eq_iff [of Some A "{a}"] by (simp add: inj_def)

theorem billed_at_most_once_witness:
  "funds demo_billed 1 = funds bill_demo_db 1 - 3 \<and> claims demo_billed = {(''r1'', 7)}"
proof -
  have "users_ok (db (bill_world [lost_reply]))" using demo_ok by (simp add: bill_ok_def users_ok_def bill_world_def)
  from billed_at_most_once [OF demo_exact _ bill_demo_rely this bill_demo_history, where uid = 1, unfolded demo_ledger]
  have "Some ` claims demo_billed = Some ` claims bill_demo_db \<union> {Some (''r1'', 7)}"
    "funds demo_billed 1 = funds bill_demo_db 1 - 3"
    by (simp_all add: elsewhere.refl bill_world_def)
  moreover have "claims bill_demo_db = {}" by (simp add: claims_def claim_list_def bill_demo_db_def)
  ultimately show ?thesis by (simp add: image_eq_singleton_Some)
qed

end
