(* ===== verification/Billing_Answers.thy ===== *)
theory Billing_Answers
  imports Billing_Service
begin

text \<open>
  What the answer of an operation says about the tables: what was taken from the balance and added to
  the quota of the key when a request was billed, and that an answer without it means that nothing was
  changed.
\<close>

section \<open>The effects of a billed request\<close>

lemma subscription_step:
  assumes "bill_subscription c d = (Inr a, d')"
  shows "b_users d' = b_users d \<and> b_keys d' = b_keys d"
  using assms
  by (auto simp: bill_subscription_def incrementUsageBillingSubscription_def split: option.splits if_splits)

lemma balance_step:
  assumes "bill_balance ext c r d = (Inr r', d')"
  shows "b_keys d' = b_keys d \<and> ur_applied r' = ur_applied r \<and>
    (uc_balance_cost c > 0 \<longrightarrow>
       (\<exists>u. b_users d (uc_user_id c) = Some u \<and>
          b_users d' (uc_user_id c) = Some (u\<lparr>bu_balance := column 8 (bu_balance u - uc_balance_cost c)\<rparr>) \<and>
          ur_new_balance r' = Some (float64 ext (column 8 (bu_balance u - uc_balance_cost c))) \<and>
          (ur_balance_overdrafted r' \<longleftrightarrow> bu_balance u < uc_balance_cost c)))"
  using assms by (auto simp: bill_balance_def tx_then_Inr elim!: deduct_Inr split: if_splits)

lemma key_quota_step:
  assumes "bill_key_quota c r d = (Inr r', d')"
  shows "b_users d' = b_users d \<and> ur_applied r' = ur_applied r \<and> ur_new_balance r' = ur_new_balance r \<and>
    ur_balance_overdrafted r' = ur_balance_overdrafted r \<and>
    (uc_api_key_quota_cost c > 0 \<longrightarrow>
       (\<exists>k k'. b_keys d (uc_api_key_id c) = Some k \<and> b_keys d' (uc_api_key_id c) = Some k' \<and>
          bk_quota_used k' = column 8 (bk_quota_used k + uc_api_key_quota_cost c) \<and>
          (ur_api_key_quota_exhausted r' \<longleftrightarrow> bk_quota k > 0 \<and> bk_quota_used k' \<ge> bk_quota k \<and>
             bk_quota_used k' - uc_api_key_quota_cost c < bk_quota k) \<and>
          bk_status k' = (if bk_quota k > 0 \<and> bk_status k = StatusAPIKeyActive \<and>
             bk_quota_used k < bk_quota k \<and> bk_quota_used k + uc_api_key_quota_cost c \<ge> bk_quota k
           then StatusAPIKeyQuotaExhausted else bk_status k)))"
  using assms
  by (auto simp: bill_key_quota_def incrementUsageBillingAPIKeyQuota_def tx_then_Inr Let_def
      split: option.splits if_splits)

lemma key_rate_step:
  assumes "bill_key_rate ext c now d = (Inr a, d')"
  shows "b_users d' = b_users d \<and>
    map_option bk_quota_used (b_keys d' i) = map_option bk_quota_used (b_keys d i) \<and>
    map_option bk_status (b_keys d' i) = map_option bk_status (b_keys d i)"
  using assms
  by (auto simp: bill_key_rate_def incrementUsageBillingAPIKeyRateLimit_def split: option.splits if_splits)

lemma account_step:
  assumes "bill_account ext c now r d = (Inr r', d')"
  shows "b_users d' = b_users d \<and> b_keys d' = b_keys d \<and> ur_applied r' = ur_applied r \<and>
    ur_new_balance r' = ur_new_balance r \<and> ur_balance_overdrafted r' = ur_balance_overdrafted r \<and>
    ur_api_key_quota_exhausted r' = ur_api_key_quota_exhausted r"
  using assms
  by (auto simp: bill_account_def incrementUsageBillingAccountQuota_def enqueueAccountChanged_def tx_then_Inr
      Let_def split: option.splits if_splits)

lemma effects_steps:
  assumes "applyUsageBillingEffects ext c now d = (Inr r, d')"
  obtains a1 d1 r2 d2 r3 d3 a4 d4 where "bill_subscription c d = (Inr a1, d1)"
    "bill_balance ext c (no_usage_result\<lparr>ur_applied := True\<rparr>) d1 = (Inr r2, d2)"
    "bill_key_quota c r2 d2 = (Inr r3, d3)" "bill_key_rate ext c now d3 = (Inr a4, d4)"
    "bill_account ext c now r3 d4 = (Inr r, d')"
  using assms unfolding applyUsageBillingEffects_def tx_then_Inr by blast

lemma effects_answer:
  assumes "applyUsageBillingEffects ext c now d = (Inr r, d')"
  shows "ur_applied r"
    and "uc_balance_cost c > 0 \<Longrightarrow>
       \<exists>u. b_users d (uc_user_id c) = Some u \<and>
          b_users d' (uc_user_id c) = Some (u\<lparr>bu_balance := column 8 (bu_balance u - uc_balance_cost c)\<rparr>) \<and>
          ur_new_balance r = Some (float64 ext (column 8 (bu_balance u - uc_balance_cost c))) \<and>
          (ur_balance_overdrafted r \<longleftrightarrow> bu_balance u < uc_balance_cost c)"
    and "uc_api_key_quota_cost c > 0 \<Longrightarrow>
       \<exists>k k'. b_keys d (uc_api_key_id c) = Some k \<and> b_keys d' (uc_api_key_id c) = Some k' \<and>
          bk_quota_used k' = column 8 (bk_quota_used k + uc_api_key_quota_cost c) \<and>
          (ur_api_key_quota_exhausted r \<longleftrightarrow> bk_quota k > 0 \<and> bk_quota_used k' \<ge> bk_quota k \<and>
             bk_quota_used k' - uc_api_key_quota_cost c < bk_quota k) \<and>
          bk_status k' = (if bk_quota k > 0 \<and> bk_status k = StatusAPIKeyActive \<and>
             bk_quota_used k < bk_quota k \<and> bk_quota_used k + uc_api_key_quota_cost c \<ge> bk_quota k
           then StatusAPIKeyQuotaExhausted else bk_status k)"
proof -
  from effects_steps [OF assms] obtain a1 d1 r2 d2 r3 d3 a4 d4 where
    "bill_subscription c d = (Inr a1, d1)"
    "bill_balance ext c (no_usage_result\<lparr>ur_applied := True\<rparr>) d1 = (Inr r2, d2)"
    "bill_key_quota c r2 d2 = (Inr r3, d3)" "bill_key_rate ext c now d3 = (Inr a4, d4)"
    "bill_account ext c now r3 d4 = (Inr r, d')" .
  note steps = subscription_step [OF this(1)] balance_step [OF this(2)] key_quota_step [OF this(3)]
    key_rate_step [OF this(4), of "uc_api_key_id c"] account_step [OF this(5)]
  show "ur_applied r" using steps by simp
  show "\<exists>u. b_users d (uc_user_id c) = Some u \<and>
          b_users d' (uc_user_id c) = Some (u\<lparr>bu_balance := column 8 (bu_balance u - uc_balance_cost c)\<rparr>) \<and>
          ur_new_balance r = Some (float64 ext (column 8 (bu_balance u - uc_balance_cost c))) \<and>
          (ur_balance_overdrafted r \<longleftrightarrow> bu_balance u < uc_balance_cost c)" if "uc_balance_cost c > 0"
    using steps that by simp
  assume q: "uc_api_key_quota_cost c > 0"
  with steps(3) obtain k k3 where k: "b_keys d2 (uc_api_key_id c) = Some k" "b_keys d3 (uc_api_key_id c) = Some k3"
    "bk_quota_used k3 = column 8 (bk_quota_used k + uc_api_key_quota_cost c)"
    "ur_api_key_quota_exhausted r3 \<longleftrightarrow> bk_quota k > 0 \<and> bk_quota_used k3 \<ge> bk_quota k \<and>
       bk_quota_used k3 - uc_api_key_quota_cost c < bk_quota k"
    "bk_status k3 = (if bk_quota k > 0 \<and> bk_status k = StatusAPIKeyActive \<and>
       bk_quota_used k < bk_quota k \<and> bk_quota_used k + uc_api_key_quota_cost c \<ge> bk_quota k
     then StatusAPIKeyQuotaExhausted else bk_status k)" by blast
  from steps(4) k(2) obtain k4 where "b_keys d4 (uc_api_key_id c) = Some k4"
    "bk_quota_used k4 = bk_quota_used k3" "bk_status k4 = bk_status k3" by auto
  with k steps show "\<exists>k k'. b_keys d (uc_api_key_id c) = Some k \<and> b_keys d' (uc_api_key_id c) = Some k' \<and>
          bk_quota_used k' = column 8 (bk_quota_used k + uc_api_key_quota_cost c) \<and>
          (ur_api_key_quota_exhausted r \<longleftrightarrow> bk_quota k > 0 \<and> bk_quota_used k' \<ge> bk_quota k \<and>
             bk_quota_used k' - uc_api_key_quota_cost c < bk_quota k) \<and>
          bk_status k' = (if bk_quota k > 0 \<and> bk_status k = StatusAPIKeyActive \<and>
             bk_quota_used k < bk_quota k \<and> bk_quota_used k + uc_api_key_quota_cost c \<ge> bk_quota k
           then StatusAPIKeyQuotaExhausted else bk_status k)" by auto
qed

lemma Apply_keyed:
  assumes "TrimSpace (uc_request_id c) \<noteq> []"
  shows "Apply ext c = claimed_transaction (TrimSpace (uc_request_id c)) (uc_api_key_id c)
    (uc_request_fingerprint (Normalize_usage ext c)) no_usage_result
    (applyUsageBillingEffects ext (Normalize_usage ext c))"
  using assms by (simp add: Apply_def Let_def)

lemma Apply_applied:
  assumes "run_state (Apply ext c) w = (Inr res, w')" "ur_applied res"
  shows "applyUsageBillingEffects ext (Normalize_usage ext c) (time_of w)
    (new_claim (TrimSpace (uc_request_id c)) (uc_api_key_id c)
       (uc_request_fingerprint (Normalize_usage ext c)) (time_of w) (seen_by w)) = (Inr res, db w')"
    "(TrimSpace (uc_request_id c), uc_api_key_id c) \<notin> claims (seen_by w)"
proof -
  have "TrimSpace (uc_request_id c) \<noteq> []" using assms(1) by (auto simp: Apply_def Let_def)
  from assms(1) [unfolded Apply_keyed [OF this]]
  have "(TrimSpace (uc_request_id c), uc_api_key_id c) \<notin> claims (seen_by w) \<and>
    applyUsageBillingEffects ext (Normalize_usage ext c) (time_of w)
    (new_claim (TrimSpace (uc_request_id c)) (uc_api_key_id c)
       (uc_request_fingerprint (Normalize_usage ext c)) (time_of w) (seen_by w)) = (Inr res, db w')"
  proof (cases rule: claimed_transaction_cases)
    case unchanged
    with assms(2) show ?thesis by (simp add: no_usage_result_def)
  qed auto
  then show "applyUsageBillingEffects ext (Normalize_usage ext c) (time_of w)
    (new_claim (TrimSpace (uc_request_id c)) (uc_api_key_id c)
       (uc_request_fingerprint (Normalize_usage ext c)) (time_of w) (seen_by w)) = (Inr res, db w')"
    "(TrimSpace (uc_request_id c), uc_api_key_id c) \<notin> claims (seen_by w)" by blast+
qed

text \<open>
  C30. When a request is answered as billed, the balance of the user has gone down, and the used quota
  of the key has gone up, by the amounts rounded half away from zero to eight decimals: equal costs are
  equal in both columns, whatever digits they have. The answer carries the new balance, says whether
  the balance did not cover the cost, and says that the quota is exhausted exactly when this request
  crossed it, in which case an active key is closed.
\<close>

theorem billed_as_answered:
  assumes "float64_exact ext" "\<bar>uc_balance_cost c\<bar> < 10 ^ 7" "\<bar>uc_api_key_quota_cost c\<bar> < 10 ^ 7"
    and "bill_ok (seen_by w)" "run_state (Apply ext c) w = (Inr res, w')" "ur_applied res"
  shows "(0 < column 8 (uc_balance_cost c) \<longrightarrow>
       (\<exists>u. b_users (seen_by w) (uc_user_id c) = Some u \<and>
          b_users (db w') (uc_user_id c) = Some (u\<lparr>bu_balance := bu_balance u - column 8 (uc_balance_cost c)\<rparr>) \<and>
          ur_new_balance res = Some (float64 ext (bu_balance u - column 8 (uc_balance_cost c))) \<and>
          (ur_balance_overdrafted res \<longleftrightarrow> bu_balance u < column 8 (uc_balance_cost c)))) \<and>
    (0 < column 8 (uc_api_key_quota_cost c) \<longrightarrow>
       (\<exists>k k'. b_keys (seen_by w) (uc_api_key_id c) = Some k \<and> b_keys (db w') (uc_api_key_id c) = Some k' \<and>
          bk_quota_used k' = bk_quota_used k + column 8 (uc_api_key_quota_cost c) \<and>
          (ur_api_key_quota_exhausted res \<longleftrightarrow>
             0 < bk_quota k \<and> bk_quota_used k < bk_quota k \<and> bk_quota k \<le> bk_quota_used k') \<and>
          (ur_api_key_quota_exhausted res \<and> bk_status k = StatusAPIKeyActive \<longrightarrow>
             bk_status k' = StatusAPIKeyQuotaExhausted)))"
proof -
  have col: "column 8 (0 :: rat) = 0" by (simp add: column_def)
  have q: "QuantizeUsageBillingAmount ext v = column 8 v" if "\<bar>v\<bar> < 10 ^ 7" for v
    using quantized_scaled(2) [OF assms(1) that] col by (cases "v = 0") (simp_all add: QuantizeUsageBillingAmount_def)
  note e = effects_answer(2,3) [OF Apply_applied(1) [OF assms(5,6)]]
  have u: "scaled (bu_balance u)" if "b_users (seen_by w) i = Some u" for i u
    using assms(4) that by (auto simp: bill_ok_def user_ok_def)
  have k: "scaled (bk_quota_used k)" if "b_keys (seen_by w) i = Some k" for i k
    using assms(4) that by (auto simp: bill_ok_def key_ok_def)
  have c: "column 8 (bu_balance u - column 8 v) = bu_balance u - column 8 v"
    if "b_users (seen_by w) i = Some u" for i u v
    by (intro column_id scaled_diff column_scaled u [OF that])
  have d: "column 8 (bk_quota_used k + column 8 v) = bk_quota_used k + column 8 v"
    if "b_keys (seen_by w) i = Some k" for i k v
    by (intro column_id scaled_add column_scaled k [OF that])
  show ?thesis
    using e assms(2,3) by (auto simp: q c d)
qed

section \<open>Requests that were not billed\<close>

lemma claimed_transaction_repeated:
  assumes "schedule v = []" "fst (claimUsageBillingRequest rid kid fp (clock v) (db v)) = Inr False"
  shows "run_state (claimed_transaction rid kid fp nothing effects) v = (Inr nothing, v)"
proof -
  have "fst (claimed_tx rid kid fp effects (clock v) (db v)) = Inl AlreadyApplied"
    using assms(2) by (simp add: claimed_tx_AlreadyApplied)
  then show ?thesis
    using assms(1)
    by (auto simp: claimed_transaction_def transaction_def run_call_quiet all_or_nothing_def split: prod.splits)
qed

lemma claim_False:
  assumes "fst (claimUsageBillingRequest rid kid fp now d) = Inr False"
  shows "\<exists>row \<in> set (dedup d) \<union> set (archive d).
    row_claim row = (rid, kid) \<and> TrimSpace (dd_fingerprint row) = TrimSpace fp"
proof -
  have "(rid, kid) \<in> claims d" using claim_True [of rid kid fp now d] assms by (metis sum.inject(2))
  then show ?thesis
    by (rule claim_taken [of _ _ _ fp now]) (use assms in \<open>auto simp: same_fingerprint_def split: if_splits\<close>)
qed

lemma claim_again:
  assumes "(rid, kid) \<notin> claims d" "dedup d' = dedup (new_claim rid kid fp now d)"
  shows "claimUsageBillingRequest rid kid fp now' d' = (Inr False, d')"
proof -
  have "find (has_claim rid kid) (dedup d) = None" using assms(1) by (auto simp: find_claim_None claims_eq)
  then show ?thesis
    by (simp add: claimUsageBillingRequest_def assms(2) new_claim_def find_append has_claim_def same_fingerprint_def)
qed


section \<open>Witnesses\<close>

lemma demo_seen: "seen_by (bill_world []) = bill_demo_db" "seen_by (bill_world [lost_reply]) = bill_demo_db"
  by (simp_all add: seen_by_def next_event_def calm_def bill_world_def lost_reply_def)

theorem billed_as_answered_witness:
  "b_users demo_billed 1 = Some \<lparr>bu_balance = 7, bu_frozen = 0\<rparr> \<and> ur_api_key_quota_exhausted demo_result"
proof -
  have "bill_ok (seen_by (bill_world []))" "ur_applied demo_result"
    by (simp_all add: demo_seen demo_ok demo_result_def)
  from billed_as_answered [OF demo_exact _ _ this(1) demo_Apply(1) this(2)]
  show ?thesis by (auto simp: demo_seen bill_demo_db_def demo_key_def)
qed


end
