(* ===== verification/Billing_Holds.thy ===== *)
theory Billing_Holds
  imports Billing_Service
begin

text \<open>
  Amounts held for batches of images. The holds that are open after a history are computed from the
  operations that were committed; provided that captures and releases go to open holds only, the frozen
  balance of a user is the sum of the user's open holds, and every one of them can be settled. At the
  end, runs that leave this discipline or use amounts with more than eight decimals.
\<close>

section \<open>Open holds\<close>

text \<open>The batch, the key, the user and the amount of a hold.\<close>

type_synonym hold = "string \<times> int \<times> int \<times> rat"

definition hold_of :: "hold_command \<Rightarrow> hold" where
  "hold_of c = (hc_batch_id c, hc_api_key_id c, hc_user_id c, hc_hold_amount c)"

fun post :: "bill_op \<Rightarrow> hold list \<Rightarrow> hold list" where
  "post (ReserveOp c) H = H @ [hold_of c]"
| "post (CaptureOp c) H = filter (\<lambda>h. h \<noteq> hold_of c) H"
| "post (ReleaseOp c) H = filter (\<lambda>h. h \<noteq> hold_of c) H"
| "post _ H = H"

text \<open>Identifiers of batches consist of letters, digits and underscores.\<close>

definition clean :: "string \<Rightarrow> bool" where
  "clean b \<longleftrightarrow> set b \<inter> blank_heads = {}"

text \<open>
  What the batch service must guarantee of an operation that is committed: a hold is made before it is
  settled, and settled once, with its own amount. Other requests do not use the keys of batches.
\<close>

fun in_order :: "hold list \<Rightarrow> (string \<times> int) set \<Rightarrow> bill_op \<Rightarrow> bool" where
  "in_order H C (UsageOp c) \<longleftrightarrow> take 12 (TrimSpace (uc_request_id c)) \<noteq> ''batch_image_''"
| "in_order H C (ReserveOp c) \<longleftrightarrow>
     clean (hc_batch_id c) \<and> hc_request_id c = BatchImageHoldRequestID (hc_batch_id c) \<and> 0 < hc_hold_amount c \<and>
     (BatchImageCaptureRequestID (hc_batch_id c), hc_api_key_id c) \<notin> C \<and>
     (BatchImageReleaseRequestID (hc_batch_id c), hc_api_key_id c) \<notin> C"
| "in_order H C (CaptureOp c) \<longleftrightarrow>
     clean (hc_batch_id c) \<and> hc_request_id c = BatchImageCaptureRequestID (hc_batch_id c) \<and> hold_of c \<in> set H"
| "in_order H C (ReleaseOp c) \<longleftrightarrow>
     clean (hc_batch_id c) \<and> hc_request_id c = BatchImageReleaseRequestID (hc_batch_id c) \<and> hold_of c \<in> set H"
| "in_order H C (ArchiveOp _) \<longleftrightarrow> True"

fun orderly :: "billing_ext \<Rightarrow> hold list \<Rightarrow> bill_op list \<Rightarrow> ('x bill_db_scheme, 'z) shared_scheme \<Rightarrow> bool" where
  "orderly ext H [] w \<longleftrightarrow> True"
| "orderly ext H (x # xs) w \<longleftrightarrow>
     (let w' = snd (run_state (bill_perform ext x) w) in
      if committed x (db w) (db w') then in_order H (claims (db w)) x \<and> orderly ext (post x H) xs w'
      else orderly ext H xs w')"

fun open_holds :: "billing_ext \<Rightarrow> hold list \<Rightarrow> bill_op list \<Rightarrow> ('x bill_db_scheme, 'z) shared_scheme \<Rightarrow> hold list" where
  "open_holds ext H [] w = H"
| "open_holds ext H (x # xs) w =
     (let w' = snd (run_state (bill_perform ext x) w) in
      open_holds ext (if committed x (db w) (db w') then post x H else H) xs w')"

section \<open>Frozen balances\<close>

definition frozen :: "'x bill_db_scheme \<Rightarrow> int \<Rightarrow> rat" where
  "frozen d i = (case b_users d i of None \<Rightarrow> 0 | Some u \<Rightarrow> bu_frozen u)"

definition user_ids :: "'x bill_db_scheme \<Rightarrow> int set" where
  "user_ids d = dom (b_users d)"

text \<open>\<open>moves P g m\<close>: a body that succeeds adds \<open>g uid\<close> to every frozen balance, if the claims satisfy \<open>P\<close>.\<close>

definition moves :: "((string \<times> int) set \<Rightarrow> bool) \<Rightarrow> (int \<Rightarrow> rat) \<Rightarrow> ('x, 'a) tx \<Rightarrow> bool" where
  "moves P g m \<longleftrightarrow>
     (\<forall>d a d'. users_ok d \<longrightarrow> P (claims d) \<longrightarrow> m d = (Inr a, d') \<longrightarrow>
        (\<forall>i. frozen d' i = frozen d i + g i) \<and> user_ids d' = user_ids d \<and> (\<forall>i. g i \<noteq> 0 \<longrightarrow> i \<in> user_ids d))"

lemma moves_then_Pair: "moves P g m \<Longrightarrow> moves P g (tx_then m (\<lambda>a. Pair (Inr (h a))))"
  by (auto simp: moves_def tx_then_Inr)

lemma update_user_moves:
  assumes "update_user uid p f d = (Some v, d')" "users_ok d"
    and "\<And>u. p u \<Longrightarrow> user_ok u \<Longrightarrow> bu_frozen (f u) = bu_frozen u + g uid" "\<And>i. i \<noteq> uid \<Longrightarrow> g i = 0"
  shows "(\<forall>i. frozen d' i = frozen d i + g i) \<and> user_ids d' = user_ids d \<and> (\<forall>i. g i \<noteq> 0 \<longrightarrow> i \<in> user_ids d)"
proof -
  from assms(1) obtain u where u: "b_users d uid = Some u" "p u"
    and d': "d' = d\<lparr>b_users := (b_users d)(uid \<mapsto> f u)\<rparr>"
    by (auto simp: update_user_def split: option.splits if_splits)
  have "user_ok u" using assms(2) u(1) by (simp add: users_ok_def)
  note f = assms(3) [OF u(2) this]
  have "frozen d' i = frozen d i + g i" for i
    using u f assms(4) [of i] by (cases "i = uid") (simp_all add: d' frozen_def)
  moreover have "g i \<noteq> 0 \<longrightarrow> i \<in> user_ids d" for i
    using u assms(4) [of i] by (auto simp: user_ids_def)
  ultimately show ?thesis using u by (auto simp: d' user_ids_def)
qed

lemma reserve_moves:
  assumes "scaled (hc_hold_amount c)" "0 < hc_hold_amount c"
  shows "moves P (\<lambda>i. if i = hc_user_id c then hc_hold_amount c else 0)
    (reserveUsageBillingBatchImageBalance ext c)"
  unfolding moves_def
proof (intro allI impI)
  fix d a d'
  assume d: "users_ok d" and r: "reserveUsageBillingBatchImageBalance ext c d = (Inr a, d')"
  then obtain v where "update_user (hc_user_id c) (\<lambda>u. bu_balance u \<ge> hc_hold_amount c)
      (\<lambda>u. u\<lparr>bu_balance := column 8 (bu_balance u - hc_hold_amount c),
             bu_frozen := column 8 (bu_frozen u + hc_hold_amount c)\<rparr>) d = (Some v, d')"
    using assms(2) by (auto simp: reserveUsageBillingBatchImageBalance_def split: prod.splits option.splits)
  then show "(\<forall>i. frozen d' i = frozen d i + (if i = hc_user_id c then hc_hold_amount c else 0)) \<and>
      user_ids d' = user_ids d \<and> (\<forall>i. (if i = hc_user_id c then hc_hold_amount c else 0) \<noteq> 0 \<longrightarrow> i \<in> user_ids d)"
    by (rule update_user_moves [OF _ d]) (simp_all add: user_ok_def column_id scaled_add assms)
qed

lemma capture_moves:
  assumes "scaled (hc_hold_amount c)" "0 < hc_hold_amount c"
  shows "moves P (\<lambda>i. if i = hc_user_id c then - hc_hold_amount c else 0)
    (captureUsageBillingBatchImageBalance ext c)"
  unfolding moves_def
proof (intro allI impI)
  fix d a d'
  assume d: "users_ok d" and r: "captureUsageBillingBatchImageBalance ext c d = (Inr a, d')"
  then obtain v where "update_user (hc_user_id c) (\<lambda>u. bu_frozen u \<ge> hc_hold_amount c)
      (\<lambda>u. u\<lparr>bu_balance := column 8 (bu_balance u
               + (if hc_hold_amount c > hc_actual_amount c
                  then hc_hold_amount c - hc_actual_amount c else 0)
               - (if hc_actual_amount c > hc_hold_amount c
                  then hc_actual_amount c - hc_hold_amount c else 0)),
             bu_frozen := column 8 (bu_frozen u - hc_hold_amount c)\<rparr>) d = (Some v, d')"
    using assms(2)
    by (auto simp: captureUsageBillingBatchImageBalance_def split: prod.splits option.splits if_splits)
  then show "(\<forall>i. frozen d' i = frozen d i + (if i = hc_user_id c then - hc_hold_amount c else 0)) \<and>
      user_ids d' = user_ids d \<and> (\<forall>i. (if i = hc_user_id c then - hc_hold_amount c else 0) \<noteq> 0 \<longrightarrow> i \<in> user_ids d)"
    by (rule update_user_moves [OF _ d]) (simp_all add: user_ok_def column_id scaled_diff assms)
qed

lemma release_moves:
  assumes "scaled (hc_hold_amount c)" "0 < hc_hold_amount c"
  shows "moves (\<lambda>C. (BatchImageHoldRequestID (hc_batch_id c), hc_api_key_id c) \<in> C)
    (\<lambda>i. if i = hc_user_id c then - hc_hold_amount c else 0) (releaseUsageBillingBatchImageBalance ext c)"
  unfolding moves_def
proof (intro allI impI)
  fix d a d'
  assume d: "users_ok d" and r: "releaseUsageBillingBatchImageBalance ext c d = (Inr a, d')"
    and "(BatchImageHoldRequestID (hc_batch_id c), hc_api_key_id c) \<in> claims d"
  then obtain v where "update_user (hc_user_id c) (\<lambda>u. bu_frozen u \<ge> hc_hold_amount c)
      (\<lambda>u. u\<lparr>bu_balance := column 8 (bu_balance u + hc_hold_amount c),
             bu_frozen := column 8 (bu_frozen u - hc_hold_amount c)\<rparr>) d = (Some v, d')"
    using assms(2)
    by (auto simp: releaseUsageBillingBatchImageBalance_def hold_claim_exists split: prod.splits option.splits)
  then show "(\<forall>i. frozen d' i = frozen d i + (if i = hc_user_id c then - hc_hold_amount c else 0)) \<and>
      user_ids d' = user_ids d \<and> (\<forall>i. (if i = hc_user_id c then - hc_hold_amount c else 0) \<noteq> 0 \<longrightarrow> i \<in> user_ids d)"
    by (rule update_user_moves [OF _ d]) (simp_all add: user_ok_def column_id scaled_diff assms)
qed

lemma usage_moves: "moves P (\<lambda>_. 0) (applyUsageBillingEffects ext c now)"
  unfolding moves_def
proof (intro allI impI)
  fix d a d'
  assume "applyUsageBillingEffects ext c now d = (Inr a, d')"
  from effects_users [OF this] have "b_users d' = charged c d" by simp
  then show "(\<forall>i. frozen d' i = frozen d i + 0) \<and> user_ids d' = user_ids d \<and> (\<forall>i. (0 :: rat) \<noteq> 0 \<longrightarrow> i \<in> user_ids d)"
    by (auto simp: frozen_def user_ids_def charged_def dom_def split: option.splits if_splits)
qed

definition kept :: "'x bill_db_scheme \<Rightarrow> 'x bill_db_scheme \<Rightarrow> bool" where
  "kept d d' \<longleftrightarrow> claims d' = claims d \<and> users_ok d' \<and> frozen d' = frozen d \<and> user_ids d' = user_ids d"

definition moved :: "string \<times> int \<Rightarrow> (int \<Rightarrow> rat) \<Rightarrow> 'x bill_db_scheme \<Rightarrow> 'x bill_db_scheme \<Rightarrow> bool" where
  "moved k g d d' \<longleftrightarrow>
     k \<notin> claims d \<and> claims d' = insert k (claims d) \<and> users_ok d' \<and>
     (\<forall>i. frozen d' i = frozen d i + g i) \<and> user_ids d' = user_ids d \<and> (\<forall>i. g i \<noteq> 0 \<longrightarrow> i \<in> user_ids d)"

lemma kept_refl: "users_ok d \<Longrightarrow> kept d d"
  by (simp add: kept_def)

lemma elsewhere_kept: "users_ok d \<Longrightarrow> others_elsewhere d d' \<Longrightarrow> kept d d'"
  by (auto simp: kept_def others_elsewhere_def users_ok_def frozen_def user_ids_def)

lemma seen_kept: "rely_ok others_elsewhere w \<Longrightarrow> users_ok (db w) \<Longrightarrow> kept (db w) (seen_by w)"
  unfolding seen_by_def by (intro elsewhere_kept elsewhere.next_event_rely)

lemma claimed_transaction_moves:
  assumes "run_state (claimed_transaction rid kid fp nothing effects) w = (r, w')" "\<And>now. costs f (effects now)"
    and "rely_ok others_elsewhere w" "users_ok (db w)"
    and "(rid, kid) \<notin> claims (db w) \<Longrightarrow> (rid, kid) \<in> claims (db w') \<Longrightarrow>
           (\<forall>now. moves P g (effects now)) \<and> P (insert (rid, kid) (claims (db w)))"
  shows "kept (db w) (db w') \<or> moved (rid, kid) g (db w) (db w')"
  using assms(1)
proof (cases rule: claimed_transaction_cases)
  case unchanged
  then show ?thesis using seen_kept [OF assms(3,4)] by simp
next
  case (applied a)
  let ?d = "new_claim rid kid fp (time_of w) (seen_by w)"
  note s = seen_kept [OF assms(3,4)]
  have d: "users_ok ?d" "claims ?d = insert (rid, kid) (claims (db w))" "frozen ?d = frozen (db w)"
    "user_ids ?d = user_ids (db w)" "(rid, kid) \<notin> claims (db w)"
    using s applied(1) by (auto simp: kept_def users_ok_def frozen_def [abs_def] user_ids_def)
  from applied(2) assms(2) d(1) have c: "claims (db w') = claims ?d" "users_ok (db w')"
    unfolding costs_def by blast+
  with d assms(5) have "moves P g (effects (time_of w))" "P (claims ?d)" by auto
  with applied(2) d(1) have "(\<forall>i. frozen (db w') i = frozen ?d i + g i) \<and> user_ids (db w') = user_ids ?d \<and>
      (\<forall>i. g i \<noteq> 0 \<longrightarrow> i \<in> user_ids ?d)" unfolding moves_def by blast
  with c d show ?thesis by (simp add: moved_def)
qed

text \<open>The sum of the amounts that a user has held, and the invariant.\<close>

definition held :: "hold list \<Rightarrow> int \<Rightarrow> rat" where
  "held H i = (\<Sum>(b, k, u, a) \<leftarrow> H. if u = i then a else 0)"

definition job :: "hold \<Rightarrow> string \<times> int" where
  "job h = (fst h, fst (snd h))"

fun hold_ok :: "'x bill_db_scheme \<Rightarrow> hold \<Rightarrow> bool" where
  "hold_ok d (b, k, u, a) \<longleftrightarrow>
     0 < a \<and> scaled a \<and> clean b \<and> u \<in> user_ids d \<and> (BatchImageHoldRequestID b, k) \<in> claims d \<and>
     (BatchImageCaptureRequestID b, k) \<notin> claims d \<and> (BatchImageReleaseRequestID b, k) \<notin> claims d"

definition holds_inv :: "hold list \<Rightarrow> 'x bill_db_scheme \<Rightarrow> bool" where
  "holds_inv H d \<longleftrightarrow>
     users_ok d \<and> distinct (map job H) \<and> (\<forall>h \<in> set H. hold_ok d h) \<and> (\<forall>i. frozen d i = held H i)"

fun op_hold :: "bill_op \<Rightarrow> int \<Rightarrow> rat" where
  "op_hold (ReserveOp c) i = (if i = hc_user_id c then hc_hold_amount c else 0)"
| "op_hold (CaptureOp c) i = (if i = hc_user_id c then - hc_hold_amount c else 0)"
| "op_hold (ReleaseOp c) i = (if i = hc_user_id c then - hc_hold_amount c else 0)"
| "op_hold _ i = 0"

lemma op_hold_moves:
  assumes "scaled (hc_hold_amount c)" "0 < hc_hold_amount c"
  shows "moves P (op_hold (ReserveOp c)) (reserveUsageBillingBatchImageBalance ext (Normalize_hold ext c))"
    "moves P (op_hold (CaptureOp c)) (captureUsageBillingBatchImageBalance ext (Normalize_hold ext c))"
    "moves (\<lambda>C. (BatchImageHoldRequestID (TrimSpace (hc_batch_id c)), hc_api_key_id c) \<in> C) (op_hold (ReleaseOp c))
       (releaseUsageBillingBatchImageBalance ext (Normalize_hold ext c))"
  using reserve_moves [of "Normalize_hold ext c" P ext] capture_moves [of "Normalize_hold ext c" P ext]
    release_moves [of "Normalize_hold ext c" ext] assms
  unfolding op_hold.simps [abs_def] Normalize_hold_simps by auto

lemma clean_request_ids:
  assumes "clean b"
  shows "BatchImageHoldRequestID b = ''batch_image_hold:'' @ b"
    "BatchImageCaptureRequestID b = ''batch_image_capture:'' @ b"
    "BatchImageReleaseRequestID b = ''batch_image_release:'' @ b"
    "TrimSpace (''batch_image_hold:'' @ b) = ''batch_image_hold:'' @ b"
    "TrimSpace (''batch_image_capture:'' @ b) = ''batch_image_capture:'' @ b"
    "TrimSpace (''batch_image_release:'' @ b) = ''batch_image_release:'' @ b"
    "TrimSpace b = b"
proof -
  have b: "set b \<inter> blank_heads = {}" using assms by (simp add: clean_def)
  have "set s \<inter> blank_heads = {}"
    if "s \<in> {''batch_image_hold:'', ''batch_image_capture:'', ''batch_image_release:''}" for s
    using that by (auto simp: blank_heads_def space_encodings_def)
  with b have p: "set (s @ b) \<inter> blank_heads = {}"
    if "s \<in> {''batch_image_hold:'', ''batch_image_capture:'', ''batch_image_release:''}" for s
    using that unfolding set_append by blast
  show t: "TrimSpace b = b" by (rule TrimSpace_id [OF b])
  show "TrimSpace (''batch_image_hold:'' @ b) = ''batch_image_hold:'' @ b"
    "TrimSpace (''batch_image_capture:'' @ b) = ''batch_image_capture:'' @ b"
    "TrimSpace (''batch_image_release:'' @ b) = ''batch_image_release:'' @ b"
    by (rule TrimSpace_id, rule p, simp)+
  show "BatchImageHoldRequestID b = ''batch_image_hold:'' @ b"
    "BatchImageCaptureRequestID b = ''batch_image_capture:'' @ b"
    "BatchImageReleaseRequestID b = ''batch_image_release:'' @ b"
    by (simp_all only: BatchImageHoldRequestID_def BatchImageCaptureRequestID_def BatchImageReleaseRequestID_def t)
qed

lemma hold_case:
  assumes "run_state (applyBatchImageBalanceHold ext c apply) w = (r, w')"
    and "costs f (apply (Normalize_hold ext c))"
    and w: "rely_ok others_elsewhere w" "users_ok (db w)"
    and "(TrimSpace (hc_request_id c), hc_api_key_id c) \<notin> claims (db w) \<Longrightarrow>
         (TrimSpace (hc_request_id c), hc_api_key_id c) \<in> claims (db w') \<Longrightarrow>
         moves P g (apply (Normalize_hold ext c)) \<and>
         P (insert (TrimSpace (hc_request_id c), hc_api_key_id c) (claims (db w)))"
  shows "kept (db w) (db w') \<or> moved (TrimSpace (hc_request_id c), hc_api_key_id c) g (db w) (db w')"
proof (cases "TrimSpace (hc_request_id c) = []")
  case False
  with assms(1) have run: "run_state (claimed_transaction (TrimSpace (hc_request_id c)) (hc_api_key_id c)
      (hc_request_fingerprint (Normalize_hold ext c)) no_hold_result
      (\<lambda>now. tx_then (apply (Normalize_hold ext c)) (\<lambda>r. Pair (Inr (r\<lparr>hr_applied := True\<rparr>))))) w = (r, w')"
    by (simp add: applyBatchImageBalanceHold_def Let_def)
  show ?thesis
    by (rule claimed_transaction_moves [OF run costs_then_Pair [OF assms(2)] w])
      (use assms(5) in \<open>auto intro: moves_then_Pair\<close>)
qed (use assms in \<open>simp add: applyBatchImageBalanceHold_def Let_def kept_refl\<close>)

lemma perform_holds:
  fixes w :: "('x bill_db_scheme, 'z) shared_scheme"
  assumes ext: "float64_exact ext" "exact_amounts x"
    and w: "rely_ok others_elsewhere w" "holds_inv H (db w)"
    and run: "run_state (bill_perform ext x) w = (r, w')"
    and ordered: "committed x (db w) (db w') \<Longrightarrow> in_order H (claims (db w)) x"
  shows "kept (db w) (db w') \<or> (\<exists>k. op_claim x = Some k \<and> moved k (op_hold x) (db w) (db w'))"
proof -
  have u: "users_ok (db w)" using w(2) by (simp add: holds_inv_def)
  have H: "hold_ok (db w) (hold_of c)" if "hold_of c \<in> set H" for c
    using w(2) that by (simp add: holds_inv_def)
  have cm: "in_order H (claims (db w)) x"
    if "op_claim x = Some k" "k \<notin> claims (db w)" "k \<in> claims (db w')" for k
    using ordered that by (simp add: committed_def)
  show ?thesis
  proof (cases x)
    case (UsageOp c)
    with run obtain r' where r': "run_state (Apply ext c) w = (r', w')" by (auto split: prod.splits)
    show ?thesis
    proof (cases "TrimSpace (uc_request_id c) = []")
      case False
      with r' have run: "run_state (claimed_transaction (TrimSpace (uc_request_id c)) (uc_api_key_id c)
          (uc_request_fingerprint (Normalize_usage ext c)) no_usage_result
          (applyUsageBillingEffects ext (Normalize_usage ext c))) w = (r', w')"
        by (simp add: Apply_def Let_def)
      have "kept (db w) (db w') \<or>
          moved (TrimSpace (uc_request_id c), uc_api_key_id c) (\<lambda>_. 0) (db w) (db w')"
        by (rule claimed_transaction_moves [OF run usage_costs w(1) u, where P = "\<lambda>_. True"])
          (use ext UsageOp in \<open>auto intro: usage_moves\<close>)
      then show ?thesis using UsageOp by (simp add: moved_def)
    qed (use r' u UsageOp in \<open>simp add: Apply_def Let_def kept_refl\<close>)
  next
    case (ArchiveOp cutoff)
    with run obtain r' where "run_state (CleanupUsageBillingDedup 1 cutoff) w = (r', w')"
      by (auto split: prod.splits)
    then have "db w' = seen_by w \<or> db w' = snd (archive_old cutoff usageBillingDedupCleanupBatchSize (seen_by w))"
      by (auto simp: run_call_def Let_def seen_by_def split: fault.splits sum.splits if_splits)
    moreover note seen_kept [OF w(1) u]
    moreover have "kept d (snd (archive_old cutoff n d))" if "users_ok d" for d :: "'x bill_db_scheme" and n
      using archive_unbilled [OF that, of cutoff n]
      by (simp add: kept_def unbilled_def archive_old_def Let_def frozen_def [abs_def] user_ids_def)
    ultimately show ?thesis by (auto simp: kept_def)
  next
    case (ReserveOp c)
    with run obtain r' where r': "run_state (applyBatchImageBalanceHold ext c
        (reserveUsageBillingBatchImageBalance ext)) w = (r', w')"
      by (auto simp: ReserveBatchImageBalance_def split: prod.splits)
    have "kept (db w) (db w') \<or>
        moved (TrimSpace (hc_request_id c), hc_api_key_id c) (op_hold x) (db w) (db w')"
    proof (rule hold_case [OF r' reserve_costs w(1) u, where P = "\<lambda>_. True"])
      assume "(TrimSpace (hc_request_id c), hc_api_key_id c) \<notin> claims (db w)"
        "(TrimSpace (hc_request_id c), hc_api_key_id c) \<in> claims (db w')"
      with cm ReserveOp have "0 < hc_hold_amount c" by simp
      with ext(2) ReserveOp
      show "moves (\<lambda>_. True) (op_hold x) (reserveUsageBillingBatchImageBalance ext (Normalize_hold ext c)) \<and> True"
        by (auto intro!: op_hold_moves simp del: op_hold.simps)
    qed (use ext(2) ReserveOp in simp_all)
    then show ?thesis using ReserveOp by auto
  next
    case (CaptureOp c)
    with run obtain r' where r': "run_state (applyBatchImageBalanceHold ext c
        (captureUsageBillingBatchImageBalance ext)) w = (r', w')"
      by (auto simp: CaptureBatchImageBalance_def split: prod.splits)
    have "kept (db w) (db w') \<or>
        moved (TrimSpace (hc_request_id c), hc_api_key_id c) (op_hold x) (db w) (db w')"
    proof (rule hold_case [OF r' capture_costs w(1) u, where P = "\<lambda>_. True"])
      assume "(TrimSpace (hc_request_id c), hc_api_key_id c) \<notin> claims (db w)"
        "(TrimSpace (hc_request_id c), hc_api_key_id c) \<in> claims (db w')"
      with cm CaptureOp have "hold_of c \<in> set H" by simp
      from H [OF this] ext(2) CaptureOp
      show "moves (\<lambda>_. True) (op_hold x) (captureUsageBillingBatchImageBalance ext (Normalize_hold ext c)) \<and> True"
        by (auto intro!: op_hold_moves simp: hold_of_def simp del: op_hold.simps)
    qed (use ext(2) CaptureOp in simp_all)
    then show ?thesis using CaptureOp by auto
  next
    case (ReleaseOp c)
    with run obtain r' where r': "run_state (applyBatchImageBalanceHold ext c
        (releaseUsageBillingBatchImageBalance ext)) w = (r', w')"
      by (auto simp: ReleaseBatchImageBalance_def split: prod.splits)
    let ?P = "\<lambda>C. (BatchImageHoldRequestID (TrimSpace (hc_batch_id c)), hc_api_key_id c) \<in> C"
    have "kept (db w) (db w') \<or>
        moved (TrimSpace (hc_request_id c), hc_api_key_id c) (op_hold x) (db w) (db w')"
    proof (rule hold_case [OF r' release_costs w(1) u, where P = ?P])
      assume "(TrimSpace (hc_request_id c), hc_api_key_id c) \<notin> claims (db w)"
        "(TrimSpace (hc_request_id c), hc_api_key_id c) \<in> claims (db w')"
      with cm ReleaseOp have "hold_of c \<in> set H" "clean (hc_batch_id c)" by simp_all
      from H [OF this(1)] clean_request_ids(7) [OF this(2)]
      have a: "0 < hc_hold_amount c" "?P (insert (TrimSpace (hc_request_id c), hc_api_key_id c) (claims (db w)))"
        by (simp_all add: hold_of_def)
      have "scaled (hc_hold_amount c)" using ext(2) ReleaseOp by simp
      from op_hold_moves(3) [OF this a(1), of ext] a(2)
      show "moves ?P (op_hold x) (releaseUsageBillingBatchImageBalance ext (Normalize_hold ext c)) \<and>
          ?P (insert (TrimSpace (hc_request_id c), hc_api_key_id c) (claims (db w)))"
        unfolding ReleaseOp by blast
    qed (use ext(2) ReleaseOp in simp_all)
    then show ?thesis using ReleaseOp by auto
  qed
qed

section \<open>Histories\<close>

lemma held_append: "held (H @ [(b, k, u, a)]) i = held H i + (if u = i then a else 0)"
  by (simp add: held_def)

lemma held_remove:
  "distinct (map job H) \<Longrightarrow> (b, k, u, a) \<in> set H \<Longrightarrow>
     held (filter (\<lambda>h. h \<noteq> (b, k, u, a)) H) i = held H i - (if u = i then a else 0)"
proof (induction H)
  case (Cons h H)
  then have d: "distinct (map job H)" "job h \<notin> job ` set H" by simp_all
  show ?case
  proof (cases "h = (b, k, u, a)")
    case True
    have "h' \<noteq> (b, k, u, a)" if "h' \<in> set H" for h' using d(2) True that by auto
    then have "filter (\<lambda>h. h \<noteq> (b, k, u, a)) H = H" by (simp add: filter_id_conv)
    then show ?thesis by (simp add: held_def True)
  next
    case False
    then have "(b, k, u, a) \<in> set H" using Cons.prems(2) by simp
    with Cons.IH [OF d(1)] False show ?thesis by (simp add: held_def split: prod.splits)
  qed
qed simp

lemma hold_ok_other:
  assumes "hold_ok d h" "claims d' = insert k (claims d)" "user_ids d' = user_ids d"
    and "k \<noteq> (BatchImageCaptureRequestID (fst h), fst (snd h))"
    and "k \<noteq> (BatchImageReleaseRequestID (fst h), fst (snd h))"
  shows "hold_ok d' h"
  using assms by (cases h) auto

lemma holds_inv_kept: "holds_inv H d \<Longrightarrow> kept d d' \<Longrightarrow> holds_inv H d'"
proof -
  assume H: "holds_inv H d" and k: "kept d d'"
  have "hold_ok d h \<Longrightarrow> hold_ok d' h" for h
    using k by (cases h) (simp add: kept_def)
  with H k show ?thesis by (simp add: holds_inv_def kept_def)
qed

lemma clean_trim:
  assumes "clean b"
  shows "TrimSpace (BatchImageHoldRequestID b) = BatchImageHoldRequestID b"
    "TrimSpace (BatchImageCaptureRequestID b) = BatchImageCaptureRequestID b"
    "TrimSpace (BatchImageReleaseRequestID b) = BatchImageReleaseRequestID b"
    "BatchImageReleaseRequestID b \<noteq> []" "BatchImageCaptureRequestID b \<noteq> []"
  unfolding clean_request_ids(1-3) [OF assms]
  by (rule clean_request_ids(4-6) [OF assms])+ simp_all

text \<open>The keys of the three operations on batches are different, and no other request has them.\<close>

lemma request_ids_distinct:
  assumes "clean b" "clean b'"
  shows "BatchImageHoldRequestID b \<noteq> BatchImageCaptureRequestID b'"
    "BatchImageHoldRequestID b \<noteq> BatchImageReleaseRequestID b'"
    "BatchImageCaptureRequestID b = BatchImageCaptureRequestID b' \<longleftrightarrow> b = b'"
    "BatchImageReleaseRequestID b = BatchImageReleaseRequestID b' \<longleftrightarrow> b = b'"
    "BatchImageHoldRequestID b = BatchImageHoldRequestID b' \<longleftrightarrow> b = b'"
    "BatchImageCaptureRequestID b \<noteq> BatchImageReleaseRequestID b'"
    "take 12 (BatchImageCaptureRequestID b) = ''batch_image_''"
    "take 12 (BatchImageReleaseRequestID b) = ''batch_image_''"
  using assms by (simp_all add: clean_request_ids)

lemma holds_inv_usage:
  assumes "holds_inv H d" "moved k (\<lambda>_. 0) d d'" "take 12 (fst k) \<noteq> ''batch_image_''"
  shows "holds_inv H d'"
proof -
  have "hold_ok d' h" if "h \<in> set H" for h
  proof -
    have ok: "hold_ok d h" using assms(1) that by (simp add: holds_inv_def)
    then have "clean (fst h)" by (cases h) simp
    then have "fst k \<noteq> BatchImageCaptureRequestID (fst h)" "fst k \<noteq> BatchImageReleaseRequestID (fst h)"
      using assms(3) request_ids_distinct(7,8) by metis+
    with ok assms(2) show ?thesis
      by (intro hold_ok_other [of d h d' k]) (auto simp: moved_def)
  qed
  with assms(1,2) show ?thesis by (simp add: holds_inv_def moved_def)
qed

lemma holds_inv_reserve:
  assumes "holds_inv H d" "moved (BatchImageHoldRequestID (hc_batch_id c), hc_api_key_id c) (op_hold (ReserveOp c)) d d'"
    and "in_order H (claims d) (ReserveOp c)" "scaled (hc_hold_amount c)"
  shows "holds_inv (post (ReserveOp c) H) d'"
proof -
  let ?k = "(BatchImageHoldRequestID (hc_batch_id c), hc_api_key_id c)"
  have b: "clean (hc_batch_id c)" "0 < hc_hold_amount c" using assms(3) by simp_all
  have new: "hold_ok d' (hold_of c)"
    using assms(2-4) request_ids_distinct(1,2) [OF b(1) b(1)] by (auto simp: moved_def hold_of_def)
  have old: "hold_ok d' h \<and> job h \<noteq> job (hold_of c)" if "h \<in> set H" for h
  proof -
    have ok: "hold_ok d h" using assms(1) that by (simp add: holds_inv_def)
    then have c: "clean (fst h)" by (cases h) simp
    have d': "claims d' = insert ?k (claims d)" "user_ids d' = user_ids d"
      using assms(2) by (simp_all add: moved_def)
    have "hold_ok d' h"
      by (rule hold_ok_other [OF ok d']) (simp_all add: request_ids_distinct(1,2) [OF b(1) c])
    moreover have "job h \<noteq> job (hold_of c)"
      using ok assms(2) by (cases h) (auto simp: moved_def job_def hold_of_def)
    ultimately show ?thesis by blast
  qed
  have "frozen d' i = held (H @ [hold_of c]) i" for i
    using assms(1,2) by (cases "i = hc_user_id c") (simp_all add: holds_inv_def moved_def hold_of_def held_append)
  moreover have "job (hold_of c) \<notin> job ` set H" using old by (metis imageE)
  moreover have "\<forall>h \<in> set (post (ReserveOp c) H). hold_ok d' h" using new old by simp
  ultimately show ?thesis using assms(1,2) by (simp add: holds_inv_def moved_def)
qed

lemma holds_inv_settle:
  assumes "holds_inv H d" "hold_of c \<in> set H" "moved (rid, hc_api_key_id c) (op_hold (ReleaseOp c)) d d'"
    and "clean (hc_batch_id c)"
    and "rid = BatchImageCaptureRequestID (hc_batch_id c) \<or> rid = BatchImageReleaseRequestID (hc_batch_id c)"
  shows "holds_inv (filter (\<lambda>h. h \<noteq> hold_of c) H) d'"
proof -
  have dist: "distinct (map job H)" using assms(1) by (simp add: holds_inv_def)
  have "hold_ok d' h" if h: "h \<in> set H" "h \<noteq> hold_of c" for h
  proof -
    have ok: "hold_ok d h" using assms(1) h(1) by (simp add: holds_inv_def)
    then have c: "clean (fst h)" by (cases h) simp
    have "job h \<noteq> job (hold_of c)" using dist h assms(2) by (auto simp: distinct_map dest: inj_onD)
    then have "fst h = hc_batch_id c \<Longrightarrow> fst (snd h) \<noteq> hc_api_key_id c" by (auto simp: job_def hold_of_def)
    then have n: "hc_batch_id c \<noteq> fst h \<or> hc_api_key_id c \<noteq> fst (snd h)" by auto
    note ids = request_ids_distinct(3,4,6) [OF assms(4) c] request_ids_distinct(6) [OF c assms(4), symmetric]
    have "rid \<noteq> BatchImageCaptureRequestID (fst h) \<or> hc_api_key_id c \<noteq> fst (snd h)"
      "rid \<noteq> BatchImageReleaseRequestID (fst h) \<or> hc_api_key_id c \<noteq> fst (snd h)"
      using n assms(5) ids by metis+
    moreover have "claims d' = insert (rid, hc_api_key_id c) (claims d)" "user_ids d' = user_ids d"
      using assms(3) by (simp_all add: moved_def)
    ultimately show ?thesis by (intro hold_ok_other [OF ok]) auto
  qed
  moreover have "frozen d' i = held (filter (\<lambda>h. h \<noteq> hold_of c) H) i" for i
    using assms(1,3) held_remove [OF dist, of "hc_batch_id c" "hc_api_key_id c" "hc_user_id c" "hc_hold_amount c" i]
      assms(2) by (cases "i = hc_user_id c") (simp_all add: holds_inv_def moved_def hold_of_def)
  ultimately show ?thesis
    using assms(1,3) by (simp add: holds_inv_def moved_def distinct_map_filter)
qed

lemma holds_inv_step:
  assumes "float64_exact ext" "exact_amounts x" "rely_ok others_elsewhere w" "holds_inv H (db w)"
    and "run_state (bill_perform ext x) w = (r, w')"
    and "committed x (db w) (db w') \<Longrightarrow> in_order H (claims (db w)) x"
  shows "holds_inv (if committed x (db w) (db w') then post x H else H) (db w')"
proof (cases "committed x (db w) (db w')")
  case False
  have "kept (db w) (db w')"
    using perform_holds [OF assms] False by (auto simp: committed_def moved_def)
  with holds_inv_kept [OF assms(4)] False show ?thesis by simp
next
  case True
  then obtain k where k: "op_claim x = Some k" "moved k (op_hold x) (db w) (db w')"
    using perform_holds [OF assms] by (auto simp: committed_def kept_def split: option.splits)
  note o = assms(6) [OF True]
  have "holds_inv (post x H) (db w')"
  proof (cases x)
    case (UsageOp c)
    with k o show ?thesis
      using holds_inv_usage [OF assms(4), of k "db w'"] by (auto simp: op_hold.simps [abs_def])
  next
    case (ReserveOp c)
    then have "k = (BatchImageHoldRequestID (hc_batch_id c), hc_api_key_id c)"
      using k(1) o by (auto simp: clean_trim)
    with k(2) o assms(2) ReserveOp show ?thesis
      using holds_inv_reserve [OF assms(4)] by (simp del: in_order.simps op_hold.simps post.simps)
  next
    case (CaptureOp c)
    then have "k = (BatchImageCaptureRequestID (hc_batch_id c), hc_api_key_id c)"
      using k(1) o by (auto simp: clean_trim)
    moreover have "op_hold (CaptureOp c) = op_hold (ReleaseOp c)" by (rule ext) simp
    ultimately show ?thesis
      using holds_inv_settle [OF assms(4), of c] k(2) o CaptureOp by (simp del: op_hold.simps)
  next
    case (ReleaseOp c)
    then have "k = (BatchImageReleaseRequestID (hc_batch_id c), hc_api_key_id c)"
      using k(1) o by (auto simp: clean_trim)
    with k(2) o ReleaseOp show ?thesis
      using holds_inv_settle [OF assms(4), of c] by (simp del: op_hold.simps)
  qed (use True in \<open>simp add: committed_def\<close>)
  with True show ?thesis by simp
qed

lemma holds_inv_history:
  assumes "float64_exact ext" "\<forall>x \<in> set ops. exact_amounts x" "rely_ok others_elsewhere w"
    and "holds_inv H (db w)" "orderly ext H ops w" "run_state (bill_history ext ops) w = (rs, w')"
  shows "holds_inv (open_holds ext H ops w) (db w')"
  using assms(2-6)
proof (induction ops arbitrary: H w rs)
  case (Cons x xs)
  obtain r v where v: "run_state (bill_perform ext x) w = (r, v)" by fastforce
  with Cons.prems(5) obtain rs' where run: "run_state (bill_history ext xs) v = (rs', w')"
    by (auto split: prod.splits)
  have x: "exact_amounts x" and xs: "\<forall>x \<in> set xs. exact_amounts x" using Cons.prems(1) by simp_all
  have "users_ok (db w)" using Cons.prems(3) by (simp add: holds_inv_def)
  note rely = perform_step(1) [OF assms(1) x Cons.prems(2) this v]
  have ord: "committed x (db w) (db v) \<Longrightarrow> in_order H (claims (db w)) x"
    "orderly ext (if committed x (db w) (db v) then post x H else H) xs v"
    using Cons.prems(4) v by (simp_all add: Let_def split: if_splits)
  from Cons.IH [OF xs rely holds_inv_step [OF assms(1) x Cons.prems(2,3) v ord(1)] ord(2) run]
  show ?case using v by (simp add: Let_def)
qed simp

section \<open>Settling an open hold\<close>

lemma held_covers:
  assumes "\<forall>h \<in> set H. hold_ok d h" "(b, k, u, a) \<in> set H"
  shows "a \<le> held H u"
proof -
  have pos: "0 \<le> held H' u" if "\<forall>h \<in> set H'. hold_ok d h" for H'
    using that by (induction H') (auto simp: held_def split: prod.splits)
  from assms show ?thesis
  proof (induction H)
    case (Cons h H)
    then show ?case using pos [of H] by (cases h) (auto simp: held_def)
  qed simp
qed

lemma open_hold_user:
  assumes "holds_inv H d" "hold_of c \<in> set H"
  obtains u where "b_users d (hc_user_id c) = Some u" "user_ok u" "hc_hold_amount c \<le> bu_frozen u"
    "0 < hc_hold_amount c" "scaled (hc_hold_amount c)"
proof -
  have ok: "hold_ok d (hold_of c)" using assms by (simp add: holds_inv_def)
  then obtain u where u: "b_users d (hc_user_id c) = Some u" by (auto simp: hold_of_def user_ids_def)
  moreover have "bu_frozen u = held H (hc_user_id c)"
    using assms(1) u by (auto simp: holds_inv_def frozen_def dest: spec [of _ "hc_user_id c"])
  moreover have "hc_hold_amount c \<le> held H (hc_user_id c)"
    using assms held_covers [of H d "hc_batch_id c" "hc_api_key_id c" "hc_user_id c" "hc_hold_amount c"]
    by (simp add: holds_inv_def hold_of_def)
  ultimately show thesis
    using ok assms(1) by (intro that [of u]) (auto simp: holds_inv_def users_ok_def hold_of_def)
qed

lemma run_hold_quiet:
  assumes "schedule v = []" "hc_request_id c = rid" "rid \<noteq> []" "TrimSpace rid = rid"
    and "(rid, hc_api_key_id c) \<notin> claims (db v)"
    and "apply (Normalize_hold ext c)
      (new_claim rid (hc_api_key_id c) (hc_request_fingerprint (Normalize_hold ext c)) (clock v) (db v)) = (Inr res, d')"
  shows "run_state (applyBatchImageBalanceHold ext c apply) v = (Inr (res\<lparr>hr_applied := True\<rparr>), v\<lparr>db := d'\<rparr>)"
  using assms
  by (simp add: applyBatchImageBalanceHold_def Let_def claimed_transaction_def transaction_def run_call_quiet
      all_or_nothing_def claimed_tx_def claim_free tx_then_def)

text \<open>
  On a quiet database a settlement of an open hold takes effect at once: the release always, the capture
  unless it costs more than the hold allows.
\<close>

definition settle_hold :: "rat \<Rightarrow> rat \<Rightarrow> bill_user \<Rightarrow> bill_user" where
  "settle_hold amount cost u =
     u\<lparr>bu_balance := column 8 (bu_balance u + (amount - cost)), bu_frozen := bu_frozen u - amount\<rparr>"

definition hold_settled :: "string \<Rightarrow> hold_command \<Rightarrow> string \<Rightarrow> bill_user \<Rightarrow> int \<Rightarrow> 'x bill_db_scheme \<Rightarrow> 'x bill_db_scheme" where
  "hold_settled rid c fp u now d =
     (new_claim rid (hc_api_key_id c) fp now d)\<lparr>b_users := (b_users d)(hc_user_id c \<mapsto> u)\<rparr>"

lemma hold_settled_users [simp]: "b_users (hold_settled rid c fp u now d) = (b_users d)(hc_user_id c \<mapsto> u)"
  by (simp add: hold_settled_def)

lemma hold_settled_inv:
  assumes "holds_inv H d" "hold_of c \<in> set H" "b_users d (hc_user_id c) = Some u"
    and "rid = BatchImageCaptureRequestID (hc_batch_id c) \<or> rid = BatchImageReleaseRequestID (hc_batch_id c)"
  shows "holds_inv (filter (\<lambda>h. h \<noteq> hold_of c) H)
    (hold_settled rid c fp (settle_hold (hc_hold_amount c) cost u) now d)"
proof (rule holds_inv_settle [OF assms(1,2)])
  have ok: "hold_ok d (hold_of c)" using assms(1,2) by (simp add: holds_inv_def)
  then show "clean (hc_batch_id c)" by (simp add: hold_of_def)
  have "(rid, hc_api_key_id c) \<notin> claims d" using ok assms(4) by (auto simp: hold_of_def)
  moreover have "users_ok d" "user_ok u" using assms(1,3) by (auto simp: holds_inv_def users_ok_def)
  ultimately show "moved (rid, hc_api_key_id c) (op_hold (ReleaseOp c)) d
      (hold_settled rid c fp (settle_hold (hc_hold_amount c) cost u) now d)"
    using ok assms(3)
    by (auto simp: moved_def hold_settled_def users_ok_def user_ok_def settle_hold_def frozen_def user_ids_def
        hold_of_def column_scaled scaled_diff claims_def claim_list_def new_claim_def row_claim_def)
qed (rule assms(4))

lemma open_hold_released:
  assumes "holds_inv H (db v)" "hold_of c \<in> set H" "schedule v = []"
    and "hc_request_id c = BatchImageReleaseRequestID (hc_batch_id c)"
  shows "\<exists>u res fp. b_users (db v) (hc_user_id c) = Some u \<and> hr_applied res \<and>
    settle_hold (hc_hold_amount c) 0 u =
      u\<lparr>bu_balance := bu_balance u + hc_hold_amount c, bu_frozen := bu_frozen u - hc_hold_amount c\<rparr> \<and>
    run_state (ReleaseBatchImageBalance ext c) v = (Inr res,
      v\<lparr>db := hold_settled (hc_request_id c) c fp (settle_hold (hc_hold_amount c) 0 u) (clock v) (db v)\<rparr>)"
proof -
  obtain u where u: "b_users (db v) (hc_user_id c) = Some u" "user_ok u" "hc_hold_amount c \<le> bu_frozen u"
    "0 < hc_hold_amount c" "scaled (hc_hold_amount c)" by (rule open_hold_user [OF assms(1,2)])
  have ok: "hold_ok (db v) (hold_of c)" using assms(1,2) by (simp add: holds_inv_def)
  then have b: "clean (hc_batch_id c)" by (simp add: hold_of_def)
  let ?fp = "hc_request_fingerprint (Normalize_hold ext c)"
  let ?u = "settle_hold (hc_hold_amount c) 0 u"
  have cols: "column 8 (bu_balance u + hc_hold_amount c) = bu_balance u + hc_hold_amount c"
    "column 8 (bu_frozen u - hc_hold_amount c) = bu_frozen u - hc_hold_amount c"
    using u(2,5) by (auto simp: user_ok_def intro!: column_id scaled_add scaled_diff)
  have "releaseUsageBillingBatchImageBalance ext (Normalize_hold ext c)
      (new_claim (hc_request_id c) (hc_api_key_id c) ?fp (clock v) (db v)) =
      (Inr (hold_reply ext ?u), hold_settled (hc_request_id c) c ?fp ?u (clock v) (db v))"
    using u ok b
    by (simp add: releaseUsageBillingBatchImageBalance_def hold_claim_exists update_user_def cols settle_hold_def
        hold_settled_def clean_request_ids(7) hold_of_def)
  then have "run_state (ReleaseBatchImageBalance ext c) v = (Inr ((hold_reply ext ?u)\<lparr>hr_applied := True\<rparr>),
      v\<lparr>db := hold_settled (hc_request_id c) c ?fp ?u (clock v) (db v)\<rparr>)"
    unfolding ReleaseBatchImageBalance_def using assms(3,4) ok b
    by (intro run_hold_quiet) (simp_all add: clean_trim hold_of_def)
  moreover have "?u = u\<lparr>bu_balance := bu_balance u + hc_hold_amount c, bu_frozen := bu_frozen u - hc_hold_amount c\<rparr>"
    by (simp add: settle_hold_def cols)
  ultimately show ?thesis
    using u(1) by (intro exI [of _ u] exI [of _ "(hold_reply ext ?u)\<lparr>hr_applied := True\<rparr>"] exI [of _ ?fp]) simp
qed

lemma open_hold_captured:
  assumes "holds_inv H (db v)" "hold_of c \<in> set H" "schedule v = []"
    and "hc_request_id c = BatchImageCaptureRequestID (hc_batch_id c)"
  shows "\<exists>u res fp. b_users (db v) (hc_user_id c) = Some u \<and> user_ok u \<and> hr_applied res \<and>
    run_state (CaptureBatchImageBalance ext c) v =
      (if float_sub ext (hc_actual_amount c) (hc_hold_amount c) > 1 / 10 ^ 8
       then (Inl ErrBatchImageSettlementCostExceedsHold, v)
       else (Inr res, v\<lparr>db := hold_settled (hc_request_id c) c fp
               (settle_hold (hc_hold_amount c) (hc_actual_amount c) u) (clock v) (db v)\<rparr>))"
proof -
  obtain u where u: "b_users (db v) (hc_user_id c) = Some u" "user_ok u" "hc_hold_amount c \<le> bu_frozen u"
    "0 < hc_hold_amount c" "scaled (hc_hold_amount c)" by (rule open_hold_user [OF assms(1,2)])
  have ok: "hold_ok (db v) (hold_of c)" using assms(1,2) by (simp add: holds_inv_def)
  then have b: "clean (hc_batch_id c)" by (simp add: hold_of_def)
  let ?fp = "hc_request_fingerprint (Normalize_hold ext c)"
  let ?d = "new_claim (hc_request_id c) (hc_api_key_id c) ?fp (clock v) (db v)"
  let ?u = "settle_hold (hc_hold_amount c) (hc_actual_amount c) u"
  let ?many = "float_sub ext (hc_actual_amount c) (hc_hold_amount c) > 1 / 10 ^ 8"
  have cols: "column 8 (bu_frozen u - hc_hold_amount c) = bu_frozen u - hc_hold_amount c"
    using u(2,5) by (auto simp: user_ok_def intro!: column_id scaled_diff)
  have rest: "x - (a - h) = x + (h - a)" for x a h :: rat by simp
  have body: "captureUsageBillingBatchImageBalance ext (Normalize_hold ext c) ?d =
      (if ?many then (Inl ErrBatchImageSettlementCostExceedsHold, ?d)
       else (Inr (hold_reply ext ?u), hold_settled (hc_request_id c) c ?fp ?u (clock v) (db v)))"
    using u by (simp add: captureUsageBillingBatchImageBalance_def update_user_def cols rest settle_hold_def hold_settled_def)
  show ?thesis
  proof (cases ?many)
    case False
    have "run_state (CaptureBatchImageBalance ext c) v = (Inr ((hold_reply ext ?u)\<lparr>hr_applied := True\<rparr>),
        v\<lparr>db := hold_settled (hc_request_id c) c ?fp ?u (clock v) (db v)\<rparr>)"
      unfolding CaptureBatchImageBalance_def using assms(3,4) ok b body False
      by (intro run_hold_quiet) (simp_all add: clean_trim hold_of_def)
    with u False show ?thesis by (intro exI conjI) simp_all
  next
    case True
    have "run_state (CaptureBatchImageBalance ext c) v = (Inl ErrBatchImageSettlementCostExceedsHold, v)"
      using assms(3,4) ok b body True
      by (simp add: CaptureBatchImageBalance_def applyBatchImageBalanceHold_def Let_def claimed_transaction_def
          transaction_def run_call_quiet all_or_nothing_def claimed_tx_def claim_free tx_then_def clean_trim hold_of_def)
    with u True show ?thesis by (intro exI [of _ u] exI [of _ "no_hold_result\<lparr>hr_applied := True\<rparr>"]) simp
  qed
qed

text \<open>
  C23. After any history in which amounts are held before they are settled and settled once, the frozen
  balance of every user is exactly the sum of the user's open holds, whatever was lost on the way. So
  every open hold can be settled: a release gives the whole amount back, a capture what it does not
  charge, and neither is refused for want of frozen money.
\<close>

theorem open_holds_are_funded:
  assumes "float64_exact ext" "\<forall>x \<in> set ops. exact_amounts x" "rely_ok others_elsewhere w"
    and "holds_inv H (db w)" "orderly ext H ops w" "run_state (bill_history ext ops) w = (rs, w')"
    and "hold_of c \<in> set (open_holds ext H ops w)" "schedule v = []" "db v = db w'"
  shows "frozen (db w') i = held (open_holds ext H ops w) i \<and>
    (hc_request_id c = BatchImageReleaseRequestID (hc_batch_id c) \<longrightarrow>
       (\<exists>u res v'. b_users (db w') (hc_user_id c) = Some u \<and>
          run_state (ReleaseBatchImageBalance ext c) v = (Inr res, v') \<and> hr_applied res \<and>
          b_users (db v') = (b_users (db w'))(hc_user_id c \<mapsto>
            u\<lparr>bu_balance := bu_balance u + hc_hold_amount c,
              bu_frozen := bu_frozen u - hc_hold_amount c\<rparr>))) \<and>
    (hc_request_id c = BatchImageCaptureRequestID (hc_batch_id c) \<and> scaled (hc_actual_amount c) \<and>
       hc_actual_amount c \<le> hc_hold_amount c \<and>
       float_sub ext (hc_actual_amount c) (hc_hold_amount c) \<le> 1 / 10 ^ 8 \<longrightarrow>
       (\<exists>u res v'. b_users (db w') (hc_user_id c) = Some u \<and>
          run_state (CaptureBatchImageBalance ext c) v = (Inr res, v') \<and> hr_applied res \<and>
          b_users (db v') = (b_users (db w'))(hc_user_id c \<mapsto>
            u\<lparr>bu_balance := bu_balance u + (hc_hold_amount c - hc_actual_amount c),
              bu_frozen := bu_frozen u - hc_hold_amount c\<rparr>)))"
proof -
  note inv = holds_inv_history [OF assms(1-6), folded assms(9)]
  show ?thesis
  proof (intro conjI impI)
    show "frozen (db w') i = held (open_holds ext H ops w) i" using inv by (simp add: holds_inv_def assms(9))
  next
    assume "hc_request_id c = BatchImageReleaseRequestID (hc_batch_id c)"
    from open_hold_released [OF inv assms(7,8) this, of ext] obtain u res fp where
      u: "b_users (db v) (hc_user_id c) = Some u" "hr_applied res" and
      s: "settle_hold (hc_hold_amount c) 0 u =
        u\<lparr>bu_balance := bu_balance u + hc_hold_amount c, bu_frozen := bu_frozen u - hc_hold_amount c\<rparr>" and
      r: "run_state (ReleaseBatchImageBalance ext c) v = (Inr res,
        v\<lparr>db := hold_settled (hc_request_id c) c fp (settle_hold (hc_hold_amount c) 0 u) (clock v) (db v)\<rparr>)" by blast
    show "\<exists>u res v'. b_users (db w') (hc_user_id c) = Some u \<and>
        run_state (ReleaseBatchImageBalance ext c) v = (Inr res, v') \<and> hr_applied res \<and>
        b_users (db v') = (b_users (db w'))(hc_user_id c \<mapsto>
          u\<lparr>bu_balance := bu_balance u + hc_hold_amount c, bu_frozen := bu_frozen u - hc_hold_amount c\<rparr>)"
      by (rule exI [of _ u], rule exI [of _ res]) (simp add: r u s flip: assms(9))
  next
    assume "hc_request_id c = BatchImageCaptureRequestID (hc_batch_id c) \<and> scaled (hc_actual_amount c) \<and>
       hc_actual_amount c \<le> hc_hold_amount c \<and>
       float_sub ext (hc_actual_amount c) (hc_hold_amount c) \<le> 1 / 10 ^ 8"
    then have c: "hc_request_id c = BatchImageCaptureRequestID (hc_batch_id c)" "scaled (hc_actual_amount c)"
      "\<not> float_sub ext (hc_actual_amount c) (hc_hold_amount c) > 1 / 10 ^ 8" by simp_all
    from open_hold_captured [OF inv assms(7,8) c(1), of ext] obtain u res fp where
      u: "b_users (db v) (hc_user_id c) = Some u" "user_ok u" "hr_applied res" and
      r: "run_state (CaptureBatchImageBalance ext c) v = (Inr res, v\<lparr>db := hold_settled (hc_request_id c) c fp
        (settle_hold (hc_hold_amount c) (hc_actual_amount c) u) (clock v) (db v)\<rparr>)"
      unfolding if_not_P [OF c(3)] by blast
    have s: "settle_hold (hc_hold_amount c) (hc_actual_amount c) u =
        u\<lparr>bu_balance := bu_balance u + (hc_hold_amount c - hc_actual_amount c), bu_frozen := bu_frozen u - hc_hold_amount c\<rparr>"
    proof -
      have "scaled (hc_hold_amount c)" by (rule open_hold_user [OF inv assms(7)])
      then have "scaled (bu_balance u + (hc_hold_amount c - hc_actual_amount c))"
        using u(2) c(2) by (intro scaled_add scaled_diff) (simp_all add: user_ok_def)
      then show ?thesis unfolding settle_hold_def by (simp only: column_id)
    qed
    show "\<exists>u res v'. b_users (db w') (hc_user_id c) = Some u \<and>
        run_state (CaptureBatchImageBalance ext c) v = (Inr res, v') \<and> hr_applied res \<and>
        b_users (db v') = (b_users (db w'))(hc_user_id c \<mapsto>
          u\<lparr>bu_balance := bu_balance u + (hc_hold_amount c - hc_actual_amount c),
            bu_frozen := bu_frozen u - hc_hold_amount c\<rparr>)"
      by (rule exI [of _ u], rule exI [of _ res]) (simp add: r u s flip: assms(9))
  qed
qed

lemma demo_clean: "clean ''b''"
  by (auto simp: clean_def blank_heads_def space_encodings_def)

lemma demo_holds:
  "open_holds demo_ext [] [ReserveOp demo_reserve] (bill_world []) = [(''b'', 7, 1, 4)]"
  "orderly demo_ext [] [ReserveOp demo_reserve] (bill_world [])"
  "holds_inv [] (db (bill_world []))"
proof -
  have c: "committed (ReserveOp demo_reserve) bill_demo_db demo_held"
    by (simp add: committed_def demo_reserve_def demo_hold_def claims_def claim_list_def bill_demo_db_def demo_held_def
        row_claim_def)
  have e: "claims bill_demo_db = {}" by (simp add: claims_def claim_list_def bill_demo_db_def)
  have r: "db (snd (run_state (bill_perform demo_ext (ReserveOp demo_reserve)) (bill_world []))) = demo_held"
    "db (bill_world []) = bill_demo_db"
    by (simp add: demo_Reserve) (simp add: bill_world_def)
  show "open_holds demo_ext [] [ReserveOp demo_reserve] (bill_world []) = [(''b'', 7, 1, 4)]"
    using c by (simp add: r del: bill_perform.simps) (simp add: demo_reserve_def demo_hold_def hold_of_def)
  show "orderly demo_ext [] [ReserveOp demo_reserve] (bill_world [])"
    using c e demo_clean by (simp add: r del: bill_perform.simps)
      (simp add: demo_reserve_def demo_hold_def BatchImageHoldRequestID_def)
  show "holds_inv [] (db (bill_world []))"
    by (simp add: holds_inv_def users_ok_def user_ok_def bill_world_def bill_demo_db_def frozen_def held_def)
qed

theorem open_holds_are_funded_witness:
  "frozen demo_held 1 = 4 \<and>
   (\<exists>res v'. run_state (ReleaseBatchImageBalance demo_ext demo_release) ((bill_world [])\<lparr>db := demo_held\<rparr>) =
      (Inr res, v') \<and> hr_applied res \<and> b_users (db v') 1 = Some \<lparr>bu_balance = 10, bu_frozen = 0\<rparr>)"
proof -
  let ?v = "(bill_world [])\<lparr>db := demo_held\<rparr>"
  have run: "run_state (bill_history demo_ext [ReserveOp demo_reserve]) (bill_world []) =
      ([HoldReply (Inr held_reply)], ?v)" by (simp add: demo_Reserve)
  have a: "\<forall>x \<in> set [ReserveOp demo_reserve]. exact_amounts x" by (simp add: demo_reserve_def demo_hold_def)
  have o': "hold_of demo_release \<in> set (open_holds demo_ext [] [ReserveOp demo_reserve] (bill_world []))"
    unfolding demo_holds(1) by (simp add: demo_release_def demo_hold_def hold_of_def)
  have q: "rely_ok others_elsewhere (bill_world [])" "schedule ?v = []" by (simp_all add: bill_world_def)
  have r: "hc_request_id demo_release = BatchImageReleaseRequestID (hc_batch_id demo_release)"
    by (simp add: demo_release_def demo_hold_def BatchImageReleaseRequestID_def)
  from open_holds_are_funded [OF demo_exact a q(1) demo_holds(3,2) run o' q(2) refl, where i = 1,
      unfolded demo_holds(1)] r
  show ?thesis
    by (auto simp: held_def) (auto simp: demo_held_def demo_release_def demo_hold_def)
qed

end
