(* ===== verification/Billing_Traps.thy ===== *)
theory Billing_Traps
  imports Billing_Holds
begin

text \<open>
  What the ledger does outside the discipline of \<open>Billing_Holds\<close>: runs on small tables that show that the
  repository itself does not enforce it.
\<close>

definition trap_world :: "dedup_row list \<Rightarrow> rat \<Rightarrow> rat \<Rightarrow> bill_db shared" where
  "trap_world rows bal fro =
     (bill_world [])\<lparr>db := bill_demo_db\<lparr>dedup := rows, b_users := [1 \<mapsto> \<lparr>bu_balance = bal, bu_frozen = fro\<rparr>]\<rparr>\<rparr>"

definition trap_row :: "string \<Rightarrow> dedup_row" where
  "trap_row rid = \<lparr>dd_request_id = rid, dd_api_key_id = 7, dd_fingerprint = ''f2'', dd_created_at = 1000\<rparr>"

definition other_release :: hold_command where
  "other_release = (demo_hold ''batch_image_release:c'' 0)\<lparr>hc_batch_id := ''c''\<rparr>"

lemma trap_trim [simp]:
  "TrimSpace ''c'' = ''c''" "TrimSpace ''batch_image_release:c'' = ''batch_image_release:c''"
  by code_simp+

text \<open>
  A release looks for the claim of the hold, not for the one of its capture. Two holds of four dollars
  are open, for \<open>b\<close> and for \<open>c\<close>; \<open>b\<close> is captured, then released as well. The money comes from the hold of
  \<open>c\<close>, which can no longer be settled.
\<close>

lemma captured_hold_released_again:
  "fst (run_state (do { r1 \<leftarrow> CaptureBatchImageBalance demo_ext (demo_capture 4);
                        r2 \<leftarrow> ReleaseBatchImageBalance demo_ext demo_release;
                        r3 \<leftarrow> ReleaseBatchImageBalance demo_ext other_release;
                        State_Monad.return (r1, r2, r3) })
          (trap_world [trap_row ''batch_image_hold:b'', trap_row ''batch_image_hold:c''] 2 8)) =
     (Inr \<lparr>hr_applied = True, hr_new_balance = Some 2, hr_frozen_balance = Some 4\<rparr>,
      Inr \<lparr>hr_applied = True, hr_new_balance = Some 6, hr_frozen_balance = Some 0\<rparr>,
      Inl ErrFrozenInsufficient)"
  by (simp add: hold_run_defs Let_def trap_world_def trap_row_def bill_world_def bill_demo_db_def demo_hold_def
      demo_capture_def demo_release_def other_release_def) (simp add: demo_ext_def)

text \<open>
  A release that comes before the hold claims its key all the same; the hold that is made afterwards is
  never given back.
\<close>

lemma early_release_blocks_later:
  "fst (run_state (do { r1 \<leftarrow> ReleaseBatchImageBalance demo_ext demo_release;
                        r2 \<leftarrow> ReserveBatchImageBalance demo_ext demo_reserve;
                        r3 \<leftarrow> ReleaseBatchImageBalance demo_ext demo_release;
                        State_Monad.return (r1, r2, r3) })
          (trap_world [] 10 0)) =
     (Inr \<lparr>hr_applied = True, hr_new_balance = None, hr_frozen_balance = None\<rparr>,
      Inr \<lparr>hr_applied = True, hr_new_balance = Some 6, hr_frozen_balance = Some 4\<rparr>,
      Inr no_hold_result)"
  by (simp add: hold_run_defs Let_def trap_world_def trap_row_def bill_world_def bill_demo_db_def demo_hold_def
      demo_reserve_def demo_release_def) (simp add: demo_ext_def)

text \<open>
  Amounts of a batch are not rounded to the eight decimals of the balance, and the frozen balance may
  be less than what is held: the hold can be neither released nor captured.
\<close>

definition fine_hold :: "string \<Rightarrow> hold_command" where
  "fine_hold rid = (demo_hold rid 0)\<lparr>hc_hold_amount := 14 / 10 ^ 9\<rparr>"

lemma column_fine: "column 8 (14 / 10 ^ 9) = 1 / 10 ^ 8"
  by (simp add: column_def floor_eq_iff)

lemma unscaled_hold_is_stuck:
  "fst (run_state (do { r1 \<leftarrow> ReserveBatchImageBalance demo_ext (fine_hold ''batch_image_hold:b'');
                        r2 \<leftarrow> ReleaseBatchImageBalance demo_ext (fine_hold ''batch_image_release:b'');
                        r3 \<leftarrow> CaptureBatchImageBalance demo_ext (fine_hold ''batch_image_capture:b'');
                        State_Monad.return (isl r1, r2, r3) })
          (trap_world [] 10 0)) =
     (False, Inl ErrFrozenInsufficient, Inl ErrFrozenInsufficient)"
  using column_fine
  by (simp add: hold_run_defs Let_def trap_world_def trap_row_def bill_world_def bill_demo_db_def demo_hold_def
      fine_hold_def) (simp add: demo_ext_def)

end
