(* ===== verification/Batch_Types.thy ===== *)
theory Batch_Types
  imports Billing_Types
begin

text \<open>
  Jobs of the batch image API (\<open>service/batch_image.go\<close>): their statuses and the steps between them, the
  items of a job, the prices taken when a job is submitted (\<open>resolvePricingSnapshot\<close> of
  \<open>service/batch_image_public.go\<close>), and the pure parts of the settlement
  (\<open>service/batch_image_settlement.go\<close>, \<open>service/batch_image_billing_hold.go\<close>). Products and differences
  of two \<open>float64\<close> and the list prices of models are parameters. Times are microseconds.
\<close>

record batch_env =
  be_ext :: billing_ext
  be_mul :: "rat \<Rightarrow> rat \<Rightarrow> rat"
  be_model_price :: "string \<Rightarrow> rat option"
  be_retention_hours :: int
  be_page_rounds :: nat

section \<open>Statuses\<close>

datatype job_status =
    JobCreated | JobUploading | JobSubmitted | JobRunning | JobIndexing | JobSettling
  | JobCompleted | JobFailed | JobCancelled | JobOutputDeleted

fun IsTerminalBatchImageJobStatus :: "job_status \<Rightarrow> bool" where
  "IsTerminalBatchImageJobStatus JobCompleted \<longleftrightarrow> True"
| "IsTerminalBatchImageJobStatus JobFailed \<longleftrightarrow> True"
| "IsTerminalBatchImageJobStatus JobCancelled \<longleftrightarrow> True"
| "IsTerminalBatchImageJobStatus JobOutputDeleted \<longleftrightarrow> True"
| "IsTerminalBatchImageJobStatus _ \<longleftrightarrow> False"

text \<open>The steps that are listed one by one; a status is never the empty string.\<close>

fun allowed :: "job_status \<Rightarrow> job_status list" where
  "allowed JobCreated = [JobUploading, JobSubmitted, JobCancelled]"
| "allowed JobUploading = [JobSubmitted, JobCancelled]"
| "allowed JobSubmitted = [JobRunning, JobIndexing, JobFailed, JobCancelled]"
| "allowed JobRunning = [JobRunning, JobIndexing, JobFailed, JobCancelled]"
| "allowed JobIndexing = [JobSettling, JobFailed]"
| "allowed JobSettling = [JobCompleted]"
| "allowed _ = []"

definition CanTransitionBatchImageJob :: "job_status \<Rightarrow> job_status \<Rightarrow> bool" where
  "CanTransitionBatchImageJob s t \<longleftrightarrow>
     (if IsTerminalBatchImageJobStatus s
      then t = JobOutputDeleted \<and> s \<noteq> JobOutputDeleted \<and> (s = JobCompleted \<or> s = JobFailed \<or> s = JobCancelled)
      else if t = JobFailed then True
      else t \<in> set (allowed s))"

fun isBatchImageProcessorDoneStatus :: "job_status \<Rightarrow> bool" where
  "isBatchImageProcessorDoneStatus JobSettling \<longleftrightarrow> True"
| "isBatchImageProcessorDoneStatus s \<longleftrightarrow> IsTerminalBatchImageJobStatus s"

definition IsSupportedBatchImageProvider :: "string \<Rightarrow> bool" where
  "IsSupportedBatchImageProvider p \<longleftrightarrow> p = ''gemini_api'' \<or> p = ''vertex''"

text \<open>The errors a caller tells apart; \<open>DatabaseFailed\<close> is any failure of the database itself.\<close>

datatype batch_error =
    JobNotFound | JobExists | ItemExists | InvalidTransition | InvalidProvider
  | MissingProviderJobName | MissingAccountID | UnsupportedProvider | UnsupportedAccount
  | IndexOutputMissing | IndexParseFailed | IndexNoResultLines | DuplicateCustomID | IndexStateConflict
  | SettlementInvalidStatus | SettlementManifestConflict | SettlementPricingMissing
  | SettlementBillingFailed | AlreadySettled | SettlementMissingAPIKeyID | SettlementMissingAccountID
  | SettlementInvalidCounts | SettlementCostExceedsHold | BillingHoldFailed | InsufficientBalance
  | GroupDisabled | ProviderSubmitFailed | QueueFailed | IdempotencyConflict | CancelFailed
  | RecordDeleteNotReady | CleanupFailed | UnsupportedCleanupTarget | CleanupUnsafePath | ProviderCleanupFailed
  | OutputDeleteNotReady | DatabaseFailed

section \<open>Jobs and items\<close>

text \<open>
  A row of \<open>batch_image_jobs\<close>. Left out are columns that are only written and shown: the name of the
  task, the storage addresses, the factors of the price, the currency and the message of the last error.
\<close>

record batch_job =
  bj_batch_id :: string
  bj_user_id :: int
  bj_api_key_id :: "int option"
  bj_account_id :: "int option"
  bj_provider :: string
  bj_model :: string
  bj_parent_batch_id :: "string option"
  bj_status :: job_status
  bj_provider_job_name :: "string option"
  bj_input_ref :: "string option"
  bj_output_ref :: "string option"
  bj_item_count :: int
  bj_success_count :: int
  bj_fail_count :: int
  bj_estimated_cost :: rat
  bj_hold_amount :: "rat option"
  bj_actual_cost :: "rat option"
  bj_billable_unit_price :: rat
  bj_snapshot_version :: int
  bj_idempotency_key :: "string option"
  bj_request_hash :: "string option"
  bj_manifest_hash :: "string option"
  bj_retry_count :: int
  bj_version :: int
  bj_last_error_code :: "string option"
  bj_output_expires_at :: "int option"
  bj_input_deleted_at :: "int option"
  bj_output_deleted_at :: "int option"
  bj_downloaded_at :: "int option"
  bj_user_deleted_at :: "int option"
  bj_updated_at :: int
  bj_submitted_at :: "int option"
  bj_started_at :: "int option"
  bj_finished_at :: "int option"
  bj_settled_at :: "int option"

datatype item_status = ItemPending | ItemSuccess | ItemFailed

record batch_item =
  bi_job_id :: string
  bi_custom_id :: string
  bi_status :: item_status
  bi_prompt_preview :: "string option"
  bi_source_line :: "nat option"
  bi_mime_type :: "string option"
  bi_file_extension :: "string option"
  bi_image_count :: int
  bi_error_code :: "string option"

definition batchImageDerefString :: "string option \<Rightarrow> string" where
  "batchImageDerefString v = (case v of None \<Rightarrow> [] | Some s \<Rightarrow> TrimSpace s)"

definition batchImageOptionalStringPtr :: "string \<Rightarrow> string option" where
  "batchImageOptionalStringPtr v = (if TrimSpace v = [] then None else Some (TrimSpace v))"

text \<open>A decimal column is read into a \<open>float64\<close>.\<close>

definition scanBatchImageJob :: "batch_env \<Rightarrow> batch_job \<Rightarrow> batch_job" where
  "scanBatchImageJob env j =
     j\<lparr>bj_estimated_cost := float64 (be_ext env) (bj_estimated_cost j),
       bj_hold_amount := map_option (float64 (be_ext env)) (bj_hold_amount j),
       bj_actual_cost := map_option (float64 (be_ext env)) (bj_actual_cost j),
       bj_billable_unit_price := float64 (be_ext env) (bj_billable_unit_price j)\<rparr>"

section \<open>Prices\<close>

record price_group =
  pg_allowed :: bool
  pg_rate :: rat
  pg_image_rate_independent :: bool
  pg_image_rate :: rat
  pg_discount :: rat
  pg_hold :: rat
  pg_image_price :: "rat option"

record pricing_snapshot =
  ps_billable_unit_price :: rat
  ps_hold_unit_price :: rat
  ps_estimated_cost :: rat
  ps_hold_amount :: rat

definition BatchImageUnitPrice :: "batch_env \<Rightarrow> string \<Rightarrow> batch_error + rat" where
  "BatchImageUnitPrice env model =
     (if TrimSpace model = [] then Inl SettlementPricingMissing
      else case be_model_price env model of None \<Rightarrow> Inl SettlementPricingMissing | Some p \<Rightarrow> Inr p)"

definition group_multiplier :: "price_group \<Rightarrow> rat option \<Rightarrow> rat" where
  "group_multiplier g userRate =
     (let effective = (case userRate of None \<Rightarrow> (if pg_rate g < 0 then 0 else pg_rate g) | Some r \<Rightarrow> r);
          m = (if pg_image_rate_independent g then pg_image_rate g else effective)
      in if m < 0 then 0 else m)"

text \<open>
  The group of the request, if it has one, with the rate of the user in it; the multiplier of the
  account. \<open>None\<close> for a group stands for a request without group; a group that cannot be read is an
  error before this point.
\<close>

definition resolvePricingSnapshot ::
  "batch_env \<Rightarrow> (price_group \<times> rat option) option \<Rightarrow> string \<Rightarrow> rat \<Rightarrow> nat \<Rightarrow> batch_error + pricing_snapshot" where
  "resolvePricingSnapshot env grp model accountRate n =
     (let mul = be_mul env;
          groupM = (case grp of None \<Rightarrow> 1 | Some (g, u) \<Rightarrow> group_multiplier g u);
          discount = (case grp of None \<Rightarrow> 1 / 2 | Some (g, _) \<Rightarrow> if pg_discount g < 0 then 0 else pg_discount g);
          hold = (case grp of None \<Rightarrow> 6 / 10 | Some (g, _) \<Rightarrow> if pg_hold g \<ge> 0 then pg_hold g else 6 / 10);
          configured = (case grp of None \<Rightarrow> None | Some (g, _) \<Rightarrow> pg_image_price g);
          unit = (case configured of
                    Some p \<Rightarrow> if p \<ge> 0 then Inr p else BatchImageUnitPrice env model
                  | None \<Rightarrow> BatchImageUnitPrice env model)
      in if (case grp of None \<Rightarrow> False | Some (g, _) \<Rightarrow> \<not> pg_allowed g) then Inl GroupDisabled
         else case unit of
           Inl _ \<Rightarrow> Inl SettlementPricingMissing
         | Inr u \<Rightarrow>
             if u < 0 then Inl SettlementPricingMissing
             else
               let standard = mul (mul u groupM) (if accountRate < 0 then 0 else accountRate);
                   billable = mul standard discount;
                   held = mul standard (if hold < discount then discount else hold)
               in Inr \<lparr>ps_billable_unit_price = billable, ps_hold_unit_price = held,
                       ps_estimated_cost = mul billable (of_nat n), ps_hold_amount = mul held (of_nat n)\<rparr>)"

section \<open>Commands on the held balance\<close>

definition job_hold_amount :: "batch_job \<Rightarrow> rat" where
  "job_hold_amount j = (case bj_hold_amount j of None \<Rightarrow> bj_estimated_cost j | Some h \<Rightarrow> h)"

definition buildBatchImageHoldCommand ::
  "batch_job \<Rightarrow> string \<Rightarrow> rat \<Rightarrow> string \<Rightarrow> batch_error + hold_command" where
  "buildBatchImageHoldCommand j requestID actual payloadHash =
     (case bj_api_key_id j of
        None \<Rightarrow> Inl SettlementMissingAPIKeyID
      | Some k \<Rightarrow>
          if k \<le> 0 then Inl SettlementMissingAPIKeyID
          else Inr \<lparr>hc_request_id = requestID, hc_api_key_id = k, hc_request_fingerprint = [],
                    hc_request_payload_hash = TrimSpace payloadHash, hc_user_id = bj_user_id j,
                    hc_batch_id = bj_batch_id j,
                    hc_hold_amount = (if job_hold_amount j < 0 then 0 else job_hold_amount j),
                    hc_actual_amount = (if actual < 0 then 0 else actual)\<rparr>)"

section \<open>Settlement\<close>

definition batchImageSettlementMaxRetries :: int where "batchImageSettlementMaxRetries = 5"
definition batchImageCostEpsilon :: rat where "batchImageCostEpsilon = 1 / 10 ^ 8"

definition isBatchImageSettlementRetryExhausted :: "batch_job \<Rightarrow> bool" where
  "isBatchImageSettlementRetryExhausted j \<longleftrightarrow>
     bj_status j = JobSettling \<and> bj_retry_count j \<ge> batchImageSettlementMaxRetries \<and>
     has_prefix (batchImageDerefString (bj_last_error_code j)) ''SETTLEMENT_''"

definition BuildBatchImageSettlementManifestHash :: "batch_env \<Rightarrow> batch_job \<Rightarrow> string" where
  "BuildBatchImageSettlementManifestHash env j =
     sha256_hex (be_ext env) (Join [CHR 0x00]
       [TrimSpace (bj_batch_id j), TrimSpace (bj_provider j), TrimSpace (bj_model j),
        batchImageDerefString (bj_provider_job_name j), batchImageDerefString (bj_output_ref j),
        Itoa (bj_success_count j), Itoa (bj_fail_count j), Itoa (bj_item_count j)])"

definition settlementUnitPrice :: "batch_env \<Rightarrow> batch_job \<Rightarrow> batch_error + rat" where
  "settlementUnitPrice env j =
     (if bj_snapshot_version j \<ge> 1
      then if bj_billable_unit_price j < 0 then Inl SettlementPricingMissing
           else Inr (bj_billable_unit_price j)
      else BatchImageUnitPrice env (bj_model j))"

definition outputRetentionAfterTerminal :: "batch_env \<Rightarrow> int" where
  "outputRetentionAfterTerminal env =
     (if be_retention_hours env > 0 then be_retention_hours env else 72) * (3600 * 10 ^ 6)"

end
