(* ===== verification/Batch_Store.thy ===== *)
theory Batch_Store
  imports Batch_Types Billing_Repository
begin

text \<open>
  The tables of the batch image API and the operations of \<open>repository/batch_image_repo.go\<close>, on a database
  that holds the tables of the usage ledger as well. Jobs are in the order of their ids. \<open>time.Now()\<close> is
  read before the statement.
\<close>

section \<open>Tables\<close>

record batch_db = bill_db +
  jobs :: "batch_job list"
  job_items :: "batch_item list"
  job_events :: "(string \<times> string) list"

type_synonym ('x, 'z, 'a) batch_prog =
  "(('x batch_db_scheme, 'z) shared_scheme, batch_error + 'a) state"

definition job_of :: "'x batch_db_scheme \<Rightarrow> string \<Rightarrow> batch_job option" where
  "job_of d bid = find (\<lambda>j. bj_batch_id j = bid) (jobs d)"

text \<open>\<open>UPDATE batch_image_jobs SET \<dots> WHERE batch_id = \<dots> AND \<dots>\<close>, where \<open>batch_id\<close> is unique.\<close>

definition update_job ::
  "string \<Rightarrow> (batch_job \<Rightarrow> bool) \<Rightarrow> (batch_job \<Rightarrow> batch_job) \<Rightarrow> 'x batch_db_scheme \<Rightarrow>
   batch_job option \<times> 'x batch_db_scheme" where
  "update_job bid p f d =
     (case job_of d bid of
        None \<Rightarrow> (None, d)
      | Some j \<Rightarrow>
          if p j
          then (Some (f j), d\<lparr>jobs := map (\<lambda>i. if bj_batch_id i = bid then f i else i) (jobs d)\<rparr>)
          else (None, d))"

definition append_event :: "string \<Rightarrow> string \<Rightarrow> 'x batch_db_scheme \<Rightarrow> 'x batch_db_scheme" where
  "append_event bid ev d = d\<lparr>job_events := job_events d @ [(bid, ev)]\<rparr>"

definition first_time :: "int option \<Rightarrow> int \<Rightarrow> int option" where
  "first_time t now = (case t of None \<Rightarrow> Some now | Some _ \<Rightarrow> t)"

text \<open>A program that ends with the first error of the database, and a transaction.\<close>

definition db_step ::
  "(int \<Rightarrow> 'x batch_db_scheme \<Rightarrow> 'a \<times> 'x batch_db_scheme) \<Rightarrow>
   ('a \<Rightarrow> ('x, 'z, 'b) batch_prog) \<Rightarrow> ('x, 'z, 'b) batch_prog" where
  "db_step stmt f = do {
     r \<leftarrow> call stmt;
     (case r of Inl _ \<Rightarrow> State_Monad.return (Inl DatabaseFailed) | Inr a \<Rightarrow> f a)}"

definition batch_tx ::
  "(int \<Rightarrow> 'x batch_db_scheme \<Rightarrow> (batch_error + 'a) \<times> 'x batch_db_scheme) \<Rightarrow> ('x, 'z, 'a) batch_prog" where
  "batch_tx body = do {
     r \<leftarrow> transaction body;
     State_Monad.return (case r of
       Inl None \<Rightarrow> Inl DatabaseFailed | Inl (Some e) \<Rightarrow> Inl e | Inr a \<Rightarrow> Inr a)}"

definition AppendBatchImageEvent :: "string \<Rightarrow> string \<Rightarrow> ('x, 'z, unit) batch_prog" where
  "AppendBatchImageEvent bid ev =
     db_step (\<lambda>_ d. ((), append_event bid ev d)) (\<lambda>_. State_Monad.return (Inr ()))"

section \<open>Reading and creating jobs\<close>

definition read_job ::
  "batch_env \<Rightarrow> ('x batch_db_scheme \<Rightarrow> batch_job option) \<Rightarrow> ('x, 'z, batch_job) batch_prog" where
  "read_job env q =
     db_step (\<lambda>_ d. (q d, d))
       (\<lambda>r. State_Monad.return (case r of None \<Rightarrow> Inl JobNotFound | Some j \<Rightarrow> Inr (scanBatchImageJob env j)))"

definition GetBatchImageJobByBatchID :: "batch_env \<Rightarrow> string \<Rightarrow> ('x, 'z, batch_job) batch_prog" where
  "GetBatchImageJobByBatchID env bid = read_job env (\<lambda>d. job_of d bid)"

definition GetBatchImageJobByIdempotencyKey ::
  "batch_env \<Rightarrow> int \<Rightarrow> int \<Rightarrow> string \<Rightarrow> ('x, 'z, batch_job) batch_prog" where
  "GetBatchImageJobByIdempotencyKey env uid kid key =
     read_job env (\<lambda>d. find (\<lambda>j. bj_user_id j = uid \<and> bj_api_key_id j = Some kid \<and>
                                  bj_idempotency_key j = Some key) (rev (jobs d)))"

definition GetBatchImageJobByBatchIDForOwner ::
  "batch_env \<Rightarrow> int \<Rightarrow> int \<Rightarrow> string \<Rightarrow> ('x, 'z, batch_job) batch_prog" where
  "GetBatchImageJobByBatchIDForOwner env uid kid bid =
     read_job env (\<lambda>d. find (\<lambda>j. bj_batch_id j = bid \<and> bj_user_id j = uid \<and> bj_api_key_id j = Some kid \<and>
                                  bj_user_deleted_at j = None) (jobs d))"

text \<open>What the columns keep of the amounts of a new job.\<close>

definition stored_job :: "batch_job \<Rightarrow> int \<Rightarrow> batch_job" where
  "stored_job j now =
     j\<lparr>bj_estimated_cost := column 10 (bj_estimated_cost j),
       bj_hold_amount := map_option (column 10) (bj_hold_amount j),
       bj_billable_unit_price := column 10 (bj_billable_unit_price j),
       bj_version := 0, bj_updated_at := now\<rparr>"

definition CreateBatchImageJob :: "batch_env \<Rightarrow> batch_job \<Rightarrow> ('x, 'z, batch_job) batch_prog" where
  "CreateBatchImageJob env j =
     (if \<not> IsSupportedBatchImageProvider (bj_provider j) then State_Monad.return (Inl InvalidProvider)
      else db_step
        (\<lambda>now d. if job_of d (bj_batch_id j) = None
                 then (Some (stored_job j now), d\<lparr>jobs := jobs d @ [stored_job j now]\<rparr>) else (None, d))
        (\<lambda>r. State_Monad.return
           (case r of None \<Rightarrow> Inl JobExists | Some i \<Rightarrow> Inr (scanBatchImageJob env i))))"

section \<open>Steps of a job\<close>

definition transition ::
  "string \<Rightarrow> job_status \<Rightarrow> string option \<Rightarrow> string \<Rightarrow> int \<Rightarrow> 'x batch_db_scheme \<Rightarrow>
   (batch_error + unit) \<times> 'x batch_db_scheme" where
  "transition bid s code ev now d =
     (case job_of d bid of
        None \<Rightarrow> (Inl JobNotFound, d)
      | Some j \<Rightarrow>
          if \<not> CanTransitionBatchImageJob (bj_status j) s then (Inl InvalidTransition, d)
          else (Inr (), append_event bid ev (snd (update_job bid (\<lambda>_. True) (\<lambda>i.
             i\<lparr>bj_status := s, bj_version := bj_version i + 1, bj_updated_at := now,
               bj_last_error_code := if s = JobFailed then code else bj_last_error_code i,
               bj_submitted_at := if s = JobSubmitted then first_time (bj_submitted_at i) now else bj_submitted_at i,
               bj_started_at := if s = JobRunning then first_time (bj_started_at i) now else bj_started_at i,
               bj_finished_at := if s \<in> {JobCompleted, JobFailed, JobCancelled}
                                 then first_time (bj_finished_at i) now else bj_finished_at i,
               bj_settled_at := if s = JobCompleted then first_time (bj_settled_at i) now else bj_settled_at i,
               bj_output_deleted_at := if s = JobOutputDeleted then first_time (bj_output_deleted_at i) now
                                       else bj_output_deleted_at i\<rparr>) d))))"

definition TransitionBatchImageJobStatus ::
  "string \<Rightarrow> job_status \<Rightarrow> string option \<Rightarrow> string \<Rightarrow> ('x, 'z, unit) batch_prog" where
  "TransitionBatchImageJobStatus bid s code ev =
     do { now \<leftarrow> time_now; batch_tx (\<lambda>_. transition bid s code ev now) }"

definition unsubmitted :: "batch_job \<Rightarrow> bool" where
  "unsubmitted j \<longleftrightarrow> bj_status j \<in> {JobCreated, JobUploading}"

definition TouchBatchImageJobSubmitting :: "string \<Rightarrow> ('x, 'z, unit) batch_prog" where
  "TouchBatchImageJobSubmitting bid = do {
     now \<leftarrow> time_now;
     db_step (\<lambda>_ d. ((), snd (update_job bid unsubmitted (\<lambda>i. i\<lparr>bj_updated_at := now\<rparr>) d)))
       (\<lambda>_. State_Monad.return (Inr ()))}"

text \<open>The first part of the answer says whether the row was changed, also when the event was not written.\<close>

definition FailStaleUnsubmittedBatchImageJob ::
  "string \<Rightarrow> int \<Rightarrow> string \<Rightarrow> (('x batch_db_scheme, 'z) shared_scheme, bool \<times> batch_error option) state" where
  "FailStaleUnsubmittedBatchImageJob bid cutoff code = do {
     now \<leftarrow> time_now;
     r \<leftarrow> call (\<lambda>_. update_job bid
            (\<lambda>i. unsubmitted i \<and> bj_provider_job_name i = None \<and> bj_updated_at i \<le> cutoff)
            (\<lambda>i. i\<lparr>bj_status := JobFailed, bj_last_error_code := Some code,
                   bj_finished_at := first_time (bj_finished_at i) now, bj_updated_at := now,
                   bj_version := bj_version i + 1\<rparr>));
     (case r of
        Inl _ \<Rightarrow> State_Monad.return (False, Some DatabaseFailed)
      | Inr None \<Rightarrow> State_Monad.return (False, None)
      | Inr (Some _) \<Rightarrow> do {
          e \<leftarrow> AppendBatchImageEvent bid ''billing_hold_recovery_failed_unsubmitted'';
          State_Monad.return (True, case e of Inl x \<Rightarrow> Some x | Inr _ \<Rightarrow> None)})}"

definition update_known ::
  "string \<Rightarrow> (int \<Rightarrow> batch_job \<Rightarrow> batch_job) \<Rightarrow> batch_error \<Rightarrow> (batch_job \<Rightarrow> bool) \<Rightarrow>
   (batch_job \<Rightarrow> ('x, 'z, 'a) batch_prog) \<Rightarrow> ('x, 'z, 'a) batch_prog" where
  "update_known bid f missing p k = do {
     now \<leftarrow> time_now;
     db_step (\<lambda>_. update_job bid p (f now))
       (\<lambda>r. case r of None \<Rightarrow> State_Monad.return (Inl missing) | Some j \<Rightarrow> k j)}"

definition UpdateBatchImageJobProviderOutputRef :: "string \<Rightarrow> string \<Rightarrow> ('x, 'z, unit) batch_prog" where
  "UpdateBatchImageJobProviderOutputRef bid ref =
     update_known bid (\<lambda>now i. i\<lparr>bj_output_ref := Some ref, bj_updated_at := now\<rparr>) JobNotFound (\<lambda>_. True)
       (\<lambda>_. State_Monad.return (Inr ()))"

text \<open>\<open>NULLIF(\<dots>, '')\<close>\<close>

definition nullif_empty :: "string \<Rightarrow> string option" where
  "nullif_empty s = (if s = [] then None else Some s)"

definition provider_submit ::
  "string \<Rightarrow> string \<Rightarrow> string \<Rightarrow> string \<Rightarrow> int \<Rightarrow> 'x batch_db_scheme \<Rightarrow>
   (batch_error + unit) \<times> 'x batch_db_scheme" where
  "provider_submit bid name inputRef outputRef now d =
     (case job_of d bid of
        None \<Rightarrow> (Inl JobNotFound, d)
      | Some j \<Rightarrow>
          if \<not> CanTransitionBatchImageJob (bj_status j) JobSubmitted then (Inl InvalidTransition, d)
          else (Inr (), append_event bid ''provider_submitted'' (snd (update_job bid (\<lambda>_. True) (\<lambda>i.
             i\<lparr>bj_status := JobSubmitted, bj_provider_job_name := Some name,
               bj_input_ref := nullif_empty inputRef, bj_output_ref := nullif_empty outputRef,
               bj_submitted_at := first_time (bj_submitted_at i) now, bj_updated_at := now,
               bj_version := bj_version i + 1\<rparr>) d))))"

definition UpdateBatchImageJobProviderSubmit ::
  "string \<Rightarrow> string \<Rightarrow> string \<Rightarrow> string \<Rightarrow> ('x, 'z, unit) batch_prog" where
  "UpdateBatchImageJobProviderSubmit bid name inputRef outputRef =
     do { now \<leftarrow> time_now; batch_tx (\<lambda>_. provider_submit bid name inputRef outputRef now) }"

text \<open>The status is set whatever it was before.\<close>

definition RecordBatchImageJobSubmitFailure :: "string \<Rightarrow> string \<Rightarrow> bool \<Rightarrow> ('x, 'z, unit) batch_prog" where
  "RecordBatchImageJobSubmitFailure bid code markFailed = do {
     now \<leftarrow> time_now;
     db_step (\<lambda>_ d. ((), snd (update_job bid (\<lambda>_. True) (\<lambda>i.
         i\<lparr>bj_status := if markFailed then JobFailed else bj_status i, bj_last_error_code := Some code,
           bj_finished_at := if markFailed \<or> bj_status i = JobFailed then first_time (bj_finished_at i) now
                             else bj_finished_at i,
           bj_updated_at := now, bj_version := bj_version i + 1\<rparr>) d)))
       (\<lambda>_. AppendBatchImageEvent bid (if markFailed then ''submit_failed'' else ''queue_failed''))}"

section \<open>Settlement\<close>

text \<open>The manifest hash is unique among the jobs that have one; a second job with it fails the statement.\<close>

definition mark_settled ::
  "string \<Rightarrow> rat \<Rightarrow> string \<Rightarrow> int \<Rightarrow> int \<Rightarrow> 'x batch_db_scheme \<Rightarrow> (batch_error + unit) \<times> 'x batch_db_scheme" where
  "mark_settled bid cost manifest expires now d =
     (case update_job bid
             (\<lambda>i. bj_status i = JobSettling \<and>
                  (bj_manifest_hash i = None \<or> bj_manifest_hash i = Some [] \<or> bj_manifest_hash i = Some manifest))
             (\<lambda>i. i\<lparr>bj_status := JobCompleted, bj_actual_cost := Some (column 10 cost),
                    bj_manifest_hash := Some manifest, bj_settled_at := first_time (bj_settled_at i) now,
                    bj_finished_at := first_time (bj_finished_at i) now,
                    bj_output_expires_at := first_time (bj_output_expires_at i) expires,
                    bj_updated_at := now, bj_version := bj_version i + 1\<rparr>) d of
        (Some _, d') \<Rightarrow>
          if manifest \<noteq> [] \<and>
             (\<exists>i \<in> set (jobs d). bj_batch_id i \<noteq> bid \<and> bj_manifest_hash i = Some manifest)
          then (Inl DatabaseFailed, d)
          else (Inr (), append_event bid ''settlement_completed'' d')
      | (None, _) \<Rightarrow>
          (Inl (case job_of d bid of
             None \<Rightarrow> JobNotFound
           | Some j \<Rightarrow>
               if bj_status j \<noteq> JobSettling
               then if bj_status j = JobCompleted then AlreadySettled else SettlementInvalidStatus
               else SettlementManifestConflict), d))"

definition MarkBatchImageJobSettled ::
  "string \<Rightarrow> rat \<Rightarrow> string \<Rightarrow> int \<Rightarrow> int \<Rightarrow> ('x, 'z, unit) batch_prog" where
  "MarkBatchImageJobSettled bid cost manifest now expires =
     batch_tx (\<lambda>_. mark_settled bid cost manifest expires now)"

definition SetBatchImageJobSettlementFailed ::
  "string \<Rightarrow> string \<Rightarrow> (('x batch_db_scheme, 'z) shared_scheme, batch_error + int) state" where
  "SetBatchImageJobSettlementFailed bid code =
     update_known bid
       (\<lambda>now i. i\<lparr>bj_last_error_code := Some code, bj_retry_count := bj_retry_count i + 1, bj_updated_at := now\<rparr>)
       JobNotFound (\<lambda>_. True)
       (\<lambda>j. do {
          e \<leftarrow> AppendBatchImageEvent bid ''settlement_failed'';
          State_Monad.return (case e of Inl x \<Rightarrow> Inl x | Inr _ \<Rightarrow> Inr (bj_retry_count j))})"

end
