(* ===== verification/Batch_Items.thy ===== *)
theory Batch_Items
  imports Batch_Store
begin

text \<open>
  The items of a job, the lists of jobs that the background workers take up, and the marks of the cleanup
  (\<open>repository/batch_image_repo.go\<close>, second half).
\<close>

section \<open>Items\<close>

definition item_of :: "string \<Rightarrow> string \<Rightarrow> batch_item \<Rightarrow> bool" where
  "item_of bid cid i \<longleftrightarrow> bi_job_id i = bid \<and> bi_custom_id i = cid"

text \<open>\<open>INSERT\<close>, one after another; the pair of job and custom id is unique.\<close>

fun create_items :: "batch_item list \<Rightarrow> 'x batch_db_scheme \<Rightarrow> (batch_error + unit) \<times> 'x batch_db_scheme" where
  "create_items [] d = (Inr (), d)"
| "create_items (i # is) d =
     (if \<exists>k \<in> set (job_items d). item_of (bi_job_id i) (bi_custom_id i) k then (Inl ItemExists, d)
      else create_items is (d\<lparr>job_items := job_items d @ [i]\<rparr>))"

definition BulkCreateBatchImageItems :: "batch_item list \<Rightarrow> ('x, 'z, unit) batch_prog" where
  "BulkCreateBatchImageItems is =
     (if is = [] then State_Monad.return (Inr ()) else batch_tx (\<lambda>_. create_items is))"

definition prompt_preview :: "'x batch_db_scheme \<Rightarrow> string \<Rightarrow> string \<Rightarrow> string option" where
  "prompt_preview d bid cid =
     (case find (\<lambda>i. item_of bid cid i \<and> bi_prompt_preview i \<noteq> None \<and> bi_prompt_preview i \<noteq> Some [])
             (job_items d) of
        None \<Rightarrow> None | Some i \<Rightarrow> bi_prompt_preview i)"

definition replace_items ::
  "string \<Rightarrow> batch_item list \<Rightarrow> int \<Rightarrow> int \<Rightarrow> int \<Rightarrow> 'x batch_db_scheme \<Rightarrow>
   (batch_error + unit) \<times> 'x batch_db_scheme" where
  "replace_items bid is success failed now d =
     (case job_of d bid of
        None \<Rightarrow> (Inl JobNotFound, d)
      | Some j \<Rightarrow>
          if bj_status j \<noteq> JobIndexing then (Inl IndexStateConflict, d)
          else
            let named = map (\<lambda>i. i\<lparr>bi_job_id := bid,
                                   bi_prompt_preview := if bi_prompt_preview i = None
                                     then prompt_preview d bid (bi_custom_id i) else bi_prompt_preview i\<rparr>) is
            in (case create_items named (d\<lparr>job_items := filter (\<lambda>i. bi_job_id i \<noteq> bid) (job_items d)\<rparr>) of
                  (Inl e, d') \<Rightarrow> (Inl e, d')
                | (Inr _, d') \<Rightarrow>
                    (Inr (), snd (update_job bid (\<lambda>_. True)
                       (\<lambda>i. i\<lparr>bj_success_count := success, bj_fail_count := failed, bj_updated_at := now\<rparr>) d'))))"

definition ReplaceBatchImageItemsForJob ::
  "string \<Rightarrow> batch_item list \<Rightarrow> int \<Rightarrow> int \<Rightarrow> ('x, 'z, unit) batch_prog" where
  "ReplaceBatchImageItemsForJob bid is success failed =
     do { now \<leftarrow> time_now; batch_tx (\<lambda>_. replace_items bid is success failed now) }"

definition ListBatchImageItems :: "string \<Rightarrow> nat \<Rightarrow> nat \<Rightarrow> ('x, 'z, batch_item list) batch_prog" where
  "ListBatchImageItems bid limit offset =
     db_step (\<lambda>_ d. (take (if limit = 0 \<or> limit > 500 then 100 else limit)
                       (drop offset (filter (\<lambda>i. bi_job_id i = bid) (job_items d))), d))
       (\<lambda>is. State_Monad.return (Inr is))"

section \<open>Lists for the background workers\<close>

text \<open>The order by a time and then by the id is a stable sort of the rows in the order of their ids.\<close>

definition list_limit :: "nat \<Rightarrow> nat" where
  "list_limit n = (if n = 0 \<or> n > 1000 then 100 else n)"

definition stale_unsubmitted :: "int \<Rightarrow> batch_job \<Rightarrow> bool" where
  "stale_unsubmitted cutoff j \<longleftrightarrow>
     unsubmitted j \<and> bj_provider_job_name j = None \<and> job_hold_amount j > 0 \<and> bj_updated_at j \<le> cutoff"

definition ListStaleUnsubmittedBatchImageJobs ::
  "batch_env \<Rightarrow> int \<Rightarrow> nat \<Rightarrow> ('x, 'z, batch_job list) batch_prog" where
  "ListStaleUnsubmittedBatchImageJobs env cutoff limit =
     db_step (\<lambda>_ d. (take (list_limit limit)
                (sort_key bj_updated_at (filter (stale_unsubmitted cutoff) (jobs d))), d))
       (\<lambda>js. State_Monad.return (Inr (map (scanBatchImageJob env) js)))"

section \<open>Cleanup\<close>

definition marked ::
  "string \<Rightarrow> string \<Rightarrow> (batch_job \<Rightarrow> bool) \<Rightarrow> batch_error \<Rightarrow> (batch_job \<Rightarrow> batch_job) \<Rightarrow> ('x, 'z, unit) batch_prog" where
  "marked bid ev p missing f = update_known bid (\<lambda>_. f) missing p (\<lambda>_. AppendBatchImageEvent bid ev)"

definition MarkBatchImageInputDeleted :: "string \<Rightarrow> int \<Rightarrow> ('x, 'z, unit) batch_prog" where
  "MarkBatchImageInputDeleted bid t =
     marked bid ''input_cleanup_completed'' (\<lambda>_. True) JobNotFound
       (\<lambda>i. i\<lparr>bj_input_deleted_at := first_time (bj_input_deleted_at i) t, bj_updated_at := t,
              bj_version := bj_version i + 1\<rparr>)"

definition MarkBatchImageOutputDeleted :: "string \<Rightarrow> int \<Rightarrow> ('x, 'z, unit) batch_prog" where
  "MarkBatchImageOutputDeleted bid t =
     marked bid ''output_cleanup_completed'' (\<lambda>_. True) JobNotFound
       (\<lambda>i. i\<lparr>bj_status := if bj_status i = JobCompleted then JobOutputDeleted else bj_status i,
              bj_output_deleted_at := first_time (bj_output_deleted_at i) t,
              bj_finished_at := if bj_status i = JobCompleted then first_time (bj_finished_at i) t
                                else bj_finished_at i,
              bj_updated_at := t, bj_version := bj_version i + 1\<rparr>)"

definition MarkBatchImageDownloaded :: "string \<Rightarrow> int \<Rightarrow> ('x, 'z, unit) batch_prog" where
  "MarkBatchImageDownloaded bid t =
     marked bid ''download_completed'' (\<lambda>_. True) JobNotFound
       (\<lambda>i. i\<lparr>bj_downloaded_at := first_time (bj_downloaded_at i) t, bj_updated_at := t\<rparr>)"

definition MarkBatchImageJobUserDeleted :: "int \<Rightarrow> int \<Rightarrow> string \<Rightarrow> int \<Rightarrow> ('x, 'z, unit) batch_prog" where
  "MarkBatchImageJobUserDeleted uid kid bid t =
     marked bid ''user_record_deleted''
       (\<lambda>i. bj_user_id i = uid \<and> bj_api_key_id i = Some kid \<and> bj_user_deleted_at i = None \<and>
            bj_status i \<in> {JobCompleted, JobFailed, JobCancelled, JobOutputDeleted})
       RecordDeleteNotReady
       (\<lambda>i. i\<lparr>bj_user_deleted_at := first_time (bj_user_deleted_at i) t, bj_updated_at := t\<rparr>)"

definition SetBatchImageOutputExpiresAt :: "string \<Rightarrow> int \<Rightarrow> ('x, 'z, unit) batch_prog" where
  "SetBatchImageOutputExpiresAt bid expires =
     update_known bid
       (\<lambda>now i. i\<lparr>bj_output_expires_at := first_time (bj_output_expires_at i) expires, bj_updated_at := now\<rparr>)
       JobNotFound (\<lambda>_. True) (\<lambda>_. State_Monad.return (Inr ()))"

text \<open>A job that is missing is no error here.\<close>

definition RecordBatchImageCleanupFailure :: "string \<Rightarrow> string \<Rightarrow> ('x, 'z, unit) batch_prog" where
  "RecordBatchImageCleanupFailure bid code = do {
     now \<leftarrow> time_now;
     db_step (\<lambda>_ d. ((), snd (update_job bid (\<lambda>_. True)
         (\<lambda>i. i\<lparr>bj_last_error_code := Some code, bj_retry_count := bj_retry_count i + 1, bj_updated_at := now\<rparr>) d)))
       (\<lambda>_. AppendBatchImageEvent bid ''output_cleanup_failed'')}"

end
