(* ===== verification/Batch_Settlement.thy ===== *)
theory Batch_Settlement
  imports Batch_Items
begin

text \<open>
  The money of a job (\<open>service/batch_image_billing_hold.go\<close>) and its settlement
  (\<open>service/batch_image_settlement.go\<close>): the price of the images that succeeded is taken from the amount
  that was held and the rest is given back; after too many failures the whole amount is. The invalidation
  of cached keys and the best-effort usage log are left out.
\<close>

definition batch_then ::
  "('x, 'z, 'a) batch_prog \<Rightarrow> ('a \<Rightarrow> ('x, 'z, 'b) batch_prog) \<Rightarrow> ('x, 'z, 'b) batch_prog" where
  "batch_then m f = do {
     r \<leftarrow> m;
     (case r of Inl e \<Rightarrow> State_Monad.return (Inl e) | Inr a \<Rightarrow> f a)}"

section \<open>The held balance of a job\<close>

definition reserveBatchImageBalanceHold ::
  "batch_env \<Rightarrow> batch_job \<Rightarrow> string \<Rightarrow> ('x, 'z, unit) batch_prog" where
  "reserveBatchImageBalanceHold env j payloadHash =
     (case buildBatchImageHoldCommand j (BatchImageHoldRequestID (bj_batch_id j)) 0 payloadHash of
        Inl e \<Rightarrow> State_Monad.return (Inl e)
      | Inr c \<Rightarrow>
          if hc_hold_amount c \<le> 0 then State_Monad.return (Inr ())
          else do {
            r \<leftarrow> ReserveBatchImageBalance (be_ext env) c;
            State_Monad.return (case r of
              Inr _ \<Rightarrow> Inr ()
            | Inl e \<Rightarrow> Inl (if e = ErrBatchImageInsufficientBalance then InsufficientBalance
                            else BillingHoldFailed))})"

definition captureBatchImageBalanceHold ::
  "batch_env \<Rightarrow> batch_job \<Rightarrow> rat \<Rightarrow> string \<Rightarrow> ('x, 'z, unit) batch_prog" where
  "captureBatchImageBalanceHold env j actual payloadHash =
     (case buildBatchImageHoldCommand j (BatchImageCaptureRequestID (bj_batch_id j)) actual payloadHash of
        Inl e \<Rightarrow> State_Monad.return (Inl e)
      | Inr c \<Rightarrow> do {
          r \<leftarrow> CaptureBatchImageBalance (be_ext env) c;
          State_Monad.return (case r of Inr _ \<Rightarrow> Inr () | Inl _ \<Rightarrow> Inl SettlementBillingFailed)})"

text \<open>A release that was made with another payload counts as made.\<close>

definition releaseBatchImageBalanceHold ::
  "batch_env \<Rightarrow> batch_job \<Rightarrow> string \<Rightarrow> ('x, 'z, unit) batch_prog" where
  "releaseBatchImageBalanceHold env j payloadHash =
     (case buildBatchImageHoldCommand j (BatchImageReleaseRequestID (bj_batch_id j)) 0 payloadHash of
        Inl e \<Rightarrow> State_Monad.return (Inl e)
      | Inr c \<Rightarrow>
          if hc_hold_amount c \<le> 0 then State_Monad.return (Inr ())
          else do {
            r \<leftarrow> ReleaseBatchImageBalance (be_ext env) c;
            State_Monad.return (case r of
              Inr _ \<Rightarrow> Inr ()
            | Inl e \<Rightarrow> if e = ErrUsageBillingRequestConflict then Inr () else Inl BillingHoldFailed)})"

section \<open>Settlement\<close>

text \<open>The answer is always an error.\<close>

definition failExhaustedSettlement ::
  "batch_env \<Rightarrow> batch_job \<Rightarrow> (('x batch_db_scheme, 'z) shared_scheme, batch_error) state" where
  "failExhaustedSettlement env j = do {
     r \<leftarrow> releaseBatchImageBalanceHold env j (batchImageDerefString (bj_request_hash j));
     (case r of
        Inl _ \<Rightarrow> do {
          _ \<leftarrow> SetBatchImageJobSettlementFailed (bj_batch_id j) ''SETTLEMENT_RELEASE_FAILED'';
          State_Monad.return SettlementBillingFailed}
      | Inr _ \<Rightarrow> do {
          t \<leftarrow> TransitionBatchImageJobStatus (bj_batch_id j) JobFailed
                 (Some ''SETTLEMENT_BILLING_RETRY_EXHAUSTED'') ''settlement_retry_exhausted'';
          State_Monad.return (case t of Inl e \<Rightarrow> e | Inr _ \<Rightarrow> SettlementBillingFailed)})}"

definition recordSettlementFailure ::
  "batch_env \<Rightarrow> batch_job \<Rightarrow> string \<Rightarrow> (('x batch_db_scheme, 'z) shared_scheme, batch_error option) state" where
  "recordSettlementFailure env j code = do {
     r \<leftarrow> SetBatchImageJobSettlementFailed (bj_batch_id j) code;
     (case r of
        Inl _ \<Rightarrow> State_Monad.return None
      | Inr n \<Rightarrow>
          if n \<ge> batchImageSettlementMaxRetries
          then do { e \<leftarrow> failExhaustedSettlement env j; State_Monad.return (Some e) }
          else State_Monad.return None)}"

definition settlement_failed ::
  "batch_env \<Rightarrow> batch_job \<Rightarrow> string \<Rightarrow> batch_error \<Rightarrow> ('x, 'z, 'a) batch_prog" where
  "settlement_failed env j code err = do {
     e \<leftarrow> recordSettlementFailure env j code;
     State_Monad.return (Inl (case e of None \<Rightarrow> err | Some x \<Rightarrow> x))}"

record settlement_result =
  sr_success_count :: int
  sr_fail_count :: int
  sr_actual_cost :: rat
  sr_manifest_hash :: string
  sr_already_settled :: bool

definition settle_captured ::
  "batch_env \<Rightarrow> batch_job \<Rightarrow> rat \<Rightarrow> settlement_result \<Rightarrow> ('x, 'z, settlement_result) batch_prog" where
  "settle_captured env j cost result = do {
     now \<leftarrow> time_now;
     batch_then (MarkBatchImageJobSettled (bj_batch_id j) cost (sr_manifest_hash result) now
                   (now + outputRetentionAfterTerminal env))
       (\<lambda>_. State_Monad.return (Inr (result\<lparr>sr_actual_cost := cost\<rparr>)))}"

definition settle_priced ::
  "batch_env \<Rightarrow> batch_job \<Rightarrow> rat \<Rightarrow> settlement_result \<Rightarrow> ('x, 'z, settlement_result) batch_prog" where
  "settle_priced env j unitPrice result =
     (let cost = be_mul env (of_int (bj_success_count j)) unitPrice in
      if float_sub (be_ext env) cost (job_hold_amount j) > batchImageCostEpsilon
      then settlement_failed env j ''SETTLEMENT_COST_EXCEEDS_HOLD'' SettlementCostExceedsHold
      else do {
        r \<leftarrow> captureBatchImageBalanceHold env j cost (sr_manifest_hash result);
        (case r of
           Inl e \<Rightarrow> settlement_failed env j ''SETTLEMENT_BILLING_FAILED'' e
         | Inr _ \<Rightarrow> settle_captured env j cost result)})"

definition settle_job :: "batch_env \<Rightarrow> batch_job \<Rightarrow> ('x, 'z, settlement_result) batch_prog" where
  "settle_job env j =
     (let manifest = BuildBatchImageSettlementManifestHash env j;
          result = \<lparr>sr_success_count = bj_success_count j, sr_fail_count = bj_fail_count j,
                    sr_actual_cost = (case bj_actual_cost j of None \<Rightarrow> 0 | Some c \<Rightarrow> c),
                    sr_manifest_hash = manifest, sr_already_settled = False\<rparr>
      in if bj_status j = JobCompleted then State_Monad.return (Inr (result\<lparr>sr_already_settled := True\<rparr>))
         else if bj_status j \<noteq> JobSettling then State_Monad.return (Inl SettlementInvalidStatus)
         else if (case bj_api_key_id j of None \<Rightarrow> True | Some k \<Rightarrow> k \<le> 0)
         then State_Monad.return (Inl SettlementMissingAPIKeyID)
         else if (case bj_account_id j of None \<Rightarrow> True | Some a \<Rightarrow> a \<le> 0)
         then State_Monad.return (Inl SettlementMissingAccountID)
         else if isBatchImageSettlementRetryExhausted j
         then do { e \<leftarrow> failExhaustedSettlement env j; State_Monad.return (Inl e) }
         else if bj_success_count j < 0 \<or> bj_fail_count j < 0 \<or> bj_item_count j < 0 \<or>
                 bj_success_count j + bj_fail_count j > bj_item_count j
         then settlement_failed env j ''SETTLEMENT_INVALID_COUNTS'' SettlementInvalidCounts
         else if batchImageDerefString (bj_manifest_hash j) \<noteq> [] \<and>
                 batchImageDerefString (bj_manifest_hash j) \<noteq> manifest
         then settlement_failed env j ''SETTLEMENT_MANIFEST_CONFLICT'' SettlementManifestConflict
         else case settlementUnitPrice env j of
           Inl e \<Rightarrow> settlement_failed env j ''SETTLEMENT_PRICING_MISSING'' e
         | Inr p \<Rightarrow>
             if p < 0 then settlement_failed env j ''SETTLEMENT_PRICING_MISSING'' SettlementPricingMissing
             else settle_priced env j p result)"

definition Settle :: "batch_env \<Rightarrow> string \<Rightarrow> ('x, 'z, settlement_result) batch_prog" where
  "Settle env bid = batch_then (GetBatchImageJobByBatchID env bid) (settle_job env)"

end
