(* ===== verification/Batch_Index.thy ===== *)
theory Batch_Index
  imports Batch_Types "HOL-Library.List_Lexorder" "HOL-Library.Char_ord"
begin

text \<open>
  The output of a provider is a file with one line of JSON for each image
  (\<open>service/batch_image_processor.go\<close>). \<open>Index\<close> reads it, matches its lines with the items that were
  submitted, and makes one item of each. Decoding JSON is a parameter; a decoded object has every key
  once.
\<close>

datatype json =
    JNull | JBool bool | JNumber rat | JString string | JArray "json list" | JObject "(string \<times> json) list"

fun json_get :: "json \<Rightarrow> string \<Rightarrow> json option" where
  "json_get (JObject fs) k = map_of fs k"
| "json_get _ k = None"

fun is_object :: "json \<Rightarrow> bool" where
  "is_object (JObject _) = True"
| "is_object _ = False"

fun batchImageNestedAny :: "json \<Rightarrow> string list \<Rightarrow> json option" where
  "batchImageNestedAny v [] = Some v"
| "batchImageNestedAny v (k # ks) =
     (case json_get v k of None \<Rightarrow> None | Some u \<Rightarrow> batchImageNestedAny u ks)"

definition truncate_rat :: "rat \<Rightarrow> int" where
  "truncate_rat r = (if r < 0 then \<lceil>r\<rceil> else \<lfloor>r\<rfloor>)"

definition batchImageMapString :: "json \<Rightarrow> string \<Rightarrow> string" where
  "batchImageMapString m k =
     (case json_get m k of
        Some (JString s) \<Rightarrow> TrimSpace s
      | Some (JNumber r) \<Rightarrow> Itoa (truncate_rat r)
      | _ \<Rightarrow> [])"

definition batchImageNestedString :: "json \<Rightarrow> string list \<Rightarrow> string" where
  "batchImageNestedString m ks =
     (case batchImageNestedAny m ks of Some (JString s) \<Rightarrow> TrimSpace s | _ \<Rightarrow> [])"

fun batchImageFirstNonEmptyString :: "string list \<Rightarrow> string" where
  "batchImageFirstNonEmptyString [] = []"
| "batchImageFirstNonEmptyString (v # vs) =
     (if TrimSpace v \<noteq> [] then TrimSpace v else batchImageFirstNonEmptyString vs)"

definition firstMap :: "json option list \<Rightarrow> json option" where
  "firstMap vs = (case find (\<lambda>v. case v of Some u \<Rightarrow> is_object u | None \<Rightarrow> False) vs of Some v \<Rightarrow> v | None \<Rightarrow> None)"

text \<open>\<open>strings.ToLower\<close> on ASCII letters, and \<open>strings.Contains\<close>.\<close>

definition ToLower_char :: "char \<Rightarrow> char" where
  "ToLower_char c = (let n = of_char c :: nat in if 65 \<le> n \<and> n \<le> 90 then char_of (n + 32) else c)"

definition ToLower :: "string \<Rightarrow> string" where
  "ToLower s = map ToLower_char s"

fun Contains :: "string \<Rightarrow> string \<Rightarrow> bool" where
  "Contains [] sub \<longleftrightarrow> sub = []"
| "Contains (c # s) sub \<longleftrightarrow> has_prefix (c # s) sub \<or> Contains s sub"

section \<open>One line\<close>

definition image_part :: "json \<Rightarrow> string option" where
  "image_part part =
     (case firstMap [json_get part ''inlineData'', json_get part ''inline_data''] of
        None \<Rightarrow> None
      | Some inline \<Rightarrow>
          let mime = batchImageFirstNonEmptyString
                       [batchImageMapString inline ''mimeType'', batchImageMapString inline ''mime_type'']
          in if TrimSpace (batchImageMapString inline ''data'') = [] \<or>
                \<not> has_prefix (ToLower (TrimSpace mime)) ''image/''
             then None else Some (TrimSpace mime))"

fun json_list :: "json option \<Rightarrow> json list" where
  "json_list (Some (JArray xs)) = xs"
| "json_list _ = []"

definition batchImageFindImagePartsInCandidates :: "json option \<Rightarrow> nat \<times> string" where
  "batchImageFindImagePartsInCandidates raw =
     (let parts = concat (map (\<lambda>c. filter is_object (json_list (batchImageNestedAny c [''content'', ''parts''])))
                           (filter is_object (json_list raw)));
          mimes = List.map_filter image_part parts
      in (length mimes, case mimes of [] \<Rightarrow> [] | m # _ \<Rightarrow> m))"

definition batchImageFindImageParts :: "json \<Rightarrow> nat \<times> string" where
  "batchImageFindImageParts obj =
     (let r = batchImageFindImagePartsInCandidates (batchImageNestedAny obj [''response'', ''candidates''])
      in if fst r > 0 then r else batchImageFindImagePartsInCandidates (json_get obj ''candidates''))"

definition batchImageMapFailureCode :: "string \<Rightarrow> string \<Rightarrow> string" where
  "batchImageMapFailureCode code message =
     (let text = ToLower (TrimSpace (code @ '' '' @ message));
          has = (\<lambda>subs. \<exists>s \<in> set subs. Contains text s)
      in if has [''safety'', ''policy'', ''blocked'', ''prohibited''] then ''SAFETY_BLOCKED''
         else if has [''invalid_argument'', ''invalid argument'', ''bad request''] then ''INVALID_ARGUMENT''
         else if has [''quota'', ''rate'', ''resource_exhausted'', ''too many requests'']
         then ''PROVIDER_RATE_LIMITED''
         else ''PROVIDER_ITEM_FAILED'')"

definition failure_code :: "json \<Rightarrow> string" where
  "failure_code v =
     batchImageMapFailureCode
       (batchImageFirstNonEmptyString [batchImageMapString v ''code'', batchImageMapString v ''status''])
       (batchImageFirstNonEmptyString [batchImageMapString v ''message'', batchImageMapString v ''details''])"

definition batchImageFailureFromProviderFields :: "json \<Rightarrow> string option" where
  "batchImageFailureFromProviderFields obj =
     map_option failure_code (case json_get obj ''status'' of
         Some (JObject fs) \<Rightarrow> Some (JObject fs)
       | _ \<Rightarrow> (case json_get obj ''error'' of Some (JObject fs) \<Rightarrow> Some (JObject fs) | _ \<Rightarrow> None))"

definition batchImageHasCandidates :: "json \<Rightarrow> bool" where
  "batchImageHasCandidates obj \<longleftrightarrow>
     json_get obj ''candidates'' \<noteq> None \<or>
     (case batchImageNestedAny obj [''response'', ''candidates''] of Some (JArray _) \<Rightarrow> True | _ \<Rightarrow> False)"

definition batchImageFileExtension :: "string \<Rightarrow> string" where
  "batchImageFileExtension mime =
     (let m = ToLower (TrimSpace mime) in
      if m = ''image/png'' then ''png''
      else if m = ''image/jpeg'' \<or> m = ''image/jpg'' then ''jpg''
      else if m = ''image/webp'' then ''webp''
      else [])"

record parsed_result =
  pr_custom_id :: string
  pr_succeeded :: bool
  pr_mime_type :: string
  pr_file_extension :: string
  pr_image_count :: nat
  pr_error_code :: string
  pr_line :: nat

text \<open>A line that is no JSON object is an error; \<open>null\<close> is an object without keys.\<close>

definition ParseBatchImageResultLine ::
  "(string \<Rightarrow> json option) \<Rightarrow> string \<Rightarrow> nat \<Rightarrow> batch_error + parsed_result" where
  "ParseBatchImageResultLine decode line n =
     (case decode line of
        None \<Rightarrow> Inl IndexParseFailed
      | Some obj \<Rightarrow>
          if \<not> is_object obj \<and> obj \<noteq> JNull then Inl IndexParseFailed
          else
            let customID = batchImageFirstNonEmptyString
                  [batchImageMapString obj ''key'', batchImageMapString obj ''custom_id'',
                   batchImageMapString obj ''customId'', batchImageNestedString obj [''request'', ''key'']];
                (count, mime) = batchImageFindImageParts obj;
                failed = \<lparr>pr_custom_id = customID, pr_succeeded = False, pr_mime_type = [],
                          pr_file_extension = [], pr_image_count = 0, pr_error_code = [], pr_line = n\<rparr>
            in if customID = [] then Inl IndexParseFailed
               else if count > 0
               then Inr (failed\<lparr>pr_succeeded := True, pr_image_count := count, pr_mime_type := mime,
                                pr_file_extension := batchImageFileExtension mime\<rparr>)
               else case batchImageFailureFromProviderFields obj of
                 Some code \<Rightarrow> Inr (failed\<lparr>pr_error_code := code\<rparr>)
               | None \<Rightarrow>
                   if json_get obj ''response'' \<noteq> None \<or> batchImageHasCandidates obj
                   then Inr (failed\<lparr>pr_error_code := ''EMPTY_IMAGE_OUTPUT''\<rparr>)
                   else Inr (failed\<lparr>pr_error_code := ''PROVIDER_ITEM_FAILED''\<rparr>))"

section \<open>The whole output\<close>

text \<open>
  The lines after the first \<open>n\<close>. \<open>expected\<close> are the ids that were submitted; lines with other ids are
  passed over, unless no ids are known.
\<close>

fun scan_lines ::
  "(string \<Rightarrow> json option) \<Rightarrow> string list \<Rightarrow> nat \<Rightarrow> string list \<Rightarrow> string list \<Rightarrow>
   batch_error + parsed_result list" where
  "scan_lines decode expected n seen [] = Inr []"
| "scan_lines decode expected n seen (l # ls) =
     (if TrimSpace l = [] then scan_lines decode expected (n + 1) seen ls
      else case ParseBatchImageResultLine decode (TrimSpace l) (n + 1) of
        Inl e \<Rightarrow> Inl e
      | Inr p \<Rightarrow>
          if expected \<noteq> [] \<and> pr_custom_id p \<notin> set expected then scan_lines decode expected (n + 1) seen ls
          else if pr_custom_id p \<in> set seen then Inl DuplicateCustomID
          else case scan_lines decode expected (n + 1) (pr_custom_id p # seen) ls of
            Inl e \<Rightarrow> Inl e
          | Inr ps \<Rightarrow> Inr (p # ps))"

definition parsed_item :: "string \<Rightarrow> parsed_result \<Rightarrow> batch_item" where
  "parsed_item bid p =
     \<lparr>bi_job_id = bid, bi_custom_id = pr_custom_id p,
      bi_status = (if pr_succeeded p then ItemSuccess else ItemFailed), bi_prompt_preview = None,
      bi_source_line = Some (pr_line p),
      bi_mime_type = (if pr_succeeded p then batchImageOptionalStringPtr (pr_mime_type p) else None),
      bi_file_extension = (if pr_succeeded p then batchImageOptionalStringPtr (pr_file_extension p) else None),
      bi_image_count = int (pr_image_count p),
      bi_error_code = (if pr_succeeded p then None else batchImageOptionalStringPtr (pr_error_code p))\<rparr>"

definition missing_item :: "string \<Rightarrow> string \<Rightarrow> batch_item" where
  "missing_item bid cid =
     \<lparr>bi_job_id = bid, bi_custom_id = cid, bi_status = ItemFailed, bi_prompt_preview = None,
      bi_source_line = None, bi_mime_type = None, bi_file_extension = None, bi_image_count = 0,
      bi_error_code = Some ''PROVIDER_RESULT_MISSING''\<rparr>"

record index_result =
  ir_items :: "batch_item list"
  ir_success :: nat
  ir_fail :: nat
  ir_reconciled :: bool

definition unknown_line :: "(string \<Rightarrow> json option) \<Rightarrow> string list \<Rightarrow> string \<Rightarrow> bool" where
  "unknown_line decode expected l \<longleftrightarrow>
     TrimSpace l \<noteq> [] \<and> expected \<noteq> [] \<and>
     (case ParseBatchImageResultLine decode (TrimSpace l) 0 of
        Inl _ \<Rightarrow> False | Inr p \<Rightarrow> pr_custom_id p \<notin> set expected)"

text \<open>
  \<open>broken\<close>: reading the output ended with an error. Lines with unknown ids and ids without a line are
  reported by an event (\<open>ir_reconciled\<close>).
\<close>

definition index_output ::
  "(string \<Rightarrow> json option) \<Rightarrow> string \<Rightarrow> string list \<Rightarrow> string list \<Rightarrow> bool \<Rightarrow> batch_error + index_result" where
  "index_output decode bid expected ls broken =
     (case scan_lines decode expected 0 [] ls of
        Inl e \<Rightarrow> Inl e
      | Inr ps \<Rightarrow>
          if broken then Inl IndexParseFailed
          else
            let missing = sort (filter (\<lambda>c. c \<notin> pr_custom_id ` set ps) (remdups expected));
                items = map (parsed_item bid) ps @ map (missing_item bid) missing
            in if items = [] then Inl IndexNoResultLines
               else Inr \<lparr>ir_items = items, ir_success = length (filter pr_succeeded ps),
                         ir_fail = length (filter (\<lambda>p. \<not> pr_succeeded p) ps) + length missing,
                         ir_reconciled = (missing \<noteq> [] \<or> (\<exists>l \<in> set ls. unknown_line decode expected l))\<rparr>)"

end
