(* ===== verification/Batch_Processor.thy ===== *)
theory Batch_Processor
  imports Batch_Settlement Batch_Index
begin

text \<open>
  The worker's view of a job (\<open>service/batch_image_processor.go\<close>, the pipeline of
  \<open>service/batch_image_settlement.go\<close>) and the recovery of submissions that stopped half-way
  (\<open>service/batch_image_billing_recovery.go\<close>). What the provider, the accounts and the queue answer is an
  argument. The delays after which a job is taken up again are left out.
\<close>

section \<open>Reading the output\<close>

datatype provider_state =
    ProviderQueued | ProviderRunning | ProviderSucceeded | ProviderFailed | ProviderExpired
  | ProviderCancelled | ProviderUnknown

record provider_status =
  pst_state :: provider_state
  pst_output_ref :: string
  pst_error_code :: string

text \<open>
  \<open>pv_account\<close>: the account cannot be found or used. \<open>pv_status\<close>: \<open>None\<close> is an error, \<open>Some None\<close> no
  answer. \<open>pv_output\<close>: the lines of the output and whether reading them failed, if it can be opened.
\<close>

record provider_view =
  pv_known :: bool
  pv_account :: "batch_error option"
  pv_status :: "provider_status option option"
  pv_output :: "(string list \<times> bool) option"
  pv_decode :: "string \<Rightarrow> json option"

text \<open>The pages of items, as many rounds as \<open>be_page_rounds\<close>; a list that is longer counts as not read.\<close>

fun listExpectedCustomIDs :: "nat \<Rightarrow> string \<Rightarrow> nat \<Rightarrow> ('x, 'z, string list) batch_prog" where
  "listExpectedCustomIDs 0 bid offset = State_Monad.return (Inl DatabaseFailed)"
| "listExpectedCustomIDs (Suc n) bid offset =
     batch_then (ListBatchImageItems bid 500 offset)
       (\<lambda>page. if length page < 500 then State_Monad.return (Inr (map bi_custom_id page))
               else batch_then (listExpectedCustomIDs n bid (offset + length page))
                      (\<lambda>rest. State_Monad.return (Inr (map bi_custom_id page @ rest))))"

definition Index :: "batch_env \<Rightarrow> provider_view \<Rightarrow> batch_job \<Rightarrow> ('x, 'z, index_result) batch_prog" where
  "Index env pv j =
     batch_then (listExpectedCustomIDs (be_page_rounds env) (bj_batch_id j) 0)
       (\<lambda>expected.
          case pv_output pv of
            None \<Rightarrow> State_Monad.return (Inl IndexOutputMissing)
          | Some (ls, broken) \<Rightarrow>
              (case index_output (pv_decode pv) (bj_batch_id j) expected ls broken of
                 Inl e \<Rightarrow> State_Monad.return (Inl e)
               | Inr r \<Rightarrow> do {
                   _ \<leftarrow> (if ir_reconciled r then AppendBatchImageEvent (bj_batch_id j) ''index_reconciled''
                        else State_Monad.return (Inr ()));
                   batch_then (ReplaceBatchImageItemsForJob (bj_batch_id j) (ir_items r)
                                 (int (ir_success r)) (int (ir_fail r)))
                     (\<lambda>_. State_Monad.return (Inr r))}))"

section \<open>One round of the worker\<close>

datatype process_result = Requeue | Finished

definition releaseTerminalHold :: "batch_env \<Rightarrow> batch_job \<Rightarrow> ('x, 'z, unit) batch_prog" where
  "releaseTerminalHold env j =
     (if bj_status j \<noteq> JobFailed \<and> bj_status j \<noteq> JobCancelled then State_Monad.return (Inr ())
      else releaseBatchImageBalanceHold env j (batchImageDerefString (bj_request_hash j)))"

text \<open>A step to a terminal status and the release that follows it.\<close>

definition finish_job ::
  "batch_env \<Rightarrow> batch_job \<Rightarrow> job_status \<Rightarrow> string option \<Rightarrow> string \<Rightarrow> ('x, 'z, process_result) batch_prog" where
  "finish_job env j s code ev =
     batch_then (TransitionBatchImageJobStatus (bj_batch_id j) s code ev)
       (\<lambda>_. batch_then (releaseTerminalHold env (j\<lparr>bj_status := s\<rparr>))
              (\<lambda>_. State_Monad.return (Inr Finished)))"

definition indexAndSettle ::
  "batch_env \<Rightarrow> provider_view \<Rightarrow> batch_job \<Rightarrow> ('x, 'z, process_result) batch_prog" where
  "indexAndSettle env pv j = do {
     r \<leftarrow> Index env pv j;
     (case r of
        Inl e \<Rightarrow>
          if e = IndexOutputMissing then State_Monad.return (Inl e)
          else if e = IndexStateConflict then State_Monad.return (Inr Requeue)
          else finish_job env j JobFailed
                 (Some (if e = DuplicateCustomID then ''DUPLICATE_CUSTOM_ID_IN_OUTPUT'' else ''INDEX_PARSE_FAILED''))
                 ''indexing_failed''
      | Inr _ \<Rightarrow>
          batch_then (TransitionBatchImageJobStatus (bj_batch_id j) JobSettling None ''indexing_completed'')
            (\<lambda>_. State_Monad.return (Inr Requeue)))}"

definition persistProviderOutputRef :: "batch_job \<Rightarrow> string \<Rightarrow> ('x, 'z, batch_job) batch_prog" where
  "persistProviderOutputRef j ref =
     (if TrimSpace ref = [] \<or> batchImageDerefString (bj_output_ref j) = TrimSpace ref
      then State_Monad.return (Inr j)
      else batch_then (UpdateBatchImageJobProviderOutputRef (bj_batch_id j) (TrimSpace ref))
             (\<lambda>_. State_Monad.return (Inr (j\<lparr>bj_output_ref := Some (TrimSpace ref)\<rparr>))))"

definition failed_code :: "provider_status \<Rightarrow> string" where
  "failed_code st =
     (if TrimSpace (pst_error_code st) \<noteq> [] then TrimSpace (pst_error_code st)
      else if pst_state st = ProviderExpired then ''PROVIDER_BATCH_EXPIRED'' else ''PROVIDER_BATCH_FAILED'')"

definition process_status ::
  "batch_env \<Rightarrow> provider_view \<Rightarrow> batch_job \<Rightarrow> provider_status \<Rightarrow> ('x, 'z, process_result) batch_prog" where
  "process_status env pv j st =
     (case pst_state st of
        ProviderQueued \<Rightarrow> State_Monad.return (Inr Requeue)
      | ProviderRunning \<Rightarrow>
          if bj_status j \<noteq> JobRunning
          then batch_then (TransitionBatchImageJobStatus (bj_batch_id j) JobRunning None ''provider_status_checked'')
                 (\<lambda>_. State_Monad.return (Inr Requeue))
          else State_Monad.return (Inr Requeue)
      | ProviderSucceeded \<Rightarrow>
          if bj_status j \<noteq> JobIndexing
          then batch_then (TransitionBatchImageJobStatus (bj_batch_id j) JobIndexing None ''indexing_started'')
                 (\<lambda>_. indexAndSettle env pv (j\<lparr>bj_status := JobIndexing\<rparr>))
          else indexAndSettle env pv j
      | ProviderFailed \<Rightarrow> finish_job env j JobFailed (Some (failed_code st)) ''job_failed''
      | ProviderExpired \<Rightarrow> finish_job env j JobFailed (Some (failed_code st)) ''job_failed''
      | ProviderCancelled \<Rightarrow> finish_job env j JobCancelled None ''job_failed''
      | ProviderUnknown \<Rightarrow> State_Monad.return (Inr Requeue))"

definition process_job ::
  "batch_env \<Rightarrow> provider_view \<Rightarrow> batch_job \<Rightarrow> ('x, 'z, process_result) batch_prog" where
  "process_job env pv j =
     (if isBatchImageProcessorDoneStatus (bj_status j)
      then batch_then (releaseTerminalHold env j) (\<lambda>_. State_Monad.return (Inr Finished))
      else if \<not> pv_known pv then State_Monad.return (Inl UnsupportedProvider)
      else if (case bj_account_id j of None \<Rightarrow> True | Some a \<Rightarrow> a \<le> 0)
      then State_Monad.return (Inl MissingAccountID)
      else case pv_account pv of
        Some e \<Rightarrow> State_Monad.return (Inl e)
      | None \<Rightarrow>
          if batchImageDerefString (bj_provider_job_name j) = []
          then State_Monad.return (Inl MissingProviderJobName)
          else if bj_status j = JobIndexing then indexAndSettle env pv j
          else case pv_status pv of
            None \<Rightarrow> State_Monad.return (Inr Requeue)
          | Some None \<Rightarrow> State_Monad.return (Inr Requeue)
          | Some (Some st) \<Rightarrow>
              batch_then (persistProviderOutputRef j (pst_output_ref st)) (\<lambda>i. process_status env pv i st))"

definition provider_Process ::
  "batch_env \<Rightarrow> provider_view \<Rightarrow> string \<Rightarrow> ('x, 'z, process_result) batch_prog" where
  "provider_Process env pv bid = batch_then (GetBatchImageJobByBatchID env bid) (process_job env pv)"

text \<open>The pipeline: a job that is to be settled is settled, any other one is processed.\<close>

definition Process :: "batch_env \<Rightarrow> provider_view \<Rightarrow> string \<Rightarrow> ('x, 'z, process_result) batch_prog" where
  "Process env pv bid =
     batch_then (GetBatchImageJobByBatchID env bid)
       (\<lambda>j. if bj_status j = JobSettling
            then do {
              r \<leftarrow> Settle env bid;
              (case r of
                 Inr _ \<Rightarrow> State_Monad.return (Inr Finished)
               | Inl e \<Rightarrow>
                   if e = SettlementBillingFailed
                   then do {
                     u \<leftarrow> GetBatchImageJobByBatchID env bid;
                     State_Monad.return (Inr (case u of
                       Inl _ \<Rightarrow> Requeue
                     | Inr i \<Rightarrow> if IsTerminalBatchImageJobStatus (bj_status i) then Finished else Requeue))}
                   else State_Monad.return (Inl e))}
            else provider_Process env pv bid)"

section \<open>Recovery\<close>

text \<open>A job whose release fails is queued for another try; the queue is left out.\<close>

fun recover_jobs ::
  "batch_env \<Rightarrow> int \<Rightarrow> batch_job list \<Rightarrow>
   (('x batch_db_scheme, 'z) shared_scheme, nat \<times> batch_error option) state" where
  "recover_jobs env cutoff [] = State_Monad.return (0, None)"
| "recover_jobs env cutoff (j # js) = do {
     r \<leftarrow> FailStaleUnsubmittedBatchImageJob (bj_batch_id j) cutoff ''SUBMIT_STALE_BEFORE_PROVIDER'';
     (if \<not> fst r
      then do {
        s \<leftarrow> recover_jobs env cutoff js;
        State_Monad.return (fst s, if snd s = None then snd r else snd s)}
      else do {
        e \<leftarrow> releaseBatchImageBalanceHold env (j\<lparr>bj_status := JobFailed\<rparr>)
               (batchImageDerefString (bj_request_hash j));
        s \<leftarrow> recover_jobs env cutoff js;
        State_Monad.return (case e of
          Inl x \<Rightarrow> (fst s, if snd s = None then Some x else snd s)
        | Inr _ \<Rightarrow> (fst s + 1, snd s))})}"

definition ReleaseStaleUnsubmittedOnce ::
  "batch_env \<Rightarrow> int \<Rightarrow> nat \<Rightarrow>
   (('x batch_db_scheme, 'z) shared_scheme, nat \<times> batch_error option) state" where
  "ReleaseStaleUnsubmittedOnce env staleAfter limit = do {
     now \<leftarrow> time_now;
     js \<leftarrow> ListStaleUnsubmittedBatchImageJobs env
            (now - (if staleAfter \<le> 0 then 600 * 10 ^ 6 else staleAfter)) (if limit = 0 then 100 else limit);
     (case js of
        Inl e \<Rightarrow> State_Monad.return (0, Some e)
      | Inr is \<Rightarrow> recover_jobs env (now - (if staleAfter \<le> 0 then 600 * 10 ^ 6 else staleAfter)) is)}"

end
