(* ===== verification/Batch_Public.thy ===== *)
theory Batch_Public
  imports Batch_Processor
begin

text \<open>
  The requests of users (\<open>service/batch_image_public.go\<close>): \<open>Submit\<close> and \<open>Cancel\<close>. The request is one that
  has been validated; what the other services, the provider and the queue answer, and the random id of
  the batch, are part of it.
\<close>

definition enqueueBillingRetry :: "bool \<Rightarrow> string \<Rightarrow> ('x, 'z, unit) batch_prog" where
  "enqueueBillingRetry queued bid =
     (if queued then State_Monad.return (Inr ()) else AppendBatchImageEvent bid ''billing_retry_enqueue_failed'')"

section \<open>Submit\<close>

text \<open>
  \<open>sv_selected\<close>: the provider, the account and its billing rate. \<open>sv_heartbeats\<close>: how often the job is
  touched while the provider is asked. \<open>sv_submitted\<close>: the provider's refusal (the error that is shown
  and the code that is recorded) or the name and the references of its job.
\<close>

record submit_view =
  sv_user :: int
  sv_key :: int
  sv_group :: "(price_group \<times> rat option) option"
  sv_model :: string
  sv_parent :: string
  sv_items :: "(string \<times> string) list"
  sv_request_hash :: string
  sv_idempotency_key :: string
  sv_batch_id :: string
  sv_selected :: "batch_error + (string \<times> int \<times> rat)"
  sv_heartbeats :: nat
  sv_submitted :: "(batch_error \<times> string) + (string \<times> string \<times> string) option"
  sv_queued :: bool

definition new_job ::
  "submit_view \<Rightarrow> string \<Rightarrow> int \<Rightarrow> pricing_snapshot \<Rightarrow> string option \<Rightarrow> batch_job" where
  "new_job sv provider account ps parent =
     \<lparr>bj_batch_id = sv_batch_id sv, bj_user_id = sv_user sv, bj_api_key_id = Some (sv_key sv),
      bj_account_id = Some account, bj_provider = provider, bj_model = sv_model sv, bj_parent_batch_id = parent,
      bj_status = JobCreated, bj_provider_job_name = None, bj_input_ref = None, bj_output_ref = None,
      bj_item_count = int (length (sv_items sv)), bj_success_count = 0, bj_fail_count = 0,
      bj_estimated_cost = ps_estimated_cost ps, bj_hold_amount = Some (ps_hold_amount ps), bj_actual_cost = None,
      bj_billable_unit_price = ps_billable_unit_price ps, bj_snapshot_version = 1,
      bj_idempotency_key = batchImageOptionalStringPtr (TrimSpace (sv_idempotency_key sv)),
      bj_request_hash = Some (sv_request_hash sv), bj_manifest_hash = None, bj_retry_count = 0, bj_version = 0,
      bj_last_error_code = None, bj_output_expires_at = None, bj_input_deleted_at = None,
      bj_output_deleted_at = None, bj_downloaded_at = None, bj_user_deleted_at = None, bj_updated_at = 0,
      bj_submitted_at = None, bj_started_at = None, bj_finished_at = None, bj_settled_at = None\<rparr>"

definition pending_item :: "string \<Rightarrow> string \<times> string \<Rightarrow> batch_item" where
  "pending_item bid ci =
     \<lparr>bi_job_id = bid, bi_custom_id = fst ci, bi_status = ItemPending, bi_prompt_preview = Some (snd ci),
      bi_source_line = None, bi_mime_type = None, bi_file_extension = None, bi_image_count = 0,
      bi_error_code = None\<rparr>"

definition hidePreUpstreamSubmitFailure :: "submit_view \<Rightarrow> batch_job \<Rightarrow> ('x, 'z, unit) batch_prog" where
  "hidePreUpstreamSubmitFailure sv j =
     (if bj_provider_job_name j \<noteq> None then State_Monad.return (Inr ())
      else do { now \<leftarrow> time_now; MarkBatchImageJobUserDeleted (sv_user sv) (sv_key sv) (bj_batch_id j) now })"

text \<open>
  Giving a submission up: the hold is released, the failure recorded with the given code, unless there is
  none, and the job hidden.
\<close>

definition submit_abandon ::
  "batch_env \<Rightarrow> submit_view \<Rightarrow> batch_job \<Rightarrow> string option \<Rightarrow> batch_error \<Rightarrow> ('x, 'z, batch_job) batch_prog" where
  "submit_abandon env sv j code err = do {
     r \<leftarrow> releaseBatchImageBalanceHold env j (sv_request_hash sv);
     (case r of
        Inl _ \<Rightarrow> do {
          _ \<leftarrow> RecordBatchImageJobSubmitFailure (bj_batch_id j) ''BILLING_RELEASE_FAILED'' True;
          _ \<leftarrow> enqueueBillingRetry (sv_queued sv) (bj_batch_id j);
          State_Monad.return (Inl BillingHoldFailed)}
      | Inr _ \<Rightarrow>
          (case code of
             None \<Rightarrow> State_Monad.return (Inl err)
           | Some c \<Rightarrow> do {
               _ \<leftarrow> RecordBatchImageJobSubmitFailure (bj_batch_id j) c True;
               _ \<leftarrow> hidePreUpstreamSubmitFailure sv j;
               State_Monad.return (Inl err)}))}"

fun heartbeats :: "nat \<Rightarrow> string \<Rightarrow> (('x batch_db_scheme, 'z) shared_scheme, unit) state" where
  "heartbeats 0 bid = State_Monad.return ()"
| "heartbeats (Suc n) bid = do { _ \<leftarrow> TouchBatchImageJobSubmitting bid; heartbeats n bid }"

definition submit_accepted ::
  "batch_env \<Rightarrow> submit_view \<Rightarrow> batch_job \<Rightarrow> string \<times> string \<times> string \<Rightarrow> ('x, 'z, batch_job) batch_prog" where
  "submit_accepted env sv j p = do {
     u \<leftarrow> UpdateBatchImageJobProviderSubmit (bj_batch_id j) (fst p) (fst (snd p)) (snd (snd p));
     (case u of
        Inl e \<Rightarrow> do {
          _ \<leftarrow> AppendBatchImageEvent (bj_batch_id j) ''provider_job_aborted_after_submit'';
          State_Monad.return (Inl e)}
      | Inr _ \<Rightarrow>
          if \<not> sv_queued sv
          then do {
            _ \<leftarrow> RecordBatchImageJobSubmitFailure (bj_batch_id j) ''QUEUE_FAILED'' False;
            State_Monad.return (Inl QueueFailed)}
          else GetBatchImageJobByBatchID env (bj_batch_id j))}"

definition submit_upload ::
  "batch_env \<Rightarrow> submit_view \<Rightarrow> batch_job \<Rightarrow> ('x, 'z, batch_job) batch_prog" where
  "submit_upload env sv j = do {
     _ \<leftarrow> heartbeats (sv_heartbeats sv) (bj_batch_id j);
     (case sv_submitted sv of
        Inl (err, code) \<Rightarrow> submit_abandon env sv j (Some code) err
      | Inr None \<Rightarrow> submit_abandon env sv j (Some ''PROVIDER_SUBMIT_FAILED'') ProviderSubmitFailed
      | Inr (Some p) \<Rightarrow>
          if TrimSpace (fst p) = []
          then submit_abandon env sv j (Some ''PROVIDER_SUBMIT_FAILED'') ProviderSubmitFailed
          else submit_accepted env sv j p)}"

definition submit_held ::
  "batch_env \<Rightarrow> submit_view \<Rightarrow> batch_job \<Rightarrow> ('x, 'z, batch_job) batch_prog" where
  "submit_held env sv j = do {
     r \<leftarrow> BulkCreateBatchImageItems (map (pending_item (bj_batch_id j)) (sv_items sv));
     (case r of
        Inl _ \<Rightarrow> submit_abandon env sv j (Some ''ITEM_CREATE_FAILED'') QueueFailed
      | Inr _ \<Rightarrow> do {
          t \<leftarrow> TransitionBatchImageJobStatus (bj_batch_id j) JobUploading None ''upload_started'';
          (case t of
             Inl e \<Rightarrow> submit_abandon env sv j
               (if e = InvalidTransition then None else Some ''UPLOAD_TRANSITION_FAILED'') e
           | Inr _ \<Rightarrow> submit_upload env sv (j\<lparr>bj_status := JobUploading\<rparr>))})}"

definition submit_created ::
  "batch_env \<Rightarrow> submit_view \<Rightarrow> batch_job \<Rightarrow> ('x, 'z, batch_job) batch_prog" where
  "submit_created env sv j = do {
     r \<leftarrow> reserveBatchImageBalanceHold env j (sv_request_hash sv);
     (case r of
        Inl e \<Rightarrow> do {
          _ \<leftarrow> RecordBatchImageJobSubmitFailure (bj_batch_id j)
                 (if e = InsufficientBalance then ''INSUFFICIENT_BALANCE'' else ''BILLING_HOLD_FAILED'') True;
          _ \<leftarrow> hidePreUpstreamSubmitFailure sv j;
          State_Monad.return (Inl e)}
      | Inr _ \<Rightarrow> submit_held env sv j)}"

text \<open>The batch that the new one belongs to: the parent that is named, or the parent of that one.\<close>

definition parent_batch :: "batch_env \<Rightarrow> submit_view \<Rightarrow> ('x, 'z, string option) batch_prog" where
  "parent_batch env sv =
     (case batchImageOptionalStringPtr (sv_parent sv) of
        None \<Rightarrow> State_Monad.return (Inr None)
      | Some bid \<Rightarrow>
          batch_then (GetBatchImageJobByBatchIDForOwner env (sv_user sv) (sv_key sv) bid)
            (\<lambda>p. State_Monad.return (Inr (if batchImageDerefString (bj_parent_batch_id p) \<noteq> []
                   then batchImageOptionalStringPtr (batchImageDerefString (bj_parent_batch_id p))
                   else Some bid))))"

definition submit_new :: "batch_env \<Rightarrow> submit_view \<Rightarrow> ('x, 'z, batch_job) batch_prog" where
  "submit_new env sv =
     (case sv_selected sv of
        Inl e \<Rightarrow> State_Monad.return (Inl e)
      | Inr (provider, account, rate) \<Rightarrow>
          (case resolvePricingSnapshot env (sv_group sv) (sv_model sv) rate (length (sv_items sv)) of
             Inl e \<Rightarrow> State_Monad.return (Inl e)
           | Inr ps \<Rightarrow>
               batch_then (parent_batch env sv)
                 (\<lambda>parent. batch_then (CreateBatchImageJob env (new_job sv provider account ps parent))
                    (submit_created env sv))))"

definition Submit :: "batch_env \<Rightarrow> submit_view \<Rightarrow> ('x, 'z, batch_job) batch_prog" where
  "Submit env sv =
     (if TrimSpace (sv_idempotency_key sv) = [] then submit_new env sv
      else do {
        r \<leftarrow> GetBatchImageJobByIdempotencyKey env (sv_user sv) (sv_key sv) (TrimSpace (sv_idempotency_key sv));
        (case r of
           Inr j \<Rightarrow>
             if batchImageDerefString (bj_request_hash j) \<noteq> sv_request_hash sv
             then State_Monad.return (Inl IdempotencyConflict)
             else if bj_status j = JobSubmitted \<and> \<not> sv_queued sv
             then do {
               _ \<leftarrow> RecordBatchImageJobSubmitFailure (bj_batch_id j) ''QUEUE_FAILED'' False;
               State_Monad.return (Inl QueueFailed)}
             else State_Monad.return (Inr j)
         | Inl e \<Rightarrow> if e = JobNotFound then submit_new env sv else State_Monad.return (Inl e))})"

section \<open>Cancel\<close>

record cancel_view =
  cv_known :: bool
  cv_account_found :: bool
  cv_cancelled :: bool
  cv_queued :: bool

definition cancel_release ::
  "batch_env \<Rightarrow> cancel_view \<Rightarrow> batch_job \<Rightarrow> ('x, 'z, batch_job) batch_prog \<Rightarrow> ('x, 'z, batch_job) batch_prog" where
  "cancel_release env cv j k = do {
     r \<leftarrow> releaseBatchImageBalanceHold env j (batchImageDerefString (bj_request_hash j));
     (case r of
        Inl _ \<Rightarrow> do {
          _ \<leftarrow> enqueueBillingRetry (cv_queued cv) (bj_batch_id j);
          State_Monad.return (Inl CancelFailed)}
      | Inr _ \<Rightarrow> k)}"

definition cancel_job ::
  "batch_env \<Rightarrow> cancel_view \<Rightarrow> int \<Rightarrow> int \<Rightarrow> batch_job \<Rightarrow> ('x, 'z, batch_job) batch_prog" where
  "cancel_job env cv uid kid j =
     (if isBatchImageProcessorDoneStatus (bj_status j)
      then if bj_status j = JobFailed \<or> bj_status j = JobCancelled
           then cancel_release env cv j (State_Monad.return (Inr j))
           else State_Monad.return (Inr j)
      else if batchImageDerefString (bj_provider_job_name j) \<noteq> []
      then if \<not> cv_known cv then State_Monad.return (Inl UnsupportedProvider)
           else if bj_account_id j = None \<or> \<not> cv_account_found cv \<or> \<not> cv_cancelled cv
           then State_Monad.return (Inl CancelFailed)
           else do {
             _ \<leftarrow> AppendBatchImageEvent (bj_batch_id j) ''job_cancel_requested'';
             (if \<not> cv_queued cv then State_Monad.return (Inl CancelFailed)
              else GetBatchImageJobByBatchIDForOwner env uid kid (bj_batch_id j))}
      else batch_then (TransitionBatchImageJobStatus (bj_batch_id j) JobCancelled None ''job_cancelled'')
             (\<lambda>_. cancel_release env cv j (GetBatchImageJobByBatchIDForOwner env uid kid (bj_batch_id j))))"

definition Cancel ::
  "batch_env \<Rightarrow> cancel_view \<Rightarrow> int \<Rightarrow> int \<Rightarrow> string \<Rightarrow> ('x, 'z, batch_job) batch_prog" where
  "Cancel env cv uid kid bid =
     batch_then (GetBatchImageJobByBatchIDForOwner env uid kid bid) (cancel_job env cv uid kid)"

end
