(* ===== verification/Batch_Steps.thy ===== *)
theory Batch_Steps
  imports Batch_Public Billing_Ledger
begin

text \<open>
  The life of a job among everything that happens to it at the same time. \<open>batch_steps\<close> is what every
  operation respects: a job stays, its contract (owner, size, prices, hold) does not change, and its
  status moves along the steps of \<open>CanTransitionBatchImageJob\<close>, except that a submission that fails sets
  a job that never reached the provider to failed whatever its status is.
\<close>

section \<open>Steps of a job\<close>

definition phase :: "batch_job \<Rightarrow> job_status \<times> bool" where
  "phase j = (bj_status j, bj_provider_job_name j \<noteq> None)"

fun job_edge :: "job_status \<times> bool \<Rightarrow> job_status \<times> bool \<Rightarrow> bool" where
  "job_edge (s, b) (t, c) \<longleftrightarrow>
     c = (b \<or> t = JobSubmitted) \<and> (CanTransitionBatchImageJob s t \<or> (\<not> b \<and> t = JobFailed))"

definition contract :: "batch_job \<Rightarrow> string \<times> int \<times> int option \<times> int option \<times> int \<times> rat \<times> rat option \<times> rat \<times> string option" where
  "contract j =
     (bj_batch_id j, bj_user_id j, bj_api_key_id j, bj_account_id j, bj_item_count j, bj_estimated_cost j,
      bj_hold_amount j, bj_billable_unit_price j, bj_request_hash j)"

definition job_moves :: "batch_job \<Rightarrow> batch_job \<Rightarrow> bool" where
  "job_moves i j \<longleftrightarrow> contract j = contract i \<and> job_edge\<^sup>*\<^sup>* (phase i) (phase j)"

definition batch_steps :: "'x batch_db_scheme \<Rightarrow> 'x batch_db_scheme \<Rightarrow> bool" where
  "batch_steps d d' \<longleftrightarrow> (\<forall>b i. job_of d b = Some i \<longrightarrow> (\<exists>j. job_of d' b = Some j \<and> job_moves i j))"

definition has_name :: "string \<Rightarrow> 'x batch_db_scheme \<Rightarrow> bool" where
  "has_name b d \<longleftrightarrow> (\<exists>j. job_of d b = Some j \<and> bj_provider_job_name j \<noteq> None)"

text \<open>The jobs in \<open>B\<close> are submitted by the program itself: others do not give them to a provider.\<close>

definition batch_rely :: "string set \<Rightarrow> 'x batch_db_scheme \<Rightarrow> 'x batch_db_scheme \<Rightarrow> bool" where
  "batch_rely B d d' \<longleftrightarrow> batch_steps d d' \<and> (\<forall>b \<in> B. has_name b d' \<longrightarrow> has_name b d)"

lemma job_moves_refl [simp]: "job_moves j j"
  by (simp add: job_moves_def)

lemma job_moves_trans: "job_moves i j \<Longrightarrow> job_moves j k \<Longrightarrow> job_moves i k"
  by (auto simp: job_moves_def)

lemma batch_steps_refl: "batch_steps d d"
  by (simp add: batch_steps_def)

lemma batch_steps_trans: "batch_steps d1 d2 \<Longrightarrow> batch_steps d2 d3 \<Longrightarrow> batch_steps d1 d3"
  unfolding batch_steps_def by (meson job_moves_trans)

interpretation batch: rely_guarantee "batch_rely B" batch_steps for B
  by unfold_locales (auto simp: batch_rely_def batch_steps_refl intro: batch_steps_trans)

text \<open>Jobs that were not given to a provider.\<close>

definition none_named :: "string set \<Rightarrow> 'x batch_db_scheme \<Rightarrow> bool" where
  "none_named C d \<longleftrightarrow> (\<forall>b \<in> C. \<not> has_name b d)"

lemma none_named_stable: "C \<subseteq> B \<Longrightarrow> stable (batch_rely B) (none_named C)"
  by (auto simp: stable_def batch_rely_def none_named_def)

section \<open>Statements\<close>

lemma job_of_cong: "jobs d' = jobs d \<Longrightarrow> job_of d' = job_of d"
  by (simp add: job_of_def fun_eq_iff)

lemma job_of_id: "job_of d b = Some j \<Longrightarrow> bj_batch_id j = b"
  using find_Some_in by (fastforce simp: job_of_def)

lemma update_job_cases:
  assumes "update_job bid p f d = (r, d')"
  obtains (none) "r = None" "d' = d"
  | (some) j where "job_of d bid = Some j" "p j" "r = Some (f j)"
      "d' = d\<lparr>jobs := map (\<lambda>i. if bj_batch_id i = bid then f i else i) (jobs d)\<rparr>"
  using assms by (auto simp: update_job_def split: option.splits if_splits)

lemma job_of_update:
  assumes "update_job bid p f d = (Some k, d')" "\<And>j. bj_batch_id (f j) = bj_batch_id j"
  shows "job_of d' b = (if b = bid then Some k else job_of d b)"
  using assms(1)
proof (cases rule: update_job_cases)
  case (some j)
  have "job_of d' b = map_option (\<lambda>i. if bj_batch_id i = bid then f i else i) (job_of d b)"
    unfolding some(4) job_of_def by (simp add: find_map_same assms(2))
  with some(1,3) job_of_id show ?thesis by (cases "job_of d b") fastforce+
qed simp

lemma update_job_steps:
  assumes "\<And>i. p i \<Longrightarrow> job_of d bid = Some i \<Longrightarrow> job_moves i (f i)" "\<And>j. bj_batch_id (f j) = bj_batch_id j"
  shows "batch_steps d (snd (update_job bid p f d))"
proof (cases "update_job bid p f d")
  case (Pair r d')
  from Pair show ?thesis
  proof (cases rule: update_job_cases)
    case (some j)
    note job_of_update [OF Pair [unfolded some(3)] assms(2)]
    with some assms(1) Pair show ?thesis by (auto simp: batch_steps_def)
  qed (simp add: Pair batch_steps_refl)
qed

lemma update_job_name:
  assumes "\<And>i. p i \<Longrightarrow> bj_provider_job_name (f i) = bj_provider_job_name i" "\<And>j. bj_batch_id (f j) = bj_batch_id j"
  shows "has_name b (snd (update_job bid p f d)) = has_name b d"
proof (cases "update_job bid p f d")
  case (Pair r d')
  from Pair show ?thesis
  proof (cases rule: update_job_cases)
    case (some j)
    note job_of_update [OF Pair [unfolded some(3)] assms(2)]
    with some assms(1) Pair show ?thesis by (auto simp: has_name_def)
  qed (simp add: Pair)
qed

text \<open>A change that keeps the phase and the contract, and one step along an edge.\<close>

lemma job_moves_same: "contract j = contract i \<Longrightarrow> phase j = phase i \<Longrightarrow> job_moves i j"
  by (simp add: job_moves_def)

lemma job_moves_edge: "contract j = contract i \<Longrightarrow> job_edge (phase i) (phase j) \<Longrightarrow> job_moves i j"
  by (auto simp: job_moves_def)

lemmas job_simps = contract_def phase_def

section \<open>Programs that respect the steps\<close>

text \<open>\<open>careful B P m\<close>: the program respects \<open>batch_steps\<close> and keeps \<open>P\<close>.\<close>

definition careful ::
  "string set \<Rightarrow> ('x batch_db_scheme \<Rightarrow> bool) \<Rightarrow> (('x batch_db_scheme, 'z) shared_scheme, 'a) state \<Rightarrow> bool" where
  "careful B P m \<longleftrightarrow> relies (batch_rely B) batch_steps P m (\<lambda>_. P)"

definition keeps_jobs ::
  "('x batch_db_scheme \<Rightarrow> bool) \<Rightarrow> ('x batch_db_scheme \<Rightarrow> 'x batch_db_scheme) \<Rightarrow> bool" where
  "keeps_jobs P f \<longleftrightarrow> (\<forall>d. P d \<longrightarrow> batch_steps d (f d) \<and> P (f d))"

named_theorems careful_rules \<open>programs that respect the steps of jobs\<close>

lemma careful_return [careful_rules]: "careful B P (State_Monad.return a)"
  unfolding careful_def by (rule batch.relies_return)

lemma careful_bind: "careful B P m \<Longrightarrow> (\<And>a. careful B P (f a)) \<Longrightarrow> careful B P (State_Monad.bind m f)"
  unfolding careful_def by (rule batch.relies_bind)

lemma careful_time_now [careful_rules]: "careful B P time_now"
  unfolding careful_def by (rule batch.relies_time_now)

lemma careful_call:
  "stable (batch_rely B) P \<Longrightarrow> (\<And>now. keeps_jobs P (\<lambda>d. snd (stmt now d))) \<Longrightarrow> careful B P (call stmt)"
  unfolding careful_def keeps_jobs_def by (rule batch.relies_call) auto

lemma careful_db_step:
  assumes "stable (batch_rely B) P" "\<And>now. keeps_jobs P (\<lambda>d. snd (stmt now d))" "\<And>a. careful B P (f a)"
  shows "careful B P (db_step stmt f)"
  unfolding db_step_def
  by (intro careful_bind careful_call assms(1,2)) (auto split: sum.splits intro: careful_return assms(3))

lemma careful_batch_tx:
  assumes "stable (batch_rely B) P" "\<And>now d a d'. P d \<Longrightarrow> body now d = (Inr a, d') \<Longrightarrow> batch_steps d d' \<and> P d'"
  shows "careful B P (batch_tx body)"
  unfolding batch_tx_def
proof (rule careful_bind)
  show "careful B P (transaction body)"
    unfolding careful_def by (rule batch.relies_transaction [OF assms(1)]) (use assms(2) in blast)+
qed (rule careful_return)

lemma careful_then [careful_rules]:
  "careful B P m \<Longrightarrow> (\<And>a. careful B P (f a)) \<Longrightarrow> careful B P (batch_then m f)"
  unfolding batch_then_def by (auto intro!: careful_bind careful_return split: sum.splits)

lemma keeps_jobs_same: "(\<And>d. jobs (f d) = jobs d) \<Longrightarrow> (\<And>d. P (f d) = P d) \<Longrightarrow> keeps_jobs P f"
  by (auto simp: keeps_jobs_def batch_steps_def job_of_def)

text \<open>What is kept on the way: that some jobs of the program's own were not submitted.\<close>

definition stays :: "string set \<Rightarrow> ('x batch_db_scheme \<Rightarrow> bool) \<Rightarrow> bool" where
  "stays B P \<longleftrightarrow> (\<exists>C \<subseteq> B. P = none_named C)"

lemma stays_named: "C \<subseteq> B \<Longrightarrow> stays B (none_named C)"
  by (auto simp: stays_def)

lemma stays_stable: "stays B P \<Longrightarrow> stable (batch_rely B) P"
  by (auto simp: stays_def intro: none_named_stable)

lemma stays_name: "stays B P \<Longrightarrow> (\<And>b. has_name b d' = has_name b d) \<Longrightarrow> P d' = P d"
  by (auto simp: stays_def none_named_def)

lemma stays_jobs: "stays B P \<Longrightarrow> jobs d' = jobs d \<Longrightarrow> P d' = P d"
  by (erule stays_name) (simp add: has_name_def job_of_def)

lemma keeps_update:
  assumes "stays B P" "\<And>i. p i \<Longrightarrow> job_moves i (f i)"
    and "\<And>i. bj_batch_id (f i) = bj_batch_id i" "\<And>i. p i \<Longrightarrow> bj_provider_job_name (f i) = bj_provider_job_name i"
  shows "keeps_jobs P (\<lambda>d. snd (update_job bid p f d))"
  using assms update_job_steps [of p _ bid f] stays_name [OF assms(1) update_job_name [OF assms(4,3)]]
  by (auto simp: keeps_jobs_def)

lemma keeps_same:
  assumes "stays B P" "\<And>d. jobs (f d) = jobs d"
  shows "keeps_jobs P f"
proof (rule keeps_jobs_same)
  show "jobs (f d) = jobs d" for d by (rule assms(2))
  show "P (f d) = P d" for d by (rule stays_jobs [OF assms])
qed

lemma careful_query [careful_rules]:
  "stays B P \<Longrightarrow> (\<And>a. careful B P (f a)) \<Longrightarrow> careful B P (db_step (\<lambda>_ d. (q d, d)) f)"
  by (rule careful_db_step) (auto intro: stays_stable keeps_same)

lemma careful_event [careful_rules]: "stays B P \<Longrightarrow> careful B P (AppendBatchImageEvent bid ev)"
  unfolding AppendBatchImageEvent_def
  by (rule careful_db_step) (auto intro: stays_stable keeps_same careful_return simp: append_event_def)

lemma careful_update_known:
  assumes "stays B P" "\<And>now i. p i \<Longrightarrow> job_moves i (f now i)"
    and "\<And>now i. bj_batch_id (f now i) = bj_batch_id i"
    and "\<And>now i. p i \<Longrightarrow> bj_provider_job_name (f now i) = bj_provider_job_name i"
    and "\<And>j. careful B P (k j)"
  shows "careful B P (update_known bid f missing p k)"
  unfolding update_known_def
  by (intro careful_bind careful_time_now careful_db_step stays_stable [OF assms(1)] keeps_update [OF assms(1)] assms(2-4))
    (auto split: option.splits intro: careful_return assms(5))

text \<open>Operations of the ledger do not touch the tables of the jobs.\<close>

definition same_batch :: "'x batch_db_scheme \<Rightarrow> 'x batch_db_scheme \<Rightarrow> bool" where
  "same_batch d d' \<longleftrightarrow> jobs d' = jobs d \<and> job_items d' = job_items d \<and> job_events d' = job_events d"

interpretation same_batch: tx_guarantee same_batch
  by unfold_locales (auto simp: same_batch_def)

lemma same_batch_user: "update_user uid p f d = (r, d') \<Longrightarrow> same_batch d d'"
  by (auto simp: update_user_def same_batch_def split: option.splits if_splits)

lemma hold_same_batch:
  "keeps same_batch (reserveUsageBillingBatchImageBalance ext c)"
  "keeps same_batch (captureUsageBillingBatchImageBalance ext c)"
  "keeps same_batch (releaseUsageBillingBatchImageBalance ext c)"
  by (rule keepsI; auto simp: reserveUsageBillingBatchImageBalance_def captureUsageBillingBatchImageBalance_def
      releaseUsageBillingBatchImageBalance_def same_batch.refl
      split: prod.splits option.splits if_splits elim!: same_batch_user)+

lemma careful_claimed:
  assumes "stays B P" "\<And>now. keeps same_batch (effects now)"
  shows "careful B P (claimed_transaction rid kid fp nothing effects)"
  unfolding claimed_transaction_def
proof (rule careful_bind)
  show "careful B P (transaction (claimed_tx rid kid fp effects))"
    unfolding careful_def
  proof (rule batch.relies_transaction [OF stays_stable [OF assms(1)]])
    fix now d a d'
    assume p: "P d" and "claimed_tx rid kid fp effects now d = (Inr a, d')"
    then have "same_batch (new_claim rid kid fp now d) d'"
      using keepsD [OF assms(2)] by (auto simp: claimed_tx_Inr)
    then have j: "jobs d' = jobs d" by (simp add: same_batch_def new_claim_def)
    from j show "batch_steps d d'" by (auto simp: batch_steps_def job_of_def)
    from stays_jobs [OF assms(1) j] p show "P d'" "P d'" by simp_all
  qed
qed (rule careful_return)

lemma careful_hold:
  assumes "stays B P" "\<And>c. keeps same_batch (apply c)"
  shows "careful B P (applyBatchImageBalanceHold ext cmd apply)"
  unfolding applyBatchImageBalanceHold_def Let_def
  by (auto intro!: careful_return careful_claimed assms same_batch.keeps_then same_batch.keeps_Pair)

end
