(* ===== verification/Batch_Safety.thy ===== *)
theory Batch_Safety
  imports Batch_Steps
begin

text \<open>Every operation of the batch image API respects the steps of jobs, whatever others do meanwhile.\<close>

section \<open>Operations of the repository\<close>

lemma careful_read [careful_rules]: "stays B P \<Longrightarrow> careful B P (read_job env q)"
  unfolding read_job_def by (intro careful_rules)

lemma careful_get [careful_rules]:
  "stays B P \<Longrightarrow> careful B P (GetBatchImageJobByBatchID env bid)"
  "stays B P \<Longrightarrow> careful B P (GetBatchImageJobByIdempotencyKey env uid kid key)"
  "stays B P \<Longrightarrow> careful B P (GetBatchImageJobByBatchIDForOwner env uid kid bid)"
  unfolding GetBatchImageJobByBatchID_def GetBatchImageJobByIdempotencyKey_def
    GetBatchImageJobByBatchIDForOwner_def
  by (rule careful_read; assumption)+

lemma append_event_jobs [simp]: "jobs (append_event bid ev d) = jobs d"
  by (simp add: append_event_def)

text \<open>A transaction that changes one job and writes other tables.\<close>

definition one_job :: "string \<Rightarrow> 'x batch_db_scheme \<Rightarrow> 'x batch_db_scheme \<Rightarrow> bool" where
  "one_job bid d d' \<longleftrightarrow>
     (\<exists>(e :: 'x batch_db_scheme) f. jobs d' = jobs (snd (update_job bid (\<lambda>_. True) f e)) \<and> jobs e = jobs d \<and>
        (\<forall>j. bj_batch_id (f j) = bj_batch_id j) \<and> (\<forall>j. bj_provider_job_name (f j) = bj_provider_job_name j) \<and>
        (\<forall>i. job_of d bid = Some i \<longrightarrow> job_moves i (f i)))"

lemma one_jobI:
  fixes d d' e :: "'x batch_db_scheme"
  assumes "jobs d' = jobs (snd (update_job bid (\<lambda>_. True) f e))" "jobs e = jobs d"
    and "\<And>j. bj_batch_id (f j) = bj_batch_id j" "\<And>j. bj_provider_job_name (f j) = bj_provider_job_name j"
    and "\<And>i. job_of d bid = Some i \<Longrightarrow> job_moves i (f i)"
  shows "one_job bid d d'"
  unfolding one_job_def using assms by (intro exI [of _ e] exI [of _ f]) simp

lemma careful_job_tx:
  fixes P :: "'x batch_db_scheme \<Rightarrow> bool"
  assumes "stays B P" "\<And>now d a d'. body now d = (Inr a, d') \<Longrightarrow> one_job bid d d'"
  shows "careful B P (batch_tx body)"
proof (rule careful_batch_tx [OF stays_stable [OF assms(1)]])
  fix now d a d'
  assume p: "P d" and "body now d = (Inr a, d')"
  then have "one_job bid d d'" by (intro assms(2))
  then obtain e :: "'x batch_db_scheme" and f
    where f: "jobs d' = jobs (snd (update_job bid (\<lambda>_. True) f e))" "jobs e = jobs d"
    "\<forall>j. bj_batch_id (f j) = bj_batch_id j" "\<forall>j. bj_provider_job_name (f j) = bj_provider_job_name j"
    "\<forall>i. job_of d bid = Some i \<longrightarrow> job_moves i (f i)"
    unfolding one_job_def by blast
  note same = job_of_cong [OF f(2)] job_of_cong [OF f(1)]
  have "batch_steps e (snd (update_job bid (\<lambda>_. True) f e))"
    by (rule update_job_steps) (use f(3,5) in \<open>simp_all add: same(1)\<close>)
  then have s: "batch_steps d d'" by (simp add: batch_steps_def same)
  have "has_name b (snd (update_job bid (\<lambda>_. True) f e)) = has_name b e" for b
    by (rule update_job_name) (use f(3,4) in simp_all)
  then have "has_name b d' = has_name b d" for b by (simp add: has_name_def same)
  from stays_name [OF assms(1) this] s p show "batch_steps d d' \<and> P d'" by simp
qed

lemma careful_transition [careful_rules]:
  assumes "stays B P" "s \<noteq> JobSubmitted"
  shows "careful B P (TransitionBatchImageJobStatus bid s code ev)"
  unfolding TransitionBatchImageJobStatus_def
proof (intro careful_bind careful_time_now)
  fix t
  let ?f = "\<lambda>i. i\<lparr>bj_status := s, bj_version := bj_version i + 1, bj_updated_at := t,
      bj_last_error_code := if s = JobFailed then code else bj_last_error_code i,
      bj_submitted_at := if s = JobSubmitted then first_time (bj_submitted_at i) t else bj_submitted_at i,
      bj_started_at := if s = JobRunning then first_time (bj_started_at i) t else bj_started_at i,
      bj_finished_at := if s \<in> {JobCompleted, JobFailed, JobCancelled}
                        then first_time (bj_finished_at i) t else bj_finished_at i,
      bj_settled_at := if s = JobCompleted then first_time (bj_settled_at i) t else bj_settled_at i,
      bj_output_deleted_at := if s = JobOutputDeleted then first_time (bj_output_deleted_at i) t
                              else bj_output_deleted_at i\<rparr>"
  show "careful B P (batch_tx (\<lambda>_. transition bid s code ev t))"
  proof (rule careful_job_tx [OF assms(1), where bid = bid])
    fix now d a d'
    assume "transition bid s code ev t d = (Inr a, d')"
    then obtain j where j: "job_of d bid = Some j" "CanTransitionBatchImageJob (bj_status j) s"
      "d' = append_event bid ev (snd (update_job bid (\<lambda>_. True) ?f d))"
      by (auto simp: transition_def split: option.splits if_splits)
    have "job_moves j (?f j)"
      by (rule job_moves_edge) (use j(2) assms(2) in \<open>simp_all add: job_simps\<close>)
    with j show "one_job bid d d'" by (intro one_jobI [of d' bid ?f d]) simp_all
  qed
qed

lemma careful_touch [careful_rules]: "stays B P \<Longrightarrow> careful B P (TouchBatchImageJobSubmitting bid)"
  unfolding TouchBatchImageJobSubmitting_def
  by (intro careful_bind careful_time_now careful_db_step careful_return)
    (auto intro!: keeps_update job_moves_same simp: job_simps intro: stays_stable)

lemma careful_fail_stale [careful_rules]:
  assumes "stays B P"
  shows "careful B P (FailStaleUnsubmittedBatchImageJob bid cutoff code)"
  unfolding FailStaleUnsubmittedBatchImageJob_def
proof (intro careful_bind careful_time_now careful_call stays_stable [OF assms] keeps_update [OF assms])
  fix now i
  assume "unsubmitted i \<and> bj_provider_job_name i = None \<and> bj_updated_at i \<le> cutoff"
  then show "job_moves i (i\<lparr>bj_status := JobFailed, bj_last_error_code := Some code,
      bj_finished_at := first_time (bj_finished_at i) now, bj_updated_at := now, bj_version := bj_version i + 1\<rparr>)"
    by (intro job_moves_edge) (simp_all add: job_simps)
qed (auto split: sum.splits option.splits intro: careful_return careful_bind careful_event assms)

lemma careful_record_failure [careful_rules]:
  assumes "stays B P" "\<And>d. markFailed \<Longrightarrow> P d \<Longrightarrow> \<not> has_name bid d"
  shows "careful B P (RecordBatchImageJobSubmitFailure bid code markFailed)"
  unfolding RecordBatchImageJobSubmitFailure_def
proof (intro careful_bind careful_time_now careful_db_step stays_stable [OF assms(1)] careful_event [OF assms(1)])
  fix t now :: int
  let ?f = "\<lambda>i. i\<lparr>bj_status := if markFailed then JobFailed else bj_status i, bj_last_error_code := Some code,
      bj_finished_at := if markFailed \<or> bj_status i = JobFailed then first_time (bj_finished_at i) t
                        else bj_finished_at i,
      bj_updated_at := t, bj_version := bj_version i + 1\<rparr>"
  show "keeps_jobs P (\<lambda>d. snd ((), snd (update_job bid (\<lambda>_. True) ?f d)))"
    unfolding keeps_jobs_def snd_conv
  proof (intro allI impI conjI)
    fix d
    assume p: "P d"
    have "has_name b (snd (update_job bid (\<lambda>_. True) ?f d)) = has_name b d" for b
      by (rule update_job_name) simp_all
    from stays_name [OF assms(1) this] p show "P (snd (update_job bid (\<lambda>_. True) ?f d))" by simp
    show "batch_steps d (snd (update_job bid (\<lambda>_. True) ?f d))"
    proof (rule update_job_steps)
      fix i
      assume i: "job_of d bid = Some i"
      show "job_moves i (?f i)"
      proof (cases markFailed)
        case True
        with assms(2) [OF _ p] i have "bj_provider_job_name i = None" by (simp add: has_name_def)
        with True show ?thesis by (intro job_moves_edge) (simp_all add: job_simps)
      qed (intro job_moves_same, simp_all add: job_simps)
    qed simp
  qed
qed

lemma careful_mark_settled [careful_rules]:
  assumes "stays B P"
  shows "careful B P (MarkBatchImageJobSettled bid cost manifest now expires)"
  unfolding MarkBatchImageJobSettled_def
proof (rule careful_job_tx [OF assms, where bid = bid])
  fix n d a d'
  let ?f = "\<lambda>i. i\<lparr>bj_status := JobCompleted, bj_actual_cost := Some (column 10 cost),
      bj_manifest_hash := Some manifest, bj_settled_at := first_time (bj_settled_at i) now,
      bj_finished_at := first_time (bj_finished_at i) now,
      bj_output_expires_at := first_time (bj_output_expires_at i) expires,
      bj_updated_at := now, bj_version := bj_version i + 1\<rparr>"
  assume "mark_settled bid cost manifest expires now d = (Inr a, d')"
  then obtain j where j: "job_of d bid = Some j" "bj_status j = JobSettling"
    "jobs d' = jobs (snd (update_job bid (\<lambda>_. True) ?f d))"
    by (auto simp: mark_settled_def update_job_def split: option.splits if_splits prod.splits)
  have "job_moves j (?f j)"
    by (rule job_moves_edge) (use j(2) in \<open>simp_all add: job_simps CanTransitionBatchImageJob_def\<close>)
  with j show "one_job bid d d'" by (intro one_jobI [of d' bid ?f d]) simp_all
qed

lemma careful_settlement_failed [careful_rules]:
  "stays B P \<Longrightarrow> careful B P (SetBatchImageJobSettlementFailed bid code)"
  unfolding SetBatchImageJobSettlementFailed_def
  by (rule careful_update_known)
    (auto intro!: job_moves_same careful_bind careful_rules simp: job_simps)

lemma careful_output_ref [careful_rules]:
  "stays B P \<Longrightarrow> careful B P (UpdateBatchImageJobProviderOutputRef bid ref)"
  unfolding UpdateBatchImageJobProviderOutputRef_def
  by (rule careful_update_known) (auto intro!: job_moves_same careful_rules simp: job_simps)

lemma create_items_jobs: "jobs (snd (create_items is d)) = jobs d"
  by (induction "is" d rule: create_items.induct) simp_all

lemma careful_items [careful_rules]:
  assumes "stays B P"
  shows "careful B P (BulkCreateBatchImageItems is)"
proof -
  have "batch_steps d d' \<and> P d'" if "P d" "create_items is d = (Inr a, d')" for d a d'
  proof -
    have j: "jobs d' = jobs d" using that(2) create_items_jobs [of "is" d] by simp
    from j have "batch_steps d d'" by (auto simp: batch_steps_def job_of_def)
    with stays_jobs [OF assms j] that(1) show ?thesis by simp
  qed
  then show ?thesis
    unfolding BulkCreateBatchImageItems_def
    by (auto intro!: careful_return careful_batch_tx stays_stable [OF assms])
qed

lemma careful_replace [careful_rules]:
  assumes "stays B P"
  shows "careful B P (ReplaceBatchImageItemsForJob bid is s f)"
  unfolding ReplaceBatchImageItemsForJob_def
proof (intro careful_bind careful_time_now careful_job_tx [OF assms, where bid = bid])
  fix t now d a d'
  let ?f = "\<lambda>i. i\<lparr>bj_success_count := s, bj_fail_count := f, bj_updated_at := t\<rparr>"
  assume "replace_items bid is s f t d = (Inr a, d')"
  then obtain ks e where e: "create_items ks (d\<lparr>job_items := filter (\<lambda>i. bi_job_id i \<noteq> bid) (job_items d)\<rparr>) = (Inr (), e)"
    and d': "d' = snd (update_job bid (\<lambda>_. True) ?f e)"
    by (auto simp: replace_items_def Let_def split: option.splits if_splits prod.splits sum.splits)
  have "jobs e = jobs d"
    using create_items_jobs [of ks "d\<lparr>job_items := filter (\<lambda>i. bi_job_id i \<noteq> bid) (job_items d)\<rparr>"] e by simp
  moreover have "job_moves i (?f i)" for i by (rule job_moves_same) (simp_all add: job_simps)
  ultimately show "one_job bid d d'" using d' by (intro one_jobI [of d' bid ?f e]) simp_all
qed

lemma careful_list [careful_rules]:
  "stays B P \<Longrightarrow> careful B P (ListBatchImageItems bid limit offset)"
  "stays B P \<Longrightarrow> careful B P (ListStaleUnsubmittedBatchImageJobs env cutoff limit)"
  unfolding ListBatchImageItems_def ListStaleUnsubmittedBatchImageJobs_def
  by (intro careful_rules; assumption)+

lemma careful_marked:
  assumes "stays B P" "\<And>i. p i \<Longrightarrow> job_moves i (f i)"
    and "\<And>i. bj_batch_id (f i) = bj_batch_id i" "\<And>i. bj_provider_job_name (f i) = bj_provider_job_name i"
  shows "careful B P (marked bid ev p missing f)"
  unfolding marked_def by (rule careful_update_known) (use assms in \<open>auto intro: careful_event\<close>)

lemma careful_marks [careful_rules]:
  assumes "stays B P"
  shows "careful B P (MarkBatchImageInputDeleted bid t)" "careful B P (MarkBatchImageOutputDeleted bid t)"
    "careful B P (MarkBatchImageDownloaded bid t)" "careful B P (MarkBatchImageJobUserDeleted uid kid bid t)"
    "careful B P (SetBatchImageOutputExpiresAt bid t)" "careful B P (RecordBatchImageCleanupFailure bid code)"
proof -
  show "careful B P (MarkBatchImageInputDeleted bid t)" "careful B P (MarkBatchImageDownloaded bid t)"
    "careful B P (MarkBatchImageJobUserDeleted uid kid bid t)"
    unfolding MarkBatchImageInputDeleted_def MarkBatchImageDownloaded_def MarkBatchImageJobUserDeleted_def
    by (rule careful_marked [OF assms]; (intro job_moves_same)?; simp add: job_simps)+
  show "careful B P (MarkBatchImageOutputDeleted bid t)"
    unfolding MarkBatchImageOutputDeleted_def
  proof (rule careful_marked [OF assms])
    fix i
    show "job_moves i (i\<lparr>bj_status := if bj_status i = JobCompleted then JobOutputDeleted else bj_status i,
        bj_output_deleted_at := first_time (bj_output_deleted_at i) t,
        bj_finished_at := if bj_status i = JobCompleted then first_time (bj_finished_at i) t else bj_finished_at i,
        bj_updated_at := t, bj_version := bj_version i + 1\<rparr>)"
    proof (cases "bj_status i = JobCompleted")
      case True
      then show ?thesis by (intro job_moves_edge) (simp_all add: job_simps CanTransitionBatchImageJob_def)
    qed (intro job_moves_same, simp_all add: job_simps)
  qed simp_all
  show "careful B P (SetBatchImageOutputExpiresAt bid t)"
    unfolding SetBatchImageOutputExpiresAt_def
    by (rule careful_update_known [OF assms]) (auto intro!: job_moves_same careful_rules simp: job_simps)
  show "careful B P (RecordBatchImageCleanupFailure bid code)"
    unfolding RecordBatchImageCleanupFailure_def
    by (intro careful_bind careful_time_now careful_db_step stays_stable [OF assms] careful_event [OF assms])
      (auto intro!: keeps_update [OF assms] job_moves_same simp: job_simps)
qed

end
