(* ===== verification/Batch_Cleanup.thy ===== *)
theory Batch_Cleanup
  imports Batch_Safety Batch_Index
begin

text \<open>
  The removal of files from the providers (\<open>service/batch_image_cleanup.go\<close>): the inputs of finished jobs, outputs
  that have expired and outputs that their owner gives up. What the provider answers is an argument. Every
  operation respects the steps of jobs.
\<close>

section \<open>The provider\<close>

datatype cleanup_target = CleanupTargetInput | CleanupTargetOutput | CleanupTargetAll

fun target_name :: "cleanup_target \<Rightarrow> string" where
  "target_name CleanupTargetInput = ''input''"
| "target_name CleanupTargetOutput = ''output''"
| "target_name CleanupTargetAll = ''all''"

text \<open>An error with its reason and its text; \<open>pe_unsafe\<close>: it is \<open>ErrBatchImageProviderUnsafeCleanupPath\<close>.\<close>

record provider_error =
  pe_reason :: string
  pe_message :: string
  pe_unsafe :: bool

record cleanup_view =
  cl_known :: "string \<Rightarrow> bool"
  cl_account :: "int \<Rightarrow> provider_error option"
  cl_cleanup :: "batch_job \<Rightarrow> cleanup_target \<Rightarrow> provider_error option"

definition cleanupErrorIsNotFound :: "provider_error \<Rightarrow> bool" where
  "cleanupErrorIsNotFound e \<longleftrightarrow>
     (let reason = ToUpper (pe_reason e); msg = ToUpper (pe_message e) in
      Contains reason ''NOT_FOUND'' \<or> Contains msg ''NOT FOUND'' \<or> Contains msg ''404'')"

definition cleanupFailureCode :: "provider_error \<Rightarrow> string" where
  "cleanupFailureCode e =
     (if pe_unsafe e then ''BATCH_IMAGE_CLEANUP_UNSAFE_PATH''
      else let reason = TrimSpace (pe_reason e) in
        if reason \<noteq> [] then reason else ''BATCH_IMAGE_PROVIDER_CLEANUP_FAILED'')"

definition provider_refusal :: "string \<Rightarrow> provider_error" where
  "provider_refusal reason = \<lparr>pe_reason = reason, pe_message = reason, pe_unsafe = False\<rparr>"

text \<open>\<open>None\<close>: the files are gone, also if the provider does not know them.\<close>

definition callProviderCleanup :: "cleanup_view \<Rightarrow> batch_job \<Rightarrow> cleanup_target \<Rightarrow> provider_error option" where
  "callProviderCleanup cl j target =
     (if \<not> cl_known cl (bj_provider j) then Some (provider_refusal ''BATCH_IMAGE_UNSUPPORTED_PROVIDER'')
      else case bj_account_id j of
        None \<Rightarrow> Some (provider_refusal ''BATCH_IMAGE_MISSING_ACCOUNT_ID'')
      | Some account \<Rightarrow>
          if account \<le> 0 then Some (provider_refusal ''BATCH_IMAGE_MISSING_ACCOUNT_ID'')
          else case cl_account cl account of
            Some e \<Rightarrow> Some e
          | None \<Rightarrow>
              (case cl_cleanup cl j target of
                 None \<Rightarrow> None
               | Some e \<Rightarrow> if cleanupErrorIsNotFound e then None else Some e))"

section \<open>Jobs that are due\<close>

text \<open>\<open>COALESCE(finished_at, settled_at, updated_at, created_at)\<close>; \<open>updated_at\<close> is never null.\<close>

definition ended_at :: "batch_job \<Rightarrow> int" where
  "ended_at j = (case bj_finished_at j of Some t \<Rightarrow> t | None \<Rightarrow>
     (case bj_settled_at j of Some t \<Rightarrow> t | None \<Rightarrow> bj_updated_at j))"

definition input_due :: "int \<Rightarrow> batch_job \<Rightarrow> bool" where
  "input_due cutoff j \<longleftrightarrow>
     bj_input_deleted_at j = None \<and> bj_input_ref j \<noteq> None \<and>
     bj_status j \<in> {JobCompleted, JobFailed, JobCancelled, JobOutputDeleted} \<and> ended_at j \<le> cutoff"

definition ListBatchImageJobsDueForInputCleanup ::
  "batch_env \<Rightarrow> int \<Rightarrow> nat \<Rightarrow> ('x, 'z, batch_job list) batch_prog" where
  "ListBatchImageJobsDueForInputCleanup env cutoff limit =
     db_step (\<lambda>_ d. (take (list_limit limit) (filter (input_due cutoff) (jobs d)), d))
       (\<lambda>js. State_Monad.return (Inr (map (scanBatchImageJob env) js)))"

definition output_due :: "int \<Rightarrow> batch_job \<Rightarrow> bool" where
  "output_due now j \<longleftrightarrow>
     bj_output_deleted_at j = None \<and> bj_output_ref j \<noteq> None \<and> bj_status j = JobCompleted \<and>
     (case bj_output_expires_at j of None \<Rightarrow> False | Some t \<Rightarrow> t \<le> now)"

definition ListBatchImageJobsDueForOutputCleanup ::
  "batch_env \<Rightarrow> int \<Rightarrow> nat \<Rightarrow> ('x, 'z, batch_job list) batch_prog" where
  "ListBatchImageJobsDueForOutputCleanup env now limit =
     db_step (\<lambda>_ d. (take (list_limit limit)
                (sort_key (\<lambda>j. the (bj_output_expires_at j)) (filter (output_due now) (jobs d))), d))
       (\<lambda>js. State_Monad.return (Inr (map (scanBatchImageJob env) js)))"

section \<open>One job\<close>

definition cleanup_files :: "cleanup_view \<Rightarrow> batch_job \<Rightarrow> cleanup_target \<Rightarrow> ('x, 'z, unit) batch_prog" where
  "cleanup_files cl j target = do {
     _ \<leftarrow> AppendBatchImageEvent (bj_batch_id j) (target_name target @ ''_cleanup_started'');
     (case callProviderCleanup cl j target of
        Some e \<Rightarrow> do {
          _ \<leftarrow> RecordBatchImageCleanupFailure (bj_batch_id j) (cleanupFailureCode e);
          _ \<leftarrow> AppendBatchImageEvent (bj_batch_id j) (target_name target @ ''_cleanup_failed'');
          State_Monad.return (Inl (if pe_unsafe e then CleanupUnsafePath else ProviderCleanupFailed))}
      | None \<Rightarrow> do {
          deletedAt \<leftarrow> time_now;
          (if target = CleanupTargetInput then MarkBatchImageInputDeleted (bj_batch_id j) deletedAt
           else MarkBatchImageOutputDeleted (bj_batch_id j) deletedAt)})}"

fun cleanupJob :: "cleanup_view \<Rightarrow> batch_job \<Rightarrow> cleanup_target \<Rightarrow> ('x, 'z, unit) batch_prog" where
  "cleanupJob cl j CleanupTargetInput =
     (if bj_input_deleted_at j \<noteq> None then State_Monad.return (Inr ())
      else if \<not> IsTerminalBatchImageJobStatus (bj_status j) then State_Monad.return (Inl CleanupFailed)
      else cleanup_files cl j CleanupTargetInput)"
| "cleanupJob cl j CleanupTargetOutput =
     (if bj_output_deleted_at j \<noteq> None \<or> bj_status j = JobOutputDeleted then State_Monad.return (Inr ())
      else if bj_status j \<notin> {JobCompleted, JobFailed, JobCancelled}
      then State_Monad.return (Inl OutputDeleteNotReady)
      else cleanup_files cl j CleanupTargetOutput)"
| "cleanupJob cl j CleanupTargetAll = State_Monad.return (Inl UnsupportedCleanupTarget)"

definition CleanupInput :: "batch_env \<Rightarrow> cleanup_view \<Rightarrow> string \<Rightarrow> ('x, 'z, unit) batch_prog" where
  "CleanupInput env cl bid =
     batch_then (GetBatchImageJobByBatchID env bid) (\<lambda>j. cleanupJob cl j CleanupTargetInput)"

definition CleanupOutput :: "batch_env \<Rightarrow> cleanup_view \<Rightarrow> string \<Rightarrow> ('x, 'z, unit) batch_prog" where
  "CleanupOutput env cl bid =
     batch_then (GetBatchImageJobByBatchID env bid) (\<lambda>j. cleanupJob cl j CleanupTargetOutput)"

definition DeleteOutputsForOwner ::
  "batch_env \<Rightarrow> cleanup_view \<Rightarrow> int \<Rightarrow> int \<Rightarrow> string \<Rightarrow> ('x, 'z, batch_job) batch_prog" where
  "DeleteOutputsForOwner env cl uid kid bid =
     batch_then (GetBatchImageJobByBatchIDForOwner env uid kid bid) (\<lambda>j.
       if bj_status j = JobOutputDeleted \<or> bj_output_deleted_at j \<noteq> None then State_Monad.return (Inr j)
       else if bj_status j \<noteq> JobCompleted then State_Monad.return (Inl OutputDeleteNotReady)
       else do {
         _ \<leftarrow> AppendBatchImageEvent (bj_batch_id j) ''manual_output_delete_requested'';
         batch_then (cleanupJob cl j CleanupTargetOutput)
           (\<lambda>_. GetBatchImageJobByBatchIDForOwner env uid kid bid)})"

section \<open>A round\<close>

record cleanup_config =
  cc_input_hours :: int
  cc_batch_size :: int

definition inputRetentionAfterTerminal :: "cleanup_config \<Rightarrow> int" where
  "inputRetentionAfterTerminal c = (if cc_input_hours c > 0 then cc_input_hours c else 24) * (3600 * 10 ^ 6)"

definition cleanupBatchSize :: "cleanup_config \<Rightarrow> int" where
  "cleanupBatchSize c = (if cc_batch_size c > 0 then cc_batch_size c else 100)"

record cleanup_result =
  cr_input_cleaned :: nat
  cr_output_cleaned :: nat
  cr_failures :: nat

text \<open>How many jobs were cleaned up and how many were not.\<close>

fun cleanup_jobs ::
  "cleanup_view \<Rightarrow> cleanup_target \<Rightarrow> batch_job list \<Rightarrow> nat \<times> nat \<Rightarrow>
   (('x batch_db_scheme, 'z) shared_scheme, nat \<times> nat) state" where
  "cleanup_jobs cl target [] n = State_Monad.return n"
| "cleanup_jobs cl target (j # js) n = do {
     r \<leftarrow> cleanupJob cl j target;
     cleanup_jobs cl target js (case r of Inl _ \<Rightarrow> (fst n, snd n + 1) | Inr _ \<Rightarrow> (fst n + 1, snd n))}"

text \<open>The second part of the answer is the error of a list that could not be read.\<close>

definition cleanup_RunOnce ::
  "batch_env \<Rightarrow> cleanup_view \<Rightarrow> cleanup_config \<Rightarrow> int \<Rightarrow>
   (('x batch_db_scheme, 'z) shared_scheme, cleanup_result \<times> batch_error option) state" where
  "cleanup_RunOnce env cl c now = do {
     inputs \<leftarrow> ListBatchImageJobsDueForInputCleanup env (now - inputRetentionAfterTerminal c) (nat (cleanupBatchSize c));
     (case inputs of
        Inl e \<Rightarrow> State_Monad.return (\<lparr>cr_input_cleaned = 0, cr_output_cleaned = 0, cr_failures = 0\<rparr>, Some e)
      | Inr js \<Rightarrow> do {
          n \<leftarrow> cleanup_jobs cl CleanupTargetInput js (0, 0);
          outputs \<leftarrow> ListBatchImageJobsDueForOutputCleanup env now (nat (cleanupBatchSize c));
          (case outputs of
             Inl e \<Rightarrow> State_Monad.return (\<lparr>cr_input_cleaned = fst n, cr_output_cleaned = 0, cr_failures = snd n\<rparr>, Some e)
           | Inr os \<Rightarrow> do {
               m \<leftarrow> cleanup_jobs cl CleanupTargetOutput os (0, snd n);
               State_Monad.return (\<lparr>cr_input_cleaned = fst n, cr_output_cleaned = fst m, cr_failures = snd m\<rparr>, None)})})}"

section \<open>Steps of jobs\<close>

lemma careful_due [careful_rules]:
  "stays B P \<Longrightarrow> careful B P (ListBatchImageJobsDueForInputCleanup env cutoff limit)"
  "stays B P \<Longrightarrow> careful B P (ListBatchImageJobsDueForOutputCleanup env now limit)"
  unfolding ListBatchImageJobsDueForInputCleanup_def ListBatchImageJobsDueForOutputCleanup_def
  by (intro careful_rules; assumption)+

lemma careful_cleanup_job [careful_rules]:
  assumes "stays B P"
  shows "careful B P (cleanupJob cl j target)"
proof -
  have "careful B P (cleanup_files cl j t)" for t
    unfolding cleanup_files_def
    by (auto intro!: careful_bind careful_event careful_marks careful_time_now careful_return assms split: option.splits)
  then show ?thesis by (cases target) (auto intro!: careful_return)
qed

declare cleanupJob.simps [simp del]

lemma careful_cleanup_jobs: "stays B P \<Longrightarrow> careful B P (cleanup_jobs cl target js n)"
  by (induction js arbitrary: n) (simp_all add: careful_return careful_bind careful_cleanup_job)

lemma careful_cleanup [careful_rules]:
  assumes "stays B P"
  shows "careful B P (CleanupInput env cl bid)" "careful B P (CleanupOutput env cl bid)"
    "careful B P (DeleteOutputsForOwner env cl uid kid bid)" "careful B P (cleanup_RunOnce env cl c now)"
proof -
  note job = careful_cleanup_job [OF assms] and get = careful_get [OF assms]
  show "careful B P (CleanupInput env cl bid)" "careful B P (CleanupOutput env cl bid)"
    unfolding CleanupInput_def CleanupOutput_def by (intro careful_then get job)+
  show "careful B P (DeleteOutputsForOwner env cl uid kid bid)"
    unfolding DeleteOutputsForOwner_def
    by (rule careful_then [OF get(3)])
      (simp add: careful_return careful_bind careful_then careful_event [OF assms] job get)
  show "careful B P (cleanup_RunOnce env cl c now)"
    unfolding cleanup_RunOnce_def
    by (auto intro!: careful_bind careful_due [OF assms] careful_cleanup_jobs [OF assms] careful_return split: sum.splits)
qed

end
