(* ===== verification/Batch_Life.thy ===== *)
theory Batch_Life
  imports Batch_Cleanup
begin

text \<open>
  The services on top of the repository respect the steps of jobs too. A history of any of their
  operations, among anything that others do, moves every job along these steps; what follows for a job
  that is finished and for the recovery of stopped submissions.
\<close>

section \<open>Services\<close>

lemma careful_holds [careful_rules]:
  assumes "stays B P"
  shows "careful B P (reserveBatchImageBalanceHold env j h)"
    "careful B P (captureBatchImageBalanceHold env j a h)"
    "careful B P (releaseBatchImageBalanceHold env j h)"
  unfolding reserveBatchImageBalanceHold_def captureBatchImageBalanceHold_def releaseBatchImageBalanceHold_def
    ReserveBatchImageBalance_def CaptureBatchImageBalance_def ReleaseBatchImageBalance_def
  by (auto intro!: careful_bind careful_return careful_hold [OF assms] hold_same_batch
      split: sum.splits option.splits)

lemma careful_exhausted [careful_rules]: "stays B P \<Longrightarrow> careful B P (failExhaustedSettlement env j)"
  unfolding failExhaustedSettlement_def
  by (auto intro!: careful_bind careful_rules split: sum.splits)

lemma careful_record_settlement [careful_rules]:
  "stays B P \<Longrightarrow> careful B P (recordSettlementFailure env j code)"
  "stays B P \<Longrightarrow> careful B P (settlement_failed env j code err)"
  unfolding settlement_failed_def recordSettlementFailure_def
  by (auto intro!: careful_bind careful_rules split: sum.splits)

lemma careful_settle_job [careful_rules]: "stays B P \<Longrightarrow> careful B P (settle_job env j)"
  unfolding settle_job_def settle_priced_def settle_captured_def Let_def
  by (auto intro!: careful_bind careful_rules split: sum.splits)

lemma careful_settle [careful_rules]: "stays B P \<Longrightarrow> careful B P (Settle env bid)"
  unfolding Settle_def by (intro careful_rules)

lemma careful_expected [careful_rules]:
  "stays B P \<Longrightarrow> careful B P (listExpectedCustomIDs n bid offset)"
  by (induction n bid offset rule: listExpectedCustomIDs.induct) (auto intro!: careful_rules)

lemma careful_index [careful_rules]: "stays B P \<Longrightarrow> careful B P (Index env pv j)"
  unfolding Index_def
  by (auto intro!: careful_rules careful_bind split: option.splits sum.splits prod.splits)

lemma careful_finish [careful_rules]:
  "stays B P \<Longrightarrow> careful B P (releaseTerminalHold env j)"
  "stays B P \<Longrightarrow> s \<noteq> JobSubmitted \<Longrightarrow> careful B P (finish_job env j s code ev)"
  unfolding finish_job_def releaseTerminalHold_def by (auto intro!: careful_rules)

lemma careful_index_settle [careful_rules]: "stays B P \<Longrightarrow> careful B P (indexAndSettle env pv j)"
  unfolding indexAndSettle_def by (auto intro!: careful_bind careful_rules split: sum.splits)

lemma careful_status [careful_rules]: "stays B P \<Longrightarrow> careful B P (process_status env pv j st)"
  unfolding process_status_def by (auto intro!: careful_rules split: provider_state.splits)

lemma careful_process_job [careful_rules]: "stays B P \<Longrightarrow> careful B P (process_job env pv j)"
  unfolding process_job_def persistProviderOutputRef_def
  by (auto intro!: careful_rules split: option.splits)

lemma careful_process [careful_rules]: "stays B P \<Longrightarrow> careful B P (Process env pv bid)"
  unfolding Process_def provider_Process_def
  by (auto intro!: careful_bind careful_rules split: sum.splits)

lemma careful_recover_jobs: "stays B P \<Longrightarrow> careful B P (recover_jobs env cutoff js)"
  by (induction env cutoff js rule: recover_jobs.induct)
    (auto intro!: careful_bind careful_rules split: sum.splits)

lemma careful_recovery [careful_rules]: "stays B P \<Longrightarrow> careful B P (ReleaseStaleUnsubmittedOnce env t n)"
  unfolding ReleaseStaleUnsubmittedOnce_def
  by (auto intro!: careful_bind careful_rules careful_recover_jobs split: sum.splits)

lemma careful_cancel [careful_rules]: "stays B P \<Longrightarrow> careful B P (Cancel env cv uid kid bid)"
  unfolding Cancel_def cancel_job_def cancel_release_def enqueueBillingRetry_def
  by (auto intro!: careful_bind careful_rules split: sum.splits)

section \<open>Submissions\<close>

text \<open>The name of a job is written by its own submission only, which is the last thing it does to it.\<close>

lemma careful_create [careful_rules]:
  assumes "stays B P" "bj_provider_job_name j = None"
  shows "careful B P (CreateBatchImageJob env j)"
proof -
  let ?stmt = "\<lambda>now d. if job_of d (bj_batch_id j) = None
      then (Some (stored_job j now), d\<lparr>jobs := jobs d @ [stored_job j now]\<rparr>) else (None, d)"
  have "keeps_jobs P (\<lambda>d. snd (?stmt now d))" for now
    unfolding keeps_jobs_def
  proof (intro allI impI)
    fix d
    assume p: "P d"
    have new: "job_of (d\<lparr>jobs := jobs d @ [stored_job j now]\<rparr>) b =
        (case job_of d b of None \<Rightarrow> if b = bj_batch_id j then Some (stored_job j now) else None | Some i \<Rightarrow> Some i)" for b
      by (simp add: job_of_def find_append stored_job_def split: option.splits)
    have name: "bj_provider_job_name (stored_job j now) = None" by (simp add: stored_job_def assms(2))
    have n: "has_name b (snd (?stmt now d)) = has_name b d" for b
      using name by (auto simp: has_name_def new split: option.splits)
    have "batch_steps d (snd (?stmt now d))" by (auto simp: batch_steps_def new)
    with stays_name [OF assms(1) n] p show "batch_steps d (snd (?stmt now d)) \<and> P (snd (?stmt now d))" by simp
  qed
  then show ?thesis
    unfolding CreateBatchImageJob_def
    by (auto intro!: careful_return careful_db_step stays_stable [OF assms(1)])
qed

lemma careful_hide [careful_rules]: "stays B P \<Longrightarrow> careful B P (hidePreUpstreamSubmitFailure sv j)"
  unfolding hidePreUpstreamSubmitFailure_def by (auto intro!: careful_bind careful_rules)

lemma careful_abandon:
  assumes "stays B P" "\<And>d. P d \<Longrightarrow> \<not> has_name (bj_batch_id j) d"
  shows "careful B P (submit_abandon env sv j code err)"
  unfolding submit_abandon_def enqueueBillingRetry_def
  by (auto intro!: careful_bind careful_rules assms(1) dest: assms(2) split: sum.splits option.splits)

lemma careful_heartbeats [careful_rules]: "stays B P \<Longrightarrow> careful B P (heartbeats n bid)"
  by (induction n bid rule: heartbeats.induct) (auto intro!: careful_bind careful_rules)

text \<open>\<open>submits B P Q m\<close>: the program respects the steps and leads from \<open>P\<close> to \<open>Q\<close>.\<close>

definition submits ::
  "string set \<Rightarrow> ('x batch_db_scheme \<Rightarrow> bool) \<Rightarrow> ('x batch_db_scheme \<Rightarrow> bool) \<Rightarrow>
   (('x batch_db_scheme, 'z) shared_scheme, 'a) state \<Rightarrow> bool" where
  "submits B P Q m \<longleftrightarrow> relies (batch_rely B) batch_steps P m (\<lambda>_. Q)"

lemma submits_careful: "careful B P m \<Longrightarrow> (\<And>d. P d \<Longrightarrow> Q d) \<Longrightarrow> submits B P Q m"
  unfolding careful_def submits_def by (erule relies_weaken) auto

lemma submits_return: "(\<And>d. P d \<Longrightarrow> Q d) \<Longrightarrow> submits B P Q (State_Monad.return a)"
  by (rule submits_careful [OF careful_return])

lemma submits_bind: "careful B P m \<Longrightarrow> (\<And>a. submits B P Q (f a)) \<Longrightarrow> submits B P Q (State_Monad.bind m f)"
  unfolding careful_def submits_def by (rule batch.relies_bind)

lemma submits_bind_after: "submits B P Q m \<Longrightarrow> (\<And>a. careful B Q (f a)) \<Longrightarrow> submits B P Q (State_Monad.bind m f)"
  unfolding careful_def submits_def by (rule batch.relies_bind)

lemma submits_then: "careful B P m \<Longrightarrow> (\<And>a. submits B P Q (f a)) \<Longrightarrow> (\<And>d. P d \<Longrightarrow> Q d) \<Longrightarrow> submits B P Q (batch_then m f)"
  unfolding batch_then_def
  by (erule submits_bind) (auto intro: submits_careful careful_return split: sum.splits)

lemma submits_provider:
  assumes "C \<subseteq> B"
  shows "submits B (none_named (insert b C)) (none_named (C - {b})) (UpdateBatchImageJobProviderSubmit b name i o')"
proof -
  have tx: "relies (batch_rely B) batch_steps (none_named (C - {b}))
      (transaction (\<lambda>_. provider_submit b name i o' t)) (\<lambda>_. none_named (C - {b}))" for t
  proof (rule batch.relies_transaction)
    let ?f = "\<lambda>i'. i'\<lparr>bj_status := JobSubmitted, bj_provider_job_name := Some name,
        bj_input_ref := nullif_empty i, bj_output_ref := nullif_empty o',
        bj_submitted_at := first_time (bj_submitted_at i') t, bj_updated_at := t, bj_version := bj_version i' + 1\<rparr>"
    fix now d a d'
    assume p: "none_named (C - {b}) d" and "provider_submit b name i o' t d = (Inr a, d')"
    then obtain j where j: "job_of d b = Some j" "CanTransitionBatchImageJob (bj_status j) JobSubmitted"
      and d': "d' = append_event b ''provider_submitted'' (snd (update_job b (\<lambda>_. True) ?f d))"
      by (auto simp: provider_submit_def split: option.splits if_splits)
    have same: "job_of d' = job_of (snd (update_job b (\<lambda>_. True) ?f d))" unfolding d' by (rule job_of_cong) simp
    have "job_moves j (?f j)" by (rule job_moves_edge) (use j(2) in \<open>simp_all add: job_simps\<close>)
    then have "batch_steps d (snd (update_job b (\<lambda>_. True) ?f d))"
      using j(1) by (intro update_job_steps) simp_all
    then show "batch_steps d d'" by (simp add: batch_steps_def same)
    have "update_job b (\<lambda>_. True) ?f d = (Some (?f j), snd (update_job b (\<lambda>_. True) ?f d))"
      using j(1) by (simp add: update_job_def)
    from job_of_update [OF this] have "job_of d' c = job_of d c" if "c \<noteq> b" for c using that by (simp add: same)
    with p show "none_named (C - {b}) d'" "none_named (C - {b}) d'" by (auto simp: none_named_def has_name_def)
  qed (use assms in \<open>auto intro: none_named_stable\<close>)
  have "submits B (none_named (C - {b})) (none_named (C - {b})) (UpdateBatchImageJobProviderSubmit b name i o')"
    unfolding submits_def UpdateBatchImageJobProviderSubmit_def batch_tx_def
  proof (rule batch.relies_bind)
    show "relies (batch_rely B) batch_steps (none_named (C - {b})) time_now (\<lambda>_. none_named (C - {b}))"
      by (rule batch.relies_time_now)
    fix t
    show "relies (batch_rely B) batch_steps (none_named (C - {b}))
        (do { r \<leftarrow> transaction (\<lambda>_. provider_submit b name i o' t);
              State_Monad.return (case r of Inl None \<Rightarrow> Inl DatabaseFailed | Inl (Some e) \<Rightarrow> Inl e | Inr a \<Rightarrow> Inr a) })
        (\<lambda>_. none_named (C - {b}))"
      by (rule batch.relies_bind [OF tx]) (rule batch.relies_return)
  qed
  then show ?thesis
    unfolding submits_def by (rule relies_weaken) (auto simp: none_named_def)
qed

lemma submits_accepted:
  assumes "C \<subseteq> B" "bj_batch_id j = b"
  shows "submits B (none_named (insert b C)) (none_named (C - {b})) (submit_accepted env sv j p)"
  unfolding submit_accepted_def
proof (rule submits_bind_after)
  show "submits B (none_named (insert b C)) (none_named (C - {b}))
      (UpdateBatchImageJobProviderSubmit (bj_batch_id j) (fst p) (fst (snd p)) (snd (snd p)))"
    unfolding assms(2) by (rule submits_provider [OF assms(1)])
qed (use assms in \<open>auto intro!: careful_bind careful_rules stays_named split: sum.splits\<close>)

lemma submits_abandon:
  assumes "insert b C \<subseteq> B" "bj_batch_id j = b"
  shows "submits B (none_named (insert b C)) (none_named (C - {b})) (submit_abandon env sv j code err)"
proof (rule submits_careful)
  show "careful B (none_named (insert b C)) (submit_abandon env sv j code err)"
    by (rule careful_abandon [OF stays_named [OF assms(1)]]) (simp add: none_named_def assms(2))
qed (auto simp: none_named_def)

lemma submits_upload:
  assumes "insert b C \<subseteq> B" "bj_batch_id j = b"
  shows "submits B (none_named (insert b C)) (none_named (C - {b})) (submit_upload env sv j)"
proof -
  have "submits B (none_named (insert b C)) (none_named (C - {b})) (case sv_submitted sv of
        Inl (err, code) \<Rightarrow> submit_abandon env sv j (Some code) err
      | Inr None \<Rightarrow> submit_abandon env sv j (Some ''PROVIDER_SUBMIT_FAILED'') ProviderSubmitFailed
      | Inr (Some p) \<Rightarrow>
          if TrimSpace (fst p) = []
          then submit_abandon env sv j (Some ''PROVIDER_SUBMIT_FAILED'') ProviderSubmitFailed
          else submit_accepted env sv j p)"
    using assms(1)
    by (auto intro!: submits_abandon [OF assms] submits_accepted [OF _ assms(2)]
        split: sum.splits option.splits prod.splits)
  then show ?thesis
    unfolding submit_upload_def by (intro submits_bind careful_heartbeats stays_named assms(1))
qed

lemma submits_held:
  assumes "insert b C \<subseteq> B" "bj_batch_id j = b"
  shows "submits B (none_named (insert b C)) (none_named (C - {b})) (submit_held env sv j)"
proof -
  note stays = stays_named [OF assms(1)]
  have inner: "submits B (none_named (insert b C)) (none_named (C - {b})) (case t of
        Inl e \<Rightarrow> submit_abandon env sv j (if e = InvalidTransition then None else Some ''UPLOAD_TRANSITION_FAILED'') e
      | Inr _ \<Rightarrow> submit_upload env sv (j\<lparr>bj_status := JobUploading\<rparr>))" for t :: "batch_error + unit"
    by (auto intro!: submits_abandon [OF assms] submits_upload [OF assms(1)] simp: assms(2) split: sum.splits)
  have "submits B (none_named (insert b C)) (none_named (C - {b})) (case r of
        Inl _ \<Rightarrow> submit_abandon env sv j (Some ''ITEM_CREATE_FAILED'') QueueFailed
      | Inr _ \<Rightarrow> do {
          t \<leftarrow> TransitionBatchImageJobStatus (bj_batch_id j) JobUploading None ''upload_started'';
          (case t of
             Inl e \<Rightarrow> submit_abandon env sv j
               (if e = InvalidTransition then None else Some ''UPLOAD_TRANSITION_FAILED'') e
           | Inr _ \<Rightarrow> submit_upload env sv (j\<lparr>bj_status := JobUploading\<rparr>))})" for r :: "batch_error + unit"
    by (auto intro!: submits_bind careful_transition stays submits_abandon [OF assms] inner split: sum.splits)
  then show ?thesis
    unfolding submit_held_def by (intro submits_bind careful_items stays)
qed

lemma submits_created:
  assumes "insert b C \<subseteq> B" "bj_batch_id j = b"
  shows "submits B (none_named (insert b C)) (none_named (C - {b})) (submit_created env sv j)"
proof -
  note stays = stays_named [OF assms(1)]
  have "submits B (none_named (insert b C)) (none_named (C - {b})) (case r of
        Inl e \<Rightarrow> do {
          _ \<leftarrow> RecordBatchImageJobSubmitFailure (bj_batch_id j)
                 (if e = InsufficientBalance then ''INSUFFICIENT_BALANCE'' else ''BILLING_HOLD_FAILED'') True;
          _ \<leftarrow> hidePreUpstreamSubmitFailure sv j;
          State_Monad.return (Inl e)}
      | Inr _ \<Rightarrow> submit_held env sv j)" for r :: "batch_error + unit"
  proof (cases r)
    case (Inl e)
    have "careful B (none_named (insert b C)) (do {
          _ \<leftarrow> RecordBatchImageJobSubmitFailure (bj_batch_id j)
                 (if e = InsufficientBalance then ''INSUFFICIENT_BALANCE'' else ''BILLING_HOLD_FAILED'') True;
          _ \<leftarrow> hidePreUpstreamSubmitFailure sv j;
          State_Monad.return (Inl e :: batch_error + batch_job)})"
      by (intro careful_bind careful_record_failure careful_hide careful_return stays)
        (simp_all add: none_named_def assms(2))
    then show ?thesis unfolding Inl sum.case by (rule submits_careful) (auto simp: none_named_def)
  qed (simp add: submits_held [OF assms])
  then show ?thesis unfolding submit_created_def by (intro submits_bind careful_holds stays)
qed

lemma scan_id [simp]: "bj_batch_id (scanBatchImageJob env j) = bj_batch_id j"
  by (simp add: scanBatchImageJob_def)

text \<open>A program whose next one depends on what it answers.\<close>

lemma submits_then_answer:
  assumes "careful B P m" "\<And>w a w'. run_state m w = (Inr a, w') \<Longrightarrow> submits B P Q (f a)" "\<And>d. P d \<Longrightarrow> Q d"
  shows "submits B P Q (batch_then m f)"
  unfolding submits_def
proof (rule reliesI)
  fix w r w'
  assume w: "rely_ok (batch_rely B) w" "P (db w)" "run_state (batch_then m f) w = (r, w')"
  obtain s v where s: "run_state m w = (s, v)" by (cases "run_state m w")
  note m = reliesD [OF assms(1) [unfolded careful_def] w(1,2) s]
  show "rely_ok (batch_rely B) w' \<and> batch_steps (db w) (db w') \<and> Q (db w')"
  proof (cases s)
    case (Inl e)
    with w(3) s have "w' = v" by (simp add: batch_then_def)
    with m assms(3) show ?thesis by simp
  next
    case (Inr a)
    with w(3) s have "run_state (f a) v = (r, w')" by (simp add: batch_then_def)
    from reliesD [OF assms(2) [unfolded submits_def, OF s [unfolded Inr]] m(1,3) this] m(2)
    show ?thesis by (auto intro: batch_steps_trans)
  qed
qed

lemma create_id: "run_state (CreateBatchImageJob env j) w = (Inr i, w') \<Longrightarrow> bj_batch_id i = bj_batch_id j"
  by (auto simp: CreateBatchImageJob_def db_step_def stored_job_def run_call_def Let_def
      split: if_splits sum.splits option.splits prod.splits fault.splits)

lemma none_named_weaker: "none_named (insert b C) d \<Longrightarrow> none_named (C - {b}) d"
  by (auto simp: none_named_def)

lemma submits_create:
  assumes "insert b C \<subseteq> B" "bj_batch_id j = b" "bj_provider_job_name j = None"
  shows "submits B (none_named (insert b C)) (none_named (C - {b}))
    (batch_then (CreateBatchImageJob env j) (submit_created env sv))"
  by (rule submits_then_answer [OF careful_create [OF stays_named [OF assms(1)] assms(3)]])
    (auto intro!: submits_created [OF assms(1)] none_named_weaker dest!: create_id simp: assms(2))

lemma submits_new:
  assumes "insert b C \<subseteq> B" "sv_batch_id sv = b"
  shows "submits B (none_named (insert b C)) (none_named (C - {b})) (submit_new env sv)"
proof -
  note stays = stays_named [OF assms(1)]
  have parent: "careful B (none_named (insert b C)) (parent_batch env sv)"
    unfolding parent_batch_def by (auto intro!: careful_rules stays split: option.splits)
  show ?thesis
    unfolding submit_new_def
    by (auto intro!: submits_then [OF parent] submits_create [OF assms(1)] submits_return
        none_named_weaker simp: new_job_def assms(2) split: sum.splits prod.splits)
qed

lemma submits_Submit:
  assumes "insert b C \<subseteq> B" "sv_batch_id sv = b"
  shows "submits B (none_named (insert b C)) (none_named (C - {b})) (Submit env sv)"
proof -
  note stays = stays_named [OF assms(1)]
  have "submits B (none_named (insert b C)) (none_named (C - {b})) (case r of
           Inr j \<Rightarrow>
             if batchImageDerefString (bj_request_hash j) \<noteq> sv_request_hash sv
             then State_Monad.return (Inl IdempotencyConflict)
             else if bj_status j = JobSubmitted \<and> \<not> sv_queued sv
             then do {
               _ \<leftarrow> RecordBatchImageJobSubmitFailure (bj_batch_id j) ''QUEUE_FAILED'' False;
               State_Monad.return (Inl QueueFailed)}
             else State_Monad.return (Inr j)
         | Inl e \<Rightarrow> if e = JobNotFound then submit_new env sv else State_Monad.return (Inl e))" for r
    by (auto intro!: submits_new [OF assms] submits_return submits_bind careful_record_failure stays
        none_named_weaker split: sum.splits)
  then show ?thesis
    unfolding Submit_def by (auto intro!: submits_new [OF assms] submits_bind careful_get stays)
qed

section \<open>Histories\<close>

datatype batch_op =
    SubmitOp submit_view
  | CancelOp cancel_view int int string
  | ProcessOp provider_view string
  | RecoverOp int nat
  | InputDeletedOp string int
  | OutputDeletedOp string int
  | DownloadedOp string int
  | UserDeletedOp int int string int
  | ExpiryOp string int
  | CleanupFailedOp string string
  | CleanupInputOp cleanup_view string
  | CleanupOutputOp cleanup_view string
  | DeleteOutputsOp cleanup_view int int string
  | CleanupRoundOp cleanup_view cleanup_config int

definition quietly :: "('s, 'a) state \<Rightarrow> ('s, unit) state" where
  "quietly m = do { _ \<leftarrow> m; State_Monad.return () }"

fun batch_perform :: "batch_env \<Rightarrow> batch_op \<Rightarrow> (('x batch_db_scheme, 'z) shared_scheme, unit) state" where
  "batch_perform env (SubmitOp sv) = quietly (Submit env sv)"
| "batch_perform env (CancelOp cv uid kid bid) = quietly (Cancel env cv uid kid bid)"
| "batch_perform env (ProcessOp pv bid) = quietly (Process env pv bid)"
| "batch_perform env (RecoverOp t n) = quietly (ReleaseStaleUnsubmittedOnce env t n)"
| "batch_perform env (InputDeletedOp bid t) = quietly (MarkBatchImageInputDeleted bid t)"
| "batch_perform env (OutputDeletedOp bid t) = quietly (MarkBatchImageOutputDeleted bid t)"
| "batch_perform env (DownloadedOp bid t) = quietly (MarkBatchImageDownloaded bid t)"
| "batch_perform env (UserDeletedOp uid kid bid t) = quietly (MarkBatchImageJobUserDeleted uid kid bid t)"
| "batch_perform env (ExpiryOp bid t) = quietly (SetBatchImageOutputExpiresAt bid t)"
| "batch_perform env (CleanupFailedOp bid code) = quietly (RecordBatchImageCleanupFailure bid code)"
| "batch_perform env (CleanupInputOp cl bid) = quietly (CleanupInput env cl bid)"
| "batch_perform env (CleanupOutputOp cl bid) = quietly (CleanupOutput env cl bid)"
| "batch_perform env (DeleteOutputsOp cl uid kid bid) = quietly (DeleteOutputsForOwner env cl uid kid bid)"
| "batch_perform env (CleanupRoundOp cl c now) = quietly (cleanup_RunOnce env cl c now)"

fun batch_history :: "batch_env \<Rightarrow> batch_op list \<Rightarrow> (('x batch_db_scheme, 'z) shared_scheme, unit) state" where
  "batch_history env [] = State_Monad.return ()"
| "batch_history env (x # xs) = do { _ \<leftarrow> batch_perform env x; batch_history env xs }"

fun submitted_ids :: "batch_op list \<Rightarrow> string list" where
  "submitted_ids [] = []"
| "submitted_ids (SubmitOp sv # xs) = sv_batch_id sv # submitted_ids xs"
| "submitted_ids (_ # xs) = submitted_ids xs"

end
