(* ===== verification/Batch_Prices.thy ===== *)
theory Batch_Prices
  imports Batch_Types Billing_Demo
begin

text \<open>
  What is held for a job covers what it can cost. The prices are rounded twice: by the arithmetic of
  \<open>float64\<close> and by the ten decimals of their columns; the settlement allows for \<open>batchImageCostEpsilon\<close>.
\<close>

text \<open>
  IEEE arithmetic on amounts up to ten thousand, where two neighbouring \<open>float64\<close> differ by less than
  \<open>2 / 10 ^ 12\<close>: products and differences are off by a few of these, products are monotone, and a
  decimal of fifteen digits survives the conversion.
\<close>

definition float_arith :: "batch_env \<Rightarrow> bool" where
  "float_arith env \<longleftrightarrow>
     (\<forall>a b. 0 \<le> a \<longrightarrow> 0 \<le> b \<longrightarrow> 0 \<le> be_mul env a b) \<and>
     (\<forall>a b c. 0 \<le> a \<longrightarrow> b \<le> c \<longrightarrow> be_mul env a b \<le> be_mul env a c) \<and>
     (\<forall>a b. \<bar>a * b\<bar> \<le> 10 ^ 4 \<longrightarrow> \<bar>be_mul env a b - a * b\<bar> \<le> 1 / 10 ^ 11) \<and>
     (\<forall>a b. \<bar>a\<bar> \<le> 10 ^ 4 \<longrightarrow> \<bar>b\<bar> \<le> 10 ^ 4 \<longrightarrow> \<bar>float_sub (be_ext env) a b - (a - b)\<bar> \<le> 1 / 10 ^ 11) \<and>
     (\<forall>r. on_scale 10 r \<longrightarrow> \<bar>r\<bar> \<le> 10 ^ 4 \<longrightarrow> float64 (be_ext env) r = r)"

lemma float_arithD:
  assumes "float_arith env"
  shows "0 \<le> a \<Longrightarrow> 0 \<le> b \<Longrightarrow> 0 \<le> be_mul env a b"
    "0 \<le> a \<Longrightarrow> b \<le> c \<Longrightarrow> be_mul env a b \<le> be_mul env a c"
    "\<bar>a * b\<bar> \<le> 10 ^ 4 \<Longrightarrow> \<bar>be_mul env a b - a * b\<bar> \<le> 1 / 10 ^ 11"
    "\<bar>a\<bar> \<le> 10 ^ 4 \<Longrightarrow> \<bar>b\<bar> \<le> 10 ^ 4 \<Longrightarrow> \<bar>float_sub (be_ext env) a b - (a - b)\<bar> \<le> 1 / 10 ^ 11"
    "on_scale 10 r \<Longrightarrow> \<bar>r\<bar> \<le> 10 ^ 4 \<Longrightarrow> float64 (be_ext env) r = r"
  using assms by (simp_all only: float_arith_def)

lemma BatchImageUnitPrice_error: "BatchImageUnitPrice env m = Inl e \<Longrightarrow> e = SettlementPricingMissing"
  by (auto simp: BatchImageUnitPrice_def split: if_splits option.splits)

text \<open>The unit price that is held is at least the one that is billed, and neither is negative.\<close>

lemma snapshot_prices:
  assumes "float_arith env" "resolvePricingSnapshot env grp model rate n = Inr ps"
  shows "0 \<le> ps_billable_unit_price ps" "ps_billable_unit_price ps \<le> ps_hold_unit_price ps"
    "ps_hold_amount ps = be_mul env (ps_hold_unit_price ps) (of_nat n)"
proof -
  define u where "u = (case (case grp of None \<Rightarrow> None | Some (g, _) \<Rightarrow> pg_image_price g) of
      Some p \<Rightarrow> if p \<ge> 0 then Inr p else BatchImageUnitPrice env model | None \<Rightarrow> BatchImageUnitPrice env model)"
  define gm where "gm = (case grp of None \<Rightarrow> 1 | Some (g, u) \<Rightarrow> group_multiplier g u)"
  define disc where "disc = (case grp of None \<Rightarrow> 1 / 2 | Some (g, _) \<Rightarrow> if pg_discount g < 0 then 0 else pg_discount g)"
  define hold where "hold = (case grp of None \<Rightarrow> 6 / 10 | Some (g, _) \<Rightarrow> if pg_hold g \<ge> 0 then pg_hold g else 6 / 10)"
  from assms(2) obtain p where p: "u = Inr p" "\<not> p < 0"
    and ps: "ps = (let standard = be_mul env (be_mul env p gm) (if rate < 0 then 0 else rate);
        billable = be_mul env standard disc; held = be_mul env standard (if hold < disc then disc else hold)
      in \<lparr>ps_billable_unit_price = billable, ps_hold_unit_price = held,
          ps_estimated_cost = be_mul env billable (of_nat n), ps_hold_amount = be_mul env held (of_nat n)\<rparr>)"
    unfolding resolvePricingSnapshot_def Let_def u_def [symmetric] gm_def [symmetric] disc_def [symmetric]
      hold_def [symmetric]
    by (auto split: if_splits sum.splits)
  have "0 \<le> gm" by (auto simp: gm_def group_multiplier_def Let_def split: option.splits prod.splits)
  with p have s: "0 \<le> be_mul env (be_mul env p gm) (if rate < 0 then 0 else rate)"
    by (intro float_arithD(1) [OF assms(1)]) auto
  have "0 \<le> disc" by (auto simp: disc_def split: option.splits prod.splits)
  with s show "0 \<le> ps_billable_unit_price ps"
    by (simp add: ps Let_def float_arithD(1) [OF assms(1)])
  from s show "ps_billable_unit_price ps \<le> ps_hold_unit_price ps"
    by (simp add: ps Let_def float_arithD(2) [OF assms(1)])
  show "ps_hold_amount ps = be_mul env (ps_hold_unit_price ps) (of_nat n)" by (simp add: ps Let_def)
qed

lemma on_scale_10_near:
  assumes "float_arith env" "0 \<le> v" "v \<le> 9999"
  shows "float64 (be_ext env) (column 10 v) = column 10 v" "\<bar>column 10 v - v\<bar> \<le> 1 / (2 * 10 ^ 10)"
    "0 \<le> column 10 v"
proof -
  show e: "\<bar>column 10 v - v\<bar> \<le> 1 / (2 * 10 ^ 10)" by (rule column_error)
  have "(1 :: rat) / (2 * 10 ^ 10) \<le> 1" by simp
  with e assms have "\<bar>column 10 v\<bar> \<le> 10000" by linarith
  then have "\<bar>column 10 v\<bar> \<le> 10 ^ 4" by simp
  then show "float64 (be_ext env) (column 10 v) = column 10 v"
    by (intro float_arithD(5) [OF assms(1)]) simp_all
  show "0 \<le> column 10 v" using assms(2) by (auto simp: column_def sgn_if)
qed

text \<open>
  C21. The hold covers the settlement. A job of 1 to 198 images whose prices are those of the snapshot,
  and whose hold is at most nine thousand dollars, is never refused by its settlement for costing more than
  was held for it, however many of its images succeeded: both the test of the settlement and the one of
  the ledger pass. (The default limit is 200 images; beyond 198 the rounding of the unit price can reach
  the tolerance of \<open>1 / 10 ^ 8\<close>.)
\<close>

theorem settlement_within_hold:
  assumes arith: "float_arith env"
    and snapshot: "resolvePricingSnapshot env grp model rate n = Inr ps"
    and size: "1 \<le> n" "n \<le> 198" "k \<le> n" "ps_hold_unit_price ps * of_nat n \<le> 9000"
    and job: "bj_snapshot_version j = 1"
      "bj_billable_unit_price j = column 10 (ps_billable_unit_price ps)"
      "bj_hold_amount j = Some (column 10 (ps_hold_amount ps))"
  shows "\<exists>p. settlementUnitPrice env (scanBatchImageJob env j) = Inr p \<and> 0 \<le> p \<and>
    float_sub (be_ext env) (be_mul env (of_nat k) p) (job_hold_amount (scanBatchImageJob env j))
      \<le> batchImageCostEpsilon"
proof -
  define B H N K where "B = ps_billable_unit_price ps" and "H = ps_hold_unit_price ps"
    and "N = (of_nat n :: rat)" and "K = (of_nat k :: rat)"
  let ?b = "column 10 B" and ?raw = "be_mul env H N" and ?e = "1 / 10 ^ 10 :: rat" and ?u = "1 / 10 ^ 11 :: rat"
  let ?h = "column 10 ?raw" and ?a = "be_mul env K ?b"
  note prices = snapshot_prices [OF arith snapshot, folded B_def H_def N_def]
  have N: "1 \<le> N" "N \<le> 198" "0 \<le> K" "K \<le> N" using size by (simp_all add: N_def K_def)
  have HN: "H * N \<le> 9000" "0 \<le> H * N" "H \<le> H * N"
    using size(4) N prices(1,2) mult_left_mono [of 1 N H] by (simp_all add: H_def N_def)
  have B: "0 \<le> B" "B \<le> 9999" using prices(1,2) HN by simp_all
  note b = on_scale_10_near [OF arith B]
  have h0: "0 \<le> ?raw" "\<bar>?raw - H * N\<bar> \<le> ?u"
    using float_arithD(1,3) [OF arith, of H N] HN N prices(1,2) by simp_all
  have "?raw \<le> 9999" using h0(2) HN(1) unfolding abs_le_iff by simp
  note h = on_scale_10_near [OF arith h0(1) this]
  have Nb: "K * ?b \<le> N * ?b" "0 \<le> K * ?b" using N b(3) by (simp_all add: mult_right_mono)
  have "?b \<le> B + ?e / 2" using b(2) unfolding abs_le_iff by simp
  then have "N * ?b \<le> N * (B + ?e / 2)" using N by (intro mult_left_mono) simp_all
  also have "\<dots> \<le> H * N + 198 * (?e / 2)"
  proof -
    have "N * B \<le> H * N" using mult_right_mono [OF prices(2), of N] N by (subst mult.commute) simp
    moreover have "N * (?e / 2) \<le> 198 * (?e / 2)" using N by simp
    ultimately show ?thesis unfolding distrib_left by (rule add_mono)
  qed
  finally have Kb: "K * ?b \<le> H * N + 198 * (?e / 2)" using Nb by simp
  with HN have Kb': "\<bar>K * ?b\<bar> \<le> 9001" using Nb(2) by simp
  then have a: "\<bar>?a - K * ?b\<bar> \<le> ?u" by (intro float_arithD(3) [OF arith]) simp
  with Kb' have a': "\<bar>?a\<bar> \<le> 10 ^ 4" unfolding abs_le_iff by simp
  have h': "\<bar>?h\<bar> \<le> 10 ^ 4" using h(2,3) \<open>?raw \<le> 9999\<close> unfolding abs_le_iff by simp
  note sub = float_arithD(4) [OF arith a' h']
  have "float_sub (be_ext env) ?a ?h \<le> ?a - ?h + ?u" using sub unfolding abs_le_iff by linarith
  also have "\<dots> \<le> (H * N + 198 * (?e / 2) + ?u) - (H * N - ?u - ?e / 2) + ?u"
    using a h0(2) h(2) Kb unfolding abs_le_iff by simp
  also have "\<dots> \<le> batchImageCostEpsilon" by (simp add: batchImageCostEpsilon_def)
  finally have "float_sub (be_ext env) ?a ?h \<le> batchImageCostEpsilon" .
  moreover have "settlementUnitPrice env (scanBatchImageJob env j) = Inr ?b"
    using job b by (simp add: settlementUnitPrice_def scanBatchImageJob_def B_def)
  moreover have "job_hold_amount (scanBatchImageJob env j) = ?h"
    using job(3) h(1) by (simp add: job_hold_amount_def scanBatchImageJob_def prices(3))
  ultimately show ?thesis using b(3) by (simp add: K_def)
qed

definition demo_env :: batch_env where
  "demo_env = \<lparr>be_ext = demo_ext, be_mul = (*), be_model_price = (\<lambda>_. Some (1 / 10)), be_retention_hours = 0,
     be_page_rounds = 2\<rparr>"

lemma demo_float_arith [simp]: "float_arith demo_env"
  by (auto simp: float_arith_def demo_env_def demo_ext_def intro: mult_left_mono)

definition priced_job :: "rat \<Rightarrow> rat \<Rightarrow> int \<Rightarrow> batch_job" where
  "priced_job unit hold n = \<lparr>bj_batch_id = ''b'', bj_user_id = 1, bj_api_key_id = Some 7, bj_account_id = Some 9,
     bj_provider = ''vertex'', bj_model = ''m'', bj_parent_batch_id = None, bj_status = JobCreated,
     bj_provider_job_name = None, bj_input_ref = None, bj_output_ref = None, bj_item_count = n,
     bj_success_count = 0, bj_fail_count = 0, bj_estimated_cost = column 10 (unit * of_int n),
     bj_hold_amount = Some (column 10 hold), bj_actual_cost = None,
     bj_billable_unit_price = column 10 unit, bj_snapshot_version = 1, bj_idempotency_key = None,
     bj_request_hash = Some ''h'', bj_manifest_hash = None, bj_retry_count = 0, bj_version = 0,
     bj_last_error_code = None, bj_output_expires_at = None, bj_input_deleted_at = None,
     bj_output_deleted_at = None, bj_downloaded_at = None, bj_user_deleted_at = None, bj_updated_at = 0,
     bj_submitted_at = None, bj_started_at = None, bj_finished_at = None, bj_settled_at = None\<rparr>"

theorem settlement_within_hold_witness:
  "\<exists>p. settlementUnitPrice demo_env (scanBatchImageJob demo_env (priced_job (1 / 20) (12 / 100) 2)) = Inr p \<and>
     p * 2 - job_hold_amount (scanBatchImageJob demo_env (priced_job (1 / 20) (12 / 100) 2)) \<le> batchImageCostEpsilon"
proof -
  let ?ps = "\<lparr>ps_billable_unit_price = 1 / 20, ps_hold_unit_price = 6 / 100, ps_estimated_cost = 1 / 10,
      ps_hold_amount = 12 / 100\<rparr>"
  have m: "TrimSpace ''m'' = ''m''" by code_simp
  have "resolvePricingSnapshot demo_env None ''m'' 1 2 = Inr ?ps"
    by (simp add: resolvePricingSnapshot_def demo_env_def BatchImageUnitPrice_def m Let_def)
  from settlement_within_hold [OF demo_float_arith this, of 2 "priced_job (1 / 20) (12 / 100) 2"]
  show ?thesis by (auto simp: priced_job_def demo_env_def demo_ext_def mult.commute)
qed

text \<open>With many images the rounding of the unit price alone exceeds the tolerance.\<close>

lemma rounding_exceeds_hold:
  "\<exists>ps p. resolvePricingSnapshot demo_env
       (Some (\<lparr>pg_allowed = True, pg_rate = 1, pg_image_rate_independent = False, pg_image_rate = 1,
               pg_discount = 1 / 2, pg_hold = 1 / 2, pg_image_price = Some (39 / 1000 + 1 / 10 ^ 10)\<rparr>, None))
       ''m'' 1 400 = Inr ps \<and>
     settlementUnitPrice demo_env
       (scanBatchImageJob demo_env (priced_job (ps_billable_unit_price ps) (ps_hold_amount ps) 400)) = Inr p \<and>
     be_mul demo_env 400 p -
       job_hold_amount (scanBatchImageJob demo_env (priced_job (ps_billable_unit_price ps) (ps_hold_amount ps) 400))
         > batchImageCostEpsilon"
proof -
  have floors: "\<lfloor>(390000001 / 2 + 1 / 2 :: rat)\<rfloor> = 195000001" "\<lfloor>(156000000401 / 2 :: rat)\<rfloor> = 78000000200"
    by (simp_all add: floor_eq_iff)
  show ?thesis
    by (simp add: resolvePricingSnapshot_def demo_env_def demo_ext_def group_multiplier_def Let_def
        settlementUnitPrice_def scanBatchImageJob_def priced_job_def job_hold_amount_def column_def
        batchImageCostEpsilon_def floors) (intro exI [of _ "195000001 / 10 ^ 10"], simp)
qed

end
