(* ===== verification/Batch_Demo.thy ===== *)
theory Batch_Demo
  imports Batch_Public Batch_Prices
begin

text \<open>
  Small databases for the witnesses: a user with ten dollars, of which some may be held, a key, and the
  jobs that are given. \<open>settling_job\<close> is a job of two images at one dollar each, with four dollars held.
\<close>

definition batch_demo :: "batch_job list \<Rightarrow> dedup_row list \<Rightarrow> rat \<Rightarrow> rat \<Rightarrow> batch_db" where
  "batch_demo js rows bal fro =
     \<lparr>dedup = rows, archive = [], b_users = [1 \<mapsto> \<lparr>bu_balance = bal, bu_frozen = fro\<rparr>],
      b_keys = [7 \<mapsto> demo_key], b_subs = Map.empty, b_groups = (\<lambda>_. False), b_accounts = Map.empty,
      b_outbox = [], jobs = js, job_items = [], job_events = []\<rparr>"

definition batch_world :: "batch_db \<Rightarrow> batch_db event list \<Rightarrow> batch_db shared" where
  "batch_world d es = \<lparr>db = d, schedule = es, clock = 1000\<rparr>"

definition hold_row :: "string \<Rightarrow> dedup_row" where
  "hold_row rid = \<lparr>dd_request_id = rid, dd_api_key_id = 7, dd_fingerprint = ''f'', dd_created_at = 0\<rparr>"

definition demo_job :: "job_status \<Rightarrow> batch_job" where
  "demo_job s = (priced_job 1 4 2)\<lparr>bj_status := s, bj_provider_job_name := Some ''p''\<rparr>"

definition settling_job :: batch_job where
  "settling_job = (demo_job JobSettling)\<lparr>bj_success_count := 2\<rparr>"

lemma column_10_numbers [simp]: "column 10 (numeral n) = numeral n" "column 10 1 = 1" "column 10 0 = 0"
proof -
  have "column 10 (of_nat m) = of_nat m" for m
  proof (cases "m = 0")
    case False
    have "\<lfloor>of_nat m * 10 ^ 10 + 1 / 2 :: rat\<rfloor> = \<lfloor>of_int (int m * 10 ^ 10) + 1 / 2 :: rat\<rfloor>" by simp
    also have "\<dots> = int m * 10 ^ 10" unfolding floor_eq_iff by simp
    finally have "\<lfloor>of_nat m * 10 ^ 10 + 1 / 2 :: rat\<rfloor> = int m * 10 ^ 10" .
    with False show ?thesis by (simp add: column_def sgn_if)
  qed (simp add: column_def)
  from this [of "numeral n"] this [of 1] this [of 0]
  show "column 10 (numeral n) = numeral n" "column 10 1 = 1" "column 10 0 = 0" by simp_all
qed

definition demo_submission :: submit_view where
  "demo_submission =
     \<lparr>sv_user = 1, sv_key = 7, sv_group = None, sv_model = ''m'', sv_parent = [], sv_items = [(''a'', ''p'')],
      sv_request_hash = ''h'', sv_idempotency_key = [], sv_batch_id = ''c'', sv_selected = Inr (''vertex'', 9, 1),
      sv_heartbeats = 1, sv_submitted = Inr (Some (''n'', [], [])), sv_queued = True\<rparr>"

text \<open>What evaluates the recovery and the settlement of a job.\<close>

lemmas batch_run_defs =
  db_step_def batch_then_def batch_tx_def AppendBatchImageEvent_def append_event_def
  GetBatchImageJobByBatchID_def read_job_def TransitionBatchImageJobStatus_def transition_def
  CanTransitionBatchImageJob_def update_known_def SetBatchImageJobSettlementFailed_def
  MarkBatchImageJobSettled_def mark_settled_def
  releaseBatchImageBalanceHold_def captureBatchImageBalanceHold_def reserveBatchImageBalanceHold_def
  buildBatchImageHoldCommand_def job_hold_amount_def scanBatchImageJob_def update_job_def job_of_def first_time_def
  BatchImageReleaseRequestID_def BatchImageCaptureRequestID_def hold_run_defs Let_def

lemmas batch_demo_defs =
  batch_world_def batch_demo_def demo_job_def priced_job_def settling_job_def hold_row_def

lemmas recovery_defs =
  ReleaseStaleUnsubmittedOnce_def ListStaleUnsubmittedBatchImageJobs_def FailStaleUnsubmittedBatchImageJob_def
  stale_unsubmitted_def unsubmitted_def list_limit_def

lemmas settlement_defs =
  Settle_def settle_job_def settle_priced_def settle_captured_def settlement_failed_def
  recordSettlementFailure_def failExhaustedSettlement_def settlementUnitPrice_def
  isBatchImageSettlementRetryExhausted_def batchImageSettlementMaxRetries_def batchImageCostEpsilon_def
  outputRetentionAfterTerminal_def

end
