(* ===== verification/Batch_History.thy ===== *)
theory Batch_History
  imports Batch_Life Batch_Demo
begin

text \<open>
  Any history of operations on jobs, among others, moves every job along the steps of its status.
\<close>

section \<open>Where a job can go\<close>

text \<open>A job that is with the provider, or was, has the name it has there.\<close>

definition phase_ok :: "job_status \<times> bool \<Rightarrow> bool" where
  "phase_ok p \<longleftrightarrow>
     (fst p \<in> {JobSubmitted, JobRunning, JobIndexing, JobSettling, JobCompleted} \<longrightarrow> snd p)"

lemma edge_ok: "job_edge p q \<Longrightarrow> phase_ok p \<Longrightarrow> phase_ok q"
  by (cases p; cases q; cases "fst p"; cases "fst q") (auto simp: phase_ok_def CanTransitionBatchImageJob_def)

lemma edge_completed:
  "job_edge p q \<Longrightarrow> phase_ok p \<Longrightarrow> fst p \<in> {JobCompleted} \<Longrightarrow> fst q \<in> {JobCompleted, JobOutputDeleted}"
  by (cases p; cases q) (auto simp: phase_ok_def CanTransitionBatchImageJob_def)

lemma edge_terminal:
  "job_edge p q \<Longrightarrow> IsTerminalBatchImageJobStatus (fst p) \<Longrightarrow> IsTerminalBatchImageJobStatus (fst q)"
  by (cases p; cases q) (auto simp: CanTransitionBatchImageJob_def)

lemma edges_ok: "job_edge\<^sup>*\<^sup>* p q \<Longrightarrow> phase_ok p \<Longrightarrow> phase_ok q"
  by (induction rule: rtranclp_induct) (auto intro: edge_ok)

lemma edges_terminal:
  "job_edge\<^sup>*\<^sup>* p q \<Longrightarrow> IsTerminalBatchImageJobStatus (fst p) \<Longrightarrow> IsTerminalBatchImageJobStatus (fst q)"
  by (induction rule: rtranclp_induct) (auto intro: edge_terminal)

text \<open>A named job whose money was taken keeps its status but for its output.\<close>

lemma edges_completed:
  assumes "job_edge\<^sup>*\<^sup>* p q" "snd p" "fst p \<in> {JobCompleted, JobOutputDeleted}"
  shows "snd q \<and> fst q \<in> {JobCompleted, JobOutputDeleted}"
  using assms(1)
proof (induction rule: rtranclp_induct)
  case (step q r)
  then show ?case by (cases q; cases r) (auto simp: CanTransitionBatchImageJob_def)
qed (use assms in simp)

text \<open>A job that failed before it reached the provider stays so.\<close>

definition gone :: "job_status \<times> bool \<Rightarrow> bool" where
  "gone p \<longleftrightarrow> fst p \<in> {JobFailed, JobOutputDeleted} \<and> \<not> snd p"

lemma edges_gone: "job_edge\<^sup>*\<^sup>* p q \<Longrightarrow> gone p \<Longrightarrow> gone q"
proof (induction rule: rtranclp_induct)
  case (step q r)
  then show ?case by (cases q; cases r) (auto simp: gone_def CanTransitionBatchImageJob_def)
qed

section \<open>Histories\<close>

lemma careful_quietly: "careful B P m \<Longrightarrow> careful B P (quietly m)"
  unfolding quietly_def by (intro careful_bind careful_return)

lemma submits_quietly: "submits B P Q m \<Longrightarrow> submits B P Q (quietly m)"
  unfolding quietly_def by (intro submits_bind_after careful_return)

lemma careful_perform:
  "stays B P \<Longrightarrow> (\<And>sv. x \<noteq> SubmitOp sv) \<Longrightarrow> careful B P (batch_perform env x)"
  by (cases x) (auto intro!: careful_quietly careful_rules)

lemma submits_sequence:
  "submits B P Q m \<Longrightarrow> (\<And>a. submits B Q R (f a)) \<Longrightarrow> submits B P R (State_Monad.bind m f)"
  unfolding submits_def by (rule batch.relies_bind)

lemma submit_perform:
  assumes "insert (sv_batch_id sv) C \<subseteq> B" "sv_batch_id sv \<notin> C"
  shows "submits B (none_named (insert (sv_batch_id sv) C)) (none_named C) (batch_perform env (SubmitOp sv))"
  using submits_quietly [OF submits_Submit [OF assms(1) HOL.refl]] assms(2) by simp

lemma history_submits:
  assumes "distinct (submitted_ids xs)" "set (submitted_ids xs) \<subseteq> B"
  shows "submits B (none_named (set (submitted_ids xs))) (none_named {}) (batch_history env xs)"
  using assms
proof (induction xs)
  case (Cons x xs)
  show ?case
  proof (cases "\<exists>sv. x = SubmitOp sv")
    case True
    then obtain sv where x: "x = SubmitOp sv" by blast
    have "insert (sv_batch_id sv) (set (submitted_ids xs)) \<subseteq> B" "sv_batch_id sv \<notin> set (submitted_ids xs)"
      "distinct (submitted_ids xs)" "set (submitted_ids xs) \<subseteq> B"
      using Cons.prems by (simp_all add: x)
    then show ?thesis
      unfolding x submitted_ids.simps list.set batch_history.simps
      by (intro submits_sequence [OF submit_perform] Cons.IH)
  next
    case False
    then have ids: "submitted_ids (x # xs) = submitted_ids xs" by (cases x) auto
    show ?thesis
      unfolding ids batch_history.simps
      by (intro submits_bind careful_perform stays_named) (use Cons False ids in auto)
  qed
qed (auto intro!: submits_return simp: none_named_def)



end
