(* ===== verification/Batch_Recovery.thy ===== *)
theory Batch_Recovery
  imports Batch_History
begin

text \<open>
  The recovery of submissions that stopped half-way gives money back only for jobs that never reached
  the provider. What it relies on is weaker than what a history of the service guarantees, and it proves
  what it keeps with the same rules.
\<close>

text \<open>Others neither claim anything nor release it, and move jobs along the steps.\<close>

definition recovery_rely :: "'x batch_db_scheme \<Rightarrow> 'x batch_db_scheme \<Rightarrow> bool" where
  "recovery_rely d d' \<longleftrightarrow> batch_steps d d' \<and> claims d' = claims d"

definition anything :: "'x batch_db_scheme \<Rightarrow> 'x batch_db_scheme \<Rightarrow> bool" where
  "anything d d' \<longleftrightarrow> True"

interpretation recovery: rely_guarantee recovery_rely anything
  by unfold_locales (auto simp: anything_def)

definition release_claim :: "string \<Rightarrow> int \<Rightarrow> string \<times> int" where
  "release_claim bid k = (TrimSpace (BatchImageReleaseRequestID bid), k)"

text \<open>What was claimed since \<open>C\<close> is the release of jobs that failed before they reached the provider.\<close>

definition released_gone :: "(string \<times> int) set \<Rightarrow> 'x batch_db_scheme \<Rightarrow> bool" where
  "released_gone C d \<longleftrightarrow>
     (\<forall>c \<in> claims d - C. \<exists>bid k j. c = release_claim bid k \<and> job_of d bid = Some j \<and> gone (phase j))"

definition job_gone :: "string \<Rightarrow> 'x batch_db_scheme \<Rightarrow> bool" where
  "job_gone bid d \<longleftrightarrow> (\<exists>j. job_of d bid = Some j \<and> gone (phase j))"

lemma steps_gone: "batch_steps d d' \<Longrightarrow> job_gone bid d \<Longrightarrow> job_gone bid d'"
  unfolding batch_steps_def job_gone_def job_moves_def by (meson edges_gone)

lemma released_steps: "batch_steps d d' \<Longrightarrow> claims d' = claims d \<Longrightarrow> released_gone C d \<Longrightarrow> released_gone C d'"
  unfolding released_gone_def using steps_gone [unfolded job_gone_def] by metis

lemma released_stable: "stable recovery_rely (released_gone C)"
  by (auto simp: stable_def recovery_rely_def intro: released_steps)

lemma gone_stable: "stable recovery_rely (\<lambda>d. released_gone C d \<and> job_gone bid d)"
  by (auto simp: stable_def recovery_rely_def intro: released_steps steps_gone)

lemma relies_fail_stale:
  "relies recovery_rely anything (released_gone C) (FailStaleUnsubmittedBatchImageJob bid cutoff code)
     (\<lambda>r d. released_gone C d \<and> (fst r \<longrightarrow> job_gone bid d))"
  unfolding FailStaleUnsubmittedBatchImageJob_def
proof (rule recovery.relies_bind [OF recovery.relies_time_now], assumption)
  fix t
  let ?p = "\<lambda>i. unsubmitted i \<and> bj_provider_job_name i = None \<and> bj_updated_at i \<le> cutoff"
  let ?f = "\<lambda>i. i\<lparr>bj_status := JobFailed, bj_last_error_code := Some code,
      bj_finished_at := first_time (bj_finished_at i) t, bj_updated_at := t, bj_version := bj_version i + 1\<rparr>"
  have upd: "released_gone C (snd (update_job bid ?p ?f d)) \<and>
      (fst (update_job bid ?p ?f d) \<noteq> None \<longrightarrow> job_gone bid (snd (update_job bid ?p ?f d)))"
    if "released_gone C d" for d
  proof -
    have "batch_steps d (snd (update_job bid ?p ?f d))"
      by (rule update_job_steps) (auto intro!: job_moves_edge simp: job_simps)
    moreover have "claims (snd (update_job bid ?p ?f d)) = claims d"
      by (auto simp: update_job_def claims_def claim_list_def split: option.splits)
    moreover have "job_gone bid (snd (update_job bid ?p ?f d))" if "fst (update_job bid ?p ?f d) \<noteq> None"
    proof -
      obtain r d' where u: "update_job bid ?p ?f d = (r, d')" by (cases "update_job bid ?p ?f d")
      from u show ?thesis
      proof (cases rule: update_job_cases)
        case (some j)
        with job_of_update [OF u [unfolded some(3)], of bid] u show ?thesis
          by (simp add: job_gone_def gone_def phase_def)
      qed (use u that in simp)
    qed
    ultimately show ?thesis using released_steps that by blast
  qed
  show "relies recovery_rely anything (released_gone C) (do {
     r \<leftarrow> call (\<lambda>_. update_job bid ?p ?f);
     (case r of
        Inl _ \<Rightarrow> State_Monad.return (False, Some DatabaseFailed)
      | Inr None \<Rightarrow> State_Monad.return (False, None)
      | Inr (Some _) \<Rightarrow> do {
          e \<leftarrow> AppendBatchImageEvent bid ''billing_hold_recovery_failed_unsubmitted'';
          State_Monad.return (True, case e of Inl x \<Rightarrow> Some x | Inr _ \<Rightarrow> None)})})
    (\<lambda>r d. released_gone C d \<and> (fst r \<longrightarrow> job_gone bid d))"
  proof (rule recovery.relies_bind)
    let ?Q = "\<lambda>r d. released_gone C d \<and>
        (case r of Inr (Some _) \<Rightarrow> job_gone bid d | _ \<Rightarrow> True)"
    show "relies recovery_rely anything (released_gone C) (call (\<lambda>_. update_job bid ?p ?f)) ?Q"
    proof (rule recovery.relies_call [OF released_stable])
      fix now d
      assume "released_gone C d"
      from upd [OF this] show "?Q (Inr (fst (update_job bid ?p ?f d))) (snd (update_job bid ?p ?f d))"
        "?Q (Inl ()) (snd (update_job bid ?p ?f d))"
        by (auto split: option.splits)
    qed (auto simp: anything_def)
    fix r
    let ?P = "\<lambda>d. released_gone C d \<and> job_gone bid d"
    have event: "relies recovery_rely anything ?P (AppendBatchImageEvent bid ev) (\<lambda>_. ?P)" for ev
      unfolding AppendBatchImageEvent_def db_step_def
      by (rule recovery.relies_bind [OF recovery.relies_call [OF gone_stable, where Q = "\<lambda>_. ?P"]])
        (auto simp: anything_def released_gone_def job_gone_def append_event_def claims_def claim_list_def job_of_def
          split: sum.splits intro: recovery.relies_return)
    show "relies recovery_rely anything (?Q r) (case r of
        Inl _ \<Rightarrow> State_Monad.return (False, Some DatabaseFailed)
      | Inr None \<Rightarrow> State_Monad.return (False, None)
      | Inr (Some _) \<Rightarrow> do {
          e \<leftarrow> AppendBatchImageEvent bid ''billing_hold_recovery_failed_unsubmitted'';
          State_Monad.return (True, case e of Inl x \<Rightarrow> Some x | Inr _ \<Rightarrow> None)})
      (\<lambda>r d. released_gone C d \<and> (fst r \<longrightarrow> job_gone bid d))"
      by (auto split: sum.splits option.splits intro!: recovery.relies_return recovery.relies_bind [OF event])
  qed
qed

text \<open>A release claims the key of the release of its job.\<close>

lemma claims_effects: "keeps (\<lambda>d d'. claims d' = claims d) (releaseUsageBillingBatchImageBalance ext c)"
  by (rule keepsI)
    (auto simp: releaseUsageBillingBatchImageBalance_def update_user_def claims_def claim_list_def
      split: prod.splits option.splits if_splits)

lemma hold_command_fields:
  assumes "buildBatchImageHoldCommand j rid a h = Inr c"
  shows "hc_request_id c = rid" "bj_api_key_id j = Some (hc_api_key_id c)" "0 < hc_api_key_id c"
    "hc_batch_id c = bj_batch_id j" "hc_user_id c = bj_user_id j"
    "hc_hold_amount c = max 0 (job_hold_amount j)" "hc_actual_amount c = max 0 a"
  using assms by (auto simp: buildBatchImageHoldCommand_def split: option.splits if_splits)

lemma relies_release:
  "relies recovery_rely anything (\<lambda>d. released_gone C d \<and> job_gone (bj_batch_id j) d)
     (releaseBatchImageBalanceHold env j h) (\<lambda>_. released_gone C)"
proof -
  let ?P = "\<lambda>d. released_gone C d \<and> job_gone (bj_batch_id j) d"
  have claimed: "relies recovery_rely anything ?P
      (claimed_transaction (TrimSpace (BatchImageReleaseRequestID (bj_batch_id j))) k fp nothing effects)
      (\<lambda>_. released_gone C)"
    if e: "\<And>now d a d'. effects now d = (Inr a, d') \<Longrightarrow> claims d' = claims d \<and> same_batch d d'"
    for k fp nothing effects
    unfolding claimed_transaction_def
  proof (rule recovery.relies_bind [OF recovery.relies_transaction [OF gone_stable, where Q = "\<lambda>_. released_gone C"]])
    fix now d a d'
    assume P: "?P d"
      and "claimed_tx (TrimSpace (BatchImageReleaseRequestID (bj_batch_id j))) k fp effects now d = (Inr a, d')"
    then have "effects now (new_claim (TrimSpace (BatchImageReleaseRequestID (bj_batch_id j))) k fp now d) = (Inr a, d')"
      by (simp add: claimed_tx_Inr)
    from e [OF this] have d': "claims d' = insert (release_claim (bj_batch_id j) k) (claims d)" "jobs d' = jobs d"
      by (simp_all add: same_batch_def release_claim_def) (simp add: new_claim_def)
    have "job_of d' = job_of d" by (rule job_of_cong [OF d'(2)])
    then show "released_gone C d'" "released_gone C d'"
      using P d'(1) by (auto simp: released_gone_def job_gone_def)
  qed (auto simp: anything_def intro: recovery.relies_return)
  show ?thesis
    unfolding releaseBatchImageBalanceHold_def
  proof (rule recovery.relies_sum)
    fix c
    assume c: "buildBatchImageHoldCommand j (BatchImageReleaseRequestID (bj_batch_id j)) 0 h = Inr c"
    have "relies recovery_rely anything ?P (ReleaseBatchImageBalance (be_ext env) c) (\<lambda>_. released_gone C)"
    proof (cases "hc_request_id (Normalize_hold (be_ext env) c) = []")
      case False
      have eff: "claims d' = claims d \<and> same_batch d d'"
        if "tx_then (releaseUsageBillingBatchImageBalance (be_ext env) (Normalize_hold (be_ext env) c))
              (\<lambda>r. Pair (Inr (r\<lparr>hr_applied := True\<rparr>))) d = (Inr a, d')" for a d d'
        using that keepsD [OF claims_effects] keepsD [OF hold_same_batch(3)] by (fastforce simp: tx_then_Inr)
      from False claimed [OF eff] show ?thesis
        by (simp add: ReleaseBatchImageBalance_def applyBatchImageBalanceHold_def Let_def hold_command_fields(1) [OF c])
    qed (auto simp: ReleaseBatchImageBalance_def applyBatchImageBalanceHold_def Let_def
        intro: recovery.relies_return)
    then show "relies recovery_rely anything ?P
        (if hc_hold_amount c \<le> 0 then State_Monad.return (Inr ())
         else do {
            r \<leftarrow> ReleaseBatchImageBalance (be_ext env) c;
            State_Monad.return (case r of
              Inr _ \<Rightarrow> Inr ()
            | Inl e \<Rightarrow> if e = ErrUsageBillingRequestConflict then Inr () else Inl BillingHoldFailed)})
        (\<lambda>_. released_gone C)"
      by (auto intro!: recovery.relies_return recovery.relies_bind)
  qed (auto intro: recovery.relies_return)
qed

lemma relies_recover:
  "relies recovery_rely anything (released_gone C)
     (recover_jobs env cutoff js :: (('x batch_db_scheme, 'z) shared_scheme, nat \<times> batch_error option) state)
     (\<lambda>_. released_gone C)"
proof (induction js)
  case (Cons j js)
  define rest :: "(('x batch_db_scheme, 'z) shared_scheme, nat \<times> batch_error option) state"
    where "rest = recover_jobs env cutoff js"
  note IH = Cons [folded rest_def]
  have released: "relies recovery_rely anything (\<lambda>d. released_gone C d \<and> job_gone (bj_batch_id j) d)
      (do { e \<leftarrow> releaseBatchImageBalanceHold env (j\<lparr>bj_status := JobFailed\<rparr>) h; s \<leftarrow> rest; State_Monad.return (f e s) })
      (\<lambda>_. released_gone C)" for h and f :: "batch_error + unit \<Rightarrow> nat \<times> batch_error option \<Rightarrow> nat \<times> batch_error option"
  proof (rule recovery.relies_bind)
    show "relies recovery_rely anything (\<lambda>d. released_gone C d \<and> job_gone (bj_batch_id j) d)
        (releaseBatchImageBalanceHold env (j\<lparr>bj_status := JobFailed\<rparr>) h) (\<lambda>_. released_gone C)"
      using relies_release [of C "j\<lparr>bj_status := JobFailed\<rparr>"] by simp
  qed (intro recovery.relies_bind [OF IH] recovery.relies_return)
  have kept: "relies recovery_rely anything (released_gone C) (do { s \<leftarrow> rest; State_Monad.return (f s) })
      (\<lambda>_. released_gone C)" for f :: "nat \<times> batch_error option \<Rightarrow> nat \<times> batch_error option"
    by (intro recovery.relies_bind [OF IH] recovery.relies_return)
  show ?case
    unfolding recover_jobs.simps rest_def [symmetric]
    by (rule recovery.relies_bind [OF relies_fail_stale])
      (auto intro: relies_weaken [OF released] relies_weaken [OF kept])
qed (auto intro: recovery.relies_return)

lemma relies_stale_list:
  "relies recovery_rely anything (released_gone C) (ListStaleUnsubmittedBatchImageJobs env cutoff limit)
     (\<lambda>_. released_gone C)"
  unfolding ListStaleUnsubmittedBatchImageJobs_def db_step_def
  by (rule recovery.relies_bind [OF recovery.relies_call [OF released_stable, where Q = "\<lambda>_. released_gone C"]])
    (auto simp: anything_def split: sum.splits intro: recovery.relies_return)

lemma relies_recovery:
  "relies recovery_rely anything (released_gone C) (ReleaseStaleUnsubmittedOnce env staleAfter limit)
     (\<lambda>_. released_gone C)"
  unfolding ReleaseStaleUnsubmittedOnce_def
proof (rule recovery.relies_bind [OF recovery.relies_time_now], assumption)
  fix now
  let ?cutoff = "now - (if staleAfter \<le> 0 then 600 * 10 ^ 6 else staleAfter)"
  show "relies recovery_rely anything (released_gone C) (do {
     js \<leftarrow> ListStaleUnsubmittedBatchImageJobs env ?cutoff (if limit = 0 then 100 else limit);
     (case js of
        Inl e \<Rightarrow> State_Monad.return (0, Some e)
      | Inr is \<Rightarrow> recover_jobs env ?cutoff is)}) (\<lambda>_. released_gone C)"
    by (rule recovery.relies_bind [OF relies_stale_list])
      (auto split: sum.splits intro: recovery.relies_return relies_recover)
qed


definition stale_world :: "batch_db shared" where
  "stale_world = batch_world
     (batch_demo [(demo_job JobUploading)\<lparr>bj_provider_job_name := None, bj_updated_at := -1000000000\<rparr>]
        [hold_row ''batch_image_hold:b''] 6 4) []"

lemma stale_claims:
  "release_claim ''b'' 7 \<in> claims (db (snd (run_state (ReleaseStaleUnsubmittedOnce demo_env 0 0) stale_world)))
     - claims (db stale_world)"
  by (simp add: recovery_defs batch_run_defs stale_world_def batch_demo_defs release_claim_def)
    (simp add: claims_def claim_list_def row_claim_def demo_env_def demo_ext_def)


end
