(* ===== verification/Batch_Progress.thy ===== *)
theory Batch_Progress
  imports Batch_Recovery Billing_Holds
begin

text \<open>
  The settlement of a job on a database that nobody else uses and that does not fail: it ends, after at
  most five rounds of the worker, with the hold either captured or given back, and never with both.
\<close>

section \<open>Operations on a quiet database\<close>

lemma quiet_read:
  "schedule w = [] \<Longrightarrow> run_state (GetBatchImageJobByBatchID env bid) w =
     (case job_of (db w) bid of None \<Rightarrow> Inl JobNotFound | Some j \<Rightarrow> Inr (scanBatchImageJob env j), w)"
  by (simp add: GetBatchImageJobByBatchID_def read_job_def db_step_def run_call_quiet split: option.splits)

lemma quiet_event:
  "schedule w = [] \<Longrightarrow> run_state (AppendBatchImageEvent bid ev) w = (Inr (), w\<lparr>db := append_event bid ev (db w)\<rparr>)"
  by (simp add: AppendBatchImageEvent_def db_step_def run_call_quiet)

text \<open>Steps that change nothing but the job \<open>bid\<close> and the events.\<close>

definition job_only :: "string \<Rightarrow> 'x batch_db_scheme \<Rightarrow> 'x batch_db_scheme \<Rightarrow> bool" where
  "job_only bid d d' \<longleftrightarrow>
     b_users d' = b_users d \<and> claims d' = claims d \<and>
     (\<forall>i \<in> set (jobs d'). bj_batch_id i \<noteq> bid \<longrightarrow> i \<in> set (jobs d))"

lemma job_only_holds:
  assumes "job_only bid d d'" "holds_inv H d"
  shows "holds_inv H d'"
proof (rule holds_inv_kept [OF assms(2)])
  have u: "b_users d' = b_users d" and c: "claims d' = claims d" using assms(1) by (simp_all add: job_only_def)
  have "users_ok d" using assms(2) by (simp add: holds_inv_def)
  then show "kept d d'" unfolding kept_def users_ok_def frozen_def [abs_def] user_ids_def u c by simp
qed

definition written :: "string \<Rightarrow> (batch_job \<Rightarrow> batch_job) \<Rightarrow> string \<Rightarrow> 'x batch_db_scheme \<Rightarrow> 'x batch_db_scheme" where
  "written bid f ev d = append_event bid ev (d\<lparr>jobs := map (\<lambda>i. if bj_batch_id i = bid then f i else i) (jobs d)\<rparr>)"

lemma written_only:
  assumes "\<And>i. bj_batch_id (f i) = bj_batch_id i"
  shows "job_only bid d (written bid f ev d)"
  using assms
  by (auto simp: job_only_def written_def append_event_def claims_def claim_list_def split: if_splits)

lemma written_job:
  assumes "job_of d bid = Some j" "\<And>i. bj_batch_id (f i) = bj_batch_id i"
  shows "job_of (written bid f ev d) bid = Some (f j)"
proof -
  have u: "update_job bid (\<lambda>_. True) f d =
      (Some (f j), d\<lparr>jobs := map (\<lambda>i. if bj_batch_id i = bid then f i else i) (jobs d)\<rparr>)"
    using assms(1) by (simp add: update_job_def)
  from job_of_update [OF u assms(2), of bid] show ?thesis
    by (simp add: written_def append_event_def job_of_def)
qed

text \<open>The failure of a settlement counts on the job and changes nothing else of it.\<close>

definition failed_once :: "string \<Rightarrow> int \<Rightarrow> batch_job \<Rightarrow> batch_job" where
  "failed_once code t j =
     j\<lparr>bj_last_error_code := Some code, bj_retry_count := bj_retry_count j + 1, bj_updated_at := t\<rparr>"

lemma quiet_settlement_failed:
  assumes "schedule w = []" "job_of (db w) bid = Some j"
  shows "run_state (SetBatchImageJobSettlementFailed bid code) w =
    (Inr (bj_retry_count j + 1),
     w\<lparr>db := written bid (failed_once code (clock w)) ''settlement_failed'' (db w)\<rparr>)"
  using assms
  by (simp add: SetBatchImageJobSettlementFailed_def update_known_def db_step_def run_call_quiet update_job_def
      quiet_event written_def failed_once_def [abs_def])

lemma quiet_transition:
  assumes "schedule w = []" "job_of (db w) bid = Some j" "CanTransitionBatchImageJob (bj_status j) s"
  shows "\<exists>f. run_state (TransitionBatchImageJobStatus bid s code ev) w = (Inr (), w\<lparr>db := written bid f ev (db w)\<rparr>) \<and>
    (\<forall>i. bj_batch_id (f i) = bj_batch_id i) \<and> bj_status (f j) = s"
  using assms
  by (simp add: TransitionBatchImageJobStatus_def batch_tx_def transaction_def run_call_quiet all_or_nothing_def
      transition_def update_job_def written_def) (rule exI, rule conjI, rule refl, simp)

section \<open>A job that is to be settled\<close>

definition hold_for :: "batch_job \<Rightarrow> hold \<Rightarrow> bool" where
  "hold_for s h \<longleftrightarrow>
     (\<exists>k > 0. bj_api_key_id s = Some k \<and> h = (bj_batch_id s, k, bj_user_id s, job_hold_amount s))"

text \<open>The hold \<open>h\<close> of the job is one of the open holds \<open>H\<close>; no other job has its manifest hash.\<close>

definition to_settle :: "batch_env \<Rightarrow> hold list \<Rightarrow> hold \<Rightarrow> string \<Rightarrow> batch_job \<Rightarrow> 'x batch_db_scheme \<Rightarrow> bool" where
  "to_settle env H h bid j d \<longleftrightarrow>
     job_of d bid = Some j \<and> bj_status j = JobSettling \<and> 0 \<le> bj_retry_count j \<and>
     (\<exists>a > 0. bj_account_id j = Some a) \<and> bj_manifest_hash j = None \<and>
     (\<forall>i \<in> set (jobs d). bj_batch_id i \<noteq> bid \<longrightarrow>
        bj_manifest_hash i \<noteq> Some (BuildBatchImageSettlementManifestHash env j)) \<and>
     holds_inv H d \<and> h \<in> set H \<and> hold_for (scanBatchImageJob env j) h"

text \<open>
  How it ends: the hold is settled for the price of the images that succeeded and the job is completed, or
  the whole hold is given back and the job has failed.
\<close>

definition settled :: "batch_env \<Rightarrow> string \<Rightarrow> batch_job \<Rightarrow> 'x batch_db_scheme \<Rightarrow> 'x batch_db_scheme \<Rightarrow> bool" where
  "settled env bid j d d' \<longleftrightarrow>
     (\<exists>i u cost. job_of d' bid = Some i \<and> b_users d (bj_user_id j) = Some u \<and>
        b_users d' = (b_users d)(bj_user_id j \<mapsto> settle_hold (job_hold_amount (scanBatchImageJob env j)) cost u) \<and>
        (bj_status i = JobFailed \<and> cost = 0 \<or>
         bj_status i = JobCompleted \<and>
         (\<exists>p. settlementUnitPrice env (scanBatchImageJob env j) = Inr p \<and>
              bj_actual_cost i = Some (column 10 (be_mul env (of_int (bj_success_count j)) p)) \<and>
              cost = max 0 (be_mul env (of_int (bj_success_count j)) p))))"

lemma scan_simps [simp]:
  "bj_batch_id (scanBatchImageJob env j) = bj_batch_id j" "bj_user_id (scanBatchImageJob env j) = bj_user_id j"
  "bj_status (scanBatchImageJob env j) = bj_status j" "bj_success_count (scanBatchImageJob env j) = bj_success_count j"
  "bj_account_id (scanBatchImageJob env j) = bj_account_id j" "bj_api_key_id (scanBatchImageJob env j) = bj_api_key_id j"
  "bj_manifest_hash (scanBatchImageJob env j) = bj_manifest_hash j"
  "BuildBatchImageSettlementManifestHash env (scanBatchImageJob env j) = BuildBatchImageSettlementManifestHash env j"
  by (simp_all add: scanBatchImageJob_def BuildBatchImageSettlementManifestHash_def)

lemma failed_once_simps [simp]:
  "bj_batch_id (failed_once code t j) = bj_batch_id j" "bj_user_id (failed_once code t j) = bj_user_id j"
  "bj_status (failed_once code t j) = bj_status j" "bj_retry_count (failed_once code t j) = bj_retry_count j + 1"
  "bj_account_id (failed_once code t j) = bj_account_id j"
  "bj_manifest_hash (failed_once code t j) = bj_manifest_hash j"
  "BuildBatchImageSettlementManifestHash env (failed_once code t j) = BuildBatchImageSettlementManifestHash env j"
  "job_hold_amount (scanBatchImageJob env (failed_once code t j)) = job_hold_amount (scanBatchImageJob env j)"
  "settlementUnitPrice env (scanBatchImageJob env (failed_once code t j)) = settlementUnitPrice env (scanBatchImageJob env j)"
  "bj_success_count (failed_once code t j) = bj_success_count j"
  "bj_api_key_id (failed_once code t j) = bj_api_key_id j"
  by (simp_all add: failed_once_def BuildBatchImageSettlementManifestHash_def scanBatchImageJob_def
      settlementUnitPrice_def job_hold_amount_def split: option.split)

lemma failed_once_same [simp]:
  "settled env bid (failed_once code t j) = settled env bid j"
  "hold_for (scanBatchImageJob env (failed_once code t j)) = hold_for (scanBatchImageJob env j)"
  by (simp_all add: settled_def [abs_def] hold_for_def [abs_def])

lemma to_settle_again:
  assumes "to_settle env H h bid j d"
  shows "to_settle env H h bid (failed_once code t j) (written bid (failed_once code t) ev d)"
  using assms written_job [of d bid j "failed_once code t" ev] job_only_holds [OF written_only, of "failed_once code t" H d bid ev]
    written_only [of "failed_once code t" bid d ev]
  by (auto simp: to_settle_def job_only_def)

section \<open>Giving back and charging\<close>

lemma hold_command:
  assumes "holds_inv H d" "h \<in> set H" "hold_for s h"
  obtains c where "buildBatchImageHoldCommand s rid a ph = Inr c" "hold_of c = h" "hc_hold_amount c = job_hold_amount s"
    "hc_request_id c = rid" "hc_batch_id c = bj_batch_id s" "hc_user_id c = bj_user_id s"
    "hc_actual_amount c = max 0 a" "0 < hc_hold_amount c"
proof -
  from assms(3) obtain k where k: "0 < k" "bj_api_key_id s = Some k"
    "h = (bj_batch_id s, k, bj_user_id s, job_hold_amount s)" by (auto simp: hold_for_def)
  have "hold_ok d h" using assms(1,2) by (simp add: holds_inv_def)
  with k(3) have pos: "0 < job_hold_amount s" by simp
  obtain c where c: "buildBatchImageHoldCommand s rid a ph = Inr c"
    using k by (simp add: buildBatchImageHoldCommand_def)
  note f = hold_command_fields [OF c]
  show thesis by (rule that [OF c]) (use f k pos in \<open>auto simp: hold_of_def\<close>)
qed

lemma quiet_release:
  assumes "schedule w = []" "holds_inv H (db w)" "h \<in> set H" "hold_for s h"
  shows "\<exists>u d. run_state (releaseBatchImageBalanceHold env s ph) w = (Inr (), w\<lparr>db := d\<rparr>) \<and>
    b_users (db w) (bj_user_id s) = Some u \<and>
    b_users d = (b_users (db w))(bj_user_id s \<mapsto> settle_hold (job_hold_amount s) 0 u) \<and>
    jobs d = jobs (db w) \<and> holds_inv (filter (\<lambda>x. x \<noteq> h) H) d"
proof -
  obtain c where c: "buildBatchImageHoldCommand s (BatchImageReleaseRequestID (bj_batch_id s)) 0 ph = Inr c"
    and f: "hold_of c = h" "hc_hold_amount c = job_hold_amount s"
      "hc_request_id c = BatchImageReleaseRequestID (bj_batch_id s)" "hc_batch_id c = bj_batch_id s"
      "hc_user_id c = bj_user_id s" "0 < hc_hold_amount c"
    by (rule hold_command [OF assms(2-4)])
  have H: "hold_of c \<in> set H" using assms(3) f(1) by simp
  have rid: "hc_request_id c = BatchImageReleaseRequestID (hc_batch_id c)" using f by simp
  from open_hold_released [OF assms(2) H assms(1) rid, of "be_ext env"] obtain u res fp where
    u: "b_users (db w) (hc_user_id c) = Some u" and
    run: "run_state (ReleaseBatchImageBalance (be_ext env) c) w = (Inr res,
      w\<lparr>db := hold_settled (hc_request_id c) c fp (settle_hold (hc_hold_amount c) 0 u) (clock w) (db w)\<rparr>)" by blast
  let ?d = "hold_settled (hc_request_id c) c fp (settle_hold (hc_hold_amount c) 0 u) (clock w) (db w)"
  have "holds_inv (filter (\<lambda>x. x \<noteq> h) H) ?d"
    using hold_settled_inv [OF assms(2) H u, of "hc_request_id c"] rid f(1) by simp
  moreover have "run_state (releaseBatchImageBalanceHold env s ph) w = (Inr (), w\<lparr>db := ?d\<rparr>)"
    using c run f(6) by (simp add: releaseBatchImageBalanceHold_def)
  moreover have "jobs ?d = jobs (db w)" by (simp add: hold_settled_def new_claim_def)
  ultimately show ?thesis using u f by (intro exI [of _ u] exI [of _ ?d]) simp
qed

lemma quiet_capture:
  assumes "schedule w = []" "holds_inv H (db w)" "h \<in> set H" "hold_for s h"
  shows "(\<exists>e. run_state (captureBatchImageBalanceHold env s a ph) w = (Inl e, w)) \<or>
    (\<exists>u d. run_state (captureBatchImageBalanceHold env s a ph) w = (Inr (), w\<lparr>db := d\<rparr>) \<and>
      b_users (db w) (bj_user_id s) = Some u \<and>
      b_users d = (b_users (db w))(bj_user_id s \<mapsto> settle_hold (job_hold_amount s) (max 0 a) u) \<and>
      jobs d = jobs (db w) \<and> holds_inv (filter (\<lambda>x. x \<noteq> h) H) d)"
proof -
  obtain c where c: "buildBatchImageHoldCommand s (BatchImageCaptureRequestID (bj_batch_id s)) a ph = Inr c"
    and f: "hold_of c = h" "hc_hold_amount c = job_hold_amount s"
      "hc_request_id c = BatchImageCaptureRequestID (bj_batch_id s)" "hc_batch_id c = bj_batch_id s"
      "hc_user_id c = bj_user_id s" "hc_actual_amount c = max 0 a"
    by (rule hold_command [OF assms(2-4)])
  have H: "hold_of c \<in> set H" using assms(3) f(1) by simp
  have rid: "hc_request_id c = BatchImageCaptureRequestID (hc_batch_id c)" using f by simp
  from open_hold_captured [OF assms(2) H assms(1) rid, of "be_ext env"] obtain u res fp where
    u: "b_users (db w) (hc_user_id c) = Some u" and
    run: "run_state (CaptureBatchImageBalance (be_ext env) c) w =
      (if float_sub (be_ext env) (hc_actual_amount c) (hc_hold_amount c) > 1 / 10 ^ 8
       then (Inl ErrBatchImageSettlementCostExceedsHold, w)
       else (Inr res, w\<lparr>db := hold_settled (hc_request_id c) c fp
               (settle_hold (hc_hold_amount c) (hc_actual_amount c) u) (clock w) (db w)\<rparr>))" by blast
  let ?d = "hold_settled (hc_request_id c) c fp (settle_hold (hc_hold_amount c) (hc_actual_amount c) u) (clock w) (db w)"
  show ?thesis
  proof (cases "float_sub (be_ext env) (hc_actual_amount c) (hc_hold_amount c) > 1 / 10 ^ 8")
    case True
    then show ?thesis using c unfolding captureBatchImageBalanceHold_def by (simp add: run)
  next
    case False
    have "holds_inv (filter (\<lambda>x. x \<noteq> h) H) ?d"
      using hold_settled_inv [OF assms(2) H u, of "hc_request_id c"] rid f(1) by simp
    moreover have "run_state (captureBatchImageBalanceHold env s a ph) w = (Inr (), w\<lparr>db := ?d\<rparr>)"
      using c False unfolding captureBatchImageBalanceHold_def by (simp add: run)
    moreover have "jobs ?d = jobs (db w)" by (simp add: hold_settled_def new_claim_def)
    ultimately show ?thesis using u f by (intro disjI2 exI [of _ u] exI [of _ ?d]) simp
  qed
qed

section \<open>One round\<close>

text \<open>A round ends the settlement, or it failed and the job is to be settled still.\<close>

definition ended ::
  "batch_env \<Rightarrow> hold list \<Rightarrow> hold \<Rightarrow> string \<Rightarrow> batch_job \<Rightarrow> 'x batch_db_scheme \<Rightarrow> 'x batch_db_scheme \<Rightarrow> bool" where
  "ended env H h bid j d d' \<longleftrightarrow> settled env bid j d d' \<and> holds_inv (filter (\<lambda>x. x \<noteq> h) H) d'"

definition tried :: "batch_env \<Rightarrow> hold list \<Rightarrow> hold \<Rightarrow> string \<Rightarrow> batch_job \<Rightarrow> 'x batch_db_scheme \<Rightarrow> 'x batch_db_scheme \<Rightarrow> bool" where
  "tried env H h bid j d d' \<longleftrightarrow>
     ended env H h bid j d d' \<or>
     (bj_retry_count j + 1 < 5 \<and> b_users d' = b_users d \<and>
      (\<exists>code t. to_settle env H h bid (failed_once code t j) d'))"

lemma quiet_exhausted:
  assumes "schedule w = []" "to_settle env H h bid j (db w)" "hold_for s h"
    and s: "bj_batch_id s = bid" "bj_user_id s = bj_user_id j"
      "job_hold_amount s = job_hold_amount (scanBatchImageJob env j)"
    and run: "run_state (failExhaustedSettlement env s) w = (e, w')"
  shows "schedule w' = [] \<and> ended env H h bid j (db w) (db w')"
proof -
  have j: "job_of (db w) bid = Some j" "bj_status j = JobSettling" "holds_inv H (db w)" "h \<in> set H"
    using assms(2) by (simp_all add: to_settle_def)
  from quiet_release [OF assms(1) j(3,4) assms(3), of env "batchImageDerefString (bj_request_hash s)"] obtain u d where
    r: "run_state (releaseBatchImageBalanceHold env s (batchImageDerefString (bj_request_hash s))) w = (Inr (), w\<lparr>db := d\<rparr>)"
    "b_users (db w) (bj_user_id s) = Some u"
    "b_users d = (b_users (db w))(bj_user_id s \<mapsto> settle_hold (job_hold_amount s) 0 u)"
    "jobs d = jobs (db w)" "holds_inv (filter (\<lambda>x. x \<noteq> h) H) d" by blast
  have jd: "job_of d bid = Some j" using job_of_cong [OF r(4)] j(1) by simp
  have v: "schedule (w\<lparr>db := d\<rparr>) = []" "job_of (db (w\<lparr>db := d\<rparr>)) bid = Some j"
    "CanTransitionBatchImageJob (bj_status j) JobFailed"
    using assms(1) jd j(2) by (simp_all add: CanTransitionBatchImageJob_def)
  from quiet_transition [OF v, of "Some ''SETTLEMENT_BILLING_RETRY_EXHAUSTED''" "''settlement_retry_exhausted''"]
  obtain f where
    t: "run_state (TransitionBatchImageJobStatus bid JobFailed (Some ''SETTLEMENT_BILLING_RETRY_EXHAUSTED'')
          ''settlement_retry_exhausted'') (w\<lparr>db := d\<rparr>) =
        (Inr (), w\<lparr>db := written bid f ''settlement_retry_exhausted'' d\<rparr>)"
    and f: "\<And>i. bj_batch_id (f i) = bj_batch_id i" "bj_status (f j) = JobFailed"
    by auto
  have w': "w' = w\<lparr>db := written bid f ''settlement_retry_exhausted'' d\<rparr>"
    using run r(1) t by (simp add: failExhaustedSettlement_def s(1))
  note only = written_only [OF f(1), of bid d "''settlement_retry_exhausted''"]
  have "settled env bid j (db w) (db w')"
    unfolding settled_def w' using written_job [OF jd f(1)] f(2) r(2,3) only
    by (intro exI [of _ "f j"] exI [of _ u] exI [of _ 0]) (simp add: s job_only_def)
  then show ?thesis
    using job_only_holds [OF only r(5)] assms(1) by (simp add: ended_def w')
qed

text \<open>A failure is counted; the fifth one gives the hold back.\<close>

lemma quiet_failed:
  assumes "schedule w = []" "to_settle env H h bid j (db w)"
    and run: "run_state (settlement_failed env (scanBatchImageJob env j) code err) w = (r, w')"
  shows "schedule w' = [] \<and> tried env H h bid j (db w) (db w')"
proof -
  let ?s = "scanBatchImageJob env j"
  let ?f = "failed_once code (clock w)" and ?ev = "''settlement_failed''"
  let ?v = "w\<lparr>db := written bid ?f ?ev (db w)\<rparr>"
  have j: "job_of (db w) bid = Some j" "hold_for ?s h" "h \<in> set H"
    using assms(2) by (simp_all add: to_settle_def)
  have b: "bj_batch_id j = bid" by (rule job_of_id [OF j(1)])
  note again = to_settle_again [OF assms(2), of code "clock w" ?ev]
  have users: "b_users (written bid ?f ?ev (db w)) = b_users (db w)"
    using written_only [of ?f bid "db w" ?ev] by (simp add: job_only_def)
  note q = quiet_settlement_failed [OF assms(1) j(1), of code]
  show ?thesis
  proof (cases "bj_retry_count j + 1 \<ge> batchImageSettlementMaxRetries")
    case False
    then have "w' = ?v"
      using run q by (simp add: settlement_failed_def recordSettlementFailure_def b)
    moreover have "bj_retry_count j + 1 < 5" using False by (simp add: batchImageSettlementMaxRetries_def)
    ultimately show ?thesis using assms(1) users again by (auto simp: tried_def)
  next
    case True
    then obtain e where e: "run_state (failExhaustedSettlement env ?s) ?v = (e, w')"
      using run q by (auto simp: settlement_failed_def recordSettlementFailure_def b split: prod.splits)
    have v: "schedule ?v = []" "to_settle env H h bid (?f j) (db ?v)" using assms(1) again by simp_all
    from quiet_exhausted [OF v j(2) _ _ _ e] b
    have "schedule w' = []" "ended env H h bid j (written bid ?f ?ev (db w)) (db w')"
      by (simp_all add: ended_def)
    moreover have "settled env bid j (written bid ?f ?ev (db w)) = settled env bid j (db w)"
      unfolding settled_def [abs_def] users ..
    ultimately show ?thesis by (simp add: tried_def ended_def)
  qed
qed

lemma quiet_settled:
  assumes "schedule w = []" "job_of (db w) bid = Some j" "bj_status j = JobSettling" "bj_manifest_hash j = None"
    and "\<forall>i \<in> set (jobs (db w)). bj_batch_id i \<noteq> bid \<longrightarrow> bj_manifest_hash i \<noteq> Some m"
  shows "\<exists>f. run_state (MarkBatchImageJobSettled bid cost m t expires) w =
      (Inr (), w\<lparr>db := written bid f ''settlement_completed'' (db w)\<rparr>) \<and>
    (\<forall>i. bj_batch_id (f i) = bj_batch_id i) \<and> bj_status (f j) = JobCompleted \<and>
    bj_actual_cost (f j) = Some (column 10 cost)"
proof -
  have "\<not> (m \<noteq> [] \<and> (\<exists>i \<in> set (jobs (db w)). bj_batch_id i \<noteq> bid \<and> bj_manifest_hash i = Some m))"
    using assms(5) by blast
  with assms(1-4) show ?thesis
    unfolding MarkBatchImageJobSettled_def batch_tx_def transaction_def mark_settled_def
    by (simp add: run_call_quiet all_or_nothing_def update_job_def written_def if_not_P del: de_Morgan_conj)
      (rule exI, rule conjI, rule refl, simp)
qed

lemma quiet_priced:
  assumes w: "schedule w = []" and T: "to_settle env H h bid j (db w)"
    and p: "settlementUnitPrice env (scanBatchImageJob env j) = Inr p"
    and m: "sr_manifest_hash res = BuildBatchImageSettlementManifestHash env j"
    and run: "run_state (settle_priced env (scanBatchImageJob env j) p res) w = (r, w')"
  shows "schedule w' = [] \<and> tried env H h bid j (db w) (db w')"
proof -
  let ?s = "scanBatchImageJob env j"
  let ?cost = "be_mul env (of_int (bj_success_count j)) p"
  have j: "job_of (db w) bid = Some j" "bj_status j = JobSettling" "bj_manifest_hash j = None"
    "\<forall>i \<in> set (jobs (db w)). bj_batch_id i \<noteq> bid \<longrightarrow> bj_manifest_hash i \<noteq> Some (sr_manifest_hash res)"
    and h: "holds_inv H (db w)" "h \<in> set H" "hold_for ?s h"
    using T by (simp_all add: to_settle_def m)
  have b: "bj_batch_id j = bid" by (rule job_of_id [OF j(1)])
  show ?thesis
  proof (cases "float_sub (be_ext env) ?cost (job_hold_amount ?s) > batchImageCostEpsilon")
    case True
    then show ?thesis
      using run quiet_failed [OF w T, of "''SETTLEMENT_COST_EXCEEDS_HOLD''" SettlementCostExceedsHold]
      by (simp add: settle_priced_def Let_def)
  next
    case False
    have run: "run_state (do {
        r \<leftarrow> captureBatchImageBalanceHold env ?s ?cost (sr_manifest_hash res);
        (case r of Inl e \<Rightarrow> settlement_failed env ?s ''SETTLEMENT_BILLING_FAILED'' e
         | Inr _ \<Rightarrow> settle_captured env ?s ?cost res)}) w = (r, w')"
      using run False by (simp add: settle_priced_def Let_def)
    from quiet_capture [OF w h, of env ?cost "sr_manifest_hash res"] show ?thesis
    proof (elim disjE exE conjE)
      fix e assume "run_state (captureBatchImageBalanceHold env ?s ?cost (sr_manifest_hash res)) w = (Inl e, w)"
      with run show ?thesis using quiet_failed [OF w T, of "''SETTLEMENT_BILLING_FAILED''" e] by simp
    next
      fix u d
      assume r: "run_state (captureBatchImageBalanceHold env ?s ?cost (sr_manifest_hash res)) w = (Inr (), w\<lparr>db := d\<rparr>)"
        and u: "b_users (db w) (bj_user_id ?s) = Some u"
        "b_users d = (b_users (db w))(bj_user_id ?s \<mapsto> settle_hold (job_hold_amount ?s) (max 0 ?cost) u)"
        and d: "jobs d = jobs (db w)" "holds_inv (filter (\<lambda>x. x \<noteq> h) H) d"
      have jd: "job_of d bid = Some j" using job_of_cong [OF d(1)] j(1) by simp
      have v: "schedule (w\<lparr>db := d\<rparr>) = []" "job_of (db (w\<lparr>db := d\<rparr>)) bid = Some j"
        "\<forall>i \<in> set (jobs (db (w\<lparr>db := d\<rparr>))). bj_batch_id i \<noteq> bid \<longrightarrow> bj_manifest_hash i \<noteq> Some (sr_manifest_hash res)"
        using w jd j(4) d(1) by simp_all
      from quiet_settled [OF v(1,2) j(2,3) v(3), of ?cost "clock w" "clock w + outputRetentionAfterTerminal env"]
      obtain f where f: "run_state (MarkBatchImageJobSettled bid ?cost (sr_manifest_hash res) (clock w)
            (clock w + outputRetentionAfterTerminal env)) (w\<lparr>db := d\<rparr>) =
          (Inr (), w\<lparr>db := written bid f ''settlement_completed'' d\<rparr>)"
        "\<And>i. bj_batch_id (f i) = bj_batch_id i" "bj_status (f j) = JobCompleted"
        "bj_actual_cost (f j) = Some (column 10 ?cost)" by auto
      have w': "w' = w\<lparr>db := written bid f ''settlement_completed'' d\<rparr>"
        using run r f(1) by (simp add: settle_captured_def batch_then_def b)
      note only = written_only [OF f(2), of bid d "''settlement_completed''"]
      have "settled env bid j (db w) (db w')"
        unfolding settled_def w' using written_job [OF jd f(2)] f(3,4) u only p
        by (intro exI [of _ "f j"] exI [of _ u] exI [of _ "max 0 ?cost"]) (simp add: job_only_def)
      then show ?thesis
        using job_only_holds [OF only d(2)] w by (simp add: tried_def ended_def w')
    qed
  qed
qed

lemma quiet_settle:
  assumes w: "schedule w = []" and T: "to_settle env H h bid j (db w)"
    and run: "run_state (Settle env bid) w = (r, w')"
  shows "schedule w' = [] \<and> tried env H h bid j (db w) (db w')"
proof -
  let ?s = "scanBatchImageJob env j"
  let ?res = "\<lparr>sr_success_count = bj_success_count ?s, sr_fail_count = bj_fail_count ?s,
      sr_actual_cost = (case bj_actual_cost ?s of None \<Rightarrow> 0 | Some c \<Rightarrow> c),
      sr_manifest_hash = BuildBatchImageSettlementManifestHash env ?s, sr_already_settled = False\<rparr>"
  have j: "job_of (db w) bid = Some j" "bj_status j = JobSettling" "bj_manifest_hash j = None" "hold_for ?s h"
    and a: "\<exists>a > 0. bj_account_id j = Some a" using T by (simp_all add: to_settle_def)
  have b: "bj_batch_id j = bid" by (rule job_of_id [OF j(1)])
  have k: "\<exists>k > 0. bj_api_key_id j = Some k" using j(4) by (auto simp: hold_for_def)
  have run: "run_state (settle_job env ?s) w = (r, w')"
    using run j(1) by (simp add: Settle_def batch_then_def quiet_read [OF w])
  note failed = quiet_failed [OF w T]
  consider (exhausted) "isBatchImageSettlementRetryExhausted ?s"
    | (failed) code err where "run_state (settlement_failed env ?s code err) w = (r, w')"
    | (priced) p where "settlementUnitPrice env ?s = Inr p" "run_state (settle_priced env ?s p ?res) w = (r, w')"
  proof (cases "isBatchImageSettlementRetryExhausted ?s")
    case False
    have m: "batchImageDerefString (bj_manifest_hash ?s) = []" using j(3) by (simp add: batchImageDerefString_def)
    show thesis
      using run that(2,3) False j(2) a k m
      by (auto simp: settle_job_def Let_def split: if_splits sum.splits)
  qed (rule that(1))
  then show ?thesis
  proof cases
    case exhausted
    then obtain e where "run_state (failExhaustedSettlement env ?s) w = (e, w')"
      using run j(2) a k by (auto simp: settle_job_def Let_def split: prod.splits)
    from quiet_exhausted [OF w T j(4) _ _ _ this] show ?thesis by (simp add: tried_def b)
  next
    case failed
    then show ?thesis by (rule quiet_failed [OF w T])
  next
    case priced
    then show ?thesis by (intro quiet_priced [OF w T]) simp_all
  qed
qed

section \<open>All rounds\<close>

text \<open>The rounds of the worker on one job, until the queue drops it.\<close>

fun worker_rounds ::
  "batch_env \<Rightarrow> provider_view \<Rightarrow> string \<Rightarrow> nat \<Rightarrow> (('x batch_db_scheme, 'z) shared_scheme, unit) state" where
  "worker_rounds env pv bid 0 = State_Monad.return ()"
| "worker_rounds env pv bid (Suc n) = do { _ \<leftarrow> Process env pv bid; worker_rounds env pv bid n }"

lemma quiet_process:
  assumes "schedule w = []" "to_settle env H h bid j (db w)" "run_state (Process env pv bid) w = (r, w')"
  shows "schedule w' = [] \<and> tried env H h bid j (db w) (db w')"
proof -
  obtain e v where v: "run_state (Settle env bid) w = (e, v)" by fastforce
  have s: "schedule v = []" "tried env H h bid j (db w) (db v)" using quiet_settle [OF assms(1,2) v] by simp_all
  have "w' = v"
    using assms(3) assms(2) v
    by (auto simp: Process_def batch_then_def quiet_read [OF assms(1)] quiet_read [OF s(1)] to_settle_def
        split: sum.splits if_splits)
  with s show ?thesis by simp
qed

lemma rounds_end:
  assumes "schedule w = []" "to_settle env H h bid j (db w)" "nat (5 - bj_retry_count j) \<le> k" "0 < k"
  shows "\<exists>n \<le> k. \<exists>w'. run_state (worker_rounds env pv bid n) w = ((), w') \<and> ended env H h bid j (db w) (db w')"
  using assms
proof (induction k arbitrary: w j)
  case (Suc k)
  obtain r v where v: "run_state (Process env pv bid) w = (r, v)" by fastforce
  note q = quiet_process [OF Suc.prems(1,2) v]
  show ?case
  proof (cases "ended env H h bid j (db w) (db v)")
    case True
    with v show ?thesis by (intro exI [of _ 1] conjI exI [of _ v]) simp_all
  next
    case False
    with q obtain code t where t: "bj_retry_count j + 1 < 5" "b_users (db v) = b_users (db w)"
      "to_settle env H h bid (failed_once code t j) (db v)" "schedule v = []"
      by (auto simp: tried_def)
    from t(1) Suc.prems(3) have "nat (5 - bj_retry_count (failed_once code t j)) \<le> k" "0 < k" by simp_all
    from Suc.IH [OF t(4,3) this] obtain n w' where n: "n \<le> k" "run_state (worker_rounds env pv bid n) v = ((), w')"
      "ended env H h bid j (db v) (db w')" by (auto simp: ended_def)
    then have "ended env H h bid j (db w) (db w')" by (simp add: ended_def settled_def t(2))
    with n v show ?thesis by (intro exI [of _ "Suc n"] conjI exI [of _ w']) simp_all
  qed
qed simp

text \<open>
  C12. A settlement ends. Take a job that is to be settled and whose hold is open, on a database that nobody
  else uses and that does not fail. Within five rounds of the worker the job is completed, the price of its
  images, and no more, having been taken out of the hold, or it has failed and the user has the whole hold
  back, whatever is wrong with its counts, its prices or its cost; the other holds stay open and funded.
\<close>

theorem settlement_ends:
  assumes "schedule w = []" "to_settle env H h bid j (db w)"
  shows "\<exists>n \<le> 5. \<exists>w'. run_state (worker_rounds env pv bid n) w = ((), w') \<and>
    settled env bid j (db w) (db w') \<and> holds_inv (filter (\<lambda>x. x \<noteq> h) H) (db w')"
proof -
  have "0 \<le> bj_retry_count j" using assms(2) by (simp add: to_settle_def)
  then have "nat (5 - bj_retry_count j) \<le> 5" by (simp add: nat_le_iff)
  from rounds_end [OF assms this, of pv] show ?thesis by (simp add: ended_def)
qed

definition settling_world :: "batch_db shared" where
  "settling_world = batch_world (batch_demo [settling_job] [hold_row ''batch_image_hold:b''] 6 4) []"

lemma settling_ready: "to_settle demo_env [(''b'', 7, 1, 4)] (''b'', 7, 1, 4) ''b'' settling_job (db settling_world)"
proof -
  have "holds_inv [(''b'', 7, 1, 4)] (db settling_world)"
    using demo_clean clean_request_ids(1-3) [OF demo_clean]
    by (auto simp: holds_inv_def users_ok_def user_ok_def settling_world_def batch_demo_defs frozen_def held_def
        user_ids_def claims_def claim_list_def row_claim_def scaled_def split: if_splits)
  then show ?thesis
    by (simp add: to_settle_def settling_world_def batch_demo_defs job_of_def hold_for_def scanBatchImageJob_def
        job_hold_amount_def demo_env_def demo_ext_def)
qed

theorem settlement_ends_witness:
  "\<forall>pv. \<exists>n \<le> 5. \<exists>w'. run_state (worker_rounds demo_env pv ''b'' n) settling_world = ((), w') \<and>
     (b_users (db w') 1 = Some \<lparr>bu_balance = 8, bu_frozen = 0\<rparr> \<or> b_users (db w') 1 = Some \<lparr>bu_balance = 10, bu_frozen = 0\<rparr>)"
proof
  fix pv
  have "schedule settling_world = []" by (simp add: settling_world_def batch_world_def)
  from settlement_ends [OF this settling_ready, of pv] obtain n w' where
    n: "n \<le> 5" "run_state (worker_rounds demo_env pv ''b'' n) settling_world = ((), w')" and
    s: "settled demo_env ''b'' settling_job (db settling_world) (db w')" by blast
  have "column 8 8 = 8" "column 8 10 = 10" by (simp_all add: column_id scaled_def)
  then have "b_users (db w') 1 = Some \<lparr>bu_balance = 8, bu_frozen = 0\<rparr> \<or>
      b_users (db w') 1 = Some \<lparr>bu_balance = 10, bu_frozen = 0\<rparr>"
    using s
    by (auto simp: settled_def settle_hold_def settling_world_def batch_demo_defs scanBatchImageJob_def
        job_hold_amount_def settlementUnitPrice_def demo_env_def demo_ext_def)
  with n show "\<exists>n \<le> 5. \<exists>w'. run_state (worker_rounds demo_env pv ''b'' n) settling_world = ((), w') \<and>
     (b_users (db w') 1 = Some \<lparr>bu_balance = 8, bu_frozen = 0\<rparr> \<or>
      b_users (db w') 1 = Some \<lparr>bu_balance = 10, bu_frozen = 0\<rparr>)" by blast
qed

end
