(* ===== verification/Batch_Reconciliation.thy ===== *)
theory Batch_Reconciliation
  imports Batch_Index
begin

text \<open>
  The items of a job after its output was read: every id that was submitted has one item, and the counts
  by which the job is settled add up to the number of ids.
\<close>

lemma scan_lines_ids:
  assumes "scan_lines decode expected n seen ls = Inr ps"
  shows "distinct (map pr_custom_id ps) \<and> pr_custom_id ` set ps \<inter> set seen = {} \<and>
    (expected \<noteq> [] \<longrightarrow> pr_custom_id ` set ps \<subseteq> set expected)"
  using assms
proof (induction ls arbitrary: n seen ps)
  case (Cons l ls)
  show ?case
  proof (cases "TrimSpace l = []")
    case False
    with Cons.prems obtain p where p: "ParseBatchImageResultLine decode (TrimSpace l) (n + 1) = Inr p"
      by (auto split: sum.splits)
    show ?thesis
    proof (cases "expected \<noteq> [] \<and> pr_custom_id p \<notin> set expected")
      case True
      with Cons False p show ?thesis by simp
    next
      case known: False
      with Cons.prems False p obtain qs where "pr_custom_id p \<notin> set seen"
        "scan_lines decode expected (n + 1) (pr_custom_id p # seen) ls = Inr qs" "ps = p # qs"
        by (auto split: if_splits sum.splits)
      with Cons.IH [OF this(2)] known show ?thesis by auto
    qed
  qed (use Cons in simp)
qed simp

lemma parse_line: "ParseBatchImageResultLine decode l n = Inr p \<Longrightarrow> pr_line p = n"
  by (auto simp: ParseBatchImageResultLine_def Let_def split: option.splits if_splits prod.splits)

lemma scan_lines_source:
  assumes "scan_lines decode expected n seen ls = Inr ps" "p \<in> set ps"
  shows "\<exists>l \<in> set ls. ParseBatchImageResultLine decode (TrimSpace l) (pr_line p) = Inr p"
  using assms
proof (induction ls arbitrary: n seen ps)
  case (Cons l ls)
  from Cons.prems consider seen' ps' where "scan_lines decode expected (n + 1) seen' ls = Inr ps'" "p \<in> set ps'"
    | "ParseBatchImageResultLine decode (TrimSpace l) (n + 1) = Inr p"
    by (auto split: if_splits sum.splits)
  then show ?case
  proof cases
    case 1
    from Cons.IH [OF this] show ?thesis by auto
  next
    case 2
    with parse_line [OF this] show ?thesis by auto
  qed
qed simp

text \<open>
  C16. Items of a finished job. When the ids that were submitted are known, reading an output gives every
  one of them exactly one item and no other items; the numbers of successes and failures add up to the
  number of ids; and an item counts as a success only if a line of the output with its id carries an
  image.
\<close>

theorem index_covers_items:
  assumes "index_output decode bid expected ls broken = Inr r" "expected \<noteq> []"
  shows "distinct (map bi_custom_id (ir_items r)) \<and> bi_custom_id ` set (ir_items r) = set expected \<and>
    (\<forall>i \<in> set (ir_items r). bi_job_id i = bid) \<and>
    ir_success r + ir_fail r = card (set expected) \<and>
    ir_success r = length (filter (\<lambda>i. bi_status i = ItemSuccess) (ir_items r)) \<and>
    (\<forall>i \<in> set (ir_items r). bi_status i = ItemSuccess \<longrightarrow>
       (\<exists>l \<in> set ls. \<exists>n p. ParseBatchImageResultLine decode (TrimSpace l) n = Inr p \<and>
          pr_custom_id p = bi_custom_id i \<and> pr_image_count p > 0))"
proof -
  from assms(1) obtain ps where ps: "scan_lines decode expected 0 [] ls = Inr ps"
    by (auto simp: index_output_def split: sum.splits)
  define missing where "missing = sort (filter (\<lambda>c. c \<notin> pr_custom_id ` set ps) (remdups expected))"
  have r: "r = \<lparr>ir_items = map (parsed_item bid) ps @ map (missing_item bid) missing,
      ir_success = length (filter pr_succeeded ps),
      ir_fail = length (filter (\<lambda>p. \<not> pr_succeeded p) ps) + length missing,
      ir_reconciled = (missing \<noteq> [] \<or> (\<exists>l \<in> set ls. unknown_line decode expected l))\<rparr>"
    using assms(1) ps unfolding index_output_def missing_def by (auto simp: Let_def split: if_splits)
  have ids: "map bi_custom_id (ir_items r) = map pr_custom_id ps @ missing"
    by (simp add: r parsed_item_def missing_item_def comp_def)
  note s = scan_lines_ids [OF ps]
  have d: "distinct (map bi_custom_id (ir_items r))"
    unfolding ids using s by (auto simp: missing_def)
  have e: "set (map bi_custom_id (ir_items r)) = set expected"
    unfolding ids using s assms(2) by (auto simp: missing_def)
  have "ir_success r + ir_fail r = length (map bi_custom_id (ir_items r))"
    unfolding ids by (simp add: r sum_length_filter_compl)
  also have "\<dots> = card (set expected)" using distinct_card [OF d] e by simp
  finally have c: "ir_success r + ir_fail r = card (set expected)" .
  have n: "ir_success r = length (filter (\<lambda>i. bi_status i = ItemSuccess) (ir_items r))"
    by (simp add: r filter_map comp_def parsed_item_def missing_item_def)
  have image: "pr_image_count p > 0"
    if "ParseBatchImageResultLine decode l k = Inr p" "pr_succeeded p" for l k p
    using that
    by (auto simp: ParseBatchImageResultLine_def Let_def split: option.splits if_splits prod.splits)
  have src: "\<exists>l \<in> set ls. \<exists>n q. ParseBatchImageResultLine decode (TrimSpace l) n = Inr q \<and>
      pr_custom_id q = bi_custom_id i \<and> pr_image_count q > 0"
    if "i \<in> set (ir_items r)" "bi_status i = ItemSuccess" for i
  proof -
    from that obtain p where p: "p \<in> set ps" "i = parsed_item bid p" "pr_succeeded p"
      by (auto simp: r parsed_item_def missing_item_def split: if_splits)
    from scan_lines_source [OF ps p(1)] obtain l where l: "l \<in> set ls"
      "ParseBatchImageResultLine decode (TrimSpace l) (pr_line p) = Inr p" by blast
    with image [OF l(2) p(3)] p(2) show ?thesis by (auto simp: parsed_item_def)
  qed
  have j: "\<forall>i \<in> set (ir_items r). bi_job_id i = bid" by (auto simp: r parsed_item_def missing_item_def)
  show ?thesis using d e [unfolded set_map] c n src j by blast
qed

definition demo_decode :: "string \<Rightarrow> json option" where
  "demo_decode line =
     (if line = ''A'' then Some (JObject [(''key'', JString ''a''), (''candidates'', JArray [JObject
          [(''content'', JObject [(''parts'', JArray [JObject [(''inlineData'', JObject
             [(''mimeType'', JString ''image/png''), (''data'', JString ''x'')])]])])]])])
      else if line = ''X'' then Some (JObject [(''key'', JString ''x'')])
      else None)"

theorem index_covers_items_witness:
  "\<exists>r. index_output demo_decode ''b'' [''c'', ''a''] [''A'', '' '', ''X''] False = Inr r \<and>
     map (\<lambda>i. (bi_custom_id i, bi_status i)) (ir_items r) = [(''a'', ItemSuccess), (''c'', ItemFailed)] \<and>
     ir_success r + ir_fail r = card (set [''c'', ''a''])"
proof -
  let ?r = "\<lparr>ir_items = [parsed_item ''b'' \<lparr>pr_custom_id = ''a'', pr_succeeded = True, pr_mime_type = ''image/png'',
        pr_file_extension = ''png'', pr_image_count = 1, pr_error_code = [], pr_line = 1\<rparr>,
      missing_item ''b'' ''c''], ir_success = 1, ir_fail = 1,
      ir_reconciled = True\<rparr>"
  have "index_output demo_decode ''b'' [''c'', ''a''] [''A'', '' '', ''X''] False = Inr ?r"
    by code_simp
  with index_covers_items [OF this] show ?thesis by (simp add: parsed_item_def missing_item_def)
qed

end
