(* ===== verification/Batch_Queue.thy ===== *)
theory Batch_Queue
  imports Batch_Types Redis_Store
begin

text \<open>
  The queue of batch image jobs in Redis (\<open>repository/batch_image_queue.go\<close>) and the worker that takes jobs
  from it (\<open>service/batch_image_worker.go\<close>). A job waits in the list \<open>ready\<close> or, with the time from which
  it may run, in the sorted set \<open>delayed\<close>; the jobs that workers have taken are in the sorted set
  \<open>active\<close>, with the time of the last heartbeat. A key per job keeps it from being queued twice, another
  one is the lock of the worker. A script or a \<open>MULTI\<close> block is one step of the server. Times are
  nanoseconds, scores and the server's clock milliseconds.
\<close>

section \<open>The server\<close>

text \<open>
  Lists with their head first, sorted sets, and strings with the millisecond after which they are gone. The
  server's clock does not go back.
\<close>

record queue_redis =
  list_at :: "string \<Rightarrow> string list"
  zset_at :: "string \<Rightarrow> zset"
  value_at :: "string \<Rightarrow> (string \<times> int) option"
  server_ms :: int

definition at_ms :: "int \<Rightarrow> queue_redis \<Rightarrow> queue_redis" where
  "at_ms now d = d\<lparr>server_ms := max (now div Millisecond) (server_ms d)\<rparr>"

definition GET_value :: "string \<Rightarrow> queue_redis \<Rightarrow> string option" where
  "GET_value k d =
     (case value_at d k of None \<Rightarrow> None | Some (v, e) \<Rightarrow> if e < server_ms d then None else Some v)"

definition SET_value :: "string \<Rightarrow> string \<Rightarrow> int \<Rightarrow> queue_redis \<Rightarrow> queue_redis" where
  "SET_value k v ms d = d\<lparr>value_at := (value_at d)(k \<mapsto> (v, server_ms d + ms))\<rparr>"

definition DEL_value :: "string \<Rightarrow> queue_redis \<Rightarrow> queue_redis" where
  "DEL_value k d = d\<lparr>value_at := (value_at d)(k := None)\<rparr>"

definition LPUSH :: "string \<Rightarrow> string \<Rightarrow> queue_redis \<Rightarrow> queue_redis" where
  "LPUSH k x d = d\<lparr>list_at := (list_at d)(k := x # list_at d k)\<rparr>"

definition zset_add :: "string \<Rightarrow> int \<Rightarrow> string \<Rightarrow> queue_redis \<Rightarrow> queue_redis" where
  "zset_add k s m d = d\<lparr>zset_at := (zset_at d)(k := AList.update m s (zset_at d k))\<rparr>"

definition zset_rem :: "string \<Rightarrow> string \<Rightarrow> queue_redis \<Rightarrow> queue_redis" where
  "zset_rem k m d = d\<lparr>zset_at := (zset_at d)(k := AList.delete m (zset_at d k))\<rparr>"

text \<open>\<open>ZRANGEBYSCORE \<dots> -inf hi LIMIT 0 n\<close>\<close>

definition zset_due :: "int \<Rightarrow> nat \<Rightarrow> zset \<Rightarrow> string list" where
  "zset_due hi n z = take n (map fst (sort_key (\<lambda>(m, s). (s, m)) (filter (\<lambda>(m, s). s \<le> hi) z)))"

section \<open>Scripts\<close>

text \<open>\<open>batchImageMoveDueDelayedScript\<close> and \<open>batchImageRecoverStaleActiveScript\<close>, which have one text.\<close>

fun move_members :: "string \<Rightarrow> string \<Rightarrow> string list \<Rightarrow> queue_redis \<Rightarrow> queue_redis" where
  "move_members src dst [] d = d"
| "move_members src dst (m # ms) d = move_members src dst ms (LPUSH dst m (zset_rem src m d))"

definition moveDueScript :: "string \<Rightarrow> string \<Rightarrow> int \<Rightarrow> nat \<Rightarrow> queue_redis \<Rightarrow> nat \<times> queue_redis" where
  "moveDueScript src dst hi n d =
     (let ms = zset_due hi n (zset_at d src) in (length ms, move_members src dst ms d))"

definition releaseLockScript :: "string \<Rightarrow> string \<Rightarrow> queue_redis \<Rightarrow> bool \<times> queue_redis" where
  "releaseLockScript k token d = (if GET_value k d = Some token then (True, DEL_value k d) else (False, d))"

text \<open>\<open>PEXPIRE\<close> with no time left deletes the key.\<close>

definition refreshLockScript :: "string \<Rightarrow> string \<Rightarrow> int \<Rightarrow> queue_redis \<Rightarrow> bool \<times> queue_redis" where
  "refreshLockScript k token ms d =
     (if GET_value k d = Some token then (True, if ms \<le> 0 then DEL_value k d else SET_value k token ms d)
      else (False, d))"

definition reserveScript :: "string \<Rightarrow> string \<Rightarrow> int \<Rightarrow> queue_redis \<Rightarrow> string option \<times> queue_redis" where
  "reserveScript ready active now d =
     (case rev (list_at d ready) of
        [] \<Rightarrow> (None, d)
      | m # ms \<Rightarrow> (Some m, zset_add active now m (d\<lparr>list_at := (list_at d)(ready := rev ms)\<rparr>)))"

definition set_if_absent :: "string \<Rightarrow> string \<Rightarrow> int \<Rightarrow> queue_redis \<Rightarrow> bool \<times> queue_redis" where
  "set_if_absent k v ms d = (if GET_value k d = None then (True, SET_value k v ms d) else (False, d))"

text \<open>\<open>SET \<dots> NX PX\<close> wants a positive number of milliseconds; otherwise the script ends with an error.\<close>

definition enqueueScript :: "string \<Rightarrow> string \<Rightarrow> string \<Rightarrow> int \<Rightarrow> queue_redis \<Rightarrow> bool option \<times> queue_redis" where
  "enqueueScript inflight ready m ms d =
     (if ms \<le> 0 then (None, d)
      else case set_if_absent inflight m ms d of
        (True, d') \<Rightarrow> (Some True, LPUSH ready m d') | (False, d') \<Rightarrow> (Some False, d'))"

section \<open>The queue\<close>

record queue_options =
  qo_ready :: string
  qo_delayed :: string
  qo_active :: string
  qo_inflight_prefix :: string
  qo_lock_prefix :: string
  qo_inflight_ttl :: int
  qo_lock_ttl :: int

definition normalizeBatchImageQueueOptions :: "queue_options \<Rightarrow> queue_options" where
  "normalizeBatchImageQueueOptions q =
     \<lparr>qo_ready = (if qo_ready q = [] then ''batch_image:queue:ready'' else qo_ready q),
      qo_delayed = (if qo_delayed q = [] then ''batch_image:queue:delayed'' else qo_delayed q),
      qo_active = (if qo_active q = [] then ''batch_image:queue:active'' else qo_active q),
      qo_inflight_prefix =
        (if qo_inflight_prefix q = [] then ''batch_image:queue:inflight:'' else qo_inflight_prefix q),
      qo_lock_prefix = (if qo_lock_prefix q = [] then ''batch_image:queue:lock:'' else qo_lock_prefix q),
      qo_inflight_ttl = (if qo_inflight_ttl q \<le> 0 then 7 * 24 * Hour else qo_inflight_ttl q),
      qo_lock_ttl = (if qo_lock_ttl q \<le> 0 then 5 * Minute else qo_lock_ttl q)\<rparr>"

definition IsValidBatchImageID :: "string \<Rightarrow> bool" where
  "IsValidBatchImageID bid \<longleftrightarrow> has_prefix bid ''imgbatch_'' \<and> length bid > 9"

definition inflightKey :: "queue_options \<Rightarrow> string \<Rightarrow> string" where
  "inflightKey q bid = qo_inflight_prefix q @ bid"

definition lockKey :: "queue_options \<Rightarrow> string \<Rightarrow> string" where
  "lockKey q bid = qo_lock_prefix q @ bid"

datatype queue_error = QueueEmpty | AlreadyQueued | InvalidQueuePayload | RedisFailed

type_synonym ('z, 'a) queue_prog = "((queue_redis, 'z) shared_scheme, queue_error + 'a) state"

definition UnixMilli :: "int \<Rightarrow> int" where
  "UnixMilli t = t div Millisecond"

definition Milliseconds :: "int \<Rightarrow> int" where
  "Milliseconds d = (if d < 0 then - (- d div Millisecond) else d div Millisecond)"

text \<open>A script or a \<open>MULTI\<close> block, and what is done with its answer.\<close>

definition queue_step ::
  "(queue_redis \<Rightarrow> 'a \<times> queue_redis) \<Rightarrow> ('a \<Rightarrow> ('z, 'b) queue_prog) \<Rightarrow> ('z, 'b) queue_prog" where
  "queue_step script f = do {
     r \<leftarrow> call (\<lambda>now d. script (at_ms now d));
     (case r of Inl _ \<Rightarrow> State_Monad.return (Inl RedisFailed) | Inr a \<Rightarrow> f a)}"

definition valid_id :: "string \<Rightarrow> ('z, 'a) queue_prog \<Rightarrow> ('z, 'a) queue_prog" where
  "valid_id bid m = (if IsValidBatchImageID bid then m else State_Monad.return (Inl InvalidQueuePayload))"

definition Enqueue :: "queue_options \<Rightarrow> string \<Rightarrow> ('z, unit) queue_prog" where
  "Enqueue q bid = valid_id bid
     (queue_step (enqueueScript (inflightKey q bid) (qo_ready q) bid (Milliseconds (qo_inflight_ttl q)))
        (\<lambda>applied. State_Monad.return (case applied of
           None \<Rightarrow> Inl RedisFailed | Some b \<Rightarrow> if b then Inr () else Inl AlreadyQueued)))"

text \<open>The failure of the removal of an invalid entry is passed over.\<close>

definition reserveOnce :: "queue_options \<Rightarrow> ('z, string) queue_prog" where
  "reserveOnce q = do {
     now \<leftarrow> time_now;
     queue_step (reserveScript (qo_ready q) (qo_active q) (UnixMilli now))
       (\<lambda>r. case r of
          None \<Rightarrow> State_Monad.return (Inl QueueEmpty)
        | Some bid \<Rightarrow>
            if IsValidBatchImageID bid then State_Monad.return (Inr bid)
            else if bid = [] then State_Monad.return (Inl InvalidQueuePayload)
            else do {
              _ \<leftarrow> call (\<lambda>now d. ((), zset_rem (qo_active q) bid (at_ms now d)));
              State_Monad.return (Inl InvalidQueuePayload)})}"

text \<open>The list is asked again while it is empty, as often as the timeout allows.\<close>

fun Reserve :: "queue_options \<Rightarrow> nat \<Rightarrow> ('z, string) queue_prog" where
  "Reserve q polls = do {
     r \<leftarrow> reserveOnce q;
     (case r of
        Inr bid \<Rightarrow> State_Monad.return (Inr bid)
      | Inl e \<Rightarrow>
          if e \<noteq> QueueEmpty then State_Monad.return (Inl e)
          else case polls of 0 \<Rightarrow> State_Monad.return (Inl QueueEmpty) | Suc n \<Rightarrow> Reserve q n)}"

declare Reserve.simps [simp del]

definition RequeueAfter :: "queue_options \<Rightarrow> string \<Rightarrow> int \<Rightarrow> ('z, unit) queue_prog" where
  "RequeueAfter q bid delay = valid_id bid (do {
     now \<leftarrow> time_now;
     queue_step (\<lambda>d. ((),
         let d' = zset_rem (qo_delayed q) bid (zset_rem (qo_active q) bid d) in
         if delay \<le> 0 then LPUSH (qo_ready q) bid d'
         else zset_add (qo_delayed q) (UnixMilli (now + delay)) bid d'))
       (\<lambda>_. State_Monad.return (Inr ()))})"

definition Ack :: "queue_options \<Rightarrow> string \<Rightarrow> ('z, unit) queue_prog" where
  "Ack q bid = valid_id bid
     (queue_step (\<lambda>d. ((),
         DEL_value (inflightKey q bid) (zset_rem (qo_delayed q) bid (zset_rem (qo_active q) bid d))))
       (\<lambda>_. State_Monad.return (Inr ())))"

text \<open>\<open>ZADD XX\<close>: only a member that is there gets the new score.\<close>

definition Heartbeat :: "queue_options \<Rightarrow> string \<Rightarrow> ('z, unit) queue_prog" where
  "Heartbeat q bid = valid_id bid (do {
     now \<leftarrow> time_now;
     queue_step (\<lambda>d. ((),
         if bid \<in> fst ` set (zset_at d (qo_active q)) then zset_add (qo_active q) (UnixMilli now) bid d else d))
       (\<lambda>_. State_Monad.return (Inr ()))})"

definition MoveDueDelayedToReady :: "queue_options \<Rightarrow> int \<Rightarrow> ('z, nat) queue_prog" where
  "MoveDueDelayedToReady q limit = do {
     now \<leftarrow> time_now;
     queue_step (moveDueScript (qo_delayed q) (qo_ready q) (UnixMilli now) (nat (if limit \<le> 0 then 100 else limit)))
       (\<lambda>n. State_Monad.return (Inr n))}"

definition RecoverStaleActive :: "queue_options \<Rightarrow> int \<Rightarrow> int \<Rightarrow> ('z, nat) queue_prog" where
  "RecoverStaleActive q staleAfter limit =
     (if staleAfter \<le> 0 then State_Monad.return (Inl InvalidQueuePayload)
      else do {
        now \<leftarrow> time_now;
        queue_step (moveDueScript (qo_active q) (qo_ready q) (UnixMilli (now - staleAfter))
            (nat (if limit \<le> 0 then 100 else limit)))
          (\<lambda>n. State_Monad.return (Inr n))})"

section \<open>The lock of a job\<close>

text \<open>The client rounds a time to live below a millisecond up. The random token is an argument.\<close>

definition lock_ms :: "queue_options \<Rightarrow> int \<Rightarrow> int" where
  "lock_ms q ttl = max 1 (Milliseconds (if ttl \<le> 0 then qo_lock_ttl q else ttl))"

definition TryAcquireJobLock :: "queue_options \<Rightarrow> string \<Rightarrow> int \<Rightarrow> string \<Rightarrow> ('z, bool) queue_prog" where
  "TryAcquireJobLock q bid ttl token = valid_id bid
     (queue_step (set_if_absent (lockKey q bid) token (lock_ms q ttl))
       (\<lambda>ok. State_Monad.return (Inr ok)))"

definition lock_Release :: "queue_options \<Rightarrow> string \<Rightarrow> string \<Rightarrow> ('z, unit) queue_prog" where
  "lock_Release q bid token =
     (if token = [] then State_Monad.return (Inr ())
      else queue_step (releaseLockScript (lockKey q bid) token) (\<lambda>_. State_Monad.return (Inr ())))"

definition lock_Refresh :: "queue_options \<Rightarrow> string \<Rightarrow> string \<Rightarrow> int \<Rightarrow> ('z, unit) queue_prog" where
  "lock_Refresh q bid token ttl =
     (if token = [] then State_Monad.return (Inr ())
      else queue_step (refreshLockScript (lockKey q bid) token (Milliseconds (if ttl \<le> 0 then 5 * Minute else ttl)))
             (\<lambda>_. State_Monad.return (Inr ())))"

section \<open>The worker\<close>

record worker_options =
  wo_reserve_timeout :: int
  wo_lock_ttl :: int
  wo_conflict_delay :: int
  wo_requeue_delay :: int
  wo_error_delay :: int
  wo_error_backoff :: int
  wo_poll_interval :: int
  wo_recovery_interval :: int
  wo_stale_after :: int
  wo_move_limit :: int
  wo_recover_limit :: int

definition normalizeBatchImageWorkerOptions :: "worker_options \<Rightarrow> worker_options" where
  "normalizeBatchImageWorkerOptions w =
     \<lparr>wo_reserve_timeout = (if wo_reserve_timeout w \<le> 0 then 5 * Second else wo_reserve_timeout w),
      wo_lock_ttl = (if wo_lock_ttl w \<le> 0 then 5 * Minute else wo_lock_ttl w),
      wo_conflict_delay = (if wo_conflict_delay w \<le> 0 then 5 * Second else wo_conflict_delay w),
      wo_requeue_delay = (if wo_requeue_delay w \<le> 0 then 30 * Second else wo_requeue_delay w),
      wo_error_delay = (if wo_error_delay w \<le> 0 then Minute else wo_error_delay w),
      wo_error_backoff = (if wo_error_backoff w \<le> 0 then Second else wo_error_backoff w),
      wo_poll_interval = (if wo_poll_interval w \<le> 0 then 5 * Second else wo_poll_interval w),
      wo_recovery_interval = (if wo_recovery_interval w \<le> 0 then 5 * Minute else wo_recovery_interval w),
      wo_stale_after = (if wo_stale_after w \<le> 0 then 10 * Minute else wo_stale_after w),
      wo_move_limit = (if wo_move_limit w \<le> 0 then 100 else wo_move_limit w),
      wo_recover_limit = (if wo_recover_limit w \<le> 0 then 100 else wo_recover_limit w)\<rparr>"

definition heartbeatInterval :: "worker_options \<Rightarrow> int" where
  "heartbeatInterval w =
     (let interval = min (wo_lock_ttl w) (wo_stale_after w) div 3 in if interval < Second then Second else interval)"

text \<open>What the processor answers: an error, that the job is done, or the delay until the next round.\<close>

record process_answer =
  pa_requeue_after :: int
  pa_terminal :: bool

fun job_heartbeats ::
  "queue_options \<Rightarrow> worker_options \<Rightarrow> string \<Rightarrow> string \<Rightarrow> nat \<Rightarrow> ((queue_redis, 'z) shared_scheme, unit) state" where
  "job_heartbeats q w bid token 0 = State_Monad.return ()"
| "job_heartbeats q w bid token (Suc n) = do {
     _ \<leftarrow> Heartbeat q bid;
     _ \<leftarrow> lock_Refresh q bid token (wo_lock_ttl w);
     job_heartbeats q w bid token n}"

text \<open>What follows the processing of the job.\<close>

definition job_processed ::
  "queue_options \<Rightarrow> worker_options \<Rightarrow> string \<Rightarrow> unit + process_answer \<Rightarrow> ('z, unit) queue_prog" where
  "job_processed q w bid answer =
     (case answer of
        Inl _ \<Rightarrow> RequeueAfter q bid (wo_error_delay w)
      | Inr a \<Rightarrow>
          if pa_terminal a then Ack q bid
          else RequeueAfter q bid (if pa_requeue_after a \<le> 0 then wo_requeue_delay w else pa_requeue_after a))"

text \<open>
  One turn of the worker. The processor is a program of its own; \<open>beats\<close> is the number of heartbeats while
  it runs, which come before it here. The lock is given back at the end.
\<close>

definition RunOnce ::
  "queue_options \<Rightarrow> worker_options \<Rightarrow> nat \<Rightarrow> string \<Rightarrow> nat \<Rightarrow>
   (string \<Rightarrow> ((queue_redis, 'z) shared_scheme, unit + process_answer) state) \<Rightarrow> ('z, unit) queue_prog" where
  "RunOnce q w polls token beats process = do {
     r \<leftarrow> Reserve q polls;
     (case r of
        Inl e \<Rightarrow> State_Monad.return (if e = QueueEmpty then Inr () else Inl e)
      | Inr bid \<Rightarrow> do {
          l \<leftarrow> TryAcquireJobLock q bid (wo_lock_ttl w) token;
          (case l of
             Inl e \<Rightarrow> do {
               x \<leftarrow> RequeueAfter q bid (wo_conflict_delay w);
               State_Monad.return (case x of Inl e' \<Rightarrow> Inl e' | Inr _ \<Rightarrow> Inl e)}
           | Inr ok \<Rightarrow>
               if \<not> ok then RequeueAfter q bid (wo_conflict_delay w)
               else do {
                 _ \<leftarrow> job_heartbeats q w bid token beats;
                 answer \<leftarrow> process bid;
                 x \<leftarrow> job_processed q w bid answer;
                 _ \<leftarrow> lock_Release q bid token;
                 State_Monad.return x})})}"

definition MoveDueDelayedOnce :: "queue_options \<Rightarrow> worker_options \<Rightarrow> ('z, nat) queue_prog" where
  "MoveDueDelayedOnce q w = MoveDueDelayedToReady q (wo_move_limit w)"

definition RecoverStaleActiveOnce :: "queue_options \<Rightarrow> worker_options \<Rightarrow> ('z, nat) queue_prog" where
  "RecoverStaleActiveOnce q w = RecoverStaleActive q (wo_stale_after w) (wo_recover_limit w)"

end
