(* ===== verification/Batch_Queue_Safety.thy ===== *)
theory Batch_Queue_Safety
  imports Batch_Queue
begin

text \<open>
  Two promises of the queue, each a relation that every operation respects, whatever is interleaved or
  lost: a job that cannot be queued again is in the queue, and the lock of a job stays with its owner until
  its time is over. The locale \<open>guarantee\<close> is interpreted for both.
\<close>

section \<open>Requests\<close>

datatype queue_op =
    EnqueueOp string
  | ReserveOp nat
  | RequeueOp string int
  | AckOp string
  | HeartbeatOp string
  | MoveOp int
  | RecoverOp int int
  | LockOp string int string
  | ReleaseLockOp string string
  | RefreshLockOp string string int
  | WorkOp worker_options nat string nat "string \<Rightarrow> unit + process_answer"

datatype queue_reply = Done | Taken string | Moved nat | Locked | NotLocked | Failed queue_error

fun queue_perform :: "queue_options \<Rightarrow> queue_op \<Rightarrow> ((queue_redis, 'z) shared_scheme, queue_reply) state" where
  "queue_perform q (EnqueueOp bid) =
     do { r \<leftarrow> Enqueue q bid; State_Monad.return (case r of Inl e \<Rightarrow> Failed e | Inr _ \<Rightarrow> Done) }"
| "queue_perform q (ReserveOp n) =
     do { r \<leftarrow> Reserve q n; State_Monad.return (case r of Inl e \<Rightarrow> Failed e | Inr bid \<Rightarrow> Taken bid) }"
| "queue_perform q (RequeueOp bid delay) =
     do { r \<leftarrow> RequeueAfter q bid delay; State_Monad.return (case r of Inl e \<Rightarrow> Failed e | Inr _ \<Rightarrow> Done) }"
| "queue_perform q (AckOp bid) =
     do { r \<leftarrow> Ack q bid; State_Monad.return (case r of Inl e \<Rightarrow> Failed e | Inr _ \<Rightarrow> Done) }"
| "queue_perform q (HeartbeatOp bid) =
     do { r \<leftarrow> Heartbeat q bid; State_Monad.return (case r of Inl e \<Rightarrow> Failed e | Inr _ \<Rightarrow> Done) }"
| "queue_perform q (MoveOp limit) =
     do { r \<leftarrow> MoveDueDelayedToReady q limit; State_Monad.return (case r of Inl e \<Rightarrow> Failed e | Inr n \<Rightarrow> Moved n) }"
| "queue_perform q (RecoverOp stale limit) =
     do { r \<leftarrow> RecoverStaleActive q stale limit; State_Monad.return (case r of Inl e \<Rightarrow> Failed e | Inr n \<Rightarrow> Moved n) }"
| "queue_perform q (LockOp bid ttl token) =
     do { r \<leftarrow> TryAcquireJobLock q bid ttl token;
          State_Monad.return (case r of Inl e \<Rightarrow> Failed e | Inr b \<Rightarrow> (if b then Locked else NotLocked)) }"
| "queue_perform q (ReleaseLockOp bid token) =
     do { r \<leftarrow> lock_Release q bid token; State_Monad.return (case r of Inl e \<Rightarrow> Failed e | Inr _ \<Rightarrow> Done) }"
| "queue_perform q (RefreshLockOp bid token ttl) =
     do { r \<leftarrow> lock_Refresh q bid token ttl; State_Monad.return (case r of Inl e \<Rightarrow> Failed e | Inr _ \<Rightarrow> Done) }"
| "queue_perform q (WorkOp w polls token beats answers) =
     do { r \<leftarrow> RunOnce q w polls token beats (\<lambda>bid. State_Monad.return (answers bid));
          State_Monad.return (case r of Inl e \<Rightarrow> Failed e | Inr _ \<Rightarrow> Done) }"

fun queue_history ::
  "queue_options \<Rightarrow> queue_op list \<Rightarrow> ((queue_redis, 'z) shared_scheme, queue_reply list) state" where
  "queue_history q [] = State_Monad.return []"
| "queue_history q (x # xs) =
     do { r \<leftarrow> queue_perform q x; rs \<leftarrow> queue_history q xs; State_Monad.return (r # rs) }"

text \<open>The keys of the queue are different ones, as the default ones are.\<close>

definition queue_keys_ok :: "queue_options \<Rightarrow> bool" where
  "queue_keys_ok q \<longleftrightarrow>
     qo_delayed q \<noteq> qo_active q \<and> (\<forall>a b. inflightKey q a \<noteq> lockKey q b) \<and> 0 \<le> qo_inflight_ttl q"

definition default_queue :: queue_options where
  "default_queue = normalizeBatchImageQueueOptions
     \<lparr>qo_ready = [], qo_delayed = [], qo_active = [], qo_inflight_prefix = [], qo_lock_prefix = [],
      qo_inflight_ttl = 0, qo_lock_ttl = 0\<rparr>"

lemma default_queue_ok: "queue_keys_ok default_queue"
  by (simp add: queue_keys_ok_def default_queue_def normalizeBatchImageQueueOptions_def inflightKey_def lockKey_def)

section \<open>What every operation respects\<close>

text \<open>
  A relation that the scripts respect is respected by the operations, the turns of the worker and every
  history of them. \<open>token_ok\<close> says with which tokens the lock of a job may be renewed or given back.
\<close>

definition safe :: "(queue_redis \<Rightarrow> queue_redis \<Rightarrow> bool) \<Rightarrow> (queue_redis \<Rightarrow> 'a \<times> queue_redis) \<Rightarrow> bool" where
  "safe G script \<longleftrightarrow> (\<forall>d. G d (snd (script d)))"

lemma safeI: "(\<And>d. G d (snd (script d))) \<Longrightarrow> safe G script"
  by (simp add: safe_def)

fun tokens_ok :: "(string \<Rightarrow> string \<Rightarrow> bool) \<Rightarrow> queue_op \<Rightarrow> bool" where
  "tokens_ok ok (ReleaseLockOp bid token) = ok bid token"
| "tokens_ok ok (RefreshLockOp bid token ttl) = ok bid token"
| "tokens_ok ok (WorkOp w polls token beats answers) = (\<forall>bid. ok bid token)"
| "tokens_ok ok _ = True"

lemma tokens_ok_all: "tokens_ok (\<lambda>_ _. True) x"
  by (cases x) simp_all

abbreviation keeps :: "(queue_redis \<Rightarrow> queue_redis \<Rightarrow> bool) \<Rightarrow> ((queue_redis, 'z) shared_scheme, 'a) state \<Rightarrow> bool" where
  "keeps G m \<equiv> obeys G (\<lambda>_. True) m (\<lambda>_ _. True)"

locale queue_promise = guarantee G for G :: "queue_redis \<Rightarrow> queue_redis \<Rightarrow> bool" +
  fixes q :: queue_options and token_ok :: "string \<Rightarrow> string \<Rightarrow> bool"
  assumes clock: "G d (at_ms now d)"
    and enqueue: "safe G (enqueueScript (inflightKey q bid) (qo_ready q) bid ms)"
    and reserve: "safe G (reserveScript (qo_ready q) (qo_active q) now)"
    and drop: "\<not> IsValidBatchImageID bid \<Longrightarrow> safe G (\<lambda>d. ((), zset_rem (qo_active q) bid d))"
    and requeue: "safe G (\<lambda>d. ((),
      let d' = zset_rem (qo_delayed q) bid (zset_rem (qo_active q) bid d) in
      if delay \<le> (0::int) then LPUSH (qo_ready q) bid d' else zset_add (qo_delayed q) t bid d'))"
    and ack: "safe G (\<lambda>d. ((),
      DEL_value (inflightKey q bid) (zset_rem (qo_delayed q) bid (zset_rem (qo_active q) bid d))))"
    and heartbeat: "safe G (\<lambda>d. ((),
      if bid \<in> fst ` set (zset_at d (qo_active q)) then zset_add (qo_active q) t bid d else d))"
    and move: "safe G (moveDueScript src (qo_ready q) hi n)"
    and lock: "safe G (set_if_absent (lockKey q bid) token ms)"
    and release: "token_ok bid token \<Longrightarrow> safe G (releaseLockScript (lockKey q bid) token)"
    and refresh: "token_ok bid token \<Longrightarrow> safe G (refreshLockScript (lockKey q bid) token ms)"
begin

lemma keeps_call: "safe G script \<Longrightarrow> keeps G (call (\<lambda>now d. script (at_ms now d)))"
  by (rule obeys_call) (auto simp: safe_def intro: trans clock)

lemma keeps_return [intro!]: "keeps G (State_Monad.return a)"
  by (rule obeys_return) simp

lemma keeps_bind [intro!]: "keeps G m \<Longrightarrow> (\<And>a. keeps G (f a)) \<Longrightarrow> keeps G (State_Monad.bind m f)"
  by (rule obeys_bind)

lemma keeps_time_now [intro!]: "keeps G time_now"
  by (rule obeys_time_now) simp

lemma keeps_step [intro!]: "safe G script \<Longrightarrow> (\<And>a. keeps G (f a)) \<Longrightarrow> keeps G (queue_step script f)"
  unfolding queue_step_def by (rule keeps_bind [OF keeps_call]) (auto split: sum.splits)

lemma keeps_valid [intro!]: "keeps G m \<Longrightarrow> keeps G (valid_id bid m)"
  by (auto simp: valid_id_def)

lemma keeps_reserveOnce: "keeps G (reserveOnce q)"
  unfolding reserveOnce_def by (auto intro!: reserve keeps_call [OF drop] split: option.splits)

lemma keeps_Reserve: "keeps G (Reserve q polls)"
  by (induction polls) (subst Reserve.simps; auto intro!: keeps_reserveOnce split: sum.splits)+

lemma keeps_operations:
  "keeps G (Enqueue q bid)" "keeps G (RequeueAfter q bid delay)" "keeps G (Ack q bid)"
  "keeps G (Heartbeat q bid)" "keeps G (MoveDueDelayedToReady q n)" "keeps G (RecoverStaleActive q stale n)"
  "keeps G (TryAcquireJobLock q bid ttl token)"
  "token_ok bid token \<Longrightarrow> keeps G (lock_Release q bid token)"
  "token_ok bid token \<Longrightarrow> keeps G (lock_Refresh q bid token ttl)"
  unfolding Enqueue_def RequeueAfter_def Ack_def Heartbeat_def MoveDueDelayedToReady_def
    RecoverStaleActive_def TryAcquireJobLock_def lock_Release_def lock_Refresh_def
  by (intro keeps_valid keeps_bind keeps_time_now keeps_step keeps_return enqueue requeue ack heartbeat move lock
        obeys_if release refresh | assumption)+

lemma keeps_heartbeats: "token_ok bid token \<Longrightarrow> keeps G (job_heartbeats q w bid token n)"
  by (induction n) (auto intro!: keeps_operations)

lemma keeps_processed: "keeps G (job_processed q w bid answer)"
  by (auto simp: job_processed_def intro!: keeps_operations split: sum.splits)

lemma keeps_RunOnce:
  assumes "\<forall>bid. token_ok bid token" "\<And>bid. keeps G (process bid)"
  shows "keeps G (RunOnce q w polls token beats process)"
  unfolding RunOnce_def
  using assms by (auto intro!: keeps_Reserve keeps_operations keeps_heartbeats keeps_processed split: sum.splits)

lemma keeps_perform: "tokens_ok token_ok x \<Longrightarrow> keeps G (queue_perform q x)"
  by (cases x) (auto intro!: keeps_operations keeps_Reserve keeps_RunOnce)

lemma keeps_history: "\<forall>x \<in> set xs. tokens_ok token_ok x \<Longrightarrow> keeps G (queue_history q xs)"
  by (induction xs) (auto intro!: keeps_perform)

end

section \<open>No job is lost\<close>

definition placed :: "queue_options \<Rightarrow> string \<Rightarrow> queue_redis \<Rightarrow> bool" where
  "placed q bid d \<longleftrightarrow>
     bid \<in> set (list_at d (qo_ready q)) \<or> bid \<in> fst ` set (zset_at d (qo_delayed q)) \<or>
     bid \<in> fst ` set (zset_at d (qo_active q))"

definition queue_inv :: "queue_options \<Rightarrow> queue_redis \<Rightarrow> bool" where
  "queue_inv q d \<longleftrightarrow>
     (\<forall>bid. IsValidBatchImageID bid \<longrightarrow> GET_value (inflightKey q bid) d \<noteq> None \<longrightarrow> placed q bid d)"

definition queue_guar :: "queue_options \<Rightarrow> queue_redis \<Rightarrow> queue_redis \<Rightarrow> bool" where
  "queue_guar q d d' \<longleftrightarrow> (queue_keys_ok q \<longrightarrow> queue_inv q d \<longrightarrow> queue_inv q d')"

interpretation queue: guarantee "queue_guar q" for q
  by unfold_locales (auto simp: queue_guar_def)

lemma GET_value_at_ms: "GET_value k (at_ms now d) \<noteq> None \<Longrightarrow> GET_value k d \<noteq> None"
  by (auto simp: GET_value_def at_ms_def split: option.splits if_splits)

lemma at_ms_simps [simp]:
  "list_at (at_ms now d) = list_at d" "zset_at (at_ms now d) = zset_at d" "value_at (at_ms now d) = value_at d"
  "placed q bid (at_ms now d) = placed q bid d"
  by (simp_all add: at_ms_def placed_def)

lemma queue_inv_at_ms: "queue_inv q d \<Longrightarrow> queue_inv q (at_ms now d)"
  using GET_value_at_ms by (auto simp: queue_inv_def)

text \<open>A step that changes no key of a job and takes no valid job out of the queue.\<close>

lemma queue_inv_moves:
  assumes "queue_inv q d" "\<And>bid. GET_value (inflightKey q bid) d' \<noteq> None \<Longrightarrow> GET_value (inflightKey q bid) d \<noteq> None"
    and "\<And>bid. IsValidBatchImageID bid \<Longrightarrow> placed q bid d \<Longrightarrow> placed q bid d'"
  shows "queue_inv q d'"
  using assms by (auto simp: queue_inv_def)

lemma GET_value_simps [simp]:
  "GET_value k (LPUSH l x d) = GET_value k d" "GET_value k (zset_add z s m d) = GET_value k d"
  "GET_value k (zset_rem z m d) = GET_value k d" "GET_value k (d\<lparr>list_at := f\<rparr>) = GET_value k d"
  "GET_value k (DEL_value k' d) = (if k = k' then None else GET_value k d)"
  by (auto simp: GET_value_def LPUSH_def zset_add_def zset_rem_def DEL_value_def split: option.splits)

lemma keys_update [simp]: "fst ` set (AList.update m s z) = insert m (fst ` set z)"
  by (simp add: dom_map_of_conv_image_fst [symmetric] update_conv')

lemma keys_delete [simp]: "fst ` set (AList.delete m z) = fst ` set z - {m}"
  by (simp add: dom_map_of_conv_image_fst [symmetric] delete_conv')

lemma table_simps [simp]:
  "list_at (LPUSH l x d) = (list_at d)(l := x # list_at d l)" "zset_at (LPUSH l x d) = zset_at d"
  "list_at (zset_add z s m d) = list_at d" "zset_at (zset_add z s m d) = (zset_at d)(z := AList.update m s (zset_at d z))"
  "list_at (zset_rem z m d) = list_at d" "zset_at (zset_rem z m d) = (zset_at d)(z := AList.delete m (zset_at d z))"
  "list_at (DEL_value k d) = list_at d" "zset_at (DEL_value k d) = zset_at d"
  "list_at (SET_value k v t d) = list_at d" "zset_at (SET_value k v t d) = zset_at d"
  by (simp_all add: LPUSH_def zset_add_def zset_rem_def DEL_value_def SET_value_def)

lemma placed_member: "placed q bid (LPUSH (qo_ready q) m (zset_rem src m d)) \<longleftrightarrow>
    bid = m \<or> placed q bid (zset_rem src m d)"
  by (auto simp: placed_def)

lemma move_members_simps:
  "GET_value k (move_members src dst ms d) = GET_value k d"
  "placed q bid d \<Longrightarrow> placed q bid (move_members src (qo_ready q) ms d)"
proof (induction ms arbitrary: d)
  case (Cons m ms)
  {
    case 1 then show ?case by (simp add: Cons.IH(1))
  next
    case 2
    then have "placed q bid (LPUSH (qo_ready q) m (zset_rem src m d))"
      by (cases "bid = m") (auto simp: placed_def)
    from Cons.IH(2) [OF this] show ?case by simp
  }
qed simp_all

lemma reserveScript_simps:
  assumes "reserveScript (qo_ready q) (qo_active q) now d = (r, d')"
  shows "GET_value k d' = GET_value k d" "placed q bid d \<Longrightarrow> placed q bid d'"
proof -
  show "GET_value k d' = GET_value k d" using assms by (auto simp: reserveScript_def split: list.splits)
  assume p: "placed q bid d"
  show "placed q bid d'"
  proof (cases "rev (list_at d (qo_ready q))")
    case (Cons m ms)
    then have old: "set (list_at d (qo_ready q)) = insert m (set ms)" by (metis set_rev list.set(2))
    from Cons assms have d': "d' = zset_add (qo_active q) now m (d\<lparr>list_at := (list_at d)(qo_ready q := rev ms)\<rparr>)"
      by (simp add: reserveScript_def)
    have "fst ` set (zset_at d z) \<subseteq> fst ` set (zset_at d' z)" for z by (simp add: d' subset_insertI)
    moreover have "m \<in> fst ` set (zset_at d' (qo_active q))" by (simp add: d')
    moreover have "set (list_at d' (qo_ready q)) = set ms" by (simp add: d')
    ultimately show ?thesis using p old unfolding placed_def by blast
  qed (use p assms in \<open>simp add: reserveScript_def\<close>)
qed

lemma safe_queue: "(\<And>d. queue_keys_ok q \<Longrightarrow> queue_inv q d \<Longrightarrow> queue_inv q (snd (script d))) \<Longrightarrow> safe (queue_guar q) script"
  by (simp add: safe_def queue_guar_def)

text \<open>The scripts.\<close>

lemma GET_value_SET_value [simp]:
  "GET_value k (SET_value k' v ms d) = (if k = k' then if ms < 0 then None else Some v else GET_value k d)"
  by (auto simp: GET_value_def SET_value_def split: option.splits)

lemma inflightKey_inj: "inflightKey q a = inflightKey q b \<longleftrightarrow> a = b"
  by (simp add: inflightKey_def)

lemma placed_SET_value [simp]: "placed q bid (SET_value k v ms d) = placed q bid d"
  by (simp add: placed_def)

lemma placed_LPUSH: "placed q bid (LPUSH (qo_ready q) m d) \<longleftrightarrow> bid = m \<or> placed q bid d"
  by (simp add: placed_def)

lemma safe_enqueue: "safe (queue_guar q) (enqueueScript (inflightKey q bid) (qo_ready q) bid ms)"
proof (rule safe_queue)
  fix d
  assume i: "queue_inv q d"
  show "queue_inv q (snd (enqueueScript (inflightKey q bid) (qo_ready q) bid ms d))"
  proof (cases "GET_value (inflightKey q bid) d = None")
    case True
    have "placed q b (LPUSH (qo_ready q) bid (SET_value (inflightKey q bid) bid ms d))"
      if "IsValidBatchImageID b" "GET_value (inflightKey q b) (SET_value (inflightKey q bid) bid ms d) \<noteq> None" for b
      using that i by (auto simp: placed_LPUSH queue_inv_def inflightKey_inj split: if_splits)
    with True i show ?thesis by (simp add: enqueueScript_def set_if_absent_def queue_inv_def)
  qed (use i in \<open>auto simp: enqueueScript_def set_if_absent_def\<close>)
qed

lemma safe_reserve: "safe (queue_guar q) (reserveScript (qo_ready q) (qo_active q) now)"
  by (rule safe_queue, rule queue_inv_moves, assumption) (metis reserveScript_simps prod.collapse)+

lemma safe_move: "safe (queue_guar q) (moveDueScript src (qo_ready q) hi n)"
  by (rule safe_queue, rule queue_inv_moves, assumption) (auto simp: moveDueScript_def Let_def move_members_simps)

text \<open>A lock is no key of a job.\<close>

lemma safe_lock:
  assumes "\<And>d. snd (script d) = d \<or> snd (script d) = DEL_value (lockKey q a) d \<or>
             (\<exists>v ms. snd (script d) = SET_value (lockKey q a) v ms d)"
  shows "safe (queue_guar q) script"
proof (rule safe_queue)
  fix d
  assume k: "queue_keys_ok q" and i: "queue_inv q d"
  have "inflightKey q bid \<noteq> lockKey q a" for bid using k by (simp add: queue_keys_ok_def)
  then have "GET_value (inflightKey q bid) (snd (script d)) \<noteq> None \<Longrightarrow> GET_value (inflightKey q bid) d \<noteq> None" for bid
    using assms [of d] by auto
  moreover have "placed q bid (snd (script d)) = placed q bid d" for bid
    using assms [of d] by (auto simp: placed_def)
  ultimately show "queue_inv q (snd (script d))" using queue_inv_moves [OF i] by blast
qed

lemma safe_set_if_absent: "safe (queue_guar q) (set_if_absent (lockKey q a) v ms)"
  by (rule safe_lock [where a = a]) (auto simp: set_if_absent_def)

lemma safe_release: "safe (queue_guar q) (releaseLockScript (lockKey q a) v)"
  by (rule safe_lock [where a = a]) (auto simp: releaseLockScript_def)

lemma safe_refresh: "safe (queue_guar q) (refreshLockScript (lockKey q a) v ms)"
  by (rule safe_lock [where a = a]) (auto simp: refreshLockScript_def)

text \<open>A job that is taken out of the sorted sets, or put into one of them.\<close>

lemma keys_rem: "b \<noteq> m \<Longrightarrow> b \<in> fst ` set (zset_at d k) \<Longrightarrow> b \<in> fst ` set (zset_at (zset_rem z m d) k)"
  by (cases "k = z") simp_all

lemma keys_add: "b \<in> fst ` set (zset_at d k) \<Longrightarrow> b \<in> fst ` set (zset_at (zset_add z s m d) k)"
  by (cases "k = z") simp_all

lemma placed_rem: "placed q b d \<Longrightarrow> b \<noteq> m \<Longrightarrow> placed q b (zset_rem z m d)"
  unfolding placed_def table_simps(5) by (blast intro: keys_rem)

lemma placed_add: "placed q b d \<Longrightarrow> placed q b (zset_add z s m d)"
  unfolding placed_def table_simps(3) by (blast intro: keys_add)

lemma placed_added: "placed q m (zset_add (qo_delayed q) s m d)"
  unfolding placed_def by simp

lemma safe_requeue:
  "safe (queue_guar q) (\<lambda>d. ((),
     let d' = zset_rem (qo_delayed q) bid (zset_rem (qo_active q) bid d) in
     if delay \<le> 0 then LPUSH (qo_ready q) bid d' else zset_add (qo_delayed q) t bid d'))"
proof (rule safe_queue, rule queue_inv_moves, assumption)
  fix d b
  assume "placed q b d"
  then show "placed q b (snd ((),
     let d' = zset_rem (qo_delayed q) bid (zset_rem (qo_active q) bid d) in
     if delay \<le> 0 then LPUSH (qo_ready q) bid d' else zset_add (qo_delayed q) t bid d'))"
    by (cases "b = bid") (simp_all add: Let_def placed_LPUSH placed_added placed_add placed_rem)
qed (auto simp: Let_def split: if_splits)

lemma safe_ack:
  "safe (queue_guar q) (\<lambda>d. ((), DEL_value (inflightKey q bid) (zset_rem (qo_delayed q) bid (zset_rem (qo_active q) bid d))))"
proof (rule safe_queue)
  fix d
  assume i: "queue_inv q d"
  let ?e = "zset_rem (qo_delayed q) bid (zset_rem (qo_active q) bid d)"
  have p: "placed q b (DEL_value k ?e) = placed q b ?e" for b k by (simp add: placed_def)
  have "placed q b ?e" if "b \<noteq> bid" "placed q b d" for b by (intro placed_rem that)
  with i show "queue_inv q (snd ((), DEL_value (inflightKey q bid) ?e))"
    by (auto simp: queue_inv_def p inflightKey_inj split: if_splits)
qed

lemma safe_heartbeat:
  "safe (queue_guar q) (\<lambda>d. ((), if bid \<in> fst ` set (zset_at d (qo_active q)) then zset_add (qo_active q) t bid d else d))"
  by (rule safe_queue, rule queue_inv_moves, assumption) (auto split: if_splits intro: placed_add)

lemma safe_drop: "\<not> IsValidBatchImageID bid \<Longrightarrow> safe (queue_guar q) (\<lambda>d. ((), zset_rem (qo_active q) bid d))"
proof (rule safe_queue, rule queue_inv_moves, assumption)
  fix d b
  assume "\<not> IsValidBatchImageID bid" "IsValidBatchImageID b" "placed q b d"
  then show "placed q b (snd ((), zset_rem (qo_active q) bid d))" by (cases "b = bid") (auto intro: placed_rem)
qed simp

text \<open>Every operation keeps the invariant.\<close>

interpretation placed: queue_promise "queue_guar q" q "\<lambda>_ _. True" for q
  using queue_inv_at_ms
  by unfold_locales
    (auto intro!: safe_enqueue safe_reserve safe_drop safe_requeue safe_ack safe_heartbeat safe_move
       safe_set_if_absent safe_release safe_refresh simp: queue_guar_def)

lemma queue_inv_stable: "queue_keys_ok q \<Longrightarrow> stable (queue_guar q) (queue_inv q)"
  by (simp add: stable_def queue_guar_def)

lemma enqueueScript_places:
  assumes "queue_inv q d" "IsValidBatchImageID bid"
  shows "fst (enqueueScript (inflightKey q bid) (qo_ready q) bid ms d) \<noteq> None \<Longrightarrow>
    placed q bid (snd (enqueueScript (inflightKey q bid) (qo_ready q) bid ms d))"
  using assms by (auto simp: enqueueScript_def set_if_absent_def placed_LPUSH queue_inv_def)

lemma Enqueue_places:
  assumes "queue_keys_ok q"
  shows "obeys (queue_guar q) (queue_inv q) (Enqueue q bid)
           (\<lambda>r d. r = Inr () \<or> r = Inl AlreadyQueued \<longrightarrow> placed q bid d)"
proof (cases "IsValidBatchImageID bid")
  case True
  let ?Q = "\<lambda>r d. (case r of Inl _ \<Rightarrow> False | Inr a \<Rightarrow> a \<noteq> None) \<longrightarrow> placed q bid d"
  show ?thesis
    unfolding Enqueue_def queue_step_def valid_id_def if_P [OF True]
  proof (rule queue.obeys_bind [OF queue.obeys_call [OF queue_inv_stable [OF assms], where Q = ?Q]])
    fix now d
    assume i: "queue_inv q d"
    show "queue_guar q d (snd (enqueueScript (inflightKey q bid) (qo_ready q) bid
            (Milliseconds (qo_inflight_ttl q)) (at_ms now d)))"
      by (rule queue.trans [OF placed.clock]) (use safe_enqueue in \<open>auto simp: safe_def\<close>)
    show "?Q (Inr (fst (enqueueScript (inflightKey q bid) (qo_ready q) bid
            (Milliseconds (qo_inflight_ttl q)) (at_ms now d))))
          (snd (enqueueScript (inflightKey q bid) (qo_ready q) bid (Milliseconds (qo_inflight_ttl q)) (at_ms now d)))"
      using enqueueScript_places [OF queue_inv_at_ms [OF i] True] by simp
  qed (auto split: sum.splits option.splits intro!: queue.obeys_return)
qed (simp add: Enqueue_def valid_id_def queue.obeys_return)

text \<open>
  C15. Among any other requests that keep the invariant, and whatever replies are lost: after any history of
  operations and turns of the worker, a job that \<open>Enqueue\<close> has taken or refuses because it is queued already
  is in the list \<open>ready\<close> or in one of the sets \<open>delayed\<close> and \<open>active\<close>.
\<close>

theorem queued_jobs_are_kept:
  assumes keys: "queue_keys_ok q" and rely: "rely_ok (queue_guar q) w" and inv: "queue_inv q (db w)"
    and history: "run_state (queue_history q ops) w = (rs, w1)"
    and enqueue: "run_state (Enqueue q bid) w1 = (r, w2)" "r = Inr () \<or> r = Inl AlreadyQueued"
  shows "queue_inv q (db w1) \<and> placed q bid (db w2)"
proof -
  have "keeps (queue_guar q) (queue_history q ops)" by (rule placed.keeps_history) (auto intro: tokens_ok_all)
  note h = obeysD [OF this rely _ history]
  have i: "queue_inv q (db w1)" using h(2) inv keys by (simp add: queue_guar_def)
  from obeysD(3) [OF Enqueue_places [OF keys] h(1) i enqueue(1)] enqueue(2) i show ?thesis by simp
qed

section \<open>An example\<close>

definition demo_job :: string where "demo_job = ''imgbatch_1''"

definition demo_queue :: queue_redis where
  "demo_queue = \<lparr>list_at = (\<lambda>k. if k = qo_ready default_queue then [demo_job] else []), zset_at = (\<lambda>_. []),
     value_at = (\<lambda>_. None), server_ms = 0\<rparr>"

definition demo_queue_world :: "queue_redis shared" where
  "demo_queue_world = \<lparr>db = demo_queue,
     schedule = [\<lparr>ev_fault = Fine, ev_elapsed = 0, ev_others = id\<rparr>, \<lparr>ev_fault = Fine, ev_elapsed = 2000000, ev_others = id\<rparr>,
       \<lparr>ev_fault = LostReply, ev_elapsed = 3000000, ev_others = id\<rparr>], clock = 1000000000\<rparr>"

definition demo_turn :: queue_op where
  "demo_turn = WorkOp (normalizeBatchImageWorkerOptions \<lparr>wo_reserve_timeout = 0, wo_lock_ttl = 0, wo_conflict_delay = 0, wo_requeue_delay = 0,
       wo_error_delay = 0, wo_error_backoff = 0, wo_poll_interval = 0, wo_recovery_interval = 0, wo_stale_after = 0, wo_move_limit = 0, wo_recover_limit = 0\<rparr>) 0 ''b'' 1
     (\<lambda>_. Inr \<lparr>pa_requeue_after = 0, pa_terminal = True\<rparr>)"

lemmas queue_defs = Enqueue_def RequeueAfter_def Ack_def Heartbeat_def TryAcquireJobLock_def lock_Release_def
  lock_Refresh_def RecoverStaleActive_def reserveOnce_def RunOnce_def job_processed_def queue_step_def valid_id_def
  enqueueScript_def reserveScript_def set_if_absent_def releaseLockScript_def refreshLockScript_def
  moveDueScript_def zset_due_def run_call_def next_event_def calm_def Let_def UnixMilli_def Milliseconds_def
  GET_value_def at_ms_def SET_value_def DEL_value_def LPUSH_def zset_add_def zset_rem_def
  normalizeBatchImageWorkerOptions_def inflightKey_def lockKey_def lock_ms_def

lemmas demo_queue_defs = demo_queue_def demo_queue_world_def demo_turn_def demo_job_def default_queue_def
  normalizeBatchImageQueueOptions_def IsValidBatchImageID_def has_prefix_def

text \<open>The reply to the request that queues the job is lost, and the worker that takes the job never answers.\<close>

definition demo_losses :: "queue_redis shared" where
  "demo_losses = \<lparr>db = demo_queue, schedule = [\<lparr>ev_fault = LostReply, ev_elapsed = 5, ev_others = id\<rparr>], clock = 0\<rparr>"

theorem queued_jobs_are_kept_witness:
  "let w1 = snd (run_state (queue_history default_queue [EnqueueOp demo_job, ReserveOp 0, ReserveOp 0]) demo_losses)
   in queue_inv default_queue (db w1) \<and> placed default_queue demo_job (db (snd (run_state (Enqueue default_queue demo_job) w1)))"
  unfolding Let_def
proof (rule queued_jobs_are_kept [OF default_queue_ok])
  let ?w1 = "snd (run_state (queue_history default_queue [EnqueueOp demo_job, ReserveOp 0, ReserveOp 0]) demo_losses)"
  show "rely_ok (queue_guar default_queue) demo_losses"
    by (simp add: rely_ok_def demo_losses_def queue_guar_def)
  show "queue_inv default_queue (db demo_losses)"
    by (simp add: queue_inv_def demo_losses_def demo_queue_def GET_value_def)
  show "run_state (queue_history default_queue [EnqueueOp demo_job, ReserveOp 0, ReserveOp 0]) demo_losses =
      (fst (run_state (queue_history default_queue [EnqueueOp demo_job, ReserveOp 0, ReserveOp 0]) demo_losses), ?w1)"
    by simp
  show "run_state (Enqueue default_queue demo_job) ?w1 =
      (Inl AlreadyQueued, snd (run_state (Enqueue default_queue demo_job) ?w1))"
    by (simp add: demo_losses_def queue_defs demo_queue_defs Reserve.simps)
qed simp

end
