(* ===== verification/Batch_Queue_Lock.thy ===== *)
theory Batch_Queue_Lock
  imports Batch_Queue_Safety
begin

text \<open>
  The lock of a job: it stays with the worker that has taken it until its time on the server's clock is
  over, whatever the others do. And a job whose worker is gone: it comes back to the workers.
\<close>

section \<open>The lock\<close>

text \<open>
  A key that holds the token \<open>T\<close> until the time \<open>e\<close> holds it at least as long, unless the clock has passed \<open>e\<close>.
\<close>

definition lock_guar :: "string \<Rightarrow> string \<Rightarrow> queue_redis \<Rightarrow> queue_redis \<Rightarrow> bool" where
  "lock_guar k T d d' \<longleftrightarrow> server_ms d \<le> server_ms d' \<and>
     (\<forall>e. value_at d k = Some (T, e) \<longrightarrow>
        (\<exists>e' \<ge> e. value_at d' k = Some (T, e')) \<or> e < server_ms d')"

lemma lock_guarD:
  assumes "lock_guar k T d d'"
  shows "server_ms d \<le> server_ms d'"
    "value_at d k = Some (T, e) \<Longrightarrow> server_ms d' \<le> e \<Longrightarrow> \<exists>e' \<ge> e. value_at d' k = Some (T, e')"
  using assms by (force simp: lock_guar_def)+

lemma lock_guar_trans: "lock_guar k T d1 d2 \<Longrightarrow> lock_guar k T d2 d3 \<Longrightarrow> lock_guar k T d1 d3"
  unfolding lock_guar_def by (metis dual_order.trans le_less_trans linorder_not_le)

text \<open>Steps that leave the key and the clock alone.\<close>

lemma safe_other: "(\<And>d. value_at (snd (script d)) k = value_at d k \<and> server_ms (snd (script d)) = server_ms d) \<Longrightarrow>
    safe (lock_guar k T) script"
  by (simp add: safe_def lock_guar_def)

lemma value_simps [simp]:
  "value_at (LPUSH l x d) = value_at d" "value_at (zset_add z s m d) = value_at d"
  "value_at (zset_rem z m d) = value_at d"
  "value_at (SET_value k v ms d) = (value_at d)(k \<mapsto> (v, server_ms d + ms))"
  "value_at (DEL_value k d) = (value_at d)(k := None)"
  by (simp_all add: LPUSH_def zset_add_def zset_rem_def SET_value_def DEL_value_def)

lemma server_ms_simps [simp]:
  "server_ms (LPUSH l x d) = server_ms d" "server_ms (zset_add z s m d) = server_ms d"
  "server_ms (zset_rem z m d) = server_ms d" "server_ms (SET_value k v ms d) = server_ms d"
  "server_ms (DEL_value k d) = server_ms d"
  by (simp_all add: LPUSH_def zset_add_def zset_rem_def SET_value_def DEL_value_def)

lemma move_members_other [simp]:
  "value_at (move_members src dst ms d) = value_at d" "server_ms (move_members src dst ms d) = server_ms d"
  by (induction ms arbitrary: d) simp_all

lemma lockKey_inj: "lockKey q a = lockKey q b \<longleftrightarrow> a = b"
  by (simp add: lockKey_def)

lemma GET_value_held: "GET_value k d = Some T' \<Longrightarrow> \<exists>e. value_at d k = Some (T', e)"
  by (auto simp: GET_value_def split: option.splits if_splits)

lemma safe_lock_taken: "safe (lock_guar k T) (set_if_absent k' v ms)"
proof (rule safeI)
  fix d
  show "lock_guar k T d (snd (set_if_absent k' v ms d))"
    by (auto simp: lock_guar_def set_if_absent_def GET_value_def split: if_splits)
qed

lemma safe_lock_released:
  assumes "k' \<noteq> k \<or> token \<noteq> T"
  shows "safe (lock_guar k T) (releaseLockScript k' token)" "safe (lock_guar k T) (refreshLockScript k' token ms)"
  using assms by (auto intro!: safeI dest!: GET_value_held
      simp: lock_guar_def releaseLockScript_def refreshLockScript_def split: if_splits)

lemma lock_guar_clock: "lock_guar k T d (at_ms now d)"
  by (auto simp: lock_guar_def at_ms_def)

text \<open>
  No operation takes the lock of \<open>bid\<close> away from its owner before its time; only the owner's token renews it or
  gives it back.
\<close>

definition locks_apart :: "queue_options \<Rightarrow> string \<Rightarrow> bool" where
  "locks_apart q k \<longleftrightarrow> (\<forall>b. inflightKey q b \<noteq> k)"

interpretation held: queue_promise
    "\<lambda>d d'. locks_apart q (lockKey q bid) \<longrightarrow> lock_guar (lockKey q bid) T d d'" q
    "\<lambda>b token. b \<noteq> bid \<or> token \<noteq> T" for q bid T
proof (unfold_locales, goal_cases)
  case 2 then show ?case using lock_guar_trans by blast
next
  case 3 show ?case by (simp add: lock_guar_clock)
next
  case (4 b ms)
  show ?case
    by (rule safeI) (auto simp: enqueueScript_def set_if_absent_def locks_apart_def lock_guar_def)
next
  case (5 now)
  show ?case by (rule safeI) (auto simp: reserveScript_def lock_guar_def split: list.splits)
next
  case (8 b)
  show ?case by (rule safeI) (auto simp: locks_apart_def lock_guar_def)
next
  case (11 b token ms)
  show ?case using safe_lock_taken by (auto simp: safe_def)
next
  case (12 b token)
  then show ?case using safe_lock_released(1) by (auto simp: safe_def lockKey_inj)
next
  case (13 b token ms)
  then show ?case using safe_lock_released(2) by (auto simp: safe_def lockKey_inj)
qed (auto intro!: safeI simp: lock_guar_def moveDueScript_def Let_def split: if_splits)

lemma keys_apart: "queue_keys_ok q \<Longrightarrow> locks_apart q (lockKey q bid)"
  by (simp add: queue_keys_ok_def locks_apart_def)

text \<open>Who has got the lock, and who asks for it while it is held.\<close>

lemma lock_taken:
  assumes "run_state (TryAcquireJobLock q bid ttl T) w = (Inr True, w1)"
  shows "value_at (db w1) (lockKey q bid) =
    Some (T, server_ms (db w1) + lock_ms q ttl)"
  using assms unfolding TryAcquireJobLock_def
  by (simp add: valid_id_def queue_step_def run_call_def Let_def set_if_absent_def
      split: if_splits fault.splits) auto

lemma lock_refused:
  assumes rely: "rely_ok (lock_guar (lockKey q bid) T) w" and held: "value_at (db w) (lockKey q bid) = Some (T, e)"
    and run: "run_state (TryAcquireJobLock q bid ttl T') w = (Inr True, w1)"
  shows "e < server_ms (db w1)"
proof -
  define now where "now = clock w + int (ev_elapsed (next_event w))"
  define d where "d = at_ms now (ev_others (next_event w) (db w))"
  have "lock_guar (lockKey q bid) T (db w) (ev_others (next_event w) (db w))"
    using rely by (cases "schedule w") (auto simp: rely_ok_def next_event_def calm_def lock_guar_def)
  then have g: "lock_guar (lockKey q bid) T (db w) d"
    unfolding d_def by (rule lock_guar_trans [OF _ lock_guar_clock])
  have r: "GET_value (lockKey q bid) d = None \<and> server_ms (db w1) = server_ms d"
    using run unfolding TryAcquireJobLock_def
    by (simp add: valid_id_def queue_step_def run_call_def Let_def set_if_absent_def now_def [symmetric]
        d_def [symmetric] split: if_splits fault.splits) auto
  show ?thesis
  proof (rule ccontr)
    assume "\<not> e < server_ms (db w1)"
    with r have e: "server_ms d \<le> e" by simp
    from lock_guarD(2) [OF g held e] obtain e' where "e \<le> e'" "value_at d (lockKey q bid) = Some (T, e')" by blast
    with e r show False by (auto simp: GET_value_def)
  qed
qed

text \<open>Requests that are not the owner's.\<close>

abbreviation foreign :: "string \<Rightarrow> string \<Rightarrow> queue_op \<Rightarrow> bool" where
  "foreign bid T x \<equiv> tokens_ok (\<lambda>b token. b \<noteq> bid \<or> token \<noteq> T) x"

lemma lock_history:
  assumes "queue_keys_ok q" "rely_ok (lock_guar (lockKey q bid) T) w"
    "value_at (db w) (lockKey q bid) = Some (T, e)"
    "run_state (queue_history q ops) w = (rs, w')" "\<forall>x \<in> set ops. foreign bid T x" "server_ms (db w') \<le> e"
  shows "(\<exists>e' \<ge> e. value_at (db w') (lockKey q bid) = Some (T, e')) \<and>
    (LockOp bid ttl T', Locked) \<notin> set (zip ops rs)"
  using assms
proof (induction ops arbitrary: w rs e)
  case (Cons x ops)
  let ?G = "lock_guar (lockKey q bid) T"
  have eq: "(\<lambda>d d'. locks_apart q (lockKey q bid) \<longrightarrow> ?G d d') = ?G" using keys_apart [OF Cons.prems(1)] by simp
  from Cons.prems(4) obtain r w1 rs' where
    run: "run_state (queue_perform q x) w = (r, w1)" "run_state (queue_history q ops) w1 = (rs', w')" "rs = r # rs'"
    by (auto split: prod.splits)
  have "keeps ?G (queue_perform q x)" "keeps ?G (queue_history q ops)"
    using held.keeps_perform [of bid T x q] held.keeps_history [of ops bid T q] Cons.prems(5)
    unfolding eq by auto
  note first = obeysD [OF this(1) Cons.prems(2) _ run(1), simplified]
    and later = obeysD [OF this(2) first(1) _ run(2), simplified]
  have e: "server_ms (db w1) \<le> e" using lock_guarD(1) [OF later(2)] Cons.prems(6) by simp
  from lock_guarD(2) [OF first(2) Cons.prems(3) e] obtain e' where
    e': "e \<le> e'" "value_at (db w1) (lockKey q bid) = Some (T, e')" by blast
  have IH: "(\<exists>e'' \<ge> e'. value_at (db w') (lockKey q bid) = Some (T, e'')) \<and>
      (LockOp bid ttl T', Locked) \<notin> set (zip ops rs')"
    using Cons.prems e' by (intro Cons.IH [OF _ first(1) e'(2) run(2)]) auto
  have "r \<noteq> Locked" if x: "x = LockOp bid ttl T'"
  proof
    assume "r = Locked"
    with run(1) x have "run_state (TryAcquireJobLock q bid ttl T') w = (Inr True, w1)"
      by (auto split: prod.splits sum.splits if_splits)
    from lock_refused [OF Cons.prems(2,3) this] e show False by simp
  qed
  with IH e'(1) run(3) show ?case by (auto intro: order_trans)
qed auto

text \<open>
  C18. Mutual exclusion of the workers: from the moment in which a worker has got the lock of a job until the
  server's clock has passed the time to live, no history of requests of others, and no turn of another
  worker, takes the lock away, and no other request for it is granted. Replies may be lost anywhere.
\<close>

theorem job_lock_excludes:
  assumes keys: "queue_keys_ok q" and rely: "rely_ok (lock_guar (lockKey q bid) T) w1"
    and lock: "run_state (TryAcquireJobLock q bid ttl T) w = (Inr True, w1)"
    and history: "run_state (queue_history q ops) w1 = (rs, w2)" "\<forall>x \<in> set ops. foreign bid T x"
    and time: "server_ms (db w2) \<le> server_ms (db w1) + lock_ms q ttl"
  shows "GET_value (lockKey q bid) (db w2) = Some T \<and> (LockOp bid ttl' T', Locked) \<notin> set (zip ops rs)"
proof -
  from lock_history [OF keys rely lock_taken [OF lock] history time]
  obtain e' where "server_ms (db w1) + lock_ms q ttl \<le> e'"
    "value_at (db w2) (lockKey q bid) = Some (T, e')" "(LockOp bid ttl' T', Locked) \<notin> set (zip ops rs)" by blast
  with time show ?thesis by (simp add: GET_value_def)
qed

text \<open>
  A worker has the lock for a minute. Another worker's turn, a foreign attempt to give the lock back and a request
  whose reply is lost pass; then a second request for the lock is refused.
\<close>

definition demo_requests :: "queue_op list" where
  "demo_requests = [demo_turn, ReleaseLockOp demo_job ''b'', LockOp demo_job 0 ''b'']"

lemma demo_lock:
  "run_state (TryAcquireJobLock default_queue demo_job Minute ''a'') demo_queue_world =
     (Inr True, demo_queue_world\<lparr>db := SET_value (lockKey default_queue demo_job) ''a'' 60000 (demo_queue\<lparr>server_ms := 1000\<rparr>),
        schedule := tl (schedule demo_queue_world)\<rparr>)"
  by (simp add: queue_defs demo_queue_defs)

lemma demo_foreign: "\<forall>x \<in> set demo_requests. foreign demo_job ''a'' x"
  by (simp add: demo_requests_def demo_turn_def)

lemma demo_requests_time:
  "server_ms (db (snd (run_state (queue_history default_queue demo_requests)
     (snd (run_state (TryAcquireJobLock default_queue demo_job Minute ''a'') demo_queue_world))))) \<le> 1010"
  unfolding demo_lock snd_conv
  by (simp add: demo_requests_def queue_defs demo_queue_defs Reserve.simps)

theorem job_lock_excludes_witness:
  "let w1 = snd (run_state (TryAcquireJobLock default_queue demo_job Minute ''a'') demo_queue_world);
       (rs, w2) = run_state (queue_history default_queue demo_requests) w1
   in GET_value (lockKey default_queue demo_job) (db w2) = Some ''a'' \<and>
      (LockOp demo_job 0 ''b'', Locked) \<notin> set (zip demo_requests rs)"
  unfolding Let_def case_prod_unfold
proof (rule job_lock_excludes [OF default_queue_ok, where w = demo_queue_world and ttl = Minute])
  let ?w1 = "snd (run_state (TryAcquireJobLock default_queue demo_job Minute ''a'') demo_queue_world)"
  show "rely_ok (lock_guar (lockKey default_queue demo_job) ''a'') ?w1"
    unfolding demo_lock snd_conv by (simp add: rely_ok_def demo_queue_world_def lock_guar_def)
  show "run_state (TryAcquireJobLock default_queue demo_job Minute ''a'') demo_queue_world = (Inr True, ?w1)"
    by (simp add: demo_lock)
  show "server_ms (db (snd (run_state (queue_history default_queue demo_requests) ?w1))) \<le>
      server_ms (db ?w1) + lock_ms default_queue Minute"
    by (rule order_trans [OF demo_requests_time]) (simp add: demo_lock lock_ms_def Milliseconds_def)
qed (use demo_foreign in auto)

section \<open>Abandoned jobs\<close>

fun reserves :: "queue_options \<Rightarrow> nat \<Rightarrow> ((queue_redis, 'z) shared_scheme, (queue_error + string) list) state" where
  "reserves q 0 = State_Monad.return []"
| "reserves q (Suc n) = do { r \<leftarrow> reserveOnce q; rs \<leftarrow> reserves q n; State_Monad.return (r # rs) }"

lemma move_members_list: "list_at (move_members src dst ms d) dst = rev ms @ list_at d dst"
  by (induction ms arbitrary: d) simp_all

lemma zset_due_all:
  assumes "length (filter (\<lambda>(m, s). s \<le> hi) z) \<le> n"
  shows "set (zset_due hi n z) = fst ` set (filter (\<lambda>(m, s). s \<le> hi) z)"
  using assms by (simp add: zset_due_def)

text \<open>Without other requests the list is taken from its end, one entry with each call.\<close>

lemma reserveOnce_quiet:
  assumes "schedule w = []" "list_at (db w) (qo_ready q) = xs @ [m]"
  shows "\<exists>w'. run_state (reserveOnce q) w = (if IsValidBatchImageID m then Inr m else Inl InvalidQueuePayload, w') \<and>
    schedule w' = [] \<and> list_at (db w') (qo_ready q) = xs"
  using assms
  by (auto simp: reserveOnce_def queue_step_def run_call_quiet reserveScript_def)

lemma reserves_quiet:
  assumes "schedule w = []" "m \<in> set (list_at (db w) (qo_ready q))" "IsValidBatchImageID m"
    "length (list_at (db w) (qo_ready q)) \<le> n"
  shows "Inr m \<in> set (fst (run_state (reserves q n) w))"
  using assms
proof (induction n arbitrary: w)
  case (Suc n)
  from Suc.prems(2) obtain xs l where l: "list_at (db w) (qo_ready q) = xs @ [l]"
    by (metis append_butlast_last_id empty_iff list.set(1))
  from reserveOnce_quiet [OF Suc.prems(1) l] obtain w' where
    w': "run_state (reserveOnce q) w = (if IsValidBatchImageID l then Inr l else Inl InvalidQueuePayload, w')"
      "schedule w' = []" "list_at (db w') (qo_ready q) = xs" by blast
  show ?case
  proof (cases "m = l")
    case True
    with w'(1) Suc.prems(3) show ?thesis by (simp split: prod.splits)
  next
    case False
    with Suc.prems(2) l have "m \<in> set xs" by simp
    moreover have "length xs \<le> n" using Suc.prems(4) l by simp
    ultimately have "Inr m \<in> set (fst (run_state (reserves q n) w'))"
      by (intro Suc.IH [OF w'(2)]) (use w'(3) Suc.prems(3) in simp_all)
    with w'(1) show ?thesis by (auto split: prod.splits)
  qed
qed simp

definition stale_jobs :: "queue_options \<Rightarrow> int \<Rightarrow> int \<Rightarrow> queue_redis \<Rightarrow> string list" where
  "stale_jobs q now staleAfter d = map fst (filter (\<lambda>(m, s). s \<le> UnixMilli (now - staleAfter)) (zset_at d (qo_active q)))"

text \<open>
  C36. A job comes back when its worker is gone: if its last heartbeat is older than \<open>staleAfter\<close> and the limit
  of one recovery is not exceeded, \<open>RecoverStaleActive\<close> puts it into \<open>ready\<close> and one of the next calls of
  \<open>reserveOnce\<close> hands it out, at the latest the one for the last of the entries that wait.
\<close>

theorem abandoned_job_returns:
  fixes w :: "(queue_redis, 'z) shared_scheme"
  assumes quiet: "schedule w = []" and after: "0 < staleAfter"
    and job: "IsValidBatchImageID bid" "bid \<in> set (stale_jobs q (clock w) staleAfter (db w))"
    and limit: "length (stale_jobs q (clock w) staleAfter (db w)) \<le> nat (if limit \<le> 0 then 100 else limit)"
    and calls: "length (list_at (db w) (qo_ready q)) + length (stale_jobs q (clock w) staleAfter (db w)) \<le> n"
  shows "Inr bid \<in> set (fst (run_state (do { _ \<leftarrow> RecoverStaleActive q staleAfter limit; reserves q n }) w))"
proof -
  let ?hi = "UnixMilli (clock w - staleAfter)" and ?l = "nat (if limit \<le> 0 then 100 else limit)"
  let ?ms = "zset_due ?hi ?l (zset_at (db w) (qo_active q))"
  obtain w' where w': "run_state (RecoverStaleActive q staleAfter limit) w = (Inr (length ?ms), w')"
      "schedule w' = []" "list_at (db w') (qo_ready q) = rev ?ms @ list_at (db w) (qo_ready q)"
    using quiet after by (auto simp: RecoverStaleActive_def queue_step_def run_call_quiet moveDueScript_def Let_def
        move_members_list)
  have "bid \<in> set ?ms" 
    using job(2) limit zset_due_all [of ?hi "zset_at (db w) (qo_active q)" ?l] by (simp add: stale_jobs_def)
  moreover have "length ?ms \<le> length (stale_jobs q (clock w) staleAfter (db w))" by (simp add: zset_due_def stale_jobs_def)
  ultimately have "Inr bid \<in> set (fst (run_state (reserves q n) w'))"
    by (intro reserves_quiet [OF w'(2)]) (use w'(3) job(1) calls in simp_all)
  with w'(1) show ?thesis by simp
qed

theorem abandoned_job_returns_witness:
  "Inr demo_job \<in> set (fst (run_state
     (do { _ \<leftarrow> RecoverStaleActive default_queue (10 * Minute) 0; reserves default_queue 3 })
     \<lparr>db = demo_queue\<lparr>zset_at := (\<lambda>_. [(''imgbatch_2'', 700000), (demo_job, 300000)])\<rparr>, schedule = [],
       clock = 1000000000000\<rparr>))"
  by (rule abandoned_job_returns) (simp_all add: stale_jobs_def demo_queue_defs UnixMilli_def)

end
