(* ===== verification/Batch_Request.thy ===== *)
theory Batch_Request
  imports Batch_Index "HOL-Library.List_Lexorder" "HOL-Library.Char_ord" "HOL-Library.AList"
begin

text \<open>
  The validation of a submission (\<open>validateSubmitRequest\<close> of \<open>service/batch_image_public.go\<close>): defaults, limits,
  reference images, and one item per image that is asked for. An accepted request has what the later stages
  rely on: ids that differ, and no more items than the limit.
\<close>

section \<open>Requests\<close>

record reference_input =
  ri_id :: string
  ri_type :: string
  ri_mime_type :: string
  ri_data :: string
  ri_file_uri :: string

record submit_item =
  bsi_custom_id :: string
  bsi_prompt :: string
  bsi_output_count :: int
  bsi_references :: "reference_input list"

text \<open>The metadata, a map in Go, is a list with distinct keys.\<close>

record submit_request =
  bsr_model :: string
  bsr_task_name :: string
  bsr_parent :: string
  bsr_provider :: string
  bsr_items :: "submit_item list"
  bsr_mime_type :: string
  bsr_aspect_ratio :: string
  bsr_image_size :: string
  bsr_metadata :: "(string \<times> string) list"

datatype request_error =
    InvalidModel | ProviderNotSupported | InvalidItems | TooManyOutputImages | PromptTooLong
  | TooManyReferenceImages | InvalidReferenceImage | ReferenceImagesTooLarge | DuplicateCustomIDInRequest

section \<open>Limits\<close>

record request_limits =
  rl_max_items :: int
  rl_max_output_per_job :: int
  rl_max_output_per_item :: int
  rl_max_prompt :: int
  rl_max_references :: int
  rl_max_reference_bytes :: int
  rl_mime_type :: string
  rl_image_size :: string

definition maxItems :: "request_limits \<Rightarrow> int" where
  "maxItems l = (if rl_max_items l > 0 then rl_max_items l else 200)"

definition maxOutputImagesPerJob :: "request_limits \<Rightarrow> int" where
  "maxOutputImagesPerJob l = (if rl_max_output_per_job l > 0 then rl_max_output_per_job l else 200)"

definition maxOutputImagesPerItem :: "request_limits \<Rightarrow> int" where
  "maxOutputImagesPerItem l = (if rl_max_output_per_item l > 0 then rl_max_output_per_item l else 4)"

definition maxPromptChars :: "request_limits \<Rightarrow> int" where
  "maxPromptChars l = (if rl_max_prompt l > 0 then rl_max_prompt l else 8000)"

definition maxReferenceImagesPerJob :: "request_limits \<Rightarrow> int" where
  "maxReferenceImagesPerJob l = (if rl_max_references l > 0 then rl_max_references l else 1000)"

definition maxReferenceInlineBytesPerJob :: "request_limits \<Rightarrow> int" where
  "maxReferenceInlineBytesPerJob l =
     (if rl_max_reference_bytes l > 0 then rl_max_reference_bytes l else 128 * 1024 * 1024)"

definition defaultResponseMimeType :: "request_limits \<Rightarrow> string" where
  "defaultResponseMimeType l = (if TrimSpace (rl_mime_type l) \<noteq> [] then TrimSpace (rl_mime_type l) else ''image/png'')"

definition defaultImageSize :: "request_limits \<Rightarrow> string" where
  "defaultImageSize l = (if TrimSpace (rl_image_size l) \<noteq> [] then TrimSpace (rl_image_size l) else ''1K'')"

section \<open>Strings\<close>

definition truncateBatchImageMessage :: "string \<Rightarrow> int \<Rightarrow> string" where
  "truncateBatchImageMessage message limit =
     (let m = TrimSpace message in if limit \<le> 0 \<or> int (length m) \<le> limit then m else take (nat limit) m)"

text \<open>\<open>%0*d\<close>\<close>

definition pad_zeros :: "nat \<Rightarrow> nat \<Rightarrow> string" where
  "pad_zeros width n = (let s = show_nat n in replicate (width - length s) CHR ''0'' @ s)"

fun sanitize_entries :: "(string \<times> string) list \<Rightarrow> (string \<times> string) list \<Rightarrow> (string \<times> string) list" where
  "sanitize_entries [] out = out"
| "sanitize_entries ((k, v) # rest) out =
     (let key = TrimSpace k in
      if key = [] \<or> length key > 64 then sanitize_entries rest out
      else let out' = AList.update key (take 256 (TrimSpace v)) out in
           if length out' \<ge> 20 then out' else sanitize_entries rest out')"

definition sanitizeBatchImageMetadata :: "(string \<times> string) list \<Rightarrow> (string \<times> string) list" where
  "sanitizeBatchImageMetadata m = sanitize_entries (sort_key fst m) []"

section \<open>Reference images\<close>

definition normalizeBatchImageReferenceMimeType :: "string \<Rightarrow> string" where
  "normalizeBatchImageReferenceMimeType v =
     (let m = ToLower (TrimSpace v) in
      if m = ''image/jpeg'' \<or> m = ''image/jpg'' then ''image/jpeg''
      else if m = ''image/png'' then ''image/png''
      else if m = ''image/webp'' then ''image/webp'' else [])"

definition maxBatchImageReferenceImagesForModel :: "string \<Rightarrow> int" where
  "maxBatchImageReferenceImagesForModel model =
     (let m = ToLower (TrimSpace model) in
      if Contains m ''pro-image'' then 14 else if Contains m ''flash-image'' then 3 else 0)"

definition maxBatchImageReferenceImageBytes :: int where
  "maxBatchImageReferenceImageBytes = 10 * 1024 * 1024"

definition normalize_reference :: "reference_input \<Rightarrow> request_error + reference_input" where
  "normalize_reference ref =
     (let r = ref\<lparr>ri_id := truncateBatchImageMessage (TrimSpace (ri_id ref)) 80,
                  ri_type := truncateBatchImageMessage (TrimSpace (ri_type ref)) 40,
                  ri_mime_type := normalizeBatchImageReferenceMimeType (ri_mime_type ref),
                  ri_file_uri := TrimSpace (ri_file_uri ref)\<rparr> in
      if ri_mime_type r = [] then Inl InvalidReferenceImage
      else if ri_data r = [] \<and> ri_file_uri r = [] then Inl InvalidReferenceImage
      else if ri_data r \<noteq> [] \<and> ri_file_uri r \<noteq> [] then Inl InvalidReferenceImage
      else if int (length (ri_data r)) > maxBatchImageReferenceImageBytes then Inl InvalidReferenceImage
      else if ri_file_uri r \<noteq> [] \<and> \<not> has_prefix (ri_file_uri r) ''gs://'' then Inl InvalidReferenceImage
      else Inr r)"

fun normalize_references :: "reference_input list \<Rightarrow> request_error + reference_input list" where
  "normalize_references [] = Inr []"
| "normalize_references (ref # refs) =
     (case normalize_reference ref of
        Inl e \<Rightarrow> Inl e
      | Inr r \<Rightarrow> (case normalize_references refs of Inl e \<Rightarrow> Inl e | Inr rs \<Rightarrow> Inr (r # rs)))"

definition inline_bytes :: "reference_input list \<Rightarrow> int" where
  "inline_bytes rs = (\<Sum>r \<leftarrow> rs. int (length (ri_data r)))"

text \<open>The item with its references, their number and the bytes that are sent with the request.\<close>

definition normalizeBatchImageReferenceInputs ::
  "string \<Rightarrow> submit_item \<Rightarrow> request_error + (submit_item \<times> int \<times> int)" where
  "normalizeBatchImageReferenceInputs model item =
     (if bsi_references item = [] then Inr (item, 0, 0)
      else let maxRefs = maxBatchImageReferenceImagesForModel model in
        if maxRefs \<le> 0 \<or> int (length (bsi_references item)) > maxRefs then Inl TooManyReferenceImages
        else case normalize_references (bsi_references item) of
          Inl e \<Rightarrow> Inl e
        | Inr rs \<Rightarrow> Inr (item\<lparr>bsi_references := rs\<rparr>, int (length rs), inline_bytes rs))"

section \<open>Items\<close>

definition batchImageRepeatSuffixWidth :: "int \<Rightarrow> nat" where
  "batchImageRepeatSuffixWidth count = (if count < 10 then 2 else length (Itoa count))"

record request_totals =
  rt_output :: int
  rt_references :: int
  rt_bytes :: int
  rt_items :: "submit_item list"

text \<open>The items of one entry, one for each image; \<open>acc\<close> are those before.\<close>

definition item_copy :: "submit_item \<Rightarrow> int \<Rightarrow> nat \<Rightarrow> submit_item" where
  "item_copy item count k =
     item\<lparr>bsi_output_count := 0,
          bsi_custom_id := (if count > 1
            then bsi_custom_id item @ ''_'' @ pad_zeros (batchImageRepeatSuffixWidth count) k
            else bsi_custom_id item)\<rparr>"

fun repeat_item :: "submit_item \<Rightarrow> int \<Rightarrow> nat list \<Rightarrow> submit_item list \<Rightarrow> request_error + submit_item list" where
  "repeat_item item count [] acc = Inr acc"
| "repeat_item item count (k # ks) acc =
     (let e = item_copy item count k in
      if bsi_custom_id e \<in> bsi_custom_id ` set acc then Inl DuplicateCustomIDInRequest
      else repeat_item item count ks (acc @ [e]))"

definition output_count :: "submit_item \<Rightarrow> int" where
  "output_count item = (if bsi_output_count item = 0 then 1 else bsi_output_count item)"

definition validate_item ::
  "request_limits \<Rightarrow> string \<Rightarrow> nat \<Rightarrow> submit_item \<Rightarrow> request_totals \<Rightarrow> request_error + request_totals" where
  "validate_item l model i item t =
     (let cid = TrimSpace (bsi_custom_id item);
          named = item\<lparr>bsi_custom_id := (if cid = [] then ''item_'' @ pad_zeros 6 (i + 1) else cid)\<rparr>;
          count = output_count item;
          outputs = rt_output t + count;
          prompted = named\<lparr>bsi_prompt := TrimSpace (bsi_prompt item)\<rparr> in
      if count < 1 \<or> count > maxOutputImagesPerItem l then Inl InvalidItems
      else if outputs > maxOutputImagesPerJob l then Inl TooManyOutputImages
      else if bsi_prompt prompted = [] then Inl InvalidItems
      else if int (length (bsi_prompt prompted)) > maxPromptChars l then Inl PromptTooLong
      else case normalizeBatchImageReferenceInputs model prompted of
        Inl e \<Rightarrow> Inl e
      | Inr (it, refs, bytes) \<Rightarrow>
          if rt_references t + refs * count > maxReferenceImagesPerJob l then Inl TooManyReferenceImages
          else if rt_bytes t + bytes * count > maxReferenceInlineBytesPerJob l then Inl ReferenceImagesTooLarge
          else case repeat_item it count [1..<Suc (nat count)] (rt_items t) of
            Inl e \<Rightarrow> Inl e
          | Inr items \<Rightarrow>
              Inr \<lparr>rt_output = outputs, rt_references = rt_references t + refs * count,
                   rt_bytes = rt_bytes t + bytes * count, rt_items = items\<rparr>)"

fun validate_items ::
  "request_limits \<Rightarrow> string \<Rightarrow> nat \<Rightarrow> submit_item list \<Rightarrow> request_totals \<Rightarrow> request_error + request_totals" where
  "validate_items l model i [] t = Inr t"
| "validate_items l model i (item # items) t =
     (case validate_item l model i item t of Inl e \<Rightarrow> Inl e | Inr t' \<Rightarrow> validate_items l model (i + 1) items t')"

text \<open>\<open>now\<close> is the time as the default name of a task.\<close>

definition normalize_request :: "request_limits \<Rightarrow> string \<Rightarrow> submit_request \<Rightarrow> submit_request" where
  "normalize_request l now rq =
     (let name = TrimSpace (bsr_task_name rq);
          name' = (if name = [] then now else name);
          mime = TrimSpace (bsr_mime_type rq);
          img = TrimSpace (bsr_image_size rq) in
      rq\<lparr>bsr_model := TrimSpace (bsr_model rq),
         bsr_task_name := (if length name' > 255 then truncateBatchImageMessage name' 255 else name'),
         bsr_parent := TrimSpace (bsr_parent rq),
         bsr_provider := TrimSpace (bsr_provider rq),
         bsr_mime_type := (if mime = [] then defaultResponseMimeType l else mime),
         bsr_aspect_ratio := TrimSpace (bsr_aspect_ratio rq),
         bsr_image_size := (if img = [] then defaultImageSize l else img)\<rparr>)"

definition validateSubmitRequest ::
  "request_limits \<Rightarrow> string \<Rightarrow> submit_request \<Rightarrow> request_error + submit_request" where
  "validateSubmitRequest l now rq =
     (let n = normalize_request l now rq in
      if bsr_model n = [] then Inl InvalidModel
      else if bsr_provider n \<noteq> [] \<and> \<not> IsSupportedBatchImageProvider (bsr_provider n) then Inl ProviderNotSupported
      else if bsr_items n = [] \<or> int (length (bsr_items n)) > maxItems l then Inl InvalidItems
      else if \<not> EqualFold (bsr_image_size n) ''1K'' then Inl InvalidItems
      else case validate_items l (bsr_model n) 0 (bsr_items n)
                  \<lparr>rt_output = 0, rt_references = 0, rt_bytes = 0, rt_items = []\<rparr> of
        Inl e \<Rightarrow> Inl e
      | Inr t \<Rightarrow> Inr (n\<lparr>bsr_image_size := ''1K'', bsr_metadata := sanitizeBatchImageMetadata (bsr_metadata n),
                        bsr_items := rt_items t\<rparr>))"

section \<open>What an accepted request has\<close>

lemma repeat_item_copies:
  "repeat_item item count ks acc = Inr r \<Longrightarrow> r = acc @ map (item_copy item count) ks"
  by (induction ks arbitrary: acc) (fastforce simp: Let_def split: if_splits)+

lemma repeat_item_distinct:
  "repeat_item item count ks acc = Inr r \<Longrightarrow> distinct (map bsi_custom_id acc) \<Longrightarrow> distinct (map bsi_custom_id r)"
proof (induction ks arbitrary: acc)
  case (Cons k ks)
  let ?e = "item_copy item count k"
  from Cons.prems(1) have new: "bsi_custom_id ?e \<notin> bsi_custom_id ` set acc"
    and r: "repeat_item item count ks (acc @ [?e]) = Inr r"
    by (simp_all add: Let_def split: if_splits)
  show ?case by (rule Cons.IH [OF r]) (use new Cons.prems(2) in simp)
qed simp

lemma item_copy_simps [simp]:
  "bsi_prompt (item_copy item count k) = bsi_prompt item"
  "bsi_references (item_copy item count k) = bsi_references item"
  "bsi_output_count (item_copy item count k) = 0"
  by (simp_all add: item_copy_def)

definition reference_ok :: "reference_input \<Rightarrow> bool" where
  "reference_ok r \<longleftrightarrow> ri_mime_type r \<in> {''image/jpeg'', ''image/png'', ''image/webp''} \<and> int (length (ri_data r)) \<le> maxBatchImageReferenceImageBytes \<and>
     (if ri_data r = [] then has_prefix (ri_file_uri r) ''gs://'' else ri_file_uri r = [])"

definition item_ok :: "request_limits \<Rightarrow> string \<Rightarrow> submit_item \<Rightarrow> bool" where
  "item_ok l model i \<longleftrightarrow>
     bsi_prompt i \<noteq> [] \<and> int (length (bsi_prompt i)) \<le> maxPromptChars l \<and> bsi_output_count i = 0 \<and>
     int (length (bsi_references i)) \<le> maxBatchImageReferenceImagesForModel model \<and>
     list_all reference_ok (bsi_references i)"

lemma mime_type_ok: "normalizeBatchImageReferenceMimeType v \<noteq> [] \<Longrightarrow>
    normalizeBatchImageReferenceMimeType v \<in> {''image/jpeg'', ''image/png'', ''image/webp''}"
  unfolding normalizeBatchImageReferenceMimeType_def Let_def by (simp split: if_splits)

lemma normalize_reference_ok: "normalize_reference ref = Inr r \<Longrightarrow> reference_ok r"
  using mime_type_ok [of "ri_mime_type ref"]
  by (auto simp: normalize_reference_def Let_def reference_ok_def has_prefix_def split: if_splits)

lemma normalize_references_ok: "normalize_references refs = Inr rs \<Longrightarrow> list_all reference_ok rs \<and> length rs = length refs"
  by (induction refs arbitrary: rs) (auto dest: normalize_reference_ok split: sum.splits)

lemma max_references_nonneg: "0 \<le> maxBatchImageReferenceImagesForModel model"
  by (simp add: maxBatchImageReferenceImagesForModel_def Let_def)

lemma normalize_inputs_Inr:
  assumes "normalizeBatchImageReferenceInputs model item = Inr (it, refs, bytes)"
  shows "bsi_prompt it = bsi_prompt item" "refs = int (length (bsi_references it))" "bytes = inline_bytes (bsi_references it)"
    "int (length (bsi_references it)) \<le> maxBatchImageReferenceImagesForModel model"
    "list_all reference_ok (bsi_references it)"
  using assms max_references_nonneg [of model]
  by (auto simp: normalizeBatchImageReferenceInputs_def Let_def inline_bytes_def dest!: normalize_references_ok
      split: if_splits sum.splits)

text \<open>The totals that the items have.\<close>

definition totals_ok :: "request_limits \<Rightarrow> string \<Rightarrow> request_totals \<Rightarrow> bool" where
  "totals_ok l model t \<longleftrightarrow>
     distinct (map bsi_custom_id (rt_items t)) \<and> list_all (item_ok l model) (rt_items t) \<and>
     rt_output t = int (length (rt_items t)) \<and>
     rt_references t = (\<Sum>i \<leftarrow> rt_items t. int (length (bsi_references i))) \<and>
     rt_bytes t = (\<Sum>i \<leftarrow> rt_items t. inline_bytes (bsi_references i))"

definition totals_within :: "request_limits \<Rightarrow> request_totals \<Rightarrow> bool" where
  "totals_within l t \<longleftrightarrow> rt_output t \<le> maxOutputImagesPerJob l \<and>
     rt_references t \<le> maxReferenceImagesPerJob l \<and> rt_bytes t \<le> maxReferenceInlineBytesPerJob l"

lemma validate_item_Inr:
  assumes ok: "validate_item l model i item t = Inr t'" and t: "totals_ok l model t"
  shows "totals_ok l model t' \<and> totals_within l t' \<and>
    map bsi_prompt (rt_items t') = map bsi_prompt (rt_items t) @ replicate (nat (output_count item)) (TrimSpace (bsi_prompt item))"
proof -
  let ?p = "item\<lparr>bsi_custom_id := (if TrimSpace (bsi_custom_id item) = [] then ''item_'' @ pad_zeros 6 (i + 1)
      else TrimSpace (bsi_custom_id item)), bsi_prompt := TrimSpace (bsi_prompt item)\<rparr>"
  let ?c = "output_count item"
  from ok obtain it refs bytes where n: "normalizeBatchImageReferenceInputs model ?p = Inr (it, refs, bytes)"
    and c: "1 \<le> ?c" "rt_output t + ?c \<le> maxOutputImagesPerJob l" "bsi_prompt ?p \<noteq> []"
      "int (length (bsi_prompt ?p)) \<le> maxPromptChars l"
      "rt_references t + refs * ?c \<le> maxReferenceImagesPerJob l" "rt_bytes t + bytes * ?c \<le> maxReferenceInlineBytesPerJob l"
    and r: "repeat_item it ?c [1..<Suc (nat ?c)] (rt_items t) = Inr (rt_items t')"
    and t': "rt_output t' = rt_output t + ?c" "rt_references t' = rt_references t + refs * ?c"
      "rt_bytes t' = rt_bytes t + bytes * ?c"
    unfolding validate_item_def Let_def by (auto split: if_splits sum.splits prod.splits)
  note it = normalize_inputs_Inr [OF n]
  note items = repeat_item_copies [OF r]
  have d: "distinct (map bsi_custom_id (rt_items t'))"
    by (rule repeat_item_distinct [OF r]) (use t in \<open>simp add: totals_ok_def\<close>)
  have copies: "map (\<lambda>x. f (item_copy it ?c x)) [1..<Suc (nat ?c)] = replicate (nat ?c) (f it)"
    if "\<And>k. f (item_copy it ?c k) = f it" for f :: "submit_item \<Rightarrow> 'b"
    using that by (simp add: map_replicate_const)
  have "item_ok l model (item_copy it ?c k)" for k
    using it c(3,4) by (simp add: item_ok_def)
  then have all: "list_all (item_ok l model) (rt_items t')" using t by (auto simp: items totals_ok_def list_all_iff)
  note sums = copies [of "\<lambda>i. int (length (bsi_references i))"] copies [of "\<lambda>i. inline_bytes (bsi_references i)"]
  have refs: "rt_references t' = (\<Sum>i \<leftarrow> rt_items t'. int (length (bsi_references i)))"
    and bytes: "rt_bytes t' = (\<Sum>i \<leftarrow> rt_items t'. inline_bytes (bsi_references i))"
    using t t' c(1) it(2,3) sums
    by (simp_all add: totals_ok_def items comp_def sum_list_replicate mult.commute del: upt_Suc)
  have out: "rt_output t' = int (length (rt_items t'))"
    using t t' c(1) by (simp add: totals_ok_def items del: upt_Suc)
  have prompts: "map bsi_prompt (rt_items t') =
      map bsi_prompt (rt_items t) @ replicate (nat ?c) (TrimSpace (bsi_prompt item))"
    using copies [of bsi_prompt] it(1) by (simp add: items comp_def del: upt_Suc)
  have "totals_ok l model t'" unfolding totals_ok_def using d all out refs bytes by blast
  moreover have "totals_within l t'" using c(2,5,6) t' by (simp add: totals_within_def)
  ultimately show ?thesis using prompts by blast
qed

lemma validate_items_Inr:
  assumes "validate_items l model i items t = Inr t'" "totals_ok l model t"
  shows "totals_ok l model t'" "items \<noteq> [] \<Longrightarrow> totals_within l t'"
    "map bsi_prompt (rt_items t') = map bsi_prompt (rt_items t) @
       concat (map (\<lambda>it. replicate (nat (output_count it)) (TrimSpace (bsi_prompt it))) items)"
proof -
  have "totals_ok l model t' \<and> (items \<noteq> [] \<longrightarrow> totals_within l t') \<and>
    map bsi_prompt (rt_items t') = map bsi_prompt (rt_items t) @
      concat (map (\<lambda>it. replicate (nat (output_count it)) (TrimSpace (bsi_prompt it))) items)"
    using assms
  proof (induction items arbitrary: i t)
    case (Cons item items)
    from Cons.prems(1) obtain s where s: "validate_item l model i item t = Inr s"
      "validate_items l model (i + 1) items s = Inr t'" by (auto split: sum.splits)
    note first = validate_item_Inr [OF s(1) Cons.prems(2)]
    with Cons.IH [OF s(2)] s(2) show ?case by (cases items) auto
  qed simp
  then show "totals_ok l model t'" "items \<noteq> [] \<Longrightarrow> totals_within l t'"
    "map bsi_prompt (rt_items t') = map bsi_prompt (rt_items t) @
       concat (map (\<lambda>it. replicate (nat (output_count it)) (TrimSpace (bsi_prompt it))) items)" by simp_all
qed

text \<open>Every entry asks for at least one image.\<close>

lemma validate_items_counts:
  "validate_items l model i items t = Inr t' \<Longrightarrow>
     list_all (\<lambda>it. 1 \<le> output_count it \<and> output_count it \<le> maxOutputImagesPerItem l) items"
  by (induction items arbitrary: i t) (auto simp: validate_item_def Let_def split: sum.splits if_splits prod.splits)


text \<open>
  The name of a task is cut after 255 bytes, also inside a character: what is then written to a text column is no
  longer UTF-8.
\<close>

lemma task_name_cut_inside_rune:
  "let name = concat (replicate 128 [CHR 0xC3, CHR 0xA4])
   in ValidString name \<and> \<not> ValidString (truncateBatchImageMessage name 255)"
  by code_simp

definition demo_limits :: request_limits where
  "demo_limits = \<lparr>rl_max_items = 0, rl_max_output_per_job = 3, rl_max_output_per_item = 0, rl_max_prompt = 0,
     rl_max_references = 0, rl_max_reference_bytes = 0, rl_mime_type = [], rl_image_size = []\<rparr>"

definition demo_request :: submit_request where
  "demo_request = \<lparr>bsr_model = ''flash-image'', bsr_task_name = ''t'', bsr_parent = [], bsr_provider = [],
     bsr_items =
       [\<lparr>bsi_custom_id = [], bsi_prompt = ''a cat'', bsi_output_count = 2,
          bsi_references = [\<lparr>ri_id = ''r'', ri_type = [], ri_mime_type = ''image/PNG'', ri_data = ''x'', ri_file_uri = []\<rparr>]\<rparr>,
        \<lparr>bsi_custom_id = ''b'', bsi_prompt = ''a dog'', bsi_output_count = 0, bsi_references = []\<rparr>],
     bsr_mime_type = [], bsr_aspect_ratio = [], bsr_image_size = [], bsr_metadata = []\<rparr>"

lemma demo_request_accepted:
  "map_option (map bsi_custom_id \<circ> bsr_items)
     (case validateSubmitRequest demo_limits ''n'' demo_request of Inl e \<Rightarrow> None | Inr v \<Rightarrow> Some v) =
   Some [''item_000001_01'', ''item_000001_02'', ''b'']"
  by code_simp

lemma demo_prompts_of:
  "concat (map (\<lambda>it. replicate (nat (output_count it)) (TrimSpace (bsi_prompt it))) (bsr_items demo_request)) =
     [''a cat'', ''a cat'', ''a dog'']"
  by code_simp


end
