(* ===== verification/Batch_Cleanup_Traps.thy ===== *)
theory Batch_Cleanup_Traps
  imports Batch_History
begin

text \<open>Two ways in which the removal of files goes wrong.\<close>

section \<open>A number that is taken for an answer\<close>

text \<open>
  An error counts as \<open>not found\<close> if its text has the digits 404 anywhere, also as part of a name: the files
  are then marked as deleted although they are still there.
\<close>

lemma any_404_counts_as_gone:
  "cleanupErrorIsNotFound
     \<lparr>pe_reason = ''PERMISSION_DENIED'', pe_message = ''permission denied on files/a404b'', pe_unsafe = False\<rparr>"
  by code_simp

section \<open>Jobs that stand in the way\<close>

text \<open>
  The list of a round has the first jobs that are due, in the order of their ids, and a failure does not move
  a job back. A round for one job whose first job fails each time:
\<close>

definition blocking :: "cleanup_view \<Rightarrow> int \<Rightarrow> batch_job \<Rightarrow> batch_job \<Rightarrow> bool" where
  "blocking cl t i j \<longleftrightarrow>
     bj_finished_at i = Some t \<and> bj_input_deleted_at i = None \<and> bj_input_ref i \<noteq> None \<and>
     bj_status i = JobFailed \<and> \<not> cl_known cl (bj_provider i) \<and> bj_batch_id i \<noteq> bj_batch_id j \<and> bj_status j = JobFailed"

definition one_at_a_time :: cleanup_config where
  "one_at_a_time = \<lparr>cc_input_hours = 0, cc_batch_size = 1\<rparr>"

lemma append_quiet:
  "schedule w = [] \<Longrightarrow> run_state (AppendBatchImageEvent b e) w = (Inr (), w\<lparr>db := append_event b e (db w)\<rparr>)"
  by (simp add: AppendBatchImageEvent_def db_step_def run_call_quiet)

lemma failure_quiet:
  "schedule w = [] \<Longrightarrow> run_state (RecordBatchImageCleanupFailure b code) w =
     (Inr (), w\<lparr>db := append_event b ''output_cleanup_failed'' (snd (update_job b (\<lambda>_. True)
       (\<lambda>i. i\<lparr>bj_last_error_code := Some code, bj_retry_count := bj_retry_count i + 1, bj_updated_at := clock w\<rparr>)
       (db w)))\<rparr>)"
  by (simp add: RecordBatchImageCleanupFailure_def db_step_def run_call_quiet append_quiet)

lemma update_head:
  "jobs d = [i, j] \<Longrightarrow> bj_batch_id i \<noteq> bj_batch_id j \<Longrightarrow>
     jobs (snd (update_job (bj_batch_id i) (\<lambda>_. True) f d)) = [f i, j]"
  by (simp add: update_job_def job_of_def)

lemma scan_columns:
  "bj_batch_id (scanBatchImageJob env i) = bj_batch_id i" "bj_provider (scanBatchImageJob env i) = bj_provider i"
  "bj_input_deleted_at (scanBatchImageJob env i) = bj_input_deleted_at i"
  "bj_status (scanBatchImageJob env i) = bj_status i"
  by (simp_all add: scanBatchImageJob_def)

lemma append_event_rows: "jobs (append_event b e d) = jobs d"
  by (simp add: append_event_def)

lemma blocked_job:
  assumes "schedule w = []" "jobs (db w) = [i, j]" "blocking cl t i j"
  shows "\<exists>w' i'. run_state (cleanupJob cl (scanBatchImageJob env i) CleanupTargetInput) w =
      (Inl ProviderCleanupFailed, w') \<and>
    schedule w' = [] \<and> jobs (db w') = [i', j] \<and> blocking cl t i' j"
proof -
  have r: "callProviderCleanup cl (scanBatchImageJob env i) CleanupTargetInput =
      Some (provider_refusal ''BATCH_IMAGE_UNSUPPORTED_PROVIDER'')"
    using assms(3) by (simp add: callProviderCleanup_def scan_columns blocking_def)
  let ?i = "i\<lparr>bj_last_error_code := Some (cleanupFailureCode (provider_refusal ''BATCH_IMAGE_UNSUPPORTED_PROVIDER'')),
      bj_retry_count := bj_retry_count i + 1, bj_updated_at := clock w\<rparr>"
  have k: "blocking cl t ?i j" "bj_batch_id i \<noteq> bj_batch_id j" using assms(3) by (simp_all add: blocking_def)
  have eq: "cleanupJob cl (scanBatchImageJob env i) CleanupTargetInput =
      cleanup_files cl (scanBatchImageJob env i) CleanupTargetInput"
    using assms(3) by (simp add: cleanupJob.simps scan_columns blocking_def)
  obtain w' where w': "run_state (cleanup_files cl (scanBatchImageJob env i) CleanupTargetInput) w =
      (Inl ProviderCleanupFailed, w')" "schedule w' = []" "jobs (db w') = [?i, j]"
    using assms(1,2) k(2)
    by (simp add: cleanup_files_def r scan_columns append_quiet failure_quiet append_event_rows update_head)
      (simp add: provider_refusal_def)
  show ?thesis unfolding eq using w' k(1) by blast
qed

lemma blocked_round:
  assumes "schedule w = []" "jobs (db w) = [i, j]" "blocking cl t i j" "t \<le> now - 24 * (3600 * 10 ^ 6)"
  shows "\<exists>w' i'. run_state (cleanup_RunOnce env cl one_at_a_time now) w =
      ((\<lparr>cr_input_cleaned = 0, cr_output_cleaned = 0, cr_failures = 1\<rparr>, None), w') \<and>
    schedule w' = [] \<and> jobs (db w') = [i', j] \<and> blocking cl t i' j"
proof -
  let ?c = "now - 24 * (3600 * 10 ^ 6)"
  obtain w' i' where w': "run_state (cleanupJob cl (scanBatchImageJob env i) CleanupTargetInput) w = (Inl ProviderCleanupFailed, w')"
    "schedule w' = []" "jobs (db w') = [i', j]" "blocking cl t i' j"
    using blocked_job [OF assms(1-3)] by blast
  have "input_due ?c i" using assms(3,4) by (simp add: input_due_def ended_at_def blocking_def)
  then have first: "run_state (ListBatchImageJobsDueForInputCleanup env ?c 1) w = (Inr [scanBatchImageJob env i], w)"
    using assms(1,2)
    by (simp add: ListBatchImageJobsDueForInputCleanup_def db_step_def run_call_quiet list_limit_def)
  have "\<not> output_due now i'" "\<not> output_due now j" using w'(4) by (simp_all add: output_due_def blocking_def)
  then have second: "run_state (ListBatchImageJobsDueForOutputCleanup env now 1) w' = (Inr [], w')"
    using w'(2,3) by (simp add: ListBatchImageJobsDueForOutputCleanup_def db_step_def run_call_quiet)
  have c: "nat (cleanupBatchSize one_at_a_time) = 1" "now - inputRetentionAfterTerminal one_at_a_time = ?c"
    by (simp_all add: one_at_a_time_def inputRetentionAfterTerminal_def cleanupBatchSize_def)
  show ?thesis
    unfolding cleanup_RunOnce_def c using first w' second by simp
qed

text \<open>However many rounds there are, the second job is never looked at.\<close>

fun cleanup_rounds ::
  "batch_env \<Rightarrow> cleanup_view \<Rightarrow> int list \<Rightarrow> (('x batch_db_scheme, 'z) shared_scheme, unit) state" where
  "cleanup_rounds env cl [] = State_Monad.return ()"
| "cleanup_rounds env cl (now # ts) = do { _ \<leftarrow> cleanup_RunOnce env cl one_at_a_time now; cleanup_rounds env cl ts }"

lemma failing_cleanup_starves:
  assumes "schedule w = []" "jobs (db w) = [i, j]" "blocking cl t i j" "\<forall>now \<in> set ts. t \<le> now - 24 * (3600 * 10 ^ 6)"
  shows "\<exists>i'. jobs (db (snd (run_state (cleanup_rounds env cl ts) w))) = [i', j]"
  using assms
proof (induction ts arbitrary: w i)
  case (Cons now ts)
  have "t \<le> now - 24 * (3600 * 10 ^ 6)" using Cons.prems(4) by simp
  from blocked_round [OF Cons.prems(1-3) this] obtain w' i' where w':
    "run_state (cleanup_RunOnce env cl one_at_a_time now) w =
      ((\<lparr>cr_input_cleaned = 0, cr_output_cleaned = 0, cr_failures = 1\<rparr>, None), w')"
    "schedule w' = []" "jobs (db w') = [i', j]" "blocking cl t i' j" by blast
  have "\<exists>i'. jobs (db (snd (run_state (cleanup_rounds env cl ts) w'))) = [i', j]"
    by (rule Cons.IH [OF w'(2-4)]) (use Cons.prems(4) in simp)
  with w'(1) show ?case by simp
qed simp

end
