(* ===== verification/Spec2Isabelle.thy ===== *)
theory Spec2Isabelle
  imports Idempotency_Interleaving Failover Payment_Refund_Outcome Compat_Roundtrip Concurrency_Service
    Billing_Answers Billing_Traps Batch_Progress Batch_Reconciliation Batch_Queue_Lock
    Batch_Request Batch_Cleanup_Traps
begin

text \<open>
  A model of the backend of sub2ws (\<open>src/backend\<close>, Go), a gateway that sells access to the accounts of
  upstream AI providers, and proofs about it. Seven parts are modelled; paths are relative to
  \<open>src/backend/internal\<close>.

  \<^bold>\<open>Idempotent requests.\<close> Write requests carry a key; the coordinator (\<open>service/idempotency.go\<close>) runs
  each at most once and replays its response, over a table reached through
  \<open>repository/idempotency_repo.go\<close>.

  \<^item> \<open>Idempotency_Store\<close>: the table as a list of rows with its key sequence, one definition per SQL
    statement (\<open>insert_processing\<close>, \<open>update_reclaim\<close>, \<dots>), one per repository method (\<open>pg_\<close>), the cleanup
    round. The locale \<open>idem_store\<close> is the interface of a repository; its interpretation \<open>pg\<close> proves the
    laws for the PostgreSQL one.
  \<^item> \<open>Idempotency\<close>: \<open>Execute\<close> with its helpers, proved against the interface; once per key, replay,
    back-off, and the response that is too long to be replayed.
  \<^item> \<open>Idempotency_Interleaving\<close>: any number of requests interleaved between their statements, with
    cleanup rounds and lost replies, as a step relation; no two requests run under one lock.

  \<^bold>\<open>Failover.\<close> \<open>Failover\<close> models \<open>handler/failover_loop.go\<close> and the loop of the gateway handler that
  drives it: which account is tried next, how often and after which delay. The loop is a function on the
  list of what happens in each turn; that it takes a bounded number of turns is a theorem, so no fuel
  is used.

  \<^bold>\<open>Concurrency limits.\<close> Accounts, users and keys allow a number of requests at a time
  (\<open>repository/concurrency_cache.go\<close>).

  \<^item> \<open>Redis_Store\<close>: the commands of Redis on sorted sets, counters and keys with a time to live.
    \<open>Concurrency_Cache\<close>: one definition per Lua script, which is one step of the server, and per Go
    function, which is a program over \<open>Shared_Database\<close>.
  \<^item> \<open>Concurrency_Limit\<close>: the invariant of the sets and counters and the guarantee \<open>conc_guar\<close>, for which
    the locale \<open>guarantee\<close> is interpreted; \<open>Concurrency_Safety\<close>: every operation respects it;
    \<open>Concurrency_Service\<close>: limits hold over all histories, granted slots are kept, abandoned ones expire.

  \<^bold>\<open>Payments.\<close> Orders are paid through providers, fulfilled, cancelled, expired and refunded
  (\<open>service/payment_*.go\<close>).

  \<^item> \<open>Shared_Database\<close>: a database that other requests use between two statements of a program and that
    may lose a statement or its reply. Programs are state monad computations over such a world; the
    locale \<open>rely_guarantee\<close> is the logic for them: what others may do to the tables, what the program may
    do, assertions that the first keeps; \<open>guarantee\<close> is its case where both are the same relation. A
    transaction is one step.
  \<^item> \<open>Payment_Types\<close>, \<open>Payment_Store\<close>: statuses, orders, currencies, provider snapshots; the tables and
    the conditional updates on them.
  \<^item> \<open>Payment_Fulfillment\<close>, \<open>Payment_Lifecycle\<close>, \<open>Payment_Refund\<close>: notification to fulfilment, the jobs,
    the refunds, one definition per Go function.
  \<^item> \<open>Payment_Contract\<close>: what the service promises about its tables (\<open>pay_inv\<close>, \<open>pay_guar\<close>);
    \<open>Payment_Safety\<close>, \<open>Payment_Refund_Safety\<close> prove it of every operation, \<open>Payment_Service\<close> of whole
    histories. \<open>Payment_Progress\<close> and \<open>Payment_Refund_Outcome\<close> say what happens when nothing interferes,
    and show runs in which the refund flow goes wrong.

  \<^bold>\<open>Usage ledger.\<close> Every request is billed once, to the balance of its user, the quotas of its key and of
  the upstream account, and to a subscription (\<open>service/usage_billing.go\<close>,
  \<open>repository/usage_billing_repo.go\<close>); the price of a batch of images is held, then captured or released.

  \<^item> \<open>Money\<close>: rounding to the decimals of a column. \<open>Billing_Types\<close>, \<open>Billing_Store\<close>: commands and
    fingerprints; tables and statements, each a function of the tables that may fail. \<open>Billing_Repository\<close>:
    the operations, one transaction each, and the archive of old keys; the fuel of its loop counts rounds.
  \<^item> \<open>Billing_Ledger\<close>: what a transaction under a key does; the locale \<open>tx_guarantee\<close> carries a relation
    from statements to transactions and operations, and is interpreted for the claims
    (\<open>apart_from_users\<close>) and for well-formed tables (\<open>bill_typed\<close>). \<open>Billing_Service\<close>: whole histories;
    \<open>Billing_Answers\<close>: what the answers say; \<open>Billing_Holds\<close>: open holds and the frozen balance;
    \<open>Billing_Traps\<close>: what happens to holds that are settled out of order; \<open>Billing_Demo\<close>: a ledger for
    the witnesses.

  \<^bold>\<open>Batch image jobs.\<close> A user submits a batch of prompts; its price is held, a worker follows the job at
  the provider, indexes the output, settles the price of the images that succeeded and gives the rest back
  (\<open>service/batch_image_*.go\<close>, \<open>repository/batch_image_repo.go\<close>).

  \<^item> \<open>Batch_Types\<close>: statuses and their steps, jobs, the snapshot of the prices, the commands on the held
    balance. \<open>Batch_Store\<close>, \<open>Batch_Items\<close>: the tables, which extend those of the usage ledger, and one
    definition per repository method.
  \<^item> \<open>Batch_Index\<close>: the output of a provider, line by line. \<open>Batch_Settlement\<close>, \<open>Batch_Processor\<close>,
    \<open>Batch_Public\<close>: settlement, worker and recovery, requests of users, one definition per Go function or
    per stage of a long one. The page loop over the items takes a number of rounds as fuel
    (\<open>be_page_rounds\<close>); a list of more pages counts as one that cannot be read.
  \<^item> \<open>Batch_Steps\<close>: the steps of a job and the relation \<open>batch_steps\<close>, for which \<open>rely_guarantee\<close> is
    interpreted; a submission relies on nobody else submitting its job. \<open>Batch_Safety\<close>: every operation
    of the repository; \<open>Batch_Life\<close>, \<open>Batch_History\<close>: the services and whole histories;
    \<open>Batch_Recovery\<close>: the recovery refunds only what never reached a provider; \<open>Batch_Progress\<close>: a
    settlement ends within five rounds, on the open holds of \<open>Billing_Holds\<close>.
  \<^item> \<open>Batch_Cleanup\<close>: the removal of files from the providers, as part of the histories above;
    \<open>Batch_Cleanup_Traps\<close>: how it can come to a halt.
  \<^item> \<open>Batch_Request\<close>: the validation of a submission; what is accepted has the form that the later stages
    rely on.
  \<^item> \<open>Batch_Queue\<close>: the queue of the jobs in Redis and one turn of the worker that takes jobs from it
    (\<open>repository/batch_image_queue.go\<close>, \<open>service/batch_image_worker.go\<close>). \<open>Batch_Queue_Safety\<close>: the locale
    \<open>queue_promise\<close> carries a relation from scripts to operations and histories; it is interpreted for the
    invariant that no queued job is lost and, in \<open>Batch_Queue_Lock\<close>, for the lock of a job, beside the way
    an abandoned job comes back.
  \<^item> \<open>Batch_Reconciliation\<close>: what indexing makes of an output. \<open>Batch_Prices\<close>: rounding in columns and
    in float64 does not make a job dearer than its hold, up to 198 images. \<open>Batch_Demo\<close>: databases for
    the witnesses.

  \<^bold>\<open>Format conversion.\<close> The gateway answers in the format of the client what an upstream said in
  another (\<open>pkg/apicompat\<close>).

  \<^item> \<open>Compat_Types\<close>: both wire formats as records. \<open>Responses_To_Anthropic\<close>, \<open>Anthropic_To_Responses\<close>:
    the conversion of whole answers and the stream converters, one definition per handler, each from a
    state to its events and the next state.
  \<^item> \<open>Event_Converter\<close>: protocols as automata, and the locale \<open>simulation\<close> that lifts what holds of one
    event to streams. It is interpreted for the upstream that keeps its protocol (\<open>Compat_Protocol\<close>) and,
    for both converters, for an upstream that may send anything (\<open>Compat_Frames\<close>).
  \<^item> \<open>Compat_Equivalence\<close>, \<open>Compat_Roundtrip\<close>: streaming agrees with not streaming; there and back.

  \<^bold>\<open>Correspondence.\<close> Definitions have the names of the Go functions. Time is an integer of nanoseconds
  (of microseconds where it is compared with columns of the ledger and of batch jobs),
  money a rational, with the rounding of Go's float64 and decimal operations a parameter; strings are
  bytes. An error is the left side of a sum, early returns are branches. Code outside the repository is
  a parameter: JSON, SHA-256, random identifiers, the payment gateways. Subscriptions, groups and
  affiliate rebates belong to services that are not modelled yet and are parameters of the payment
  service, with the contract that they leave its tables alone.

  \<^bold>\<open>Not modelled.\<close> Logging, metrics, caches that only save work, HTTP parsing and rendering, the
  administration of accounts, users and settings, the scheduling of accounts, the other conversions of
  \<open>pkg/apicompat\<close>, generated database code and the frontend. Of batch images: the clients of the
  providers, the delays between rounds, downloads, the lists for users, the
  choice of an account and the best-effort usage log.
\<close>

end
